(* ===== verification/Prelude.thy ===== *)
theory Prelude
  imports Main "HOL-Library.Sublist"
begin

text \<open>
  The vocabulary shared by every component: Go strings as byte lists, the functions of the
  standard packages \<^verbatim>\<open>strings\<close> and \<^verbatim>\<open>unicode\<close> that the sources call, time values, and the
  two helpers by which the sources compare text without regard to case.

  A Go string is a sequence of bytes, and so is a HOL \<^typ>\<open>string\<close>.  \<^verbatim>\<open>strings.TrimSpace\<close> is
  modelled exactly: it removes Unicode white space, which in UTF-8 is the six ASCII blanks
  and a fixed set of two- and three-byte sequences.  \<^verbatim>\<open>strings.ToLower\<close> and
  \<^verbatim>\<open>strings.EqualFold\<close> are modelled by the ASCII case map, so they are exact on text whose
  non-ASCII letters have no other case (addresses, host names, keywords, identifiers).
\<close>

named_theorems str_simps \<open>simplification rules for the string functions of Go\<close>

declare Let_def [simp]

type_synonym gotime = int
type_synonym duration = int

section \<open>Durations (nanoseconds)\<close>

abbreviation time_Second :: duration where "time_Second \<equiv> 1000000000"
abbreviation time_Minute :: duration where "time_Minute \<equiv> 60000000000"
abbreviation time_Hour :: duration where "time_Hour \<equiv> 3600000000000"

section \<open>White space and trimming\<close>

definition space_runes :: "string list" where
  "space_runes =
     [[CHR 0x09], [CHR 0x0A], [CHR 0x0B], [CHR 0x0C], [CHR 0x0D], [CHR 0x20],
      [CHR 0xC2, CHR 0x85], [CHR 0xC2, CHR 0xA0], [CHR 0xE1, CHR 0x9A, CHR 0x80],
      [CHR 0xE2, CHR 0x80, CHR 0x80], [CHR 0xE2, CHR 0x80, CHR 0x81],
      [CHR 0xE2, CHR 0x80, CHR 0x82], [CHR 0xE2, CHR 0x80, CHR 0x83],
      [CHR 0xE2, CHR 0x80, CHR 0x84], [CHR 0xE2, CHR 0x80, CHR 0x85],
      [CHR 0xE2, CHR 0x80, CHR 0x86], [CHR 0xE2, CHR 0x80, CHR 0x87],
      [CHR 0xE2, CHR 0x80, CHR 0x88], [CHR 0xE2, CHR 0x80, CHR 0x89],
      [CHR 0xE2, CHR 0x80, CHR 0x8A], [CHR 0xE2, CHR 0x80, CHR 0xA8],
      [CHR 0xE2, CHR 0x80, CHR 0xA9], [CHR 0xE2, CHR 0x80, CHR 0xAF],
      [CHR 0xE2, CHR 0x81, CHR 0x9F], [CHR 0xE3, CHR 0x80, CHR 0x80]]"

text \<open>\<open>strip_runes n ps s\<close> removes up to \<open>n\<close> leading runes of \<open>ps\<close>; the length of the string is
  always enough, because every rune has at least one byte.\<close>

fun strip_runes :: "nat \<Rightarrow> string list \<Rightarrow> string \<Rightarrow> string" where
  "strip_runes 0 ps s = s"
| "strip_runes (Suc n) ps s =
     (case find (\<lambda>p. prefix p s) ps of
        None \<Rightarrow> s
      | Some p \<Rightarrow> strip_runes n ps (drop (length p) s))"

definition trim_left :: "string \<Rightarrow> string" where
  "trim_left s = strip_runes (length s) space_runes s"

definition trim_right :: "string \<Rightarrow> string" where
  "trim_right s = rev (strip_runes (length s) (map rev space_runes) (rev s))"

definition TrimSpace :: "string \<Rightarrow> string" where
  "TrimSpace s = trim_right (trim_left s)"

definition no_rune :: "string list \<Rightarrow> string \<Rightarrow> bool" where
  "no_rune ps s \<longleftrightarrow> (\<forall>p \<in> set ps. \<not> prefix p s)"

lemma find_prefix_Some:
  "find (\<lambda>p. prefix p s) ps = Some p \<Longrightarrow> p \<in> set ps \<and> prefix p s"
  by (induction ps) (auto split: if_splits)

lemma find_prefix_None: "find (\<lambda>p. prefix p s) ps = None \<longleftrightarrow> no_rune ps s"
  by (induction ps) (auto simp: no_rune_def)

lemma strip_runes_suffix: "suffix (strip_runes n ps s) s"
proof (induction n arbitrary: s)
  case (Suc n)
  show ?case
  proof (cases "find (\<lambda>p. prefix p s) ps")
    case (Some p)
    have "suffix (strip_runes n ps (drop (length p) s)) (drop (length p) s)" by (rule Suc.IH)
    also have "suffix (drop (length p) s) s" by (rule suffix_drop)
    finally show ?thesis using Some by simp
  qed simp
qed simp

lemma strip_runes_no_rune:
  assumes "[] \<notin> set ps" "length s \<le> n"
  shows "no_rune ps (strip_runes n ps s)"
  using assms
proof (induction n arbitrary: s)
  case 0
  then have "prefix p [] \<Longrightarrow> p \<in> set ps \<Longrightarrow> False" for p by (cases p) auto
  then show ?case using 0 by (auto simp: no_rune_def)
next
  case (Suc n)
  show ?case
  proof (cases "find (\<lambda>p. prefix p s) ps")
    case None
    then have "no_rune ps s" by (simp add: find_prefix_None)
    with None show ?thesis by simp
  next
    case (Some p)
    then have p: "p \<in> set ps" "prefix p s" using find_prefix_Some by auto
    then have "p \<noteq> []" "s \<noteq> []" using Suc.prems(1) by auto
    then have "length (drop (length p) s) \<le> n"
      using Suc.prems(2) by (cases p) auto
    then show ?thesis using Some Suc.IH Suc.prems(1) by simp
  qed
qed

lemma strip_runes_id: "no_rune ps s \<Longrightarrow> strip_runes n ps s = s"
  by (cases n) (simp_all add: find_prefix_None [THEN iffD2])

lemma space_runes_nonempty: "[] \<notin> set space_runes" "[] \<notin> set (map rev space_runes)"
  by (simp_all add: space_runes_def)

lemma no_rune_prefix: "no_rune ps s \<Longrightarrow> prefix t s \<Longrightarrow> no_rune ps t"
  by (meson no_rune_def prefix_order.trans)

lemma trim_right_prefix: "prefix (trim_right s) s"
  using strip_runes_suffix [of "length s" "map rev space_runes" "rev s"]
  by (simp add: trim_right_def suffix_to_prefix)

lemma TrimSpace_no_left: "no_rune space_runes (TrimSpace s)"
  unfolding TrimSpace_def
  using strip_runes_no_rune [OF space_runes_nonempty(1) order_refl, of s]
    no_rune_prefix trim_right_prefix by (fastforce simp: trim_left_def)

lemma TrimSpace_no_right: "no_rune (map rev space_runes) (rev (TrimSpace s))"
  unfolding TrimSpace_def
  using strip_runes_no_rune [OF space_runes_nonempty(2), of "rev (trim_left s)" "length (trim_left s)"]
  by (simp add: trim_right_def)

lemma TrimSpace_id:
  "no_rune space_runes s \<Longrightarrow> no_rune (map rev space_runes) (rev s) \<Longrightarrow> TrimSpace s = s"
  by (simp add: TrimSpace_def trim_left_def trim_right_def strip_runes_id)

lemma TrimSpace_idem [simp, str_simps]: "TrimSpace (TrimSpace s) = TrimSpace s"
  by (simp add: TrimSpace_id TrimSpace_no_left TrimSpace_no_right)

lemma TrimSpace_Nil [simp, str_simps]: "TrimSpace [] = []"
  by (simp add: TrimSpace_def trim_left_def trim_right_def)

text \<open>Text made of bytes that occur in no white-space rune is not changed by trimming.\<close>

definition space_bytes :: "char set" where
  "space_bytes = (\<Union>p \<in> set space_runes. set p)"

lemma TrimSpace_plain:
  assumes "set s \<inter> space_bytes = {}"
  shows "TrimSpace s = s"
proof -
  have *: "\<not> prefix p t" if "p \<noteq> []" "set p \<subseteq> space_bytes" "set t = set s" for p t
  proof
    assume "prefix p t"
    then have "set p \<subseteq> set s" using that(3) set_mono_prefix by blast
    then show False using that(1,2) assms by (cases p) auto
  qed
  have sub: "set p \<subseteq> space_bytes" if "p \<in> set space_runes" for p
    using that by (auto simp: space_bytes_def)
  have ne: "p \<noteq> []" if "p \<in> set space_runes" for p
    using that space_runes_nonempty(1) by metis
  have "no_rune space_runes s"
    using * sub ne by (simp add: no_rune_def)
  moreover have "no_rune (map rev space_runes) (rev s)"
    using * sub ne by (simp add: no_rune_def)
  ultimately show ?thesis by (rule TrimSpace_id)
qed

section \<open>Case mapping\<close>

definition ascii_lower :: "char \<Rightarrow> char" where
  "ascii_lower c = (let n = of_char c :: nat in if 65 \<le> n \<and> n \<le> 90 then char_of (n + 32) else c)"

definition ascii_upper :: "char \<Rightarrow> char" where
  "ascii_upper c = (let n = of_char c :: nat in if 97 \<le> n \<and> n \<le> 122 then char_of (n - 32) else c)"

definition ToLower :: "string \<Rightarrow> string" where "ToLower s = map ascii_lower s"

definition ToUpper :: "string \<Rightarrow> string" where "ToUpper s = map ascii_upper s"

definition EqualFold :: "string \<Rightarrow> string \<Rightarrow> bool" where
  "EqualFold s t \<longleftrightarrow> ToLower s = ToLower t"

lemma ascii_lower_idem [simp]: "ascii_lower (ascii_lower c) = ascii_lower c"
  by (simp add: ascii_lower_def Let_def)

lemma ToLower_idem [simp, str_simps]: "ToLower (ToLower s) = ToLower s"
  by (simp add: ToLower_def)

lemma ToLower_Nil [simp, str_simps]: "ToLower [] = []"
  by (simp add: ToLower_def)

lemma ToLower_eq_Nil [simp, str_simps]: "ToLower s = [] \<longleftrightarrow> s = []"
  by (simp add: ToLower_def)

lemma EqualFold_refl [simp, str_simps]: "EqualFold s s"
  by (simp add: EqualFold_def)

lemma EqualFold_sym: "EqualFold s t \<Longrightarrow> EqualFold t s"
  by (simp add: EqualFold_def)

lemma EqualFold_ToLower [simp, str_simps]: "EqualFold (ToLower s) t = EqualFold s t"
  by (simp add: EqualFold_def)

text \<open>The combination \<^verbatim>\<open>strings.ToLower(strings.TrimSpace(x))\<close> recurs in every component.\<close>

abbreviation lower_trim :: "string \<Rightarrow> string" where
  "lower_trim s \<equiv> ToLower (TrimSpace s)"

section \<open>Prefixes, substrings, splitting\<close>

definition HasPrefix :: "string \<Rightarrow> string \<Rightarrow> bool" where "HasPrefix s p \<longleftrightarrow> prefix p s"

definition HasSuffix :: "string \<Rightarrow> string \<Rightarrow> bool" where "HasSuffix s p \<longleftrightarrow> suffix p s"

definition TrimPrefix :: "string \<Rightarrow> string \<Rightarrow> string" where
  "TrimPrefix s p = (if prefix p s then drop (length p) s else s)"

definition TrimSuffix :: "string \<Rightarrow> string \<Rightarrow> string" where
  "TrimSuffix s p = (if suffix p s then take (length s - length p) s else s)"

definition Contains :: "string \<Rightarrow> string \<Rightarrow> bool" where "Contains s sub \<longleftrightarrow> sublist sub s"

text \<open>\<^verbatim>\<open>strings.SplitN(s, sep, 2)\<close> for a one-byte separator: \<^const>\<open>None\<close> when there is no separator
  (a single part), otherwise the text before and after its first occurrence.\<close>

fun split2 :: "char \<Rightarrow> string \<Rightarrow> (string \<times> string) option" where
  "split2 c [] = None"
| "split2 c (x # xs) =
     (if x = c then Some ([], xs)
      else map_option (\<lambda>(a, b). (x # a, b)) (split2 c xs))"

text \<open>\<^verbatim>\<open>strings.Split(s, sep)\<close> for a one-byte separator.\<close>

fun Split :: "char \<Rightarrow> string \<Rightarrow> string list" where
  "Split c [] = [[]]"
| "Split c (x # xs) =
     (if x = c then [] # Split c xs
      else (case Split c xs of [] \<Rightarrow> [[x]] | p # ps \<Rightarrow> (x # p) # ps))"

fun Join :: "string list \<Rightarrow> string \<Rightarrow> string" where
  "Join [] sep = []"
| "Join [x] sep = x"
| "Join (x # y # xs) sep = x @ sep @ Join (y # xs) sep"

lemma Split_nonempty [simp, str_simps]: "Split c s \<noteq> []"
  by (induction s) (auto split: list.splits)

lemma Split_notin: "c \<notin> set s \<Longrightarrow> Split c s = [s]"
  by (induction s) auto

lemma Split_append: "c \<notin> set a \<Longrightarrow> Split c (a @ c # b) = a # Split c b"
  by (induction a) auto

lemma split2_append [str_simps]: "c \<notin> set a \<Longrightarrow> split2 c (a @ c # b) = Some (a, b)"
  by (induction a) auto

lemma split2_Some: "split2 c s = Some (a, b) \<Longrightarrow> s = a @ c # b \<and> c \<notin> set a"
  by (induction s arbitrary: a b) (auto split: if_splits)

lemma split2_None: "split2 c s = None \<longleftrightarrow> c \<notin> set s"
  by (induction s) auto

lemma TrimPrefix_append [simp, str_simps]: "TrimPrefix (p @ s) p = s"
  by (simp add: TrimPrefix_def)

lemma HasPrefix_append [simp, str_simps]: "HasPrefix (p @ s) p"
  by (simp add: HasPrefix_def)

lemma HasSuffix_append [simp, str_simps]: "HasSuffix (s @ p) p"
  by (simp add: HasSuffix_def suffix_def)

section \<open>SQL text functions\<close>

text \<open>SQLite's \<^verbatim>\<open>lower\<close> maps ASCII letters only and \<^verbatim>\<open>trim\<close> removes the space character only.\<close>

definition sql_lower :: "string \<Rightarrow> string" where "sql_lower s = map ascii_lower s"

definition sql_trim :: "string \<Rightarrow> string" where
  "sql_trim s = rev (dropWhile (\<lambda>c. c = CHR '' '') (rev (dropWhile (\<lambda>c. c = CHR '' '') s)))"

section \<open>Options\<close>

definition opt_str :: "string option \<Rightarrow> string" where
  "opt_str x = (case x of None \<Rightarrow> [] | Some s \<Rightarrow> s)"

end
