(* ===== verification/Codec.thy ===== *)
theory Codec
  imports Prelude
begin

text \<open>
  The text encodings of the Go standard library that the sources rely on: unpadded base64
  (\<^verbatim>\<open>base64.RawURLEncoding\<close> and \<^verbatim>\<open>base64.RawStdEncoding\<close>), lower-case hexadecimal, and decimal
  numbers (\<^verbatim>\<open>fmt %d\<close>, \<^verbatim>\<open>strconv.ParseUint\<close>, \<^verbatim>\<open>strconv.Atoi\<close>).  The two base64 encodings differ
  in their alphabet only; the round trip is proved once, in the locale \<open>base64_alphabet\<close>, and
  interpreted for both.
\<close>

section \<open>Base64\<close>

definition b64_url_alphabet :: string where
  "b64_url_alphabet = ''ABCDEFGHIJKLMNOPQRSTUVWXYZabcdefghijklmnopqrstuvwxyz0123456789-_''"

definition b64_std_alphabet :: string where
  "b64_std_alphabet = ''ABCDEFGHIJKLMNOPQRSTUVWXYZabcdefghijklmnopqrstuvwxyz0123456789+/''"

abbreviation byte_of :: "char \<Rightarrow> nat" where "byte_of c \<equiv> of_char c"

fun b64_encode :: "string \<Rightarrow> string \<Rightarrow> string" where
  "b64_encode al [] = []"
| "b64_encode al [a] =
     (let v = byte_of a * 16 in [al ! (v div 64), al ! (v mod 64)])"
| "b64_encode al [a, b] =
     (let v = (byte_of a * 256 + byte_of b) * 4
      in [al ! (v div 4096), al ! (v div 64 mod 64), al ! (v mod 64)])"
| "b64_encode al (a # b # c # s) =
     (let v = byte_of a * 65536 + byte_of b * 256 + byte_of c
      in al ! (v div 262144) # al ! (v div 4096 mod 64) # al ! (v div 64 mod 64) # al ! (v mod 64)
         # b64_encode al s)"

text \<open>The position of a character in the alphabet, the alphabet's decode map.\<close>

fun char_index :: "string \<Rightarrow> char \<Rightarrow> nat option" where
  "char_index [] c = None"
| "char_index (x # xs) c = (if x = c then Some 0 else map_option Suc (char_index xs c))"

text \<open>Decoding of a text without line breaks: groups of four characters, a last group of two or
  three characters, whose surplus bits are dropped, and an error on a last group of one.\<close>

fun b64_groups :: "nat list \<Rightarrow> string option" where
  "b64_groups [] = Some []"
| "b64_groups [a] = None"
| "b64_groups [a, b] = Some [char_of ((a * 64 + b) div 16)]"
| "b64_groups [a, b, c] =
     (let v = (a * 4096 + b * 64 + c) div 4 in Some [char_of (v div 256), char_of (v mod 256)])"
| "b64_groups (a # b # c # d # s) =
     (let v = a * 262144 + b * 4096 + c * 64 + d
      in map_option (\<lambda>r. char_of (v div 65536) # char_of (v div 256 mod 256) # char_of (v mod 256) # r)
           (b64_groups s))"

fun opt_all :: "'a option list \<Rightarrow> 'a list option" where
  "opt_all [] = Some []"
| "opt_all (None # xs) = None"
| "opt_all (Some x # xs) = map_option ((#) x) (opt_all xs)"

text \<open>The decoder skips carriage returns and line feeds anywhere in its input.\<close>

definition b64_decode :: "string \<Rightarrow> string \<Rightarrow> string option" where
  "b64_decode al s =
     (case opt_all (map (char_index al) (filter (\<lambda>c. c \<noteq> CHR 0x0A \<and> c \<noteq> CHR 0x0D) s)) of
        None \<Rightarrow> None
      | Some vs \<Rightarrow> b64_groups vs)"

lemma char_index_nth: "distinct al \<Longrightarrow> i < length al \<Longrightarrow> char_index al (al ! i) = Some i"
  by (induction al arbitrary: i) (auto simp: nth_Cons' split: if_splits)

lemma opt_all_map_Some [simp]: "opt_all (map Some xs) = Some xs"
  by (induction xs) auto

text \<open>The six-bit digits of the encoding, before they are written in an alphabet.\<close>

fun b64_digits :: "string \<Rightarrow> nat list" where
  "b64_digits [] = []"
| "b64_digits [a] = (let v = byte_of a * 16 in [v div 64, v mod 64])"
| "b64_digits [a, b] =
     (let v = (byte_of a * 256 + byte_of b) * 4 in [v div 4096, v div 64 mod 64, v mod 64])"
| "b64_digits (a # b # c # s) =
     (let v = byte_of a * 65536 + byte_of b * 256 + byte_of c
      in v div 262144 # v div 4096 mod 64 # v div 64 mod 64 # v mod 64 # b64_digits s)"

lemma b64_encode_digits: "b64_encode al s = map (\<lambda>i. al ! i) (b64_digits s)"
  by (induction al s rule: b64_encode.induct) (simp_all add: Let_def)

lemma byte_of_less [simp]: "byte_of c < 256"
  by (rule nat_of_char_less_256)

lemma b64_digits_bound: "d \<in> set (b64_digits s) \<Longrightarrow> d < 64"
proof (induction s rule: b64_digits.induct)
  case (2 a)
  have "byte_of a < 256" by simp
  then have "byte_of a * 16 div 64 < 64" by linarith
  with 2 show ?case by (auto simp: Let_def)
next
  case (3 a b)
  have "byte_of a \<le> 255" "byte_of b \<le> 255"
    using byte_of_less [of a] byte_of_less [of b] by linarith+
  then have "byte_of a * 256 + byte_of b \<le> 255 * 256 + 255"
    by (intro add_mono mult_le_mono1)
  then have "(byte_of a * 256 + byte_of b) * 4 < 64 * 4096" by simp
  then have "(byte_of a * 256 + byte_of b) * 4 div 4096 < 64"
    by (rule less_mult_imp_div_less)
  with 3 show ?case by (auto simp: Let_def)
next
  case (4 a b c s)
  have "byte_of a < 256" "byte_of b < 256" "byte_of c < 256" by simp_all
  then have "(byte_of a * 65536 + byte_of b * 256 + byte_of c) div 262144 < 64" by linarith
  with 4 show ?case by (auto simp: Let_def)
qed simp

lemma digits4_join: "v div 262144 * 262144 + v div 4096 mod 64 * 4096 + v div 64 mod 64 * 64 + v mod 64 = (v::nat)"
proof -
  have "v div 4096 = v div 262144 * 64 + v div 4096 mod 64"
    using div_mult_mod_eq [of "v div 4096" 64] by (simp add: div_mult2_eq [symmetric])
  moreover have "v div 64 = v div 4096 * 64 + v div 64 mod 64"
    using div_mult_mod_eq [of "v div 64" 64] by (simp add: div_mult2_eq [symmetric])
  moreover have "v = v div 64 * 64 + v mod 64" by simp
  ultimately show ?thesis by linarith
qed

lemma digits3_join: "v div 4096 * 4096 + v div 64 mod 64 * 64 + v mod 64 = (v::nat)"
proof -
  have "v div 64 = v div 4096 * 64 + v div 64 mod 64"
    using div_mult_mod_eq [of "v div 64" 64] by (simp add: div_mult2_eq [symmetric])
  moreover have "v = v div 64 * 64 + v mod 64" by simp
  ultimately show ?thesis by linarith
qed

lemma byte_split3:
  assumes "a < 256" "b < 256" "c < (256::nat)"
  shows "(a * 65536 + b * 256 + c) div 65536 = a"
    and "(a * 65536 + b * 256 + c) div 256 mod 256 = b"
    and "(a * 65536 + b * 256 + c) mod 256 = c"
proof -
  show "(a * 65536 + b * 256 + c) div 65536 = a" using assms by linarith
  have "(a * 65536 + b * 256 + c) div 256 = a * 256 + b" using assms by linarith
  then show "(a * 65536 + b * 256 + c) div 256 mod 256 = b" using assms by simp
  have "a * 65536 + b * 256 + c = c + (a * 256 + b) * 256" by simp
  then show "(a * 65536 + b * 256 + c) mod 256 = c" using assms by (metis mod_less mod_mult_self1)
qed

lemma b64_groups_digits: "b64_groups (b64_digits s) = Some s"
proof (induction s rule: b64_digits.induct)
  case (2 a)
  have "(byte_of a * 16 div 64 * 64 + byte_of a * 16 mod 64) div 16 = byte_of a" 
    by (simp only: div_mult_mod_eq)
  then show ?case by (simp only: b64_digits.simps b64_groups.simps Let_def char_of_char)
next
  case (3 a b)
  let ?v = "(byte_of a * 256 + byte_of b) * 4 :: nat"
  have "(?v div 4096 * 4096 + ?v div 64 mod 64 * 64 + ?v mod 64) div 4 = byte_of a * 256 + byte_of b"
    by (simp only: digits3_join) simp
  moreover have "(byte_of a * 256 + byte_of b) div 256 = byte_of a"
    using byte_of_less [of b] by linarith
  moreover have "(byte_of a * 256 + byte_of b) mod 256 = byte_of b"
    by (simp only: mod_mult_self3) simp
  ultimately show ?case
    by (simp only: b64_digits.simps b64_groups.simps Let_def char_of_char)
next
  case (4 a b c s)
  let ?v = "byte_of a * 65536 + byte_of b * 256 + byte_of c :: nat"
  have v: "?v div 262144 * 262144 + ?v div 4096 mod 64 * 4096 + ?v div 64 mod 64 * 64 + ?v mod 64 = ?v"
    by (rule digits4_join)
  show ?case
    using 4 byte_split3 [of "byte_of a" "byte_of b" "byte_of c"]
    by (simp only: b64_digits.simps Let_def b64_groups.simps v option.map) simp
qed simp

locale base64_alphabet =
  fixes al :: string
  assumes length_al: "length al = 64"
    and distinct_al: "distinct al"
    and no_break: "CHR 0x0A \<notin> set al" "CHR 0x0D \<notin> set al"
begin

lemma set_encode: "set (b64_encode al s) \<subseteq> set al"
  using b64_digits_bound length_al by (auto simp: b64_encode_digits)

lemma decode_encode: "b64_decode al (b64_encode al s) = Some s"
proof -
  let ?e = "b64_encode al s"
  have "filter (\<lambda>c. c \<noteq> CHR 0x0A \<and> c \<noteq> CHR 0x0D) ?e = ?e"
    using set_encode no_break by (auto intro!: filter_True)
  moreover have "map (char_index al) ?e = map Some (b64_digits s)"
    using b64_digits_bound length_al distinct_al
    by (auto simp: b64_encode_digits char_index_nth)
  ultimately show ?thesis by (simp add: b64_decode_def b64_groups_digits)
qed

lemma encode_inj: "b64_encode al s = b64_encode al t \<longleftrightarrow> s = t"
  using decode_encode by (metis option.inject)

lemma encode_eq_Nil: "b64_encode al s = [] \<longleftrightarrow> s = []"
  using encode_inj [of s "[]"] by simp

end

interpretation url: base64_alphabet b64_url_alphabet
  by unfold_locales (simp_all add: b64_url_alphabet_def)

interpretation std: base64_alphabet b64_std_alphabet
  by unfold_locales (simp_all add: b64_std_alphabet_def)

definition RawURLEncode :: "string \<Rightarrow> string" where "RawURLEncode s = b64_encode b64_url_alphabet s"

definition RawURLDecode :: "string \<Rightarrow> string option" where "RawURLDecode s = b64_decode b64_url_alphabet s"

definition RawStdEncode :: "string \<Rightarrow> string" where "RawStdEncode s = b64_encode b64_std_alphabet s"

definition RawStdDecode :: "string \<Rightarrow> string option" where "RawStdDecode s = b64_decode b64_std_alphabet s"

lemma RawURL_roundtrip [simp]: "RawURLDecode (RawURLEncode s) = Some s"
  by (simp add: RawURLDecode_def RawURLEncode_def url.decode_encode)

lemma RawStd_roundtrip [simp]: "RawStdDecode (RawStdEncode s) = Some s"
  by (simp add: RawStdDecode_def RawStdEncode_def std.decode_encode)

lemma RawURL_inj [simp]: "RawURLEncode s = RawURLEncode t \<longleftrightarrow> s = t"
  by (simp add: RawURLEncode_def url.encode_inj)

lemma RawURL_Nil [simp]: "RawURLEncode s = [] \<longleftrightarrow> s = []"
  by (simp add: RawURLEncode_def url.encode_eq_Nil)

lemma RawURL_set: "set (RawURLEncode s) \<subseteq> set b64_url_alphabet"
  by (simp add: RawURLEncode_def url.set_encode)

lemma RawStd_set: "set (RawStdEncode s) \<subseteq> set b64_std_alphabet"
  by (simp add: RawStdEncode_def std.set_encode)

section \<open>Decimal numbers\<close>

definition digit_char :: "nat \<Rightarrow> char" where "digit_char d = char_of (48 + d)"

definition is_digit :: "char \<Rightarrow> bool" where
  "is_digit c \<longleftrightarrow> 48 \<le> byte_of c \<and> byte_of c \<le> 57"

fun show_nat :: "nat \<Rightarrow> string" where
  "show_nat n = (if n < 10 then [digit_char n] else show_nat (n div 10) @ [digit_char (n mod 10)])"

declare show_nat.simps [simp del]

definition show_int :: "int \<Rightarrow> string" where
  "show_int i = (if i < 0 then CHR ''-'' # show_nat (nat (- i)) else show_nat (nat i))"

definition digits_value :: "string \<Rightarrow> nat" where
  "digits_value s = foldl (\<lambda>n c. n * 10 + (byte_of c - 48)) 0 s"

text \<open>\<^verbatim>\<open>strconv.ParseUint(s, 10, bits)\<close>: digits only, at least one, and a value below \<open>2 ^ bits\<close>.\<close>

definition ParseUint :: "nat \<Rightarrow> string \<Rightarrow> nat option" where
  "ParseUint bits s =
     (if s \<noteq> [] \<and> list_all is_digit s \<and> digits_value s < 2 ^ bits then Some (digits_value s) else None)"

text \<open>\<^verbatim>\<open>strconv.Atoi\<close> on a 64-bit platform: an optional sign, then digits.\<close>

definition Atoi :: "string \<Rightarrow> int option" where
  "Atoi s =
     (case s of
        [] \<Rightarrow> None
      | c # cs \<Rightarrow>
          let neg = (c = CHR ''-'');
              body = (if c = CHR ''-'' \<or> c = CHR ''+'' then cs else s)
          in if body = [] \<or> \<not> list_all is_digit body then None
             else let v = int (digits_value body); i = (if neg then - v else v)
                  in if - (2 ^ 63) \<le> i \<and> i < 2 ^ 63 then Some i else None)"

lemma is_digit_digit_char [simp]: "d < 10 \<Longrightarrow> is_digit (digit_char d)"
  by (simp add: is_digit_def digit_char_def)

lemma byte_of_digit_char [simp]: "d < 10 \<Longrightarrow> byte_of (digit_char d) = 48 + d"
  by (simp add: digit_char_def)

lemma show_nat_digits: "list_all is_digit (show_nat n)"
proof (induction n rule: show_nat.induct)
  case (1 n)
  then show ?case by (subst show_nat.simps) auto
qed

lemma show_nat_nonempty [simp]: "show_nat n \<noteq> []"
  by (subst show_nat.simps) simp

lemma digits_value_snoc [simp]: "digits_value (s @ [c]) = digits_value s * 10 + (byte_of c - 48)"
  by (simp add: digits_value_def)

lemma digits_value_Nil [simp]: "digits_value [] = 0"
  by (simp add: digits_value_def)

lemma digits_value_show_nat [simp]: "digits_value (show_nat n) = n"
proof (induction n rule: show_nat.induct)
  case (1 n)
  show ?case
  proof (cases "n < 10")
    case True
    then have "show_nat n = [] @ [digit_char n]" by (subst show_nat.simps) simp
    then show ?thesis using True by (simp only: digits_value_snoc) simp
  next
    case False
    then have "digits_value (show_nat (n div 10)) = n div 10" by (rule 1)
    then show ?thesis using False by (subst show_nat.simps) simp
  qed
qed

lemma ParseUint_show_nat [simp]: "n < 2 ^ bits \<Longrightarrow> ParseUint bits (show_nat n) = Some n"
  by (simp add: ParseUint_def show_nat_digits)

lemma ParseUint_bound: "ParseUint bits s = Some n \<Longrightarrow> n < 2 ^ bits"
  by (simp add: ParseUint_def split: if_splits)

lemma show_nat_inj: "show_nat m = show_nat n \<longleftrightarrow> m = n"
  using digits_value_show_nat by metis

lemma not_digit_notin: "\<not> is_digit c \<Longrightarrow> c \<notin> set (show_nat n)"
  using show_nat_digits [of n] by (auto simp: list_all_iff)

lemma Atoi_show_nat: "n < 2 ^ 63 \<Longrightarrow> Atoi (show_nat n) = Some (int n)"
proof -
  assume n: "n < 2 ^ 63"
  obtain c cs where s: "show_nat n = c # cs" by (cases "show_nat n") auto
  have "is_digit c" using show_nat_digits [of n] by (simp add: s)
  then have "c \<noteq> CHR ''-''" "c \<noteq> CHR ''+''" by (auto simp: is_digit_def)
  moreover have "list_all is_digit (c # cs)" "digits_value (c # cs) = n"
    using show_nat_digits [of n] digits_value_show_nat [of n] by (simp_all add: s)
  ultimately show ?thesis using n by (simp add: Atoi_def s Let_def)
qed

section \<open>Hexadecimal\<close>

definition hex_digit :: "nat \<Rightarrow> char" where
  "hex_digit d = (if d < 10 then char_of (48 + d) else char_of (87 + d))"

definition HexEncode :: "string \<Rightarrow> string" where
  "HexEncode s = concat (map (\<lambda>c. [hex_digit (byte_of c div 16), hex_digit (byte_of c mod 16)]) s)"

end
