(* ===== verification/MailIds.thy ===== *)
theory MailIds
  imports Codec "HOL-Library.Word"
begin

text \<open>
  \<^verbatim>\<open>internal/mail/id.go\<close>: the opaque identifiers the API hands out.  A message id encodes a
  mailbox name and an IMAP uid (32 bits), an attachment id a message id and a part number, and a
  scoped id an account id and a legacy id.  The lemmas give the round trips, the exact condition
  under which they hold, and that scoping is injective and idempotent.
\<close>

type_synonym uid = "32 word"

section \<open>Message and attachment ids\<close>

definition EncodeMessageID :: "string \<Rightarrow> uid \<Rightarrow> string" where
  "EncodeMessageID mailbox uid = RawURLEncode (mailbox @ CHR ''|'' # show_nat (unat uid))"

definition DecodeMessageID :: "string \<Rightarrow> string + string \<times> uid" where
  "DecodeMessageID i =
     (case RawURLDecode i of
        None \<Rightarrow> Inl ''invalid message id''
      | Some b \<Rightarrow>
          (case split2 (CHR ''|'') b of
             None \<Rightarrow> Inl ''invalid message id''
           | Some (mailbox, rest) \<Rightarrow>
               (case ParseUint 32 rest of
                  None \<Rightarrow> Inl ''invalid message id''
                | Some u \<Rightarrow> Inr (mailbox, of_nat u))))"

definition EncodeAttachmentID :: "string \<Rightarrow> int \<Rightarrow> string" where
  "EncodeAttachmentID messageID part = RawURLEncode (messageID @ CHR ''|'' # show_int part)"

definition DecodeAttachmentID :: "string \<Rightarrow> string + string \<times> int" where
  "DecodeAttachmentID i =
     (case RawURLDecode i of
        None \<Rightarrow> Inl ''invalid attachment id''
      | Some b \<Rightarrow>
          (case split2 (CHR ''|'') b of
             None \<Rightarrow> Inl ''invalid attachment id''
           | Some (messageID, rest) \<Rightarrow>
               (case Atoi rest of
                  None \<Rightarrow> Inl ''invalid attachment id''
                | Some n \<Rightarrow> if n < 0 then Inl ''invalid attachment id'' else Inr (messageID, n))))"

section \<open>Scoped ids\<close>

definition scopedIndexedMessageIDPrefix :: string where
  "scopedIndexedMessageIDPrefix = ''v2m_''"

definition scopedIndexedThreadIDPrefix :: string where
  "scopedIndexedThreadIDPrefix = ''v2t_''"

definition isScopedIndexedID :: "string \<Rightarrow> string \<Rightarrow> bool" where
  "isScopedIndexedID pre i0 =
     (let i = TrimSpace i0 in
      if \<not> HasPrefix i pre then False
      else let raw = TrimPrefix i pre in
           if raw = [] then False
           else case RawURLDecode raw of
                  None \<Rightarrow> False
                | Some decoded \<Rightarrow>
                    (case split2 (CHR 0x00) decoded of
                       None \<Rightarrow> False
                     | Some (a, b) \<Rightarrow> TrimSpace a \<noteq> [] \<and> TrimSpace b \<noteq> []))"

definition scopeIndexedID :: "string \<Rightarrow> string \<Rightarrow> string \<Rightarrow> string" where
  "scopeIndexedID pre accountID0 legacyID0 =
     (let legacyID = TrimSpace legacyID0 in
      if legacyID = [] then []
      else if isScopedIndexedID pre legacyID then legacyID
      else let accountID = TrimSpace accountID0 in
           if accountID = [] then legacyID
           else pre @ RawURLEncode (accountID @ CHR 0x00 # legacyID))"

definition unscopeIndexedID :: "string \<Rightarrow> string \<Rightarrow> string" where
  "unscopeIndexedID pre i0 =
     (let i = TrimSpace i0 in
      if \<not> isScopedIndexedID pre i then i
      else case RawURLDecode (TrimPrefix i pre) of
             None \<Rightarrow> i
           | Some decoded \<Rightarrow>
               (case split2 (CHR 0x00) decoded of
                  None \<Rightarrow> i
                | Some (a, b) \<Rightarrow> if TrimSpace b = [] then i else b))"

definition ScopeIndexedMessageID :: "string \<Rightarrow> string \<Rightarrow> string" where
  "ScopeIndexedMessageID accountID legacyID =
     scopeIndexedID scopedIndexedMessageIDPrefix accountID legacyID"

definition IsScopedIndexedMessageID :: "string \<Rightarrow> bool" where
  "IsScopedIndexedMessageID i = isScopedIndexedID scopedIndexedMessageIDPrefix i"

definition NormalizeIndexedMessageID :: "string \<Rightarrow> string \<Rightarrow> string" where
  "NormalizeIndexedMessageID accountID i =
     (if IsScopedIndexedMessageID i then TrimSpace i else ScopeIndexedMessageID accountID i)"

definition UnscopeIndexedMessageID :: "string \<Rightarrow> string" where
  "UnscopeIndexedMessageID i = unscopeIndexedID scopedIndexedMessageIDPrefix i"

definition ScopeIndexedThreadID :: "string \<Rightarrow> string \<Rightarrow> string" where
  "ScopeIndexedThreadID accountID legacyID =
     scopeIndexedID scopedIndexedThreadIDPrefix accountID legacyID"

definition IsScopedIndexedThreadID :: "string \<Rightarrow> bool" where
  "IsScopedIndexedThreadID i = isScopedIndexedID scopedIndexedThreadIDPrefix i"

definition NormalizeIndexedThreadID :: "string \<Rightarrow> string \<Rightarrow> string" where
  "NormalizeIndexedThreadID accountID i =
     (if IsScopedIndexedThreadID i then TrimSpace i else ScopeIndexedThreadID accountID i)"

definition UnscopeIndexedThreadID :: "string \<Rightarrow> string" where
  "UnscopeIndexedThreadID i = unscopeIndexedID scopedIndexedThreadIDPrefix i"

text \<open>\<^verbatim>\<open>internal/store/v2_store.go\<close>: the ids under which an indexed row may be stored.\<close>

definition indexedMessageIDCandidates :: "string \<Rightarrow> string \<Rightarrow> string list" where
  "indexedMessageIDCandidates accountID i0 =
     (let i = TrimSpace i0 in
      if i = [] then []
      else let scoped = NormalizeIndexedMessageID accountID i in
           if scoped = [] then [] else if scoped = i then [scoped] else [scoped, i])"

definition indexedThreadIDCandidates :: "string \<Rightarrow> string \<Rightarrow> string list" where
  "indexedThreadIDCandidates accountID i0 =
     (let i = TrimSpace i0 in
      if i = [] then []
      else let scoped = NormalizeIndexedThreadID accountID i in
           if scoped = [] then [] else if scoped = i then [scoped] else [scoped, i])"

section \<open>Lemmas\<close>

lemma bar_not_digit [simp]: "\<not> is_digit (CHR ''|'')"
  by (simp add: is_digit_def)

lemma decode_bar_fails:
  assumes "CHR ''|'' \<in> set mailbox"
  shows "ParseUint 32 (snd (the (split2 (CHR ''|'') (mailbox @ CHR ''|'' # t)))) = None"
proof -
  obtain a b where s: "split2 (CHR ''|'') mailbox = Some (a, b)"
    using assms by (metis split2_None option.exhaust surj_pair)
  then have m: "mailbox = a @ CHR ''|'' # b" "CHR ''|'' \<notin> set a" using split2_Some by blast+
  have "split2 (CHR ''|'') (mailbox @ CHR ''|'' # t) = Some (a, b @ CHR ''|'' # t)"
    using split2_append [OF m(2)] by (simp add: m(1))
  then show ?thesis by (simp add: ParseUint_def)
qed

text \<open>What makes a prefix usable for scoped ids: its bytes survive trimming.\<close>

locale scope_prefix =
  fixes pre :: string
  assumes pre_plain: "set pre \<inter> space_bytes = {}"
begin

lemma scoped_plain: "TrimSpace (pre @ RawURLEncode s) = pre @ RawURLEncode s"
proof (rule TrimSpace_plain)
  have "set b64_url_alphabet \<inter> space_bytes = {}"
    by (simp add: b64_url_alphabet_def space_bytes_def space_runes_def)
  then show "set (pre @ RawURLEncode s) \<inter> space_bytes = {}"
    using RawURL_set [of s] pre_plain by auto
qed

lemma isScoped_encode:
  assumes "CHR 0x00 \<notin> set a"
  shows "isScopedIndexedID pre (pre @ RawURLEncode (a @ CHR 0x00 # b))
           \<longleftrightarrow> TrimSpace a \<noteq> [] \<and> TrimSpace b \<noteq> []"
  using assms by (simp add: isScopedIndexedID_def Let_def scoped_plain split2_append)

lemma isScoped_trim: "isScopedIndexedID pre (TrimSpace i) = isScopedIndexedID pre i"
  by (simp add: isScopedIndexedID_def Let_def)

lemma unscope_scope:
  assumes "TrimSpace acc \<noteq> []" "CHR 0x00 \<notin> set acc'" "acc' = TrimSpace acc"
    and "TrimSpace legacy \<noteq> []" "\<not> isScopedIndexedID pre legacy"
  shows "unscopeIndexedID pre (scopeIndexedID pre acc legacy) = TrimSpace legacy"
  using assms
  by (simp add: unscopeIndexedID_def scopeIndexedID_def Let_def scoped_plain isScoped_encode
      isScoped_trim split2_append)

lemma scope_is_scoped:
  assumes "TrimSpace acc \<noteq> []" "CHR 0x00 \<notin> set (TrimSpace acc)" "TrimSpace legacy \<noteq> []"
  shows "isScopedIndexedID pre (scopeIndexedID pre acc legacy)"
  using assms by (simp add: scopeIndexedID_def Let_def isScoped_encode isScoped_trim)

lemma isScoped_nonempty: "isScopedIndexedID pre i \<Longrightarrow> TrimSpace i \<noteq> []"
proof
  assume "isScopedIndexedID pre i" "TrimSpace i = []"
  moreover have "TrimPrefix [] pre = []" by (simp add: TrimPrefix_def)
  ultimately show False by (simp add: isScopedIndexedID_def split: if_splits)
qed

lemma scope_idem: "isScopedIndexedID pre i \<Longrightarrow> scopeIndexedID pre acc i = TrimSpace i"
  by (simp add: scopeIndexedID_def Let_def isScoped_trim isScoped_nonempty)

lemma scope_inj:
  assumes "TrimSpace a1 \<noteq> []" "TrimSpace a2 \<noteq> []"
    and "CHR 0x00 \<notin> set (TrimSpace a1)" "CHR 0x00 \<notin> set (TrimSpace a2)"
    and "TrimSpace l1 \<noteq> []" "TrimSpace l2 \<noteq> []"
    and "\<not> isScopedIndexedID pre l1" "\<not> isScopedIndexedID pre l2"
    and eq: "scopeIndexedID pre a1 l1 = scopeIndexedID pre a2 l2"
  shows "TrimSpace a1 = TrimSpace a2 \<and> TrimSpace l1 = TrimSpace l2"
proof -
  have "TrimSpace a1 @ CHR 0x00 # TrimSpace l1 = TrimSpace a2 @ CHR 0x00 # TrimSpace l2"
    using eq assms by (simp add: scopeIndexedID_def Let_def isScoped_trim)
  then have "split2 (CHR 0x00) (TrimSpace a1 @ CHR 0x00 # TrimSpace l1)
           = split2 (CHR 0x00) (TrimSpace a2 @ CHR 0x00 # TrimSpace l2)" by simp
  then show ?thesis using assms(3,4) by (simp add: split2_append)
qed

end

interpretation msg: scope_prefix scopedIndexedMessageIDPrefix
  by unfold_locales (simp add: scopedIndexedMessageIDPrefix_def space_bytes_def space_runes_def)

interpretation thr: scope_prefix scopedIndexedThreadIDPrefix
  by unfold_locales (simp add: scopedIndexedThreadIDPrefix_def space_bytes_def space_runes_def)

section \<open>Properties\<close>

text \<open>C38: A message id decodes to the mailbox and uid it was made from exactly when the mailbox name
  has no vertical bar; with one, every id of the mailbox is rejected as invalid.\<close>

theorem message_id_roundtrip:
  "DecodeMessageID (EncodeMessageID mailbox uid) =
     (if CHR ''|'' \<in> set mailbox then Inl ''invalid message id'' else Inr (mailbox, uid))"
proof (cases "CHR ''|'' \<in> set mailbox")
  case True
  let ?b = "mailbox @ CHR ''|'' # show_nat (unat uid)"
  obtain a b where s: "split2 (CHR ''|'') ?b = Some (a, b)"
    by (metis in_set_conv_decomp split2_None option.exhaust surj_pair)
  have "ParseUint 32 b = None" using decode_bar_fails [OF True] s by (metis option.sel snd_conv)
  then show ?thesis using True s by (simp add: DecodeMessageID_def EncodeMessageID_def)
next
  case False
  have "unat uid < 2 ^ 32" using unsigned_less [of uid] by simp
  then have "ParseUint 32 (show_nat (unat uid)) = Some (unat uid)" by (rule ParseUint_show_nat)
  then show ?thesis using False
    by (simp add: DecodeMessageID_def EncodeMessageID_def split2_append)
qed

text \<open>An attachment id made from any message id of the API and a part number in the range of a
  Go \<^verbatim>\<open>int\<close> decodes to that message id and part number, whatever the mailbox name is.\<close>

theorem attachment_id_roundtrip:
  assumes "0 \<le> part" "part < 2 ^ 63"
  shows "DecodeAttachmentID (EncodeAttachmentID (EncodeMessageID mailbox uid) part)
           = Inr (EncodeMessageID mailbox uid, part)"
proof -
  have "CHR ''|'' \<notin> set (EncodeMessageID mailbox uid)"
    using RawURL_set by (fastforce simp: EncodeMessageID_def b64_url_alphabet_def)
  moreover have "Atoi (show_int part) = Some part"
    using assms Atoi_show_nat [of "nat part"] by (simp add: show_int_def nat_less_iff)
  ultimately show ?thesis using assms
    by (simp add: DecodeAttachmentID_def EncodeAttachmentID_def split2_append)
qed

theorem attachment_id_roundtrip_witness:
  "DecodeAttachmentID (EncodeAttachmentID (EncodeMessageID ''Work|2024'' 7) 3)
     = Inr (EncodeMessageID ''Work|2024'' 7, 3)"
  by (rule attachment_id_roundtrip) simp_all

text \<open>Scoping a legacy message id by an account id is undone by unscoping, applying it again
  (with any account) changes nothing, and ids of different accounts or messages stay different.\<close>

theorem scoped_message_id_laws:
  assumes "TrimSpace acc \<noteq> []" "CHR 0x00 \<notin> set (TrimSpace acc)"
    and "TrimSpace legacy \<noteq> []" "\<not> IsScopedIndexedMessageID legacy"
    and "TrimSpace acc2 \<noteq> []" "CHR 0x00 \<notin> set (TrimSpace acc2)"
    and "TrimSpace legacy2 \<noteq> []" "\<not> IsScopedIndexedMessageID legacy2"
  shows "UnscopeIndexedMessageID (ScopeIndexedMessageID acc legacy) = TrimSpace legacy
    \<and> ScopeIndexedMessageID other (ScopeIndexedMessageID acc legacy) = ScopeIndexedMessageID acc legacy
    \<and> (ScopeIndexedMessageID acc legacy = ScopeIndexedMessageID acc2 legacy2
         \<longleftrightarrow> TrimSpace acc = TrimSpace acc2 \<and> TrimSpace legacy = TrimSpace legacy2)"
proof (intro conjI iffI)
  note defs = UnscopeIndexedMessageID_def ScopeIndexedMessageID_def IsScopedIndexedMessageID_def
  have ns: "\<not> isScopedIndexedID scopedIndexedMessageIDPrefix legacy"
    "\<not> isScopedIndexedID scopedIndexedMessageIDPrefix legacy2"
    using assms by (simp_all add: defs)
  show "UnscopeIndexedMessageID (ScopeIndexedMessageID acc legacy) = TrimSpace legacy"
    unfolding defs by (rule msg.unscope_scope [OF assms(1,2) refl assms(3) ns(1)])
  have sc: "isScopedIndexedID scopedIndexedMessageIDPrefix (ScopeIndexedMessageID acc legacy)"
    unfolding defs by (rule msg.scope_is_scoped [OF assms(1-3)])
  have plain: "TrimSpace (ScopeIndexedMessageID acc legacy) = ScopeIndexedMessageID acc legacy"
    using assms ns by (simp add: defs scopeIndexedID_def Let_def msg.isScoped_trim msg.scoped_plain)
  show "ScopeIndexedMessageID other (ScopeIndexedMessageID acc legacy) = ScopeIndexedMessageID acc legacy"
    using msg.scope_idem [OF sc, of other] plain by (simp add: ScopeIndexedMessageID_def)
  show "TrimSpace acc = TrimSpace acc2" "TrimSpace legacy = TrimSpace legacy2"
    if "ScopeIndexedMessageID acc legacy = ScopeIndexedMessageID acc2 legacy2"
    using msg.scope_inj [OF assms(1,5,2,6,3,7) ns] that by (simp_all add: defs)
  show "ScopeIndexedMessageID acc legacy = ScopeIndexedMessageID acc2 legacy2"
    if "TrimSpace acc = TrimSpace acc2 \<and> TrimSpace legacy = TrimSpace legacy2"
    using that by (simp add: defs scopeIndexedID_def Let_def)
qed

theorem scoped_message_id_laws_witness:
  "UnscopeIndexedMessageID (ScopeIndexedMessageID ''acct-1'' ''SU5CT1h8Nw'') = ''SU5CT1h8Nw''
   \<and> ScopeIndexedMessageID ''acct-1'' ''SU5CT1h8Nw'' \<noteq> ScopeIndexedMessageID ''acct-2'' ''SU5CT1h8Nw''"
proof -
  have a: "TrimSpace ''acct-1'' = ''acct-1''" "TrimSpace ''acct-2'' = ''acct-2''"
    "TrimSpace ''SU5CT1h8Nw'' = ''SU5CT1h8Nw''"
    by code_simp+
  have b: "\<not> IsScopedIndexedMessageID ''SU5CT1h8Nw''" by code_simp
  show ?thesis
    using scoped_message_id_laws [of "''acct-1''" "''SU5CT1h8Nw''" "''acct-2''" "''SU5CT1h8Nw''"] a b
    by simp
qed

end
