(* ===== verification/RateLimiter.thy ===== *)
theory RateLimiter
  imports Prelude
begin

text \<open>
  \<^verbatim>\<open>internal/rate/memory.go\<close>: the in-memory fixed-window limiter behind every rate-limited route.
  The map of buckets is a partial function, the clock reading an argument.  The limiter is shared
  by all routes, each with its own limit and window, so a run is a list of calls that name both.
\<close>

record bucket =
  b_count :: int
  b_start :: gotime

record Limiter =
  buckets :: "string \<rightharpoonup> bucket"
  lastGC :: gotime

definition NewLimiter :: "gotime \<Rightarrow> Limiter" where
  "NewLimiter now = \<lparr>buckets = Map.empty, lastGC = now\<rparr>"

text \<open>The clean-up at the head of \<^verbatim>\<open>Allow\<close>, with the window of the current call.\<close>

definition gc :: "Limiter \<Rightarrow> gotime \<Rightarrow> duration \<Rightarrow> Limiter" where
  "gc l now window =
     (if now - lastGC l > time_Minute
      then \<lparr>buckets = (\<lambda>k. case buckets l k of
                             None \<Rightarrow> None
                           | Some b \<Rightarrow> if now - b_start b > 3 * window then None else Some b),
            lastGC = now\<rparr>
      else l)"

definition Allow :: "Limiter \<Rightarrow> gotime \<Rightarrow> string \<Rightarrow> int \<Rightarrow> duration \<Rightarrow> bool \<times> Limiter" where
  "Allow l0 now key limit window =
     (let l = gc l0 now window in
      case buckets l key of
        None \<Rightarrow> (True, l\<lparr>buckets := (buckets l)(key \<mapsto> \<lparr>b_count = 1, b_start = now\<rparr>)\<rparr>)
      | Some b \<Rightarrow>
          if now - b_start b \<ge> window
          then (True, l\<lparr>buckets := (buckets l)(key \<mapsto> \<lparr>b_count = 1, b_start = now\<rparr>)\<rparr>)
          else if b_count b \<ge> limit then (False, l)
          else (True, l\<lparr>buckets := (buckets l)(key \<mapsto> b\<lparr>b_count := b_count b + 1\<rparr>)\<rparr>))"

section \<open>Runs of the limiter\<close>

record call =
  c_now :: gotime
  c_key :: string
  c_limit :: int
  c_window :: duration

fun run :: "Limiter \<Rightarrow> call list \<Rightarrow> (call \<times> bool) list" where
  "run l [] = []"
| "run l (c # cs) =
     (case Allow l (c_now c) (c_key c) (c_limit c) (c_window c) of
        (ok, l') \<Rightarrow> (c, ok) # run l' cs)"

fun final :: "Limiter \<Rightarrow> call list \<Rightarrow> Limiter" where
  "final l [] = l"
| "final l (c # cs) = final (snd (Allow l (c_now c) (c_key c) (c_limit c) (c_window c))) cs"

definition allowed :: "string \<Rightarrow> Limiter \<Rightarrow> call list \<Rightarrow> nat" where
  "allowed k l cs = length (filter (\<lambda>(c, ok). ok \<and> c_key c = k) (run l cs))"

text \<open>The calls of a run keep to the rules when time does not go backwards, every call for the key
  \<open>k\<close> uses the limit \<open>L\<close> and the window \<open>w\<close>, and no other call cleans up buckets younger than \<open>w\<close>.\<close>

definition uniform :: "string \<Rightarrow> int \<Rightarrow> duration \<Rightarrow> call list \<Rightarrow> bool" where
  "uniform k L w cs \<longleftrightarrow>
     sorted (map c_now cs)
     \<and> list_all (\<lambda>c. (c_key c = k \<longrightarrow> c_limit c = L \<and> c_window c = w) \<and> w \<le> 3 * c_window c) cs"

section \<open>Lemmas\<close>

lemma allowed_Nil [simp]: "allowed k l [] = 0"
  by (simp add: allowed_def)

lemma allowed_Cons:
  "allowed k l (c # cs) =
     (let (ok, l') = Allow l (c_now c) (c_key c) (c_limit c) (c_window c)
      in (if ok \<and> c_key c = k then 1 else 0) + allowed k l' cs)"
  by (cases "Allow l (c_now c) (c_key c) (c_limit c) (c_window c)") (simp add: allowed_def)

lemma uniform_Cons:
  "uniform k L w (c # cs) \<longleftrightarrow>
     uniform k L w cs \<and> (\<forall>d \<in> set cs. c_now c \<le> c_now d)
     \<and> (c_key c = k \<longrightarrow> c_limit c = L \<and> c_window c = w) \<and> w \<le> 3 * c_window c"
  by (auto simp: uniform_def)

lemma gc_keeps_young:
  "buckets l k = Some b \<Longrightarrow> now - b_start b \<le> 3 * v \<Longrightarrow> buckets (gc l now v) k = Some b"
  by (simp add: gc_def)

lemma gc_Some: "buckets (gc l now v) k = Some b \<Longrightarrow> buckets l k = Some b"
  by (simp add: gc_def split: if_splits option.splits)

lemma Allow_other_key:
  "c \<noteq> k \<Longrightarrow> buckets (snd (Allow l now c L v)) k = buckets (gc l now v) k"
  by (simp add: Allow_def Let_def split: option.split)

text \<open>A call for a key opens a new period, is refused, or uses up one more of the current period.\<close>

lemma Allow_cases:
  obtains (fresh) l' where "buckets l' k = Some \<lparr>b_count = 1, b_start = now\<rparr>"
      "Allow l now k L v = (True, l')"
  | (full) "Allow l now k L v = (False, gc l now v)"
  | (more) b l' where "buckets (gc l now v) k = Some b" "b_count b < L"
      "buckets l' k = Some (b\<lparr>b_count := b_count b + 1\<rparr>)" "Allow l now k L v = (True, l')"
proof -
  let ?new = "(gc l now v)\<lparr>buckets := (buckets (gc l now v))(k \<mapsto> \<lparr>b_count = 1, b_start = now\<rparr>)\<rparr>"
  show ?thesis
  proof (cases "buckets (gc l now v) k")
    case None
    then have "Allow l now k L v = (True, ?new)" by (simp add: Allow_def)
    then show ?thesis by (rule fresh [rotated]) simp
  next
    case (Some b)
    let ?inc = "(gc l now v)\<lparr>buckets := (buckets (gc l now v))(k \<mapsto> b\<lparr>b_count := b_count b + 1\<rparr>)\<rparr>"
    consider (a) "now - b_start b \<ge> v" | (b) "now - b_start b < v" "b_count b \<ge> L"
      | (c) "now - b_start b < v" "b_count b < L" by linarith
    then show ?thesis
    proof cases
      case a
      then have "Allow l now k L v = (True, ?new)" using Some by (simp add: Allow_def)
      then show ?thesis by (rule fresh [rotated]) simp
    next
      case b
      then show ?thesis using Some by (intro full) (simp add: Allow_def)
    next
      case c
      then have "Allow l now k L v = (True, ?inc)" using Some by (simp add: Allow_def)
      then show ?thesis by (rule more [OF Some c(2), rotated]) simp
    qed
  qed
qed

text \<open>Inside one window period the bucket admits what is left of the limit.\<close>

lemma allowed_within:
  assumes "uniform k L w cs" "buckets l k = Some b"
    and "\<forall>c \<in> set cs. c_now c < b_start b + w"
  shows "allowed k l cs \<le> nat (max 1 L - b_count b)"
  using assms
proof (induction cs arbitrary: l b)
  case Nil
  then show ?case by simp
next
  case (Cons c cs)
  let ?l = "gc l (c_now c) (c_window c)"
  have c: "c_now c < b_start b + w" "w \<le> 3 * c_window c"
    using Cons.prems by (auto simp: uniform_Cons)
  then have g: "buckets ?l k = Some b"
    using Cons.prems(2) by (intro gc_keeps_young) auto
  have rest: "uniform k L w cs" "\<forall>d \<in> set cs. c_now d < b_start b + w"
    using Cons.prems by (auto simp: uniform_Cons)
  show ?case
  proof (cases "c_key c = k")
    case False
    obtain ok l' where a: "Allow l (c_now c) (c_key c) (c_limit c) (c_window c) = (ok, l')"
      by (cases "Allow l (c_now c) (c_key c) (c_limit c) (c_window c)")
    have "buckets l' k = Some b" using Allow_other_key [OF False] a g by (metis snd_conv)
    then show ?thesis
      using Cons.IH [OF rest(1) _ rest(2), of l'] False a by (simp add: allowed_Cons)
  next
    case True
    then have p: "c_limit c = L" "c_window c = w" using Cons.prems(1) by (auto simp: uniform_Cons)
    show ?thesis
    proof (cases "b_count b \<ge> L")
      case True
      then have "Allow l (c_now c) (c_key c) (c_limit c) (c_window c) = (False, ?l)"
        using g c p \<open>c_key c = k\<close> by (simp add: Allow_def Let_def)
      then show ?thesis using Cons.IH [OF rest(1) g rest(2)] by (simp add: allowed_Cons)
    next
      case False
      let ?l' = "?l\<lparr>buckets := (buckets ?l)(k \<mapsto> b\<lparr>b_count := b_count b + 1\<rparr>)\<rparr>"
      have "Allow l (c_now c) (c_key c) (c_limit c) (c_window c) = (True, ?l')"
        using g c p \<open>c_key c = k\<close> False by (simp add: Allow_def Let_def)
      moreover have "allowed k ?l' cs \<le> nat (max 1 L - (b_count b + 1))"
        using Cons.IH [OF rest(1), of ?l' "b\<lparr>b_count := b_count b + 1\<rparr>"] rest(2) by simp
      ultimately show ?thesis using \<open>c_key c = k\<close> False by (simp add: allowed_Cons)
    qed
  qed
qed

text \<open>What the bucket of a key still admits in its current period.\<close>

definition room :: "int \<Rightarrow> Limiter \<Rightarrow> string \<Rightarrow> nat" where
  "room L l k = (case buckets l k of None \<Rightarrow> 0 | Some b \<Rightarrow> nat (max 1 L - b_count b))"

lemma allowed_span:
  assumes "uniform k L w cs" "\<forall>c \<in> set cs. t \<le> c_now c \<and> c_now c < t + w"
  shows "allowed k l cs \<le> nat (max 1 L) + room L l k"
  using assms
proof (induction cs arbitrary: l)
  case Nil
  then show ?case by simp
next
  case (Cons c cs)
  let ?l = "gc l (c_now c) (c_window c)"
  have rest: "uniform k L w cs" "\<forall>d \<in> set cs. t \<le> c_now d \<and> c_now d < t + w"
    using Cons.prems by (auto simp: uniform_Cons)
  have room_gc: "room L ?l k \<le> room L l k"
    using gc_Some [of l "c_now c" "c_window c" k] by (auto simp: room_def split: option.splits)
  show ?case
  proof (cases "c_key c = k")
    case other: False
    obtain ok l' where a: "Allow l (c_now c) (c_key c) (c_limit c) (c_window c) = (ok, l')"
      by (cases "Allow l (c_now c) (c_key c) (c_limit c) (c_window c)")
    then have "buckets l' k = buckets ?l k" using Allow_other_key [OF other] by (metis snd_conv)
    then have "room L l' k \<le> room L l k" using room_gc by (simp add: room_def)
    then show ?thesis using Cons.IH [OF rest, of l'] a other by (simp add: allowed_Cons)
  next
    case True
    then have L: "c_limit c = L" using Cons.prems(1) by (simp add: uniform_Cons)
    show ?thesis
    proof (cases rule: Allow_cases [of k "c_now c" l L "c_window c"])
      case (fresh l')
      have "\<forall>d \<in> set cs. c_now d < c_now c + w" using Cons.prems(2) by force
      then have "allowed k l' cs \<le> nat (max 1 L - 1)"
        using allowed_within [OF rest(1) fresh(1)] by simp
      then show ?thesis using fresh True L by (simp add: allowed_Cons)
    next
      case full
      then show ?thesis using Cons.IH [OF rest, of ?l] room_gc True L by (simp add: allowed_Cons)
    next
      case (more b l')
      then have "room L l' k + 1 \<le> room L ?l k" by (simp add: room_def)
      then show ?thesis using Cons.IH [OF rest, of l'] room_gc more True L by (simp add: allowed_Cons)
    qed
  qed
qed

definition counts_positive :: "Limiter \<Rightarrow> bool" where
  "counts_positive l \<longleftrightarrow> (\<forall>k b. buckets l k = Some b \<longrightarrow> 1 \<le> b_count b)"

lemma counts_positive_gc: "counts_positive l \<Longrightarrow> counts_positive (gc l now v)"
  unfolding counts_positive_def using gc_Some by blast

lemma counts_positive_Allow:
  assumes "counts_positive l"
  shows "counts_positive (snd (Allow l now k L v))"
proof -
  have g: "counts_positive (gc l now v)" using assms by (rule counts_positive_gc)
  show ?thesis
  proof (cases "buckets (gc l now v) k")
    case None
    with g show ?thesis by (simp add: Allow_def counts_positive_def)
  next
    case (Some b)
    with g have "0 \<le> b_count b" by (fastforce simp: counts_positive_def)
    with g Some show ?thesis by (simp add: Allow_def counts_positive_def)
  qed
qed

lemma counts_positive_final: "counts_positive l \<Longrightarrow> counts_positive (final l cs)"
  by (induction cs arbitrary: l) (simp_all add: counts_positive_Allow)

lemma counts_positive_New: "counts_positive (NewLimiter t)"
  by (simp add: counts_positive_def NewLimiter_def)

section \<open>Properties\<close>

text \<open>C39: After any history of calls, at most \<open>2 * limit - 1\<close> calls with one key are allowed within any
  span of one window length (one call when the limit is not positive), as long as no call uses a
  window shorter than a third of the key's own.\<close>

theorem limiter_bound:
  assumes "uniform k L w cs" "\<forall>c \<in> set cs. t \<le> c_now c \<and> c_now c < t + w"
  shows "int (allowed k (final (NewLimiter t0) earlier) cs) \<le> 2 * max 1 L - 1"
proof -
  let ?l = "final (NewLimiter t0) earlier"
  have "counts_positive ?l" by (simp add: counts_positive_final counts_positive_New)
  then have "room L ?l k \<le> nat (max 1 L - 1)"
    by (fastforce simp: room_def counts_positive_def intro!: nat_mono split: option.split)
  then show ?thesis using allowed_span [OF assms, of ?l] by linarith
qed

definition login_calls :: "call list" where
  "login_calls =
     [\<lparr>c_now = 5, c_key = ''login:10.0.0.1'', c_limit = 2, c_window = time_Minute\<rparr>,
      \<lparr>c_now = 6, c_key = ''register:10.0.0.1'', c_limit = 9, c_window = 10 * time_Minute\<rparr>,
      \<lparr>c_now = 7, c_key = ''login:10.0.0.1'', c_limit = 2, c_window = time_Minute\<rparr>,
      \<lparr>c_now = 8, c_key = ''login:10.0.0.1'', c_limit = 2, c_window = time_Minute\<rparr>]"

theorem limiter_bound_witness:
  "uniform ''login:10.0.0.1'' 2 time_Minute login_calls
   \<and> int (allowed ''login:10.0.0.1'' (final (NewLimiter 0) []) login_calls) \<le> 3"
proof -
  have u: "uniform ''login:10.0.0.1'' 2 time_Minute login_calls"
    by (simp add: uniform_def login_calls_def)
  have "\<forall>c \<in> set login_calls. 0 \<le> c_now c \<and> c_now c < 0 + time_Minute"
    by (simp add: login_calls_def)
  from u limiter_bound [OF u this, of 0 "[]"] show ?thesis by simp
qed

definition recovery_burst :: "gotime \<Rightarrow> call list" where
  "recovery_burst t =
     replicate 5 \<lparr>c_now = t, c_key = ''mfa_recovery_email_send_v2:10.0.0.1'', c_limit = 5,
                  c_window = 10 * time_Minute\<rparr>"

definition register_call :: "gotime \<Rightarrow> call" where
  "register_call t = \<lparr>c_now = t, c_key = ''register:10.0.0.1'', c_limit = 10, c_window = time_Minute\<rparr>"

definition overrun_calls :: "call list" where
  "overrun_calls =
     (let u = 3 * time_Minute + 1
      in recovery_burst 0 @ register_call u # recovery_burst u
         @ register_call (2 * u) # recovery_burst (2 * u)
         @ register_call (3 * u) # recovery_burst (3 * u))"

text \<open>The limiter is shared by routes with windows of one and of ten minutes, and the clean-up uses
  the window of whichever route is called, so the bound of a key fails when another route is
  called in between: with the limits of the API (five recovery mails per ten minutes, a
  one-minute route in between) twenty calls for one key are allowed within ten minutes.\<close>

theorem limiter_shared_windows_overrun:
  "sorted (map c_now overrun_calls)
   \<and> c_now (hd overrun_calls) = 0 \<and> c_now (last overrun_calls) < 10 * time_Minute
   \<and> set (map (\<lambda>c. (c_limit c, c_window c))
           (filter (\<lambda>c. c_key c = ''mfa_recovery_email_send_v2:10.0.0.1'') overrun_calls))
       = {(5, 10 * time_Minute)}
   \<and> allowed ''mfa_recovery_email_send_v2:10.0.0.1'' (NewLimiter 0) overrun_calls = 20"
proof (intro conjI)
  show "allowed ''mfa_recovery_email_send_v2:10.0.0.1'' (NewLimiter 0) overrun_calls = 20"
    by code_simp
qed (simp_all add: overrun_calls_def recovery_burst_def register_call_def numeral_eq_Suc)

end
