(* ===== verification/Mailboxes.thy ===== *)
theory Mailboxes
  imports Prelude
begin

text \<open>
  \<^verbatim>\<open>internal/mail/mailboxes.go\<close>: the role of a mailbox (inbox, sent, trash, archive, junk, drafts)
  from its IMAP attributes or its name, and the choice of the mailbox that plays a role.
\<close>

record Mailbox =
  mb_Name :: string
  mb_Role :: string
  mb_Unread :: int
  mb_Messages :: int
  mb_CanRename :: bool
  mb_CanDelete :: bool

definition attribute_role :: "string \<Rightarrow> string" where
  "attribute_role a =
     (if a = (CHR 0x5C # ''inbox'') then ''inbox''
      else if a = (CHR 0x5C # ''sent'') then ''sent''
      else if a = (CHR 0x5C # ''trash'') then ''trash''
      else if a = (CHR 0x5C # ''archive'') \<or> a = (CHR 0x5C # ''all'') then ''archive''
      else if a = (CHR 0x5C # ''junk'') \<or> a = (CHR 0x5C # ''spam'') then ''junk''
      else if a = (CHR 0x5C # ''drafts'') then ''drafts''
      else [])"

fun mailboxRoleFromAttributes :: "string list \<Rightarrow> string" where
  "mailboxRoleFromAttributes [] = []"
| "mailboxRoleFromAttributes (a # as) =
     (let r = attribute_role (lower_trim a) in if r \<noteq> [] then r else mailboxRoleFromAttributes as)"

definition mailboxRoleFromName :: "string \<Rightarrow> string" where
  "mailboxRoleFromName name =
     (let v = lower_trim name in
      if v = ''inbox'' \<or> HasSuffix v ''/inbox'' then ''inbox''
      else if v = ''drafts'' \<or> Contains v ''draft'' then ''drafts''
      else if v = ''sent'' \<or> v = ''sent messages'' \<or> Contains v ''sent'' then ''sent''
      else if v = ''trash'' \<or> v = ''deleted messages'' \<or> Contains v ''trash'' \<or> Contains v ''deleted''
        then ''trash''
      else if v = ''archive'' \<or> Contains v ''archive'' \<or> Contains v ''all mail'' then ''archive''
      else if v = ''junk'' \<or> v = ''spam'' \<or> Contains v ''junk'' \<or> Contains v ''spam'' then ''junk''
      else [])"

definition MailboxRole :: "string \<Rightarrow> string list \<Rightarrow> string" where
  "MailboxRole name attributes =
     (let attrRole = mailboxRoleFromAttributes attributes in
      if attrRole \<noteq> [] then attrRole else mailboxRoleFromName name)"

definition ResolveMailboxByRole :: "Mailbox list \<Rightarrow> string \<Rightarrow> string" where
  "ResolveMailboxByRole mailboxes role =
     (let target = lower_trim role in
      if target = [] then []
      else case find (\<lambda>mb. EqualFold (TrimSpace (mb_Role mb)) target) mailboxes of
             Some mb \<Rightarrow> TrimSpace (mb_Name mb)
           | None \<Rightarrow>
               (case find (\<lambda>mb. mailboxRoleFromName (mb_Name mb) = target) mailboxes of
                  Some mb \<Rightarrow> TrimSpace (mb_Name mb)
                | None \<Rightarrow> []))"

definition mailbox_roles :: "string set" where
  "mailbox_roles = {''inbox'', ''sent'', ''trash'', ''archive'', ''junk'', ''drafts''}"

lemma attribute_role_range: "attribute_role a \<in> insert [] mailbox_roles"
  by (simp add: attribute_role_def mailbox_roles_def)

lemma mailboxRoleFromAttributes_range: "mailboxRoleFromAttributes as \<in> insert [] mailbox_roles"
  using attribute_role_range by (induction as) auto

lemma mailboxRoleFromName_range: "mailboxRoleFromName n \<in> insert [] mailbox_roles"
  by (simp add: mailboxRoleFromName_def mailbox_roles_def)

text \<open>A mailbox role is always one of the six known roles or empty, and resolving a role returns
  the name of a listed mailbox that has the role: by its declared role if any mailbox declares it,
  otherwise by its name; nothing is returned exactly when no mailbox qualifies or the qualifying
  mailbox has a blank name.\<close>

theorem mailbox_role_resolution:
  "MailboxRole name attrs \<in> insert [] mailbox_roles
   \<and> (let target = lower_trim role;
          declares = (\<lambda>mb. EqualFold (TrimSpace (mb_Role mb)) target);
          named = (\<lambda>mb. mailboxRoleFromName (mb_Name mb) = target);
          qualifies = (\<lambda>mb. target \<noteq> [] \<and> mb \<in> set mbs
                         \<and> (declares mb \<or> named mb \<and> (\<forall>m \<in> set mbs. \<not> declares m)))
      in (ResolveMailboxByRole mbs role \<noteq> []
            \<longrightarrow> (\<exists>mb. qualifies mb \<and> ResolveMailboxByRole mbs role = TrimSpace (mb_Name mb)))
         \<and> (ResolveMailboxByRole mbs role = []
            \<longrightarrow> (\<forall>mb. \<not> qualifies mb) \<or> (\<exists>mb. qualifies mb \<and> TrimSpace (mb_Name mb) = [])))"
proof -
  have r: "MailboxRole name attrs \<in> insert [] mailbox_roles"
    using mailboxRoleFromAttributes_range [of attrs] mailboxRoleFromName_range [of name]
    by (auto simp: MailboxRole_def)
  have f: "x \<in> set xs \<and> P x" if "find P xs = Some x" for P x and xs :: "Mailbox list"
    using that by (metis find_Some_iff nth_mem)
  have n: "\<forall>x \<in> set xs. \<not> P x" if "find P xs = None" for P and xs :: "Mailbox list"
    using that by (simp add: find_None_iff)
  show ?thesis
    using r by (fastforce simp: ResolveMailboxByRole_def dest!: f n split: option.splits)
qed

theorem mailbox_role_resolution_witness:
  "let mbs = [\<lparr>mb_Name = ''Sent Items'', mb_Role = [], mb_Unread = 0, mb_Messages = 0,
               mb_CanRename = False, mb_CanDelete = False\<rparr>,
              \<lparr>mb_Name = ''Outgoing'', mb_Role = ''sent'', mb_Unread = 0, mb_Messages = 0,
               mb_CanRename = False, mb_CanDelete = False\<rparr>]
   in MailboxRole ''INBOX'' [(CHR 0x5C # ''HasNoChildren'')] \<in> insert [] mailbox_roles
      \<and> ResolveMailboxByRole mbs ''Sent'' = ''Outgoing''"
proof -
  let ?mbs = "[\<lparr>mb_Name = ''Sent Items'', mb_Role = [], mb_Unread = 0, mb_Messages = 0,
               mb_CanRename = False, mb_CanDelete = False\<rparr>,
              \<lparr>mb_Name = ''Outgoing'', mb_Role = ''sent'', mb_Unread = 0, mb_Messages = 0,
               mb_CanRename = False, mb_CanDelete = False\<rparr>]"
  have "ResolveMailboxByRole ?mbs ''Sent'' = ''Outgoing''" by code_simp
  then show ?thesis
    using mailbox_role_resolution [of "''INBOX''" "[(CHR 0x5C # ''HasNoChildren'')]" "''Sent''" ?mbs] by simp
qed

end
