(* ===== verification/Secrets.thy ===== *)
theory Secrets
  imports Codec
begin

text \<open>
  \<^verbatim>\<open>internal/auth/password.go\<close>, \<^verbatim>\<open>internal/auth/token.go\<close> and \<^verbatim>\<open>internal/util/crypto.go\<close>: password
  hashes, opaque tokens and the encryption of stored mail secrets.  The cryptographic functions
  (Argon2id, SHA-256, AES-GCM) and the random bytes are arguments; what is proved is the handling
  around them: formats, parsing, parameters and error paths.
\<close>

datatype secret_error = RandError | KeySizeError | Base64Error | PayloadError | AuthTagError

section \<open>Password hashes\<close>

text \<open>\<open>idkey password salt time memory threads keyLen\<close> stands for \<^verbatim>\<open>argon2.IDKey\<close>.\<close>

type_synonym idkey = "string \<Rightarrow> string \<Rightarrow> nat \<Rightarrow> nat \<Rightarrow> nat \<Rightarrow> nat \<Rightarrow> string"

definition argonMemory :: nat where "argonMemory = 32 * 1024"
definition argonIterations :: nat where "argonIterations = 2"
definition argonParallelism :: nat where "argonParallelism = 1"
definition argonKeyLen :: nat where "argonKeyLen = 32"
definition saltLen :: nat where "saltLen = 16"

definition HashPassword :: "idkey \<Rightarrow> (nat \<Rightarrow> string option) \<Rightarrow> string \<Rightarrow> secret_error + string" where
  "HashPassword idkey rand pw =
     (case rand saltLen of
        None \<Rightarrow> Inl RandError
      | Some salt \<Rightarrow>
          let hash = idkey pw salt argonIterations argonMemory argonParallelism argonKeyLen
          in Inr (''$argon2id$v=19$m='' @ show_nat argonMemory @ '',t='' @ show_nat argonIterations
                  @ '',p='' @ show_nat argonParallelism @ ''$'' @ RawStdEncode salt @ ''$''
                  @ RawStdEncode hash))"

text \<open>\<^verbatim>\<open>fmt.Sscanf\<close> with the format \<^verbatim>\<open>m=%d,t=%d,p=%d\<close>: literal bytes must match, blanks other than a
  line feed may precede a number, a number is a maximal run of digits that fits 64 bits and the
  width of its destination, and trailing input is not looked at.\<close>

definition expect :: "string \<Rightarrow> string \<Rightarrow> string option" where
  "expect p s = (if prefix p s then Some (drop (length p) s) else None)"

definition scan_space :: "string \<Rightarrow> string option" where
  "scan_space s =
     (let r = strip_runes (length s) (removeAll [CHR 0x0A] space_runes) s
      in case r of c # _ \<Rightarrow> if c = CHR 0x0A then None else Some r | [] \<Rightarrow> Some r)"

definition scan_uint :: "nat \<Rightarrow> string \<Rightarrow> (nat \<times> string) option" where
  "scan_uint bits s =
     (case scan_space s of
        None \<Rightarrow> None
      | Some r \<Rightarrow>
          (case ParseUint 64 (takeWhile is_digit r) of
             None \<Rightarrow> None
           | Some n \<Rightarrow> if n < 2 ^ bits then Some (n, dropWhile is_digit r) else None))"

definition scan_params :: "string \<Rightarrow> (nat \<times> nat \<times> nat) option" where
  "scan_params s =
     Option.bind (expect ''m='' s) (\<lambda>s1.
     Option.bind (scan_uint 32 s1) (\<lambda>(mem, s2).
     Option.bind (expect '',t='' s2) (\<lambda>s3.
     Option.bind (scan_uint 32 s3) (\<lambda>(it, s4).
     Option.bind (expect '',p='' s4) (\<lambda>s5.
     Option.bind (scan_uint 8 s5) (\<lambda>(par, s6). Some (mem, it, par)))))))"

text \<open>The result is \<^const>\<open>None\<close> where \<^verbatim>\<open>argon2.IDKey\<close> panics (no rounds or no threads).\<close>

definition VerifyPassword :: "idkey \<Rightarrow> string \<Rightarrow> string \<Rightarrow> bool option" where
  "VerifyPassword idkey encoded pw =
     (let parts = Split (CHR ''$'') encoded in
      if length parts \<noteq> 6 \<or> parts ! 1 \<noteq> ''argon2id'' then Some False
      else case scan_params (parts ! 3) of
             None \<Rightarrow> Some False
           | Some (mem, it, par) \<Rightarrow>
               (case RawStdDecode (parts ! 4) of
                  None \<Rightarrow> Some False
                | Some salt \<Rightarrow>
                    (case RawStdDecode (parts ! 5) of
                       None \<Rightarrow> Some False
                     | Some hash \<Rightarrow>
                         if it = 0 \<or> par = 0 then None
                         else Some (hash = idkey pw salt it mem par (length hash)))))"

section \<open>Opaque tokens\<close>

definition hex_sha256 :: "(string \<Rightarrow> string) \<Rightarrow> string \<Rightarrow> string" where
  "hex_sha256 sha256 s = HexEncode (sha256 s)"

definition NewOpaqueToken ::
  "(string \<Rightarrow> string) \<Rightarrow> (nat \<Rightarrow> string option) \<Rightarrow> secret_error + string \<times> string" where
  "NewOpaqueToken sha256 rand =
     (case rand 32 of
        None \<Rightarrow> Inl RandError
      | Some buf \<Rightarrow> let raw = RawURLEncode buf in Inr (raw, hex_sha256 sha256 raw))"

section \<open>Encrypted strings\<close>

text \<open>AES-GCM: \<open>seal key nonce plaintext\<close> and \<open>open key nonce ciphertext\<close>.\<close>

record aead =
  seal :: "string \<Rightarrow> string \<Rightarrow> string \<Rightarrow> string"
  open_sealed :: "string \<Rightarrow> string \<Rightarrow> string \<Rightarrow> string option"

definition gcm_nonce_size :: nat where "gcm_nonce_size = 12"

definition aes_key_ok :: "string \<Rightarrow> bool" where
  "aes_key_ok key \<longleftrightarrow> length key = 16 \<or> length key = 24 \<or> length key = 32"

definition Derive32ByteKey :: "(string \<Rightarrow> string) \<Rightarrow> string \<Rightarrow> string" where
  "Derive32ByteKey sha256 secret = take 32 (sha256 secret @ replicate 32 (CHR 0x00))"

definition EncryptString ::
  "aead \<Rightarrow> (nat \<Rightarrow> string option) \<Rightarrow> string \<Rightarrow> string \<Rightarrow> secret_error + string" where
  "EncryptString ae rand key plaintext =
     (if \<not> aes_key_ok key then Inl KeySizeError
      else case rand gcm_nonce_size of
             None \<Rightarrow> Inl RandError
           | Some nonce \<Rightarrow> Inr (RawURLEncode (nonce @ seal ae key nonce plaintext)))"

definition DecryptString :: "aead \<Rightarrow> string \<Rightarrow> string \<Rightarrow> secret_error + string" where
  "DecryptString ae key token =
     (case RawURLDecode token of
        None \<Rightarrow> Inl Base64Error
      | Some raw \<Rightarrow>
          if \<not> aes_key_ok key then Inl KeySizeError
          else if length raw < gcm_nonce_size then Inl PayloadError
          else case open_sealed ae key (take gcm_nonce_size raw) (drop gcm_nonce_size raw) of
                 None \<Rightarrow> Inl AuthTagError
               | Some plain \<Rightarrow> Inr plain)"

section \<open>Properties\<close>

lemma scan_space_digit: "is_digit c \<Longrightarrow> scan_space (c # s) = Some (c # s)"
proof -
  assume c: "is_digit c"
  have "\<not> is_digit (hd p) \<and> p \<noteq> []" if "p \<in> set space_runes" for p
    using that by (auto simp: space_runes_def is_digit_def)
  then have "\<not> prefix p (c # s)" if "p \<in> set space_runes" for p
    using that c by (cases p) fastforce+
  then have "no_rune (removeAll [CHR 0x0A] space_runes) (c # s)" by (simp add: no_rune_def)
  then have "strip_runes (length (c # s)) (removeAll [CHR 0x0A] space_runes) (c # s) = c # s"
    by (rule strip_runes_id)
  moreover have "c \<noteq> CHR 0x0A" using c by (auto simp: is_digit_def)
  ultimately show ?thesis by (simp add: scan_space_def del: strip_runes.simps)
qed

lemma scan_uint_digits:
  assumes "ds \<noteq> []" "list_all is_digit ds" "rest = [] \<or> \<not> is_digit (hd rest)"
    and "digits_value ds < 2 ^ bits" "bits \<le> 64"
  shows "scan_uint bits (ds @ rest) = Some (digits_value ds, rest)"
proof -
  obtain c cs where ds: "ds = c # cs" using assms(1) by (cases ds) auto
  have "takeWhile is_digit (ds @ rest) = ds" "dropWhile is_digit (ds @ rest) = rest"
    using assms(2,3) by (cases rest; auto simp: list_all_iff takeWhile_append dropWhile_append)+
  moreover have "scan_space (ds @ rest) = Some (ds @ rest)"
    using assms(2) ds by (simp add: scan_space_digit)
  moreover have "digits_value ds < 2 ^ 64"
    using assms(4,5) power_increasing [of bits 64 "2 :: nat"] by linarith
  ultimately show ?thesis using assms by (simp add: scan_uint_def ParseUint_def)
qed

lemma scan_uint_show_nat:
  "n < 2 ^ bits \<Longrightarrow> bits \<le> 64 \<Longrightarrow> rest = [] \<or> \<not> is_digit (hd rest)
   \<Longrightarrow> scan_uint bits (show_nat n @ rest) = Some (n, rest)"
  using scan_uint_digits [of "show_nat n" rest bits] by (simp add: show_nat_digits)

lemma comma_not_digit [simp]: "\<not> is_digit (CHR '','')"
  by (simp add: is_digit_def)

lemma expect_append [simp]: "expect p (p @ s) = Some s"
  by (simp add: expect_def)

lemma scan_params_show_nat:
  assumes "m < 2 ^ 32" "t < 2 ^ 32" "p < 2 ^ 8"
  shows "scan_params (''m='' @ show_nat m @ '',t='' @ show_nat t @ '',p='' @ show_nat p) = Some (m, t, p)"
proof -
  have "scan_uint 8 (show_nat p) = Some (p, [])"
    using scan_uint_show_nat [of p 8 "[]"] assms by simp
  moreover have "scan_uint 32 (show_nat t @ '',p='' @ show_nat p) = Some (t, '',p='' @ show_nat p)"
    by (rule scan_uint_show_nat) (use assms in simp_all)
  moreover have "scan_uint 32 (show_nat m @ '',t='' @ show_nat t @ '',p='' @ show_nat p)
      = Some (m, '',t='' @ show_nat t @ '',p='' @ show_nat p)"
    by (rule scan_uint_show_nat) (use assms in simp_all)
  ultimately show ?thesis
    by (simp only: scan_params_def expect_append Option.bind.simps prod.case)
qed

lemma scan_params_format:
  "scan_params (''m='' @ show_nat argonMemory @ '',t='' @ show_nat argonIterations
      @ '',p='' @ show_nat argonParallelism) = Some (argonMemory, argonIterations, argonParallelism)"
  by (rule scan_params_show_nat) (simp_all add: argonMemory_def argonIterations_def argonParallelism_def)

lemma format_no_dollar:
  "CHR ''$'' \<notin> set (''m='' @ show_nat argonMemory @ '',t='' @ show_nat argonIterations
      @ '',p='' @ show_nat argonParallelism)"
  by (simp add: not_digit_notin is_digit_def)

lemma RawStd_no_dollar: "CHR ''$'' \<notin> set (RawStdEncode s)"
  using RawStd_set [of s] by (auto simp: b64_std_alphabet_def)

lemma Split3:
  "c \<notin> set a \<Longrightarrow> c \<notin> set b \<Longrightarrow> c \<notin> set d \<Longrightarrow> Split c (a @ c # b @ c # d) = [a, b, d]"
  by (simp add: Split_append Split_notin)

lemma Split_head3:
  "c \<notin> set a \<Longrightarrow> c \<notin> set b \<Longrightarrow> c \<notin> set d
   \<Longrightarrow> Split c (a @ c # b @ c # d @ c # r) = a # b # d # Split c r"
  by (simp add: Split_append)

lemma HashPassword_parts:
  assumes "HashPassword idkey rand pw = Inr enc"
  obtains salt where "rand saltLen = Some salt"
    and "Split (CHR ''$'') enc =
      [[], ''argon2id'', ''v=19'',
       ''m='' @ show_nat argonMemory @ '',t='' @ show_nat argonIterations @ '',p='' @ show_nat argonParallelism,
       RawStdEncode salt,
       RawStdEncode (idkey pw salt argonIterations argonMemory argonParallelism argonKeyLen)]"
proof -
  obtain salt where r: "rand saltLen = Some salt"
    using assms by (cases "rand saltLen") (auto simp: HashPassword_def)
  let ?f = "''m='' @ show_nat argonMemory @ '',t='' @ show_nat argonIterations @ '',p='' @ show_nat argonParallelism"
  let ?h = "idkey pw salt argonIterations argonMemory argonParallelism argonKeyLen"
  let ?rest = "?f @ CHR ''$'' # RawStdEncode salt @ CHR ''$'' # RawStdEncode ?h"
  have enc: "enc = [] @ CHR ''$'' # ''argon2id'' @ CHR ''$'' # ''v=19'' @ CHR ''$'' # ?rest"
    using assms r by (simp add: HashPassword_def)
  have "Split (CHR ''$'') enc = [] # ''argon2id'' # ''v=19'' # Split (CHR ''$'') ?rest"
    unfolding enc by (rule Split_head3) simp_all
  moreover have "Split (CHR ''$'') ?rest = [?f, RawStdEncode salt, RawStdEncode ?h]"
    by (rule Split3 [OF format_no_dollar RawStd_no_dollar RawStd_no_dollar])
  ultimately have "Split (CHR ''$'') enc = [[], ''argon2id'', ''v=19'', ?f, RawStdEncode salt, RawStdEncode ?h]"
    by simp
  with r show ?thesis by (rule that)
qed

text \<open>Verifying a password against a stored hash accepts exactly the passwords whose derived key
  (same salt, same parameters) equals the one stored, so the password that was hashed is always
  accepted; it neither fails to parse the stored hash nor panics.\<close>

theorem verify_hashed_password:
  assumes klen: "\<And>p s t m n l. length (idkey p s t m n l) = l"
    and enc: "HashPassword idkey rand pw = Inr enc"
  shows "VerifyPassword idkey enc pw = Some True
    \<and> (\<exists>salt. rand saltLen = Some salt
         \<and> VerifyPassword idkey enc pw'
             = Some (idkey pw salt argonIterations argonMemory argonParallelism argonKeyLen
                     = idkey pw' salt argonIterations argonMemory argonParallelism argonKeyLen))"
proof -
  obtain salt where s: "rand saltLen = Some salt"
    and p: "Split (CHR ''$'') enc =
      [[], ''argon2id'', ''v=19'',
       ''m='' @ show_nat argonMemory @ '',t='' @ show_nat argonIterations @ '',p='' @ show_nat argonParallelism,
       RawStdEncode salt,
       RawStdEncode (idkey pw salt argonIterations argonMemory argonParallelism argonKeyLen)]"
    using HashPassword_parts [OF enc] by blast
  have v: "VerifyPassword idkey enc q
        = Some (idkey pw salt argonIterations argonMemory argonParallelism argonKeyLen
                = idkey q salt argonIterations argonMemory argonParallelism argonKeyLen)" for q
    unfolding VerifyPassword_def Let_def p
    using scan_params_format klen
    by (simp add: argonIterations_def argonParallelism_def)
  then show ?thesis using s by auto
qed

theorem verify_hashed_password_witness:
  "let idkey = (\<lambda>p s t m n l. take l (p @ s @ replicate l (CHR ''x'')));
       rand = (\<lambda>n. Some (replicate n (CHR ''s'')))
   in \<exists>enc. HashPassword idkey rand ''hunter2'' = Inr enc \<and> VerifyPassword idkey enc ''hunter2'' = Some True"
proof -
  let ?k = "\<lambda>p s t m n l. take l (p @ s @ replicate l (CHR ''x''))"
  let ?r = "\<lambda>n. Some (replicate n (CHR ''s''))"
  obtain enc where e: "HashPassword ?k ?r ''hunter2'' = Inr enc"
    by (simp add: HashPassword_def)
  have "\<And>p s t m n l. length (?k p s t m n l) = l" by simp
  from verify_hashed_password [of ?k, OF this e] have "VerifyPassword ?k enc ''hunter2'' = Some True"
    by blast
  with e show ?thesis unfolding Let_def by blast
qed

text \<open>C40: Decrypting what was encrypted under the same 32-byte key gives the plaintext back, and a token
  that does not decode, is too short or fails authentication is an error, never a wrong plaintext.\<close>

theorem encrypt_decrypt_roundtrip:
  assumes open_seal: "\<And>k n p. length n = gcm_nonce_size \<Longrightarrow> open_sealed ae k n (seal ae k n p) = Some p"
    and sha: "length (sha256 secret) = 32"
    and nonce: "rand gcm_nonce_size = Some nonce" "length nonce = gcm_nonce_size"
  shows "\<exists>token. EncryptString ae rand (Derive32ByteKey sha256 secret) plain = Inr token
           \<and> DecryptString ae (Derive32ByteKey sha256 secret) token = Inr plain
           \<and> (\<forall>t p. DecryptString ae (Derive32ByteKey sha256 secret) t = Inr p
                \<longrightarrow> (\<exists>n c. RawURLDecode t = Some (n @ c) \<and> length n = gcm_nonce_size
                        \<and> open_sealed ae (Derive32ByteKey sha256 secret) n c = Some p))"
proof -
  let ?k = "Derive32ByteKey sha256 secret"
  have k: "aes_key_ok ?k" using sha by (simp add: aes_key_ok_def Derive32ByteKey_def)
  have e: "EncryptString ae rand ?k plain = Inr (RawURLEncode (nonce @ seal ae ?k nonce plain))"
    using k nonce by (simp add: EncryptString_def)
  have d: "DecryptString ae ?k (RawURLEncode (nonce @ seal ae ?k nonce plain)) = Inr plain"
    using k nonce open_seal by (simp add: DecryptString_def)
  have "\<exists>n c. RawURLDecode t = Some (n @ c) \<and> length n = gcm_nonce_size \<and> open_sealed ae ?k n c = Some p"
    if dec: "DecryptString ae ?k t = Inr p" for t p
  proof -
    obtain raw where r: "RawURLDecode t = Some raw" "gcm_nonce_size \<le> length raw"
      "open_sealed ae ?k (take gcm_nonce_size raw) (drop gcm_nonce_size raw) = Some p"
      using dec k by (auto simp: DecryptString_def split: option.splits if_splits)
    then show ?thesis
      by (intro exI [of _ "take gcm_nonce_size raw"] exI [of _ "drop gcm_nonce_size raw"]) auto
  qed
  with e d show ?thesis by blast
qed

theorem encrypt_decrypt_roundtrip_witness:
  "let ae = \<lparr>seal = (\<lambda>k n p. p @ n), open_sealed = (\<lambda>k n c. Some (take (length c - length n) c))\<rparr>;
       sha = (\<lambda>s. replicate 32 (CHR ''k'')); rand = (\<lambda>n. Some (replicate n (CHR ''r'')))
   in \<exists>token. EncryptString ae rand (Derive32ByteKey sha ''app-key'') ''secret'' = Inr token
        \<and> DecryptString ae (Derive32ByteKey sha ''app-key'') token = Inr ''secret''"
proof -
  let ?ae = "\<lparr>seal = (\<lambda>k n p. p @ n), open_sealed = (\<lambda>k n c. Some (take (length c - length n) c))\<rparr>"
  let ?sha = "\<lambda>s :: string. replicate 32 (CHR ''k'')"
  let ?r = "\<lambda>n. Some (replicate n (CHR ''r''))"
  have "\<And>k n p. length n = gcm_nonce_size \<Longrightarrow> open_sealed ?ae k n (seal ?ae k n p) = Some p" by simp
  from encrypt_decrypt_roundtrip [of ?ae ?sha "''app-key''" ?r, OF this, of "replicate 12 (CHR ''r'')" "''secret''"]
  show ?thesis by (auto simp: gcm_nonce_size_def)
qed

end
