(* ===== verification/Models.thy ===== *)
theory Models
  imports Prelude
begin

text \<open>
  The rows the server keeps: the structs of \<^verbatim>\<open>internal/models\<close> that the account and session code
  uses, and the database as a record of tables (\<^verbatim>\<open>migrations/\<close>).  A nullable column and a pointer
  field are options; a \<^verbatim>\<open>time.Time\<close> whose zero value stands for NULL is an option too.  Integer
  flags that the store writes with \<^verbatim>\<open>boolToInt\<close> are booleans.  Timestamps are integers (Unix
  nanoseconds): the server only writes UTC times, whose stored text orders like the times.
\<close>

section \<open>Structs\<close>

abbreviation UserPending :: string where "UserPending \<equiv> ''pending''"
abbreviation UserActive :: string where "UserActive \<equiv> ''active''"
abbreviation UserSuspended :: string where "UserSuspended \<equiv> ''suspended''"
abbreviation UserRejected :: string where "UserRejected \<equiv> ''rejected''"

record User =
  u_ID :: string
  u_Email :: string
  u_RecoveryEmail :: "string option"
  u_MailLogin :: "string option"
  u_MFAPreference :: string
  u_LegacyMFAPromptPending :: bool
  u_MFASetupSwitchUsed :: bool
  u_MFABackupCompleted :: bool
  u_PasswordHash :: string
  u_Role :: string
  u_Status :: string
  u_ProvisionState :: string
  u_ProvisionError :: "string option"
  u_CreatedAt :: gotime
  u_ApprovedAt :: "gotime option"
  u_ApprovedBy :: "string option"
  u_LastLoginAt :: "gotime option"

text \<open>A row of \<^verbatim>\<open>users\<close> has two columns more, which only the mail secret functions read.\<close>

record user_row = User +
  u_mail_secret_enc :: "string option"
  u_mail_secret_updated_at :: "gotime option"

record Registration =
  r_ID :: string
  r_Email :: string
  r_MFAPreference :: string
  r_SourceIP :: string
  r_UserAgentHash :: string
  r_CaptchaOK :: bool
  r_Status :: string
  r_CreatedAt :: gotime
  r_DecidedAt :: "gotime option"
  r_DecidedBy :: "string option"
  r_Reason :: "string option"

record Session =
  s_ID :: string
  s_UserID :: string
  s_TokenHash :: string
  s_MailSecret :: string
  s_IPHint :: string
  s_UserAgentHash :: string
  s_AuthMethod :: string
  s_MFAVerifiedAt :: "gotime option"
  s_ActiveAccountID :: "string option"
  s_ExpiresAt :: gotime
  s_IdleExpiresAt :: gotime
  s_CreatedAt :: gotime
  s_LastSeenAt :: gotime
  s_RevokedAt :: "gotime option"

record PasswordResetToken =
  t_ID :: string
  t_UserID :: string
  t_TokenHash :: string
  t_ReservationID :: "string option"
  t_ReservedAt :: "gotime option"
  t_ExpiresAt :: gotime
  t_UsedAt :: "gotime option"
  t_CreatedAt :: gotime

record AuditEntry =
  a_ID :: string
  a_ActorUserID :: string
  a_Action :: string
  a_Target :: string
  a_MetadataJSON :: string
  a_CreatedAt :: gotime

record rate_event =
  re_id :: string
  re_key :: string
  re_route :: string
  re_window_start :: gotime
  re_count :: int
  re_created_at :: gotime
  re_updated_at :: gotime

record SettingValue =
  set_Key :: string
  set_Value :: string
  set_UpdatedAt :: gotime

record MFAStatus =
  HasTOTP :: bool
  TOTPEnabled :: bool
  WebAuthnCount :: int
  RecoveryCodes :: int
  RecoveryUnused :: int

record MFATOTPRecord =
  tp_UserID :: string
  tp_SecretEnc :: string
  tp_Issuer :: string
  tp_AccountName :: string
  tp_Enabled :: bool
  tp_EnrolledAt :: "gotime option"
  tp_UpdatedAt :: gotime

record MFAWebAuthnCredential =
  wa_ID :: string
  wa_UserID :: string
  wa_CredentialID :: string
  wa_PublicKey :: string
  wa_SignCount :: int
  wa_TransportsJSON :: string
  wa_Name :: string
  wa_CreatedAt :: "gotime option"
  wa_LastUsedAt :: "gotime option"

record recovery_code =
  rc_id :: string
  rc_user_id :: string
  rc_code_hash :: string
  rc_used_at :: "gotime option"
  rc_created_at :: gotime

record MFATrustedDevice =
  td_ID :: string
  td_UserID :: string
  td_TokenHash :: string
  td_UAHash :: string
  td_IPHint :: string
  td_DeviceLabel :: string
  td_CreatedAt :: "gotime option"
  td_LastUsedAt :: "gotime option"
  td_ExpiresAt :: "gotime option"
  td_RevokedAt :: "gotime option"

record session_meta =
  sm_session_id :: string
  sm_user_id :: string
  sm_device_label :: string
  sm_ua_summary :: string
  sm_ip_hint :: string
  sm_revoked_reason :: string
  sm_updated_at :: gotime

record MailAccount =
  ma_ID :: string
  ma_UserID :: string
  ma_DisplayName :: string
  ma_Login :: string
  ma_SecretEnc :: string
  ma_IMAPHost :: string
  ma_IMAPPort :: int
  ma_IMAPTLS :: bool
  ma_IMAPStartTLS :: bool
  ma_SMTPHost :: string
  ma_SMTPPort :: int
  ma_SMTPTLS :: bool
  ma_SMTPStartTLS :: bool
  ma_IsDefault :: bool
  ma_Status :: string
  ma_LastSyncAt :: "gotime option"
  ma_LastError :: string
  ma_ProviderType :: string
  ma_ProviderLabel :: string
  ma_AuthKind :: string
  ma_ConnectionMode :: string
  ma_ValidationIMAPReady :: bool
  ma_ValidationSMTPReady :: bool
  ma_ValidationAppPasswordRequired :: bool
  ma_ValidationError :: string
  ma_LastValidatedAt :: "gotime option"
  ma_CreatedAt :: gotime
  ma_UpdatedAt :: gotime

section \<open>The database\<close>

record db =
  users :: "user_row list"
  registrations :: "Registration list"
  sessions :: "Session list"
  admin_audit_log :: "AuditEntry list"
  rate_limit_events :: "rate_event list"
  settings :: "SettingValue list"
  password_reset_tokens :: "PasswordResetToken list"
  mfa_totp :: "MFATOTPRecord list"
  mfa_webauthn_credentials :: "MFAWebAuthnCredential list"
  mfa_recovery_codes :: "recovery_code list"
  mfa_trusted_devices :: "MFATrustedDevice list"
  user_sessions_meta :: "session_meta list"
  mail_accounts :: "MailAccount list"

definition empty_db :: db where
  "empty_db = \<lparr>users = [], registrations = [], sessions = [], admin_audit_log = [],
     rate_limit_events = [], settings = [], password_reset_tokens = [], mfa_totp = [],
     mfa_webauthn_credentials = [], mfa_recovery_codes = [], mfa_trusted_devices = [],
     user_sessions_meta = [], mail_accounts = []\<rparr>"

text \<open>The unique keys of each table: the primary key and the unique indexes of the migrations.\<close>

type_synonym ('r, 'k) keys = "('r \<Rightarrow> 'k) list"

definition users_keys :: "(user_row, string list) keys" where
  "users_keys = [\<lambda>r. [u_ID r], \<lambda>r. [u_Email r]]"

definition registrations_keys :: "(Registration, string list) keys" where
  "registrations_keys = [\<lambda>r. [r_ID r], \<lambda>r. [r_Email r, r_Status r]]"

definition sessions_keys :: "(Session, string list) keys" where
  "sessions_keys = [\<lambda>r. [s_ID r], \<lambda>r. [s_TokenHash r]]"

definition audit_keys :: "(AuditEntry, string list) keys" where "audit_keys = [\<lambda>r. [a_ID r]]"

definition rate_keys :: "(rate_event, string list \<times> gotime) keys" where
  "rate_keys = [\<lambda>r. ([re_id r], 0), \<lambda>r. ([re_key r, re_route r], re_window_start r)]"

definition settings_keys :: "(SettingValue, string list) keys" where "settings_keys = [\<lambda>r. [set_Key r]]"

definition tokens_keys :: "(PasswordResetToken, string list) keys" where
  "tokens_keys = [\<lambda>r. [t_ID r], \<lambda>r. [t_TokenHash r]]"

definition totp_keys :: "(MFATOTPRecord, string list) keys" where "totp_keys = [\<lambda>r. [tp_UserID r]]"

definition webauthn_keys :: "(MFAWebAuthnCredential, string list) keys" where
  "webauthn_keys = [\<lambda>r. [wa_ID r], \<lambda>r. [wa_CredentialID r]]"

definition recovery_keys :: "(recovery_code, string list) keys" where "recovery_keys = [\<lambda>r. [rc_id r]]"

definition devices_keys :: "(MFATrustedDevice, string list) keys" where
  "devices_keys = [\<lambda>r. [td_ID r], \<lambda>r. [td_TokenHash r]]"

definition meta_keys :: "(session_meta, string list) keys" where "meta_keys = [\<lambda>r. [sm_session_id r]]"

definition accounts_keys :: "(MailAccount, string list) keys" where "accounts_keys = [\<lambda>r. [ma_ID r]]"

section \<open>Tables\<close>

definition uniq :: "('r, 'k) keys \<Rightarrow> 'r list \<Rightarrow> bool" where
  "uniq ks t \<longleftrightarrow> list_all (\<lambda>k. distinct (map k t)) ks"

text \<open>A statement yields the new table and the number of rows it affected, or \<^const>\<open>None\<close> when it
  would break a unique key; the table is then as before.\<close>

definition t_insert :: "('r, 'k) keys \<Rightarrow> 'r \<Rightarrow> 'r list \<Rightarrow> ('r list \<times> int) option" where
  "t_insert ks r t = (if uniq ks (t @ [r]) then Some (t @ [r], 1) else None)"

definition t_update :: "('r, 'k) keys \<Rightarrow> ('r \<Rightarrow> bool) \<Rightarrow> ('r \<Rightarrow> 'r) \<Rightarrow> 'r list \<Rightarrow> ('r list \<times> int) option" where
  "t_update ks P f t =
     (let t' = map (\<lambda>r. if P r then f r else r) t
      in if uniq ks t' then Some (t', int (length (filter P t))) else None)"

definition t_delete :: "('r \<Rightarrow> bool) \<Rightarrow> 'r list \<Rightarrow> ('r list \<times> int) option" where
  "t_delete P t = Some (filter (\<lambda>r. \<not> P r) t, int (length (filter P t)))"

text \<open>\<^verbatim>\<open>INSERT ... ON CONFLICT(key) DO UPDATE\<close>: \<open>same\<close> finds the conflicting row, \<open>f\<close> updates it.\<close>

definition t_upsert ::
  "('r, 'k) keys \<Rightarrow> ('r \<Rightarrow> bool) \<Rightarrow> ('r \<Rightarrow> 'r) \<Rightarrow> 'r \<Rightarrow> 'r list \<Rightarrow> ('r list \<times> int) option" where
  "t_upsert ks same f r t =
     (if list_ex same t then t_update ks same f t else t_insert ks r t)"

lemma uniq_Nil [simp]: "uniq ks []" by (simp add: uniq_def list_all_iff)

lemma uniq_filter: "uniq ks t \<Longrightarrow> uniq ks (filter P t)"
  by (simp add: uniq_def list_all_iff distinct_map_filter)

lemma uniq_keyD: "uniq ks t \<Longrightarrow> k \<in> set ks \<Longrightarrow> r \<in> set t \<Longrightarrow> r' \<in> set t \<Longrightarrow> k r = k r' \<Longrightarrow> r = r'"
  by (auto simp: uniq_def list_all_iff distinct_map inj_on_def)

lemma t_insert_Some:
  "t_insert ks r t = Some (t', n) \<longleftrightarrow> uniq ks (t @ [r]) \<and> t' = t @ [r] \<and> n = 1"
  by (auto simp: t_insert_def)

lemma t_update_Some:
  "t_update ks P f t = Some (t', n) \<longleftrightarrow>
     uniq ks t' \<and> t' = map (\<lambda>r. if P r then f r else r) t \<and> n = int (length (filter P t))"
  by (auto simp: t_update_def)

lemma t_delete_Some:
  "t_delete P t = Some (t', n) \<longleftrightarrow> t' = filter (\<lambda>r. \<not> P r) t \<and> n = int (length (filter P t))"
  by (auto simp: t_delete_def)

lemma t_upsert_Some:
  "t_upsert ks same f r t = Some (t', n) \<Longrightarrow>
     uniq ks t' \<and> (t' = map (\<lambda>r. if same r then f r else r) t \<or> t' = t @ [r])"
  by (auto simp: t_upsert_def t_update_Some t_insert_Some split: if_splits)

lemma t_update_all:
  assumes "t_update ks P f t = Some (t', n)" "\<And>r. r \<in> set t \<Longrightarrow> P r \<Longrightarrow> Q (f r)"
    "\<And>r. r \<in> set t \<Longrightarrow> \<not> P r \<Longrightarrow> Q r"
  shows "\<forall>r \<in> set t'. Q r"
  using assms by (auto simp: t_update_Some)

text \<open>An update that leaves every key alone cannot fail.\<close>

lemma t_update_keeps_keys:
  assumes "uniq ks t" "\<And>k r. k \<in> set ks \<Longrightarrow> k (f r) = k r"
  shows "t_update ks P f t = Some (map (\<lambda>r. if P r then f r else r) t, int (length (filter P t)))"
proof -
  have "map k (map (\<lambda>r. if P r then f r else r) t) = map k t" if "k \<in> set ks" for k
    using assms(2) that by simp
  then have "uniq ks (map (\<lambda>r. if P r then f r else r) t)"
    using assms(1) by (simp add: uniq_def list_all_iff del: map_map)
  then show ?thesis by (simp add: t_update_def)
qed

text \<open>Looking a row up after a statement.\<close>

lemma find_map_update:
  "(\<And>r. P (f r) = P r) \<Longrightarrow> find P (map (\<lambda>r. if P r then f r else r) t) = map_option f (find P t)"
  by (induction t) auto

lemma find_map_other:
  "(\<And>r. P r \<Longrightarrow> P (f r)) \<Longrightarrow> (\<And>r. Q r \<Longrightarrow> \<not> P r) \<Longrightarrow> find Q (map (\<lambda>r. if P r then f r else r) t) = find Q t"
  by (induction t) auto

lemma find_append_single: "find P (t @ [r]) = (case find P t of Some x \<Rightarrow> Some x | None \<Rightarrow> if P r then Some r else None)"
  by (induction t) auto

lemma find_None_not_ex: "\<not> list_ex P t \<Longrightarrow> find P t = None"
  by (induction t) auto

lemma find_Some_ex: "list_ex P t \<Longrightarrow> \<exists>r. find P t = Some r \<and> P r"
  by (induction t) auto

lemma find_filter_none: "find P (filter (\<lambda>r. \<not> P r) t) = None"
  by (induction t) auto

lemma find_filter_other: "(\<And>r. Q r \<Longrightarrow> \<not> P r) \<Longrightarrow> find Q (filter (\<lambda>r. \<not> P r) t) = find Q t"
  by (induction t) auto

section \<open>Well-formed databases\<close>

definition wf_db :: "db \<Rightarrow> bool" where
  "wf_db d \<longleftrightarrow>
     uniq users_keys (users d) \<and> uniq registrations_keys (registrations d)
     \<and> uniq sessions_keys (sessions d) \<and> uniq audit_keys (admin_audit_log d)
     \<and> uniq rate_keys (rate_limit_events d)
     \<and> uniq settings_keys (settings d) \<and> uniq tokens_keys (password_reset_tokens d)
     \<and> uniq totp_keys (mfa_totp d) \<and> uniq webauthn_keys (mfa_webauthn_credentials d)
     \<and> uniq recovery_keys (mfa_recovery_codes d) \<and> uniq devices_keys (mfa_trusted_devices d)
     \<and> uniq meta_keys (user_sessions_meta d) \<and> uniq accounts_keys (mail_accounts d)"

lemma wf_empty_db: "wf_db empty_db"
  by (simp add: wf_db_def empty_db_def)

end
