(* ===== verification/MailProviders.thy ===== *)
theory MailProviders
  imports Models
begin

text \<open>
  \<^verbatim>\<open>internal/service/mail_providers.go\<close>: the catalog of mail providers and the defaults it fills into a
  mail account.
\<close>

abbreviation MailProviderTypeGeneric :: string where "MailProviderTypeGeneric \<equiv> ''generic''"
abbreviation MailProviderTypeGmail :: string where "MailProviderTypeGmail \<equiv> ''gmail''"
abbreviation MailProviderTypeLibero :: string where "MailProviderTypeLibero \<equiv> ''libero''"
abbreviation MailAccountAuthKindPassword :: string where "MailAccountAuthKindPassword \<equiv> ''password''"
abbreviation MailAccountAuthKindAppPassword :: string where
  "MailAccountAuthKindAppPassword \<equiv> ''app_password''"
abbreviation MailConnectionModeIMAPSMTP :: string where "MailConnectionModeIMAPSMTP \<equiv> ''imap_smtp''"

record MailProviderDefaults =
  pd_IMAPHost :: string
  pd_IMAPPort :: int
  pd_IMAPSecurity :: string
  pd_SMTPHost :: string
  pd_SMTPPort :: int
  pd_SMTPSecurity :: string

record MailProviderCapabilities =
  ReceiveMail :: bool
  SendMail :: bool
  RemoteFolders :: bool
  ServerRulesAPI :: bool
  ServerRulesAssisted :: bool
  ForwardingAPI :: bool
  ForwardingAssisted :: bool
  BulkAccountImport :: bool
  ReplyFunnels :: bool
  OAuth :: bool
  AppPassword :: bool
  MultiaccountRead :: bool
  MultiaccountWrite :: bool
  ProviderStatusProbe :: string

record MailProvider =
  mp_ID :: string
  mp_Label :: string
  mp_SourceKind :: string
  mp_AuthKinds :: "string list"
  mp_ConnectionMode :: string
  mp_Defaults :: MailProviderDefaults
  mp_Capabilities :: MailProviderCapabilities
  mp_HelperLinks :: "(string \<times> string) list"

text \<open>The two fields of \<^verbatim>\<open>models.MailAccount\<close> that are not stored.\<close>

record mail_account_view = MailAccount +
  ma_Capabilities :: MailProviderCapabilities
  ma_HelperLinks :: "(string \<times> string) list"

definition NormalizeMailProviderType :: "string \<Rightarrow> string" where
  "NormalizeMailProviderType raw =
     (let v = lower_trim raw in
      if v = MailProviderTypeGmail then MailProviderTypeGmail
      else if v = MailProviderTypeLibero then MailProviderTypeLibero
      else MailProviderTypeGeneric)"

definition NormalizeMailAccountAuthKind :: "string \<Rightarrow> string" where
  "NormalizeMailAccountAuthKind raw =
     (if lower_trim raw = MailAccountAuthKindAppPassword then MailAccountAuthKindAppPassword
      else MailAccountAuthKindPassword)"

definition NormalizeMailConnectionMode :: "string \<Rightarrow> string" where
  "NormalizeMailConnectionMode raw = MailConnectionModeIMAPSMTP"

definition external_capabilities :: MailProviderCapabilities where
  "external_capabilities = \<lparr>
     ReceiveMail = True, SendMail = True, RemoteFolders = True, ServerRulesAPI = False,
     ServerRulesAssisted = True, ForwardingAPI = False, ForwardingAssisted = True,
     BulkAccountImport = True, ReplyFunnels = True, OAuth = False, AppPassword = True,
     MultiaccountRead = True, MultiaccountWrite = True, ProviderStatusProbe = ''partial''\<rparr>"

definition MailProviderCatalog :: "MailProvider list" where
  "MailProviderCatalog =
    [\<lparr>mp_ID = MailProviderTypeGmail, mp_Label = ''Gmail / Google Workspace'',
      mp_SourceKind = ''external'', mp_AuthKinds = [MailAccountAuthKindAppPassword],
      mp_ConnectionMode = MailConnectionModeIMAPSMTP,
      mp_Defaults = \<lparr>pd_IMAPHost = ''imap.gmail.com'', pd_IMAPPort = 993, pd_IMAPSecurity = ''ssl'',
                     pd_SMTPHost = ''smtp.gmail.com'', pd_SMTPPort = 587, pd_SMTPSecurity = ''starttls''\<rparr>,
      mp_Capabilities = external_capabilities,
      mp_HelperLinks =
        [(''imap_smtp'', ''https://support.google.com/mail/answer/7126229?hl=en''),
         (''imap_settings'', ''https://support.google.com/mail/answer/78892?hl=en''),
         (''app_password'', ''https://support.google.com/mail/answer/185833?hl=en''),
         (''forwarding'', ''https://support.google.com/mail/answer/10957?hl=en''),
         (''filters'', ''https://support.google.com/mail/answer/6579?hl=en''),
         (''workspace_forwarding'', ''https://support.google.com/a/answer/14724207?hl=en''),
         (''workspace_oauth'', ''https://support.google.com/a/answer/14114704?hl=en''),
         (''client_guidance'', ''https://support.google.com/mail/answer/7126229?hl=en'')]\<rparr>,
     \<lparr>mp_ID = MailProviderTypeLibero, mp_Label = ''Libero Mail'', mp_SourceKind = ''external'',
      mp_AuthKinds = [MailAccountAuthKindPassword, MailAccountAuthKindAppPassword],
      mp_ConnectionMode = MailConnectionModeIMAPSMTP,
      mp_Defaults = \<lparr>pd_IMAPHost = ''imapmail.libero.it'', pd_IMAPPort = 993, pd_IMAPSecurity = ''ssl'',
                     pd_SMTPHost = ''smtp.libero.it'', pd_SMTPPort = 465, pd_SMTPSecurity = ''ssl''\<rparr>,
      mp_Capabilities = external_capabilities,
      mp_HelperLinks =
        [(''imap_smtp'', ''https://aiuto.libero.it/articolo/mail/configurare-libero-mail-con-client-di-posta-imap-e-smtp/''),
         (''app_password'', ''https://aiuto.libero.it/articolo/tutorial/password-specifica-per-app/''),
         (''filters'', ''https://aiuto.libero.it/articolo/mail/gestione-dei-filtri/''),
         (''forwarding'', ''https://aiuto.libero.it/articolo/mail/le-notifiche-di-avviso-in-libero-mail/''),
         (''forwarding_plus'', ''https://aiuto.libero.it/articolo/mail-plus/come-impostare-inoltro-automatico-in-mail-plus/''),
         (''multiaccount'', ''https://liberomail.libero.it/funzionalita/multiaccount.php''),
         (''client_guidance'', ''https://info.libero.it/contratti/libero-mail-app/'')]\<rparr>,
     \<lparr>mp_ID = MailProviderTypeGeneric, mp_Label = ''Generic IMAP/SMTP'', mp_SourceKind = ''external'',
      mp_AuthKinds = [MailAccountAuthKindPassword],
      mp_ConnectionMode = MailConnectionModeIMAPSMTP,
      mp_Defaults = \<lparr>pd_IMAPHost = [], pd_IMAPPort = 0, pd_IMAPSecurity = [],
                     pd_SMTPHost = [], pd_SMTPPort = 0, pd_SMTPSecurity = []\<rparr>,
      mp_Capabilities = \<lparr>
        ReceiveMail = True, SendMail = True, RemoteFolders = True, ServerRulesAPI = False,
        ServerRulesAssisted = False, ForwardingAPI = False, ForwardingAssisted = False,
        BulkAccountImport = False, ReplyFunnels = True, OAuth = False, AppPassword = False,
        MultiaccountRead = True, MultiaccountWrite = True, ProviderStatusProbe = ''partial''\<rparr>,
      mp_HelperLinks = []\<rparr>]"

definition MailProviderByID :: "string \<Rightarrow> MailProvider" where
  "MailProviderByID raw =
     (case find (\<lambda>p. mp_ID p = NormalizeMailProviderType raw) MailProviderCatalog of
        Some p \<Rightarrow> p
      | None \<Rightarrow> last MailProviderCatalog)"

definition MailProviderSupportsAuthKind :: "string \<Rightarrow> string \<Rightarrow> bool" where
  "MailProviderSupportsAuthKind providerType authKind =
     (let provider = MailProviderByID providerType; n = NormalizeMailAccountAuthKind authKind in
      if mp_AuthKinds provider = [] then n = MailAccountAuthKindPassword
      else list_ex (\<lambda>c. NormalizeMailAccountAuthKind c = n) (mp_AuthKinds provider))"

definition MailProviderSupportsAssistedForwarding :: "string \<Rightarrow> bool" where
  "MailProviderSupportsAssistedForwarding providerType =
     ForwardingAssisted (mp_Capabilities (MailProviderByID providerType))"

definition ApplyMailProviderDefaults :: "mail_account_view \<Rightarrow> mail_account_view" where
  "ApplyMailProviderDefaults a0 =
     (let p = MailProviderByID (ma_ProviderType a0); df = mp_Defaults p;
          kind0 = NormalizeMailAccountAuthKind (ma_AuthKind a0);
          kind = (if mp_AuthKinds p \<noteq> [] \<and> \<not> MailProviderSupportsAuthKind (mp_ID p) kind0
                  then NormalizeMailAccountAuthKind (hd (mp_AuthKinds p)) else kind0);
          mode0 = NormalizeMailConnectionMode (ma_ConnectionMode a0);
          a1 = a0\<lparr>
            ma_ProviderType := mp_ID p, ma_ProviderLabel := mp_Label p, ma_AuthKind := kind,
            ma_ConnectionMode := (if mode0 = [] then mp_ConnectionMode p else mode0),
            ma_Capabilities := mp_Capabilities p, ma_HelperLinks := mp_HelperLinks p,
            ma_IMAPHost := (if TrimSpace (ma_IMAPHost a0) = [] then TrimSpace (pd_IMAPHost df) else ma_IMAPHost a0),
            ma_IMAPPort := (if ma_IMAPPort a0 \<le> 0 then pd_IMAPPort df else ma_IMAPPort a0),
            ma_SMTPHost := (if TrimSpace (ma_SMTPHost a0) = [] then TrimSpace (pd_SMTPHost df) else ma_SMTPHost a0),
            ma_SMTPPort := (if ma_SMTPPort a0 \<le> 0 then pd_SMTPPort df else ma_SMTPPort a0)\<rparr>;
          a2 = (if pd_IMAPSecurity df = ''ssl'' then a1\<lparr>ma_IMAPTLS := True, ma_IMAPStartTLS := False\<rparr>
                else if pd_IMAPSecurity df = ''starttls'' then a1\<lparr>ma_IMAPTLS := False, ma_IMAPStartTLS := True\<rparr>
                else a1)
      in if pd_SMTPSecurity df = ''ssl'' then a2\<lparr>ma_SMTPTLS := True, ma_SMTPStartTLS := False\<rparr>
         else if pd_SMTPSecurity df = ''starttls'' then a2\<lparr>ma_SMTPTLS := False, ma_SMTPStartTLS := True\<rparr>
         else a2)"

text \<open>\<^verbatim>\<open>strings.LastIndex(login, "@")\<close> splits the login at its last at sign.\<close>

definition GmailMailboxKind :: "string \<Rightarrow> string" where
  "GmailMailboxKind login0 =
     (let login = TrimSpace login0;
          domain = rev (takeWhile (\<lambda>c. c \<noteq> CHR ''@'') (rev login)) in
      if CHR ''@'' \<notin> set login \<or> domain = [] then []
      else let v = lower_trim domain in
           if v = ''gmail.com'' \<or> v = ''googlemail.com'' then ''personal'' else ''workspace'')"

section \<open>Properties\<close>

definition gmail_provider :: MailProvider where "gmail_provider = MailProviderCatalog ! 0"
definition libero_provider :: MailProvider where "libero_provider = MailProviderCatalog ! 1"
definition generic_provider :: MailProvider where "generic_provider = MailProviderCatalog ! 2"

lemma plain_words:
  "lower_trim ''app_password'' = ''app_password''" "lower_trim ''password'' = ''password''"
  "lower_trim ''gmail'' = ''gmail''" "lower_trim ''libero'' = ''libero''"
  "lower_trim ''generic'' = ''generic''"
  "TrimSpace ''imap.gmail.com'' = ''imap.gmail.com''" "TrimSpace ''smtp.gmail.com'' = ''smtp.gmail.com''"
  "TrimSpace ''imapmail.libero.it'' = ''imapmail.libero.it''"
  "TrimSpace ''smtp.libero.it'' = ''smtp.libero.it''"
  by code_simp+

lemma MailProviderByID_cases:
  "MailProviderByID raw = gmail_provider \<or> MailProviderByID raw = libero_provider
   \<or> MailProviderByID raw = generic_provider"
  by (simp add: MailProviderByID_def NormalizeMailProviderType_def MailProviderCatalog_def
      gmail_provider_def libero_provider_def generic_provider_def)

lemma provider_fields:
  "mp_ID gmail_provider = ''gmail''" "mp_ID libero_provider = ''libero''" "mp_ID generic_provider = ''generic''"
  "mp_AuthKinds gmail_provider = [''app_password'']"
  "mp_AuthKinds libero_provider = [''password'', ''app_password'']"
  "mp_AuthKinds generic_provider = [''password'']"
  "mp_Defaults gmail_provider = \<lparr>pd_IMAPHost = ''imap.gmail.com'', pd_IMAPPort = 993, pd_IMAPSecurity = ''ssl'',
     pd_SMTPHost = ''smtp.gmail.com'', pd_SMTPPort = 587, pd_SMTPSecurity = ''starttls''\<rparr>"
  "mp_Defaults libero_provider = \<lparr>pd_IMAPHost = ''imapmail.libero.it'', pd_IMAPPort = 993, pd_IMAPSecurity = ''ssl'',
     pd_SMTPHost = ''smtp.libero.it'', pd_SMTPPort = 465, pd_SMTPSecurity = ''ssl''\<rparr>"
  "mp_Defaults generic_provider = \<lparr>pd_IMAPHost = [], pd_IMAPPort = 0, pd_IMAPSecurity = [],
     pd_SMTPHost = [], pd_SMTPPort = 0, pd_SMTPSecurity = []\<rparr>"
  by (simp_all add: gmail_provider_def libero_provider_def generic_provider_def MailProviderCatalog_def)

lemma MailProviderByID_fixed:
  "MailProviderByID ''gmail'' = gmail_provider" "MailProviderByID ''libero'' = libero_provider"
  "MailProviderByID ''generic'' = generic_provider"
  by (simp_all add: MailProviderByID_def NormalizeMailProviderType_def MailProviderCatalog_def
      gmail_provider_def libero_provider_def generic_provider_def plain_words)

lemma auth_kind_cases:
  "NormalizeMailAccountAuthKind k = ''password'' \<or> NormalizeMailAccountAuthKind k = ''app_password''"
  by (simp add: NormalizeMailAccountAuthKind_def)

lemma auth_kind_fixed:
  "NormalizeMailAccountAuthKind ''password'' = ''password''"
  "NormalizeMailAccountAuthKind ''app_password'' = ''app_password''"
  by (simp_all add: NormalizeMailAccountAuthKind_def plain_words)

lemma auth_kind_idem [simp]:
  "NormalizeMailAccountAuthKind (NormalizeMailAccountAuthKind k) = NormalizeMailAccountAuthKind k"
  using auth_kind_cases [of k] by (auto simp: auth_kind_fixed)

lemmas provider_simps = provider_fields MailProviderByID_fixed auth_kind_fixed plain_words
  MailProviderSupportsAuthKind_def NormalizeMailConnectionMode_def

text \<open>Filling in the defaults of a mail provider is idempotent; the account then has an
  authentication kind its provider supports, and for every provider with known servers exactly one
  of TLS and STARTTLS is set on each side.\<close>

theorem provider_defaults_laws:
  "let a' = ApplyMailProviderDefaults a in
     ApplyMailProviderDefaults a' = a'
     \<and> MailProviderSupportsAuthKind (ma_ProviderType a') (ma_AuthKind a')
     \<and> (ma_ProviderType a' = MailProviderTypeGeneric
        \<or> (ma_IMAPTLS a' \<longleftrightarrow> \<not> ma_IMAPStartTLS a') \<and> (ma_SMTPTLS a' \<longleftrightarrow> \<not> ma_SMTPStartTLS a')
          \<and> TrimSpace (ma_IMAPHost a') \<noteq> [] \<and> TrimSpace (ma_SMTPHost a') \<noteq> []
          \<and> 0 < ma_IMAPPort a' \<and> 0 < ma_SMTPPort a')"
proof -
  consider "MailProviderByID (ma_ProviderType a) = gmail_provider"
    | "MailProviderByID (ma_ProviderType a) = libero_provider"
    | "MailProviderByID (ma_ProviderType a) = generic_provider"
    using MailProviderByID_cases [of "ma_ProviderType a"] by blast
  then show ?thesis
    using auth_kind_cases [of "ma_AuthKind a"]
    by cases (auto simp: ApplyMailProviderDefaults_def provider_simps)
qed

end
