(* ===== verification/Sql.thy ===== *)
theory Sql
  imports Models "HOL-Library.Char_ord" "HOL-Library.List_Lexorder"
begin

text \<open>
  The SQL the store relies on beyond plain statements: \<^verbatim>\<open>LIKE\<close>, column values with SQLite's order
  (NULL before integers before text, text by bytes), \<^verbatim>\<open>ORDER BY ... ASC|DESC\<close> and \<^verbatim>\<open>LIMIT/OFFSET\<close>.
  Rows with equal sort keys keep the order of the table, which SQL leaves open.  The request
  sanitizers that stand between the query string and these clauses are here too.
\<close>

section \<open>LIKE\<close>

definition utf8_cont :: "char \<Rightarrow> bool" where
  "utf8_cont c \<longleftrightarrow> 128 \<le> (of_char c :: nat) \<and> (of_char c :: nat) < 192"

function sql_like :: "string \<Rightarrow> string \<Rightarrow> bool" where
  "sql_like [] s = (s = [])"
| "sql_like (p # ps) s =
     (if p = CHR ''%'' then sql_like ps s \<or> (case s of [] \<Rightarrow> False | c # cs \<Rightarrow> sql_like (p # ps) cs)
      else case s of
             [] \<Rightarrow> False
           | c # cs \<Rightarrow> if p = CHR ''_'' then sql_like ps (dropWhile utf8_cont cs)
                       else ascii_lower p = ascii_lower c \<and> sql_like ps cs)"
  by pat_completeness auto
termination
  by (relation "measure (\<lambda>(p, s). length p + length s)")
    (auto intro: le_less_trans [OF length_dropWhile_le])

lemma sql_like_percent: "sql_like (CHR ''%'' # ps) s \<longleftrightarrow> (\<exists>k \<le> length s. sql_like ps (drop k s))"
proof (induction s)
  case (Cons c s)
  have "(\<exists>k \<le> length (c # s). sql_like ps (drop k (c # s)))
      \<longleftrightarrow> sql_like ps (c # s) \<or> (\<exists>k \<le> length s. sql_like ps (drop k s))"
    by (metis Suc_le_mono drop0 drop_Suc_Cons le0 length_Cons not0_implies_Suc)
  then show ?case using Cons by simp
qed simp

definition plain_pattern :: "string \<Rightarrow> bool" where
  "plain_pattern p \<longleftrightarrow> CHR ''%'' \<notin> set p \<and> CHR ''_'' \<notin> set p"

lemma sql_like_literal:
  "plain_pattern p \<Longrightarrow> sql_like (p @ ''%'') s \<longleftrightarrow> (\<exists>u v. s = u @ v \<and> map ascii_lower u = map ascii_lower p)"
proof (induction p arbitrary: s)
  case Nil
  have "sql_like ''%'' s" by (simp only: sql_like_percent) (intro exI [of _ "length s"], simp)
  then show ?case by simp
next
  case (Cons a p)
  then have a: "a \<noteq> CHR ''%''" "a \<noteq> CHR ''_''" "plain_pattern p" by (auto simp: plain_pattern_def)
  show ?case
  proof (cases s)
    case (Cons c cs)
    then show ?thesis
      using a Cons.IH [OF a(3)] by (auto simp: map_eq_Cons_conv Cons_eq_append_conv) (metis append_Cons)+
  qed (use a in auto)
qed

text \<open>Searching for a needle without wildcards finds exactly the texts that contain it, ASCII case aside.\<close>

lemma sql_like_contains:
  assumes "plain_pattern q"
  shows "sql_like (''%'' @ q @ ''%'') s \<longleftrightarrow> Contains (map ascii_lower s) (map ascii_lower q)"
proof
  assume "sql_like (''%'' @ q @ ''%'') s"
  then obtain k u v where "drop k s = u @ v" "map ascii_lower u = map ascii_lower q"
    using assms by (auto simp: sql_like_percent sql_like_literal simp del: sql_like.simps)
  then have "map ascii_lower s = map ascii_lower (take k s) @ map ascii_lower q @ map ascii_lower v"
    by (metis append_take_drop_id map_append)
  then show "Contains (map ascii_lower s) (map ascii_lower q)"
    by (auto simp: Contains_def sublist_def)
next
  assume "Contains (map ascii_lower s) (map ascii_lower q)"
  then obtain p t where e: "map ascii_lower s = p @ map ascii_lower q @ t"
    by (auto simp: Contains_def sublist_def)
  let ?k = "length p" and ?n = "length q"
  have l: "length s = length p + length q + length t" using arg_cong [OF e, of length] by simp
  have "map ascii_lower (take ?n (drop ?k s)) = map ascii_lower q"
    using e by (simp add: take_map [symmetric] drop_map [symmetric])
  then have "sql_like (q @ ''%'') (drop ?k s)"
    using assms by (metis append_take_drop_id sql_like_literal)
  then show "sql_like (''%'' @ q @ ''%'') s"
    using l by (auto simp: sql_like_percent simp del: sql_like.simps intro: exI [of _ ?k])
qed

section \<open>Values and their order\<close>

datatype sqlval = SNull | SInt int | STxt string

instantiation sqlval :: linorder
begin

fun less_eq_sqlval :: "sqlval \<Rightarrow> sqlval \<Rightarrow> bool" where
  "less_eq_sqlval SNull _ = True"
| "less_eq_sqlval (SInt _) SNull = False"
| "less_eq_sqlval (SInt a) (SInt b) = (a \<le> b)"
| "less_eq_sqlval (SInt _) (STxt _) = True"
| "less_eq_sqlval (STxt a) (STxt b) = (a \<le> b)"
| "less_eq_sqlval (STxt _) _ = False"

definition less_sqlval :: "sqlval \<Rightarrow> sqlval \<Rightarrow> bool" where
  "less_sqlval a b \<longleftrightarrow> a \<le> b \<and> \<not> b \<le> a"

instance
proof
  fix x y z :: sqlval
  show "x < y \<longleftrightarrow> x \<le> y \<and> \<not> y \<le> x" by (rule less_sqlval_def)
  show "x \<le> x" by (cases x) simp_all
  show "x \<le> y \<Longrightarrow> y \<le> z \<Longrightarrow> x \<le> z" by (cases x; cases y; cases z) simp_all
  show "x \<le> y \<Longrightarrow> y \<le> x \<Longrightarrow> x = y" by (cases x; cases y) simp_all
  show "x \<le> y \<or> y \<le> x" by (cases x; cases y) auto
qed

end

definition sql_time :: "gotime option \<Rightarrow> sqlval" where
  "sql_time t = (case t of None \<Rightarrow> SNull | Some x \<Rightarrow> SInt x)"

section \<open>ORDER BY, LIMIT and OFFSET\<close>

definition order_by :: "('r \<Rightarrow> sqlval) \<Rightarrow> string \<Rightarrow> 'r list \<Rightarrow> 'r list" where
  "order_by k ord rows = (if ord = ''ASC'' then sort_key k rows else rev (sort_key k (rev rows)))"

definition limit_offset :: "int \<Rightarrow> int \<Rightarrow> 'r list \<Rightarrow> 'r list" where
  "limit_offset lim off rows = take (nat lim) (drop (nat off) rows)"

lemma set_order_by [simp]: "set (order_by k ord rows) = set rows"
  by (simp add: order_by_def)

lemma length_order_by [simp]: "length (order_by k ord rows) = length rows"
  by (simp add: order_by_def)

lemma order_by_ASC: "sorted (map k (order_by k ''ASC'' rows))"
  by (simp add: order_by_def)

lemma order_by_DESC: "ord \<noteq> ''ASC'' \<Longrightarrow> sorted (rev (map k (order_by k ord rows)))"
  by (simp add: order_by_def rev_map)

section \<open>Sanitizers\<close>

definition clampLimit :: "int \<Rightarrow> int" where
  "clampLimit limit = (if limit \<le> 0 then 25 else if limit > 100 then 100 else limit)"

definition clampOffset :: "int \<Rightarrow> int" where
  "clampOffset offset = (if offset < 0 then 0 else offset)"

definition sanitizeSortOrder :: "string \<Rightarrow> string" where
  "sanitizeSortOrder order = (if EqualFold (TrimSpace order) ''asc'' then ''ASC'' else ''DESC'')"

definition sanitizeRegistrationSort :: "string \<Rightarrow> string" where
  "sanitizeRegistrationSort srt =
     (let s = lower_trim srt in
      if s = ''email'' then ''email''
      else if s = ''status'' then ''status''
      else if s = ''decided_at'' then ''decided_at''
      else ''created_at'')"

definition sanitizeUserSort :: "string \<Rightarrow> string" where
  "sanitizeUserSort srt =
     (let s = lower_trim srt in
      if s = ''email'' then ''email''
      else if s = ''role'' then ''role''
      else if s = ''status'' then ''status''
      else if s = ''provision_state'' then ''provision_state''
      else if s = ''last_login_at'' then ''last_login_at''
      else ''created_at'')"

definition sanitizeAuditSort :: "string \<Rightarrow> string" where
  "sanitizeAuditSort srt =
     (let s = lower_trim srt in
      if s = ''action'' then ''a.action''
      else if s = ''actor'' then ''u.email''
      else if s = ''target'' then ''a.target''
      else ''a.created_at'')"

lemma clampLimit_range: "1 \<le> clampLimit n \<and> clampLimit n \<le> 100"
  by (simp add: clampLimit_def)

end
