(* ===== verification/Runtime.thy ===== *)
theory Runtime
  imports Models Secrets
begin

text \<open>
  How the stateful Go code is run.  An operation of the store or the service is a function from the
  service (its configuration and everything outside the program) and the world (database, clock,
  the calls made to other programs) to a result and a new world.  A result is \<^const>\<open>Inl\<close> an error
  or \<^const>\<open>Inr\<close> a value, as Go returns \<^verbatim>\<open>(value, error)\<close>.

  Everything the program does not decide is an oracle indexed by a counter of outside calls: which
  database statement fails and with what message, how far the clock moves, which UUIDs and random
  bytes are drawn, what the IMAP server, the provisioner, the mail sender and the PAM helper
  answer.  \<open>others\<close> is what concurrent requests do to the database before the \<open>n\<close>-th
  statement: a request is not atomic, only a statement or a transaction is.  Theorems that quantify over the service
  therefore cover every failure and, where they do not assume \<open>quiet\<close>, every interleaving.
\<close>

section \<open>Errors\<close>

datatype err =
    ErrNotFound | ErrConflict | ErrUserStateConflict
  | DBErr string
  | ErrInvalidCredentials | ErrPendingApproval | ErrSuspended | ErrForbidden
  | ErrPAMVerifierDown
  | ErrPasswordResetUnavailable | ErrPasswordResetDelivery
  | ErrPasswordResetHelperDown | ErrPasswordResetHelperFailed
  | ErrInvalidRecoveryEmail | ErrRecoveryEmailRequired | ErrRecoveryEmailMatchesLogin
  | ErrRecoveryEmailMFAUnavailable | ErrRecoveryEmailMFADelivery
  | ErrFeatureFlagNotFound | ErrFeatureFlagReadOnly
  | PAMCredentialsInvalid "string list"
  | MailErr string | ProvisionErr string | SendErr string | SMTPSenderRejected | SMTPAuthFailed
  | SecretErr secret_error
  | ErrMsg string
  | Panic

section \<open>The service and the world\<close>

datatype json = JStr string | JBool bool

datatype pam_answer = PamOk | PamUnavailable | PamRejected

text \<open>The fields of \<^verbatim>\<open>config.Config\<close> that the modelled code reads.\<close>

record Config =
  SessionAbsoluteHour :: int
  SessionIdleMinutes :: int
  SessionEncryptKey :: string
  DovecotAuthMode :: string
  BaseDomain :: string
  PasswordMinLength :: int
  PasswordMaxLength :: int
  PasskeyPasswordlessEnabled :: bool
  PasswordResetPublicEnabled :: bool
  PasswordResetSender :: string
  PasswordResetFrom :: string
  PasswordResetExternalSenderReady :: bool
  PasswordResetTokenTTLMinutes :: int
  PasswordResetRequireMappedLogin :: bool
  PAMResetHelperEnabled :: bool
  CaptchaEnabled :: bool
  MailSecEnabled :: bool
  UpdateEnabled :: bool
  UpdateRequireSignature :: bool
  IMAPHost :: string
  IMAPPort :: int
  IMAPTLS :: bool
  IMAPStartTLS :: bool
  SMTPHost :: string
  SMTPPort :: int
  SMTPTLS :: bool
  SMTPStartTLS :: bool

text \<open>What the mail sender can do (the type switches of the service on \<^verbatim>\<open>notify.Sender\<close>).\<close>

record Svc =
  cfg :: Config
  idkey :: idkey
  sha256 :: "string \<Rightarrow> string"
  aes_gcm :: aead
  ParseAddress :: "string \<Rightarrow> string option"
  LoadLocation :: "string \<Rightarrow> string option"
  json_Marshal :: "(string \<times> json) list \<Rightarrow> string"
  rfc3339 :: "gotime \<Rightarrow> string"
  noop_provisioner :: bool
  log_sender :: bool
  sender_probes :: bool
  sender_sends_codes :: bool
  db_fault :: "nat \<Rightarrow> string option"
  others :: "nat \<Rightarrow> db \<Rightarrow> db"
  tick :: "nat \<Rightarrow> nat"
  uuid :: "nat \<Rightarrow> string"
  rand :: "nat \<Rightarrow> nat \<Rightarrow> string option"
  imap_login :: "nat \<Rightarrow> string \<Rightarrow> string \<Rightarrow> string option"
  provision_upsert :: "nat \<Rightarrow> string option"
  provision_disable :: "nat \<Rightarrow> string option"
  send_mail :: "nat \<Rightarrow> err option"
  pam_reset :: "nat \<Rightarrow> pam_answer"

datatype effect =
    UpsertActiveUser string string
  | DisableUser string
  | SendPasswordReset string string
  | SendRecoveryEmailCode string string
  | PamResetPassword string string

record world =
  w_db :: db
  w_now :: gotime
  w_n :: nat
  w_log :: "effect list"

type_synonym 'a M = "Svc \<Rightarrow> world \<Rightarrow> (err + 'a) \<times> world"

section \<open>Composing operations\<close>

definition ret :: "'a \<Rightarrow> 'a M" where "ret x = (\<lambda>sv w. (Inr x, w))"

definition fail :: "err \<Rightarrow> 'a M" where "fail e = (\<lambda>sv w. (Inl e, w))"

text \<open>\<open>tryM m k\<close> passes the result of \<open>m\<close>, error or value, on to \<open>k\<close>; \<open>bindM\<close> returns at an error,
  as \<^verbatim>\<open>if err != nil { return err }\<close> does.\<close>

definition tryM :: "'a M \<Rightarrow> (err + 'a \<Rightarrow> 'b M) \<Rightarrow> 'b M" where
  "tryM m k = (\<lambda>sv w. case m sv w of (r, w') \<Rightarrow> k r sv w')"

definition bindM :: "'a M \<Rightarrow> ('a \<Rightarrow> 'b M) \<Rightarrow> 'b M" where
  "bindM m k = tryM m (\<lambda>r. case r of Inl e \<Rightarrow> fail e | Inr x \<Rightarrow> k x)"

definition thenM :: "'a M \<Rightarrow> 'b M \<Rightarrow> 'b M" where "thenM m k = bindM m (\<lambda>_. k)"

text \<open>\<^verbatim>\<open>_ = f()\<close>: the error is dropped.\<close>

definition ignoreM :: "'a M \<Rightarrow> 'b M \<Rightarrow> 'b M" where "ignoreM m k = tryM m (\<lambda>_. k)"

definition mapErr :: "(err \<Rightarrow> err) \<Rightarrow> 'a M \<Rightarrow> 'a M" where
  "mapErr f m = tryM m (\<lambda>r. case r of Inl e \<Rightarrow> fail (f e) | Inr x \<Rightarrow> ret x)"

definition whenM :: "bool \<Rightarrow> unit M \<Rightarrow> unit M" where "whenM b m = (if b then m else ret ())"

fun seqM :: "unit M list \<Rightarrow> unit M" where
  "seqM [] = ret ()"
| "seqM (m # ms) = thenM m (seqM ms)"

definition askM :: "(Svc \<Rightarrow> 'a) \<Rightarrow> 'a M" where "askM f = (\<lambda>sv w. (Inr (f sv), w))"

definition liftE :: "err + 'a \<Rightarrow> 'a M" where "liftE r = (\<lambda>sv w. (r, w))"

section \<open>Primitive operations\<close>

definition draw :: "(Svc \<Rightarrow> nat \<Rightarrow> 'a) \<Rightarrow> 'a M" where
  "draw f = (\<lambda>sv w. (Inr (f sv (w_n w)), w\<lparr>w_n := Suc (w_n w)\<rparr>))"

definition time_Now :: "gotime M" where
  "time_Now = (\<lambda>sv w. let t = w_now w + int (tick sv (w_n w))
                       in (Inr t, w\<lparr>w_now := t, w_n := Suc (w_n w)\<rparr>))"

definition uuid_NewString :: "string M" where "uuid_NewString = draw uuid"

definition note_effect :: "effect \<Rightarrow> unit M" where
  "note_effect e = (\<lambda>sv w. (Inr (), w\<lparr>w_log := w_log w @ [e]\<rparr>))"

text \<open>One database statement.  A statement that fails changes nothing.\<close>

definition stmt :: "(db \<Rightarrow> (db \<times> 'a) option) \<Rightarrow> 'a M" where
  "stmt f = (\<lambda>sv w.
     let w1 = w\<lparr>w_db := others sv (w_n w) (w_db w), w_n := Suc (w_n w)\<rparr> in
     case db_fault sv (w_n w) of
       Some msg \<Rightarrow> (Inl (DBErr msg), w1)
     | None \<Rightarrow> (case f (w_db w1) of
                  None \<Rightarrow> (Inl (DBErr ''constraint failed''), w1)
                | Some (d, x) \<Rightarrow> (Inr x, w1\<lparr>w_db := d\<rparr>)))"

definition query :: "(db \<Rightarrow> 'a) \<Rightarrow> 'a M" where
  "query f = stmt (\<lambda>d. Some (d, f d))"

text \<open>A query for one row, with \<^verbatim>\<open>sql.ErrNoRows\<close> turned into the given error.\<close>

definition query_row :: "err \<Rightarrow> (db \<Rightarrow> 'a option) \<Rightarrow> 'a M" where
  "query_row e f = bindM (query f) (\<lambda>r. case r of None \<Rightarrow> fail e | Some x \<Rightarrow> ret x)"

definition alone :: "Svc \<Rightarrow> Svc" where "alone sv = sv\<lparr>others := \<lambda>_ d. d\<rparr>"

text \<open>A transaction: begun (and cut off from other writers) by a first statement, its body, the
  commit.  An error anywhere rolls the database back to its state at the beginning.\<close>

definition in_tx :: "'a M \<Rightarrow> 'a M" where
  "in_tx body = (\<lambda>sv w.
     case query (\<lambda>_. ()) sv w of
       (Inl e, w1) \<Rightarrow> (Inl e, w1)
     | (Inr _, w1) \<Rightarrow>
         (case bindM body (\<lambda>x. thenM (query (\<lambda>_. ())) (ret x)) (alone sv) w1 of
            (Inl e, w2) \<Rightarrow> (Inl e, w2\<lparr>w_db := w_db w1\<rparr>)
          | (Inr x, w2) \<Rightarrow> (Inr x, w2)))"

definition rows_or :: "err \<Rightarrow> int M \<Rightarrow> unit M" where
  "rows_or e m = bindM m (\<lambda>n. if n = 0 then fail e else ret ())"

definition exec :: "int M \<Rightarrow> unit M" where "exec m = thenM m (ret ())"

section \<open>Table statements\<close>

definition put :: "(db \<Rightarrow> 'r list) \<Rightarrow> (('r list \<Rightarrow> 'r list) \<Rightarrow> db \<Rightarrow> db)
    \<Rightarrow> ('r list \<Rightarrow> ('r list \<times> int) option) \<Rightarrow> int M" where
  "put get upd f = stmt (\<lambda>d. map_option (\<lambda>(t, n). (upd (\<lambda>_. t) d, n)) (f (get d)))"

abbreviation on_users where "on_users \<equiv> put users users_update"
abbreviation on_registrations where "on_registrations \<equiv> put registrations registrations_update"
abbreviation on_sessions where "on_sessions \<equiv> put sessions sessions_update"
abbreviation on_audit where "on_audit \<equiv> put admin_audit_log admin_audit_log_update"
abbreviation on_rate where "on_rate \<equiv> put rate_limit_events rate_limit_events_update"
abbreviation on_settings where "on_settings \<equiv> put settings settings_update"
abbreviation on_tokens where "on_tokens \<equiv> put password_reset_tokens password_reset_tokens_update"
abbreviation on_totp where "on_totp \<equiv> put mfa_totp mfa_totp_update"
abbreviation on_webauthn where
  "on_webauthn \<equiv> put mfa_webauthn_credentials mfa_webauthn_credentials_update"
abbreviation on_recovery where "on_recovery \<equiv> put mfa_recovery_codes mfa_recovery_codes_update"
abbreviation on_devices where "on_devices \<equiv> put mfa_trusted_devices mfa_trusted_devices_update"
abbreviation on_meta where "on_meta \<equiv> put user_sessions_meta user_sessions_meta_update"
abbreviation on_accounts where "on_accounts \<equiv> put mail_accounts mail_accounts_update"

section \<open>Running composed operations\<close>

lemma tryM_run: "tryM m k sv w = (case m sv w of (r, w') \<Rightarrow> k r sv w')"
  by (simp add: tryM_def)

lemma bindM_run:
  "bindM m k sv w = (case m sv w of (Inl e, w') \<Rightarrow> (Inl e, w') | (Inr x, w') \<Rightarrow> k x sv w')"
  by (auto simp: bindM_def tryM_def fail_def split: prod.split sum.split)

lemma bindM_Inr:
  "bindM m k sv w = (Inr y, w') \<longleftrightarrow> (\<exists>x w1. m sv w = (Inr x, w1) \<and> k x sv w1 = (Inr y, w'))"
  by (auto simp: bindM_run split: prod.splits sum.splits)

lemma thenM_Inr:
  "thenM m k sv w = (Inr y, w') \<longleftrightarrow> (\<exists>x w1. m sv w = (Inr x, w1) \<and> k sv w1 = (Inr y, w'))"
  by (simp add: thenM_def bindM_Inr)

lemma tryM_Inr:
  "tryM m k sv w = (Inr y, w') \<longleftrightarrow> (\<exists>r w1. m sv w = (r, w1) \<and> k r sv w1 = (Inr y, w'))"
  by (simp add: tryM_def split: prod.split)

lemma ignoreM_Inr:
  "ignoreM m k sv w = (Inr y, w') \<longleftrightarrow> (\<exists>r w1. m sv w = (r, w1) \<and> k sv w1 = (Inr y, w'))"
  by (simp add: ignoreM_def tryM_Inr)

lemma ret_Inr: "ret x sv w = (Inr y, w') \<longleftrightarrow> y = x \<and> w' = w"
  by (auto simp: ret_def)

lemma fail_Inr: "fail e sv w = (Inr y, w') \<longleftrightarrow> False"
  by (simp add: fail_def)

lemma askM_Inr: "askM f sv w = (Inr y, w') \<longleftrightarrow> y = f sv \<and> w' = w"
  by (auto simp: askM_def)

lemma whenM_Inr:
  "whenM b m sv w = (Inr y, w') \<longleftrightarrow> (if b then m sv w = (Inr y, w') else w' = w)"
  by (auto simp: whenM_def ret_def)

lemma mapErr_Inr: "mapErr f m sv w = (Inr y, w') \<longleftrightarrow> m sv w = (Inr y, w')"
  by (auto simp: mapErr_def tryM_def ret_def fail_def split: prod.splits sum.splits)

lemmas runs = mapErr_Inr bindM_Inr thenM_Inr tryM_Inr ignoreM_Inr ret_Inr fail_Inr askM_Inr whenM_Inr

definition quiet :: "Svc \<Rightarrow> bool" where "quiet sv \<longleftrightarrow> (\<forall>n d. others sv n d = d)"

lemma quiet_others [simp]: "quiet sv \<Longrightarrow> others sv n d = d"
  by (simp add: quiet_def)

lemma stmt_Inr:
  "stmt f sv w = (Inr x, w') \<longleftrightarrow>
     (\<exists>d. db_fault sv (w_n w) = None \<and> f (others sv (w_n w) (w_db w)) = Some (d, x)
        \<and> w' = w\<lparr>w_db := d, w_n := Suc (w_n w)\<rparr>)"
  by (auto simp: stmt_def split: option.splits)

lemma query_Inr:
  "query f sv w = (Inr x, w') \<longleftrightarrow>
     db_fault sv (w_n w) = None \<and> x = f (others sv (w_n w) (w_db w))
     \<and> w' = w\<lparr>w_db := others sv (w_n w) (w_db w), w_n := Suc (w_n w)\<rparr>"
  by (auto simp: query_def stmt_Inr)

lemma query_row_Inr:
  "query_row e f sv w = (Inr x, w') \<longleftrightarrow>
     db_fault sv (w_n w) = None \<and> f (others sv (w_n w) (w_db w)) = Some x
     \<and> w' = w\<lparr>w_db := others sv (w_n w) (w_db w), w_n := Suc (w_n w)\<rparr>"
  by (auto simp: query_row_def runs query_Inr split: option.splits)

lemma time_Now_Inr:
  "time_Now sv w = (Inr t, w') \<longleftrightarrow>
     t = w_now w + int (tick sv (w_n w)) \<and> w' = w\<lparr>w_now := t, w_n := Suc (w_n w)\<rparr>"
  by (auto simp: time_Now_def)

lemma uuid_Inr:
  "uuid_NewString sv w = (Inr i, w') \<longleftrightarrow> i = uuid sv (w_n w) \<and> w' = w\<lparr>w_n := Suc (w_n w)\<rparr>"
  by (auto simp: uuid_NewString_def draw_def)

lemma put_Inr:
  "put get upd f sv w = (Inr n, w') \<longleftrightarrow>
     (\<exists>t. db_fault sv (w_n w) = None \<and> f (get (others sv (w_n w) (w_db w))) = Some (t, n)
        \<and> w' = w\<lparr>w_db := upd (\<lambda>_. t) (others sv (w_n w) (w_db w)), w_n := Suc (w_n w)\<rparr>)"
  by (auto simp: put_def stmt_Inr)

lemma exec_Inr: "exec m sv w = (Inr u, w') \<longleftrightarrow> (\<exists>n. m sv w = (Inr n, w'))"
  by (auto simp: exec_def thenM_Inr ret_Inr)

lemma Inr_result: "\<not> isl (fst p) \<Longrightarrow> \<exists>x w. p = (Inr x, w)"
  by (cases p; cases "fst p") auto

end
