(* ===== verification/Contract.thy ===== *)
theory Contract
  imports Runtime
begin

text \<open>
  The contract every operation keeps with respect to a relation on databases.  \<open>guar R okId okHash m Q\<close>
  says: if every other request respects \<open>R\<close>, no UUID drawn breaks \<open>okId\<close> and no token drawn has a
  hash that breaks \<open>okHash\<close>, then \<open>m\<close> respects \<open>R\<close>, whether it returns an error or a value, and a
  value it returns satisfies \<open>Q\<close>.  The locale \<open>db_contract\<close> collects what a relation must allow
  for all operations of the store to respect it; the operations are proved against the locale
  once, and each relation that matters (unique keys kept, a revoked session never valid again, a
  used reset token never usable again, ...) is an interpretation.
\<close>

definition rely :: "(db \<Rightarrow> db \<Rightarrow> bool) \<Rightarrow> (string \<Rightarrow> bool) \<Rightarrow> (string \<Rightarrow> bool) \<Rightarrow> Svc \<Rightarrow> bool" where
  "rely R okId okHash sv \<longleftrightarrow>
     (\<forall>n d. R d (others sv n d)) \<and> (\<forall>n. okId (uuid sv n))
     \<and> (\<forall>n b. rand sv n 32 = Some b \<longrightarrow> okHash (hex_sha256 (sha256 sv) (RawURLEncode b)))"

definition guar ::
  "(db \<Rightarrow> db \<Rightarrow> bool) \<Rightarrow> (string \<Rightarrow> bool) \<Rightarrow> (string \<Rightarrow> bool) \<Rightarrow> 'a M \<Rightarrow> ('a \<Rightarrow> bool) \<Rightarrow> bool" where
  "guar R okId okHash m Q \<longleftrightarrow>
     (\<forall>sv w. rely R okId okHash sv \<longrightarrow>
        R (w_db w) (w_db (snd (m sv w))) \<and> (\<forall>x. fst (m sv w) = Inr x \<longrightarrow> Q x))"

section \<open>How rows may change\<close>

text \<open>\<open>evolves step new t t'\<close>: every row of the new table comes from a row of the old one by \<open>step\<close>
  or is a \<open>new\<close> row.  Rows may disappear.\<close>

definition evolves :: "('r \<Rightarrow> 'r \<Rightarrow> bool) \<Rightarrow> ('r \<Rightarrow> bool) \<Rightarrow> 'r list \<Rightarrow> 'r list \<Rightarrow> bool" where
  "evolves step new t t' \<longleftrightarrow> (\<forall>r' \<in> set t'. (\<exists>r \<in> set t. step r r') \<or> new r')"

definition session_step :: "Session \<Rightarrow> Session \<Rightarrow> bool" where
  "session_step s s' \<longleftrightarrow>
     s_ID s' = s_ID s \<and> s_UserID s' = s_UserID s \<and> s_TokenHash s' = s_TokenHash s
     \<and> s_ExpiresAt s' = s_ExpiresAt s \<and> (s_RevokedAt s \<noteq> None \<longrightarrow> s_RevokedAt s' \<noteq> None)"

definition token_step :: "PasswordResetToken \<Rightarrow> PasswordResetToken \<Rightarrow> bool" where
  "token_step t t' \<longleftrightarrow>
     t_ID t' = t_ID t \<and> t_UserID t' = t_UserID t \<and> t_TokenHash t' = t_TokenHash t
     \<and> t_ExpiresAt t' = t_ExpiresAt t \<and> (t_UsedAt t \<noteq> None \<longrightarrow> t_UsedAt t' \<noteq> None)"

definition device_step :: "MFATrustedDevice \<Rightarrow> MFATrustedDevice \<Rightarrow> bool" where
  "device_step d d' \<longleftrightarrow>
     td_ID d' = td_ID d \<and> td_UserID d' = td_UserID d
     \<and> (td_RevokedAt d \<noteq> None \<longrightarrow> d' = d)"

definition code_step :: "recovery_code \<Rightarrow> recovery_code \<Rightarrow> bool" where
  "code_step c c' \<longleftrightarrow>
     rc_id c' = rc_id c \<and> rc_user_id c' = rc_user_id c \<and> rc_code_hash c' = rc_code_hash c
     \<and> (rc_used_at c \<noteq> None \<longrightarrow> c' = c)"

lemma session_step_refl [simp]: "session_step s s" by (simp add: session_step_def)
lemma token_step_refl [simp]: "token_step t t" by (simp add: token_step_def)
lemma device_step_refl [simp]: "device_step d d" by (simp add: device_step_def)
lemma code_step_refl [simp]: "code_step c c" by (simp add: code_step_def)

lemma evolves_map:
  "(\<And>r. step r r) \<Longrightarrow> (\<And>r. r \<in> set t \<Longrightarrow> P r \<Longrightarrow> step r (f r))
   \<Longrightarrow> evolves step new t (map (\<lambda>r. if P r then f r else r) t)"
  by (auto simp: evolves_def)

lemma evolves_filter: "(\<And>r. step r r) \<Longrightarrow> evolves step new t (filter P t)"
  by (auto simp: evolves_def)

lemma evolves_append: "(\<And>r. step r r) \<Longrightarrow> new r \<Longrightarrow> evolves step new t (t @ [r])"
  by (auto simp: evolves_def)

text \<open>Every table statement keeps the unique keys of its table.\<close>

definition keeps_uniq :: "('r, 'k) keys \<Rightarrow> ('r list \<Rightarrow> ('r list \<times> int) option) \<Rightarrow> bool" where
  "keeps_uniq ks f \<longleftrightarrow> (\<forall>t t' n. f t = Some (t', n) \<longrightarrow> uniq ks t \<longrightarrow> uniq ks t')"

lemma keeps_uniqD: "keeps_uniq ks f \<Longrightarrow> f t = Some (t', n) \<Longrightarrow> uniq ks t \<Longrightarrow> uniq ks t'"
  unfolding keeps_uniq_def by blast

lemma keeps_uniq_table:
  "keeps_uniq ks (t_insert ks r)" "keeps_uniq ks (t_update ks P f)" "keeps_uniq ks (t_delete P)"
  "keeps_uniq ks (t_upsert ks same f r)"
  by (auto simp: keeps_uniq_def t_insert_Some t_update_Some t_delete_Some uniq_filter
      dest: t_upsert_Some)

section \<open>The contract\<close>

named_theorems guar_intros \<open>operations that keep the contract\<close>

locale db_contract =
  fixes R :: "db \<Rightarrow> db \<Rightarrow> bool"
    and okId :: "string \<Rightarrow> bool"
    and okHash :: "string \<Rightarrow> bool"
  assumes R_refl: "R d d"
    and R_trans: "R d1 d2 \<Longrightarrow> R d2 d3 \<Longrightarrow> R d1 d3"
    and R_users: "(uniq users_keys (users d) \<Longrightarrow> uniq users_keys t) \<Longrightarrow> R d (d\<lparr>users := t\<rparr>)"
    and R_registrations:
      "(uniq registrations_keys (registrations d) \<Longrightarrow> uniq registrations_keys t1)
       \<Longrightarrow> R d (d\<lparr>registrations := t1\<rparr>)"
    and R_audit:
      "(uniq audit_keys (admin_audit_log d) \<Longrightarrow> uniq audit_keys t2) \<Longrightarrow> R d (d\<lparr>admin_audit_log := t2\<rparr>)"
    and R_rate:
      "(uniq rate_keys (rate_limit_events d) \<Longrightarrow> uniq rate_keys t3) \<Longrightarrow> R d (d\<lparr>rate_limit_events := t3\<rparr>)"
    and R_settings:
      "(uniq settings_keys (settings d) \<Longrightarrow> uniq settings_keys t4) \<Longrightarrow> R d (d\<lparr>settings := t4\<rparr>)"
    and R_totp: "(uniq totp_keys (mfa_totp d) \<Longrightarrow> uniq totp_keys t5) \<Longrightarrow> R d (d\<lparr>mfa_totp := t5\<rparr>)"
    and R_webauthn:
      "(uniq webauthn_keys (mfa_webauthn_credentials d) \<Longrightarrow> uniq webauthn_keys t6)
       \<Longrightarrow> R d (d\<lparr>mfa_webauthn_credentials := t6\<rparr>)"
    and R_meta:
      "(uniq meta_keys (user_sessions_meta d) \<Longrightarrow> uniq meta_keys t7) \<Longrightarrow> R d (d\<lparr>user_sessions_meta := t7\<rparr>)"
    and R_accounts:
      "(uniq accounts_keys (mail_accounts d) \<Longrightarrow> uniq accounts_keys t8) \<Longrightarrow> R d (d\<lparr>mail_accounts := t8\<rparr>)"
    and R_sessions:
      "(uniq sessions_keys (sessions d) \<Longrightarrow> uniq sessions_keys ss)
       \<Longrightarrow> evolves session_step (\<lambda>s. okId (s_ID s) \<and> okHash (s_TokenHash s)) (sessions d) ss
       \<Longrightarrow> R d (d\<lparr>sessions := ss\<rparr>)"
    and R_tokens:
      "(uniq tokens_keys (password_reset_tokens d) \<Longrightarrow> uniq tokens_keys ts)
       \<Longrightarrow> evolves token_step (\<lambda>t. okHash (t_TokenHash t)) (password_reset_tokens d) ts
       \<Longrightarrow> R d (d\<lparr>password_reset_tokens := ts\<rparr>)"
    and R_devices:
      "(uniq devices_keys (mfa_trusted_devices d) \<Longrightarrow> uniq devices_keys ds)
       \<Longrightarrow> evolves device_step (\<lambda>r. okId (td_ID r)) (mfa_trusted_devices d) ds
       \<Longrightarrow> R d (d\<lparr>mfa_trusted_devices := ds\<rparr>)"
    and R_recovery:
      "(uniq recovery_keys (mfa_recovery_codes d) \<Longrightarrow> uniq recovery_keys cs)
       \<Longrightarrow> evolves code_step (\<lambda>c. okId (rc_id c)) (mfa_recovery_codes d) cs
       \<Longrightarrow> R d (d\<lparr>mfa_recovery_codes := cs\<rparr>)"
begin

abbreviation G :: "'a M \<Rightarrow> ('a \<Rightarrow> bool) \<Rightarrow> bool" where "G \<equiv> guar R okId okHash"

lemma guarI:
  assumes "\<And>sv w. rely R okId okHash sv \<Longrightarrow> R (w_db w) (w_db (snd (m sv w)))"
    and "\<And>sv w x. rely R okId okHash sv \<Longrightarrow> fst (m sv w) = Inr x \<Longrightarrow> Q x"
  shows "G m Q"
  using assms by (simp add: guar_def)

lemma guar_R: "G m Q \<Longrightarrow> rely R okId okHash sv \<Longrightarrow> R (w_db w) (w_db (snd (m sv w)))"
  by (simp add: guar_def)

lemma guar_Q: "G m Q \<Longrightarrow> rely R okId okHash sv \<Longrightarrow> fst (m sv w) = Inr x \<Longrightarrow> Q x"
  by (simp add: guar_def)

lemma guar_weaken: "G m Q \<Longrightarrow> (\<And>x. Q x \<Longrightarrow> Q' x) \<Longrightarrow> G m Q'"
  by (simp add: guar_def)

lemma guar_ret [guar_intros]: "Q x \<Longrightarrow> G (ret x) Q"
  by (simp add: guar_def ret_def R_refl)

lemma guar_fail [guar_intros]: "G (fail e) Q"
  by (simp add: guar_def fail_def R_refl)

lemma guar_ask [guar_intros]: "(\<And>sv. Q (f sv)) \<Longrightarrow> G (askM f) Q"
  by (simp add: guar_def askM_def R_refl)

lemma guar_lift [guar_intros]: "(\<And>x. r = Inr x \<Longrightarrow> Q x) \<Longrightarrow> G (liftE r) Q"
  by (simp add: guar_def liftE_def R_refl)

lemma guar_try:
  assumes m: "G m Q'" and e: "\<And>e. G (k (Inl e)) Q" and v: "\<And>x. Q' x \<Longrightarrow> G (k (Inr x)) Q"
  shows "G (tryM m k) Q"
proof -
  have "R (w_db w) (w_db (snd (tryM m k sv w))) \<and> (\<forall>x. fst (tryM m k sv w) = Inr x \<longrightarrow> Q x)"
    if rely: "rely R okId okHash sv" for sv w
  proof -
    obtain r w1 where m1: "m sv w = (r, w1)" by force
    have R1: "R (w_db w) (w_db w1)" using guar_R [OF m rely, of w] m1 by simp
    have "G (k r) Q"
      using e v guar_Q [OF m rely, of w] m1 by (cases r) auto
    then have "R (w_db w1) (w_db (snd (k r sv w1))) \<and> (\<forall>x. fst (k r sv w1) = Inr x \<longrightarrow> Q x)"
      using rely by (simp add: guar_def)
    then show ?thesis using R1 R_trans m1 by (auto simp: tryM_def)
  qed
  then show ?thesis by (simp add: guar_def)
qed

lemma guar_bind: "G m Q' \<Longrightarrow> (\<And>x. Q' x \<Longrightarrow> G (k x) Q) \<Longrightarrow> G (bindM m k) Q"
  unfolding bindM_def by (erule guar_try) (simp_all add: guar_fail)

lemma guar_then [guar_intros]: "G m (\<lambda>_. True) \<Longrightarrow> G k Q \<Longrightarrow> G (thenM m k) Q"
  unfolding thenM_def by (rule guar_bind)

lemma guar_ignore [guar_intros]: "G m (\<lambda>_. True) \<Longrightarrow> G k Q \<Longrightarrow> G (ignoreM m k) Q"
  unfolding ignoreM_def by (rule guar_try)

lemma guar_mapErr [guar_intros]: "G m Q \<Longrightarrow> G (mapErr f m) Q"
  unfolding mapErr_def by (erule guar_try) (simp_all add: guar_fail guar_ret)

lemma guar_when [guar_intros]: "(b \<Longrightarrow> G m (\<lambda>_. True)) \<Longrightarrow> G (whenM b m) (\<lambda>_. True)"
  by (simp add: whenM_def guar_ret)

lemma guar_if [guar_intros]: "(b \<Longrightarrow> G m Q) \<Longrightarrow> (\<not> b \<Longrightarrow> G m' Q) \<Longrightarrow> G (if b then m else m') Q"
  by simp

lemma guar_option [guar_intros]:
  "(x = None \<Longrightarrow> G m Q) \<Longrightarrow> (\<And>y. x = Some y \<Longrightarrow> G (f y) Q) \<Longrightarrow> G (case x of None \<Rightarrow> m | Some y \<Rightarrow> f y) Q"
  by (cases x) simp_all

lemma guar_sum [guar_intros]:
  "(\<And>e. x = Inl e \<Longrightarrow> G (f e) Q) \<Longrightarrow> (\<And>y. x = Inr y \<Longrightarrow> G (g y) Q)
   \<Longrightarrow> G (case x of Inl e \<Rightarrow> f e | Inr y \<Rightarrow> g y) Q"
  by (cases x) simp_all

lemma guar_prod [guar_intros]:
  "(\<And>a b. x = (a, b) \<Longrightarrow> G (f a b) Q) \<Longrightarrow> G (case x of (a, b) \<Rightarrow> f a b) Q"
  by (cases x) simp

lemma guar_seq: "list_all (\<lambda>m. G m (\<lambda>_. True)) ms \<Longrightarrow> G (seqM ms) (\<lambda>_. True)"
  by (induction ms) (simp_all add: guar_ret guar_then)

lemma guar_time [guar_intros]: "G time_Now (\<lambda>_. True)"
  by (simp add: guar_def time_Now_def R_refl)

lemma guar_uuid: "G uuid_NewString okId"
  by (auto simp: guar_def uuid_NewString_def draw_def R_refl rely_def)

lemma guar_note [guar_intros]: "G (note_effect e) (\<lambda>_. True)"
  by (simp add: guar_def note_effect_def R_refl)

lemma guar_draw: "G (draw f) (\<lambda>_. True)"
  by (simp add: guar_def draw_def R_refl)

lemma guar_stmt:
  assumes "\<And>d d' x. f d = Some (d', x) \<Longrightarrow> R d d' \<and> Q x"
  shows "G (stmt f) Q"
proof -
  have "R (w_db w) (w_db (snd (stmt f sv w))) \<and> (\<forall>x. fst (stmt f sv w) = Inr x \<longrightarrow> Q x)"
    if rely: "rely R okId okHash sv" for sv w
  proof -
    have o: "R (w_db w) (others sv (w_n w) (w_db w))" using rely by (simp add: rely_def)
    show ?thesis
      using o R_trans [OF o] assms [of "others sv (w_n w) (w_db w)"]
      by (auto simp: stmt_def split: option.split)
  qed
  then show ?thesis by (simp add: guar_def)
qed

lemma guar_query: "(\<And>d. Q (f d)) \<Longrightarrow> G (query f) Q"
  unfolding query_def by (rule guar_stmt) (auto simp: R_refl)

lemma guar_query_row: "(\<And>d x. f d = Some x \<Longrightarrow> Q x) \<Longrightarrow> G (query_row e f) Q"
  unfolding query_row_def
  by (rule guar_bind [OF guar_query [where Q = "\<lambda>r. \<forall>x. r = Some x \<longrightarrow> Q x"]])
    (auto intro: guar_fail guar_ret split: option.split)

lemmas guar_queries = guar_query [of "\<lambda>_. True", OF TrueI] guar_query_row [of _ "\<lambda>_. True", OF TrueI]

lemma rely_alone: "rely R okId okHash sv \<Longrightarrow> rely R okId okHash (alone sv)"
  by (simp add: rely_def alone_def R_refl)

lemma guar_tx [guar_intros]:
  assumes "G body Q"
  shows "G (in_tx body) Q"
proof -
  let ?b = "bindM body (\<lambda>x. thenM (query (\<lambda>_. ())) (ret x))"
  have b: "G ?b Q"
    by (rule guar_bind [OF assms]) (intro guar_then guar_ret guar_query, simp_all)
  have q: "G (query (\<lambda>_. ())) (\<lambda>_. True)" by (rule guar_query) simp
  have "R (w_db w) (w_db (snd (in_tx body sv w))) \<and> (\<forall>x. fst (in_tx body sv w) = Inr x \<longrightarrow> Q x)"
    if rely: "rely R okId okHash sv" for sv w
  proof -
    obtain r w1 where q1: "query (\<lambda>_. ()) sv w = (r, w1)" by force
    have R1: "R (w_db w) (w_db w1)" using guar_R [OF q rely, of w] q1 by simp
    obtain r2 w2 where b1: "?b (alone sv) w1 = (r2, w2)" by force
    have R2: "R (w_db w1) (w_db w2)" using guar_R [OF b rely_alone [OF rely], of w1] b1 by simp
    have Q2: "r2 = Inr x \<Longrightarrow> Q x" for x
      using guar_Q [OF b rely_alone [OF rely], of w1] b1 by simp
    show ?thesis
      using q1 b1 R1 R_trans [OF R1 R2] Q2 by (auto simp: in_tx_def split: sum.split)
  qed
  then show ?thesis by (simp add: guar_def)
qed

lemma guar_exec [guar_intros]: "G m (\<lambda>_. True) \<Longrightarrow> G (exec m) (\<lambda>_. True)"
  unfolding exec_def by (intro guar_then guar_ret TrueI)

lemma guar_rows_or [guar_intros]: "G m (\<lambda>_. True) \<Longrightarrow> G (rows_or e m) (\<lambda>_. True)"
  unfolding rows_or_def by (erule guar_bind) (simp add: guar_fail guar_ret)

lemma guar_put:
  assumes "\<And>d t n. f (get d) = Some (t, n) \<Longrightarrow> R d (upd (\<lambda>_. t) d)"
  shows "G (put get upd f) (\<lambda>_. True)"
  unfolding put_def by (rule guar_stmt) (auto dest: assms)

text \<open>Sequencing when nothing needs to be known of the intermediate value, and after drawing an id.\<close>

lemma guar_bindT: "G m (\<lambda>_. True) \<Longrightarrow> (\<And>x. G (k x) Q) \<Longrightarrow> G (bindM m k) Q"
  by (erule guar_bind)

lemma guar_tryT:
  "G m (\<lambda>_. True) \<Longrightarrow> (\<And>e. G (k (Inl e)) Q) \<Longrightarrow> (\<And>x. G (k (Inr x)) Q) \<Longrightarrow> G (tryM m k) Q"
  by (erule guar_try)

lemma guar_uuidT: "G uuid_NewString (\<lambda>_. True)"
  by (rule guar_weaken [OF guar_uuid TrueI])

lemmas guar_seq_intros [guar_intros] = guar_bindT guar_tryT guar_queries guar_uuidT

lemma guar_tables [guar_intros]:
  "keeps_uniq users_keys f1 \<Longrightarrow> G (on_users f1) (\<lambda>_. True)"
  "keeps_uniq registrations_keys f2 \<Longrightarrow> G (on_registrations f2) (\<lambda>_. True)"
  "keeps_uniq audit_keys f3 \<Longrightarrow> G (on_audit f3) (\<lambda>_. True)"
  "keeps_uniq rate_keys f4 \<Longrightarrow> G (on_rate f4) (\<lambda>_. True)"
  "keeps_uniq settings_keys f5 \<Longrightarrow> G (on_settings f5) (\<lambda>_. True)"
  "keeps_uniq totp_keys f6 \<Longrightarrow> G (on_totp f6) (\<lambda>_. True)"
  "keeps_uniq webauthn_keys f7 \<Longrightarrow> G (on_webauthn f7) (\<lambda>_. True)"
  "keeps_uniq meta_keys f8 \<Longrightarrow> G (on_meta f8) (\<lambda>_. True)"
  "keeps_uniq accounts_keys f9 \<Longrightarrow> G (on_accounts f9) (\<lambda>_. True)"
  by (rule guar_put, rule R_users R_registrations R_audit R_rate R_settings R_totp R_webauthn
      R_meta R_accounts, erule (2) keeps_uniqD)+

lemma guar_sessions [guar_intros]:
  "okId (s_ID s) \<Longrightarrow> okHash (s_TokenHash s) \<Longrightarrow> G (on_sessions (t_insert sessions_keys s)) (\<lambda>_. True)"
  "(\<And>r. P r \<Longrightarrow> session_step r (f r)) \<Longrightarrow> G (on_sessions (t_update sessions_keys P f)) (\<lambda>_. True)"
  "G (on_sessions (t_delete P)) (\<lambda>_. True)"
  by (rule guar_put; auto simp: t_insert_Some t_update_Some t_delete_Some uniq_filter
      intro!: R_sessions evolves_append evolves_map evolves_filter)+

lemma guar_tokens [guar_intros]:
  "okHash (t_TokenHash t) \<Longrightarrow> G (on_tokens (t_insert tokens_keys t)) (\<lambda>_. True)"
  "(\<And>r. P r \<Longrightarrow> token_step r (f r)) \<Longrightarrow> G (on_tokens (t_update tokens_keys P f)) (\<lambda>_. True)"
  "G (on_tokens (t_delete P)) (\<lambda>_. True)"
  by (rule guar_put; auto simp: t_insert_Some t_update_Some t_delete_Some uniq_filter
      intro!: R_tokens evolves_append evolves_map evolves_filter)+

lemma guar_devices [guar_intros]:
  "okId (td_ID r) \<Longrightarrow> G (on_devices (t_insert devices_keys r)) (\<lambda>_. True)"
  "(\<And>r. P r \<Longrightarrow> device_step r (f r)) \<Longrightarrow> G (on_devices (t_update devices_keys P f)) (\<lambda>_. True)"
  by (rule guar_put; auto simp: t_insert_Some t_update_Some
      intro!: R_devices evolves_append evolves_map)+

lemma guar_recovery [guar_intros]:
  "okId (rc_id c) \<Longrightarrow> G (on_recovery (t_insert recovery_keys c)) (\<lambda>_. True)"
  "(\<And>r. P r \<Longrightarrow> code_step r (f r)) \<Longrightarrow> G (on_recovery (t_update recovery_keys P f)) (\<lambda>_. True)"
  "G (on_recovery (t_delete P)) (\<lambda>_. True)"
  by (rule guar_put; auto simp: t_insert_Some t_update_Some t_delete_Some uniq_filter
      intro!: R_recovery evolves_append evolves_map evolves_filter)+

declare keeps_uniq_table [guar_intros]

end

end
