(* ===== verification/StoreUsers.thy ===== *)
theory StoreUsers
  imports Sql Contract
begin

text \<open>
  \<^verbatim>\<open>internal/store/store.go\<close>: users, settings, registrations and the audit log.  One definition per
  method; a method that reads the clock or draws an id does so where the source does.
\<close>

section \<open>Rows to structs\<close>

definition normalizeMFAPreference :: "string \<Rightarrow> string" where
  "normalizeMFAPreference raw =
     (let p = lower_trim raw in
      if p = ''totp'' then ''totp'' else if p = ''webauthn'' then ''webauthn'' else ''none'')"

text \<open>A column that counts as absent when it is NULL or blank.\<close>

definition present :: "(string \<Rightarrow> string) \<Rightarrow> string option \<Rightarrow> string option" where
  "present norm x = (case x of None \<Rightarrow> None | Some v \<Rightarrow> if norm v = [] then None else Some (norm v))"

definition scanUserCore :: "user_row \<Rightarrow> User" where
  "scanUserCore r = \<lparr>
     u_ID = u_ID r, u_Email = u_Email r,
     u_RecoveryEmail = present lower_trim (u_RecoveryEmail r),
     u_MailLogin = present TrimSpace (u_MailLogin r),
     u_MFAPreference = normalizeMFAPreference (u_MFAPreference r),
     u_LegacyMFAPromptPending = u_LegacyMFAPromptPending r,
     u_MFASetupSwitchUsed = u_MFASetupSwitchUsed r,
     u_MFABackupCompleted = u_MFABackupCompleted r,
     u_PasswordHash = u_PasswordHash r, u_Role = u_Role r, u_Status = u_Status r,
     u_ProvisionState = u_ProvisionState r, u_ProvisionError = u_ProvisionError r,
     u_CreatedAt = u_CreatedAt r, u_ApprovedAt = u_ApprovedAt r,
     u_ApprovedBy = present TrimSpace (u_ApprovedBy r),
     u_LastLoginAt = u_LastLoginAt r\<rparr>"

section \<open>Users\<close>

definition set_user :: "string \<Rightarrow> (user_row \<Rightarrow> user_row) \<Rightarrow> int M" where
  "set_user userID f = on_users (t_update users_keys (\<lambda>r. u_ID r = userID) f)"

definition CreateUserWithMFARecovery ::
  "string \<Rightarrow> string \<Rightarrow> string \<Rightarrow> string \<Rightarrow> string \<Rightarrow> string \<Rightarrow> User M" where
  "CreateUserWithMFARecovery email passwordHash role status mfaPreference recoveryEmail =
     bindM time_Now (\<lambda>now.
     bindM uuid_NewString (\<lambda>newID.
       let recovery = lower_trim recoveryEmail;
           preference = normalizeMFAPreference mfaPreference;
           u = \<lparr>u_ID = newID, u_Email = email,
                u_RecoveryEmail = (if recovery = [] then None else Some recovery),
                u_MailLogin = None, u_MFAPreference = preference,
                u_LegacyMFAPromptPending = False, u_MFASetupSwitchUsed = False,
                u_MFABackupCompleted = (preference = ''none''),
                u_PasswordHash = passwordHash, u_Role = role, u_Status = status,
                u_ProvisionState = ''pending'', u_ProvisionError = None, u_CreatedAt = now,
                u_ApprovedAt = None, u_ApprovedBy = None, u_LastLoginAt = None\<rparr>
       in thenM (on_users (t_insert users_keys
                  (User.extend u \<lparr>u_mail_secret_enc = None, u_mail_secret_updated_at = None\<rparr>)))
           (ret u)))"

definition CreateUserWithMFA :: "string \<Rightarrow> string \<Rightarrow> string \<Rightarrow> string \<Rightarrow> string \<Rightarrow> User M" where
  "CreateUserWithMFA email passwordHash role status mfaPreference =
     CreateUserWithMFARecovery email passwordHash role status mfaPreference email"

definition CreateUser :: "string \<Rightarrow> string \<Rightarrow> string \<Rightarrow> string \<Rightarrow> User M" where
  "CreateUser email passwordHash role status = CreateUserWithMFA email passwordHash role status ''none''"

definition GetUserByEmail :: "string \<Rightarrow> User M" where
  "GetUserByEmail email =
     query_row ErrNotFound (\<lambda>d. map_option scanUserCore (find (\<lambda>r. u_Email r = email) (users d)))"

definition GetUserByID :: "string \<Rightarrow> User M" where
  "GetUserByID i =
     query_row ErrNotFound (\<lambda>d. map_option scanUserCore (find (\<lambda>r. u_ID r = i) (users d)))"

definition GetUserByRecoveryEmail :: "string \<Rightarrow> User M" where
  "GetUserByRecoveryEmail recoveryEmail =
     (let email = lower_trim recoveryEmail in
      if email = [] then fail ErrNotFound
      else bindM (query (\<lambda>d. filter (\<lambda>r. sql_lower (sql_trim (opt_str (u_RecoveryEmail r))) = email) (users d)))
             (\<lambda>rows. case rows of
                [] \<Rightarrow> fail ErrNotFound
              | [r] \<Rightarrow> ret (scanUserCore r)
              | _ \<Rightarrow> fail ErrConflict))"

definition EnsureAdmin :: "string \<Rightarrow> string \<Rightarrow> unit M" where
  "EnsureAdmin email0 passwordHash =
     (let email = lower_trim email0 in
      if email = [] \<or> passwordHash = [] then ret ()
      else tryM (GetUserByEmail email) (\<lambda>r. case r of
        Inl e \<Rightarrow>
          if e = ErrNotFound
          then bindM time_Now (\<lambda>now. bindM uuid_NewString (\<lambda>newID.
                 exec (on_users (t_insert users_keys
                   \<lparr>u_ID = newID, u_Email = email, u_RecoveryEmail = Some email, u_MailLogin = None,
                    u_MFAPreference = ''none'', u_LegacyMFAPromptPending = False,
                    u_MFASetupSwitchUsed = False, u_MFABackupCompleted = True,
                    u_PasswordHash = passwordHash, u_Role = ''admin'', u_Status = UserActive,
                    u_ProvisionState = ''ok'', u_ProvisionError = None, u_CreatedAt = now,
                    u_ApprovedAt = Some now, u_ApprovedBy = None, u_LastLoginAt = None,
                    u_mail_secret_enc = None, u_mail_secret_updated_at = None\<rparr>))))
          else fail e
      | Inr u \<Rightarrow>
          exec (set_user (u_ID u) (\<lambda>r. r\<lparr>
            u_Role := ''admin'', u_Status := UserActive, u_PasswordHash := passwordHash,
            u_ProvisionState := ''ok'', u_ProvisionError := None,
            u_RecoveryEmail := Some (case u_RecoveryEmail r of
                None \<Rightarrow> u_Email r
              | Some v \<Rightarrow> if sql_trim v = [] then u_Email r else sql_trim v)\<rparr>))))"

definition CountAdmins :: "int M" where
  "CountAdmins = query (\<lambda>d. int (length (filter (\<lambda>r. u_Role r = ''admin'') (users d))))"

definition UpdateUserStatus :: "string \<Rightarrow> string \<Rightarrow> string option \<Rightarrow> unit M" where
  "UpdateUserStatus userID status approver =
     bindM time_Now (\<lambda>now.
       if status = UserActive \<and> approver \<noteq> None
       then exec (set_user userID (\<lambda>r. r\<lparr>u_Status := status, u_ApprovedAt := Some now, u_ApprovedBy := approver\<rparr>))
       else exec (set_user userID (\<lambda>r. r\<lparr>u_Status := status\<rparr>)))"

definition UpdateUserPasswordHash :: "string \<Rightarrow> string \<Rightarrow> unit M" where
  "UpdateUserPasswordHash userID h = exec (set_user userID (\<lambda>r. r\<lparr>u_PasswordHash := h\<rparr>))"

definition UpdateUserMailLogin :: "string \<Rightarrow> string \<Rightarrow> unit M" where
  "UpdateUserMailLogin userID mailLogin =
     (let m = TrimSpace mailLogin in
      exec (set_user userID (\<lambda>r. r\<lparr>u_MailLogin := (if m = [] then None else Some m)\<rparr>)))"

definition UpsertUserMailSecret :: "string \<Rightarrow> string \<Rightarrow> unit M" where
  "UpsertUserMailSecret userID mailSecretEnc =
     (let m = TrimSpace mailSecretEnc in
      bindM time_Now (\<lambda>now.
        exec (set_user userID (\<lambda>r.
          if m = [] then r\<lparr>u_mail_secret_enc := None, u_mail_secret_updated_at := None\<rparr>
          else r\<lparr>u_mail_secret_enc := Some m, u_mail_secret_updated_at := Some now\<rparr>))))"

text \<open>\<^const>\<open>None\<close>: there is no secret (\<^verbatim>\<open>ok\<close> is false).\<close>

definition GetUserMailSecret :: "string \<Rightarrow> string option M" where
  "GetUserMailSecret userID =
     bindM (query_row ErrNotFound (\<lambda>d. find (\<lambda>r. u_ID r = userID) (users d)))
       (\<lambda>r. ret (present TrimSpace (u_mail_secret_enc r)))"

definition UpdateUserRecoveryEmail :: "string \<Rightarrow> string \<Rightarrow> unit M" where
  "UpdateUserRecoveryEmail userID recoveryEmail =
     (let m = lower_trim recoveryEmail in
      exec (set_user userID (\<lambda>r. r\<lparr>u_RecoveryEmail := (if m = [] then None else Some m)\<rparr>)))"

definition GetUserMFAPreference :: "string \<Rightarrow> string M" where
  "GetUserMFAPreference userID =
     bindM (query_row ErrNotFound (\<lambda>d. find (\<lambda>r. u_ID r = userID) (users d)))
       (\<lambda>r. ret (normalizeMFAPreference (u_MFAPreference r)))"

definition UpdateUserMFAPreference :: "string \<Rightarrow> string \<Rightarrow> unit M" where
  "UpdateUserMFAPreference userID preference =
     rows_or ErrNotFound (set_user userID (\<lambda>r. r\<lparr>u_MFAPreference := normalizeMFAPreference preference\<rparr>))"

definition SetLegacyMFAPromptPending :: "string \<Rightarrow> bool \<Rightarrow> unit M" where
  "SetLegacyMFAPromptPending userID pending =
     rows_or ErrNotFound (set_user userID (\<lambda>r. r\<lparr>u_LegacyMFAPromptPending := pending\<rparr>))"

definition MarkMFASetupSwitchUsed :: "string \<Rightarrow> unit M" where
  "MarkMFASetupSwitchUsed userID =
     rows_or ErrNotFound (set_user userID (\<lambda>r. r\<lparr>u_MFASetupSwitchUsed := True\<rparr>))"

definition SetMFASetupSwitchUsed :: "string \<Rightarrow> bool \<Rightarrow> unit M" where
  "SetMFASetupSwitchUsed userID used =
     rows_or ErrNotFound (set_user userID (\<lambda>r. r\<lparr>u_MFASetupSwitchUsed := used\<rparr>))"

definition SetUserMFABackupCompleted :: "string \<Rightarrow> bool \<Rightarrow> unit M" where
  "SetUserMFABackupCompleted userID completed =
     rows_or ErrNotFound (set_user userID (\<lambda>r. r\<lparr>u_MFABackupCompleted := completed\<rparr>))"

definition TouchUserLastLogin :: "string \<Rightarrow> gotime \<Rightarrow> unit M" where
  "TouchUserLastLogin userID at = exec (set_user userID (\<lambda>r. r\<lparr>u_LastLoginAt := Some at\<rparr>))"

definition UpdateProvisionState :: "string \<Rightarrow> string \<Rightarrow> string option \<Rightarrow> unit M" where
  "UpdateProvisionState userID state errMsg =
     exec (set_user userID (\<lambda>r. r\<lparr>u_ProvisionState := state, u_ProvisionError := errMsg\<rparr>))"

record UserQuery =
  uq_Q :: string
  uq_Status :: string
  uq_Role :: string
  uq_ProvisionState :: string
  uq_Sort :: string
  uq_Order :: string
  uq_Limit :: int
  uq_Offset :: int

definition needle :: "string \<Rightarrow> string" where "needle q = ''%'' @ ToLower q @ ''%''"

definition list_filter :: "string \<Rightarrow> string \<Rightarrow> bool" where
  "list_filter wanted column \<longleftrightarrow>
     (let f = TrimSpace (ToLower wanted) in f = [] \<or> f = ''all'' \<or> sql_lower column = f)"

definition user_matches :: "UserQuery \<Rightarrow> user_row \<Rightarrow> bool" where
  "user_matches flt r \<longleftrightarrow>
     sql_lower (sql_trim (u_Status r)) \<noteq> ''rejected''
     \<and> (let q = TrimSpace (uq_Q flt) in
        q = [] \<or> list_ex (\<lambda>c. sql_like (needle q) (sql_lower c))
                   [u_Email r, u_Role r, u_Status r, u_ProvisionState r])
     \<and> list_filter (uq_Status flt) (u_Status r)
     \<and> list_filter (uq_Role flt) (u_Role r)
     \<and> list_filter (uq_ProvisionState flt) (u_ProvisionState r)"

definition user_column :: "string \<Rightarrow> user_row \<Rightarrow> sqlval" where
  "user_column c r =
     (if c = ''email'' then STxt (u_Email r)
      else if c = ''role'' then STxt (u_Role r)
      else if c = ''status'' then STxt (u_Status r)
      else if c = ''provision_state'' then STxt (u_ProvisionState r)
      else if c = ''last_login_at'' then sql_time (u_LastLoginAt r)
      else SInt (u_CreatedAt r))"

definition ListUsers :: "UserQuery \<Rightarrow> (User list \<times> int) M" where
  "ListUsers q =
     bindM (query (\<lambda>d. int (length (filter (user_matches q) (users d))))) (\<lambda>total.
     bindM (query (\<lambda>d. limit_offset (clampLimit (uq_Limit q)) (clampOffset (uq_Offset q))
              (order_by (user_column (sanitizeUserSort (uq_Sort q))) (sanitizeSortOrder (uq_Order q))
                (filter (user_matches q) (users d))))) (\<lambda>rows.
       ret (map scanUserCore rows, total)))"

section \<open>Settings\<close>

definition GetSetting :: "string \<Rightarrow> string option M" where
  "GetSetting key = query (\<lambda>d. map_option set_Value (find (\<lambda>r. set_Key r = key) (settings d)))"

definition UpsertSetting :: "string \<Rightarrow> string \<Rightarrow> unit M" where
  "UpsertSetting key v =
     bindM time_Now (\<lambda>now.
       exec (on_settings (t_upsert settings_keys (\<lambda>r. set_Key r = key)
         (\<lambda>r. r\<lparr>set_Value := v, set_UpdatedAt := now\<rparr>)
         \<lparr>set_Key = key, set_Value = v, set_UpdatedAt = now\<rparr>)))"

definition DeleteSetting :: "string \<Rightarrow> unit M" where
  "DeleteSetting key = exec (on_settings (t_delete (\<lambda>r. set_Key r = key)))"

definition DeleteSettingsByPrefixOlderThan :: "string \<Rightarrow> gotime \<Rightarrow> unit M" where
  "DeleteSettingsByPrefixOlderThan prefix0 cutoff =
     (let p = TrimSpace prefix0 in
      if p = [] then ret ()
      else exec (on_settings (t_delete (\<lambda>r. sql_like (p @ ''%'') (set_Key r) \<and> set_UpdatedAt r < cutoff))))"

definition ListSettingsByPrefix :: "string \<Rightarrow> int \<Rightarrow> SettingValue list M" where
  "ListSettingsByPrefix prefix0 limit0 =
     (let p = TrimSpace prefix0; limit = (if limit0 \<le> 0 then 100 else limit0) in
      if p = [] then ret []
      else query (\<lambda>d. limit_offset limit 0 (order_by (\<lambda>r. SInt (set_UpdatedAt r)) ''DESC''
             (filter (\<lambda>r. sql_like (p @ ''%'') (set_Key r)) (settings d)))))"

section \<open>Registrations\<close>

definition scan_registration :: "Registration \<Rightarrow> Registration" where
  "scan_registration r = r\<lparr>r_MFAPreference := normalizeMFAPreference (r_MFAPreference r)\<rparr>"

definition CreateRegistrationWithMFA ::
  "string \<Rightarrow> string \<Rightarrow> string \<Rightarrow> bool \<Rightarrow> string \<Rightarrow> Registration M" where
  "CreateRegistrationWithMFA email ip uaHash captchaOK mfaPreference =
     bindM time_Now (\<lambda>now.
     bindM uuid_NewString (\<lambda>newID.
       let r = \<lparr>r_ID = newID, r_Email = email, r_MFAPreference = normalizeMFAPreference mfaPreference,
                r_SourceIP = ip, r_UserAgentHash = uaHash, r_CaptchaOK = captchaOK,
                r_Status = ''pending'', r_CreatedAt = now, r_DecidedAt = None, r_DecidedBy = None,
                r_Reason = None\<rparr>
       in thenM (on_registrations (t_insert registrations_keys r)) (ret r)))"

definition CreateRegistration :: "string \<Rightarrow> string \<Rightarrow> string \<Rightarrow> bool \<Rightarrow> Registration M" where
  "CreateRegistration email ip uaHash captchaOK = CreateRegistrationWithMFA email ip uaHash captchaOK ''none''"

definition GetRegistrationByID :: "string \<Rightarrow> Registration M" where
  "GetRegistrationByID i =
     query_row ErrNotFound (\<lambda>d. map_option scan_registration (find (\<lambda>r. r_ID r = i) (registrations d)))"

record RegistrationQuery =
  rq_Status :: string
  rq_Q :: string
  rq_Sort :: string
  rq_Order :: string
  rq_Limit :: int
  rq_Offset :: int

definition registration_matches :: "RegistrationQuery \<Rightarrow> Registration \<Rightarrow> bool" where
  "registration_matches flt r \<longleftrightarrow>
     (let s0 = TrimSpace (ToLower (rq_Status flt)); s = (if s0 = [] then ''pending'' else s0) in
      s = ''all'' \<or> sql_lower (r_Status r) = s)
     \<and> (let q = TrimSpace (rq_Q flt) in
        q = [] \<or> list_ex (\<lambda>c. sql_like (needle q) (sql_lower c)) [r_Email r, opt_str (r_Reason r)])"

definition registration_column :: "string \<Rightarrow> Registration \<Rightarrow> sqlval" where
  "registration_column c r =
     (if c = ''email'' then STxt (r_Email r)
      else if c = ''status'' then STxt (r_Status r)
      else if c = ''decided_at'' then sql_time (r_DecidedAt r)
      else SInt (r_CreatedAt r))"

definition ListRegistrations :: "RegistrationQuery \<Rightarrow> (Registration list \<times> int) M" where
  "ListRegistrations q =
     bindM (query (\<lambda>d. int (length (filter (registration_matches q) (registrations d))))) (\<lambda>total.
     bindM (query (\<lambda>d. limit_offset (clampLimit (rq_Limit q)) (clampOffset (rq_Offset q))
              (order_by (registration_column (sanitizeRegistrationSort (rq_Sort q)))
                (sanitizeSortOrder (rq_Order q))
                (filter (registration_matches q) (registrations d))))) (\<lambda>rows.
       ret (map scan_registration rows, total)))"

definition same_address :: "string \<Rightarrow> string \<Rightarrow> bool" where
  "same_address a b \<longleftrightarrow> sql_lower (sql_trim a) = sql_lower (sql_trim b)"

definition decide :: "string \<Rightarrow> string \<Rightarrow> string \<Rightarrow> string \<Rightarrow> gotime \<Rightarrow> int M" where
  "decide regID status decidedBy reason now =
     on_registrations (t_update registrations_keys (\<lambda>r. r_ID r = regID \<and> r_Status r = ''pending'')
       (\<lambda>r. r\<lparr>r_Status := status, r_DecidedAt := Some now, r_DecidedBy := Some decidedBy,
               r_Reason := Some reason\<rparr>))"

definition SetRegistrationDecision :: "string \<Rightarrow> string \<Rightarrow> string \<Rightarrow> string \<Rightarrow> unit M" where
  "SetRegistrationDecision regID status decidedBy reason = in_tx
     (bindM (query_row ErrConflict (\<lambda>d. find (\<lambda>r. r_ID r = regID) (registrations d))) (\<lambda>r0.
        if r_Status r0 \<noteq> ''pending'' then fail ErrConflict
        else
          thenM (on_registrations (t_delete (\<lambda>r.
                   r_ID r \<noteq> regID \<and> r_Status r = status \<and> same_address (r_Email r) (r_Email r0))))
          (bindM time_Now (\<lambda>now.
             rows_or ErrConflict (decide regID status decidedBy reason now)))))"

definition RejectRegistrationAndDeletePendingUser :: "string \<Rightarrow> string \<Rightarrow> string \<Rightarrow> string M" where
  "RejectRegistrationAndDeletePendingUser regID decidedBy reason = in_tx
     (bindM (query_row ErrNotFound (\<lambda>d. find (\<lambda>r. r_ID r = regID) (registrations d))) (\<lambda>r0.
        if r_Status r0 \<noteq> ''pending'' then fail ErrConflict
        else
          bindM (query (\<lambda>d. List.find (\<lambda>_. True)
                   (sort_key u_ID (filter (\<lambda>u. sql_lower (u_Email u) = sql_lower (r_Email r0)) (users d)))))
          (\<lambda>u0.
            if (case u0 of None \<Rightarrow> False | Some u \<Rightarrow> u_Status u \<noteq> UserPending) then fail ErrUserStateConflict
            else
              let userID = (case u0 of None \<Rightarrow> [] | Some u \<Rightarrow> u_ID u) in
              bindM time_Now (\<lambda>now.
              thenM (on_registrations (t_delete (\<lambda>r.
                       r_ID r \<noteq> regID \<and> r_Status r = ''rejected'' \<and> same_address (r_Email r) (r_Email r0))))
              (thenM (rows_or ErrConflict (decide regID ''rejected'' decidedBy reason now))
              (thenM (whenM (TrimSpace userID \<noteq> [])
                 (thenM (on_sessions (t_delete (\<lambda>s. s_UserID s = userID)))
                 (thenM (on_tokens (t_delete (\<lambda>t. t_UserID t = userID)))
                        (rows_or ErrNotFound (on_users (t_delete (\<lambda>u. u_ID u = userID)))))))
              (ret userID)))))))"

section \<open>The audit log\<close>

definition InsertAudit :: "string \<Rightarrow> string \<Rightarrow> string \<Rightarrow> string \<Rightarrow> unit M" where
  "InsertAudit actorID action target metadata =
     bindM uuid_NewString (\<lambda>newID.
     bindM time_Now (\<lambda>now.
       exec (on_audit (t_insert audit_keys
         \<lparr>a_ID = newID, a_ActorUserID = actorID, a_Action = action, a_Target = target,
          a_MetadataJSON = metadata, a_CreatedAt = now\<rparr>))))"

record AuditQuery =
  aq_Q :: string
  aq_Action :: string
  aq_Actor :: string
  aq_Target :: string
  aq_From :: "gotime option"
  aq_To :: "gotime option"
  aq_Sort :: string
  aq_Order :: string
  aq_Limit :: int
  aq_Offset :: int

definition actor_email :: "db \<Rightarrow> AuditEntry \<Rightarrow> string option" where
  "actor_email d a = map_option u_Email (find (\<lambda>u. u_ID u = a_ActorUserID a) (users d))"

definition audit_matches :: "AuditQuery \<Rightarrow> db \<Rightarrow> AuditEntry \<Rightarrow> bool" where
  "audit_matches flt d a \<longleftrightarrow>
     (let email = sql_lower (opt_str (actor_email d a));
          q = TrimSpace (aq_Q flt); actor = TrimSpace (ToLower (aq_Actor flt));
          target = TrimSpace (ToLower (aq_Target flt)) in
      (q = [] \<or> list_ex (sql_like (needle q))
                  [sql_lower (a_Action a), sql_lower (a_Target a), sql_lower (a_MetadataJSON a), email])
      \<and> list_filter (aq_Action flt) (a_Action a)
      \<and> (actor = [] \<or> sql_like (''%'' @ actor @ ''%'') email)
      \<and> (target = [] \<or> sql_like (''%'' @ target @ ''%'') (sql_lower (a_Target a)))
      \<and> (case aq_From flt of None \<Rightarrow> True | Some t \<Rightarrow> t \<le> a_CreatedAt a)
      \<and> (case aq_To flt of None \<Rightarrow> True | Some t \<Rightarrow> a_CreatedAt a \<le> t))"

definition audit_column :: "string \<Rightarrow> db \<Rightarrow> AuditEntry \<Rightarrow> sqlval" where
  "audit_column c d a =
     (if c = ''a.action'' then STxt (a_Action a)
      else if c = ''u.email'' then (case actor_email d a of None \<Rightarrow> SNull | Some e \<Rightarrow> STxt e)
      else if c = ''a.target'' then STxt (a_Target a)
      else SInt (a_CreatedAt a))"

text \<open>An entry is returned with the e-mail address of its actor, empty when the user is gone.\<close>

definition ListAudit :: "AuditQuery \<Rightarrow> ((AuditEntry \<times> string) list \<times> int) M" where
  "ListAudit q =
     bindM (query (\<lambda>d. int (length (filter (audit_matches q d) (admin_audit_log d))))) (\<lambda>total.
     bindM (query (\<lambda>d. map (\<lambda>a. (a, opt_str (actor_email d a)))
              (limit_offset (clampLimit (aq_Limit q)) (clampOffset (aq_Offset q))
                (order_by (audit_column (sanitizeAuditSort (aq_Sort q)) d) (sanitizeSortOrder (aq_Order q))
                  (filter (audit_matches q d) (admin_audit_log d)))))) (\<lambda>rows.
       ret (rows, total)))"

section \<open>The contract\<close>

context db_contract
begin

lemma set_user_guar [guar_intros]: "G (set_user i f) (\<lambda>_. True)"
  unfolding set_user_def by (rule guar_intros)+

lemmas store_user_defs = CreateUserWithMFARecovery_def CreateUserWithMFA_def CreateUser_def
  EnsureAdmin_def UpdateUserStatus_def UpdateUserPasswordHash_def UpdateUserMailLogin_def
  UpsertUserMailSecret_def UpdateUserRecoveryEmail_def UpdateUserMFAPreference_def
  SetLegacyMFAPromptPending_def MarkMFASetupSwitchUsed_def SetMFASetupSwitchUsed_def
  SetUserMFABackupCompleted_def TouchUserLastLogin_def UpdateProvisionState_def

lemma user_reads_guar [guar_intros]:
  "G (GetUserByEmail email) (\<lambda>_. True)" "G (GetUserByID i) (\<lambda>_. True)" "G CountAdmins (\<lambda>_. True)"
  "G (GetUserMailSecret i) (\<lambda>_. True)" "G (GetUserMFAPreference i) (\<lambda>_. True)"
  "G (ListUsers uq) (\<lambda>_. True)" "G (GetUserByRecoveryEmail email) (\<lambda>_. True)"
  unfolding GetUserByEmail_def GetUserByID_def CountAdmins_def GetUserMailSecret_def
    GetUserMFAPreference_def ListUsers_def GetUserByRecoveryEmail_def Let_def
  by (rule guar_intros TrueI | simp add: guar_fail guar_ret split: list.split)+

lemma user_writes_guar [guar_intros]:
  "G (CreateUserWithMFARecovery email h role status pref rec) (\<lambda>_. True)"
  "G (EnsureAdmin email h) (\<lambda>_. True)"
  "G (UpdateUserStatus i status approver) (\<lambda>_. True)"
  "G (UpdateUserPasswordHash i h) (\<lambda>_. True)"
  "G (UpdateUserMailLogin i login) (\<lambda>_. True)"
  "G (UpsertUserMailSecret i sec) (\<lambda>_. True)"
  "G (UpdateUserRecoveryEmail i rec) (\<lambda>_. True)"
  "G (UpdateUserMFAPreference i pref) (\<lambda>_. True)"
  "G (SetLegacyMFAPromptPending i b) (\<lambda>_. True)"
  "G (MarkMFASetupSwitchUsed i) (\<lambda>_. True)"
  "G (SetMFASetupSwitchUsed i b) (\<lambda>_. True)"
  "G (SetUserMFABackupCompleted i b) (\<lambda>_. True)"
  "G (TouchUserLastLogin i at) (\<lambda>_. True)"
  "G (UpdateProvisionState i st msg) (\<lambda>_. True)"
  unfolding store_user_defs Let_def by (rule guar_intros TrueI)+

lemma settings_guar [guar_intros]:
  "G (GetSetting k) (\<lambda>_. True)" "G (UpsertSetting k v) (\<lambda>_. True)" "G (DeleteSetting k) (\<lambda>_. True)"
  "G (DeleteSettingsByPrefixOlderThan p at) (\<lambda>_. True)" "G (ListSettingsByPrefix p lim) (\<lambda>_. True)"
  unfolding GetSetting_def UpsertSetting_def DeleteSetting_def DeleteSettingsByPrefixOlderThan_def
    ListSettingsByPrefix_def Let_def
  by (rule guar_intros TrueI)+

lemma registrations_guar [guar_intros]:
  "G (CreateRegistrationWithMFA email ip ua ok pref) (\<lambda>_. True)"
  "G (GetRegistrationByID i) (\<lambda>_. True)" "G (ListRegistrations rq) (\<lambda>_. True)"
  "G (SetRegistrationDecision i status decider reason) (\<lambda>_. True)"
  "G (RejectRegistrationAndDeletePendingUser i decider reason) (\<lambda>_. True)"
  unfolding CreateRegistrationWithMFA_def GetRegistrationByID_def ListRegistrations_def
    SetRegistrationDecision_def RejectRegistrationAndDeletePendingUser_def decide_def Let_def
  by (rule guar_intros TrueI)+

lemma audit_guar [guar_intros]:
  "G (InsertAudit actor action target meta) (\<lambda>_. True)" "G (ListAudit aq) (\<lambda>_. True)"
  unfolding InsertAudit_def ListAudit_def by (rule guar_intros TrueI)+

end

end
