(* ===== verification/Demo.thy ===== *)
theory Demo
  imports Runtime
begin

text \<open>
  A concrete service and world for the witnesses: PAM authentication, a clock that moves one nanosecond
  per reading, numbered UUIDs, no failures and no other requests.
\<close>

definition demo_cfg :: Config where
  "demo_cfg = \<lparr>
     SessionAbsoluteHour = 24, SessionIdleMinutes = 30, SessionEncryptKey = ''app-key'',
     DovecotAuthMode = ''pam'', BaseDomain = ''example.org'', PasswordMinLength = 8,
     PasswordMaxLength = 64, PasskeyPasswordlessEnabled = False, PasswordResetPublicEnabled = True,
     PasswordResetSender = ''smtp'', PasswordResetFrom = [], PasswordResetExternalSenderReady = True,
     PasswordResetTokenTTLMinutes = 30, PasswordResetRequireMappedLogin = False,
     PAMResetHelperEnabled = True, CaptchaEnabled = False, MailSecEnabled = False,
     UpdateEnabled = False, UpdateRequireSignature = False, IMAPHost = ''imap.example.org'',
     IMAPPort = 993, IMAPTLS = True, IMAPStartTLS = False, SMTPHost = ''smtp.example.org'',
     SMTPPort = 587, SMTPTLS = False, SMTPStartTLS = True\<rparr>"

definition demo_svc :: Svc where
  "demo_svc = \<lparr>
     cfg = demo_cfg,
     idkey = (\<lambda>p s t m n l. take l (p @ s @ replicate l (CHR ''x''))),
     sha256 = (\<lambda>s. take 32 (s @ replicate 32 (CHR ''h''))),
     aes_gcm = \<lparr>seal = (\<lambda>k n p. p @ n), open_sealed = (\<lambda>k n c. Some (take (length c - length n) c))\<rparr>,
     ParseAddress = Some, LoadLocation = Some,
     json_Marshal = (\<lambda>kvs. concat (map (\<lambda>(k, v). k @ '';'') kvs)),
     rfc3339 = (\<lambda>t. ''now''),
     noop_provisioner = False, log_sender = False, sender_probes = True, sender_sends_codes = True,
     db_fault = (\<lambda>n. None), others = (\<lambda>n d. d), tick = (\<lambda>n. 1),
     uuid = (\<lambda>n. ''uuid-'' @ show_nat n),
     rand = (\<lambda>n k. Some (replicate k (char_of (65 + n)))),
     imap_login = (\<lambda>n u p. if p = ''right'' then None else Some ''authentication failed''),
     provision_upsert = (\<lambda>n. None), provision_disable = (\<lambda>n. None), send_mail = (\<lambda>n. None),
     pam_reset = (\<lambda>n. PamOk)\<rparr>"

definition demo_user :: "string \<Rightarrow> string \<Rightarrow> user_row" where
  "demo_user i email = \<lparr>
     u_ID = i, u_Email = email, u_RecoveryEmail = Some ''backup@example.net'', u_MailLogin = None,
     u_MFAPreference = ''none'', u_LegacyMFAPromptPending = False, u_MFASetupSwitchUsed = False,
     u_MFABackupCompleted = True, u_PasswordHash = ''x'', u_Role = ''user'', u_Status = UserActive,
     u_ProvisionState = ''ok'', u_ProvisionError = None, u_CreatedAt = 0, u_ApprovedAt = None,
     u_ApprovedBy = None, u_LastLoginAt = None, u_mail_secret_enc = None,
     u_mail_secret_updated_at = None\<rparr>"

definition demo_session :: "string \<Rightarrow> string \<Rightarrow> string \<Rightarrow> Session" where
  "demo_session i u h = \<lparr>
     s_ID = i, s_UserID = u, s_TokenHash = h, s_MailSecret = [], s_IPHint = [], s_UserAgentHash = [],
     s_AuthMethod = ''password'', s_MFAVerifiedAt = Some 0, s_ActiveAccountID = None,
     s_ExpiresAt = 24 * time_Hour, s_IdleExpiresAt = time_Hour, s_CreatedAt = 0, s_LastSeenAt = 0,
     s_RevokedAt = None\<rparr>"

definition demo_token :: "string \<Rightarrow> string \<Rightarrow> string \<Rightarrow> PasswordResetToken" where
  "demo_token i u h = \<lparr>
     t_ID = i, t_UserID = u, t_TokenHash = h, t_ReservationID = None, t_ReservedAt = None,
     t_ExpiresAt = time_Hour, t_UsedAt = None, t_CreatedAt = 0\<rparr>"

definition demo_account :: "string \<Rightarrow> string \<Rightarrow> MailAccount" where
  "demo_account i u = \<lparr>
     ma_ID = i, ma_UserID = u, ma_DisplayName = [], ma_Login = ''ann'', ma_SecretEnc = [],
     ma_IMAPHost = [], ma_IMAPPort = 993, ma_IMAPTLS = True, ma_IMAPStartTLS = False,
     ma_SMTPHost = [], ma_SMTPPort = 587, ma_SMTPTLS = False, ma_SMTPStartTLS = True,
     ma_IsDefault = True, ma_Status = ''active'', ma_LastSyncAt = None, ma_LastError = [],
     ma_ProviderType = ''generic'', ma_ProviderLabel = [], ma_AuthKind = ''password'',
     ma_ConnectionMode = ''imap_smtp'', ma_ValidationIMAPReady = False, ma_ValidationSMTPReady = False,
     ma_ValidationAppPasswordRequired = False, ma_ValidationError = [], ma_LastValidatedAt = None,
     ma_CreatedAt = 0, ma_UpdatedAt = 0\<rparr>"

definition demo_db :: db where
  "demo_db = empty_db\<lparr>
     users := [demo_user ''u1'' ''ann@example.org'', demo_user ''u2'' ''geoff@example.org''],
     sessions := [demo_session ''s1'' ''u1'' ''hash-1'', demo_session ''s2'' ''u2'' ''hash-2''],
     password_reset_tokens := [demo_token ''t1'' ''u1'' ''hash-t''],
     mail_accounts := [demo_account ''m1'' ''u1'']\<rparr>"

definition demo_world :: world where
  "demo_world = \<lparr>w_db = demo_db, w_now = 0, w_n = 0, w_log = []\<rparr>"

lemma demo_quiet: "quiet demo_svc" by (simp add: quiet_def demo_svc_def)

lemma demo_no_fault: "db_fault demo_svc n = None" by (simp add: demo_svc_def)

end
