(* ===== verification/FeatureFlags.thy ===== *)
theory FeatureFlags
  imports StoreUsers Demo
begin

text \<open>
  \<^verbatim>\<open>internal/service/feature_flags.go\<close>: the catalog of feature flags, their resolution from the default
  and an override in the settings table, and the operations that set and reset an override.
\<close>

section \<open>The settings table as a key-value store\<close>

definition setting_of :: "db \<Rightarrow> string \<Rightarrow> string option" where
  "setting_of d key = map_option set_Value (find (\<lambda>r. set_Key r = key) (settings d))"

text \<open>What a client of the settings may rely on: a successful write is read back, other keys keep
  their values, a deleted key is absent.\<close>

locale settings_store =
  fixes lookup :: "db \<Rightarrow> string \<Rightarrow> string option"
    and upsert :: "string \<Rightarrow> string \<Rightarrow> unit M"
    and delete :: "string \<Rightarrow> unit M"
  assumes upsert_law: "quiet sv \<Longrightarrow> upsert k v sv w = (Inr (), w') \<Longrightarrow> lookup (w_db w') = (lookup (w_db w))(k \<mapsto> v)"
    and delete_law: "quiet sv \<Longrightarrow> delete k sv w = (Inr (), w') \<Longrightarrow> lookup (w_db w') = (lookup (w_db w))(k := None)"
begin

text \<open>A sequence of writes leaves, for every key, the last value written.\<close>

lemma upserts_law:
  "quiet sv \<Longrightarrow> seqM (map (\<lambda>(k, v). upsert k v) kvs) sv w = (Inr (), w')
   \<Longrightarrow> lookup (w_db w') = lookup (w_db w) ++ map_of (rev kvs)"
proof (induction kvs arbitrary: w)
  case Nil
  then show ?case by (simp add: ret_def)
next
  case (Cons kv kvs)
  obtain k v where kv: "kv = (k, v)" by force
  obtain w1 where w1: "upsert k v sv w = (Inr (), w1)"
    and rest: "seqM (map (\<lambda>(k, v). upsert k v) kvs) sv w1 = (Inr (), w')"
    using Cons.prems(2) kv by (auto simp: thenM_Inr)
  have "lookup (w_db w') = lookup (w_db w1) ++ map_of (rev kvs)"
    using Cons.IH [OF Cons.prems(1) rest] .
  then show ?case using upsert_law [OF Cons.prems(1) w1] kv
    by (simp add: map_of_append map_add_assoc)
qed

end

lemma UpsertSetting_law:
  assumes "quiet sv" "UpsertSetting k v sv w = (Inr (), w')"
  shows "setting_of (w_db w') = (setting_of (w_db w))(k \<mapsto> v)"
proof
  fix key
  obtain now n t' where t: "settings (w_db w') = t'"
    and u: "t_upsert settings_keys (\<lambda>r. set_Key r = k) (\<lambda>r. r\<lparr>set_Value := v, set_UpdatedAt := now\<rparr>)
              \<lparr>set_Key = k, set_Value = v, set_UpdatedAt = now\<rparr> (settings (w_db w)) = Some (t', n)"
    using assms by (auto simp: UpsertSetting_def bindM_Inr exec_Inr put_Inr time_Now_Inr)
  show "setting_of (w_db w') key = ((setting_of (w_db w))(k \<mapsto> v)) key"
  proof (cases "list_ex (\<lambda>r. set_Key r = k) (settings (w_db w))")
    case True
    then have m: "t' = map (\<lambda>r. if set_Key r = k then r\<lparr>set_Value := v, set_UpdatedAt := now\<rparr> else r) (settings (w_db w))"
      using u by (simp add: t_upsert_def t_update_Some)
    show ?thesis
    proof (cases "key = k")
      case k: True
      obtain r where "find (\<lambda>r. set_Key r = k) (settings (w_db w)) = Some r" using find_Some_ex [OF True] by blast
      then show ?thesis using k m t by (simp add: setting_of_def find_map_update)
    next
      case False
      then show ?thesis using m t by (simp add: setting_of_def find_map_other)
    qed
  next
    case False
    then have "t' = settings (w_db w) @ [\<lparr>set_Key = k, set_Value = v, set_UpdatedAt = now\<rparr>]"
      using u by (simp add: t_upsert_def t_insert_Some)
    then show ?thesis using t find_None_not_ex [OF False]
      by (auto simp: setting_of_def find_append_single split: option.splits)
  qed
qed

lemma DeleteSetting_law:
  assumes "quiet sv" "DeleteSetting k sv w = (Inr (), w')"
  shows "setting_of (w_db w') = (setting_of (w_db w))(k := None)"
proof
  fix key
  have "settings (w_db w') = filter (\<lambda>r. set_Key r \<noteq> k) (settings (w_db w))"
    using assms by (auto simp: DeleteSetting_def exec_Inr put_Inr t_delete_Some)
  then show "setting_of (w_db w') key = ((setting_of (w_db w))(k := None)) key"
    by (cases "key = k") (simp_all add: setting_of_def find_filter_none find_filter_other)
qed

interpretation kv: settings_store setting_of UpsertSetting DeleteSetting
  by unfold_locales (fact UpsertSetting_law DeleteSetting_law)+

section \<open>The catalog\<close>

record FeatureFlagState =
  ff_ID :: string
  ff_Name :: string
  ff_Description :: string
  ff_Category :: string
  ff_Enabled :: bool
  ff_DefaultEnabled :: bool
  ff_Source :: string
  ff_Editable :: bool
  ff_RequiresRestart :: bool
  ff_Note :: string

record featureFlagDef =
  fd_ID :: string
  fd_Name :: string
  fd_Description :: string
  fd_Category :: string
  fd_Editable :: bool
  fd_RequiresRestart :: bool
  fd_Note :: string
  fd_SettingKey :: string
  fd_DefaultValue :: "bool M"

abbreviation FeatureFlagPasskeySignIn :: string where "FeatureFlagPasskeySignIn \<equiv> ''passkey_sign_in''"
abbreviation FeatureFlagAdminMFARequired :: string where "FeatureFlagAdminMFARequired \<equiv> ''admin_mfa_required''"
abbreviation FeatureFlagPublicPasswordReset :: string where
  "FeatureFlagPublicPasswordReset \<equiv> ''public_password_reset''"
abbreviation featureFlagSettingPasskeySignIn :: string where
  "featureFlagSettingPasskeySignIn \<equiv> ''feature_flag.passkey_sign_in''"
abbreviation featureFlagSettingPublicPasswordReset :: string where
  "featureFlagSettingPublicPasswordReset \<equiv> ''feature_flag.public_password_reset''"
abbreviation featureFlagSettingAdminMFARequired :: string where
  "featureFlagSettingAdminMFARequired \<equiv> ''enforce_admin_mfa''"

definition cfg_flag :: "(Config \<Rightarrow> bool) \<Rightarrow> bool M" where "cfg_flag f = askM (\<lambda>sv. f (cfg sv))"

definition setup_done :: "bool M" where
  "setup_done = bindM (GetSetting ''setup_completed_at'')
     (\<lambda>r. ret (case r of None \<Rightarrow> False | Some v \<Rightarrow> TrimSpace v \<noteq> []))"

definition managed_flag :: "string \<Rightarrow> string \<Rightarrow> string \<Rightarrow> string \<Rightarrow> (Config \<Rightarrow> bool) \<Rightarrow> featureFlagDef" where
  "managed_flag i name desc cat f = \<lparr>
     fd_ID = i, fd_Name = name, fd_Description = desc, fd_Category = cat, fd_Editable = False,
     fd_RequiresRestart = True, fd_Note = ''Managed by server configuration.'', fd_SettingKey = [],
     fd_DefaultValue = cfg_flag f\<rparr>"

definition featureFlagCatalog :: "featureFlagDef list" where
  "featureFlagCatalog =
    [\<lparr>fd_ID = FeatureFlagPasskeySignIn, fd_Name = ''Passkey Sign-In'',
      fd_Description = ''Allow passkeys as a primary sign-in method.'', fd_Category = ''Authentication'',
      fd_Editable = True, fd_RequiresRestart = False,
      fd_Note = ''When disabled, users can still enroll passkeys for MFA.'',
      fd_SettingKey = featureFlagSettingPasskeySignIn,
      fd_DefaultValue = cfg_flag PasskeyPasswordlessEnabled\<rparr>,
     \<lparr>fd_ID = FeatureFlagAdminMFARequired, fd_Name = ''Require MFA For Admins'',
      fd_Description = ''Require administrators to complete MFA setup and verification.'',
      fd_Category = ''Security'', fd_Editable = True, fd_RequiresRestart = False,
      fd_Note = ''Disabling this is not recommended outside isolated development environments.'',
      fd_SettingKey = featureFlagSettingAdminMFARequired, fd_DefaultValue = setup_done\<rparr>,
     \<lparr>fd_ID = FeatureFlagPublicPasswordReset, fd_Name = ''Public Password Reset'',
      fd_Description = ''Allow unauthenticated users to request password reset tokens.'',
      fd_Category = ''Authentication'', fd_Editable = True, fd_RequiresRestart = False,
      fd_Note = ''Availability still depends on sender health and PAM helper requirements.'',
      fd_SettingKey = featureFlagSettingPublicPasswordReset,
      fd_DefaultValue = cfg_flag PasswordResetPublicEnabled\<rparr>,
     managed_flag ''registration_captcha_required'' ''Registration CAPTCHA Required''
       ''Require CAPTCHA verification for new account registration.'' ''Security'' CaptchaEnabled,
     managed_flag ''mailsec_service_enabled'' ''Mail Security Service Enabled''
       ''Enable mail security runtime integrations used by passkeys and cryptographic flows.'' ''System'' MailSecEnabled,
     managed_flag ''software_update_enabled'' ''Software Update Panel Enabled''
       ''Enable one-click update checks and apply actions in Admin.'' ''System'' UpdateEnabled,
     managed_flag ''signed_updates_required'' ''Require Signed Updates''
       ''Require signature verification for update artifacts.'' ''System'' UpdateRequireSignature,
     managed_flag ''pam_reset_helper_enabled'' ''PAM Reset Helper Enabled''
       ''Allow PAM-mode password reset through privileged helper service.'' ''System'' PAMResetHelperEnabled,
     managed_flag ''mapped_login_required_for_password_reset'' ''Mapped Login Required For Password Reset''
       ''Require mapped mailbox login identity for password reset in PAM mode.'' ''Security''
       PasswordResetRequireMappedLogin]"

definition findFeatureFlagDef :: "string \<Rightarrow> featureFlagDef option" where
  "findFeatureFlagDef i = find (\<lambda>def. EqualFold (fd_ID def) (lower_trim i)) featureFlagCatalog"

text \<open>\<^const>\<open>None\<close>: not a boolean.\<close>

definition parseFeatureFlagBool :: "string \<Rightarrow> bool option" where
  "parseFeatureFlagBool raw =
     (let v = lower_trim raw in
      if v \<in> set [''1'', ''true'', ''yes'', ''on'', ''enabled''] then Some True
      else if v \<in> set [''0'', ''false'', ''no'', ''off'', ''disabled''] then Some False
      else None)"

definition boolToFeatureFlagSetting :: "bool \<Rightarrow> string" where
  "boolToFeatureFlagSetting v = (if v then ''1'' else ''0'')"

definition editable :: "featureFlagDef \<Rightarrow> bool" where
  "editable def \<longleftrightarrow> fd_Editable def \<and> TrimSpace (fd_SettingKey def) \<noteq> []"

definition flag_state :: "featureFlagDef \<Rightarrow> bool \<Rightarrow> bool option \<Rightarrow> FeatureFlagState" where
  "flag_state def dflt ovr = \<lparr>
     ff_ID = fd_ID def, ff_Name = fd_Name def, ff_Description = fd_Description def,
     ff_Category = fd_Category def,
     ff_Enabled = (case ovr of None \<Rightarrow> dflt | Some b \<Rightarrow> b), ff_DefaultEnabled = dflt,
     ff_Source = (case ovr of None \<Rightarrow> ''default'' | Some _ \<Rightarrow> ''override''),
     ff_Editable = fd_Editable def, ff_RequiresRestart = fd_RequiresRestart def, ff_Note = fd_Note def\<rparr>"

definition resolveFeatureFlagState :: "featureFlagDef \<Rightarrow> FeatureFlagState M" where
  "resolveFeatureFlagState def =
     bindM (fd_DefaultValue def) (\<lambda>dflt.
       if editable def
       then bindM (GetSetting (fd_SettingKey def)) (\<lambda>raw.
              ret (flag_state def dflt (Option.bind raw parseFeatureFlagBool)))
       else ret (flag_state def dflt None))"

fun resolve_all :: "featureFlagDef list \<Rightarrow> FeatureFlagState list M" where
  "resolve_all [] = ret []"
| "resolve_all (def # defs) =
     bindM (resolveFeatureFlagState def) (\<lambda>item. bindM (resolve_all defs) (\<lambda>items. ret (item # items)))"

definition ListFeatureFlags :: "FeatureFlagState list M" where
  "ListFeatureFlags = resolve_all featureFlagCatalog"

definition FeatureFlagEnabled :: "string \<Rightarrow> bool M" where
  "FeatureFlagEnabled i =
     (case findFeatureFlagDef i of
        None \<Rightarrow> fail ErrFeatureFlagNotFound
      | Some def \<Rightarrow> bindM (resolveFeatureFlagState def) (\<lambda>item. ret (ff_Enabled item)))"

definition SetFeatureFlag :: "string \<Rightarrow> string \<Rightarrow> bool \<Rightarrow> FeatureFlagState M" where
  "SetFeatureFlag actorUserID i enabled =
     (case findFeatureFlagDef i of
        None \<Rightarrow> fail ErrFeatureFlagNotFound
      | Some def \<Rightarrow>
          if \<not> editable def then fail ErrFeatureFlagReadOnly
          else thenM (UpsertSetting (fd_SettingKey def) (boolToFeatureFlagSetting enabled))
            (bindM (askM (\<lambda>sv. json_Marshal sv
                [(''flag_id'', JStr (fd_ID def)), (''enabled'', JBool enabled), (''source'', JStr ''override'')]))
            (\<lambda>meta.
               ignoreM (InsertAudit (TrimSpace actorUserID) ''feature_flag.update'' (fd_ID def) meta)
               (resolveFeatureFlagState def))))"

definition ResetFeatureFlag :: "string \<Rightarrow> string \<Rightarrow> FeatureFlagState M" where
  "ResetFeatureFlag actorUserID i =
     (case findFeatureFlagDef i of
        None \<Rightarrow> fail ErrFeatureFlagNotFound
      | Some def \<Rightarrow>
          if \<not> editable def then fail ErrFeatureFlagReadOnly
          else thenM (DeleteSetting (fd_SettingKey def))
            (bindM (askM (\<lambda>sv. json_Marshal sv
                [(''flag_id'', JStr (fd_ID def)), (''source'', JStr ''default'')]))
            (\<lambda>meta.
               ignoreM (InsertAudit (TrimSpace actorUserID) ''feature_flag.reset'' (fd_ID def) meta)
               (resolveFeatureFlagState def))))"

definition PasskeySignInEnabled :: "bool M" where
  "PasskeySignInEnabled = FeatureFlagEnabled FeatureFlagPasskeySignIn"

definition AdminMFARequired :: "bool M" where
  "AdminMFARequired = FeatureFlagEnabled FeatureFlagAdminMFARequired"

definition PublicPasswordResetEnabled :: "bool M" where
  "PublicPasswordResetEnabled = FeatureFlagEnabled FeatureFlagPublicPasswordReset"

section \<open>The contract\<close>

context db_contract
begin

lemma catalog_default_guar: "def \<in> set featureFlagCatalog \<Longrightarrow> G (fd_DefaultValue def) (\<lambda>_. True)"
  by (auto simp: featureFlagCatalog_def managed_flag_def cfg_flag_def setup_done_def
      intro!: guar_ask guar_bind [OF settings_guar(1)] guar_ret)

lemma resolve_guar: "def \<in> set featureFlagCatalog \<Longrightarrow> G (resolveFeatureFlagState def) (\<lambda>_. True)"
  unfolding resolveFeatureFlagState_def
  by (rule guar_bind [OF catalog_default_guar guar_if] guar_intros TrueI | assumption)+

lemma findFeatureFlagDef_in: "findFeatureFlagDef i = Some def \<Longrightarrow> def \<in> set featureFlagCatalog"
  by (auto simp: findFeatureFlagDef_def find_Some_iff)

lemma resolve_all_guar: "set defs \<subseteq> set featureFlagCatalog \<Longrightarrow> G (resolve_all defs) (\<lambda>_. True)"
proof (induction defs)
  case (Cons def defs)
  then show ?case
    by (auto intro!: guar_bind [OF resolve_guar] guar_bind [OF Cons.IH] guar_ret)
qed (simp add: guar_ret)

lemma FeatureFlagEnabled_guar [guar_intros]: "G (FeatureFlagEnabled i) (\<lambda>_. True)"
  unfolding FeatureFlagEnabled_def
  by (auto split: option.split intro!: guar_fail guar_bind [OF resolve_guar] guar_ret
      dest: findFeatureFlagDef_in)

lemma flag_ops_guar [guar_intros]:
  "G (SetFeatureFlag a i b) (\<lambda>_. True)" "G (ResetFeatureFlag a i) (\<lambda>_. True)"
  unfolding SetFeatureFlag_def ResetFeatureFlag_def
  by (auto split: option.split intro!: guar_fail guar_then guar_ignore guar_bind [OF guar_ask] settings_guar
      audit_guar resolve_guar dest: findFeatureFlagDef_in)

lemma flag_reads_guar [guar_intros]:
  "G ListFeatureFlags (\<lambda>_. True)" "G PasskeySignInEnabled (\<lambda>_. True)"
  "G AdminMFARequired (\<lambda>_. True)" "G PublicPasswordResetEnabled (\<lambda>_. True)"
  unfolding ListFeatureFlags_def PasskeySignInEnabled_def AdminMFARequired_def
    PublicPasswordResetEnabled_def
  by (simp_all add: resolve_all_guar FeatureFlagEnabled_guar)

end

section \<open>Properties\<close>

lemma GetSetting_Inr:
  "GetSetting k sv w = (Inr r, w') \<longleftrightarrow>
     db_fault sv (w_n w) = None \<and> r = setting_of (others sv (w_n w) (w_db w)) k
     \<and> w' = w\<lparr>w_db := others sv (w_n w) (w_db w), w_n := Suc (w_n w)\<rparr>"
  by (simp add: GetSetting_def query_Inr setting_of_def)

lemma catalog_default_reads:
  assumes "def \<in> set featureFlagCatalog" "quiet sv" "fd_DefaultValue def sv w = (Inr b, w')"
  shows "w_db w' = w_db w"
  using assms by (auto simp: featureFlagCatalog_def managed_flag_def cfg_flag_def setup_done_def
      askM_Inr bindM_Inr GetSetting_Inr ret_Inr)

lemma resolve_Inr:
  assumes "def \<in> set featureFlagCatalog" "quiet sv" "resolveFeatureFlagState def sv w = (Inr st, w')"
  shows "\<exists>dflt. st = flag_state def dflt
           (if editable def then Option.bind (setting_of (w_db w) (fd_SettingKey def)) parseFeatureFlagBool else None)"
  using assms(2,3) catalog_default_reads [OF assms(1,2)]
  by (auto simp: resolveFeatureFlagState_def bindM_Inr GetSetting_Inr ret_Inr split: if_splits)

lemma resolve_db:
  assumes "def \<in> set featureFlagCatalog" "quiet sv" "resolveFeatureFlagState def sv w = (Inr st, w')"
  shows "w_db w' = w_db w"
  using assms(2,3) catalog_default_reads [OF assms(1,2)]
  by (auto simp: resolveFeatureFlagState_def bindM_Inr GetSetting_Inr ret_Inr split: if_splits)

lemma parse_boolToFeatureFlagSetting [simp]: "parseFeatureFlagBool (boolToFeatureFlagSetting b) = Some b"
proof -
  have "lower_trim ''1'' = ''1''" "lower_trim ''0'' = ''0''" by code_simp+
  then show ?thesis by (simp add: parseFeatureFlagBool_def boolToFeatureFlagSetting_def)
qed

lemma InsertAudit_settings:
  "quiet sv \<Longrightarrow> InsertAudit a b c d sv w = (r, w') \<Longrightarrow> setting_of (w_db w') = setting_of (w_db w)"
  by (auto simp: InsertAudit_def exec_def thenM_def bindM_run uuid_NewString_def draw_def time_Now_def
      put_def stmt_def setting_of_def fun_eq_iff ret_def split: option.splits)

definition flag_refused :: "string \<Rightarrow> err \<Rightarrow> bool" where
  "flag_refused i e \<longleftrightarrow>
     (case findFeatureFlagDef i of None \<Rightarrow> e = ErrFeatureFlagNotFound
      | Some def \<Rightarrow> \<not> editable def \<and> e = ErrFeatureFlagReadOnly)"

lemma SetFeatureFlag_resolves:
  assumes "quiet sv" "SetFeatureFlag a i b sv w = (Inr st, w1)"
  obtains def where "findFeatureFlagDef i = Some def" "editable def" "def \<in> set featureFlagCatalog"
    "setting_of (w_db w1) (fd_SettingKey def) = Some (boolToFeatureFlagSetting b)"
    "ff_Enabled st = b" "ff_Source st = ''override''"
proof -
  obtain def where def: "findFeatureFlagDef i = Some def" "editable def"
    using assms(2) by (auto simp: SetFeatureFlag_def fail_def split: option.splits if_splits)
  have "def \<in> set featureFlagCatalog" using def(1) by (auto simp: findFeatureFlagDef_def find_Some_iff)
  note in_cat = this
  obtain wa wb r meta where u: "UpsertSetting (fd_SettingKey def) (boolToFeatureFlagSetting b) sv w = (Inr (), wa)"
    and au: "InsertAudit (TrimSpace a) ''feature_flag.update'' (fd_ID def) meta sv wa = (r, wb)"
    and re: "resolveFeatureFlagState def sv wb = (Inr st, w1)"
    using assms(2) def by (auto simp: SetFeatureFlag_def thenM_Inr bindM_Inr ignoreM_Inr askM_Inr)
  have "setting_of (w_db wb) (fd_SettingKey def) = Some (boolToFeatureFlagSetting b)"
    using kv.upsert_law [OF assms(1) u] InsertAudit_settings [OF assms(1) au] by simp
  moreover have "w_db w1 = w_db wb" using resolve_db [OF in_cat assms(1) re] .
  ultimately show ?thesis
    using that [OF def in_cat] resolve_Inr [OF in_cat assms(1) re] def(2) by (auto simp: flag_state_def)
qed

text \<open>Setting a feature flag makes it resolve to the value that was set, also for later readers;
  resetting it makes it resolve to its default again; unknown flags and flags managed by the server
  configuration are refused with the error the code names, and the database is not touched.\<close>

theorem feature_flag_override:
  assumes "quiet sv"
  shows "(\<forall>st w1. SetFeatureFlag a i b sv w = (Inr st, w1) \<longrightarrow>
            ff_Enabled st = b \<and> ff_Source st = ''override''
            \<and> (\<forall>r w2. FeatureFlagEnabled i sv w1 = (Inr r, w2) \<longrightarrow> r = b))
    \<and> (\<forall>st w1. ResetFeatureFlag a i sv w = (Inr st, w1) \<longrightarrow>
            ff_Enabled st = ff_DefaultEnabled st \<and> ff_Source st = ''default'')
    \<and> (\<forall>e. flag_refused i e \<longrightarrow>
            SetFeatureFlag a i b sv w = (Inl e, w) \<and> ResetFeatureFlag a i sv w = (Inl e, w))"
proof (intro conjI allI impI)
  fix st w1 assume s: "SetFeatureFlag a i b sv w = (Inr st, w1)"
  obtain def where def: "findFeatureFlagDef i = Some def" "editable def" "def \<in> set featureFlagCatalog"
    and set: "setting_of (w_db w1) (fd_SettingKey def) = Some (boolToFeatureFlagSetting b)"
    and st: "ff_Enabled st = b" "ff_Source st = ''override''"
    using SetFeatureFlag_resolves [OF assms s] .
  show "ff_Enabled st = b" "ff_Source st = ''override''" using st by simp_all
  fix r w2 assume "FeatureFlagEnabled i sv w1 = (Inr r, w2)"
  then obtain st2 where re: "resolveFeatureFlagState def sv w1 = (Inr st2, w2)" and r: "r = ff_Enabled st2"
    using def(1) by (auto simp: FeatureFlagEnabled_def bindM_Inr ret_Inr)
  show "r = b" using resolve_Inr [OF def(3) assms re] set def(2) r by (auto simp: flag_state_def)
next
  fix st w1 assume s: "ResetFeatureFlag a i sv w = (Inr st, w1)"
  obtain def where def: "findFeatureFlagDef i = Some def" "editable def"
    using s by (auto simp: ResetFeatureFlag_def fail_def split: option.splits if_splits)
  have in_cat: "def \<in> set featureFlagCatalog" using def(1) by (auto simp: findFeatureFlagDef_def find_Some_iff)
  obtain wa wb r meta where u: "DeleteSetting (fd_SettingKey def) sv w = (Inr (), wa)"
    and au: "InsertAudit (TrimSpace a) ''feature_flag.reset'' (fd_ID def) meta sv wa = (r, wb)"
    and re: "resolveFeatureFlagState def sv wb = (Inr st, w1)"
    using s def by (auto simp: ResetFeatureFlag_def thenM_Inr bindM_Inr ignoreM_Inr askM_Inr)
  have "setting_of (w_db wb) (fd_SettingKey def) = None"
    using kv.delete_law [OF assms u] InsertAudit_settings [OF assms au] by simp
  then show "ff_Enabled st = ff_DefaultEnabled st" "ff_Source st = ''default''"
    using resolve_Inr [OF in_cat assms re] def(2) by (auto simp: flag_state_def)
next
  fix e assume "flag_refused i e"
  then show "SetFeatureFlag a i b sv w = (Inl e, w)" "ResetFeatureFlag a i sv w = (Inl e, w)"
    by (auto simp: flag_refused_def SetFeatureFlag_def ResetFeatureFlag_def fail_def split: option.splits)
qed

theorem feature_flag_override_witness:
  "\<exists>st w1. SetFeatureFlag ''u1'' ''public_password_reset'' False demo_svc demo_world = (Inr st, w1)
     \<and> \<not> ff_Enabled st"
proof -
  have "\<not> isl (fst (SetFeatureFlag ''u1'' ''public_password_reset'' False demo_svc demo_world))"
    by code_simp
  from Inr_result [OF this] obtain st w1
    where s: "SetFeatureFlag ''u1'' ''public_password_reset'' False demo_svc demo_world = (Inr st, w1)"
    by blast
  with feature_flag_override [OF demo_quiet, of "''u1''" "''public_password_reset''" False demo_world]
  show ?thesis by auto
qed

end
