(* ===== verification/StoreMFA.thy ===== *)
theory StoreMFA
  imports Sql Contract
begin

text \<open>
  \<^verbatim>\<open>internal/store/v2_store.go\<close>: second factors (TOTP, WebAuthn credentials, recovery codes), trusted
  devices, the session list with its revocation, and mail accounts.
\<close>

section \<open>Status of the second factors\<close>

text \<open>Each of the four queries is run and its error dropped, so a failed query leaves the zero
  value of its fields.\<close>

definition query_or :: "'a \<Rightarrow> (db \<Rightarrow> 'a) \<Rightarrow> 'a M" where
  "query_or z f = tryM (query f) (\<lambda>r. case r of Inl _ \<Rightarrow> ret z | Inr x \<Rightarrow> ret x)"

definition GetMFAStatus :: "string \<Rightarrow> MFAStatus M" where
  "GetMFAStatus userID =
     bindM (query_or (False, False) (\<lambda>d. case find (\<lambda>r. tp_UserID r = userID) (mfa_totp d) of
              None \<Rightarrow> (False, False)
            | Some r \<Rightarrow> (sql_trim (tp_SecretEnc r) \<noteq> [], tp_Enabled r))) (\<lambda>(hasSecret, enabled).
     bindM (query_or 0 (\<lambda>d. int (length (filter (\<lambda>r. wa_UserID r = userID) (mfa_webauthn_credentials d)))))
     (\<lambda>creds.
     bindM (query_or 0 (\<lambda>d. int (length (filter (\<lambda>r. rc_user_id r = userID) (mfa_recovery_codes d)))))
     (\<lambda>codes.
     bindM (query_or 0 (\<lambda>d. int (length (filter (\<lambda>r. rc_user_id r = userID \<and> rc_used_at r = None)
                              (mfa_recovery_codes d)))))
     (\<lambda>unused.
       ret \<lparr>HasTOTP = hasSecret, TOTPEnabled = enabled, WebAuthnCount = creds,
            RecoveryCodes = codes, RecoveryUnused = unused\<rparr>))))"

section \<open>TOTP\<close>

definition GetMFATOTP :: "string \<Rightarrow> MFATOTPRecord M" where
  "GetMFATOTP userID = query_row ErrNotFound (\<lambda>d. find (\<lambda>r. tp_UserID r = userID) (mfa_totp d))"

definition UpsertMFATOTP :: "MFATOTPRecord \<Rightarrow> MFATOTPRecord M" where
  "UpsertMFATOTP in0 =
     bindM time_Now (\<lambda>now.
       let rcd = in0\<lparr>tp_UpdatedAt := now\<rparr> in
       thenM (on_totp (t_upsert totp_keys (\<lambda>r. tp_UserID r = tp_UserID rcd)
                (\<lambda>r. r\<lparr>tp_SecretEnc := tp_SecretEnc rcd, tp_Issuer := tp_Issuer rcd,
                       tp_AccountName := tp_AccountName rcd, tp_Enabled := tp_Enabled rcd,
                       tp_EnrolledAt := tp_EnrolledAt rcd, tp_UpdatedAt := tp_UpdatedAt rcd\<rparr>)
                rcd))
       (GetMFATOTP (tp_UserID rcd)))"

section \<open>WebAuthn credentials\<close>

definition ListMFAWebAuthnCredentials :: "string \<Rightarrow> MFAWebAuthnCredential list M" where
  "ListMFAWebAuthnCredentials userID =
     query (\<lambda>d. order_by (\<lambda>r. sql_time (wa_CreatedAt r)) ''DESC''
       (filter (\<lambda>r. wa_UserID r = userID) (mfa_webauthn_credentials d)))"

definition GetMFAWebAuthnCredentialByCredentialID :: "string \<Rightarrow> string \<Rightarrow> MFAWebAuthnCredential M" where
  "GetMFAWebAuthnCredentialByCredentialID userID credentialID =
     query_row ErrNotFound (\<lambda>d. find (\<lambda>r. wa_UserID r = userID \<and> wa_CredentialID r = credentialID)
       (mfa_webauthn_credentials d))"

definition GetMFAWebAuthnCredentialByCredentialIDAnyUser :: "string \<Rightarrow> MFAWebAuthnCredential M" where
  "GetMFAWebAuthnCredentialByCredentialIDAnyUser credentialID =
     query_row ErrNotFound (\<lambda>d. find (\<lambda>r. wa_CredentialID r = credentialID) (mfa_webauthn_credentials d))"

definition UpsertMFAWebAuthnCredential :: "MFAWebAuthnCredential \<Rightarrow> MFAWebAuthnCredential M" where
  "UpsertMFAWebAuthnCredential in0 =
     bindM time_Now (\<lambda>now.
     bindM (if TrimSpace (wa_ID in0) = [] then uuid_NewString else ret (wa_ID in0)) (\<lambda>newID.
       let c = in0\<lparr>wa_ID := newID,
                   wa_CreatedAt := (case wa_CreatedAt in0 of None \<Rightarrow> Some now | Some t \<Rightarrow> Some t),
                   wa_TransportsJSON := (if TrimSpace (wa_TransportsJSON in0) = [] then ''[]''
                                         else wa_TransportsJSON in0)\<rparr>
       in thenM (on_webauthn (t_upsert webauthn_keys (\<lambda>r. wa_CredentialID r = wa_CredentialID c)
                   (\<lambda>r. r\<lparr>wa_PublicKey := wa_PublicKey c,
                          wa_SignCount := (if wa_SignCount c > wa_SignCount r then wa_SignCount c
                                           else wa_SignCount r),
                          wa_TransportsJSON := wa_TransportsJSON c, wa_Name := wa_Name c,
                          wa_LastUsedAt := (case wa_LastUsedAt c of
                              None \<Rightarrow> wa_LastUsedAt r | Some t \<Rightarrow> Some t)\<rparr>)
                   c))
          (GetMFAWebAuthnCredentialByCredentialID (wa_UserID c) (wa_CredentialID c))))"

definition set_credential :: "string \<Rightarrow> string \<Rightarrow> (MFAWebAuthnCredential \<Rightarrow> MFAWebAuthnCredential) \<Rightarrow> int M" where
  "set_credential userID i f =
     on_webauthn (t_update webauthn_keys (\<lambda>r. wa_UserID r = userID \<and> wa_ID r = i) f)"

definition TouchMFAWebAuthnCredential :: "string \<Rightarrow> string \<Rightarrow> int \<Rightarrow> unit M" where
  "TouchMFAWebAuthnCredential userID i signCount =
     bindM time_Now (\<lambda>now.
       rows_or ErrNotFound (set_credential userID i (\<lambda>r. r\<lparr>
         wa_SignCount := (if signCount > wa_SignCount r then signCount else wa_SignCount r),
         wa_LastUsedAt := Some now\<rparr>)))"

definition DeleteMFAWebAuthnCredential :: "string \<Rightarrow> string \<Rightarrow> unit M" where
  "DeleteMFAWebAuthnCredential userID i =
     rows_or ErrNotFound (on_webauthn (t_delete (\<lambda>r. wa_UserID r = userID \<and> wa_ID r = i)))"

definition RenameMFAWebAuthnCredential :: "string \<Rightarrow> string \<Rightarrow> string \<Rightarrow> unit M" where
  "RenameMFAWebAuthnCredential userID i name0 =
     (let name = TrimSpace name0 in
      if name = [] then fail (ErrMsg ''credential name is required'')
      else rows_or ErrNotFound (set_credential userID i (\<lambda>r. r\<lparr>wa_Name := name\<rparr>)))"

section \<open>Recovery codes\<close>

fun insert_codes :: "string \<Rightarrow> gotime \<Rightarrow> string list \<Rightarrow> unit M" where
  "insert_codes userID now [] = ret ()"
| "insert_codes userID now (h # hs) =
     bindM uuid_NewString (\<lambda>newID.
     thenM (on_recovery (t_insert recovery_keys
              \<lparr>rc_id = newID, rc_user_id = userID, rc_code_hash = h, rc_used_at = None, rc_created_at = now\<rparr>))
     (insert_codes userID now hs))"

definition ReplaceMFARecoveryCodes :: "string \<Rightarrow> string list \<Rightarrow> unit M" where
  "ReplaceMFARecoveryCodes userID hashes = in_tx
     (thenM (on_recovery (t_delete (\<lambda>c. rc_user_id c = userID)))
     (bindM time_Now (\<lambda>now. insert_codes userID now hashes)))"

definition ConsumeRecoveryCodeHash :: "string \<Rightarrow> string \<Rightarrow> bool M" where
  "ConsumeRecoveryCodeHash userID codeHash =
     bindM time_Now (\<lambda>now.
     bindM (on_recovery (t_update recovery_keys
              (\<lambda>c. rc_user_id c = userID \<and> rc_code_hash c = codeHash \<and> rc_used_at c = None)
              (\<lambda>c. c\<lparr>rc_used_at := Some now\<rparr>)))
     (\<lambda>n. ret (n > 0)))"

section \<open>Trusted devices\<close>

definition set_device ::
  "(MFATrustedDevice \<Rightarrow> bool) \<Rightarrow> (MFATrustedDevice \<Rightarrow> MFATrustedDevice) \<Rightarrow> int M" where
  "set_device P f = on_devices (t_update devices_keys P f)"

definition GetMFATrustedDeviceByID :: "string \<Rightarrow> string \<Rightarrow> MFATrustedDevice M" where
  "GetMFATrustedDeviceByID userID i =
     query_row ErrNotFound (\<lambda>d. find (\<lambda>r. td_UserID r = userID \<and> td_ID r = i) (mfa_trusted_devices d))"

definition CreateMFATrustedDevice :: "MFATrustedDevice \<Rightarrow> MFATrustedDevice M" where
  "CreateMFATrustedDevice in0 =
     bindM time_Now (\<lambda>now.
     bindM (if TrimSpace (td_ID in0) = [] then uuid_NewString else ret (td_ID in0)) (\<lambda>newID.
       let dev = in0\<lparr>td_ID := newID,
             td_CreatedAt := (case td_CreatedAt in0 of None \<Rightarrow> Some now | Some t \<Rightarrow> Some t),
             td_ExpiresAt := (case td_ExpiresAt in0 of
                 None \<Rightarrow> Some (now + 30 * 24 * time_Hour) | Some t \<Rightarrow> Some t)\<rparr>
       in thenM (on_devices (t_insert devices_keys dev))
          (GetMFATrustedDeviceByID (td_UserID dev) (td_ID dev))))"

definition device_active :: "string \<Rightarrow> gotime \<Rightarrow> MFATrustedDevice \<Rightarrow> bool" where
  "device_active userID now r \<longleftrightarrow>
     td_UserID r = userID \<and> td_RevokedAt r = None
     \<and> (case td_ExpiresAt r of None \<Rightarrow> False | Some t \<Rightarrow> t > now)"

definition GetActiveMFATrustedDeviceByTokenHash ::
  "string \<Rightarrow> string \<Rightarrow> gotime \<Rightarrow> MFATrustedDevice M" where
  "GetActiveMFATrustedDeviceByTokenHash userID tokenHash now =
     query_row ErrNotFound (\<lambda>d. find (\<lambda>r. device_active userID now r \<and> td_TokenHash r = tokenHash)
       (mfa_trusted_devices d))"

definition RotateMFATrustedDeviceToken ::
  "string \<Rightarrow> string \<Rightarrow> string \<Rightarrow> string \<Rightarrow> string \<Rightarrow> gotime \<Rightarrow> MFATrustedDevice M" where
  "RotateMFATrustedDeviceToken userID i tokenHash uaHash ipHint expiresAt =
     bindM time_Now (\<lambda>now.
     thenM (rows_or ErrNotFound (set_device
              (\<lambda>r. td_UserID r = userID \<and> td_ID r = i \<and> td_RevokedAt r = None)
              (\<lambda>r. r\<lparr>td_TokenHash := tokenHash, td_UAHash := uaHash, td_IPHint := ipHint,
                     td_LastUsedAt := Some now, td_ExpiresAt := Some expiresAt\<rparr>)))
     (GetMFATrustedDeviceByID userID i))"

definition ListActiveMFATrustedDevices :: "string \<Rightarrow> gotime \<Rightarrow> MFATrustedDevice list M" where
  "ListActiveMFATrustedDevices userID now =
     query (\<lambda>d. order_by
       (\<lambda>r. sql_time (case td_LastUsedAt r of None \<Rightarrow> td_CreatedAt r | Some t \<Rightarrow> Some t)) ''DESC''
       (filter (device_active userID now) (mfa_trusted_devices d)))"

definition RevokeMFATrustedDevice :: "string \<Rightarrow> string \<Rightarrow> unit M" where
  "RevokeMFATrustedDevice userID i =
     bindM time_Now (\<lambda>now.
       rows_or ErrNotFound (set_device
         (\<lambda>r. td_UserID r = userID \<and> td_ID r = i \<and> td_RevokedAt r = None)
         (\<lambda>r. r\<lparr>td_RevokedAt := Some now\<rparr>)))"

definition RevokeAllMFATrustedDevices :: "string \<Rightarrow> unit M" where
  "RevokeAllMFATrustedDevices userID =
     bindM time_Now (\<lambda>now.
       exec (set_device (\<lambda>r. td_UserID r = userID \<and> td_RevokedAt r = None)
         (\<lambda>r. r\<lparr>td_RevokedAt := Some now\<rparr>)))"

section \<open>Session list\<close>

record SessionMeta =
  sl_SessionID :: string
  sl_UserID :: string
  sl_DeviceLabel :: string
  sl_UASummary :: string
  sl_IPHint :: string
  sl_AuthMethod :: string
  sl_MFAVerifiedAt :: "gotime option"
  sl_CreatedAt :: gotime
  sl_LastSeenAt :: gotime
  sl_ExpiresAt :: gotime
  sl_IdleExpiresAt :: gotime
  sl_RevokedAt :: "gotime option"
  sl_RevokedReason :: string

definition session_meta_of :: "db \<Rightarrow> Session \<Rightarrow> SessionMeta" where
  "session_meta_of d s =
     (let m = find (\<lambda>m. sm_session_id m = s_ID s) (user_sessions_meta d);
          col = (\<lambda>f. opt_str (map_option f m)) in
      \<lparr>sl_SessionID = s_ID s, sl_UserID = s_UserID s, sl_DeviceLabel = col sm_device_label,
       sl_UASummary = col sm_ua_summary,
       sl_IPHint = (case m of None \<Rightarrow> s_IPHint s | Some r \<Rightarrow> sm_ip_hint r),
       sl_AuthMethod = s_AuthMethod s, sl_MFAVerifiedAt = s_MFAVerifiedAt s,
       sl_CreatedAt = s_CreatedAt s, sl_LastSeenAt = s_LastSeenAt s, sl_ExpiresAt = s_ExpiresAt s,
       sl_IdleExpiresAt = s_IdleExpiresAt s, sl_RevokedAt = s_RevokedAt s,
       sl_RevokedReason = col sm_revoked_reason\<rparr>)"

definition ListSessionsMeta :: "string \<Rightarrow> SessionMeta list M" where
  "ListSessionsMeta userID =
     query (\<lambda>d. map (session_meta_of d) (order_by (\<lambda>s. SInt (s_LastSeenAt s)) ''DESC''
       (filter (\<lambda>s. s_UserID s = userID) (sessions d))))"

definition RevokeSessionWithReason :: "string \<Rightarrow> string \<Rightarrow> string \<Rightarrow> unit M" where
  "RevokeSessionWithReason userID sessionID reason =
     bindM time_Now (\<lambda>now.
     thenM (rows_or ErrNotFound (on_sessions (t_update sessions_keys
              (\<lambda>s. s_ID s = sessionID \<and> s_UserID s = userID) (\<lambda>s. s\<lparr>s_RevokedAt := Some now\<rparr>))))
     (ignoreM (on_meta (t_upsert meta_keys (\<lambda>m. sm_session_id m = sessionID)
                 (\<lambda>m. m\<lparr>sm_revoked_reason := reason, sm_updated_at := now\<rparr>)
                 \<lparr>sm_session_id = sessionID, sm_user_id = userID, sm_device_label = [],
                  sm_ua_summary = [], sm_ip_hint = [], sm_revoked_reason = reason,
                  sm_updated_at = now\<rparr>))
     (ret ())))"

section \<open>The contract\<close>

context db_contract
begin

lemma query_or_guar [guar_intros]: "G (query_or z f) (\<lambda>_. True)"
  unfolding query_or_def by (rule guar_intros TrueI)+

lemma set_device_guar [guar_intros]:
  "(\<And>r. P r \<Longrightarrow> device_step r (f r)) \<Longrightarrow> G (set_device P f) (\<lambda>_. True)"
  unfolding set_device_def by (rule guar_devices)

lemma set_credential_guar [guar_intros]: "G (set_credential u i f) (\<lambda>_. True)"
  unfolding set_credential_def by (rule guar_intros)+

lemma factor_reads_guar [guar_intros]:
  "G (GetMFAStatus i) (\<lambda>_. True)"
  "G (GetMFATOTP i) (\<lambda>_. True)"
  "G (ListMFAWebAuthnCredentials i) (\<lambda>_. True)"
  "G (GetMFAWebAuthnCredentialByCredentialID i c) (\<lambda>_. True)"
  "G (GetMFAWebAuthnCredentialByCredentialIDAnyUser c) (\<lambda>_. True)"
  "G (GetMFATrustedDeviceByID u i) (\<lambda>_. True)"
  "G (GetActiveMFATrustedDeviceByTokenHash u h now) (\<lambda>_. True)"
  "G (ListActiveMFATrustedDevices u now) (\<lambda>_. True)"
  "G (ListSessionsMeta u) (\<lambda>_. True)"
  unfolding GetMFAStatus_def GetMFATOTP_def ListMFAWebAuthnCredentials_def
    GetMFAWebAuthnCredentialByCredentialID_def GetMFAWebAuthnCredentialByCredentialIDAnyUser_def
    GetMFATrustedDeviceByID_def GetActiveMFATrustedDeviceByTokenHash_def
    ListActiveMFATrustedDevices_def ListSessionsMeta_def
  by (rule guar_intros TrueI)+

lemma factor_writes_guar [guar_intros]:
  "G (UpsertMFATOTP r) (\<lambda>_. True)" "G (UpsertMFAWebAuthnCredential c) (\<lambda>_. True)"
  "G (TouchMFAWebAuthnCredential u i n) (\<lambda>_. True)"
  "G (DeleteMFAWebAuthnCredential u i) (\<lambda>_. True)"
  "G (RenameMFAWebAuthnCredential u i name) (\<lambda>_. True)"
  unfolding UpsertMFATOTP_def UpsertMFAWebAuthnCredential_def TouchMFAWebAuthnCredential_def
    DeleteMFAWebAuthnCredential_def
    RenameMFAWebAuthnCredential_def Let_def
  by (rule guar_intros TrueI)+

lemma insert_codes_guar: "G (insert_codes u now hs) (\<lambda>_. True)"
proof (induction hs)
  case (Cons h hs)
  show ?case unfolding insert_codes.simps
    by (rule guar_bind [OF guar_uuid]) (rule guar_then guar_recovery Cons.IH | simp)+
qed (simp add: guar_ret)

lemma recovery_ops_guar [guar_intros]:
  "G (ReplaceMFARecoveryCodes u hs) (\<lambda>_. True)"
  "G (ConsumeRecoveryCodeHash u h) (\<lambda>_. True)"
  unfolding ReplaceMFARecoveryCodes_def ConsumeRecoveryCodeHash_def
  by (rule guar_intros insert_codes_guar TrueI | simp add: code_step_def)+

lemma CreateMFATrustedDevice_guar [guar_intros]:
  assumes "TrimSpace (td_ID r) \<noteq> [] \<Longrightarrow> okId (td_ID r)"
  shows "G (CreateMFATrustedDevice r) (\<lambda>_. True)"
proof -
  have i: "G (if TrimSpace (td_ID r) = [] then uuid_NewString else ret (td_ID r)) okId"
    using assms by (simp add: guar_uuid guar_ret)
  show ?thesis unfolding CreateMFATrustedDevice_def Let_def
    by (rule guar_time [THEN guar_bind] guar_bind [OF i] guar_then guar_devices factor_reads_guar | simp)+
qed

lemma device_ops_guar [guar_intros]:
  "G (RotateMFATrustedDeviceToken u i h ua ip t) (\<lambda>_. True)"
  "G (RevokeMFATrustedDevice u i) (\<lambda>_. True)"
  "G (RevokeAllMFATrustedDevices u) (\<lambda>_. True)"
  "G (RevokeSessionWithReason u i reason) (\<lambda>_. True)"
  unfolding RotateMFATrustedDeviceToken_def RevokeMFATrustedDevice_def
    RevokeAllMFATrustedDevices_def RevokeSessionWithReason_def
  by (rule guar_intros TrueI | simp add: device_step_def session_step_def)+

end

end
