(* ===== verification/MfaStage.thy ===== *)
theory MfaStage
  imports FeatureFlags StoreMFA
begin

text \<open>
  \<^verbatim>\<open>internal/service/mfa_stage.go\<close>: which stage of authentication a user with a session is in.  The
  decision is a pure function of the second factors, the user, the session and whether admins
  must use a second factor; \<open>ResolveMFAStage\<close> reads these from the store.
\<close>

abbreviation AuthStageAuthenticated :: string where "AuthStageAuthenticated \<equiv> ''authenticated''"
abbreviation AuthStageMFARequired :: string where "AuthStageMFARequired \<equiv> ''mfa_required''"
abbreviation AuthStageMFASetupNeeded :: string where "AuthStageMFASetupNeeded \<equiv> ''mfa_setup_required''"
abbreviation MFAPreferenceNone :: string where "MFAPreferenceNone \<equiv> ''none''"
abbreviation MFAPreferenceTOTP :: string where "MFAPreferenceTOTP \<equiv> ''totp''"
abbreviation MFAPreferenceWebAuthn :: string where "MFAPreferenceWebAuthn \<equiv> ''webauthn''"

record MFAStage =
  AuthStage :: string
  MFARequired :: bool
  MFASetupRequired :: bool
  MFASetupMethod :: string
  MFASetupStep :: string
  MFAEnrolled :: bool
  LegacyMFAPrompt :: bool
  MFAPreference :: string

definition NormalizeMFAPreference :: "string \<Rightarrow> string" where
  "NormalizeMFAPreference raw =
     (let p = lower_trim raw in
      if p = MFAPreferenceTOTP then MFAPreferenceTOTP
      else if p = MFAPreferenceWebAuthn then MFAPreferenceWebAuthn
      else MFAPreferenceNone)"

definition is_admin :: "User \<Rightarrow> bool" where
  "is_admin u \<longleftrightarrow> EqualFold (TrimSpace (u_Role u)) ''admin''"

definition effective_preference :: "MFAStatus \<Rightarrow> bool \<Rightarrow> User \<Rightarrow> string" where
  "effective_preference st enforced u =
     (let pref = NormalizeMFAPreference (u_MFAPreference u) in
      if is_admin u \<and> enforced \<and> pref = MFAPreferenceNone
      then if TOTPEnabled st then MFAPreferenceTOTP
           else if WebAuthnCount st > 0 then MFAPreferenceWebAuthn
           else MFAPreferenceTOTP
      else pref)"

definition decide_stage :: "MFAStatus \<Rightarrow> bool \<Rightarrow> User \<Rightarrow> Session option \<Rightarrow> MFAStage" where
  "decide_stage st enforced u sess =
     (let hasWebAuthn = (WebAuthnCount st > 0);
          mfaEnrolled = (TOTPEnabled st \<or> hasWebAuthn);
          pref = effective_preference st enforced u;
          methodMissing = (if pref = MFAPreferenceTOTP then \<not> TOTPEnabled st
                           else if pref = MFAPreferenceWebAuthn then \<not> hasWebAuthn
                           else False);
          backupMissing = (\<not> methodMissing
             \<and> (pref = MFAPreferenceTOTP \<or> pref = MFAPreferenceWebAuthn) \<and> \<not> u_MFABackupCompleted u);
          setupRequired = (methodMissing \<or> backupMissing);
          mfaRequired = (\<not> setupRequired \<and> mfaEnrolled
             \<and> (case sess of None \<Rightarrow> True | Some s \<Rightarrow> s_MFAVerifiedAt s = None))
      in \<lparr>AuthStage = (if setupRequired then AuthStageMFASetupNeeded
                       else if mfaRequired then AuthStageMFARequired
                       else AuthStageAuthenticated),
          MFARequired = mfaRequired, MFASetupRequired = setupRequired,
          MFASetupMethod = (if setupRequired then pref else []),
          MFASetupStep = (if methodMissing then ''method'' else if backupMissing then ''backup'' else []),
          MFAEnrolled = mfaEnrolled, LegacyMFAPrompt = u_LegacyMFAPromptPending u,
          MFAPreference = pref\<rparr>)"

definition isAdminMFAEnforced :: "bool M" where "isAdminMFAEnforced = AdminMFARequired"

definition ResolveMFAStage :: "User \<Rightarrow> Session option \<Rightarrow> MFAStage M" where
  "ResolveMFAStage u sess =
     bindM (GetMFAStatus (u_ID u)) (\<lambda>st.
     bindM (if is_admin u then isAdminMFAEnforced else ret False) (\<lambda>enforced.
       ret (decide_stage st enforced u sess)))"

context db_contract
begin

lemma ResolveMFAStage_guar [guar_intros]: "G (ResolveMFAStage u sess) (\<lambda>_. True)"
  unfolding ResolveMFAStage_def isAdminMFAEnforced_def by (rule guar_intros TrueI)+

end

section \<open>Properties\<close>

lemma preference_cases:
  "effective_preference st enforced u \<in> {MFAPreferenceNone, MFAPreferenceTOTP, MFAPreferenceWebAuthn}"
  by (simp add: effective_preference_def NormalizeMFAPreference_def)

text \<open>What "authenticated" promises.\<close>

definition factor_ready :: "MFAStatus \<Rightarrow> string \<Rightarrow> bool" where
  "factor_ready st pref \<longleftrightarrow>
     (pref = MFAPreferenceNone) \<or> (pref = MFAPreferenceTOTP \<and> TOTPEnabled st)
     \<or> (pref = MFAPreferenceWebAuthn \<and> WebAuthnCount st > 0)"

text \<open>C34: A user counts as authenticated exactly when the second factor the user's effective preference
  names is enrolled, its backup is completed, and the session has passed a second factor unless the
  user has none; an admin under enforcement is never authenticated without one.  The three stages
  exclude each other and the flags of the result agree with the stage.\<close>

theorem mfa_stage_decision:
  fixes st enforced u sess
  defines "stage \<equiv> decide_stage st enforced u sess"
    and "pref \<equiv> effective_preference st enforced u"
    and "enrolled \<equiv> TOTPEnabled st \<or> WebAuthnCount st > 0"
    and "verified \<equiv> (case sess of None \<Rightarrow> False | Some s \<Rightarrow> s_MFAVerifiedAt s \<noteq> None)"
  shows "(AuthStage stage = AuthStageAuthenticated
            \<longleftrightarrow> factor_ready st pref \<and> (pref = MFAPreferenceNone \<or> u_MFABackupCompleted u)
                \<and> (if enrolled then verified else True))
       \<and> (AuthStage stage = AuthStageMFASetupNeeded \<longleftrightarrow> MFASetupRequired stage)
       \<and> (AuthStage stage = AuthStageMFARequired \<longleftrightarrow> MFARequired stage)
       \<and> \<not> (is_admin u \<and> enforced \<and> AuthStage stage = AuthStageAuthenticated \<and> \<not> (enrolled \<and> verified))"
  unfolding assms decide_stage_def factor_ready_def Let_def
  using preference_cases [of st enforced u]
  by (auto simp: effective_preference_def split: option.splits if_splits)

lemma query_or_fault:
  "db_fault sv (w_n w) = Some m
   \<Longrightarrow> query_or z f sv w = (Inr z, w\<lparr>w_db := others sv (w_n w) (w_db w), w_n := Suc (w_n w)\<rparr>)"
  by (simp add: query_or_def tryM_run query_def stmt_def ret_def)

lemma query_or_result: "\<exists>x w'. query_or z f sv w = (Inr x, w') \<and> w_n w' = Suc (w_n w)"
  by (auto simp: query_or_def tryM_run query_def stmt_def ret_def split: option.splits)

lemma GetMFAStatus_fault:
  assumes "db_fault sv (w_n w) = Some m" "db_fault sv (Suc (w_n w)) = Some m'"
  shows "\<exists>st w'. GetMFAStatus i sv w = (Inr st, w') \<and> \<not> TOTPEnabled st \<and> WebAuthnCount st = 0"
proof -
  let ?w1 = "w\<lparr>w_db := others sv (w_n w) (w_db w), w_n := Suc (w_n w)\<rparr>"
  let ?w2 = "?w1\<lparr>w_db := others sv (w_n ?w1) (w_db ?w1), w_n := Suc (w_n ?w1)\<rparr>"
  obtain a w3 where a: "query_or 0 (\<lambda>d. int (length (filter (\<lambda>r. rc_user_id r = i) (mfa_recovery_codes d)))) sv ?w2
      = (Inr a, w3)" using query_or_result by meson
  obtain b w4 where b: "query_or 0 (\<lambda>d. int (length (filter (\<lambda>r. rc_user_id r = i \<and> rc_used_at r = None)
      (mfa_recovery_codes d)))) sv w3 = (Inr b, w4)" using query_or_result by meson
  show ?thesis
    using assms a b by (simp add: GetMFAStatus_def bindM_run query_or_fault ret_def)
qed

text \<open>The errors of the queries for the second factors are dropped, so when they fail a user with
  no stored preference passes as authenticated whatever factors are enrolled: the check fails open.\<close>

theorem mfa_check_fails_open:
  assumes "db_fault sv (w_n w) = Some m" "db_fault sv (Suc (w_n w)) = Some m'"
    and "\<not> is_admin u" "NormalizeMFAPreference (u_MFAPreference u) = MFAPreferenceNone"
  shows "\<exists>stage w'. ResolveMFAStage u sess sv w = (Inr stage, w')
           \<and> AuthStage stage = AuthStageAuthenticated"
proof -
  obtain st w1 where "GetMFAStatus (u_ID u) sv w = (Inr st, w1)" "\<not> TOTPEnabled st" "WebAuthnCount st = 0"
    using GetMFAStatus_fault [OF assms(1,2)] by blast
  then show ?thesis
    using assms(3,4)
    by (simp add: ResolveMFAStage_def bindM_run ret_def decide_stage_def effective_preference_def)
qed

text \<open>A user with an enabled TOTP factor, asked for it when the queries succeed.\<close>

definition totp_world :: world where
  "totp_world = demo_world\<lparr>w_db := demo_db\<lparr>mfa_totp :=
     [\<lparr>tp_UserID = ''u1'', tp_SecretEnc = ''enc'', tp_Issuer = ''Despatch'', tp_AccountName = [],
       tp_Enabled = True, tp_EnrolledAt = Some 0, tp_UpdatedAt = 0\<rparr>]\<rparr>\<rparr>"

definition faulty_svc :: Svc where
  "faulty_svc = demo_svc\<lparr>db_fault := (\<lambda>n. Some ''database is locked'')\<rparr>"

theorem mfa_check_fails_open_witness:
  "let u = scanUserCore (demo_user ''u1'' ''ann@example.org'') in
     map_sum id AuthStage (fst (ResolveMFAStage u None demo_svc totp_world)) = Inr AuthStageMFARequired
     \<and> (\<exists>stage w'. ResolveMFAStage u None faulty_svc totp_world = (Inr stage, w')
           \<and> AuthStage stage = AuthStageAuthenticated)"
proof -
  let ?u = "scanUserCore (demo_user ''u1'' ''ann@example.org'')"
  have "map_sum id AuthStage (fst (ResolveMFAStage ?u None demo_svc totp_world)) = Inr AuthStageMFARequired"
    by code_simp
  moreover have "\<exists>stage w'. ResolveMFAStage ?u None faulty_svc totp_world = (Inr stage, w')
           \<and> AuthStage stage = AuthStageAuthenticated"
  proof (rule mfa_check_fails_open)
    show "db_fault faulty_svc (w_n totp_world) = Some ''database is locked''"
      "db_fault faulty_svc (Suc (w_n totp_world)) = Some ''database is locked''"
      by (simp_all add: faulty_svc_def)
    show "\<not> is_admin ?u" "NormalizeMFAPreference (u_MFAPreference ?u) = MFAPreferenceNone" by code_simp+
  qed
  ultimately show ?thesis by (simp add: Let_def)
qed

end
