(* ===== verification/StoreSessions.thy ===== *)
theory StoreSessions
  imports Sql Contract
begin

text \<open>
  \<^verbatim>\<open>internal/store/store.go\<close>: sessions, password reset tokens and stored rate counters.
\<close>

section \<open>Sessions\<close>

definition set_session :: "string \<Rightarrow> (Session \<Rightarrow> Session) \<Rightarrow> int M" where
  "set_session i f = on_sessions (t_update sessions_keys (\<lambda>s. s_ID s = i) f)"

definition CreateSession :: "Session \<Rightarrow> unit M" where
  "CreateSession sess =
     (let authMethod = TrimSpace (s_AuthMethod sess) in
      exec (on_sessions (t_insert sessions_keys
        (sess\<lparr>s_AuthMethod := (if authMethod = [] then ''password'' else authMethod),
              s_RevokedAt := None\<rparr>))))"

definition scan_session :: "Session \<Rightarrow> Session" where
  "scan_session s = s\<lparr>
     s_ActiveAccountID := (case s_ActiveAccountID s of
         None \<Rightarrow> None
       | Some v \<Rightarrow> if TrimSpace v = [] then None else Some (TrimSpace v)),
     s_AuthMethod := (if TrimSpace (s_AuthMethod s) = [] then ''password'' else s_AuthMethod s)\<rparr>"

definition GetSessionByTokenHash :: "string \<Rightarrow> Session M" where
  "GetSessionByTokenHash tokenHash =
     query_row ErrNotFound (\<lambda>d. map_option scan_session (find (\<lambda>s. s_TokenHash s = tokenHash) (sessions d)))"

definition TouchSession :: "string \<Rightarrow> gotime \<Rightarrow> unit M" where
  "TouchSession i idleExpiry =
     bindM time_Now (\<lambda>now.
       exec (set_session i (\<lambda>s. s\<lparr>s_LastSeenAt := now, s_IdleExpiresAt := idleExpiry\<rparr>)))"

definition UpdateSessionMailSecret :: "string \<Rightarrow> string \<Rightarrow> unit M" where
  "UpdateSessionMailSecret sessionID mailSecret =
     rows_or ErrNotFound (set_session sessionID (\<lambda>s. s\<lparr>s_MailSecret := TrimSpace mailSecret\<rparr>))"

definition RevokeSession :: "string \<Rightarrow> unit M" where
  "RevokeSession i =
     bindM time_Now (\<lambda>now. exec (set_session i (\<lambda>s. s\<lparr>s_RevokedAt := Some now\<rparr>)))"

definition RevokeUserSessions :: "string \<Rightarrow> unit M" where
  "RevokeUserSessions userID =
     bindM time_Now (\<lambda>now.
       exec (on_sessions (t_update sessions_keys (\<lambda>s. s_UserID s = userID \<and> s_RevokedAt s = None)
         (\<lambda>s. s\<lparr>s_RevokedAt := Some now\<rparr>))))"

definition SetSessionMFAVerified :: "string \<Rightarrow> string \<Rightarrow> unit M" where
  "SetSessionMFAVerified sessionID authMethod0 =
     (let authMethod = TrimSpace authMethod0 in
      bindM time_Now (\<lambda>now.
        exec (set_session sessionID (\<lambda>s. s\<lparr>
          s_MFAVerifiedAt := Some now,
          s_AuthMethod := (if authMethod = [] then ''mfa'' else authMethod)\<rparr>))))"

definition ClearSessionMFAVerified :: "string \<Rightarrow> unit M" where
  "ClearSessionMFAVerified sessionID =
     exec (set_session sessionID (\<lambda>s. s\<lparr>s_MFAVerifiedAt := None, s_AuthMethod := ''password''\<rparr>))"

section \<open>Password reset tokens\<close>

definition scan_token :: "PasswordResetToken \<Rightarrow> PasswordResetToken" where
  "scan_token t = t\<lparr>
     t_ReservationID := (case t_ReservationID t of
         None \<Rightarrow> None
       | Some v \<Rightarrow> if TrimSpace v = [] then None else Some (TrimSpace v))\<rparr>"

definition set_token ::
  "(PasswordResetToken \<Rightarrow> bool) \<Rightarrow> (PasswordResetToken \<Rightarrow> PasswordResetToken) \<Rightarrow> int M" where
  "set_token P f = on_tokens (t_update tokens_keys P f)"

definition CreatePasswordResetToken :: "string \<Rightarrow> string \<Rightarrow> gotime \<Rightarrow> PasswordResetToken M" where
  "CreatePasswordResetToken userID tokenHash expiresAt =
     bindM uuid_NewString (\<lambda>newID.
     bindM time_Now (\<lambda>now.
       let t = \<lparr>t_ID = newID, t_UserID = userID, t_TokenHash = tokenHash, t_ReservationID = None,
                t_ReservedAt = None, t_ExpiresAt = expiresAt, t_UsedAt = None, t_CreatedAt = now\<rparr>
       in thenM (on_tokens (t_insert tokens_keys t)) (ret t)))"

definition InvalidatePasswordResetToken :: "string \<Rightarrow> unit M" where
  "InvalidatePasswordResetToken tokenHash =
     bindM time_Now (\<lambda>now.
       exec (set_token (\<lambda>t. t_TokenHash t = tokenHash \<and> t_UsedAt t = None)
         (\<lambda>t. t\<lparr>t_UsedAt := Some now, t_ReservedAt := None, t_ReservationID := None\<rparr>)))"

definition getPasswordResetTokenByHash :: "string \<Rightarrow> PasswordResetToken M" where
  "getPasswordResetTokenByHash tokenHash =
     query_row ErrNotFound (\<lambda>d. map_option scan_token (find (\<lambda>t. t_TokenHash t = tokenHash) (password_reset_tokens d)))"

text \<open>The rows a reservation may take: unused, not expired, not reserved within the lease.\<close>

definition reservable :: "string \<Rightarrow> gotime \<Rightarrow> duration \<Rightarrow> PasswordResetToken \<Rightarrow> bool" where
  "reservable tokenHash now lease t \<longleftrightarrow>
     t_TokenHash t = tokenHash \<and> t_UsedAt t = None \<and> t_ExpiresAt t > now
     \<and> (case t_ReservedAt t of None \<Rightarrow> True | Some r \<Rightarrow> r \<le> now - lease)"

definition ReservePasswordResetToken :: "string \<Rightarrow> string \<Rightarrow> duration \<Rightarrow> PasswordResetToken M" where
  "ReservePasswordResetToken tokenHash reservationID lease0 =
     (if TrimSpace reservationID = [] then fail (ErrMsg ''reservation_id is required'')
      else bindM time_Now (\<lambda>now.
        let lease = (if lease0 \<le> 0 then 30 * time_Second else lease0) in
        bindM (set_token (reservable tokenHash now lease)
                 (\<lambda>t. t\<lparr>t_ReservedAt := Some now, t_ReservationID := Some (TrimSpace reservationID)\<rparr>))
        (\<lambda>affected. if affected \<noteq> 1 then fail ErrNotFound else getPasswordResetTokenByHash tokenHash)))"

definition ReleasePasswordResetTokenReservation :: "string \<Rightarrow> string \<Rightarrow> unit M" where
  "ReleasePasswordResetTokenReservation tokenHash reservationID =
     (if TrimSpace reservationID = [] then ret ()
      else exec (set_token
             (\<lambda>t. t_TokenHash t = tokenHash \<and> t_UsedAt t = None
                  \<and> t_ReservationID t = Some (TrimSpace reservationID))
             (\<lambda>t. t\<lparr>t_ReservedAt := None, t_ReservationID := None\<rparr>)))"

definition mark_used :: "gotime \<Rightarrow> PasswordResetToken \<Rightarrow> PasswordResetToken" where
  "mark_used now t = t\<lparr>t_UsedAt := Some now, t_ReservedAt := None, t_ReservationID := None\<rparr>"

definition ConsumePasswordResetToken :: "string \<Rightarrow> PasswordResetToken M" where
  "ConsumePasswordResetToken tokenHash =
     bindM time_Now (\<lambda>now.
     bindM (set_token (\<lambda>t. t_TokenHash t = tokenHash \<and> t_UsedAt t = None \<and> t_ExpiresAt t > now) (mark_used now))
     (\<lambda>affected. if affected \<noteq> 1 then fail ErrNotFound else getPasswordResetTokenByHash tokenHash))"

definition ConsumeReservedPasswordResetToken :: "string \<Rightarrow> string \<Rightarrow> PasswordResetToken M" where
  "ConsumeReservedPasswordResetToken tokenHash reservationID =
     bindM time_Now (\<lambda>now.
     bindM (set_token
              (\<lambda>t. t_TokenHash t = tokenHash \<and> t_UsedAt t = None \<and> t_ExpiresAt t > now
                   \<and> t_ReservationID t = Some (TrimSpace reservationID))
              (mark_used now))
     (\<lambda>affected. if affected \<noteq> 1 then fail ErrNotFound else getPasswordResetTokenByHash tokenHash))"

section \<open>Stored rate counters\<close>

definition IncrementRateEvent :: "string \<Rightarrow> string \<Rightarrow> gotime \<Rightarrow> int M" where
  "IncrementRateEvent key route windowStart =
     bindM time_Now (\<lambda>now.
     bindM uuid_NewString (\<lambda>newID.
     thenM (on_rate (t_upsert rate_keys
              (\<lambda>r. re_key r = key \<and> re_route r = route \<and> re_window_start r = windowStart)
              (\<lambda>r. r\<lparr>re_count := re_count r + 1, re_updated_at := now\<rparr>)
              \<lparr>re_id = newID, re_key = key, re_route = route, re_window_start = windowStart,
               re_count = 1, re_created_at = now, re_updated_at = now\<rparr>))
     (query_row (DBErr ''sql: no rows in result set'') (\<lambda>d. map_option re_count
        (find (\<lambda>r. re_key r = key \<and> re_route r = route \<and> re_window_start r = windowStart)
          (rate_limit_events d))))))"

definition DeleteRateEvents :: "string \<Rightarrow> string \<Rightarrow> unit M" where
  "DeleteRateEvents key route =
     exec (on_rate (t_delete (\<lambda>r. re_key r = key \<and> re_route r = route)))"

definition CleanupRateEventsBefore :: "gotime \<Rightarrow> unit M" where
  "CleanupRateEventsBefore cutoff = exec (on_rate (t_delete (\<lambda>r. re_window_start r < cutoff)))"

section \<open>The contract\<close>

context db_contract
begin

lemma set_session_guar [guar_intros]:
  "(\<And>s. session_step s (f s)) \<Longrightarrow> G (set_session i f) (\<lambda>_. True)"
  unfolding set_session_def by (rule guar_sessions)

lemma set_token_guar [guar_intros]:
  "(\<And>t. P t \<Longrightarrow> token_step t (f t)) \<Longrightarrow> G (set_token P f) (\<lambda>_. True)"
  unfolding set_token_def by (rule guar_tokens)

lemma CreateSession_guar [guar_intros]:
  "okId (s_ID s) \<Longrightarrow> okHash (s_TokenHash s) \<Longrightarrow> G (CreateSession s) (\<lambda>_. True)"
  unfolding CreateSession_def Let_def by (intro guar_exec guar_sessions) simp_all

lemma session_ops_guar [guar_intros]:
  "G (GetSessionByTokenHash h) (\<lambda>_. True)"
  "G (TouchSession i t) (\<lambda>_. True)"
  "G (UpdateSessionMailSecret i m) (\<lambda>_. True)"
  "G (RevokeSession i) (\<lambda>_. True)"
  "G (RevokeUserSessions i) (\<lambda>_. True)"
  "G (SetSessionMFAVerified i a) (\<lambda>_. True)"
  "G (ClearSessionMFAVerified i) (\<lambda>_. True)"
  unfolding GetSessionByTokenHash_def TouchSession_def UpdateSessionMailSecret_def RevokeSession_def
    RevokeUserSessions_def SetSessionMFAVerified_def ClearSessionMFAVerified_def Let_def
  by (rule guar_intros TrueI | simp add: session_step_def)+

lemma CreatePasswordResetToken_guar [guar_intros]:
  "okHash h \<Longrightarrow> G (CreatePasswordResetToken i h t) (\<lambda>_. True)"
  unfolding CreatePasswordResetToken_def Let_def by (rule guar_intros TrueI | simp)+

lemma token_ops_guar [guar_intros]:
  "G (InvalidatePasswordResetToken h) (\<lambda>_. True)"
  "G (getPasswordResetTokenByHash h) (\<lambda>_. True)"
  "G (ReservePasswordResetToken h i l) (\<lambda>_. True)"
  "G (ReleasePasswordResetTokenReservation h i) (\<lambda>_. True)"
  "G (ConsumePasswordResetToken h) (\<lambda>_. True)"
  "G (ConsumeReservedPasswordResetToken h i) (\<lambda>_. True)"
  unfolding InvalidatePasswordResetToken_def getPasswordResetTokenByHash_def Let_def
    ReservePasswordResetToken_def ReleasePasswordResetTokenReservation_def
    ConsumePasswordResetToken_def ConsumeReservedPasswordResetToken_def mark_used_def
  by (rule guar_intros TrueI | simp add: token_step_def)+

lemma rate_ops_guar [guar_intros]:
  "G (IncrementRateEvent k r t) (\<lambda>_. True)"
  "G (DeleteRateEvents k r) (\<lambda>_. True)"
  "G (CleanupRateEventsBefore t) (\<lambda>_. True)"
  unfolding IncrementRateEvent_def DeleteRateEvents_def CleanupRateEventsBefore_def
  by (rule guar_intros TrueI)+

end

end
