(* ===== verification/StoreAccounts.thy ===== *)
theory StoreAccounts
  imports Sql Contract Demo
begin

text \<open>
  \<^verbatim>\<open>internal/store/v2_store.go\<close>: mail accounts.  A nullable text column that the scan turns into the
  empty string is kept as a string.
\<close>

section \<open>Normalisation of stored columns\<close>

definition normalizeStoredMailProviderType :: "string \<Rightarrow> string" where
  "normalizeStoredMailProviderType raw =
     (let v = lower_trim raw in
      if v = ''gmail'' then ''gmail'' else if v = ''libero'' then ''libero'' else ''generic'')"

definition normalizeStoredMailAuthKind :: "string \<Rightarrow> string" where
  "normalizeStoredMailAuthKind raw =
     (if EqualFold (TrimSpace raw) ''app_password'' then ''app_password'' else ''password'')"

definition normalizeStoredMailConnectionMode :: "string \<Rightarrow> string" where
  "normalizeStoredMailConnectionMode raw = (if TrimSpace raw = [] then ''imap_smtp'' else TrimSpace raw)"

definition nullStringValue :: "string \<Rightarrow> string" where
  "nullStringValue v = (if TrimSpace v = [] then [] else v)"

definition isOptionalSchemaErr :: "err \<Rightarrow> bool" where
  "isOptionalSchemaErr e \<longleftrightarrow>
     (case e of DBErr m \<Rightarrow> (let msg = lower_trim m in
                  Contains msg ''no such table'' \<or> Contains msg ''no such column'')
      | _ \<Rightarrow> False)"

definition normalize_account :: "MailAccount \<Rightarrow> MailAccount" where
  "normalize_account a = a\<lparr>
     ma_ProviderType := normalizeStoredMailProviderType (ma_ProviderType a),
     ma_AuthKind := normalizeStoredMailAuthKind (ma_AuthKind a),
     ma_ConnectionMode := normalizeStoredMailConnectionMode (ma_ConnectionMode a)\<rparr>"

text \<open>The values a statement binds for the columns of an account.\<close>

definition account_row :: "MailAccount \<Rightarrow> MailAccount" where
  "account_row a = a\<lparr>
     ma_LastError := nullStringValue (ma_LastError a),
     ma_ProviderType := TrimSpace (ma_ProviderType a), ma_ProviderLabel := TrimSpace (ma_ProviderLabel a),
     ma_AuthKind := TrimSpace (ma_AuthKind a), ma_ConnectionMode := TrimSpace (ma_ConnectionMode a),
     ma_ValidationError := TrimSpace (ma_ValidationError a)\<rparr>"

definition scanMailAccount :: "MailAccount \<Rightarrow> MailAccount" where
  "scanMailAccount a = (normalize_account a)\<lparr>ma_ProviderLabel := TrimSpace (ma_ProviderLabel a)\<rparr>"

section \<open>Operations\<close>

definition by_default_then_age :: "MailAccount list \<Rightarrow> MailAccount list" where
  "by_default_then_age rows =
     filter ma_IsDefault (order_by (\<lambda>a. SInt (ma_CreatedAt a)) ''ASC'' rows)
     @ filter (\<lambda>a. \<not> ma_IsDefault a) (order_by (\<lambda>a. SInt (ma_CreatedAt a)) ''ASC'' rows)"

definition ListMailAccounts :: "string \<Rightarrow> MailAccount list M" where
  "ListMailAccounts userID =
     tryM (query (\<lambda>d. map scanMailAccount (by_default_then_age (filter (\<lambda>a. ma_UserID a = userID) (mail_accounts d)))))
       (\<lambda>r. case r of Inl e \<Rightarrow> if isOptionalSchemaErr e then ret [] else fail e | Inr rows \<Rightarrow> ret rows)"

definition ListAllMailAccounts :: "MailAccount list M" where
  "ListAllMailAccounts =
     query (\<lambda>d. map scanMailAccount (order_by (\<lambda>a. SInt (ma_UpdatedAt a)) ''DESC'' (mail_accounts d)))"

definition GetMailAccountByID :: "string \<Rightarrow> string \<Rightarrow> MailAccount M" where
  "GetMailAccountByID userID i =
     mapErr (\<lambda>e. if isOptionalSchemaErr e then ErrNotFound else e)
       (query_row ErrNotFound (\<lambda>d. map_option scanMailAccount
          (find (\<lambda>a. ma_UserID a = userID \<and> ma_ID a = i) (mail_accounts d))))"

text \<open>\<^verbatim>\<open>SET is_default=CASE WHEN id=? THEN 1 ELSE 0 END WHERE user_id=?\<close>\<close>

definition make_default :: "string \<Rightarrow> string \<Rightarrow> gotime \<Rightarrow> int M" where
  "make_default userID i now =
     on_accounts (t_update accounts_keys (\<lambda>a. ma_UserID a = userID)
       (\<lambda>a. a\<lparr>ma_IsDefault := (ma_ID a = i), ma_UpdatedAt := now\<rparr>))"

definition CreateMailAccount :: "MailAccount \<Rightarrow> MailAccount M" where
  "CreateMailAccount in0 =
     bindM time_Now (\<lambda>now.
     bindM (if TrimSpace (ma_ID in0) = [] then uuid_NewString else ret (ma_ID in0)) (\<lambda>newID.
       let a = normalize_account (in0\<lparr>ma_ID := newID, ma_CreatedAt := now, ma_UpdatedAt := now,
                 ma_Status := (if TrimSpace (ma_Status in0) = [] then ''active'' else ma_Status in0)\<rparr>) in
       thenM (on_accounts (t_insert accounts_keys (account_row a)))
       (ignoreM (whenM (ma_IsDefault a) (exec (make_default (ma_UserID a) (ma_ID a) now)))
       (ret a))))"

definition UpdateMailAccountSyncStatus :: "string \<Rightarrow> gotime \<Rightarrow> string \<Rightarrow> unit M" where
  "UpdateMailAccountSyncStatus accountID at lastErr =
     bindM time_Now (\<lambda>now.
       exec (on_accounts (t_update accounts_keys (\<lambda>a. ma_ID a = accountID) (\<lambda>a. a\<lparr>
         ma_LastSyncAt := Some at, ma_LastError := nullStringValue lastErr,
         ma_Status := (if TrimSpace lastErr \<noteq> [] then ''error'' else ''active''),
         ma_UpdatedAt := now\<rparr>))))"

definition UpdateMailAccount :: "MailAccount \<Rightarrow> MailAccount M" where
  "UpdateMailAccount in0 =
     bindM time_Now (\<lambda>now.
       let a = normalize_account (in0\<lparr>ma_UpdatedAt := now\<rparr>); row = account_row a in
       thenM (rows_or ErrNotFound (on_accounts (t_update accounts_keys
                (\<lambda>r. ma_UserID r = ma_UserID a \<and> ma_ID r = ma_ID a)
                (\<lambda>r. row\<lparr>ma_ID := ma_ID r, ma_UserID := ma_UserID r, ma_CreatedAt := ma_CreatedAt r\<rparr>))))
       (ignoreM (whenM (ma_IsDefault a) (exec (make_default (ma_UserID a) (ma_ID a) now)))
       (GetMailAccountByID (ma_UserID a) (ma_ID a))))"

definition DeleteMailAccount :: "string \<Rightarrow> string \<Rightarrow> unit M" where
  "DeleteMailAccount userID i =
     rows_or ErrNotFound (on_accounts (t_delete (\<lambda>a. ma_UserID a = userID \<and> ma_ID a = i)))"

definition SetActiveMailAccount :: "string \<Rightarrow> string \<Rightarrow> unit M" where
  "SetActiveMailAccount userID i =
     bindM time_Now (\<lambda>now. rows_or ErrNotFound (make_default userID i now))"

section \<open>The contract\<close>

context db_contract
begin

lemma make_default_guar [guar_intros]: "G (make_default u i now) (\<lambda>_. True)"
  unfolding make_default_def by (rule guar_intros)+

lemma account_reads_guar [guar_intros]:
  "G (ListMailAccounts u) (\<lambda>_. True)"
  "G ListAllMailAccounts (\<lambda>_. True)"
  "G (GetMailAccountByID u i) (\<lambda>_. True)"
  unfolding ListMailAccounts_def ListAllMailAccounts_def GetMailAccountByID_def
  by (rule guar_intros TrueI)+

lemma account_writes_guar [guar_intros]:
  "G (UpdateMailAccountSyncStatus i t e) (\<lambda>_. True)"
  "G (CreateMailAccount a) (\<lambda>_. True)" "G (UpdateMailAccount a) (\<lambda>_. True)"
  "G (DeleteMailAccount u i) (\<lambda>_. True)"
  "G (SetActiveMailAccount u i) (\<lambda>_. True)"
  unfolding UpdateMailAccountSyncStatus_def CreateMailAccount_def UpdateMailAccount_def DeleteMailAccount_def
    SetActiveMailAccount_def Let_def
  by (rule guar_intros TrueI)+

end

section \<open>Properties\<close>

definition default_ids :: "string \<Rightarrow> db \<Rightarrow> string set" where
  "default_ids u d = ma_ID ` {a \<in> set (mail_accounts d). ma_UserID a = u \<and> ma_IsDefault a}"

lemma make_default_ids:
  assumes "make_default u i now sv w = (Inr n, w')" "quiet sv"
  shows "default_ids u (w_db w') = {i} \<inter> ma_ID ` {a \<in> set (mail_accounts (w_db w)). ma_UserID a = u}"
    and "n = int (length (filter (\<lambda>a. ma_UserID a = u) (mail_accounts (w_db w))))"
proof -
  let ?M = "mail_accounts (w_db w)"
  define f where
    "f a = (if ma_UserID a = u then a\<lparr>ma_IsDefault := (ma_ID a = i), ma_UpdatedAt := now\<rparr> else a)" for a :: MailAccount
  have M: "mail_accounts (w_db w') = map f ?M" and n: "n = int (length (filter (\<lambda>a. ma_UserID a = u) ?M))"
    using assms by (simp_all add: make_default_def put_Inr t_update_Some f_def)
  have f: "ma_ID (f a) = ma_ID a" "ma_UserID (f a) = ma_UserID a"
    "ma_UserID a = u \<Longrightarrow> ma_IsDefault (f a) = (ma_ID a = i)" for a by (simp_all add: f_def)
  have "x \<in> default_ids u (w_db w') \<longleftrightarrow> (\<exists>a \<in> set ?M. ma_ID a = x \<and> ma_UserID a = u \<and> ma_ID a = i)" for x
  proof -
    have "x \<in> default_ids u (w_db w')
        \<longleftrightarrow> (\<exists>b \<in> set (map f ?M). ma_UserID b = u \<and> ma_IsDefault b \<and> ma_ID b = x)"
      unfolding default_ids_def M by blast
    also have "\<dots> \<longleftrightarrow> (\<exists>a \<in> set ?M. ma_UserID (f a) = u \<and> ma_IsDefault (f a) \<and> ma_ID (f a) = x)"
      by (simp only: set_map bex_simps)
    also have "\<dots> \<longleftrightarrow> (\<exists>a \<in> set ?M. ma_ID a = x \<and> ma_UserID a = u \<and> ma_ID a = i)"
      by (rule bex_cong [OF refl]) (auto simp: f)
    finally show ?thesis .
  qed
  then show "default_ids u (w_db w') = {i} \<inter> ma_ID ` {a \<in> set ?M. ma_UserID a = u}" by (auto simp: set_eq_iff)
  show "n = int (length (filter (\<lambda>a. ma_UserID a = u) ?M))" by (rule n)
qed

text \<open>Selecting an account as active makes it the only default account of its user, and an
  unknown account id leaves the user with no default account at all although the call reports
  success (the statement only counts the accounts of the user).\<close>

theorem set_active_account:
  assumes "quiet sv" "SetActiveMailAccount u i sv w = (Inr (), w')"
  shows "default_ids u (w_db w')
         = (if i \<in> ma_ID ` {a \<in> set (mail_accounts (w_db w)). ma_UserID a = u} then {i} else {})"
proof -
  obtain n w0 now where w0: "time_Now sv w = (Inr now, w0)"
    and m: "make_default u i now sv w0 = (Inr n, w')"
    using assms(2) by (auto simp: SetActiveMailAccount_def runs rows_or_def split: if_splits)
  then have "w_db w0 = w_db w" by (auto simp: time_Now_Inr)
  with make_default_ids(1) [OF m assms(1)] show ?thesis by auto
qed

theorem set_active_account_witness:
  "SetActiveMailAccount ''u1'' ''unknown'' demo_svc demo_world
     = (Inr (), snd (SetActiveMailAccount ''u1'' ''unknown'' demo_svc demo_world))
   \<and> default_ids ''u1'' (w_db (snd (SetActiveMailAccount ''u1'' ''unknown'' demo_svc demo_world))) = {}"
proof -
  have r: "SetActiveMailAccount ''u1'' ''unknown'' demo_svc demo_world
     = (Inr (), snd (SetActiveMailAccount ''u1'' ''unknown'' demo_svc demo_world))"
    by (simp add: SetActiveMailAccount_def make_default_def rows_or_def bindM_run time_Now_def put_def
        stmt_def t_update_def uniq_def accounts_keys_def demo_svc_def demo_world_def demo_db_def
        demo_account_def empty_db_def ret_def)
  have "''unknown'' \<notin> ma_ID ` {a \<in> set (mail_accounts (w_db demo_world)). ma_UserID a = ''u1''}"
    by (auto simp: demo_world_def demo_db_def demo_account_def)
  with r set_active_account [OF demo_quiet r] show ?thesis by simp
qed

end
