(* ===== verification/ServiceBase.thy ===== *)
theory ServiceBase
  imports MfaStage StoreSessions StoreAccounts MailProviders
begin

text \<open>
  \<^verbatim>\<open>internal/service/service.go\<close>, the parts every operation shares: instance modes, domains and
  recovery addresses, the password rules, the candidates for a mailbox login and their check
  against the IMAP server, stored defaults; and \<^verbatim>\<open>internal/service/mail_accounts.go\<close>.
\<close>

section \<open>Errors as text\<close>

definition Error :: "err \<Rightarrow> string" where
  "Error e = (case e of
     ErrNotFound \<Rightarrow> ''not found'' | ErrConflict \<Rightarrow> ''conflict''
   | ErrUserStateConflict \<Rightarrow> ''registration user state conflict''
   | DBErr m \<Rightarrow> m | MailErr m \<Rightarrow> m | ProvisionErr m \<Rightarrow> m | SendErr m \<Rightarrow> m | ErrMsg m \<Rightarrow> m
   | ErrInvalidCredentials \<Rightarrow> ''invalid credentials'' | ErrPendingApproval \<Rightarrow> ''pending approval''
   | ErrSuspended \<Rightarrow> ''account suspended'' | ErrForbidden \<Rightarrow> ''forbidden''
   | ErrPAMVerifierDown \<Rightarrow> ''cannot reach Dovecot IMAP for PAM verification''
   | PAMCredentialsInvalid attempts \<Rightarrow>
       (if attempts = [] then ''admin credentials are not valid for Dovecot/PAM''
        else ''admin credentials are not valid for Dovecot/PAM (attempted logins: ''
             @ Join attempts '', '' @ '')'')
   | _ \<Rightarrow> ''error'')"

definition connectivityHints :: "string list" where
  "connectivityHints = [''dial'', ''connect'', ''timeout'', ''i/o timeout'', ''no such host'',
     ''connection refused'', ''tls'', ''certificate'', ''eof'', ''network is unreachable'']"

definition isMailConnectivityError :: "err \<Rightarrow> bool" where
  "isMailConnectivityError e \<longleftrightarrow> list_ex (\<lambda>hint. Contains (ToLower (Error e)) hint) connectivityHints"

section \<open>Instance modes\<close>

abbreviation InstanceModeLocalStack :: string where "InstanceModeLocalStack \<equiv> ''local_stack''"
abbreviation InstanceModeExternalAccounts :: string where "InstanceModeExternalAccounts \<equiv> ''external_accounts''"
abbreviation InstanceModeHybrid :: string where "InstanceModeHybrid \<equiv> ''hybrid''"

definition NormalizeInstanceMode :: "string \<Rightarrow> string" where
  "NormalizeInstanceMode raw =
     (let m = lower_trim raw in
      if m = InstanceModeExternalAccounts then InstanceModeExternalAccounts
      else if m = InstanceModeHybrid then InstanceModeHybrid
      else InstanceModeLocalStack)"

definition InstanceModeUsesLocalMail :: "string \<Rightarrow> bool" where
  "InstanceModeUsesLocalMail mode =
     (let m = NormalizeInstanceMode mode in m = InstanceModeLocalStack \<or> m = InstanceModeHybrid)"

definition InstanceModeUsesExternalMail :: "string \<Rightarrow> bool" where
  "InstanceModeUsesExternalMail mode =
     (let m = NormalizeInstanceMode mode in m = InstanceModeExternalAccounts \<or> m = InstanceModeHybrid)"

definition by_mode :: "string \<Rightarrow> 'a \<Rightarrow> 'a \<Rightarrow> 'a" where
  "by_mode mode ext loc = (if NormalizeInstanceMode mode = InstanceModeExternalAccounts then ext else loc)"

definition instanceModeAdminIdentifierKind :: "string \<Rightarrow> string" where
  "instanceModeAdminIdentifierKind mode = by_mode mode ''username'' ''email''"

definition instanceModeAdminIdentifierLabel :: "string \<Rightarrow> string" where
  "instanceModeAdminIdentifierLabel mode = by_mode mode ''Admin username'' ''Admin email''"

definition instanceModeLoginIdentifierLabel :: "string \<Rightarrow> string" where
  "instanceModeLoginIdentifierLabel mode = by_mode mode ''Username'' ''Email''"

definition defaultAdminEmail :: "string \<Rightarrow> string" where
  "defaultAdminEmail domain = (if domain = [] then ''webmaster@example.com'' else ''webmaster@'' @ domain)"

definition defaultAdminIdentifier :: "string \<Rightarrow> string \<Rightarrow> string" where
  "defaultAdminIdentifier mode domain = by_mode mode ''admin'' (defaultAdminEmail domain)"

section \<open>Runes\<close>

text \<open>\<^verbatim>\<open>utf8.DecodeRuneInString\<close>: the rune (65533 for an invalid byte) and its width.\<close>

definition cont :: "nat \<Rightarrow> nat \<Rightarrow> nat \<Rightarrow> bool" where "cont lo hi b \<longleftrightarrow> lo \<le> b \<and> b \<le> hi"

definition decode_rune :: "nat list \<Rightarrow> nat \<times> nat" where
  "decode_rune bs = (case bs of
     [] \<Rightarrow> (65533, 1)
   | b # r \<Rightarrow>
       if b < 128 then (b, 1)
       else case r of
         [] \<Rightarrow> (65533, 1)
       | b1 # r1 \<Rightarrow>
           if cont 194 223 b then (if cont 128 191 b1 then (64 * (b - 192) + (b1 - 128), 2) else (65533, 1))
           else case r1 of
             [] \<Rightarrow> (65533, 1)
           | b2 # r2 \<Rightarrow>
               if cont 224 239 b
               then (if cont (if b = 224 then 160 else 128) (if b = 237 then 159 else 191) b1 \<and> cont 128 191 b2
                     then (4096 * (b - 224) + 64 * (b1 - 128) + (b2 - 128), 3) else (65533, 1))
               else case r2 of
                 [] \<Rightarrow> (65533, 1)
               | b3 # _ \<Rightarrow>
                   if cont 240 244 b
                      \<and> cont (if b = 240 then 144 else 128) (if b = 244 then 143 else 191) b1
                      \<and> cont 128 191 b2 \<and> cont 128 191 b3
                   then (262144 * (b - 240) + 4096 * (b1 - 128) + 64 * (b2 - 128) + (b3 - 128), 4)
                   else (65533, 1))"

lemma decode_rune_width: "0 < snd (decode_rune bs)"
  by (simp add: decode_rune_def split: list.split)

lemma decode_rune_step:
  "length (drop (snd (decode_rune (b # bs))) (b # bs)) < length (b # bs)"
  using decode_rune_width [of "b # bs"] by (metis diff_less length_drop length_greater_0_conv list.discI)

function runes_of :: "nat list \<Rightarrow> nat list" where
  "runes_of [] = []"
| "runes_of (b # bs) = fst (decode_rune (b # bs)) # runes_of (drop (snd (decode_rune (b # bs))) (b # bs))"
  by pat_completeness auto
termination
  by (relation "measure length") (simp, simp only: in_measure decode_rune_step)

definition runes :: "string \<Rightarrow> nat list" where "runes s = runes_of (map of_char s)"

definition IsControl :: "nat \<Rightarrow> bool" where "IsControl r \<longleftrightarrow> r < 32 \<or> (127 \<le> r \<and> r < 160)"

definition IsSpace :: "nat \<Rightarrow> bool" where
  "IsSpace r \<longleftrightarrow> (9 \<le> r \<and> r \<le> 13) \<or> r = 32 \<or> r = 133 \<or> r = 160 \<or> r = 5760
     \<or> (8192 \<le> r \<and> r \<le> 8202) \<or> r = 8232 \<or> r = 8233 \<or> r = 8239 \<or> r = 8287 \<or> r = 12288"

definition normalizeExternalAdminIdentifier :: "string \<Rightarrow> err + string" where
  "normalizeExternalAdminIdentifier raw =
     (let i0 = lower_trim raw; identifier = (if i0 = [] then ''admin'' else i0) in
      if length (runes identifier) < 3 then Inl (ErrMsg ''admin username must be at least 3 characters'')
      else if length (runes identifier) > 64 then Inl (ErrMsg ''admin username must be at most 64 characters'')
      else if list_ex (\<lambda>r. IsControl r \<or> IsSpace r) (runes identifier)
           then Inl (ErrMsg ''admin username cannot contain spaces'')
      else Inr identifier)"

section \<open>Domains and recovery addresses\<close>

definition normalizeDomain :: "string \<Rightarrow> string" where
  "normalizeDomain v =
     (let v1 = lower_trim v; v2 = TrimPrefix v1 ''https://''; v3 = TrimPrefix v2 ''http://'';
          v4 = TrimSuffix v3 ''/'' in TrimSuffix v4 ''.'')"

definition alnum :: "char \<Rightarrow> bool" where
  "alnum c \<longleftrightarrow> (let n = of_char c :: nat in (97 \<le> n \<and> n \<le> 122) \<or> (48 \<le> n \<and> n \<le> 57))"

definition domain_label :: "string \<Rightarrow> bool" where
  "domain_label l \<longleftrightarrow> l \<noteq> [] \<and> length l \<le> 63 \<and> alnum (hd l) \<and> alnum (last l)
     \<and> list_all (\<lambda>c. alnum c \<or> c = CHR ''-'') l"

text \<open>The regular expression of \<^verbatim>\<open>domainRx\<close>: at least two labels separated by dots.\<close>

definition domainRx :: "string \<Rightarrow> bool" where
  "domainRx s \<longleftrightarrow> (let ls = Split (CHR ''.'') s in length ls \<ge> 2 \<and> list_all domain_label ls)"

definition normalizeRecoveryEmail :: "(string \<Rightarrow> string option) \<Rightarrow> string \<Rightarrow> err + string" where
  "normalizeRecoveryEmail parse v =
     (let trimmed = TrimSpace v in
      if trimmed = [] then Inl ErrInvalidRecoveryEmail
      else case parse trimmed of
             None \<Rightarrow> Inl ErrInvalidRecoveryEmail
           | Some a \<Rightarrow> (let addr = lower_trim a in
               if addr = [] \<or> length addr > 254 then Inl ErrInvalidRecoveryEmail else Inr addr))"

definition distinct_recovery :: "(string \<Rightarrow> string option) \<Rightarrow> string \<Rightarrow> string \<Rightarrow> err + string" where
  "distinct_recovery parse loginEmail recoveryEmail =
     (case normalizeRecoveryEmail parse recoveryEmail of
        Inl e \<Rightarrow> Inl e
      | Inr addr \<Rightarrow> (let login = lower_trim loginEmail in
          if login \<noteq> [] \<and> EqualFold addr login then Inl ErrRecoveryEmailMatchesLogin else Inr addr))"

definition normalizeDistinctRecoveryEmail ::
  "(string \<Rightarrow> string option) \<Rightarrow> string \<Rightarrow> string \<Rightarrow> err + string" where
  "normalizeDistinctRecoveryEmail parse loginEmail recoveryEmail =
     (if TrimSpace recoveryEmail = [] then Inl ErrRecoveryEmailRequired
      else distinct_recovery parse loginEmail recoveryEmail)"

definition normalizeDistinctRecoveryEmailOptional ::
  "(string \<Rightarrow> string option) \<Rightarrow> string \<Rightarrow> string \<Rightarrow> err + string" where
  "normalizeDistinctRecoveryEmailOptional parse loginEmail recoveryEmail =
     (if TrimSpace recoveryEmail = [] then Inr [] else distinct_recovery parse loginEmail recoveryEmail)"

definition RecoveryEmailNeedsSetup :: "(string \<Rightarrow> string option) \<Rightarrow> string \<Rightarrow> string option \<Rightarrow> bool" where
  "RecoveryEmailNeedsSetup parse loginEmail recoveryEmail =
     (case recoveryEmail of
        None \<Rightarrow> True
      | Some v \<Rightarrow>
          if TrimSpace v = [] then True
          else case normalizeRecoveryEmail parse v of
                 Inl _ \<Rightarrow> True
               | Inr addr \<Rightarrow> (let login = lower_trim loginEmail in login = [] \<or> EqualFold addr login))"

section \<open>Password rules\<close>

definition char_in :: "nat \<Rightarrow> nat \<Rightarrow> char \<Rightarrow> bool" where
  "char_in lo hi c \<longleftrightarrow> (let n = of_char c :: nat in lo \<le> n \<and> n \<le> hi)"

definition password_classes :: "string \<Rightarrow> nat" where
  "password_classes pw =
     (if list_ex (char_in 97 122) pw then 1 else 0) + (if list_ex (char_in 65 90) pw then 1 else 0)
     + (if list_ex (char_in 48 57) pw then 1 else 0)
     + (if list_ex (\<lambda>c. char_in 33 47 c \<or> char_in 58 64 c \<or> char_in 91 96 c \<or> char_in 123 126 c) pw
        then 1 else 0)"

definition ValidatePassword :: "string \<Rightarrow> unit M" where
  "ValidatePassword pw0 = bindM (askM cfg) (\<lambda>c.
     let pw = TrimSpace pw0 in
     if pw = [] then fail (ErrMsg ''password is required'')
     else if int (length pw) < PasswordMinLength c
          then fail (ErrMsg (''password must be at least '' @ show_int (PasswordMinLength c) @ '' characters''))
     else if int (length pw) > PasswordMaxLength c
          then fail (ErrMsg (''password must be at most '' @ show_int (PasswordMaxLength c) @ '' characters''))
     else if password_classes pw < 3
          then fail (ErrMsg ''password must include at least 3 character classes (lower/upper/number/symbol)'')
     else ret ())"

section \<open>Mailbox logins\<close>

definition usesPAMAuth :: "Svc \<Rightarrow> bool" where
  "usesPAMAuth sv \<longleftrightarrow> EqualFold (TrimSpace (DovecotAuthMode (cfg sv))) ''pam''"

definition add_candidate :: "string \<Rightarrow> string list \<Rightarrow> string list" where
  "add_candidate v out =
     (let t = TrimSpace v in
      if t = [] \<or> ToLower t \<in> set (map ToLower out) then out else out @ [t])"

definition pamLoginCandidates :: "string \<Rightarrow> string \<Rightarrow> string \<Rightarrow> string list" where
  "pamLoginCandidates explicitLogin storedLogin email =
     (let out = add_candidate email (add_candidate storedLogin (add_candidate explicitLogin [])) in
      case split2 (CHR ''@'') email of
        Some (local, _) \<Rightarrow> if local = [] then out else add_candidate local out
      | None \<Rightarrow> out)"

definition ListMailboxes :: "string \<Rightarrow> string \<Rightarrow> unit M" where
  "ListMailboxes login password =
     bindM (draw imap_login) (\<lambda>answer. case answer login password of
        None \<Rightarrow> ret () | Some msg \<Rightarrow> fail (MailErr msg))"

fun try_candidates :: "string \<Rightarrow> string list \<Rightarrow> string list \<Rightarrow> string M" where
  "try_candidates password all [] = fail (PAMCredentialsInvalid all)"
| "try_candidates password all (c # cs) =
     tryM (ListMailboxes c password) (\<lambda>r. case r of
        Inr _ \<Rightarrow> ret c
      | Inl e \<Rightarrow> if isMailConnectivityError e then fail e else try_candidates password all cs)"

definition verifyMailCredentials :: "string \<Rightarrow> string \<Rightarrow> string \<Rightarrow> string \<Rightarrow> string M" where
  "verifyMailCredentials email password explicitLogin storedLogin =
     (if TrimSpace email = [] \<or> TrimSpace password = [] then fail ErrInvalidCredentials
      else let candidates = pamLoginCandidates explicitLogin storedLogin email in
           if candidates = [] then fail ErrInvalidCredentials
           else try_candidates password candidates candidates)"

definition MailAuthLogin :: "User \<Rightarrow> string" where
  "MailAuthLogin u =
     (case u_MailLogin u of
        Some l \<Rightarrow> if TrimSpace l \<noteq> [] then TrimSpace l else TrimSpace (u_Email u)
      | None \<Rightarrow> TrimSpace (u_Email u))"

definition MailIdentity :: "User \<Rightarrow> string" where
  "MailIdentity u = (if TrimSpace (u_Email u) \<noteq> [] then TrimSpace (u_Email u) else MailAuthLogin u)"

section \<open>Secrets\<close>

definition lift_secret :: "secret_error + 'a \<Rightarrow> 'a M" where
  "lift_secret r = (case r of Inl e \<Rightarrow> fail (SecretErr e) | Inr x \<Rightarrow> ret x)"

definition auth_NewOpaqueToken :: "(string \<times> string) M" where
  "auth_NewOpaqueToken = bindM (askM sha256) (\<lambda>h. bindM (draw rand) (\<lambda>r. lift_secret (NewOpaqueToken h r)))"

definition auth_HashPassword :: "string \<Rightarrow> string M" where
  "auth_HashPassword pw = bindM (askM idkey) (\<lambda>k. bindM (draw rand) (\<lambda>r. lift_secret (HashPassword k r pw)))"

definition auth_VerifyPassword :: "string \<Rightarrow> string \<Rightarrow> bool M" where
  "auth_VerifyPassword encoded pw =
     bindM (askM idkey) (\<lambda>k. case VerifyPassword k encoded pw of None \<Rightarrow> fail Panic | Some b \<Rightarrow> ret b)"

definition encryptKey :: "Svc \<Rightarrow> string" where
  "encryptKey sv = Derive32ByteKey (sha256 sv) (SessionEncryptKey (cfg sv))"

definition util_EncryptString :: "string \<Rightarrow> string M" where
  "util_EncryptString plain =
     bindM (askM (\<lambda>sv. (aes_gcm sv, encryptKey sv))) (\<lambda>(ae, key).
     bindM (draw rand) (\<lambda>r. lift_secret (EncryptString ae r key plain)))"

definition hashUA :: "string \<Rightarrow> string M" where "hashUA ua = askM (\<lambda>sv. hex_sha256 (sha256 sv) ua)"

definition SessionMailPassword :: "Session \<Rightarrow> string M" where
  "SessionMailPassword sess =
     (if TrimSpace (s_MailSecret sess) = [] then fail (ErrMsg ''missing mail credentials'')
      else bindM (askM (\<lambda>sv. DecryptString (aes_gcm sv) (encryptKey sv) (s_MailSecret sess)))
             (\<lambda>r. case r of Inl _ \<Rightarrow> fail ErrInvalidCredentials | Inr p \<Rightarrow> ret p))"

section \<open>Provisioner\<close>

definition provision_UpsertActiveUser :: "string \<Rightarrow> string \<Rightarrow> unit M" where
  "provision_UpsertActiveUser email hash =
     bindM (draw provision_upsert) (\<lambda>a. case a of
        Some msg \<Rightarrow> fail (ProvisionErr msg) | None \<Rightarrow> note_effect (UpsertActiveUser email hash))"

definition provision_DisableUser :: "string \<Rightarrow> unit M" where
  "provision_DisableUser email =
     bindM (draw provision_disable) (\<lambda>a. case a of
        Some msg \<Rightarrow> fail (ProvisionErr msg) | None \<Rightarrow> note_effect (DisableUser email))"

section \<open>Stored settings\<close>

definition InstanceMode :: "string M" where
  "InstanceMode = bindM (GetSetting ''instance.mode'') (\<lambda>r. case r of
     Some raw \<Rightarrow> ret (NormalizeInstanceMode raw) | None \<Rightarrow> ret InstanceModeLocalStack)"

definition baseDomain :: "string M" where
  "baseDomain = bindM (GetSetting ''base_domain'') (\<lambda>r.
     bindM (askM (\<lambda>sv. normalizeDomain (BaseDomain (cfg sv)))) (\<lambda>fallback.
       let stored = (case r of None \<Rightarrow> [] | Some v \<Rightarrow> normalizeDomain v) in
       ret (if stored \<noteq> [] then stored else if fallback = [] then ''example.com'' else fallback)))"

fun map_index :: "nat \<Rightarrow> (nat \<Rightarrow> 'a \<Rightarrow> 'b) \<Rightarrow> 'a list \<Rightarrow> 'b list" where
  "map_index i f [] = []"
| "map_index i f (x # xs) = f i x # map_index (Suc i) f xs"

definition normalizePreferenceLocaleTag :: "string \<Rightarrow> string" where
  "normalizePreferenceLocaleTag raw =
     (let v = TrimSpace (map (\<lambda>c. if c = CHR ''_'' then CHR ''-'' else c) raw) in
      if v = [] then []
      else Join (map_index 0 (\<lambda>i part0. let part = TrimSpace part0 in
                   if part = [] then part0
                   else if i = 0 then ToLower part
                   else if length part = 2 then ToUpper part
                   else ToLower part) (Split (CHR ''-'') v)) ''-'')"

definition normalizePreferenceTimezone :: "(string \<Rightarrow> string option) \<Rightarrow> string \<Rightarrow> string" where
  "normalizePreferenceTimezone load raw =
     (let v = TrimSpace raw in if v = [] then [] else case load v of None \<Rightarrow> [] | Some l \<Rightarrow> l)"

definition stored_or_empty :: "string \<Rightarrow> (Svc \<Rightarrow> string \<Rightarrow> string) \<Rightarrow> string M" where
  "stored_or_empty key norm =
     tryM (GetSetting key) (\<lambda>r. case r of
        Inr (Some raw) \<Rightarrow> askM (\<lambda>sv. norm sv raw)
      | _ \<Rightarrow> ret [])"

definition StoredDefaultFormatLocale :: "string M" where
  "StoredDefaultFormatLocale = stored_or_empty ''ui.default_format_locale'' (\<lambda>_. normalizePreferenceLocaleTag)"

definition StoredDefaultTimezone :: "string M" where
  "StoredDefaultTimezone = stored_or_empty ''ui.default_timezone'' (\<lambda>sv. normalizePreferenceTimezone (LoadLocation sv))"

definition DefaultFormatLocale :: "string M" where "DefaultFormatLocale = StoredDefaultFormatLocale"

definition DefaultTimezone :: "string M" where
  "DefaultTimezone = bindM StoredDefaultTimezone (\<lambda>z. ret (if z = [] then ''UTC'' else z))"

section \<open>Mail accounts of authenticated users\<close>

definition mailLoginMatchesAny :: "string \<Rightarrow> string list \<Rightarrow> bool" where
  "mailLoginMatchesAny login0 candidates =
     (let login = TrimSpace login0 in
      login \<noteq> [] \<and> list_ex (\<lambda>c. EqualFold login (TrimSpace c)) candidates)"

definition new_account :: "Config \<Rightarrow> string \<Rightarrow> string \<Rightarrow> string \<Rightarrow> string \<Rightarrow> bool \<Rightarrow> MailAccount" where
  "new_account c newID userID login secretEnc isDefault = \<lparr>
     ma_ID = newID, ma_UserID = userID, ma_DisplayName = [], ma_Login = login, ma_SecretEnc = secretEnc,
     ma_IMAPHost = IMAPHost c, ma_IMAPPort = IMAPPort c, ma_IMAPTLS = IMAPTLS c, ma_IMAPStartTLS = IMAPStartTLS c,
     ma_SMTPHost = SMTPHost c, ma_SMTPPort = SMTPPort c, ma_SMTPTLS = SMTPTLS c, ma_SMTPStartTLS = SMTPStartTLS c,
     ma_IsDefault = isDefault, ma_Status = ''active'', ma_LastSyncAt = None, ma_LastError = [],
     ma_ProviderType = MailProviderTypeGeneric,
     ma_ProviderLabel = mp_Label (MailProviderByID MailProviderTypeGeneric),
     ma_AuthKind = MailAccountAuthKindPassword, ma_ConnectionMode = MailConnectionModeIMAPSMTP,
     ma_ValidationIMAPReady = False, ma_ValidationSMTPReady = False,
     ma_ValidationAppPasswordRequired = False, ma_ValidationError = [], ma_LastValidatedAt = None,
     ma_CreatedAt = 0, ma_UpdatedAt = 0\<rparr>"

definition EnsureAuthenticatedMailAccount :: "User \<Rightarrow> unit M" where
  "EnsureAuthenticatedMailAccount u =
     bindM InstanceMode (\<lambda>mode.
     if \<not> InstanceModeUsesLocalMail mode then ret ()
     else let login = TrimSpace (MailAuthLogin u) in
     if login = [] then ret ()
     else tryM (GetUserMailSecret (u_ID u)) (\<lambda>r. case r of
       Inl e \<Rightarrow> if e = ErrNotFound then ret () else fail e
     | Inr None \<Rightarrow> ret ()
     | Inr (Some secretEnc) \<Rightarrow>
         bindM (askM (\<lambda>sv. (usesPAMAuth sv, cfg sv))) (\<lambda>(pam, c).
         let candidates = (if pam then pamLoginCandidates [] login (u_Email u) else [login]) in
         bindM (ListMailAccounts (u_ID u)) (\<lambda>accounts.
         let hasDefault = list_ex ma_IsDefault accounts in
         case find (\<lambda>a. mailLoginMatchesAny (ma_Login a) candidates) accounts of
           Some account \<Rightarrow>
             (let stale = (TrimSpace (ma_SecretEnc account) \<noteq> TrimSpace secretEnc);
                  a1 = (if stale then account\<lparr>ma_SecretEnc := secretEnc, ma_Status := ''active'', ma_LastError := []\<rparr>
                        else account);
                  promote = (\<not> ma_IsDefault a1 \<and> \<not> hasDefault);
                  a2 = (if promote then a1\<lparr>ma_IsDefault := True\<rparr> else a1)
              in if stale \<or> promote then thenM (UpdateMailAccount a2) (ret ()) else ret ())
         | None \<Rightarrow>
             bindM uuid_NewString (\<lambda>newID.
             thenM (CreateMailAccount (new_account c newID (u_ID u) login secretEnc (\<not> hasDefault)))
                   (ret ()))))))"

section \<open>The contract\<close>

context db_contract
begin

lemma lift_secret_guar [guar_intros]: "(\<And>x. r = Inr x \<Longrightarrow> Q x) \<Longrightarrow> G (lift_secret r) Q"
  by (cases r) (simp_all add: lift_secret_def guar_fail guar_ret)

lemma token_guar: "G auth_NewOpaqueToken (\<lambda>(raw, hash). okHash hash)"
proof (rule guarI)
  fix sv w
  show "R (w_db w) (w_db (snd (auth_NewOpaqueToken sv w)))"
    by (simp add: auth_NewOpaqueToken_def bindM_run askM_def draw_def lift_secret_def NewOpaqueToken_def
        fail_def ret_def R_refl split: option.split)
next
  fix sv w x
  assume "rely R okId okHash sv" "fst (auth_NewOpaqueToken sv w) = Inr x"
  then show "case x of (raw, hash) \<Rightarrow> okHash hash"
    by (auto simp: auth_NewOpaqueToken_def bindM_run askM_def draw_def lift_secret_def NewOpaqueToken_def
        fail_def ret_def rely_def split: option.splits)
qed

lemma guar_bind_token:
  "(\<And>raw hash. okHash hash \<Longrightarrow> G (k (raw, hash)) Q) \<Longrightarrow> G (bindM auth_NewOpaqueToken k) Q"
  by (rule guar_bind [OF token_guar]) auto

lemma draw_guar [guar_intros]:
  "G (draw imap_login) (\<lambda>_. True)" "G (draw provision_upsert) (\<lambda>_. True)"
  "G (draw provision_disable) (\<lambda>_. True)" "G (draw rand) (\<lambda>_. True)"
  "G (draw send_mail) (\<lambda>_. True)" "G (draw pam_reset) (\<lambda>_. True)"
  by (simp_all add: guar_draw)

lemma secrets_guar [guar_intros]:
  "G (auth_HashPassword pw) (\<lambda>_. True)" "G (auth_VerifyPassword h pw) (\<lambda>_. True)"
  "G (util_EncryptString pw) (\<lambda>_. True)" "G (hashUA ua) (\<lambda>_. True)" "G (SessionMailPassword s) (\<lambda>_. True)"
  unfolding auth_HashPassword_def auth_VerifyPassword_def util_EncryptString_def hashUA_def
    SessionMailPassword_def
  by (rule guar_intros TrueI)+

lemma ValidatePassword_guar [guar_intros]: "G (ValidatePassword pw) (\<lambda>_. True)"
  unfolding ValidatePassword_def Let_def by (rule guar_intros TrueI)+

lemma provision_guar [guar_intros]:
  "G (provision_UpsertActiveUser e h) (\<lambda>_. True)" "G (provision_DisableUser e) (\<lambda>_. True)"
  "G (ListMailboxes l p) (\<lambda>_. True)"
  unfolding provision_UpsertActiveUser_def provision_DisableUser_def ListMailboxes_def
  by (rule guar_intros TrueI)+

lemma try_candidates_guar: "G (try_candidates p all cs) (\<lambda>_. True)"
proof (induction cs)
  case (Cons c cs)
  show ?case unfolding try_candidates.simps
    by (rule guar_try [OF provision_guar(3)]) (simp_all add: guar_fail guar_ret Cons.IH)
qed (simp add: guar_fail)

lemma verifyMailCredentials_guar [guar_intros]: "G (verifyMailCredentials e p x s) (\<lambda>_. True)"
  unfolding verifyMailCredentials_def Let_def by (rule guar_intros try_candidates_guar)+

lemma stored_guar [guar_intros]:
  "G InstanceMode (\<lambda>_. True)" "G baseDomain (\<lambda>_. True)" "G (stored_or_empty k f) (\<lambda>_. True)"
  unfolding InstanceMode_def baseDomain_def stored_or_empty_def Let_def
  by (rule guar_intros TrueI)+

lemma defaults_guar [guar_intros]:
  "G StoredDefaultFormatLocale (\<lambda>_. True)" "G StoredDefaultTimezone (\<lambda>_. True)"
  "G DefaultFormatLocale (\<lambda>_. True)" "G DefaultTimezone (\<lambda>_. True)"
  unfolding StoredDefaultFormatLocale_def StoredDefaultTimezone_def DefaultFormatLocale_def DefaultTimezone_def
  by (rule guar_intros TrueI)+

lemma EnsureAuthenticatedMailAccount_guar [guar_intros]:
  "G (EnsureAuthenticatedMailAccount u) (\<lambda>_. True)"
  unfolding EnsureAuthenticatedMailAccount_def Let_def
  by (rule guar_intros TrueI)+

end

end
