(* ===== verification/AuthService.thy ===== *)
theory AuthService
  imports ServiceBase
begin

text \<open>
  \<^verbatim>\<open>internal/service/service.go\<close>: login, passkey sessions, unlocking the mail secret, validation and
  revocation of sessions.
\<close>

section \<open>Operations\<close>

definition insertAuditBestEffort :: "string \<Rightarrow> string \<Rightarrow> string \<Rightarrow> string \<Rightarrow> unit M" where
  "insertAuditBestEffort actorID action target metadata =
     ignoreM (InsertAudit actorID action target metadata) (ret ())"

text \<open>The credential check shared by \<^verbatim>\<open>Login\<close> and \<^verbatim>\<open>UnlockSessionMailSecret\<close>: against the IMAP server in
  PAM mode, where it also records the login name that worked, against the stored hash otherwise.
  It returns the user, with the new mail login.\<close>

definition check_credentials :: "User \<Rightarrow> string \<Rightarrow> User M" where
  "check_credentials u password =
     bindM (askM usesPAMAuth) (\<lambda>pam.
     if pam then
       let stored = opt_str (u_MailLogin u) in
       tryM (verifyMailCredentials (u_Email u) password [] stored) (\<lambda>r. case r of
         Inl e \<Rightarrow> if isMailConnectivityError e then fail ErrPAMVerifierDown else fail ErrInvalidCredentials
       | Inr acceptedLogin \<Rightarrow>
           let accepted = TrimSpace acceptedLogin in
           if accepted \<noteq> TrimSpace stored
           then thenM (UpdateUserMailLogin (u_ID u) acceptedLogin)
                  (ret (if accepted \<noteq> [] then u\<lparr>u_MailLogin := Some accepted\<rparr> else u))
           else ret u)
     else
       bindM (auth_VerifyPassword (u_PasswordHash u) password)
         (\<lambda>ok. if ok then ret u else fail ErrInvalidCredentials))"

definition status_gate :: "User \<Rightarrow> unit M" where
  "status_gate u =
     (if u_Status u = UserPending then fail ErrPendingApproval
      else if u_Status u = UserSuspended then fail ErrSuspended
      else if u_Status u = UserRejected then fail ErrForbidden
      else if u_Status u \<noteq> UserActive \<and> u_Role u \<noteq> ''admin'' then fail ErrForbidden
      else ret ())"

definition SessionIdleDuration :: "Config \<Rightarrow> duration" where
  "SessionIdleDuration c = SessionIdleMinutes c * time_Minute"

definition SessionAbsoluteDuration :: "Config \<Rightarrow> duration" where
  "SessionAbsoluteDuration c = SessionAbsoluteHour c * time_Hour"

definition new_session ::
  "Config \<Rightarrow> string \<Rightarrow> string \<Rightarrow> string \<Rightarrow> string \<Rightarrow> string \<Rightarrow> string \<Rightarrow> string \<Rightarrow> gotime option \<Rightarrow> gotime \<Rightarrow> Session" where
  "new_session c newID userID tokenHash mailSecret ip uaHash authMethod mfaAt now = \<lparr>
     s_ID = newID, s_UserID = userID, s_TokenHash = tokenHash, s_MailSecret = mailSecret, s_IPHint = ip,
     s_UserAgentHash = uaHash, s_AuthMethod = authMethod, s_MFAVerifiedAt = mfaAt,
     s_ActiveAccountID = None, s_ExpiresAt = now + SessionAbsoluteDuration c,
     s_IdleExpiresAt = now + SessionIdleDuration c, s_CreatedAt = now, s_LastSeenAt = now,
     s_RevokedAt = None\<rparr>"

definition Login :: "string \<Rightarrow> string \<Rightarrow> string \<Rightarrow> string \<Rightarrow> (string \<times> User) M" where
  "Login email password ip userAgent =
     bindM (mapErr (\<lambda>_. ErrInvalidCredentials) (GetUserByEmail (lower_trim email))) (\<lambda>u0.
     bindM (check_credentials u0 password) (\<lambda>u.
     thenM (status_gate u)
     (bindM auth_NewOpaqueToken (\<lambda>(raw, tokenHash).
     bindM (util_EncryptString password) (\<lambda>mailSecret.
     thenM (UpsertUserMailSecret (u_ID u) mailSecret)
     (bindM (askM (\<lambda>sv. (usesPAMAuth sv, cfg sv))) (\<lambda>(pam, c).
     ignoreM (whenM pam (EnsureAuthenticatedMailAccount u))
     (bindM time_Now (\<lambda>now.
     bindM (ResolveMFAStage u None) (\<lambda>stage.
     bindM uuid_NewString (\<lambda>newID.
     bindM (hashUA userAgent) (\<lambda>uaHash.
     thenM (CreateSession (new_session c newID (u_ID u) tokenHash mailSecret ip uaHash ''password''
              (if AuthStage stage = AuthStageAuthenticated then Some now else None) now))
     (ignoreM (TouchUserLastLogin (u_ID u) now)
     (ret (raw, u)))))))))))))))"

definition CreatePasskeySession :: "User \<Rightarrow> string \<Rightarrow> string \<Rightarrow> string \<Rightarrow> (string \<times> Session) M" where
  "CreatePasskeySession user ip userAgent mailSecret =
     (if u_Status user \<noteq> UserActive \<and> u_Role user \<noteq> ''admin'' then fail ErrForbidden
      else
        bindM auth_NewOpaqueToken (\<lambda>(raw, tokenHash).
        bindM time_Now (\<lambda>now.
        bindM uuid_NewString (\<lambda>newID.
        bindM (hashUA userAgent) (\<lambda>uaHash.
        bindM (askM cfg) (\<lambda>c.
          let sess = new_session c newID (u_ID user) tokenHash (TrimSpace mailSecret) ip uaHash ''passkey''
                       (Some now) now in
          thenM (CreateSession sess)
          (ignoreM (TouchUserLastLogin (u_ID user) now)
          (ret (raw, sess)))))))))"

definition UnlockSessionMailSecret :: "string \<Rightarrow> string \<Rightarrow> string \<Rightarrow> unit M" where
  "UnlockSessionMailSecret userID sessionID password0 =
     (let password = TrimSpace password0 in
      if password = [] then fail ErrInvalidCredentials
      else
        bindM (mapErr (\<lambda>_. ErrInvalidCredentials) (GetUserByID userID)) (\<lambda>u0.
        bindM (check_credentials u0 password) (\<lambda>u.
        bindM (util_EncryptString password) (\<lambda>mailSecret.
        thenM (UpsertUserMailSecret (u_ID u) mailSecret)
        (thenM (UpdateSessionMailSecret sessionID mailSecret)
        (bindM (askM usesPAMAuth) (\<lambda>pam.
        ignoreM (whenM pam (EnsureAuthenticatedMailAccount u))
        (bindM (askM (\<lambda>sv. json_Marshal sv
            [(''session_id'', JStr sessionID), (''mode'', JStr (lower_trim (DovecotAuthMode (cfg sv))))]))
        (\<lambda>meta. insertAuditBestEffort (u_ID u) ''auth.mail_secret.unlock'' (u_ID u) meta)))))))))"

definition session_expired :: "Session \<Rightarrow> gotime \<Rightarrow> bool" where
  "session_expired sess now \<longleftrightarrow>
     s_RevokedAt sess \<noteq> None \<or> now > s_ExpiresAt sess \<or> now > s_IdleExpiresAt sess"

definition ValidateSession :: "string \<Rightarrow> (User \<times> Session) M" where
  "ValidateSession rawToken =
     bindM (askM (\<lambda>sv. (hex_sha256 (sha256 sv) rawToken, cfg sv))) (\<lambda>(hash, c).
     bindM (mapErr (\<lambda>_. ErrInvalidCredentials) (GetSessionByTokenHash hash)) (\<lambda>sess.
     bindM time_Now (\<lambda>now.
       if session_expired sess now then fail ErrInvalidCredentials
       else
         ignoreM (TouchSession (s_ID sess) (now + SessionIdleDuration c))
         (bindM (mapErr (\<lambda>_. ErrInvalidCredentials) (GetUserByID (s_UserID sess))) (\<lambda>u.
            if u_Status u \<noteq> UserActive \<and> u_Role u \<noteq> ''admin'' then fail ErrForbidden
            else ret (u, sess))))))"

definition Logout :: "string \<Rightarrow> unit M" where
  "Logout rawToken =
     bindM (askM (\<lambda>sv. hex_sha256 (sha256 sv) rawToken)) (\<lambda>hash.
     tryM (GetSessionByTokenHash hash) (\<lambda>r. case r of
        Inl _ \<Rightarrow> ret ()
      | Inr sess \<Rightarrow> RevokeSession (s_ID sess)))"

section \<open>The contract\<close>

context db_contract
begin

lemma auth_helpers_guar [guar_intros]:
  "G (insertAuditBestEffort a b c d) (\<lambda>_. True)"
  "G (check_credentials u pw) (\<lambda>_. True)"
  "G (status_gate u) (\<lambda>_. True)"
  unfolding insertAuditBestEffort_def check_credentials_def status_gate_def Let_def
  by (rule guar_intros TrueI)+

lemma Login_guar [guar_intros]: "G (Login e p ip ua) (\<lambda>_. True)"
  unfolding Login_def
  by (rule guar_bind_token guar_bind [OF guar_uuid] guar_intros TrueI | simp add: new_session_def)+

lemma CreatePasskeySession_guar [guar_intros]: "G (CreatePasskeySession u ip ua m) (\<lambda>_. True)"
  unfolding CreatePasskeySession_def Let_def
  by (rule guar_bind_token guar_bind [OF guar_uuid] guar_intros TrueI | simp add: new_session_def)+

lemma session_services_guar [guar_intros]:
  "G (UnlockSessionMailSecret u s p) (\<lambda>_. True)"
  "G (ValidateSession raw) (\<lambda>_. True)"
  "G (Logout raw) (\<lambda>_. True)"
  unfolding UnlockSessionMailSecret_def ValidateSession_def Logout_def Let_def
  by (rule guar_intros TrueI)+

end

end
