(* ===== verification/AccountService.thy ===== *)
theory AccountService
  imports AuthService
begin

text \<open>
  \<^verbatim>\<open>internal/service/service.go\<close>: registration and its approval or rejection, suspension, accounts
  created by an administrator, first-run setup.
\<close>

section \<open>Setup status\<close>

record SetupStatus =
  ss_Required :: bool
  ss_BaseDomain :: string
  ss_DefaultAdminEmail :: string
  ss_DefaultAdminIdentifier :: string
  ss_DefaultFormatLocale :: string
  ss_DefaultTimezone :: string
  ss_AuthMode :: string
  ss_InstanceMode :: string
  ss_AvailableInstanceModes :: "string list"
  ss_BaseDomainRequired :: bool
  ss_AdminIdentifierKind :: string
  ss_AdminIdentifierLabel :: string
  ss_LoginIdentifierLabel :: string
  ss_RegistrationAllowed :: bool
  ss_PasswordMinLength :: int
  ss_PasswordMaxLength :: int
  ss_PasswordClassMin :: int
  ss_PasskeyPrimarySignInEnabled :: bool
  ss_AutomaticUpdatesEnabled :: bool

text \<open>The passkey flag, or the configured default when it cannot be read.\<close>

definition passkey_primary :: "bool M" where
  "passkey_primary =
     tryM PasskeySignInEnabled (\<lambda>r. case r of
        Inl _ \<Rightarrow> askM (\<lambda>sv. PasskeyPasswordlessEnabled (cfg sv))
      | Inr b \<Rightarrow> ret b)"

definition GetSetupStatus :: "SetupStatus M" where
  "GetSetupStatus =
     bindM InstanceMode (\<lambda>mode.
     bindM baseDomain (\<lambda>domain.
     bindM CountAdmins (\<lambda>adminCount.
     bindM passkey_primary (\<lambda>passkey.
     bindM StoredDefaultFormatLocale (\<lambda>locale_tag.
     bindM StoredDefaultTimezone (\<lambda>timezone.
     bindM (askM cfg) (\<lambda>c.
       ret \<lparr>ss_Required = (adminCount = 0), ss_BaseDomain = domain,
            ss_DefaultAdminEmail = defaultAdminIdentifier mode domain,
            ss_DefaultAdminIdentifier = defaultAdminIdentifier mode domain,
            ss_DefaultFormatLocale = locale_tag, ss_DefaultTimezone = timezone,
            ss_AuthMode = DovecotAuthMode c, ss_InstanceMode = mode,
            ss_AvailableInstanceModes = [InstanceModeLocalStack, InstanceModeExternalAccounts, InstanceModeHybrid],
            ss_BaseDomainRequired = InstanceModeUsesLocalMail mode,
            ss_AdminIdentifierKind = instanceModeAdminIdentifierKind mode,
            ss_AdminIdentifierLabel = instanceModeAdminIdentifierLabel mode,
            ss_LoginIdentifierLabel = instanceModeLoginIdentifierLabel mode,
            ss_RegistrationAllowed = (NormalizeInstanceMode mode \<noteq> InstanceModeExternalAccounts),
            ss_PasswordMinLength = PasswordMinLength c, ss_PasswordMaxLength = PasswordMaxLength c,
            ss_PasswordClassMin = 3, ss_PasskeyPrimarySignInEnabled = passkey,
            ss_AutomaticUpdatesEnabled = False\<rparr>)))))))"

section \<open>Registration\<close>

definition Register ::
  "string \<Rightarrow> string \<Rightarrow> string \<Rightarrow> string \<Rightarrow> string \<Rightarrow> bool \<Rightarrow> string \<Rightarrow> unit M" where
  "Register email0 password recoveryEmail ip userAgent captchaOK mfaPreference =
     bindM GetSetupStatus (\<lambda>status.
     if ss_Required status then fail (ErrMsg ''setup is not complete'')
     else let email = lower_trim email0 in
     if email = [] \<or> password = [] then fail (ErrMsg ''email and password are required'')
     else
       thenM (ValidatePassword password)
       (if \<not> HasSuffix email (''@'' @ ss_BaseDomain status)
        then fail (ErrMsg (''email must use @'' @ ss_BaseDomain status))
        else
          bindM (askM ParseAddress) (\<lambda>parse.
          bindM (liftE (normalizeDistinctRecoveryEmail parse email recoveryEmail)) (\<lambda>recovery.
          bindM (auth_HashPassword password) (\<lambda>hash.
          let preference = NormalizeMFAPreference mfaPreference in
          thenM (CreateUserWithMFARecovery email hash ''user'' UserPending preference recovery)
          (bindM (hashUA userAgent) (\<lambda>uaHash.
          thenM (CreateRegistrationWithMFA email ip uaHash captchaOK preference) (ret ()))))))))"

text \<open>Provisioning with its outcome recorded on the user; used by approval, unsuspension and retry.\<close>

definition provision_recorded :: "User \<Rightarrow> unit M" where
  "provision_recorded u =
     tryM (provision_UpsertActiveUser (u_Email u) (u_PasswordHash u)) (\<lambda>r. case r of
        Inl e \<Rightarrow> ignoreM (UpdateProvisionState (u_ID u) ''error'' (Some (Error e))) (fail e)
      | Inr _ \<Rightarrow> ignoreM (UpdateProvisionState (u_ID u) ''ok'' None) (ret ()))"

definition ApproveRegistration :: "string \<Rightarrow> string \<Rightarrow> unit M" where
  "ApproveRegistration adminID regID =
     bindM (GetRegistrationByID regID) (\<lambda>r.
     if r_Status r \<noteq> ''pending'' then fail ErrConflict
     else
       bindM (GetUserByEmail (r_Email r)) (\<lambda>u.
       thenM (provision_recorded u)
       (thenM (SetRegistrationDecision regID ''approved'' adminID [])
       (thenM (UpdateUserStatus (u_ID u) UserActive (Some adminID))
       (bindM (askM (\<lambda>sv. json_Marshal sv
          [(''registration_id'', JStr regID), (''user_id'', JStr (u_ID u))])) (\<lambda>meta.
        InsertAudit adminID ''registration.approve'' (u_ID u) meta))))))"

definition RejectRegistration :: "string \<Rightarrow> string \<Rightarrow> string \<Rightarrow> unit M" where
  "RejectRegistration adminID regID reason =
     bindM (RejectRegistrationAndDeletePendingUser regID adminID reason) (\<lambda>userID.
     let target = (if TrimSpace userID = [] then regID else userID) in
     bindM (askM (\<lambda>sv. json_Marshal sv
        [(''registration_id'', JStr regID), (''user_id'', JStr userID), (''reason'', JStr reason)])) (\<lambda>meta.
     insertAuditBestEffort adminID ''registration.reject'' target meta))"

definition SuspendUser :: "string \<Rightarrow> string \<Rightarrow> unit M" where
  "SuspendUser adminID userID =
     bindM (GetUserByID userID) (\<lambda>u.
     thenM (provision_DisableUser (u_Email u))
     (thenM (UpdateUserStatus userID UserSuspended None)
     (thenM (RevokeUserSessions userID)
     (InsertAudit adminID ''user.suspend'' userID ''{}''))))"

definition UnsuspendUser :: "string \<Rightarrow> string \<Rightarrow> unit M" where
  "UnsuspendUser adminID userID =
     bindM (GetUserByID userID) (\<lambda>u.
     thenM (provision_recorded u)
     (thenM (UpdateUserStatus userID UserActive (Some adminID))
     (InsertAudit adminID ''user.unsuspend'' userID ''{}'')))"

definition RetryProvisionUser :: "string \<Rightarrow> string \<Rightarrow> unit M" where
  "RetryProvisionUser adminID userID =
     bindM (GetUserByID userID) (\<lambda>u.
     thenM (provision_recorded u)
     (bindM (askM (\<lambda>sv. json_Marshal sv [(''user_id'', JStr userID)])) (\<lambda>meta.
     InsertAudit adminID ''user.retry_provision'' userID meta)))"

section \<open>Accounts created by an administrator\<close>

record AdminCreateUserRequest =
  acr_Email :: string
  acr_RecoveryEmail :: string
  acr_MailboxLogin :: string
  acr_Password :: string

text \<open>The check of a mailbox password where PAM decides, its own errors passed on.\<close>

definition verify_mailbox :: "string \<Rightarrow> string \<Rightarrow> string \<Rightarrow> string M" where
  "verify_mailbox email password explicitLogin =
     tryM (verifyMailCredentials email password explicitLogin []) (\<lambda>r. case r of
        Inl e \<Rightarrow> if isMailConnectivityError e then fail ErrPAMVerifierDown else fail e
      | Inr l \<Rightarrow> ret l)"

definition AdminCreateUser :: "string \<Rightarrow> AdminCreateUserRequest \<Rightarrow> User M" where
  "AdminCreateUser adminID req =
     bindM baseDomain (\<lambda>domain.
     let email0 = lower_trim (acr_Email req) in
     if email0 = [] then fail (ErrMsg ''email is required'')
     else bindM (askM ParseAddress) (\<lambda>parse.
     case parse email0 of
       None \<Rightarrow> fail (ErrMsg ''invalid email'')
     | Some addr \<Rightarrow>
     let email = lower_trim addr in
     if \<not> HasSuffix email (''@'' @ domain) then fail (ErrMsg (''email must use @'' @ domain))
     else tryM (GetUserByEmail email) (\<lambda>existing. case existing of
       Inr _ \<Rightarrow> fail ErrConflict
     | Inl e \<Rightarrow>
     if e \<noteq> ErrNotFound then fail e
     else let password = TrimSpace (acr_Password req) in
     if password = [] then fail (ErrMsg ''password is required'')
     else bindM (liftE (normalizeDistinctRecoveryEmailOptional parse email (acr_RecoveryEmail req))) (\<lambda>recoveryEmail.
     bindM (askM usesPAMAuth) (\<lambda>pam.
     bindM (if pam then verify_mailbox email password (acr_MailboxLogin req)
            else thenM (ValidatePassword password) (ret [])) (\<lambda>acceptedLogin.
     bindM (auth_HashPassword password) (\<lambda>passwordHash.
     thenM (whenM (\<not> pam) (provision_UpsertActiveUser email passwordHash))
     (bindM (CreateUserWithMFARecovery email passwordHash ''user'' UserActive MFAPreferenceNone recoveryEmail) (\<lambda>user0.
     thenM (UpdateUserStatus (u_ID user0) UserActive (Some adminID))
     (thenM (UpdateProvisionState (u_ID user0) ''ok'' None)
     (let login = TrimSpace acceptedLogin;
          user = (if login \<noteq> [] then user0\<lparr>u_MailLogin := Some login\<rparr> else user0) in
     thenM (whenM (login \<noteq> []) (UpdateUserMailLogin (u_ID user) login))
     (ignoreM (bindM (util_EncryptString password) (\<lambda>mailSecret. UpsertUserMailSecret (u_ID user) mailSecret))
     (ignoreM (whenM pam (EnsureAuthenticatedMailAccount user))
     (bindM (GetUserByID (u_ID user)) (\<lambda>created.
     bindM (askM (\<lambda>sv. json_Marshal sv
        [(''user_id'', JStr (u_ID created)), (''email'', JStr (u_Email created)),
         (''auth_mode'', JStr (lower_trim (DovecotAuthMode (cfg sv)))),
         (''mail_login'', JStr (TrimSpace acceptedLogin))])) (\<lambda>meta.
     thenM (insertAuditBestEffort adminID ''user.create'' (u_ID created) meta)
     (ret created)))))))))))))))))"

section \<open>Setup\<close>

record SetupCompleteRequest =
  scr_BaseDomain :: string
  scr_AdminEmail :: string
  scr_AdminRecoveryEmail :: string
  scr_AdminMailboxLogin :: string
  scr_AdminPassword :: string
  scr_DefaultFormatLocale :: string
  scr_DefaultTimezone :: string
  scr_InstanceMode :: string
  scr_PasskeyPrimarySignInEnabled :: "bool option"

text \<open>The identifier of the first administrator: an address of the domain, or a user name in a mode
  without local mail.\<close>

definition setup_identifier :: "(string \<Rightarrow> string option) \<Rightarrow> string \<Rightarrow> string \<Rightarrow> string \<Rightarrow> err + string" where
  "setup_identifier parse mode domain raw =
     (let i0 = TrimSpace raw in
      if InstanceModeUsesLocalMail mode
      then case parse (if i0 = [] then defaultAdminEmail domain else i0) of
             None \<Rightarrow> Inl (ErrMsg ''invalid admin email'')
           | Some a \<Rightarrow> (let i = lower_trim a in
               if HasSuffix i (''@'' @ domain) then Inr i
               else Inl (ErrMsg (''admin email must use @'' @ domain)))
      else normalizeExternalAdminIdentifier i0)"

definition setup_settings :: "string \<Rightarrow> string \<Rightarrow> string \<Rightarrow> (string \<times> string) list" where
  "setup_settings mode domain adminIdentifier =
     [(''instance.mode'', mode),
      (''instance.cap.local_mail'', boolToFeatureFlagSetting (InstanceModeUsesLocalMail mode)),
      (''instance.cap.external_mail'', boolToFeatureFlagSetting (InstanceModeUsesExternalMail mode)),
      (''instance.cap.server_admin'', boolToFeatureFlagSetting (InstanceModeUsesLocalMail mode)),
      (''base_domain'', domain),
      (''primary_admin_email'', adminIdentifier),
      (''primary_admin_identifier'', adminIdentifier)]"

definition UpsertSettings :: "(string \<times> string) list \<Rightarrow> unit M" where
  "UpsertSettings kvs = seqM (map (\<lambda>(k, v). UpsertSetting k v) kvs)"

text \<open>The part of \<^verbatim>\<open>CompleteSetup\<close> that checks the request; it yields the mode, the domain, the
  identifier, the recovery address, the locale, the time zone and the mailbox login that worked.\<close>

definition setup_checks ::
  "SetupCompleteRequest \<Rightarrow> (string \<times> string \<times> string \<times> string \<times> string \<times> string \<times> string) M" where
  "setup_checks req =
     bindM (askM (\<lambda>sv. (cfg sv, ParseAddress sv, LoadLocation sv, usesPAMAuth sv))) (\<lambda>(c, parse, load, pam).
     let mode = NormalizeInstanceMode (scr_InstanceMode req);
         d0 = normalizeDomain (scr_BaseDomain req);
         domain = (if d0 = [] then normalizeDomain (BaseDomain c) else d0) in
     if InstanceModeUsesLocalMail mode \<and> \<not> domainRx domain then fail (ErrMsg ''invalid domain name'')
     else bindM (liftE (setup_identifier parse mode domain (scr_AdminEmail req))) (\<lambda>i.
     bindM (liftE (if NormalizeInstanceMode mode = InstanceModeExternalAccounts
                   then normalizeDistinctRecoveryEmailOptional parse i (scr_AdminRecoveryEmail req)
                   else normalizeDistinctRecoveryEmail parse i (scr_AdminRecoveryEmail req))) (\<lambda>recovery.
     let loc = normalizePreferenceLocaleTag (scr_DefaultFormatLocale req);
         tz = normalizePreferenceTimezone load (scr_DefaultTimezone req) in
     if TrimSpace (scr_DefaultFormatLocale req) \<noteq> [] \<and> loc = [] then fail (ErrMsg ''invalid format locale'')
     else if TrimSpace (scr_DefaultTimezone req) \<noteq> [] \<and> tz = [] then fail (ErrMsg ''invalid timezone'')
     else if pam \<and> InstanceModeUsesLocalMail mode
     then if TrimSpace (scr_AdminPassword req) = [] then fail (ErrMsg ''admin password is required'')
          else bindM (verify_mailbox i (scr_AdminPassword req) (scr_AdminMailboxLogin req))
                 (\<lambda>l. ret (mode, domain, i, recovery, loc, tz, l))
     else thenM (ValidatePassword (scr_AdminPassword req))
            (ret (mode, domain, i, recovery, loc, tz, [])))))"

definition CompleteSetup :: "SetupCompleteRequest \<Rightarrow> string \<Rightarrow> string \<Rightarrow> (string \<times> User) M" where
  "CompleteSetup req ip userAgent =
     bindM CountAdmins (\<lambda>adminCount.
     if adminCount > 0 then fail (ErrMsg ''setup already completed'')
     else
     bindM (setup_checks req) (\<lambda>(mode, domain, adminIdentifier, recoveryEmail, loc, tz, acceptedLogin).
     bindM (auth_HashPassword (scr_AdminPassword req)) (\<lambda>passwordHash.
     thenM (EnsureAdmin adminIdentifier passwordHash)
     (bindM (GetUserByEmail adminIdentifier) (\<lambda>adminUser.
     let uid = u_ID adminUser in
     bindM (askM usesPAMAuth) (\<lambda>pam.
     thenM (UpdateUserRecoveryEmail uid recoveryEmail)
     (thenM (whenM (pam \<and> TrimSpace acceptedLogin \<noteq> []) (UpdateUserMailLogin uid acceptedLogin))
     (thenM (UpsertSettings (setup_settings mode domain adminIdentifier))
     (bindM passkey_primary (\<lambda>flag.
     let passkey = (case scr_PasskeyPrimarySignInEnabled req of None \<Rightarrow> flag | Some b \<Rightarrow> b) in
     thenM (UpsertSettings [(featureFlagSettingPasskeySignIn, boolToFeatureFlagSetting passkey),
                            (''enforce_admin_mfa'', ''1'')])
     (thenM (seqM [UpdateUserMFAPreference uid MFAPreferenceTOTP, SetMFASetupSwitchUsed uid False,
                   SetUserMFABackupCompleted uid False, SetLegacyMFAPromptPending uid False])
     (bindM time_Now (\<lambda>now. bindM (askM (\<lambda>sv. rfc3339 sv now)) (\<lambda>stamp.
     thenM (UpsertSetting ''setup_completed_at'' stamp)
     (thenM (whenM (loc \<noteq> []) (UpsertSetting ''ui.default_format_locale'' loc))
     (thenM (whenM (tz \<noteq> []) (UpsertSetting ''ui.default_timezone'' tz))
     (thenM (if InstanceModeUsesLocalMail mode
             then tryM (provision_UpsertActiveUser adminIdentifier passwordHash) (\<lambda>r. case r of
                    Inl e \<Rightarrow> ignoreM (UpdateProvisionState uid ''error'' (Some (Error e))) (fail e)
                  | Inr _ \<Rightarrow> ret ())
             else ret ())
     (ignoreM (UpdateProvisionState uid ''ok'' None)
     (Login adminIdentifier (scr_AdminPassword req) ip userAgent)))))))))))))))))))"

section \<open>The contract\<close>

context db_contract
begin

lemma passkey_primary_guar [guar_intros]: "G passkey_primary (\<lambda>_. True)"
  unfolding passkey_primary_def by (rule guar_intros TrueI)+

lemma GetSetupStatus_guar [guar_intros]: "G GetSetupStatus (\<lambda>_. True)"
  unfolding GetSetupStatus_def by (rule guar_intros TrueI)+

lemma provision_recorded_guar [guar_intros]: "G (provision_recorded u) (\<lambda>_. True)"
  unfolding provision_recorded_def by (rule guar_intros TrueI)+

lemma Register_guar [guar_intros]: "G (Register e p r ip ua ok pref) (\<lambda>_. True)"
  unfolding Register_def Let_def by (rule guar_intros TrueI)+

lemma admin_ops_guar [guar_intros]:
  "G (ApproveRegistration a i) (\<lambda>_. True)"
  "G (RejectRegistration a i reason) (\<lambda>_. True)"
  "G (SuspendUser a i) (\<lambda>_. True)"
  "G (UnsuspendUser a i) (\<lambda>_. True)"
  "G (RetryProvisionUser a i) (\<lambda>_. True)"
  "G (verify_mailbox e p l) (\<lambda>_. True)"
  unfolding ApproveRegistration_def RejectRegistration_def SuspendUser_def UnsuspendUser_def
    RetryProvisionUser_def verify_mailbox_def Let_def
  by (rule guar_intros TrueI)+

lemma AdminCreateUser_guar [guar_intros]: "G (AdminCreateUser a req) (\<lambda>_. True)"
  unfolding AdminCreateUser_def Let_def by (rule guar_intros TrueI)+

lemma UpsertSettings_guar [guar_intros]: "G (UpsertSettings kvs) (\<lambda>_. True)"
  unfolding UpsertSettings_def by (rule guar_seq) (auto simp: list_all_iff settings_guar)

lemma setup_checks_guar [guar_intros]: "G (setup_checks req) (\<lambda>_. True)"
  unfolding setup_checks_def Let_def by (rule guar_intros TrueI)+

lemma CompleteSetup_guar [guar_intros]: "G (CompleteSetup req ip ua) (\<lambda>_. True)"
  unfolding CompleteSetup_def Let_def
  by (rule guar_seq guar_intros TrueI | simp add: user_writes_guar)+

end

end
