(* ===== verification/PasswordReset.thy ===== *)
theory PasswordReset
  imports AuthService
begin

text \<open>
  \<^verbatim>\<open>internal/service/service.go\<close>: self-service password reset (sender state, request, confirmation) and
  the reset by an administrator.
\<close>

section \<open>Sender\<close>

record passwordResetSenderState =
  prs_Address :: string
  prs_Status :: string
  prs_Reason :: string
  prs_Ready :: bool

definition normalizePasswordResetSender :: "string \<Rightarrow> string" where
  "normalizePasswordResetSender raw =
     (let v = TrimSpace (ToLower raw) in
      if v = [] \<or> v = ''smtp'' then ''smtp'' else if v = ''log'' then ''log'' else ''smtp'')"

definition PasswordResetFromAddress :: "Config \<Rightarrow> string" where
  "PasswordResetFromAddress c =
     (let candidate = lower_trim (PasswordResetFrom c) in
      if candidate = [] \<or> HasSuffix candidate ''@example.com''
      then let d0 = lower_trim (BaseDomain c); d1 = (if d0 = [] then ''example.com'' else d0);
               d2 = (if HasPrefix d1 ''mail.'' \<and> length d1 > length ''mail.'' then drop (length ''mail.'') d1 else d1)
           in ''no-reply@'' @ d2
      else candidate)"

definition passwordResetSMTPReason :: "err \<Rightarrow> string" where
  "passwordResetSMTPReason e =
     (if e = SMTPSenderRejected then ''smtp_sender_rejected''
      else if e = SMTPAuthFailed then ''smtp_auth_failed''
      else let msg = lower_trim (Error e) in
           if list_ex (Contains msg) [''dial tcp'', ''connection refused'', ''no such host'',
                ''i/o timeout'', ''network is unreachable'']
           then ''smtp_unreachable'' else ''smtp_probe_failed'')"

definition passwordResetLookupReason :: "err \<Rightarrow> string" where
  "passwordResetLookupReason e =
     (if e = ErrConflict then ''ambiguous_recovery_email''
      else if e = ErrNotFound then ''account_not_found'' else ''lookup_failed'')"

definition ready_state :: "Config \<Rightarrow> passwordResetSenderState" where
  "ready_state c = \<lparr>prs_Address = PasswordResetFromAddress c, prs_Status = ''ready'', prs_Reason = [], prs_Ready = True\<rparr>"

definition degraded :: "string \<Rightarrow> passwordResetSenderState \<Rightarrow> passwordResetSenderState" where
  "degraded reason st = st\<lparr>prs_Status := ''degraded'', prs_Reason := reason, prs_Ready := False\<rparr>"

definition externalPasswordResetSenderState :: "Config \<Rightarrow> passwordResetSenderState" where
  "externalPasswordResetSenderState c =
     (let st = \<lparr>prs_Address = PasswordResetFromAddress c, prs_Status = ''external'', prs_Reason = [], prs_Ready = True\<rparr>
      in if \<not> PasswordResetExternalSenderReady c
         then st\<lparr>prs_Reason := ''external_sender_unconfirmed'', prs_Ready := False\<rparr> else st)"

definition probePasswordResetSenderTransport :: "passwordResetSenderState \<Rightarrow> passwordResetSenderState M" where
  "probePasswordResetSenderTransport st =
     bindM (askM sender_probes) (\<lambda>probes.
     if \<not> probes then ret st
     else bindM (draw send_mail) (\<lambda>a. case a of
            None \<Rightarrow> ret st
          | Some e \<Rightarrow> ret (degraded (passwordResetSMTPReason e) st)))"

definition persistPasswordResetSenderState :: "passwordResetSenderState \<Rightarrow> string \<Rightarrow> unit M" where
  "persistPasswordResetSenderState st managedBy =
     seqM (map (\<lambda>(k, v). UpsertSetting k v)
       [(''password_reset_sender.address'', TrimSpace (prs_Address st)),
        (''password_reset_sender.status'', TrimSpace (prs_Status st)),
        (''password_reset_sender.reason'', TrimSpace (prs_Reason st)),
        (''password_reset_sender.managed_by'', TrimSpace managedBy)])"

definition hasProvisioner :: "Svc \<Rightarrow> bool" where "hasProvisioner sv \<longleftrightarrow> \<not> noop_provisioner sv"

definition persisted :: "string \<Rightarrow> passwordResetSenderState \<Rightarrow> passwordResetSenderState M" where
  "persisted managedBy st = thenM (persistPasswordResetSenderState st managedBy) (ret st)"

definition EnsurePasswordResetSenderIdentity :: "passwordResetSenderState M" where
  "EnsurePasswordResetSenderIdentity =
     bindM (askM (\<lambda>sv. (cfg sv, usesPAMAuth sv, hasProvisioner sv))) (\<lambda>(c, pam, provisioner).
     let state = ready_state c;
         delivery = normalizePasswordResetSender (TrimSpace (ToLower (PasswordResetSender c))) in
     if delivery = ''log'' then persisted ''app'' (degraded ''log_delivery_disabled'' state)
     else if delivery \<noteq> ''smtp'' then persisted ''app'' state
     else if pam
     then let ext = externalPasswordResetSenderState c in
          if prs_Ready ext then bindM (probePasswordResetSenderTransport ext) (persisted ''external'')
          else persisted ''external'' ext
     else if \<not> provisioner then persisted ''app'' (degraded ''sql_provisioner_unconfigured'' state)
     else
       bindM (GetSetting ''password_reset_sender.password_hash'') (\<lambda>stored.
       let hash0 = TrimSpace (opt_str stored) in
       bindM (if hash0 = []
              then bindM auth_NewOpaqueToken (\<lambda>(raw, _).
                   bindM (auth_HashPassword (raw @ ''|password-reset-sender'')) (\<lambda>h.
                   thenM (UpsertSetting ''password_reset_sender.password_hash'' h) (ret h)))
              else ret hash0) (\<lambda>hash.
       tryM (provision_UpsertActiveUser (prs_Address state) hash) (\<lambda>r. case r of
          Inl _ \<Rightarrow> persisted ''app'' (degraded ''sender_provision_failed'' state)
        | Inr _ \<Rightarrow> bindM (probePasswordResetSenderTransport state) (persisted ''app'')))))"

definition get_passwordResetSenderState :: "passwordResetSenderState M" where
  "get_passwordResetSenderState =
     bindM (askM (\<lambda>sv. (cfg sv, usesPAMAuth sv, hasProvisioner sv))) (\<lambda>(c, pam, provisioner).
     let state = ready_state c in
     bindM (GetSetting ''password_reset_sender.status'') (\<lambda>stored. case stored of
       Some status \<Rightarrow>
         tryM (GetSetting ''password_reset_sender.reason'') (\<lambda>r.
         let reason = (case r of Inr (Some v) \<Rightarrow> TrimSpace v | _ \<Rightarrow> []) in
         if TrimSpace status = ''external'' then ret (externalPasswordResetSenderState c)
         else ret (state\<lparr>prs_Status := TrimSpace status, prs_Reason := reason,
                         prs_Ready := (TrimSpace status = ''ready'')\<rparr>))
     | None \<Rightarrow>
         let delivery = normalizePasswordResetSender (TrimSpace (ToLower (PasswordResetSender c))) in
         if delivery = ''log'' then ret (degraded ''log_delivery_disabled'' state)
         else if delivery \<noteq> ''smtp'' then ret state
         else if pam
         then let ext = externalPasswordResetSenderState c in
              if \<not> prs_Ready ext then ret ext else probePasswordResetSenderTransport ext
         else if \<not> provisioner then ret (degraded ''sql_provisioner_unconfigured'' state)
         else bindM (GetSetting ''password_reset_sender.password_hash'') (\<lambda>hash.
                if TrimSpace (opt_str hash) = [] then ret (degraded ''sender_not_initialized'' state)
                else probePasswordResetSenderTransport state)))"

section \<open>Capabilities\<close>

record PasswordResetCapabilities =
  prc_AuthMode :: string
  prc_SelfServiceEnabled :: bool
  prc_AdminResetEnabled :: bool
  prc_Delivery :: string
  prc_TokenTTLMinutes :: int
  prc_RequiresMappedLogin :: bool
  prc_SenderAddress :: string
  prc_SenderStatus :: string
  prc_SenderReason :: string

definition GetPasswordResetCapabilities :: "PasswordResetCapabilities M" where
  "GetPasswordResetCapabilities =
     bindM (askM (\<lambda>sv. (cfg sv, usesPAMAuth sv))) (\<lambda>(c, pam).
     tryM PublicPasswordResetEnabled (\<lambda>r.
     let public_on = (case r of Inl _ \<Rightarrow> PasswordResetPublicEnabled c | Inr b \<Rightarrow> b) in
     tryM get_passwordResetSenderState (\<lambda>r2.
     let st = (case r2 of
                 Inr s \<Rightarrow> s
               | Inl _ \<Rightarrow> \<lparr>prs_Address = PasswordResetFromAddress c, prs_Status = ''degraded'',
                            prs_Reason = ''sender_state_read_failed'', prs_Ready = False\<rparr>) in
     ret \<lparr>prc_AuthMode = lower_trim (DovecotAuthMode c),
          prc_SelfServiceEnabled = (public_on \<and> (\<not> pam \<or> PAMResetHelperEnabled c) \<and> prs_Ready st),
          prc_AdminResetEnabled = (\<not> pam \<or> PAMResetHelperEnabled c),
          prc_Delivery = (if public_on
             then normalizePasswordResetSender (TrimSpace (ToLower (PasswordResetSender c))) else ''disabled''),
          prc_TokenTTLMinutes = PasswordResetTokenTTLMinutes c, prc_RequiresMappedLogin = False,
          prc_SenderAddress = prs_Address st, prc_SenderStatus = prs_Status st,
          prc_SenderReason = prs_Reason st\<rparr>)))"

section \<open>Requesting a reset\<close>

definition sender_SendPasswordReset :: "string \<Rightarrow> string \<Rightarrow> unit M" where
  "sender_SendPasswordReset toEmail token =
     bindM (draw send_mail) (\<lambda>a. case a of
        Some e \<Rightarrow> fail e | None \<Rightarrow> note_effect (SendPasswordReset toEmail token))"

definition issuePasswordResetToken :: "User \<Rightarrow> string \<Rightarrow> unit M" where
  "issuePasswordResetToken u delivery0 =
     (let deliveryEmail = lower_trim delivery0 in
      if deliveryEmail = [] then fail ErrInvalidRecoveryEmail
      else
        bindM auth_NewOpaqueToken (\<lambda>(raw, hash).
        bindM time_Now (\<lambda>now.
        bindM (askM cfg) (\<lambda>c.
        thenM (CreatePasswordResetToken (u_ID u) hash (now + PasswordResetTokenTTLMinutes c * time_Minute))
        (tryM (sender_SendPasswordReset deliveryEmail raw) (\<lambda>r. case r of
           Inl e \<Rightarrow> ignoreM (InvalidatePasswordResetToken hash) (fail e)
         | Inr _ \<Rightarrow> ret ()))))))"

text \<open>The account a reset identifier names: by its address, else by a unique recovery address.
  \<^const>\<open>None\<close> is the silent answer that hides whether the account exists.\<close>

definition reset_lookup :: "string \<Rightarrow> User option M" where
  "reset_lookup email =
     tryM (GetUserByEmail email) (\<lambda>r. case r of
       Inr u \<Rightarrow> ret (Some u)
     | Inl e \<Rightarrow>
         if e = ErrNotFound
         then tryM (GetUserByRecoveryEmail email) (\<lambda>r2. case r2 of
                Inr u \<Rightarrow> ret (Some u)
              | Inl e2 \<Rightarrow> if e2 = ErrNotFound \<or> e2 = ErrConflict then ret None else fail ErrPasswordResetDelivery)
         else fail ErrPasswordResetDelivery)"

definition RequestPasswordReset :: "string \<Rightarrow> unit M" where
  "RequestPasswordReset email0 =
     bindM (mapErr (\<lambda>_. ErrPasswordResetUnavailable) PublicPasswordResetEnabled) (\<lambda>enabled.
     if \<not> enabled then fail ErrPasswordResetUnavailable
     else bindM (mapErr (\<lambda>_. ErrPasswordResetUnavailable) EnsurePasswordResetSenderIdentity) (\<lambda>state.
     if \<not> prs_Ready state then fail ErrPasswordResetUnavailable
     else bindM GetPasswordResetCapabilities (\<lambda>caps.
     if \<not> prc_SelfServiceEnabled caps then fail ErrPasswordResetUnavailable
     else let email = lower_trim email0 in
     if email = [] then ret ()
     else bindM (reset_lookup email) (\<lambda>found. case found of
       None \<Rightarrow> ret ()
     | Some u \<Rightarrow>
         bindM (askM ParseAddress) (\<lambda>parse.
         if RecoveryEmailNeedsSetup parse (u_Email u) (u_RecoveryEmail u) then ret ()
         else mapErr (\<lambda>_. ErrPasswordResetDelivery)
                (issuePasswordResetToken u (lower_trim (opt_str (u_RecoveryEmail u)))))))))"

section \<open>Confirming a reset\<close>

definition passwordResetReservationLease :: duration where
  "passwordResetReservationLease = 30 * time_Second"

text \<open>The helper is reached over its socket; a resetter injected into the service is used by the
  tests only.\<close>

definition resetPasswordViaPAM :: "User \<Rightarrow> string \<Rightarrow> unit M" where
  "resetPasswordViaPAM u newPassword =
     (let login0 = TrimSpace (opt_str (u_MailLogin u));
          login = (if login0 = [] then TrimSpace (u_Email u) else login0) in
      bindM (askM cfg) (\<lambda>c.
      if \<not> PAMResetHelperEnabled c then fail ErrPasswordResetHelperDown
      else bindM uuid_NewString (\<lambda>requestID.
           bindM (draw pam_reset) (\<lambda>a. case a of
             PamOk \<Rightarrow> note_effect (PamResetPassword login newPassword)
           | PamUnavailable \<Rightarrow> fail ErrPasswordResetHelperDown
           | PamRejected \<Rightarrow> fail ErrPasswordResetHelperFailed))))"

definition consumeReservedPasswordResetToken :: "string \<Rightarrow> string \<Rightarrow> unit M" where
  "consumeReservedPasswordResetToken tokenHash reservationID =
     tryM (ConsumeReservedPasswordResetToken tokenHash reservationID) (\<lambda>r. case r of
        Inl e \<Rightarrow> ignoreM (InvalidatePasswordResetToken tokenHash) (fail e)
      | Inr _ \<Rightarrow> ret ())"

text \<open>The deferred release of the reservation: it runs when the function returns before the token was
  consumed.\<close>

definition releasing :: "string \<Rightarrow> string \<Rightarrow> 'a M \<Rightarrow> 'a M" where
  "releasing tokenHash reservationID m =
     tryM m (\<lambda>r. case r of
        Inl e \<Rightarrow> ignoreM (ReleasePasswordResetTokenReservation tokenHash reservationID) (fail e)
      | Inr x \<Rightarrow> ret x)"

text \<open>What follows a password change, for both kinds of reset.\<close>

definition after_reset :: "User \<Rightarrow> string \<Rightarrow> string \<Rightarrow> string \<Rightarrow> unit M" where
  "after_reset u userID newPassword h =
     ignoreM (bindM (util_EncryptString newPassword) (\<lambda>s. UpsertUserMailSecret userID s))
     (bindM (askM usesPAMAuth) (\<lambda>pam.
     thenM (if pam then ret ()
            else tryM (provision_UpsertActiveUser (u_Email u) h) (\<lambda>r. case r of
                   Inl e \<Rightarrow> ignoreM (UpdateProvisionState (u_ID u) ''error'' (Some (Error e))) (ret ())
                 | Inr _ \<Rightarrow> ignoreM (UpdateProvisionState (u_ID u) ''ok'' None) (ret ())))
     (ignoreM (RevokeUserSessions userID)
     (ignoreM (RevokeAllMFATrustedDevices userID)
     (ret ())))))"

text \<open>The password change under a reservation: in PAM mode the helper changes the password and the token is
  consumed before the local hash is updated, otherwise after.  It yields the user and the new hash.\<close>

definition reset_reserved :: "string \<Rightarrow> string \<Rightarrow> bool \<Rightarrow> string \<Rightarrow> string \<Rightarrow> (User \<times> string) M" where
  "reset_reserved tokenHash reservationID pam userID newPassword =
     (if pam
      then bindM (releasing tokenHash reservationID
             (bindM (mapErr (\<lambda>_. ErrInvalidCredentials) (GetUserByID userID)) (\<lambda>u.
              thenM (resetPasswordViaPAM u newPassword)
              (thenM (consumeReservedPasswordResetToken tokenHash reservationID) (ret u))))) (\<lambda>u.
           bindM (auth_HashPassword newPassword) (\<lambda>h.
           thenM (UpdateUserPasswordHash userID h) (ret (u, h))))
      else releasing tokenHash reservationID
             (bindM (mapErr (\<lambda>_. ErrInvalidCredentials) (GetUserByID userID)) (\<lambda>u.
              bindM (auth_HashPassword newPassword) (\<lambda>h.
              thenM (UpdateUserPasswordHash userID h)
              (thenM (consumeReservedPasswordResetToken tokenHash reservationID) (ret (u, h)))))))"

definition ConfirmPasswordReset :: "string \<Rightarrow> string \<Rightarrow> unit M" where
  "ConfirmPasswordReset rawToken newPassword =
     bindM (mapErr (\<lambda>_. ErrPasswordResetUnavailable) PublicPasswordResetEnabled) (\<lambda>enabled.
     if \<not> enabled then fail ErrPasswordResetUnavailable
     else
     thenM (ValidatePassword newPassword)
     (bindM (askM (\<lambda>sv. (hex_sha256 (sha256 sv) rawToken, usesPAMAuth sv))) (\<lambda>(tokenHash, pam).
     bindM uuid_NewString (\<lambda>reservationID.
     bindM (mapErr (\<lambda>_. ErrInvalidCredentials)
              (ReservePasswordResetToken tokenHash reservationID passwordResetReservationLease)) (\<lambda>t.
     bindM (reset_reserved tokenHash reservationID pam (t_UserID t) newPassword) (\<lambda>(u, h).
     after_reset u (t_UserID t) newPassword h))))))"

definition AdminResetPassword :: "string \<Rightarrow> string \<Rightarrow> string \<Rightarrow> unit M" where
  "AdminResetPassword adminID userID newPassword =
     thenM (ValidatePassword newPassword)
     (bindM (GetUserByID userID) (\<lambda>u.
     bindM (askM usesPAMAuth) (\<lambda>pam.
     thenM (whenM pam (resetPasswordViaPAM u newPassword))
     (bindM (auth_HashPassword newPassword) (\<lambda>h.
     thenM (UpdateUserPasswordHash userID h)
     (thenM (after_reset u userID newPassword h)
     (bindM (askM (\<lambda>sv. json_Marshal sv
        [(''user_id'', JStr userID), (''mode'', JStr (lower_trim (DovecotAuthMode (cfg sv))))])) (\<lambda>meta.
     InsertAudit adminID ''user.reset_password'' userID meta))))))))"

section \<open>Recovery address and recovery codes by mail\<close>

definition SendRecoveryEmailMFACode :: "User \<Rightarrow> string \<Rightarrow> string M" where
  "SendRecoveryEmailMFACode u code0 =
     (let code = TrimSpace code0 in
      if code = [] then fail ErrInvalidCredentials
      else bindM (askM (\<lambda>sv. (ParseAddress sv, log_sender sv, sender_sends_codes sv))) (\<lambda>(parse, is_log, sends).
      if RecoveryEmailNeedsSetup parse (u_Email u) (u_RecoveryEmail u) then fail ErrRecoveryEmailRequired
      else if is_log \<or> \<not> sends then fail ErrRecoveryEmailMFAUnavailable
      else let deliveryEmail = lower_trim (opt_str (u_RecoveryEmail u)) in
      if deliveryEmail = [] then fail ErrInvalidRecoveryEmail
      else bindM (draw send_mail) (\<lambda>a. case a of
             Some e \<Rightarrow> fail ErrRecoveryEmailMFADelivery
           | None \<Rightarrow> thenM (note_effect (SendRecoveryEmailCode deliveryEmail code)) (ret deliveryEmail))))"

definition UpdateRecoveryEmail :: "string \<Rightarrow> string \<Rightarrow> string M" where
  "UpdateRecoveryEmail userID recoveryEmail =
     bindM (GetUserByID userID) (\<lambda>u.
     bindM (askM ParseAddress) (\<lambda>parse.
     bindM (liftE (normalizeDistinctRecoveryEmail parse (u_Email u) recoveryEmail)) (\<lambda>normalized.
     thenM (UpdateUserRecoveryEmail userID normalized) (ret normalized))))"

section \<open>The contract\<close>

context db_contract
begin

lemma sender_guar [guar_intros]:
  "G (probePasswordResetSenderTransport st) (\<lambda>_. True)"
  "G (persistPasswordResetSenderState st m) (\<lambda>_. True)"
  "G (persisted m st) (\<lambda>_. True)"
  unfolding probePasswordResetSenderTransport_def persistPasswordResetSenderState_def persisted_def
  by (rule guar_seq guar_intros TrueI | simp add: settings_guar)+

lemma sender_state_guar [guar_intros]:
  "G EnsurePasswordResetSenderIdentity (\<lambda>_. True)"
  "G get_passwordResetSenderState (\<lambda>_. True)"
  unfolding EnsurePasswordResetSenderIdentity_def get_passwordResetSenderState_def Let_def
  by (rule guar_bind_token guar_intros TrueI)+

lemma GetPasswordResetCapabilities_guar [guar_intros]: "G GetPasswordResetCapabilities (\<lambda>_. True)"
  unfolding GetPasswordResetCapabilities_def Let_def by (rule guar_intros TrueI)+

lemma issuePasswordResetToken_guar [guar_intros]: "G (issuePasswordResetToken u e) (\<lambda>_. True)"
  unfolding issuePasswordResetToken_def sender_SendPasswordReset_def Let_def
  by (rule guar_bind_token guar_intros TrueI | simp)+

lemma RequestPasswordReset_guar [guar_intros]: "G (RequestPasswordReset e) (\<lambda>_. True)"
  unfolding RequestPasswordReset_def reset_lookup_def Let_def by (rule guar_intros TrueI)+

lemma guar_pam [guar_intros]:
  "G m Q \<Longrightarrow> G m1 Q \<Longrightarrow> G m2 Q \<Longrightarrow> G (case a of PamOk \<Rightarrow> m | PamUnavailable \<Rightarrow> m1 | PamRejected \<Rightarrow> m2) Q"
  by (cases a) simp_all

lemma confirm_parts_guar [guar_intros]:
  "G (resetPasswordViaPAM u p) (\<lambda>_. True)"
  "G (consumeReservedPasswordResetToken h i) (\<lambda>_. True)"
  "G (after_reset u i p h) (\<lambda>_. True)"
  unfolding resetPasswordViaPAM_def consumeReservedPasswordResetToken_def after_reset_def Let_def
  by (rule guar_intros TrueI)+

lemma releasing_guar [guar_intros]: "G m (\<lambda>_. True) \<Longrightarrow> G (releasing h i m) (\<lambda>_. True)"
  unfolding releasing_def by (rule guar_intros TrueI | assumption)+

lemma reset_reserved_guar [guar_intros]: "G (reset_reserved h i pam u p) (\<lambda>_. True)"
  unfolding reset_reserved_def by (rule guar_intros TrueI)+

lemma reset_services_guar [guar_intros]:
  "G (ConfirmPasswordReset raw p) (\<lambda>_. True)"
  "G (AdminResetPassword a i p) (\<lambda>_. True)"
  "G (SendRecoveryEmailMFACode u c) (\<lambda>_. True)"
  "G (UpdateRecoveryEmail i e) (\<lambda>_. True)"
  unfolding ConfirmPasswordReset_def AdminResetPassword_def SendRecoveryEmailMFACode_def
    UpdateRecoveryEmail_def Let_def
  by (rule guar_intros TrueI)+

end

end
