(* ===== verification/Middleware.thy ===== *)
theory Middleware
  imports AccountService PasswordReset RateLimiter
begin

text \<open>
  \<^verbatim>\<open>internal/middleware/http.go\<close>: authentication, roles, second factors, CSRF and rate limits in front of
  the handlers, and the order in which \<^verbatim>\<open>internal/api/router.go\<close> puts them before the admin routes.
  A middleware either answers the request (\<^const>\<open>Inl\<close> a response) or passes it on.
\<close>

section \<open>Requests and responses\<close>

record http_req =
  hr_method :: string
  hr_header :: "string \<Rightarrow> string"
  hr_cookie :: "string \<Rightarrow> string option"
  hr_remote :: string
  hr_agent :: string

record resp =
  rs_status :: int
  rs_code :: string
  rs_cookies :: "(string \<times> string) list"

definition error_resp :: "int \<Rightarrow> string \<Rightarrow> resp" where
  "error_resp status code = \<lparr>rs_status = status, rs_code = code, rs_cookies = []\<rparr>"

datatype captcha_answer = CaptchaOk | CaptchaUnavailable | CaptchaRejected

text \<open>The handlers' settings, and the libraries and services they call: the HMAC, the TOTP library,
  the mail security service, the QR encoder and the captcha verifier.\<close>

record Handlers =
  SessionCookieName :: string
  CSRFCookieName :: string
  MFATrustedCookieName :: string
  TrustProxy :: bool
  hmac_sha256 :: "string \<Rightarrow> string"
  totp_Validate :: "gotime \<Rightarrow> string \<Rightarrow> string \<Rightarrow> bool"
  mailsec_totp :: "nat \<Rightarrow> string \<Rightarrow> string \<Rightarrow> string \<Rightarrow> err + bool"
  totp_Generate :: "string \<Rightarrow> string \<Rightarrow> string \<Rightarrow> string \<times> string"
  qrcode_Encode :: "string \<Rightarrow> bool"
  captcha_Verify :: "nat \<Rightarrow> string \<Rightarrow> string \<Rightarrow> captcha_answer"

section \<open>The client address\<close>

definition last_colon :: "string \<Rightarrow> (string \<times> string) option" where
  "last_colon s = map_option (\<lambda>(a, b). (rev b, rev a)) (split2 (CHR '':'') (rev s))"

text \<open>\<^verbatim>\<open>net.SplitHostPort\<close>, its host part; \<^const>\<open>None\<close> for an error.\<close>

definition SplitHostPort :: "string \<Rightarrow> string option" where
  "SplitHostPort s =
     (case last_colon s of
        None \<Rightarrow> None
      | Some (front, port) \<Rightarrow>
          if hd s = CHR ''[''
          then case split2 (CHR '']'') s of
                 None \<Rightarrow> None
               | Some (inside, rest) \<Rightarrow>
                   if front = inside @ '']'' \<and> CHR ''['' \<notin> set (tl s) \<and> CHR '']'' \<notin> set rest
                   then Some (tl inside) else None
          else if CHR '':'' \<in> set front \<or> CHR ''['' \<in> set s \<or> CHR '']'' \<in> set s then None
          else Some front)"

definition ClientIP :: "http_req \<Rightarrow> bool \<Rightarrow> string" where
  "ClientIP r trustProxy =
     (let xff = hr_header r ''X-Forwarded-For'' in
      if trustProxy \<and> xff \<noteq> [] then TrimSpace (hd (Split (CHR '','') xff))
      else case SplitHostPort (hr_remote r) of None \<Rightarrow> hr_remote r | Some h \<Rightarrow> h)"

section \<open>Middleware\<close>

definition Authn :: "Handlers \<Rightarrow> http_req \<Rightarrow> (resp + User \<times> Session) M" where
  "Authn h r =
     (case hr_cookie r (SessionCookieName h) of
        None \<Rightarrow> ret (Inl (error_resp 401 ''session_missing''))
      | Some v \<Rightarrow>
          if v = [] then ret (Inl (error_resp 401 ''session_missing''))
          else tryM (ValidateSession v) (\<lambda>x. case x of
                 Inl e \<Rightarrow> ret (Inl (if e = ErrForbidden then error_resp 403 ''forbidden''
                                    else error_resp 401 ''session_invalid''))
               | Inr us \<Rightarrow> ret (Inr us)))"

definition AdminOnly :: "User option \<Rightarrow> resp option" where
  "AdminOnly u = (case u of
     None \<Rightarrow> Some (error_resp 403 ''forbidden'')
   | Some u \<Rightarrow> if u_Role u \<noteq> ''admin'' then Some (error_resp 403 ''forbidden'') else None)"

definition RequireMFAVerified :: "Session option \<Rightarrow> resp option" where
  "RequireMFAVerified sess = (case sess of
     None \<Rightarrow> Some (error_resp 401 ''session_missing'')
   | Some s \<Rightarrow> if s_MFAVerifiedAt s = None then Some (error_resp 401 ''mfa_required'') else None)"

definition RequireMFAStageAuthenticated :: "User option \<Rightarrow> Session option \<Rightarrow> resp option M" where
  "RequireMFAStageAuthenticated u sess = (case u of
     None \<Rightarrow> ret (Some (error_resp 401 ''session_missing''))
   | Some u \<Rightarrow> (case sess of
       None \<Rightarrow> ret (Some (error_resp 401 ''session_missing''))
     | Some s \<Rightarrow>
         tryM (ResolveMFAStage u (Some s)) (\<lambda>x. case x of
           Inl _ \<Rightarrow> ret (Some (error_resp 500 ''internal_error''))
         | Inr stage \<Rightarrow>
             if AuthStage stage = AuthStageMFASetupNeeded then ret (Some (error_resp 401 ''mfa_setup_required''))
             else if AuthStage stage = AuthStageMFARequired then ret (Some (error_resp 401 ''mfa_required''))
             else ret None)))"

definition CSRFFromCookie :: "Handlers \<Rightarrow> http_req \<Rightarrow> resp option" where
  "CSRFFromCookie h r =
     (if hr_method r = ''GET'' \<or> hr_method r = ''HEAD'' \<or> hr_method r = ''OPTIONS'' then None
      else let token = hr_header r ''X-CSRF-Token'' in
      case hr_cookie r (CSRFCookieName h) of
        None \<Rightarrow> Some (error_resp 403 ''csrf_failed'')
      | Some v \<Rightarrow>
          if v = [] \<or> token = [] then Some (error_resp 403 ''csrf_failed'')
          else if token \<noteq> v then Some (error_resp 403 ''csrf_failed'')
          else None)"

definition RateLimit ::
  "Limiter \<Rightarrow> gotime \<Rightarrow> http_req \<Rightarrow> string \<Rightarrow> int \<Rightarrow> duration \<Rightarrow> bool \<Rightarrow> resp option \<times> Limiter" where
  "RateLimit l now r route limit window trustProxy =
     (case Allow l now (route @ '':'' @ ClientIP r trustProxy) limit window of
        (ok, l') \<Rightarrow> (if ok then None else Some (error_resp 429 ''rate_limited''), l'))"

text \<open>The middleware in front of the state-changing admin routes, in the order of the router:
  authentication, second factor, role, CSRF.\<close>

definition admin_chain :: "Handlers \<Rightarrow> http_req \<Rightarrow> (User \<Rightarrow> Session \<Rightarrow> resp M) \<Rightarrow> resp M" where
  "admin_chain h r next =
     bindM (Authn h r) (\<lambda>a. case a of
       Inl resp \<Rightarrow> ret resp
     | Inr (u, s) \<Rightarrow>
         bindM (RequireMFAStageAuthenticated (Some u) (Some s)) (\<lambda>b. case b of
           Some resp \<Rightarrow> ret resp
         | None \<Rightarrow> (case AdminOnly (Some u) of
             Some resp \<Rightarrow> ret resp
           | None \<Rightarrow> (case CSRFFromCookie h r of
               Some resp \<Rightarrow> ret resp
             | None \<Rightarrow> next u s))))"

section \<open>The contract\<close>

context db_contract
begin

lemma middleware_guar [guar_intros]:
  "G (Authn h r) (\<lambda>_. True)"
  "G (RequireMFAStageAuthenticated u s) (\<lambda>_. True)"
  unfolding Authn_def RequireMFAStageAuthenticated_def by (rule guar_intros TrueI)+

lemma admin_chain_guar [guar_intros]:
  assumes "\<And>u s. G (f u s) (\<lambda>_. True)"
  shows "G (admin_chain h r f) (\<lambda>_. True)"
  unfolding admin_chain_def by (rule guar_intros TrueI assms)+

end

end
