(* ===== verification/Handlers.thy ===== *)
theory Handlers
  imports Middleware
begin

text \<open>
  \<^verbatim>\<open>internal/api/router.go\<close> and \<^verbatim>\<open>internal/api/router_v2.go\<close>: the handlers for login and logout, trusted
  devices, password reset, second factors by recovery code, session revocation and the
  administration of accounts.  A handler takes the request and its decoded body; of a response
  the status, the error code and the cookies are kept.
\<close>

section \<open>Bodies and responses\<close>

datatype decode_err = JsonTooLarge | JsonInvalid

definition with_body :: "decode_err + 'b \<Rightarrow> ('b \<Rightarrow> resp M) \<Rightarrow> resp M" where
  "with_body body k = (case body of
     Inl JsonTooLarge \<Rightarrow> ret (error_resp 413 ''request_too_large'')
   | Inl JsonInvalid \<Rightarrow> ret (error_resp 400 ''bad_request'')
   | Inr b \<Rightarrow> k b)"

definition ok_resp :: "int \<Rightarrow> resp" where "ok_resp status = \<lparr>rs_status = status, rs_code = [], rs_cookies = []\<rparr>"

text \<open>Run a service call and turn its error into a response.\<close>

definition respond :: "'a M \<Rightarrow> (err \<Rightarrow> resp) \<Rightarrow> ('a \<Rightarrow> resp) \<Rightarrow> resp M" where
  "respond m on_err on_ok = tryM m (\<lambda>r. case r of Inl e \<Rightarrow> ret (on_err e) | Inr x \<Rightarrow> ret (on_ok x))"

definition ensureSetupComplete :: "resp option M" where
  "ensureSetupComplete = tryM GetSetupStatus (\<lambda>r. case r of
     Inl _ \<Rightarrow> ret (Some (error_resp 500 ''internal_error''))
   | Inr st \<Rightarrow> ret (if ss_Required st then Some (error_resp 423 ''setup_required'') else None))"

definition after_setup :: "resp M \<Rightarrow> resp M" where
  "after_setup k = bindM ensureSetupComplete (\<lambda>r. case r of Some resp \<Rightarrow> ret resp | None \<Rightarrow> k)"

fun firstNonEmptyString :: "string list \<Rightarrow> string" where
  "firstNonEmptyString [] = []"
| "firstNonEmptyString (v # vs) = (if TrimSpace v \<noteq> [] then TrimSpace v else firstNonEmptyString vs)"

text \<open>\<^verbatim>\<open>strconv.Atoi\<close> on the query parameters; the page size is kept within 1 and 100.\<close>

definition parsePagination :: "string \<Rightarrow> string \<Rightarrow> int \<times> int" where
  "parsePagination page_param size_param =
     (case Atoi page_param of Some p \<Rightarrow> if p > 0 then p else 1 | None \<Rightarrow> 1,
      case Atoi size_param of
        Some ps \<Rightarrow> if ps < 1 then 1 else if ps > 100 then 100 else ps
      | None \<Rightarrow> 25)"

section \<open>Rate keys\<close>

definition zero_time_offset :: int where "zero_time_offset = 62135596800000000000"

definition Truncate :: "gotime \<Rightarrow> duration \<Rightarrow> gotime" where
  "Truncate t d = (if d \<le> 0 then t else t - (t + zero_time_offset) mod d)"

definition resetIdentifierRateKey :: "Handlers \<Rightarrow> string \<Rightarrow> string" where
  "resetIdentifierRateKey h email =
     (let v = TrimSpace (ToLower email) in if v = [] then [] else take 20 (HexEncode (hmac_sha256 h v)))"

definition resetTokenPrefixRateKey :: "Svc \<Rightarrow> string \<Rightarrow> string" where
  "resetTokenPrefixRateKey sv rawToken =
     (let v = TrimSpace rawToken in if v = [] then [] else take 20 (hex_sha256 (sha256 sv) v))"

definition allowResetRateKey :: "string \<Rightarrow> string \<Rightarrow> int \<Rightarrow> duration \<Rightarrow> bool M" where
  "allowResetRateKey route key0 limit window =
     (let key = TrimSpace key0 in
      if key = [] \<or> limit \<le> 0 then ret True
      else bindM time_Now (\<lambda>now.
           tryM (IncrementRateEvent key route (Truncate now window)) (\<lambda>r. case r of
             Inl _ \<Rightarrow> ret True
           | Inr count \<Rightarrow>
               bindM time_Now (\<lambda>now2.
               ignoreM (CleanupRateEventsBefore (now2 - 24 * time_Hour))
               (ret (count \<le> limit))))))"

section \<open>Trusted devices\<close>

definition randomToken :: "string M" where
  "randomToken = bindM (draw rand) (\<lambda>r. case r 32 of
     None \<Rightarrow> fail (SecretErr RandError) | Some buf \<Rightarrow> ret (RawURLEncode buf))"

definition trustedDeviceTokenHash :: "Svc \<Rightarrow> string \<Rightarrow> string" where
  "trustedDeviceTokenHash sv token = hex_sha256 (sha256 sv) (TrimSpace token)"

definition trustedDeviceUserAgentHash :: "Svc \<Rightarrow> string \<Rightarrow> string" where
  "trustedDeviceUserAgentHash sv ua = hex_sha256 (sha256 sv) (TrimSpace ua)"

definition trustedDeviceLabel :: "string \<Rightarrow> string" where
  "trustedDeviceLabel ua =
     (let label = TrimSpace ua in
      if label = [] then ''Trusted device'' else if length label > 120 then take 120 label else label)"

definition trustedDeviceCookieName :: "Handlers \<Rightarrow> string" where
  "trustedDeviceCookieName h =
     (let name = TrimSpace (MFATrustedCookieName h) in if name = [] then ''despatch_mfa_trusted'' else name)"

definition trustedDeviceTTL :: duration where "trustedDeviceTTL = 30 * 24 * time_Hour"

text \<open>Both return the cookie to set.\<close>

definition issueTrustedDevice :: "Handlers \<Rightarrow> http_req \<Rightarrow> string \<Rightarrow> (string \<times> string) M" where
  "issueTrustedDevice h r userID =
     bindM time_Now (\<lambda>now.
     bindM randomToken (\<lambda>token.
     bindM uuid_NewString (\<lambda>newID.
     bindM (askM (\<lambda>sv. (trustedDeviceTokenHash sv token, trustedDeviceUserAgentHash sv (hr_agent r)))) (\<lambda>(th, ua).
     thenM (CreateMFATrustedDevice
       \<lparr>td_ID = newID, td_UserID = userID, td_TokenHash = th, td_UAHash = ua,
        td_IPHint = ClientIP r (TrustProxy h), td_DeviceLabel = trustedDeviceLabel (hr_agent r),
        td_CreatedAt = Some now, td_LastUsedAt = Some now,
        td_ExpiresAt = Some (now + trustedDeviceTTL), td_RevokedAt = None\<rparr>)
     (ret (trustedDeviceCookieName h, TrimSpace token))))))"

definition rotateTrustedDevice :: "Handlers \<Rightarrow> http_req \<Rightarrow> string \<Rightarrow> string \<Rightarrow> (string \<times> string) M" where
  "rotateTrustedDevice h r userID trustedDeviceID =
     bindM time_Now (\<lambda>now.
     bindM randomToken (\<lambda>token.
     bindM (askM (\<lambda>sv. (trustedDeviceTokenHash sv token, trustedDeviceUserAgentHash sv (hr_agent r)))) (\<lambda>(th, ua).
     thenM (RotateMFATrustedDeviceToken userID trustedDeviceID th ua (ClientIP r (TrustProxy h))
              (now + trustedDeviceTTL))
     (ret (trustedDeviceCookieName h, TrimSpace token)))))"

text \<open>Whether the device cookie replaces the second factor, with the cookies it sets.\<close>

definition tryAuthenticateTrustedDevice ::
  "Handlers \<Rightarrow> http_req \<Rightarrow> User \<Rightarrow> Session \<Rightarrow> (bool \<times> (string \<times> string) list) M" where
  "tryAuthenticateTrustedDevice h r user sess =
     (let v = (case hr_cookie r (trustedDeviceCookieName h) of None \<Rightarrow> [] | Some v \<Rightarrow> v) in
      if TrimSpace v = [] then ret (False, [])
      else
        bindM (askM (\<lambda>sv. (trustedDeviceTokenHash sv v, trustedDeviceUserAgentHash sv (hr_agent r)))) (\<lambda>(th, ua).
        bindM time_Now (\<lambda>now.
        tryM (GetActiveMFATrustedDeviceByTokenHash (u_ID user) th now) (\<lambda>x. case x of
          Inl e \<Rightarrow> if e = ErrNotFound then ret (False, [(trustedDeviceCookieName h, [])]) else fail e
        | Inr trusted \<Rightarrow>
            if TrimSpace (td_UAHash trusted) \<noteq> [] \<and> td_UAHash trusted \<noteq> ua
            then ret (False, [(trustedDeviceCookieName h, [])])
            else thenM (SetSessionMFAVerified (s_ID sess) ''trusted_device'')
                 (bindM (rotateTrustedDevice h r (u_ID user) (td_ID trusted)) (\<lambda>cookie.
                  ret (True, [cookie])))))))"

section \<open>Login and logout\<close>

definition resolveLoginStage ::
  "Handlers \<Rightarrow> http_req \<Rightarrow> string \<Rightarrow> User \<Rightarrow> (Session \<times> MFAStage \<times> (string \<times> string) list) M" where
  "resolveLoginStage h r token user =
     bindM (askM (\<lambda>sv. hex_sha256 (sha256 sv) token)) (\<lambda>hash.
     bindM (GetSessionByTokenHash hash) (\<lambda>sess0.
     bindM (ResolveMFAStage user (Some sess0)) (\<lambda>stage0.
     bindM (if AuthStage stage0 = AuthStageMFARequired
            then bindM (tryAuthenticateTrustedDevice h r user sess0) (\<lambda>(trustedOK, cookies).
                 if trustedOK
                 then bindM (GetSessionByTokenHash hash) (\<lambda>s.
                      bindM (ResolveMFAStage user (Some s)) (\<lambda>st. ret (s, st, cookies)))
                 else ret (sess0, stage0, cookies))
            else ret (sess0, stage0, [])) (\<lambda>(sess, stage, cookies).
     if AuthStage stage \<noteq> AuthStageAuthenticated
     then thenM (ClearSessionMFAVerified (s_ID sess)) (ret (sess\<lparr>s_MFAVerifiedAt := None\<rparr>, stage, cookies))
     else if s_MFAVerifiedAt sess = None
     then thenM (SetSessionMFAVerified (s_ID sess) ''password'')
          (bindM time_Now (\<lambda>now. ret (sess\<lparr>s_MFAVerifiedAt := Some now\<rparr>, stage, cookies)))
     else ret (sess, stage, cookies)))))"

definition auth_cookies :: "Handlers \<Rightarrow> string \<Rightarrow> string \<Rightarrow> (string \<times> string) list" where
  "auth_cookies h sessionToken csrfToken =
     [(SessionCookieName h, sessionToken), (CSRFCookieName h, csrfToken)]
     @ (if TrimSpace (CSRFCookieName h) \<noteq> ''despatch_csrf'' then [(''despatch_csrf'', csrfToken)] else [])"

definition sleep :: "duration \<Rightarrow> unit M" where
  "sleep d = (\<lambda>sv w. (Inr (), w\<lparr>w_now := w_now w + d\<rparr>))"

record loginRequest =
  lr_Email :: string
  lr_Identifier :: string
  lr_Password :: string

definition loginRequestIdentifier :: "loginRequest \<Rightarrow> string" where
  "loginRequestIdentifier req = firstNonEmptyString [lr_Identifier req, lr_Email req]"

text \<open>A failed login: counted per address and identifier, delayed from the fourth failure on.\<close>

definition login_failed :: "Handlers \<Rightarrow> http_req \<Rightarrow> string \<Rightarrow> err \<Rightarrow> resp M" where
  "login_failed h r identifier e =
     (let key = ClientIP r (TrustProxy h) @ ''|'' @ lower_trim identifier in
      bindM time_Now (\<lambda>now.
      tryM (IncrementRateEvent key ''login_failed'' (Truncate now (15 * time_Minute))) (\<lambda>c.
      let failCount = (case c of Inl _ \<Rightarrow> 0 | Inr n \<Rightarrow> n) in
      bindM time_Now (\<lambda>now2.
      ignoreM (CleanupRateEventsBefore (now2 - 24 * time_Hour))
      (thenM (whenM (failCount > 3) (sleep (2 ^ nat (min (failCount - 3) 5) * time_Second)))
      (ret (if e = ErrSuspended then error_resp 403 ''suspended''
            else if e = ErrPendingApproval then error_resp 403 ''pending_approval''
            else if failCount > 6 then error_resp 429 ''rate_limited''
            else error_resp 401 ''invalid_credentials'')))))))"

definition LoginHandler :: "Handlers \<Rightarrow> http_req \<Rightarrow> decode_err + loginRequest \<Rightarrow> resp M" where
  "LoginHandler h r body = after_setup (with_body body (\<lambda>req.
     let identifier = loginRequestIdentifier req in
     tryM (Login identifier (lr_Password req) (hr_remote r) (hr_agent r)) (\<lambda>x. case x of
       Inl e \<Rightarrow> if e = ErrPAMVerifierDown then ret (error_resp 502 ''pam_verifier_unavailable'')
                else login_failed h r identifier e
     | Inr (token, user) \<Rightarrow>
         ignoreM (DeleteRateEvents (ClientIP r (TrustProxy h) @ ''|'' @ lower_trim identifier) ''login_failed'')
         (tryM (resolveLoginStage h r token user) (\<lambda>y. case y of
            Inl _ \<Rightarrow> ret (error_resp 500 ''internal_error'')
          | Inr (sess, stage, cookies) \<Rightarrow>
              tryM randomToken (\<lambda>z. case z of
                Inl _ \<Rightarrow> ret ((error_resp 500 ''internal_error'')\<lparr>rs_cookies := cookies\<rparr>)
              | Inr csrf \<Rightarrow> ret ((ok_resp 200)\<lparr>rs_cookies := cookies @ auth_cookies h token csrf\<rparr>)))))))"

definition clear_auth_cookies :: "Handlers \<Rightarrow> (string \<times> string) list" where
  "clear_auth_cookies h = auth_cookies h [] []"

definition LogoutHandler :: "Handlers \<Rightarrow> http_req \<Rightarrow> resp M" where
  "LogoutHandler h r =
     (let v = (case hr_cookie r (SessionCookieName h) of None \<Rightarrow> [] | Some v \<Rightarrow> v) in
      ignoreM (whenM (v \<noteq> []) (Logout v))
      (ret ((ok_resp 200)\<lparr>rs_cookies := clear_auth_cookies h\<rparr>)))"

section \<open>Password reset\<close>

definition PasswordResetRequestHandler :: "Handlers \<Rightarrow> decode_err + string \<Rightarrow> resp M" where
  "PasswordResetRequestHandler h body = after_setup (with_body body (\<lambda>email.
     bindM (allowResetRateKey ''reset_request_ident'' (resetIdentifierRateKey h (lower_trim email)) 6 (15 * time_Minute))
     (\<lambda>ok.
       if \<not> ok then ret (ok_resp 202)
       else respond (RequestPasswordReset email)
              (\<lambda>e. if e = ErrPasswordResetUnavailable then error_resp 503 ''password_reset_unavailable''
                   else ok_resp 202)
              (\<lambda>_. ok_resp 202))))"

definition reset_error :: "err \<Rightarrow> resp" where
  "reset_error e =
     (if e = ErrPasswordResetUnavailable then error_resp 503 ''password_reset_unavailable''
      else if e = ErrPasswordResetHelperDown then error_resp 503 ''password_reset_helper_unavailable''
      else if e = ErrPasswordResetHelperFailed then error_resp 502 ''password_reset_helper_failed''
      else error_resp 400 ''reset_failed'')"

definition PasswordResetConfirmHandler :: "decode_err + string \<times> string \<Rightarrow> resp M" where
  "PasswordResetConfirmHandler body = after_setup (with_body body (\<lambda>(token, newPassword).
     bindM (askM (\<lambda>sv. resetTokenPrefixRateKey sv token)) (\<lambda>tokenKey.
     bindM (if tokenKey \<noteq> [] then allowResetRateKey ''reset_confirm_token'' tokenKey 12 (15 * time_Minute)
            else ret True) (\<lambda>ok.
       if \<not> ok then ret (error_resp 429 ''rate_limited'')
       else respond (ConfirmPasswordReset token newPassword) reset_error (\<lambda>_. ok_resp 200)))))"

section \<open>Second factor by recovery code, sessions, accounts\<close>

definition V2MFARecoveryCodeVerify ::
  "Handlers \<Rightarrow> http_req \<Rightarrow> User \<Rightarrow> Session option \<Rightarrow> decode_err + string \<times> bool \<Rightarrow> resp M" where
  "V2MFARecoveryCodeVerify h r u session body = (case session of
     None \<Rightarrow> ret (error_resp 401 ''session_missing'')
   | Some sess \<Rightarrow> with_body body (\<lambda>(code0, remember).
       let code = TrimSpace code0 in
       if code = [] then ret (error_resp 400 ''bad_request'')
       else bindM (askM (\<lambda>sv. hex_sha256 (sha256 sv) code)) (\<lambda>codeHash.
       tryM (ConsumeRecoveryCodeHash (u_ID u) codeHash) (\<lambda>x. case x of
         Inl _ \<Rightarrow> ret (error_resp 500 ''internal_error'')
       | Inr False \<Rightarrow> ret (error_resp 401 ''invalid_recovery_code'')
       | Inr True \<Rightarrow>
           tryM (SetSessionMFAVerified (s_ID sess) ''recovery_code'') (\<lambda>y. case y of
             Inl _ \<Rightarrow> ret (error_resp 500 ''internal_error'')
           | Inr _ \<Rightarrow>
               if remember
               then respond (issueTrustedDevice h r (u_ID u)) (\<lambda>_. error_resp 500 ''internal_error'')
                      (\<lambda>cookie. (ok_resp 200)\<lparr>rs_cookies := [cookie]\<rparr>)
               else ret (ok_resp 200))))))"

definition V2RevokeSession :: "User \<Rightarrow> string \<Rightarrow> decode_err + string \<Rightarrow> resp M" where
  "V2RevokeSession u i body = with_body body (\<lambda>reason.
     respond (RevokeSessionWithReason (u_ID u) i (TrimSpace reason))
       (\<lambda>e. if e = ErrNotFound then error_resp 404 ''session_not_found'' else error_resp 500 ''session_revoke_failed'')
       (\<lambda>_. ok_resp 200))"

definition V2ActivateAccount :: "User \<Rightarrow> string \<Rightarrow> resp M" where
  "V2ActivateAccount u i =
     respond (SetActiveMailAccount (u_ID u) i)
       (\<lambda>e. if e = ErrNotFound then error_resp 404 ''account_not_found'' else error_resp 500 ''activate_account_failed'')
       (\<lambda>_. ok_resp 200)"

definition V2DeleteAccount :: "User \<Rightarrow> string \<Rightarrow> resp M" where
  "V2DeleteAccount u i =
     respond (DeleteMailAccount (u_ID u) i)
       (\<lambda>e. if e = ErrNotFound then error_resp 404 ''account_not_found'' else error_resp 500 ''delete_account_failed'')
       (\<lambda>_. ok_resp 200)"

section \<open>Administration\<close>

definition AdminApproveRegistration :: "User \<Rightarrow> string \<Rightarrow> resp M" where
  "AdminApproveRegistration admin i =
     respond (ApproveRegistration (u_ID admin) i)
       (\<lambda>e. if e = ErrConflict then error_resp 409 ''already_decided'' else error_resp 400 ''approve_failed'')
       (\<lambda>_. ok_resp 200)"

definition AdminRejectRegistration :: "User \<Rightarrow> string \<Rightarrow> decode_err + string \<Rightarrow> resp M" where
  "AdminRejectRegistration admin i body = with_body body (\<lambda>reason.
     respond (RejectRegistration (u_ID admin) i reason)
       (\<lambda>e. if e = ErrNotFound then error_resp 404 ''registration_not_found''
            else if e = ErrConflict then error_resp 409 ''already_decided''
            else if e = ErrUserStateConflict then error_resp 409 ''registration_user_state_conflict''
            else error_resp 400 ''reject_failed'')
       (\<lambda>_. ok_resp 200))"

text \<open>The loop of a bulk action: the ids applied and the failures with their codes.\<close>

fun bulk :: "(string \<Rightarrow> unit M) \<Rightarrow> (err \<Rightarrow> string) \<Rightarrow> string list \<Rightarrow> (string list \<times> (string \<times> string) list) M" where
  "bulk act code [] = ret ([], [])"
| "bulk act code (raw # ids) =
     (let i = TrimSpace raw in
      if i = [] then bulk act code ids
      else tryM (act i) (\<lambda>r.
           bindM (bulk act code ids) (\<lambda>(applied, failed). case r of
             Inr _ \<Rightarrow> ret (i # applied, failed)
           | Inl e \<Rightarrow> ret (applied, (i, code e) # failed))))"

definition decision_code :: "err \<Rightarrow> string" where
  "decision_code e =
     (if e = ErrNotFound then ''registration_not_found'' else if e = ErrConflict then ''already_decided''
      else if e = ErrUserStateConflict then ''registration_user_state_conflict'' else ''action_failed'')"

definition AdminBulkRegistrationDecision ::
  "User \<Rightarrow> decode_err + string list \<times> string \<times> string \<Rightarrow> resp M" where
  "AdminBulkRegistrationDecision admin body = with_body body (\<lambda>(ids, decision0, reason).
     let decision = TrimSpace (ToLower decision0) in
     if decision \<noteq> ''approve'' \<and> decision \<noteq> ''reject'' then ret (error_resp 400 ''bad_request'')
     else thenM (bulk (\<lambda>i. if decision = ''approve'' then ApproveRegistration (u_ID admin) i
                           else RejectRegistration (u_ID admin) i reason) decision_code ids)
          (ret (ok_resp 200)))"

definition AdminBulkUserAction :: "User \<Rightarrow> decode_err + string list \<times> string \<Rightarrow> resp M" where
  "AdminBulkUserAction admin body = with_body body (\<lambda>(ids, action0).
     let action = TrimSpace (ToLower action0) in
     if action \<noteq> ''suspend'' \<and> action \<noteq> ''unsuspend'' then ret (error_resp 400 ''bad_request'')
     else thenM (bulk (\<lambda>i. if action = ''suspend'' then SuspendUser (u_ID admin) i
                           else UnsuspendUser (u_ID admin) i) (\<lambda>_. ''action_failed'') ids)
          (ret (ok_resp 200)))"

definition AdminCreateUserHandler :: "User \<Rightarrow> decode_err + AdminCreateUserRequest \<Rightarrow> resp M" where
  "AdminCreateUserHandler admin body = with_body body (\<lambda>req.
     respond (AdminCreateUser (u_ID admin) req)
       (\<lambda>e. case e of
          ErrConflict \<Rightarrow> error_resp 409 ''user_exists''
        | ErrRecoveryEmailMatchesLogin \<Rightarrow> error_resp 400 ''recovery_email_matches_login''
        | ErrInvalidRecoveryEmail \<Rightarrow> error_resp 400 ''invalid_recovery_email''
        | ErrPAMVerifierDown \<Rightarrow> error_resp 502 ''pam_verifier_unavailable''
        | PAMCredentialsInvalid _ \<Rightarrow> error_resp 400 ''pam_credentials_invalid''
        | _ \<Rightarrow> error_resp 400 ''create_user_failed'')
       (\<lambda>_. ok_resp 201))"

definition AdminSuspendUser :: "User \<Rightarrow> string \<Rightarrow> resp M" where
  "AdminSuspendUser admin i =
     respond (SuspendUser (u_ID admin) i) (\<lambda>_. error_resp 400 ''suspend_failed'') (\<lambda>_. ok_resp 200)"

definition AdminUnsuspendUser :: "User \<Rightarrow> string \<Rightarrow> resp M" where
  "AdminUnsuspendUser admin i =
     respond (UnsuspendUser (u_ID admin) i) (\<lambda>_. error_resp 400 ''unsuspend_failed'') (\<lambda>_. ok_resp 200)"

definition AdminResetPasswordHandler :: "User \<Rightarrow> string \<Rightarrow> decode_err + string \<Rightarrow> resp M" where
  "AdminResetPasswordHandler admin i body = with_body body (\<lambda>newPassword.
     if newPassword = [] then ret (error_resp 400 ''bad_request'')
     else respond (AdminResetPassword (u_ID admin) i newPassword) reset_error (\<lambda>_. ok_resp 200))"

definition AdminRetryProvisionUser :: "User \<Rightarrow> string \<Rightarrow> resp M" where
  "AdminRetryProvisionUser admin i =
     respond (RetryProvisionUser (u_ID admin) i) (\<lambda>_. error_resp 400 ''retry_provision_failed'') (\<lambda>_. ok_resp 200)"

section \<open>The contract\<close>

context db_contract
begin

lemma with_body_guar [guar_intros]:
  assumes "\<And>b. G (k b) Q" and "Q (error_resp 413 ''request_too_large'')" and "Q (error_resp 400 ''bad_request'')"
  shows "G (with_body body k) Q"
  unfolding with_body_def using assms
  by (auto simp: guar_ret split: sum.split decode_err.split)

lemma respond_guar [guar_intros]: "G m (\<lambda>_. True) \<Longrightarrow> G (respond m f g) (\<lambda>_. True)"
  unfolding respond_def by (rule guar_intros TrueI | assumption)+

lemma setup_gate_guar [guar_intros]:
  "G ensureSetupComplete (\<lambda>_. True)"
  "G k (\<lambda>_. True) \<Longrightarrow> G (after_setup k) (\<lambda>_. True)"
  unfolding ensureSetupComplete_def after_setup_def by (rule guar_intros TrueI | assumption)+

lemma small_steps_guar [guar_intros]:
  "G (allowResetRateKey r k l wi) (\<lambda>_. True)"
  "G randomToken (\<lambda>_. True)"
  "G (sleep d) (\<lambda>_. True)"
  unfolding allowResetRateKey_def randomToken_def Let_def
  by (rule guar_draw guar_intros TrueI | simp add: guar_def sleep_def R_refl)+

lemma issueTrustedDevice_guar [guar_intros]: "G (issueTrustedDevice h r u) (\<lambda>_. True)"
  unfolding issueTrustedDevice_def by (rule guar_bind [OF guar_uuid] guar_intros TrueI | simp)+

lemma trusted_devices_guar [guar_intros]:
  "G (rotateTrustedDevice h r u i) (\<lambda>_. True)"
  "G (tryAuthenticateTrustedDevice h r us s) (\<lambda>_. True)"
  "G (resolveLoginStage h r tok us) (\<lambda>_. True)"
  unfolding rotateTrustedDevice_def tryAuthenticateTrustedDevice_def resolveLoginStage_def Let_def
  by (rule guar_intros TrueI)+

lemma login_handlers_guar [guar_intros]:
  "G (login_failed h r i e) (\<lambda>_. True)"
  "G (LoginHandler h r b) (\<lambda>_. True)"
  "G (LogoutHandler h r) (\<lambda>_. True)"
  unfolding login_failed_def LoginHandler_def LogoutHandler_def Let_def
  by (rule guar_intros TrueI)+

lemma guar_bool [guar_intros]: "G m Q \<Longrightarrow> G m1 Q \<Longrightarrow> G (case b of True \<Rightarrow> m | False \<Rightarrow> m1) Q"
  by (cases b) simp_all

lemma reset_handlers_guar [guar_intros]:
  "G (PasswordResetRequestHandler h b1) (\<lambda>_. True)"
  "G (PasswordResetConfirmHandler b2) (\<lambda>_. True)"
  "G (V2MFARecoveryCodeVerify h r u s b3) (\<lambda>_. True)"
  "G (V2RevokeSession u i b4) (\<lambda>_. True)"
  "G (V2ActivateAccount u i) (\<lambda>_. True)"
  "G (V2DeleteAccount u i) (\<lambda>_. True)"
  unfolding PasswordResetRequestHandler_def PasswordResetConfirmHandler_def V2MFARecoveryCodeVerify_def
    V2RevokeSession_def V2ActivateAccount_def V2DeleteAccount_def Let_def
  by (rule guar_intros TrueI)+

lemma bulk_guar [guar_intros]: "(\<And>i. G (act i) (\<lambda>_. True)) \<Longrightarrow> G (bulk act code ids) (\<lambda>_. True)"
  by (induction ids) (simp_all add: guar_ret, (rule impI guar_intros TrueI | assumption)+)

lemma admin_handlers_guar [guar_intros]:
  "G (AdminApproveRegistration a i) (\<lambda>_. True)"
  "G (AdminRejectRegistration a i b1) (\<lambda>_. True)"
  "G (AdminBulkRegistrationDecision a b2) (\<lambda>_. True)"
  "G (AdminBulkUserAction a b3) (\<lambda>_. True)"
  "G (AdminCreateUserHandler a b4) (\<lambda>_. True)"
  "G (AdminSuspendUser a i) (\<lambda>_. True)"
  "G (AdminUnsuspendUser a i) (\<lambda>_. True)"
  "G (AdminResetPasswordHandler a i b5) (\<lambda>_. True)"
  "G (AdminRetryProvisionUser a i) (\<lambda>_. True)"
  unfolding AdminApproveRegistration_def AdminRejectRegistration_def AdminBulkRegistrationDecision_def
    AdminBulkUserAction_def AdminCreateUserHandler_def AdminSuspendUser_def AdminUnsuspendUser_def
    AdminResetPasswordHandler_def AdminRetryProvisionUser_def Let_def
  by (rule guar_intros TrueI)+

end

end
