(* ===== verification/MfaHandlers.thy ===== *)
theory MfaHandlers
  imports Handlers
begin

text \<open>
  \<^verbatim>\<open>internal/api/router_v2.go\<close> and \<^verbatim>\<open>router.go\<close>: enrolment and verification of second factors, trusted
  devices, registration, the recovery address, the mail secret and the feature flags.
\<close>

section \<open>Helpers\<close>

text \<open>\<open>step_or m on_err k\<close>: a call whose error ends the handler with a response.\<close>

definition step_or :: "'a M \<Rightarrow> (err \<Rightarrow> resp) \<Rightarrow> ('a \<Rightarrow> resp M) \<Rightarrow> resp M" where
  "step_or m on_err k = tryM m (\<lambda>r. case r of Inl e \<Rightarrow> ret (on_err e) | Inr x \<Rightarrow> k x)"

definition code500 :: "string \<Rightarrow> err \<Rightarrow> resp" where "code500 code e = error_resp 500 code"

definition mfaTrustedPendingRememberSettingKey :: "string \<Rightarrow> string" where
  "mfaTrustedPendingRememberSettingKey sessionID = ''mfa:trusted:remember:pending:'' @ TrimSpace sessionID"

definition verifyTOTPCode :: "Handlers \<Rightarrow> string \<Rightarrow> string \<Rightarrow> string \<Rightarrow> bool M" where
  "verifyTOTPCode h userID secret code0 =
     (let code = TrimSpace code0 in
      if code = [] then ret False
      else bindM (askM (\<lambda>sv. MailSecEnabled (cfg sv))) (\<lambda>mailsec.
        if \<not> mailsec then bindM time_Now (\<lambda>now. ret (totp_Validate h now code secret))
        else bindM (draw (\<lambda>sv n. mailsec_totp h n userID secret code)) liftE))"

fun recovery_codes :: "nat \<Rightarrow> string list M" where
  "recovery_codes 0 = ret []"
| "recovery_codes (Suc n) =
     bindM randomToken (\<lambda>raw.
     bindM (recovery_codes n) (\<lambda>rest.
     ret (ToUpper (if length raw > 12 then take 12 raw else raw) # rest)))"

definition generateRecoveryCodes :: "int \<Rightarrow> string list M" where
  "generateRecoveryCodes n = recovery_codes (nat (if n \<le> 0 then 10 else n))"

definition totp_secret :: "MFATOTPRecord \<Rightarrow> string M" where
  "totp_secret rec =
     bindM (askM (\<lambda>sv. DecryptString (aes_gcm sv) (encryptKey sv) (tp_SecretEnc rec)))
       (\<lambda>r. case r of Inl e \<Rightarrow> fail (SecretErr e) | Inr s \<Rightarrow> ret s)"

text \<open>\<^verbatim>\<open>if remember { issueTrustedDevice }\<close>, then the rest with the cookies set.\<close>

definition remembering ::
  "bool \<Rightarrow> Handlers \<Rightarrow> http_req \<Rightarrow> string \<Rightarrow> string \<Rightarrow> ((string \<times> string) list \<Rightarrow> resp M) \<Rightarrow> resp M" where
  "remembering remember h r userID code k =
     (if remember then step_or (issueTrustedDevice h r userID) (code500 code) (\<lambda>c. k [c]) else k [])"

section \<open>TOTP\<close>

definition V2MFATOTPVerify ::
  "Handlers \<Rightarrow> http_req \<Rightarrow> User \<Rightarrow> Session option \<Rightarrow> decode_err + string \<times> bool \<Rightarrow> resp M" where
  "V2MFATOTPVerify h r u session body = with_body body (\<lambda>(code, remember).
     step_or (GetMFATOTP (u_ID u))
       (\<lambda>e. if e = ErrNotFound then error_resp 404 ''totp_not_enrolled'' else error_resp 500 ''internal_error'')
     (\<lambda>rec.
       if \<not> tp_Enabled rec then ret (error_resp 400 ''totp_not_enabled'')
       else step_or (totp_secret rec) (code500 ''internal_error'') (\<lambda>secret.
       step_or (verifyTOTPCode h (u_ID u) secret code) (\<lambda>_. error_resp 503 ''totp_verifier_unavailable'')
       (\<lambda>valid.
         if \<not> valid then ret (error_resp 401 ''invalid_totp_code'')
         else case session of
           None \<Rightarrow> ret (error_resp 401 ''session_missing'')
         | Some sess \<Rightarrow>
             step_or (SetSessionMFAVerified (s_ID sess) ''totp'') (code500 ''internal_error'') (\<lambda>_.
             remembering remember h r (u_ID u) ''internal_error'' (\<lambda>cookies.
             ret ((ok_resp 200)\<lparr>rs_cookies := cookies\<rparr>)))))))"

definition V2MFAEnrollTOTP :: "Handlers \<Rightarrow> User \<Rightarrow> decode_err + string \<Rightarrow> resp M" where
  "V2MFAEnrollTOTP h u body = with_body body (\<lambda>issuer0.
     let issuer = (if TrimSpace issuer0 = [] then ''Despatch'' else TrimSpace issuer0);
         failed = code500 ''totp_enroll_failed'' in
     step_or (bindM (draw rand) (\<lambda>g. case g 20 of None \<Rightarrow> fail (SecretErr RandError)
                | Some bytes \<Rightarrow> ret (totp_Generate h issuer (u_Email u) bytes))) failed (\<lambda>(secret, url).
     step_or (util_EncryptString secret) failed (\<lambda>enc.
     bindM time_Now (\<lambda>now.
     step_or (UpsertMFATOTP \<lparr>tp_UserID = u_ID u, tp_SecretEnc = enc, tp_Issuer = issuer,
        tp_AccountName = u_Email u, tp_Enabled = False, tp_EnrolledAt = None, tp_UpdatedAt = now\<rparr>) failed (\<lambda>_.
     step_or (generateRecoveryCodes 10) failed (\<lambda>codes.
     bindM (askM (\<lambda>sv. map (hex_sha256 (sha256 sv)) codes)) (\<lambda>hashes.
     step_or (ReplaceMFARecoveryCodes (u_ID u) hashes) failed (\<lambda>_.
     ret (if qrcode_Encode h url then ok_resp 200 else error_resp 500 ''totp_enroll_failed'')))))))))"

text \<open>The end shared by \<^verbatim>\<open>V2MFAConfirmTOTP\<close> and \<^verbatim>\<open>V2MFARecoveryCodesAck\<close>: the pending markers are
  cleared and the new stage is resolved.\<close>

definition mfa_done :: "User \<Rightarrow> Session \<Rightarrow> string \<Rightarrow> (string \<times> string) list \<Rightarrow> resp M" where
  "mfa_done u sess code cookies =
     ignoreM (DeleteSetting (mfaTrustedPendingRememberSettingKey (s_ID sess)))
     (ignoreM (SetLegacyMFAPromptPending (u_ID u) False)
     (bindM time_Now (\<lambda>now.
     step_or (ResolveMFAStage (u\<lparr>u_MFABackupCompleted := True\<rparr>) (Some (sess\<lparr>s_MFAVerifiedAt := Some now\<rparr>)))
       (\<lambda>e. (error_resp 500 code)\<lparr>rs_cookies := cookies\<rparr>)
       (\<lambda>_. ret ((ok_resp 200)\<lparr>rs_cookies := cookies\<rparr>)))))"

definition V2MFAConfirmTOTP ::
  "Handlers \<Rightarrow> http_req \<Rightarrow> User \<Rightarrow> Session option \<Rightarrow> decode_err + string \<times> bool \<times> bool \<Rightarrow> resp M" where
  "V2MFAConfirmTOTP h r u session body = (case session of
     None \<Rightarrow> ret (error_resp 401 ''session_missing'')
   | Some sess \<Rightarrow> with_body body (\<lambda>(code, ack, remember).
       let failed = code500 ''totp_confirm_failed'' in
       if \<not> ack then ret (error_resp 400 ''recovery_codes_ack_required'')
       else step_or (GetMFATOTP (u_ID u)) (\<lambda>_. error_resp 404 ''totp_not_enrolled'') (\<lambda>rec.
       step_or (totp_secret rec) failed (\<lambda>secret.
       step_or (verifyTOTPCode h (u_ID u) secret code) (\<lambda>_. error_resp 503 ''totp_verifier_unavailable'')
       (\<lambda>valid.
         if \<not> valid then ret (error_resp 401 ''invalid_totp_code'')
         else bindM time_Now (\<lambda>now.
         step_or (UpsertMFATOTP (rec\<lparr>tp_Enabled := True, tp_EnrolledAt := Some now\<rparr>)) failed (\<lambda>_.
         step_or (SetUserMFABackupCompleted (u_ID u) True) failed (\<lambda>_.
         step_or (SetSessionMFAVerified (s_ID sess) ''totp_setup'') failed (\<lambda>_.
         remembering remember h r (u_ID u) ''totp_confirm_failed''
           (mfa_done u sess ''totp_confirm_failed''))))))))))"

section \<open>Backup confirmation and preference\<close>

definition V2MFARecoveryCodesAck ::
  "Handlers \<Rightarrow> http_req \<Rightarrow> User \<Rightarrow> Session option \<Rightarrow> decode_err + bool \<times> bool \<Rightarrow> resp M" where
  "V2MFARecoveryCodesAck h r u session body = (case session of
     None \<Rightarrow> ret (error_resp 401 ''session_missing'')
   | Some sess \<Rightarrow> with_body body (\<lambda>(ack, remember).
       let failed = code500 ''mfa_backup_ack_failed'' in
       if \<not> ack then ret (error_resp 400 ''recovery_codes_ack_required'')
       else step_or (GetMFAStatus (u_ID u)) failed (\<lambda>st.
       if \<not> TOTPEnabled st \<and> WebAuthnCount st = 0 then ret (error_resp 409 ''mfa_primary_factor_missing'')
       else step_or (SetUserMFABackupCompleted (u_ID u) True) failed (\<lambda>_.
       step_or (SetSessionMFAVerified (s_ID sess) ''mfa_backup_ack'') failed (\<lambda>_.
       tryM (GetSetting (mfaTrustedPendingRememberSettingKey (s_ID sess))) (\<lambda>p.
       let pending = (case p of Inr (Some raw) \<Rightarrow> TrimSpace raw = ''1'' | _ \<Rightarrow> False) in
       remembering (remember \<or> pending) h r (u_ID u) ''mfa_backup_ack_failed''
         (mfa_done u sess ''mfa_backup_ack_failed'')))))))"

definition V2MFALegacyDismiss :: "User \<Rightarrow> Session \<Rightarrow> resp M" where
  "V2MFALegacyDismiss u sess =
     (let failed = code500 ''mfa_legacy_dismiss_failed'' in
      step_or (SetLegacyMFAPromptPending (u_ID u) False) failed (\<lambda>_.
      step_or (ResolveMFAStage (u\<lparr>u_LegacyMFAPromptPending := False\<rparr>) (Some sess)) failed (\<lambda>_.
      ret (ok_resp 200))))"

definition V2MFAUpdatePreference :: "User \<Rightarrow> Session \<Rightarrow> decode_err + string \<Rightarrow> resp M" where
  "V2MFAUpdatePreference u sess body = with_body body (\<lambda>preference.
     let target = NormalizeMFAPreference preference;
         failed = code500 ''mfa_preference_update_failed'' in
     if target \<noteq> MFAPreferenceTOTP \<and> target \<noteq> MFAPreferenceWebAuthn then ret (error_resp 400 ''bad_request'')
     else step_or (ResolveMFAStage u (Some sess)) failed (\<lambda>stage.
     if \<not> MFASetupRequired stage then ret (error_resp 409 ''mfa_preference_switch_not_allowed'')
     else if MFAPreference stage = target then ret (ok_resp 200)
     else if MFAPreference stage \<noteq> MFAPreferenceTOTP \<and> MFAPreference stage \<noteq> MFAPreferenceWebAuthn
     then ret (error_resp 409 ''mfa_preference_switch_not_allowed'')
     else if u_MFASetupSwitchUsed u then ret (error_resp 409 ''mfa_preference_switch_exhausted'')
     else step_or (UpdateUserMFAPreference (u_ID u) target) failed (\<lambda>_.
     step_or (MarkMFASetupSwitchUsed (u_ID u)) failed (\<lambda>_.
     step_or (GetUserByID (u_ID u)) failed (\<lambda>updatedUser.
     step_or (ResolveMFAStage updatedUser (Some sess)) failed (\<lambda>_.
     ret (ok_resp 200)))))))"

section \<open>Credentials and trusted devices\<close>

definition V2MFAWebAuthnDelete :: "User \<Rightarrow> string \<Rightarrow> resp M" where
  "V2MFAWebAuthnDelete u i0 =
     (let i = TrimSpace i0 in
      if i = [] then ret (error_resp 400 ''bad_request'')
      else step_or (DeleteMFAWebAuthnCredential (u_ID u) i)
        (\<lambda>e. if e = ErrNotFound then error_resp 404 ''credential_not_found'' else error_resp 500 ''webauthn_delete_failed'')
      (\<lambda>_. bindM (askM (\<lambda>sv. json_Marshal sv [(''credential'', JStr i)])) (\<lambda>meta.
        ignoreM (InsertAudit (u_ID u) ''auth.passkey.delete'' (u_ID u) meta)
        (ret (ok_resp 200)))))"

definition V2MFAWebAuthnRename :: "User \<Rightarrow> string \<Rightarrow> decode_err + string \<Rightarrow> resp M" where
  "V2MFAWebAuthnRename u i0 body =
     (let i = TrimSpace i0 in
      if i = [] then ret (error_resp 400 ''bad_request'')
      else with_body body (\<lambda>name.
        if TrimSpace name = [] then ret (error_resp 400 ''bad_request'')
        else step_or (RenameMFAWebAuthnCredential (u_ID u) i name)
          (\<lambda>e. if e = ErrNotFound then error_resp 404 ''credential_not_found'' else error_resp 500 ''webauthn_rename_failed'')
          (\<lambda>_. ret (ok_resp 200))))"

definition current_device :: "Handlers \<Rightarrow> http_req \<Rightarrow> User \<Rightarrow> string M" where
  "current_device h r u =
     (let v = (case hr_cookie r (trustedDeviceCookieName h) of None \<Rightarrow> [] | Some v \<Rightarrow> v) in
      if TrimSpace v = [] then ret []
      else bindM (askM (\<lambda>sv. trustedDeviceTokenHash sv v)) (\<lambda>th.
           bindM time_Now (\<lambda>now.
           tryM (GetActiveMFATrustedDeviceByTokenHash (u_ID u) th now) (\<lambda>x. case x of
             Inl _ \<Rightarrow> ret [] | Inr d \<Rightarrow> ret (td_ID d)))))"

definition V2RevokeTrustedDevice :: "Handlers \<Rightarrow> http_req \<Rightarrow> User \<Rightarrow> string \<Rightarrow> resp M" where
  "V2RevokeTrustedDevice h r u target0 =
     (let target = TrimSpace target0 in
      if target = [] then ret (error_resp 400 ''bad_request'')
      else bindM (current_device h r u) (\<lambda>current.
        step_or (RevokeMFATrustedDevice (u_ID u) target)
          (\<lambda>e. if e = ErrNotFound then error_resp 404 ''trusted_device_not_found''
               else error_resp 500 ''trusted_device_revoke_failed'')
        (\<lambda>_. ret ((ok_resp 200)\<lparr>rs_cookies :=
            (if current \<noteq> [] \<and> current = target then [(trustedDeviceCookieName h, [])] else [])\<rparr>))))"

definition V2RevokeAllTrustedDevices :: "Handlers \<Rightarrow> User \<Rightarrow> resp M" where
  "V2RevokeAllTrustedDevices h u =
     step_or (RevokeAllMFATrustedDevices (u_ID u)) (code500 ''trusted_device_revoke_failed'')
       (\<lambda>_. ret ((ok_resp 200)\<lparr>rs_cookies := [(trustedDeviceCookieName h, [])]\<rparr>))"

section \<open>Registration, recovery address, mail secret, feature flags\<close>

record registerRequest =
  rq_Email :: string
  rq_RecoveryEmail :: string
  rq_Password :: string
  rq_CaptchaToken :: string
  rq_MFAPreference :: string

definition recovery_email_error :: "string \<Rightarrow> err \<Rightarrow> resp" where
  "recovery_email_error code e = (case e of
     ErrRecoveryEmailRequired \<Rightarrow> error_resp 400 ''recovery_email_required''
   | ErrRecoveryEmailMatchesLogin \<Rightarrow> error_resp 400 ''recovery_email_matches_login''
   | ErrInvalidRecoveryEmail \<Rightarrow> error_resp 400 ''invalid_recovery_email''
   | _ \<Rightarrow> error_resp 400 code)"

definition RegisterHandler :: "Handlers \<Rightarrow> http_req \<Rightarrow> decode_err + registerRequest \<Rightarrow> resp M" where
  "RegisterHandler h r body = after_setup
     (step_or InstanceMode (code500 ''internal_error'') (\<lambda>mode.
      if NormalizeInstanceMode mode = InstanceModeExternalAccounts then ret (error_resp 403 ''registration_disabled'')
      else with_body body (\<lambda>req.
        let register = respond (Register (rq_Email req) (rq_Password req) (rq_RecoveryEmail req)
                 (hr_remote r) (hr_agent r) True (rq_MFAPreference req))
               (recovery_email_error ''register_failed'') (\<lambda>_. ok_resp 201) in
        bindM (askM (\<lambda>sv. CaptchaEnabled (cfg sv))) (\<lambda>captcha.
        if \<not> captcha then register
        else bindM (draw (\<lambda>sv n. captcha_Verify h n (rq_CaptchaToken req) (ClientIP r (TrustProxy h)))) (\<lambda>a. case a of
          CaptchaOk \<Rightarrow> register
        | CaptchaUnavailable \<Rightarrow> ret (error_resp 503 ''captcha_unavailable'')
        | CaptchaRejected \<Rightarrow> ret (error_resp 400 ''captcha_required''))))))"

definition MeUpdateRecoveryEmail :: "User \<Rightarrow> decode_err + string \<Rightarrow> resp M" where
  "MeUpdateRecoveryEmail u body = with_body body (\<lambda>email.
     respond (UpdateRecoveryEmail (u_ID u) email)
       (\<lambda>e. if e = ErrInvalidRecoveryEmail \<or> e = ErrRecoveryEmailRequired then error_resp 400 ''invalid_recovery_email''
            else if e = ErrRecoveryEmailMatchesLogin then error_resp 400 ''recovery_email_matches_login''
            else error_resp 500 ''internal_error'')
       (\<lambda>_. ok_resp 200))"

definition sessionMailSecretUnlock :: "User \<Rightarrow> Session \<Rightarrow> decode_err + string \<Rightarrow> resp M" where
  "sessionMailSecretUnlock u sess body = with_body body (\<lambda>password.
     respond (UnlockSessionMailSecret (u_ID u) (s_ID sess) password)
       (\<lambda>e. if e = ErrPAMVerifierDown then error_resp 502 ''pam_verifier_unavailable''
            else if e = ErrInvalidCredentials then error_resp 401 ''invalid_credentials''
            else if e = ErrNotFound then error_resp 401 ''session_invalid''
            else error_resp 500 ''mail_secret_unlock_failed'')
       (\<lambda>_. ok_resp 200))"

definition flag_error :: "err \<Rightarrow> resp" where
  "flag_error e =
     (if e = ErrFeatureFlagNotFound then error_resp 404 ''feature_flag_not_found''
      else if e = ErrFeatureFlagReadOnly then error_resp 400 ''feature_flag_read_only''
      else error_resp 500 ''internal_error'')"

definition AdminSetFeatureFlag :: "User \<Rightarrow> string \<Rightarrow> decode_err + bool option \<Rightarrow> resp M" where
  "AdminSetFeatureFlag admin i0 body =
     (let i = TrimSpace i0 in
      if i = [] then ret (error_resp 400 ''bad_request'')
      else with_body body (\<lambda>enabled. case enabled of
        None \<Rightarrow> ret (error_resp 400 ''bad_request'')
      | Some b \<Rightarrow> respond (SetFeatureFlag (u_ID admin) i b) flag_error (\<lambda>_. ok_resp 200)))"

definition AdminResetFeatureFlag :: "User \<Rightarrow> string \<Rightarrow> resp M" where
  "AdminResetFeatureFlag admin i0 =
     (let i = TrimSpace i0 in
      if i = [] then ret (error_resp 400 ''bad_request'')
      else respond (ResetFeatureFlag (u_ID admin) i) flag_error (\<lambda>_. ok_resp 200))"

section \<open>The contract\<close>

context db_contract
begin

lemma step_or_guar [guar_intros]:
  "G m (\<lambda>_. True) \<Longrightarrow> (\<And>x. G (k x) (\<lambda>_. True)) \<Longrightarrow> G (step_or m f k) (\<lambda>_. True)"
  unfolding step_or_def by (rule guar_intros TrueI | assumption)+

lemma recovery_codes_guar: "G (recovery_codes n) (\<lambda>_. True)"
  by (induction n) (simp_all add: guar_ret, (rule guar_intros TrueI | assumption)+)

lemma mfa_parts_guar [guar_intros]:
  "G (verifyTOTPCode h u s c) (\<lambda>_. True)"
  "G (generateRecoveryCodes m) (\<lambda>_. True)"
  "G (totp_secret rec) (\<lambda>_. True)"
  "G (mfa_done us se code cookies) (\<lambda>_. True)"
  "G (current_device h r us) (\<lambda>_. True)"
  unfolding verifyTOTPCode_def generateRecoveryCodes_def totp_secret_def mfa_done_def current_device_def Let_def
  by (rule recovery_codes_guar guar_draw guar_intros TrueI)+

lemma remembering_guar [guar_intros]:
  "(\<And>c. G (k c) (\<lambda>_. True)) \<Longrightarrow> G (remembering b h r u code k) (\<lambda>_. True)"
  unfolding remembering_def by (rule guar_intros TrueI | assumption)+

lemma guar_captcha [guar_intros]:
  "G m Q \<Longrightarrow> G m1 Q \<Longrightarrow> G m2 Q
   \<Longrightarrow> G (case a of CaptchaOk \<Rightarrow> m | CaptchaUnavailable \<Rightarrow> m1 | CaptchaRejected \<Rightarrow> m2) Q"
  by (cases a) simp_all

lemma totp_handlers_guar [guar_intros]:
  "G (V2MFATOTPVerify h r u s b1) (\<lambda>_. True)"
  "G (V2MFAEnrollTOTP h u b2) (\<lambda>_. True)"
  "G (V2MFAConfirmTOTP h r u s b3) (\<lambda>_. True)"
  "G (V2MFARecoveryCodesAck h r u s b4) (\<lambda>_. True)"
  "G (V2MFALegacyDismiss u s') (\<lambda>_. True)"
  "G (V2MFAUpdatePreference u s' b5) (\<lambda>_. True)"
  unfolding V2MFATOTPVerify_def V2MFAEnrollTOTP_def V2MFAConfirmTOTP_def V2MFARecoveryCodesAck_def
    V2MFALegacyDismiss_def V2MFAUpdatePreference_def Let_def
  by (rule guar_draw guar_intros TrueI)+

lemma device_handlers_guar [guar_intros]:
  "G (V2MFAWebAuthnDelete u i) (\<lambda>_. True)"
  "G (V2MFAWebAuthnRename u i b1) (\<lambda>_. True)"
  "G (V2RevokeTrustedDevice h r u i) (\<lambda>_. True)"
  "G (V2RevokeAllTrustedDevices h u) (\<lambda>_. True)"
  unfolding V2MFAWebAuthnDelete_def V2MFAWebAuthnRename_def V2RevokeTrustedDevice_def
    V2RevokeAllTrustedDevices_def Let_def
  by (rule guar_intros TrueI)+

lemma account_handlers_guar [guar_intros]:
  "G (RegisterHandler h r b1) (\<lambda>_. True)"
  "G (MeUpdateRecoveryEmail u b2) (\<lambda>_. True)"
  "G (sessionMailSecretUnlock u s b3) (\<lambda>_. True)"
  "G (AdminSetFeatureFlag u i b4) (\<lambda>_. True)"
  "G (AdminResetFeatureFlag u i) (\<lambda>_. True)"
  unfolding RegisterHandler_def MeUpdateRecoveryEmail_def sessionMailSecretUnlock_def
    AdminSetFeatureFlag_def AdminResetFeatureFlag_def Let_def
  by (rule guar_draw guar_intros TrueI)+

end

end
