(* ===== verification/Router.thy ===== *)
theory Router
  imports MfaHandlers
begin

text \<open>
  \<^verbatim>\<open>internal/api/router.go\<close>, the routing table: which middleware stands in front of which handler, and
  runs of the server.  A run serves requests one after the other; between the database statements
  of one request other requests may be served, themselves interleaved with others to a given
  depth.  \<open>row_invariant\<close> is the locale of properties that every run keeps because no table
  statement of the program can break them row by row.
\<close>

section \<open>Routes\<close>

datatype public_route =
    PostLogin "decode_err + loginRequest"
  | PostLogout
  | PostRegister "decode_err + registerRequest"
  | PostResetRequest "decode_err + string"
  | PostResetConfirm "decode_err + string \<times> string"

datatype session_route =
    PostMailSecretUnlock "decode_err + string"
  | PostTOTPVerify "decode_err + string \<times> bool"
  | PostRecoveryCodeVerify "decode_err + string \<times> bool"
  | PostTOTPEnroll "decode_err + string"
  | PostTOTPConfirm "decode_err + string \<times> bool \<times> bool"
  | PostRecoveryCodesAck "decode_err + bool \<times> bool"
  | PostMFAPreference "decode_err + string"
  | PostLegacyDismiss

datatype user_route =
    PostRecoveryEmail "decode_err + string"
  | DeleteAccount string
  | PostActivateAccount string
  | PatchWebAuthn string "decode_err + string"
  | DeleteWebAuthn string
  | PostRevokeAllDevices
  | PostRevokeDevice string
  | PostRevokeSession string "decode_err + string"

datatype admin_route =
    PostApproveRegistration string
  | PostRejectRegistration string "decode_err + string"
  | PostBulkDecision "decode_err + string list \<times> string \<times> string"
  | PostUsers "decode_err + AdminCreateUserRequest"
  | PostSuspend string
  | PostUnsuspend string
  | PostBulkAction "decode_err + string list \<times> string"
  | PostResetPassword string "decode_err + string"
  | PostRetryProvision string
  | PostFeatureFlag string "decode_err + bool option"
  | PostFeatureFlagReset string

text \<open>\<open>Call\<close> stands for the requests whose handlers are not modelled: the service operation they run.\<close>

datatype service_call =
    CallCompleteSetup SetupCompleteRequest string string
  | CallPasskeySession User string string string
  | CallSendRecoveryCode User string

datatype request =
    Public http_req public_route
  | WithSession http_req session_route
  | WithUser http_req user_route
  | WithAdmin http_req admin_route
  | Call service_call

fun public_handler :: "Handlers \<Rightarrow> http_req \<Rightarrow> public_route \<Rightarrow> resp M" where
  "public_handler h r (PostLogin b) = LoginHandler h r b"
| "public_handler h r PostLogout = LogoutHandler h r"
| "public_handler h r (PostRegister b) = RegisterHandler h r b"
| "public_handler h r (PostResetRequest b) = PasswordResetRequestHandler h b"
| "public_handler h r (PostResetConfirm b) = PasswordResetConfirmHandler b"

fun session_handler :: "Handlers \<Rightarrow> http_req \<Rightarrow> session_route \<Rightarrow> User \<Rightarrow> Session \<Rightarrow> resp M" where
  "session_handler h r (PostMailSecretUnlock b) u s = sessionMailSecretUnlock u s b"
| "session_handler h r (PostTOTPVerify b) u s = V2MFATOTPVerify h r u (Some s) b"
| "session_handler h r (PostRecoveryCodeVerify b) u s = V2MFARecoveryCodeVerify h r u (Some s) b"
| "session_handler h r (PostTOTPEnroll b) u s = V2MFAEnrollTOTP h u b"
| "session_handler h r (PostTOTPConfirm b) u s = V2MFAConfirmTOTP h r u (Some s) b"
| "session_handler h r (PostRecoveryCodesAck b) u s = V2MFARecoveryCodesAck h r u (Some s) b"
| "session_handler h r (PostMFAPreference b) u s = V2MFAUpdatePreference u s b"
| "session_handler h r PostLegacyDismiss u s = V2MFALegacyDismiss u s"

fun user_handler :: "Handlers \<Rightarrow> http_req \<Rightarrow> user_route \<Rightarrow> User \<Rightarrow> Session \<Rightarrow> resp M" where
  "user_handler h r (PostRecoveryEmail b) u s = MeUpdateRecoveryEmail u b"
| "user_handler h r (DeleteAccount i) u s = V2DeleteAccount u i"
| "user_handler h r (PostActivateAccount i) u s = V2ActivateAccount u i"
| "user_handler h r (PatchWebAuthn i b) u s = V2MFAWebAuthnRename u i b"
| "user_handler h r (DeleteWebAuthn i) u s = V2MFAWebAuthnDelete u i"
| "user_handler h r PostRevokeAllDevices u s = V2RevokeAllTrustedDevices h u"
| "user_handler h r (PostRevokeDevice i) u s = V2RevokeTrustedDevice h r u i"
| "user_handler h r (PostRevokeSession i b) u s = V2RevokeSession u i b"

fun admin_handler :: "admin_route \<Rightarrow> User \<Rightarrow> resp M" where
  "admin_handler (PostApproveRegistration i) u = AdminApproveRegistration u i"
| "admin_handler (PostRejectRegistration i b) u = AdminRejectRegistration u i b"
| "admin_handler (PostBulkDecision b) u = AdminBulkRegistrationDecision u b"
| "admin_handler (PostUsers b) u = AdminCreateUserHandler u b"
| "admin_handler (PostSuspend i) u = AdminSuspendUser u i"
| "admin_handler (PostUnsuspend i) u = AdminUnsuspendUser u i"
| "admin_handler (PostBulkAction b) u = AdminBulkUserAction u b"
| "admin_handler (PostResetPassword i b) u = AdminResetPasswordHandler u i b"
| "admin_handler (PostRetryProvision i) u = AdminRetryProvisionUser u i"
| "admin_handler (PostFeatureFlag i b) u = AdminSetFeatureFlag u i b"
| "admin_handler (PostFeatureFlagReset i) u = AdminResetFeatureFlag u i"

fun service_handler :: "service_call \<Rightarrow> resp M" where
  "service_handler (CallCompleteSetup req ip ua) =
     respond (CompleteSetup req ip ua) (\<lambda>_. error_resp 400 ''setup_failed'') (\<lambda>_. ok_resp 200)"
| "service_handler (CallPasskeySession u ip ua secret) =
     respond (CreatePasskeySession u ip ua secret) (\<lambda>_. error_resp 401 ''invalid_credentials'') (\<lambda>_. ok_resp 200)"
| "service_handler (CallSendRecoveryCode u code) =
     respond (SendRecoveryEmailMFACode u code) (\<lambda>_. error_resp 503 ''delivery_failed'') (\<lambda>_. ok_resp 200)"

section \<open>The middleware chains\<close>

definition csrf_then :: "Handlers \<Rightarrow> http_req \<Rightarrow> resp M \<Rightarrow> resp M" where
  "csrf_then h r k = (case CSRFFromCookie h r of Some resp \<Rightarrow> ret resp | None \<Rightarrow> k)"

definition session_chain :: "Handlers \<Rightarrow> http_req \<Rightarrow> (User \<Rightarrow> Session \<Rightarrow> resp M) \<Rightarrow> resp M" where
  "session_chain h r next =
     bindM (Authn h r) (\<lambda>a. case a of Inl resp \<Rightarrow> ret resp | Inr (u, s) \<Rightarrow> csrf_then h r (next u s))"

definition user_chain :: "Handlers \<Rightarrow> http_req \<Rightarrow> (User \<Rightarrow> Session \<Rightarrow> resp M) \<Rightarrow> resp M" where
  "user_chain h r next =
     bindM (Authn h r) (\<lambda>a. case a of
       Inl resp \<Rightarrow> ret resp
     | Inr (u, s) \<Rightarrow>
         bindM (RequireMFAStageAuthenticated (Some u) (Some s)) (\<lambda>b. case b of
           Some resp \<Rightarrow> ret resp
         | None \<Rightarrow> csrf_then h r (next u s)))"

fun serve :: "Handlers \<Rightarrow> request \<Rightarrow> resp M" where
  "serve h (Public r route) = public_handler h r route"
| "serve h (WithSession r route) = session_chain h r (session_handler h r route)"
| "serve h (WithUser r route) = user_chain h r (user_handler h r route)"
| "serve h (WithAdmin r route) = admin_chain h r (\<lambda>u s. admin_handler route u)"
| "serve h (Call c) = service_handler c"

text \<open>A handler answers its request; an error it does not answer (a failed draw of randomness in a
  helper) ends that request only.\<close>

fun serve_all :: "Handlers \<Rightarrow> request list \<Rightarrow> unit M" where
  "serve_all h [] = ret ()"
| "serve_all h (r # rs) = ignoreM (serve h r) (serve_all h rs)"

section \<open>Interleaving\<close>

text \<open>What happens before the \<open>n\<close>-th statement: other requests, at some clock, with their own draws.\<close>

record batch =
  b_clock :: gotime
  b_draws :: nat
  b_requests :: "request list"

primrec interleaved :: "Handlers \<Rightarrow> (nat \<Rightarrow> nat \<Rightarrow> batch) \<Rightarrow> Svc \<Rightarrow> nat \<Rightarrow> Svc" where
  "interleaved h plan sv 0 = alone sv"
| "interleaved h plan sv (Suc k) = sv\<lparr>others := \<lambda>n d.
     w_db (snd (serve_all h (b_requests (plan k n)) (interleaved h plan sv k)
       \<lparr>w_db = d, w_now = b_clock (plan k n), w_n = b_draws (plan k n), w_log = []\<rparr>))\<rparr>"

lemma interleaved_fields [simp]:
  "uuid (interleaved h plan sv k) = uuid sv" "rand (interleaved h plan sv k) = rand sv"
  "sha256 (interleaved h plan sv k) = sha256 sv" "cfg (interleaved h plan sv k) = cfg sv"
  "db_fault (interleaved h plan sv k) = db_fault sv" "tick (interleaved h plan sv k) = tick sv"
  by (induction k) (simp_all add: alone_def)

section \<open>Every request keeps the contract\<close>

context db_contract
begin

lemma handlers_guar [guar_intros]:
  "G (public_handler h r a) (\<lambda>_. True)"
  "G (session_handler h r b u s) (\<lambda>_. True)"
  "G (user_handler h r c u s) (\<lambda>_. True)"
  "G (admin_handler d u) (\<lambda>_. True)"
  "G (service_handler e) (\<lambda>_. True)"
  apply (cases a; simp; (rule guar_intros)+)
  apply (cases b; simp; (rule guar_intros)+)
  apply (cases c; simp; (rule guar_intros)+)
  apply (cases d; simp; (rule guar_intros)+)
  apply (cases e; simp; (rule guar_intros)+)
  done

lemma chains_guar [guar_intros]:
  "(\<And>u s. G (f u s) (\<lambda>_. True)) \<Longrightarrow> G (session_chain h r f) (\<lambda>_. True)"
  "(\<And>u s. G (f u s) (\<lambda>_. True)) \<Longrightarrow> G (user_chain h r f) (\<lambda>_. True)"
  unfolding session_chain_def user_chain_def csrf_then_def by (rule guar_intros TrueI | assumption)+

lemma serve_guar [guar_intros]: "G (serve h req) (\<lambda>_. True)"
  by (cases req; simp; (rule guar_intros)+)

lemma serve_all_guar [guar_intros]: "G (serve_all h reqs) (\<lambda>_. True)"
  by (induction reqs) (simp_all add: guar_ret, (rule guar_intros | assumption)+)

text \<open>So interleaved requests respect any relation that a lone service respects.\<close>

lemma rely_interleaved:
  assumes "rely R okId okHash (alone sv)"
  shows "rely R okId okHash (interleaved h plan sv k)"
proof (induction k)
  case (Suc k)
  have "R d (w_db (snd (serve_all h reqs (interleaved h plan sv k) w)))" if "w_db w = d" for d reqs w
    using guar_R [OF serve_all_guar Suc.IH, of w] that by blast
  then show ?case using assms by (simp add: rely_def alone_def)
qed (use assms in simp)

end

end
