(* ===== verification/Lifecycle.thy ===== *)
theory Lifecycle
  imports Router Demo
begin

text \<open>
  Properties of whole runs of the server: what stays true over any sequence of requests, interleaved
  in any way.
\<close>

section \<open>Row invariants\<close>

text \<open>Four predicates, one for each table whose rows carry a right that must not come back: sessions,
  reset tokens, trusted devices and recovery codes.\<close>

record row_preds =
  ok_session :: "Session \<Rightarrow> bool"
  ok_token :: "PasswordResetToken \<Rightarrow> bool"
  ok_device :: "MFATrustedDevice \<Rightarrow> bool"
  ok_code :: "recovery_code \<Rightarrow> bool"

definition any_row :: row_preds where
  "any_row = \<lparr>ok_session = \<lambda>_. True, ok_token = \<lambda>_. True, ok_device = \<lambda>_. True, ok_code = \<lambda>_. True\<rparr>"

definition rows_ok :: "row_preds \<Rightarrow> db \<Rightarrow> bool" where
  "rows_ok I d \<longleftrightarrow>
     list_all (ok_session I) (sessions d) \<and> list_all (ok_token I) (password_reset_tokens d)
     \<and> list_all (ok_device I) (mfa_trusted_devices d) \<and> list_all (ok_code I) (mfa_recovery_codes d)"

definition keeps :: "row_preds \<Rightarrow> db \<Rightarrow> db \<Rightarrow> bool" where
  "keeps I d d' \<longleftrightarrow> (wf_db d \<longrightarrow> wf_db d') \<and> (rows_ok I d \<longrightarrow> rows_ok I d')"

locale row_invariant =
  fixes I :: row_preds and okId :: "string \<Rightarrow> bool" and okHash :: "string \<Rightarrow> bool"
  assumes session_kept: "ok_session I s \<Longrightarrow> session_step s s' \<Longrightarrow> ok_session I s'"
    and session_new: "okId (s_ID s) \<Longrightarrow> okHash (s_TokenHash s) \<Longrightarrow> ok_session I s"
    and token_kept: "ok_token I t \<Longrightarrow> token_step t t' \<Longrightarrow> ok_token I t'"
    and token_new: "okHash (t_TokenHash t) \<Longrightarrow> ok_token I t"
    and device_kept: "ok_device I d \<Longrightarrow> device_step d d' \<Longrightarrow> ok_device I d'"
    and device_new: "okId (td_ID d) \<Longrightarrow> ok_device I d"
    and code_kept: "ok_code I c \<Longrightarrow> code_step c c' \<Longrightarrow> ok_code I c'"
    and code_new: "okId (rc_id c) \<Longrightarrow> ok_code I c"

lemma evolves_all:
  assumes "evolves step new t t'" "list_all P t" "\<And>r r'. P r \<Longrightarrow> step r r' \<Longrightarrow> P r'" "\<And>r. new r \<Longrightarrow> P r"
  shows "list_all P t'"
  using assms unfolding evolves_def list_all_iff by blast

sublocale row_invariant \<subseteq> db_contract "keeps I" okId okHash
proof
  show "keeps I d d" for d by (simp add: keeps_def)
  show "keeps I d1 d2 \<Longrightarrow> keeps I d2 d3 \<Longrightarrow> keeps I d1 d3" for d1 d2 d3 by (auto simp: keeps_def)
next
  fix d :: db and ss
  assume "uniq sessions_keys (sessions d) \<Longrightarrow> uniq sessions_keys ss"
    and e: "evolves session_step (\<lambda>s. okId (s_ID s) \<and> okHash (s_TokenHash s)) (sessions d) ss"
  then show "keeps I d (d\<lparr>sessions := ss\<rparr>)"
    using evolves_all [OF e _ session_kept] session_new by (auto simp: keeps_def wf_db_def rows_ok_def)
next
  fix d :: db and ts
  assume "uniq tokens_keys (password_reset_tokens d) \<Longrightarrow> uniq tokens_keys ts"
    and e: "evolves token_step (\<lambda>t. okHash (t_TokenHash t)) (password_reset_tokens d) ts"
  then show "keeps I d (d\<lparr>password_reset_tokens := ts\<rparr>)"
    using evolves_all [OF e _ token_kept] token_new by (auto simp: keeps_def wf_db_def rows_ok_def)
next
  fix d :: db and ds
  assume "uniq devices_keys (mfa_trusted_devices d) \<Longrightarrow> uniq devices_keys ds"
    and e: "evolves device_step (\<lambda>r. okId (td_ID r)) (mfa_trusted_devices d) ds"
  then show "keeps I d (d\<lparr>mfa_trusted_devices := ds\<rparr>)"
    using evolves_all [OF e _ device_kept] device_new by (auto simp: keeps_def wf_db_def rows_ok_def)
next
  fix d :: db and cs
  assume "uniq recovery_keys (mfa_recovery_codes d) \<Longrightarrow> uniq recovery_keys cs"
    and e: "evolves code_step (\<lambda>c. okId (rc_id c)) (mfa_recovery_codes d) cs"
  then show "keeps I d (d\<lparr>mfa_recovery_codes := cs\<rparr>)"
    using evolves_all [OF e _ code_kept] code_new by (auto simp: keeps_def wf_db_def rows_ok_def)
qed (auto simp: keeps_def wf_db_def rows_ok_def)

lemma rely_dbs:
  assumes "rely (keeps I) okId okHash sv"
  shows "wf_db d \<Longrightarrow> wf_db (others sv n d)" "rows_ok I d \<Longrightarrow> rows_ok I (others sv n d)"
  using assms by (auto simp: rely_def keeps_def)

section \<open>Establishing an invariant\<close>

text \<open>\<open>establishes\<close>: run in a well-formed database among requests that keep the invariant, by a service
  that satisfies \<open>C\<close>, the operation makes all rows satisfy it whenever it returns a value.
  \<open>refuses\<close>: where all rows satisfy the invariant the operation returns an error.\<close>

definition establishes ::
  "row_preds \<Rightarrow> (string \<Rightarrow> bool) \<Rightarrow> (string \<Rightarrow> bool) \<Rightarrow> (Svc \<Rightarrow> bool) \<Rightarrow> 'a M \<Rightarrow> bool" where
  "establishes I okId okHash C m \<longleftrightarrow>
     (\<forall>sv w x w'. rely (keeps I) okId okHash sv \<longrightarrow> C sv \<longrightarrow> wf_db (w_db w) \<longrightarrow> m sv w = (Inr x, w')
        \<longrightarrow> rows_ok I (w_db w'))"

definition refuses ::
  "row_preds \<Rightarrow> (string \<Rightarrow> bool) \<Rightarrow> (string \<Rightarrow> bool) \<Rightarrow> (Svc \<Rightarrow> bool) \<Rightarrow> 'a M \<Rightarrow> bool" where
  "refuses I okId okHash C m \<longleftrightarrow>
     (\<forall>sv w x w'. rely (keeps I) okId okHash sv \<longrightarrow> C sv \<longrightarrow> rows_ok I (w_db w) \<longrightarrow> m sv w \<noteq> (Inr x, w'))"

context row_invariant
begin

abbreviation E :: "(Svc \<Rightarrow> bool) \<Rightarrow> 'a M \<Rightarrow> bool" where "E \<equiv> establishes I okId okHash"
abbreviation N :: "(Svc \<Rightarrow> bool) \<Rightarrow> 'a M \<Rightarrow> bool" where "N \<equiv> refuses I okId okHash"

lemma keeps_run:
  assumes "G m Q" "rely (keeps I) okId okHash sv" "m sv w = (r, w')"
  shows "wf_db (w_db w) \<Longrightarrow> wf_db (w_db w')" and "rows_ok I (w_db w) \<Longrightarrow> rows_ok I (w_db w')"
  using guar_R [OF assms(1,2), of w] assms(3) by (auto simp: keeps_def)

lemma est_D:
  "E C m \<Longrightarrow> rely (keeps I) okId okHash sv \<Longrightarrow> C sv \<Longrightarrow> wf_db (w_db w) \<Longrightarrow> m sv w = (Inr x, w')
   \<Longrightarrow> rows_ok I (w_db w')"
  unfolding establishes_def by blast

lemma refuse_D:
  "N C m \<Longrightarrow> rely (keeps I) okId okHash sv \<Longrightarrow> C sv \<Longrightarrow> rows_ok I (w_db w) \<Longrightarrow> isl (fst (m sv w))"
  unfolding refuses_def using Inr_result by blast

lemma est_fail: "E C (fail e)"
  by (simp add: establishes_def fail_def)

lemma refuse_fail: "N C (fail e)"
  by (simp add: refuses_def fail_def)

lemma est_left: "E C m \<Longrightarrow> (\<And>x. G (k x) (\<lambda>_. True)) \<Longrightarrow> E C (bindM m k)"
  unfolding establishes_def bindM_Inr by (meson keeps_run(2))

lemma est_right: "G m (\<lambda>_. True) \<Longrightarrow> (\<And>x. E C (k x)) \<Longrightarrow> E C (bindM m k)"
  unfolding establishes_def bindM_Inr by (meson keeps_run(1))

lemma refuse_left: "N C m \<Longrightarrow> N C (bindM m k)"
  unfolding refuses_def bindM_Inr by blast

lemma refuse_right: "G m (\<lambda>_. True) \<Longrightarrow> (\<And>x. N C (k x)) \<Longrightarrow> N C (bindM m k)"
  unfolding refuses_def bindM_Inr by (meson keeps_run(2))

lemma est_ask: "(\<And>sv. C sv \<Longrightarrow> E C (k (f sv))) \<Longrightarrow> E C (bindM (askM f) k)"
  unfolding establishes_def bindM_Inr askM_Inr by blast

lemma refuse_ask: "(\<And>sv. C sv \<Longrightarrow> N C (k (f sv))) \<Longrightarrow> N C (bindM (askM f) k)"
  unfolding refuses_def bindM_Inr askM_Inr by blast

lemma est_try:
  "G m (\<lambda>_. True) \<Longrightarrow> (\<And>e. E C (k (Inl e))) \<Longrightarrow> (\<And>x. E C (k (Inr x))) \<Longrightarrow> E C (tryM m k)"
  unfolding establishes_def tryM_Inr by (metis keeps_run(1) sum.exhaust)

lemma est_try_left:
  assumes "E C m" and "\<And>e. E C (k (Inl e))" and "G m (\<lambda>_. True)" and "\<And>x. G (k (Inr x)) (\<lambda>_. True)"
  shows "E C (tryM m k)"
  using assms unfolding establishes_def tryM_Inr by (metis keeps_run sum.exhaust)

lemma est_then_left: "E C m \<Longrightarrow> G k (\<lambda>_. True) \<Longrightarrow> E C (thenM m k)"
  unfolding thenM_def by (rule est_left)

lemma est_then_right: "G m (\<lambda>_. True) \<Longrightarrow> E C k \<Longrightarrow> E C (thenM m k)"
  unfolding thenM_def by (rule est_right)

lemma refuse_then_right: "G m (\<lambda>_. True) \<Longrightarrow> N C k \<Longrightarrow> N C (thenM m k)"
  unfolding thenM_def by (rule refuse_right)

lemma est_ignore: "G m (\<lambda>_. True) \<Longrightarrow> E C k \<Longrightarrow> E C (ignoreM m k)"
  unfolding ignoreM_def by (rule est_try)

lemma est_mapErr: "E C m \<Longrightarrow> E C (mapErr f m)"
  by (simp add: establishes_def mapErr_Inr)

lemma refuse_mapErr: "N C m \<Longrightarrow> N C (mapErr f m)"
  by (simp add: refuses_def mapErr_Inr)

lemma est_if: "(b \<Longrightarrow> E C m) \<Longrightarrow> (\<not> b \<Longrightarrow> E C m') \<Longrightarrow> E C (if b then m else m')"
  by simp

lemma refuse_if: "(b \<Longrightarrow> N C m) \<Longrightarrow> (\<not> b \<Longrightarrow> N C m') \<Longrightarrow> N C (if b then m else m')"
  by simp

text \<open>An update whose number of rows is checked: \<open>b\<close> says which numbers are refused.\<close>

lemma est_matched:
  assumes "\<And>d t n. wf_db d \<Longrightarrow> f (get d) = Some (t, n) \<Longrightarrow> \<not> b n \<Longrightarrow> rows_ok I (upd (\<lambda>_. t) d)"
    and k: "\<And>n. G (k n) (\<lambda>_. True)"
  shows "E C (bindM (put get upd f) (\<lambda>n. if b n then fail e else k n))"
  unfolding establishes_def bindM_Inr put_Inr
proof (intro allI impI, elim exE conjE)
  fix sv w x w' n w1 t
  assume rely: "rely (keeps I) okId okHash sv" and wf: "wf_db (w_db w)"
    and f: "f (get (others sv (w_n w) (w_db w))) = Some (t, n)"
    and w1: "w1 = w\<lparr>w_db := upd (\<lambda>_. t) (others sv (w_n w) (w_db w)), w_n := Suc (w_n w)\<rparr>"
    and r: "(if b n then fail e else k n) sv w1 = (Inr x, w')"
  have b: "\<not> b n" and r: "k n sv w1 = (Inr x, w')" using r by (auto simp: fail_def split: if_splits)
  have "rows_ok I (w_db w1)" using assms(1) [OF rely_dbs(1) [OF rely wf] f b] w1 by simp
  then show "rows_ok I (w_db w')" by (rule keeps_run(2) [OF k rely r])
qed

lemma refuse_matched:
  assumes "\<And>d t n. rows_ok I d \<Longrightarrow> f (get d) = Some (t, n) \<Longrightarrow> b n"
  shows "N C (bindM (put get upd f) (\<lambda>n. if b n then fail e else k n))"
  unfolding refuses_def
proof (intro allI impI notI)
  fix sv w x w'
  assume rely: "rely (keeps I) okId okHash sv" and ok: "rows_ok I (w_db w)"
    and r: "bindM (put get upd f) (\<lambda>n. if b n then fail e else k n) sv w = (Inr x, w')"
  then obtain n w1 t where "f (get (others sv (w_n w) (w_db w))) = Some (t, n)"
    and "(if b n then fail e else k n) sv w1 = (Inr x, w')"
    by (auto simp: bindM_Inr put_Inr)
  with assms [OF rely_dbs(2) [OF rely ok]] show False by (auto simp: fail_def)
qed

lemma est_put:
  assumes "\<And>d t n. wf_db d \<Longrightarrow> f (get d) = Some (t, n) \<Longrightarrow> rows_ok I (upd (\<lambda>_. t) d)"
  shows "E C (exec (put get upd f))"
proof -
  have "E C (bindM (put get upd f) (\<lambda>n. if False then fail ErrNotFound else ret ()))"
    by (rule est_matched) (auto intro: assms guar_ret)
  then show ?thesis by (simp add: exec_def thenM_def)
qed

lemma est_rows:
  assumes "\<And>d t n. wf_db d \<Longrightarrow> f (get d) = Some (t, n) \<Longrightarrow> n \<noteq> 0 \<Longrightarrow> rows_ok I (upd (\<lambda>_. t) d)"
  shows "E C (rows_or e (put get upd f))"
  unfolding rows_or_def by (rule est_matched) (auto intro: assms guar_ret)

lemma SuspendUser_est: "E C (RevokeUserSessions i) \<Longrightarrow> E C (SuspendUser a i)"
  unfolding SuspendUser_def
  by (rule est_right est_then_right est_then_left guar_intros TrueI | assumption)+

text \<open>Over a run: an invariant that holds, or that a request has established, holds at the end.\<close>

lemma run_keeps_wf:
  assumes "rely (keeps I) okId okHash (alone sv)" "wf_db (w_db w)"
  shows "wf_db (w_db (snd (serve_all h reqs (interleaved h plan sv k) w)))"
  by (rule keeps_run(1) [OF serve_all_guar rely_interleaved [OF assms(1)] _ assms(2)])
    (rule surjective_pairing)

lemma run_keeps_rows:
  assumes "rely (keeps I) okId okHash (alone sv)" "rows_ok I (w_db w)"
  shows "rows_ok I (w_db (snd (serve_all h reqs (interleaved h plan sv k) w)))"
  by (rule keeps_run(2) [OF serve_all_guar rely_interleaved [OF assms(1)] _ assms(2)])
    (rule surjective_pairing)

lemma established_after:
  assumes rely: "rely (keeps I) okId okHash (alone sv)" and wf: "wf_db (w_db w)" and est: "E C m" and C: "C (interleaved h plan sv k)"
    and ok: "m (interleaved h plan sv k) w = (Inr x, w1)"
  shows "rows_ok I (w_db (snd (serve_all h reqs (interleaved h plan sv k) w1)))"
proof -
  have "rows_ok I (w_db w1)"
    by (rule est_D [OF est rely_interleaved [OF rely] C wf ok])
  then show ?thesis by (rule run_keeps_rows [OF rely])
qed

end

lemma rely_alone_keeps:
  "rely (keeps I) okId okHash (alone sv) \<longleftrightarrow>
     (\<forall>n. okId (uuid sv n))
     \<and> (\<forall>n b. rand sv n 32 = Some b \<longrightarrow> okHash (hex_sha256 (sha256 sv) (RawURLEncode b)))"
  by (simp add: rely_def alone_def keeps_def)

text \<open>Freshness of the random tokens: none drawn has the hash of a given one.\<close>

definition never_drawn :: "Svc \<Rightarrow> string \<Rightarrow> bool" where
  "never_drawn sv hash \<longleftrightarrow> (\<forall>n b. rand sv n 32 = Some b \<longrightarrow> hex_sha256 (sha256 sv) (RawURLEncode b) \<noteq> hash)"

lemma rely_never_drawn:
  "never_drawn sv hash \<Longrightarrow> rely (keeps I) (\<lambda>_. True) (\<lambda>x. x \<noteq> hash) (alone sv)"
  by (simp add: rely_alone_keeps never_drawn_def)

definition never_named :: "Svc \<Rightarrow> string \<Rightarrow> bool" where
  "never_named sv i \<longleftrightarrow> (\<forall>n. uuid sv n \<noteq> i)"

lemma rely_never_named: "never_named sv i \<Longrightarrow> rely (keeps I) (\<lambda>x. x \<noteq> i) (\<lambda>_. True) (alone sv)"
  by (simp add: rely_alone_keeps never_named_def)

section \<open>The invariants\<close>

definition dead_session :: "string \<Rightarrow> row_preds" where
  "dead_session hash = any_row\<lparr>ok_session := \<lambda>s. s_TokenHash s = hash \<longrightarrow> s_RevokedAt s \<noteq> None\<rparr>"

text \<open>The sessions of the token that belong to a user, or have an id, are revoked.\<close>

definition dead_session_of :: "string \<Rightarrow> string \<Rightarrow> row_preds" where
  "dead_session_of hash userID = any_row\<lparr>ok_session := \<lambda>s.
     s_TokenHash s = hash \<longrightarrow> s_UserID s = userID \<longrightarrow> s_RevokedAt s \<noteq> None\<rparr>"

definition dead_session_named :: "string \<Rightarrow> string \<Rightarrow> row_preds" where
  "dead_session_named hash i = any_row\<lparr>ok_session := \<lambda>s.
     s_TokenHash s = hash \<longrightarrow> s_ID s = i \<longrightarrow> s_RevokedAt s \<noteq> None\<rparr>"

definition session_of :: "string \<Rightarrow> string \<Rightarrow> row_preds" where
  "session_of hash userID = any_row\<lparr>ok_session := \<lambda>s. s_TokenHash s = hash \<longrightarrow> s_UserID s = userID\<rparr>"

definition session_named :: "string \<Rightarrow> string \<Rightarrow> row_preds" where
  "session_named hash i = any_row\<lparr>ok_session := \<lambda>s. s_TokenHash s = hash \<longrightarrow> s_ID s = i\<rparr>"

definition expires_by :: "string \<Rightarrow> gotime \<Rightarrow> row_preds" where
  "expires_by hash t = any_row\<lparr>ok_session := \<lambda>s. s_TokenHash s = hash \<longrightarrow> s_ExpiresAt s \<le> t\<rparr>"

definition used_token :: "string \<Rightarrow> row_preds" where
  "used_token hash = any_row\<lparr>ok_token := \<lambda>t. t_TokenHash t = hash \<longrightarrow> t_UsedAt t \<noteq> None\<rparr>"

definition revoked_device :: "string \<Rightarrow> row_preds" where
  "revoked_device i = any_row\<lparr>ok_device := \<lambda>d. td_ID d = i \<longrightarrow> td_RevokedAt d \<noteq> None\<rparr>"

definition used_code :: "string \<Rightarrow> string \<Rightarrow> string \<Rightarrow> row_preds" where
  "used_code i userID hash = any_row\<lparr>ok_code := \<lambda>c.
     rc_id c = i \<longrightarrow> rc_user_id c = userID \<longrightarrow> rc_code_hash c = hash \<longrightarrow> rc_used_at c \<noteq> None\<rparr>"

interpretation any: row_invariant any_row "\<lambda>_. True" "\<lambda>_. True"
  by unfold_locales (simp_all add: any_row_def)

interpretation dead: row_invariant "dead_session hash" "\<lambda>_. True" "\<lambda>x. x \<noteq> hash" for hash
  by unfold_locales (simp_all add: dead_session_def any_row_def session_step_def)

interpretation dead_of: row_invariant "dead_session_of hash userID" "\<lambda>_. True" "\<lambda>x. x \<noteq> hash" for hash userID
  by unfold_locales (simp_all add: dead_session_of_def any_row_def session_step_def)

interpretation dead_named: row_invariant "dead_session_named hash i" "\<lambda>_. True" "\<lambda>x. x \<noteq> hash" for hash i
  by unfold_locales (simp_all add: dead_session_named_def any_row_def session_step_def)

interpretation owned: row_invariant "session_of hash userID" "\<lambda>_. True" "\<lambda>x. x \<noteq> hash" for hash userID
  by unfold_locales (simp_all add: session_of_def any_row_def session_step_def)

interpretation named: row_invariant "session_named hash i" "\<lambda>_. True" "\<lambda>x. x \<noteq> hash" for hash i
  by unfold_locales (simp_all add: session_named_def any_row_def session_step_def)

interpretation expiring: row_invariant "expires_by hash t" "\<lambda>_. True" "\<lambda>x. x \<noteq> hash" for hash t
  by unfold_locales (simp_all add: expires_by_def any_row_def session_step_def)

interpretation used: row_invariant "used_token hash" "\<lambda>_. True" "\<lambda>x. x \<noteq> hash" for hash
  by unfold_locales (simp_all add: used_token_def any_row_def token_step_def)

interpretation device: row_invariant "revoked_device i" "\<lambda>x. x \<noteq> i" "\<lambda>_. True" for i
  by unfold_locales (auto simp: revoked_device_def any_row_def device_step_def)

interpretation code: row_invariant "used_code i userID hash" "\<lambda>x. x \<noteq> i" "\<lambda>_. True" for i userID hash
  by unfold_locales (auto simp: used_code_def any_row_def code_step_def)

lemma rows_ok_simps [simp]:
  "rows_ok any_row d"
  "rows_ok (dead_session hash) d \<longleftrightarrow> (\<forall>s \<in> set (sessions d). s_TokenHash s = hash \<longrightarrow> s_RevokedAt s \<noteq> None)"
  "rows_ok (dead_session_of hash u) d \<longleftrightarrow>
     (\<forall>s \<in> set (sessions d). s_TokenHash s = hash \<longrightarrow> s_UserID s = u \<longrightarrow> s_RevokedAt s \<noteq> None)"
  "rows_ok (dead_session_named hash i) d \<longleftrightarrow>
     (\<forall>s \<in> set (sessions d). s_TokenHash s = hash \<longrightarrow> s_ID s = i \<longrightarrow> s_RevokedAt s \<noteq> None)"
  "rows_ok (session_of hash u) d \<longleftrightarrow> (\<forall>s \<in> set (sessions d). s_TokenHash s = hash \<longrightarrow> s_UserID s = u)"
  "rows_ok (session_named hash i) d \<longleftrightarrow> (\<forall>s \<in> set (sessions d). s_TokenHash s = hash \<longrightarrow> s_ID s = i)"
  "rows_ok (expires_by hash t) d \<longleftrightarrow> (\<forall>s \<in> set (sessions d). s_TokenHash s = hash \<longrightarrow> s_ExpiresAt s \<le> t)"
  "rows_ok (used_token hash) d \<longleftrightarrow> (\<forall>t \<in> set (password_reset_tokens d). t_TokenHash t = hash \<longrightarrow> t_UsedAt t \<noteq> None)"
  "rows_ok (revoked_device i) d \<longleftrightarrow> (\<forall>r \<in> set (mfa_trusted_devices d). td_ID r = i \<longrightarrow> td_RevokedAt r \<noteq> None)"
  "rows_ok (used_code i u hash) d \<longleftrightarrow> (\<forall>c \<in> set (mfa_recovery_codes d).
     rc_id c = i \<longrightarrow> rc_user_id c = u \<longrightarrow> rc_code_hash c = hash \<longrightarrow> rc_used_at c \<noteq> None)"
  by (simp_all add: rows_ok_def any_row_def dead_session_def dead_session_of_def dead_session_named_def
      session_of_def session_named_def
      expires_by_def used_token_def revoked_device_def used_code_def list_all_iff)

end
