(* ===== verification/SessionSafety.thy ===== *)
theory SessionSafety
  imports Lifecycle
begin

text \<open>
  Sessions: when a token is accepted, and that a token refused for good stays refused over every
  further run of the server.
\<close>

abbreviation token_hash :: "Svc \<Rightarrow> string \<Rightarrow> string" where
  "token_hash sv raw \<equiv> hex_sha256 (sha256 sv) raw"

section \<open>When a token is accepted\<close>

lemma sessions_same_hash:
  "wf_db d \<Longrightarrow> s \<in> set (sessions d) \<Longrightarrow> s' \<in> set (sessions d) \<Longrightarrow> s_TokenHash s = s_TokenHash s' \<Longrightarrow> s = s'"
  unfolding wf_db_def by (rule uniq_keyD [where ks = sessions_keys and k = "\<lambda>r. [s_TokenHash r]"]) (simp_all add: sessions_keys_def)

lemma sessions_same_id:
  "wf_db d \<Longrightarrow> s \<in> set (sessions d) \<Longrightarrow> s' \<in> set (sessions d) \<Longrightarrow> s_ID s = s_ID s' \<Longrightarrow> s = s'"
  unfolding wf_db_def by (rule uniq_keyD [where ks = sessions_keys and k = "\<lambda>r. [s_ID r]"]) (simp_all add: sessions_keys_def)

lemma users_same_id:
  "wf_db d \<Longrightarrow> r \<in> set (users d) \<Longrightarrow> r' \<in> set (users d) \<Longrightarrow> u_ID r = u_ID r' \<Longrightarrow> r = r'"
  unfolding wf_db_def by (rule uniq_keyD [where ks = users_keys and k = "\<lambda>r. [u_ID r]"]) (simp_all add: users_keys_def)

lemma find_Some: "find P t = Some r \<Longrightarrow> r \<in> set t \<and> P r"
  by (induction t) (auto split: if_splits)

lemma find_the:
  assumes "r \<in> set t" "P r" "\<And>r'. r' \<in> set t \<Longrightarrow> P r' \<Longrightarrow> r' = r"
  shows "find P t = Some r"
proof -
  obtain r' where r': "find P t = Some r'" using find_Some_ex [of P t] assms(1,2) by (auto simp: list_ex_iff)
  then show ?thesis using assms(3) [of r'] find_Some [OF r'] by simp
qed

lemma scan_session_fields [simp]:
  "s_RevokedAt (scan_session s) = s_RevokedAt s" "s_ExpiresAt (scan_session s) = s_ExpiresAt s"
  "s_IdleExpiresAt (scan_session s) = s_IdleExpiresAt s" "s_ID (scan_session s) = s_ID s"
  "s_UserID (scan_session s) = s_UserID s" "s_TokenHash (scan_session s) = s_TokenHash s"
  by (simp_all add: scan_session_def)

text \<open>The session row behind a token that may be used at time \<open>now\<close>, and its user.\<close>

definition live_session :: "db \<Rightarrow> string \<Rightarrow> gotime \<Rightarrow> Session \<Rightarrow> bool" where
  "live_session d hash now s \<longleftrightarrow>
     s \<in> set (sessions d) \<and> s_TokenHash s = hash \<and> s_RevokedAt s = None
     \<and> now \<le> s_ExpiresAt s \<and> now \<le> s_IdleExpiresAt s"

definition may_act :: "User \<Rightarrow> bool" where
  "may_act u \<longleftrightarrow> u_Status u = UserActive \<or> u_Role u = ''admin''"

definition touched :: "string \<Rightarrow> gotime \<Rightarrow> gotime \<Rightarrow> db \<Rightarrow> db" where
  "touched i seen idle d = d\<lparr>sessions := map (\<lambda>s. if s_ID s = i
     then s\<lparr>s_LastSeenAt := seen, s_IdleExpiresAt := idle\<rparr> else s) (sessions d)\<rparr>"

lemma TouchSession_run:
  assumes "quiet sv" "\<And>n. db_fault sv n = None" "wf_db (w_db w)"
  shows "TouchSession i idle sv w =
    (Inr (), w\<lparr>w_db := touched i (w_now w + int (tick sv (w_n w))) idle (w_db w),
               w_now := w_now w + int (tick sv (w_n w)), w_n := w_n w + 2\<rparr>)"
proof -
  have "uniq sessions_keys (sessions (w_db w))" using assms(3) by (simp add: wf_db_def)
  then have "t_update sessions_keys (\<lambda>s. s_ID s = i) (\<lambda>s. s\<lparr>s_LastSeenAt := t, s_IdleExpiresAt := idle\<rparr>)
      (sessions (w_db w)) = Some (sessions (touched i t idle (w_db w)),
        int (length (filter (\<lambda>s. s_ID s = i) (sessions (w_db w)))))" for t
    by (subst t_update_keeps_keys) (auto simp: sessions_keys_def touched_def)
  then show ?thesis
    using assms by (simp add: TouchSession_def exec_def set_session_def bindM_run thenM_def time_Now_def
        put_def stmt_def ret_def touched_def)
qed

lemma query_row_quiet:
  "quiet sv \<Longrightarrow> db_fault sv (w_n w) = None \<Longrightarrow>
   query_row e f sv w = (case f (w_db w) of None \<Rightarrow> Inl e | Some x \<Rightarrow> Inr x, w\<lparr>w_n := Suc (w_n w)\<rparr>)"
  by (simp add: query_row_def bindM_run query_def stmt_def ret_def fail_def split: option.split)

definition validated :: "Svc \<Rightarrow> world \<Rightarrow> Session \<Rightarrow> world" where
  "validated sv w row =
     (let now = w_now w + int (tick sv (Suc (w_n w))); seen = now + int (tick sv (Suc (Suc (w_n w)))) in
      w\<lparr>w_db := touched (s_ID row) seen (now + SessionIdleDuration (cfg sv)) (w_db w),
        w_now := seen, w_n := w_n w + 5\<rparr>)"

lemma touched_users [simp]: "users (touched i a b d) = users d"
  by (simp add: touched_def)

lemma ValidateSession_run:
  assumes quiet: "quiet sv" and nofault: "\<And>n. db_fault sv n = None" and wf: "wf_db (w_db w)"
  shows "ValidateSession raw sv w = (Inr (u, s), w') \<longleftrightarrow>
      (\<exists>row r. find (\<lambda>s. s_TokenHash s = token_hash sv raw) (sessions (w_db w)) = Some row
         \<and> \<not> session_expired row (w_now w + int (tick sv (Suc (w_n w))))
         \<and> find (\<lambda>r. u_ID r = s_UserID row) (users (w_db w)) = Some r
         \<and> s = scan_session row \<and> u = scanUserCore r \<and> may_act u \<and> w' = validated sv w row)"
proof (cases "find (\<lambda>s. s_TokenHash s = token_hash sv raw) (sessions (w_db w))")
  case None
  then show ?thesis
    using quiet nofault by (simp add: ValidateSession_def runs GetSessionByTokenHash_def query_row_quiet)
next
  case (Some row)
  let ?now = "w_now w + int (tick sv (Suc (w_n w)))"
  let ?w2 = "w\<lparr>w_now := ?now, w_n := Suc (Suc (w_n w))\<rparr>"
  let ?k = "bindM (mapErr (\<lambda>_. ErrInvalidCredentials) (GetUserByID (s_UserID row))) (\<lambda>u.
            if u_Status u \<noteq> UserActive \<and> u_Role u \<noteq> ''admin'' then fail ErrForbidden
            else ret (u, scan_session row))"
  let ?w4 = "validated sv w row\<lparr>w_n := w_n w + 4\<rparr>"
  have "session_expired (scan_session row) ?now = session_expired row ?now" by (simp add: session_expired_def)
  then have 1: "ValidateSession raw sv w = (if session_expired row ?now then (Inl ErrInvalidCredentials, ?w2)
      else ignoreM (TouchSession (s_ID row) (?now + SessionIdleDuration (cfg sv))) ?k sv ?w2)"
    using Some quiet nofault
    by (simp add: ValidateSession_def bindM_run askM_def mapErr_def tryM_run GetSessionByTokenHash_def
        query_row_quiet ret_def fail_def time_Now_def)
  have 2: "ignoreM (TouchSession (s_ID row) (?now + SessionIdleDuration (cfg sv))) ?k sv ?w2 = ?k sv ?w4"
    using quiet nofault wf
    by (simp add: ignoreM_def tryM_run TouchSession_run validated_def eval_nat_numeral)
  have 3: "?k sv ?w4 = (Inr (u, s), w') \<longleftrightarrow>
      (\<exists>r. find (\<lambda>r. u_ID r = s_UserID row) (users (w_db w)) = Some r
         \<and> s = scan_session row \<and> u = scanUserCore r \<and> may_act u \<and> w' = validated sv w row)"
    using quiet nofault
    by (auto simp: runs GetUserByID_def query_row_Inr validated_def may_act_def)
  show ?thesis using 3 by (auto simp: 1 2 Some)
qed

text \<open>C1: A session token is accepted exactly when its hash is that of a session that is neither revoked
  nor past its absolute or idle deadline and whose user is active or an administrator; the answer is
  that user and that session, and the only effect is the renewal of the idle deadline.\<close>

theorem validate_session_spec:
  assumes quiet: "quiet sv" and nofault: "\<And>n. db_fault sv n = None" and wf: "wf_db (w_db w)"
  defines "now \<equiv> w_now w + int (tick sv (Suc (w_n w)))"
  shows "((\<exists>w'. ValidateSession raw sv w = (Inr (u, s), w')) \<longleftrightarrow>
           (\<exists>row r. live_session (w_db w) (token_hash sv raw) now row \<and> s = scan_session row
              \<and> r \<in> set (users (w_db w)) \<and> u_ID r = s_UserID row \<and> u = scanUserCore r \<and> may_act u))
    \<and> (\<forall>w'. ValidateSession raw sv w = (Inr (u, s), w') \<longrightarrow>
           (\<exists>seen. w_db w' = touched (s_ID s) seen (now + SessionIdleDuration (cfg sv)) (w_db w)))"
proof (intro conjI allI impI)
  have find: "find (\<lambda>s. s_TokenHash s = token_hash sv raw) (sessions (w_db w)) = Some row
      \<longleftrightarrow> row \<in> set (sessions (w_db w)) \<and> s_TokenHash row = token_hash sv raw" for row
    using sessions_same_hash [OF wf] by (auto dest: find_Some intro!: find_the)
  have user: "find (\<lambda>r. u_ID r = s_UserID row) (users (w_db w)) = Some r
      \<longleftrightarrow> r \<in> set (users (w_db w)) \<and> u_ID r = s_UserID row" for row r
    using users_same_id [OF wf] by (auto dest: find_Some intro!: find_the)
  show "(\<exists>w'. ValidateSession raw sv w = (Inr (u, s), w')) \<longleftrightarrow>
           (\<exists>row r. live_session (w_db w) (token_hash sv raw) now row \<and> s = scan_session row
              \<and> r \<in> set (users (w_db w)) \<and> u_ID r = s_UserID row \<and> u = scanUserCore r \<and> may_act u)"
    unfolding ValidateSession_run [OF quiet nofault wf] find user live_session_def session_expired_def now_def
    by (auto simp: not_less)
next
  show "\<exists>seen. w_db w' = touched (s_ID s) seen (now + SessionIdleDuration (cfg sv)) (w_db w)"
    if "ValidateSession raw sv w = (Inr (u, s), w')" for w'
    using that unfolding ValidateSession_run [OF quiet nofault wf] validated_def now_def by auto
qed

lemma demo_wf: "wf_db (w_db demo_world)"
  by code_simp

text \<open>A service whose random tokens are all the same and are their own hashes, and a session for its
  token \<open>tok\<close>.\<close>

definition const_svc :: Svc where
  "const_svc = demo_svc\<lparr>sha256 := \<lambda>s. s, rand := \<lambda>n k. Some (replicate k (CHR ''A''))\<rparr>"

lemma const_quiet: "quiet const_svc" by (simp add: quiet_def const_svc_def demo_svc_def)

lemma const_no_fault: "db_fault const_svc n = None" by (simp add: const_svc_def demo_svc_def)

definition tok_world :: world where
  "tok_world = demo_world\<lparr>w_db := demo_db\<lparr>sessions := [demo_session ''s1'' ''u1'' (token_hash const_svc ''tok'')]\<rparr>\<rparr>"

lemma tok_wf: "wf_db (w_db tok_world)"
  by code_simp

theorem validate_session_spec_witness:
  "\<exists>w' seen. ValidateSession ''tok'' const_svc tok_world
       = (Inr (scanUserCore (demo_user ''u1'' ''ann@example.org''),
               demo_session ''s1'' ''u1'' (token_hash const_svc ''tok'')), w')
     \<and> w_db w' = touched ''s1'' seen (1 + 30 * time_Minute) (w_db tok_world)"
proof -
  let ?u = "scanUserCore (demo_user ''u1'' ''ann@example.org'')"
  let ?s = "demo_session ''s1'' ''u1'' (token_hash const_svc ''tok'')"
  let ?now = "w_now tok_world + int (tick const_svc (Suc (w_n tok_world)))"
  have now: "?now = 1" by (simp add: tok_world_def demo_world_def const_svc_def demo_svc_def)
  have live: "live_session (w_db tok_world) (token_hash const_svc ''tok'') ?now ?s"
    unfolding now by (simp add: live_session_def tok_world_def demo_world_def demo_db_def demo_session_def)
  have user: "demo_user ''u1'' ''ann@example.org'' \<in> set (users (w_db tok_world))"
    by (simp add: tok_world_def demo_world_def demo_db_def)
  have uid: "u_ID (demo_user ''u1'' ''ann@example.org'') = s_UserID ?s"
    by (simp add: demo_user_def demo_session_def)
  have act: "may_act ?u" by code_simp
  have "TrimSpace ''password'' = ''password''" by code_simp
  then have scan: "?s = scan_session ?s" by (simp add: scan_session_def demo_session_def)
  note spec = validate_session_spec [OF const_quiet const_no_fault tok_wf, of "''tok''" ?u ?s]
  obtain w' where w': "ValidateSession ''tok'' const_svc tok_world = (Inr (?u, ?s), w')"
    using live user uid act scan iffD2 [OF conjunct1 [OF spec]] by blast
  have i: "s_ID ?s = ''s1''" "SessionIdleDuration (cfg const_svc) = 30 * time_Minute" by code_simp+
  show ?thesis using w' conjunct2 [OF spec, rule_format, OF w'] unfolding i now by blast
qed

section \<open>Refused for good\<close>

lemma validate_reads:
  assumes "ValidateSession raw sv w = (Inr (u, s), w')"
  shows "\<exists>row \<in> set (sessions (others sv (w_n w) (w_db w))). s_TokenHash row = token_hash sv raw
     \<and> \<not> session_expired row (w_now w + int (tick sv (Suc (w_n w))))"
  using assms
  by (auto simp: ValidateSession_def runs GetSessionByTokenHash_def query_row_Inr time_Now_Inr
      session_expired_def dest!: find_Some split: if_splits)

lemma validate_dead:
  assumes "rely (keeps (dead_session (token_hash sv raw))) (\<lambda>_. True) okHash sv"
    and "rows_ok (dead_session (token_hash sv raw)) (w_db w)"
  shows "isl (fst (ValidateSession raw sv w))"
proof (rule ccontr)
  assume "\<not> ?thesis"
  then obtain us w' where "ValidateSession raw sv w = (Inr us, w')" using Inr_result by blast
  then show False
    using validate_reads [of raw sv w "fst us" "snd us" w'] rely_dbs(2) [OF assms, of "w_n w"]
    by (auto simp: session_expired_def)
qed

lemma validate_after_expiry:
  assumes "rely (keeps (expires_by (token_hash sv raw) t)) (\<lambda>_. True) okHash sv"
    and "rows_ok (expires_by (token_hash sv raw) t) (w_db w)" and "t < w_now w"
  shows "isl (fst (ValidateSession raw sv w))"
proof (rule ccontr)
  assume "\<not> ?thesis"
  then obtain us w' where "ValidateSession raw sv w = (Inr us, w')" using Inr_result by blast
  then show False
    using validate_reads [of raw sv w "fst us" "snd us" w'] rely_dbs(2) [OF assms(1,2), of "w_n w"] assms(3)
    by (fastforce simp: session_expired_def)
qed

lemma RevokeSession_est: "dead_named.E hash i C (RevokeSession i)"
  unfolding RevokeSession_def set_session_def
proof (intro dead_named.est_right dead_named.guar_time dead_named.est_put)
  fix now and d :: db and t n
  assume "t_update sessions_keys (\<lambda>s. s_ID s = i) (\<lambda>s. s\<lparr>s_RevokedAt := Some now\<rparr>) (sessions d) = Some (t, n)"
  then show "rows_ok (dead_session_named hash i) (d\<lparr>sessions := t\<rparr>)" by (simp, elim t_update_all) simp_all
qed

lemma RevokeUserSessions_est: "dead_of.E hash u C (RevokeUserSessions u)"
  unfolding RevokeUserSessions_def
proof (intro dead_of.est_right dead_of.guar_time dead_of.est_put)
  fix now and d :: db and t n
  assume "t_update sessions_keys (\<lambda>s. s_UserID s = u \<and> s_RevokedAt s = None)
            (\<lambda>s. s\<lparr>s_RevokedAt := Some now\<rparr>) (sessions d) = Some (t, n)"
  then show "rows_ok (dead_session_of hash u) (d\<lparr>sessions := t\<rparr>)" by (simp, elim t_update_all) simp_all
qed

lemma revoked_by_id:
  "rows_ok (dead_session_named hash i) d \<Longrightarrow> rows_ok (session_named hash i) d \<Longrightarrow> rows_ok (dead_session hash) d"
  by auto

lemma revoked_by_owner:
  "rows_ok (dead_session_of hash u) d \<Longrightarrow> rows_ok (session_of hash u) d \<Longrightarrow> rows_ok (dead_session hash) d"
  by auto

lemma RevokeSession_returns:
  assumes "rely (keeps I) okId okHash sv" "wf_db (w_db w)" "\<And>n. db_fault sv n = None"
  shows "\<exists>w'. RevokeSession i sv w = (Inr (), w')"
proof -
  have "wf_db (others sv n (w_db w))" for n using rely_dbs(1) [OF assms(1,2)] .
  then have "t_update sessions_keys (\<lambda>s. s_ID s = i) (\<lambda>s. s\<lparr>s_RevokedAt := Some now\<rparr>)
      (sessions (others sv n (w_db w))) \<noteq> None" for n now
    by (subst t_update_keeps_keys) (auto simp: wf_db_def sessions_keys_def)
  then show ?thesis
    using assms(3) by (simp add: RevokeSession_def set_session_def bindM_run time_Now_def exec_def thenM_def
        put_def stmt_def ret_def split: option.split)
qed

lemma GetSessionByTokenHash_run:
  "db_fault sv (w_n w) = None \<Longrightarrow> GetSessionByTokenHash hash sv w =
     (case find (\<lambda>s. s_TokenHash s = hash) (sessions (others sv (w_n w) (w_db w))) of
        None \<Rightarrow> Inl ErrNotFound | Some s \<Rightarrow> Inr (scan_session s),
      w\<lparr>w_db := others sv (w_n w) (w_db w), w_n := Suc (w_n w)\<rparr>)"
  by (simp add: GetSessionByTokenHash_def query_row_def bindM_run query_def stmt_def ret_def fail_def
      split: option.split)

lemma GetSessionByTokenHash_fault:
  "db_fault sv (w_n w) = Some msg \<Longrightarrow> GetSessionByTokenHash hash sv w =
     (Inl (DBErr msg), w\<lparr>w_db := others sv (w_n w) (w_db w), w_n := Suc (w_n w)\<rparr>)"
  by (simp add: GetSessionByTokenHash_def query_row_def bindM_run query_def stmt_def)

lemma Logout_run:
  "Logout raw sv w =
     (let d = others sv (w_n w) (w_db w); w' = w\<lparr>w_db := d, w_n := Suc (w_n w)\<rparr> in
      if db_fault sv (w_n w) \<noteq> None then (Inr (), w')
      else case find (\<lambda>s. s_TokenHash s = token_hash sv raw) (sessions d) of
        None \<Rightarrow> (Inr (), w') | Some s \<Rightarrow> RevokeSession (s_ID s) sv w')"
  by (cases "db_fault sv (w_n w)")
    (simp_all add: Logout_def bindM_run tryM_run askM_def GetSessionByTokenHash_run GetSessionByTokenHash_fault ret_def
      split: option.splits)

lemma Logout_returns:
  assumes "rely (keeps I) okId okHash sv" "wf_db (w_db w)" "\<And>n. db_fault sv n = None"
  shows "\<exists>w1. Logout raw sv w = (Inr (), w1)"
  using RevokeSession_returns [OF assms(1) _ assms(3)] rely_dbs(1) [OF assms(1,2)] assms(3)
  by (simp add: Logout_run Let_def split: option.split)

lemma Logout_kills:
  assumes relyN: "\<And>i. rely (keeps (session_named (token_hash sv raw) i)) (\<lambda>_. True) (\<lambda>x. x \<noteq> token_hash sv raw) sv"
    and relyD: "\<And>i. rely (keeps (dead_session_named (token_hash sv raw) i)) (\<lambda>_. True) (\<lambda>x. x \<noteq> token_hash sv raw) sv"
    and wf: "wf_db (w_db w)" and found: "db_fault sv (w_n w) = None" and out: "Logout raw sv w = (Inr (), w1)"
  shows "rows_ok (dead_session (token_hash sv raw)) (w_db w1)"
proof -
  define hash where "hash = token_hash sv raw"
  define d where "d = others sv (w_n w) (w_db w)"
  define w' where "w' = w\<lparr>w_db := d, w_n := Suc (w_n w)\<rparr>"
  have wf': "wf_db d" using rely_dbs(1) [OF relyN wf] by (simp add: d_def)
  have run: "(case find (\<lambda>s. s_TokenHash s = hash) (sessions d) of
       None \<Rightarrow> (Inr (), w') | Some s \<Rightarrow> RevokeSession (s_ID s) sv w') = (Inr (), w1)"
    using out found unfolding Logout_run Let_def hash_def d_def w'_def by simp
  show ?thesis
  proof (cases "find (\<lambda>s. s_TokenHash s = hash) (sessions d)")
    case None
    then have "w1 = w'" using run by simp
    then show ?thesis using None by (auto simp: find_None_iff hash_def w'_def)
  next
    case (Some s)
    then have s: "s \<in> set (sessions d)" "s_TokenHash s = hash" using find_Some by fast+
    have rev: "RevokeSession (s_ID s) sv w' = (Inr (), w1)" using run Some by simp
    have "rows_ok (session_named hash (s_ID s)) (w_db w')"
      using sessions_same_hash [OF wf' _ s(1)] s(2) by (auto simp: w'_def)
    from named.keeps_run(2) [OF named.session_ops_guar(4) relyN [folded hash_def] rev this]
    have named: "rows_ok (session_named hash (s_ID s)) (w_db w1)" .
    have "rows_ok (dead_session_named hash (s_ID s)) (w_db w1)"
      by (rule dead_named.est_D [OF RevokeSession_est relyD [folded hash_def] TrueI _ rev]) (simp add: w'_def wf')
    from revoked_by_id [OF this named] show ?thesis by (simp add: hash_def)
  qed
qed

lemma dead_after_run:
  assumes fresh: "never_drawn sv (token_hash sv raw)"
    and "rows_ok (dead_session (token_hash sv raw)) (w_db w1)"
  shows "isl (fst (ValidateSession raw (interleaved h plan sv k)
           (snd (serve_all h reqs (interleaved h plan sv k) w1))))"
proof -
  have "rely (keeps (dead_session (token_hash sv raw))) (\<lambda>_. True) (\<lambda>x. x \<noteq> token_hash sv raw)
      (interleaved h plan sv k)"
    using dead.rely_interleaved [OF rely_never_drawn [OF fresh]] by simp
  then show ?thesis
    using validate_dead [of "interleaved h plan sv k"] dead.run_keeps_rows [OF rely_never_drawn [OF fresh] assms(2)]
    by simp
qed

section \<open>Logout, revocation, suspension, expiry\<close>

text \<open>Requests to interleave.\<close>

definition demo_handlers :: Handlers where
  "demo_handlers = \<lparr>SessionCookieName = ''sess'', CSRFCookieName = ''csrf'', MFATrustedCookieName = ''dev'',
     TrustProxy = False, hmac_sha256 = id, totp_Validate = (\<lambda>now code secret. code = secret),
     mailsec_totp = (\<lambda>n u s c. Inr (s = c)), totp_Generate = (\<lambda>i a b. (b, i)),
     qrcode_Encode = (\<lambda>s. True), captcha_Verify = (\<lambda>n t ip. CaptchaOk)\<rparr>"

definition demo_req :: "string \<Rightarrow> http_req" where
  "demo_req token = \<lparr>hr_method = ''POST'', hr_header = (\<lambda>_. ''c''),
     hr_cookie = (\<lambda>n. if n = ''sess'' then Some token else if n = ''csrf'' then Some ''c'' else None),
     hr_remote = ''10.0.0.1:4000'', hr_agent = ''agent''\<rparr>"

definition demo_plan :: "nat \<Rightarrow> nat \<Rightarrow> batch" where
  "demo_plan k n = \<lparr>b_clock = 7, b_draws = 40, b_requests = [Public (demo_req ''other'') PostLogout]\<rparr>"

abbreviation busy_svc :: Svc where
  "busy_svc \<equiv> interleaved demo_handlers demo_plan const_svc 1"

lemma length_HexEncode: "length (HexEncode s) = 2 * length s"
  by (induction s) (simp_all add: HexEncode_def)

lemma length_RawURLEncode: "length s \<le> length (RawURLEncode s)"
proof -
  have "length s \<le> length (b64_encode al s)" for al
    by (induction al s rule: b64_encode.induct) simp_all
  then show ?thesis by (simp add: RawURLEncode_def)
qed

lemma const_never_drawn: "length raw < 32 \<Longrightarrow> never_drawn const_svc (token_hash const_svc raw)"
proof -
  assume "length raw < 32"
  then have "length (HexEncode raw) \<noteq> length (HexEncode (RawURLEncode (replicate 32 (CHR ''A''))))"
    using length_RawURLEncode [of "replicate 32 (CHR ''A'')"] by (simp add: length_HexEncode)
  then have "HexEncode (RawURLEncode (replicate 32 (CHR ''A''))) \<noteq> HexEncode raw" by metis
  then show ?thesis by (simp add: never_drawn_def const_svc_def hex_sha256_def)
qed

lemma tok_never_drawn: "never_drawn const_svc (token_hash const_svc ''tok'')"
  by (rule const_never_drawn) simp

text \<open>C2: When a logout has succeeded and the statement that looks up the session did not fail, the token of
  the session is never accepted again, whatever requests other clients interleave with it, whatever
  requests follow and whichever later statement fails.  While no statement fails a logout succeeds.  When
  the look-up fails, the logout answers success all the same and revokes nothing.\<close>

theorem logout_ends_session:
  fixes h plan k reqs
  assumes "never_drawn sv (token_hash sv raw)" and "wf_db (w_db w)"
  defines "S \<equiv> interleaved h plan sv k"
  shows "(\<forall>w1. db_fault sv (w_n w) = None \<longrightarrow> Logout raw S w = (Inr (), w1)
            \<longrightarrow> isl (fst (ValidateSession raw S (snd (serve_all h reqs S w1)))))
    \<and> ((\<forall>n. db_fault sv n = None) \<longrightarrow> (\<exists>w1. Logout raw S w = (Inr (), w1)))
    \<and> (db_fault sv (w_n w) \<noteq> None
       \<longrightarrow> Logout raw S w = (Inr (), w\<lparr>w_db := others S (w_n w) (w_db w), w_n := Suc (w_n w)\<rparr>))"
proof (intro conjI allI impI)
  note fresh = rely_never_drawn [OF assms(1)]
  fix w1 assume "db_fault sv (w_n w) = None" "Logout raw S w = (Inr (), w1)"
  then have "rows_ok (dead_session (token_hash S raw)) (w_db w1)"
    using named.rely_interleaved [OF fresh] dead_named.rely_interleaved [OF fresh] assms(2)
    by (intro Logout_kills [of S raw w]) (simp_all add: S_def)
  then show "isl (fst (ValidateSession raw S (snd (serve_all h reqs S w1))))"
    using dead_after_run [OF assms(1), of w1 h plan k reqs] by (simp add: S_def)
next
  assume "\<forall>n. db_fault sv n = None"
  then show "\<exists>w1. Logout raw S w = (Inr (), w1)"
    using Logout_returns [OF named.rely_interleaved [OF rely_never_drawn [OF assms(1)]] assms(2)] by (simp add: S_def)
next
  assume "db_fault sv (w_n w) \<noteq> None"
  then show "Logout raw S w = (Inr (), w\<lparr>w_db := others S (w_n w) (w_db w), w_n := Suc (w_n w)\<rparr>)"
    by (simp add: Logout_run Let_def S_def)
qed

theorem logout_ends_session_witness:
  "\<exists>w1. Logout ''tok'' busy_svc tok_world = (Inr (), w1)
     \<and> isl (fst (ValidateSession ''tok'' busy_svc
          (snd (serve_all demo_handlers [WithUser (demo_req ''tok'') PostRevokeAllDevices] busy_svc w1))))"
  using logout_ends_session [OF tok_never_drawn tok_wf, of demo_handlers demo_plan 1 "[WithUser (demo_req ''tok'') PostRevokeAllDevices]"]
    const_no_fault by blast

lemma RevokeSessionWithReason_est: "dead_named.E hash i C (RevokeSessionWithReason u i reason)"
  unfolding RevokeSessionWithReason_def
proof (intro dead_named.est_right dead_named.guar_time dead_named.est_then_left dead_named.est_rows
    dead_named.guar_ignore dead_named.guar_ret TrueI)
  fix now and d :: db and t n
  let ?P = "\<lambda>s. s_ID s = i \<and> s_UserID s = u"
  assume wf: "wf_db d" and n: "n \<noteq> 0"
    and up: "t_update sessions_keys ?P (\<lambda>s. s\<lparr>s_RevokedAt := Some now\<rparr>) (sessions d) = Some (t, n)"
  have "n = int (length (filter ?P (sessions d)))" using up by (simp add: t_update_Some)
  then obtain r where r: "r \<in> set (sessions d)" "?P r" using n by (auto simp: filter_empty_conv)
  have same: "s = r" if "s \<in> set (sessions d)" "s_ID s = i" for s
    using sessions_same_id [OF wf that(1) r(1)] that(2) r(2) by simp
  have "\<forall>s \<in> set t. s_TokenHash s = hash \<longrightarrow> s_ID s = i \<longrightarrow> s_RevokedAt s \<noteq> None"
    using up by (rule t_update_all) (use same r(2) in auto)
  then show "rows_ok (dead_session_named hash i) (d\<lparr>sessions := t\<rparr>)" by simp
qed (rule dead_named.guar_ret TrueI | rule dead_named.guar_tables keeps_uniq_table)+

text \<open>C3: Once the revocation of a session has succeeded, the session's token is never accepted again,
  over any run of the server.\<close>

theorem revoked_session_stays_dead:
  fixes h plan k reqs
  assumes fresh: "never_drawn sv (token_hash sv raw)" and wf: "wf_db (w_db w)"
    and named: "\<forall>s \<in> set (sessions (w_db w)). s_TokenHash s = token_hash sv raw \<longrightarrow> s_ID s = i"
  defines "S \<equiv> interleaved h plan sv k"
  assumes run: "RevokeSessionWithReason userID i reason S w = (Inr (), w1)"
  shows "isl (fst (ValidateSession raw S (snd (serve_all h reqs S w1))))"
proof -
  note rely = rely_never_drawn [OF fresh]
  have "rows_ok (dead_session_named (token_hash sv raw) i) (w_db w1)"
    by (rule dead_named.est_D [OF RevokeSessionWithReason_est dead_named.rely_interleaved [OF rely] TrueI wf run [unfolded S_def]])
  moreover have "rows_ok (session_named (token_hash sv raw) i) (w_db w1)"
    by (rule named.keeps_run(2) [OF named.device_ops_guar(4) named.rely_interleaved [OF rely] run [unfolded S_def]])
      (use named in simp)
  ultimately show ?thesis
    unfolding S_def by (intro dead_after_run [OF fresh] revoked_by_id)
qed

lemma tok_only:
  "\<forall>s \<in> set (sessions (w_db tok_world)). s_TokenHash s = token_hash const_svc ''tok'' \<longrightarrow> s_ID s = ''s1''"
  "\<forall>s \<in> set (sessions (w_db tok_world)). s_TokenHash s = token_hash const_svc ''tok'' \<longrightarrow> s_UserID s = ''u1''"
  by (simp_all add: tok_world_def demo_world_def demo_db_def demo_session_def)

theorem revoked_session_stays_dead_witness:
  "let S = interleaved demo_handlers demo_plan const_svc 0 in
     fst (RevokeSessionWithReason ''u1'' ''s1'' ''lost'' S tok_world) = Inr ()
     \<and> isl (fst (ValidateSession ''tok'' S (snd (serve_all demo_handlers [Public (demo_req ''tok'') PostLogout] S
            (snd (RevokeSessionWithReason ''u1'' ''s1'' ''lost'' S tok_world))))))"
proof -
  let ?r = "RevokeSessionWithReason ''u1'' ''s1'' ''lost'' (interleaved demo_handlers demo_plan const_svc 0) tok_world"
  have ok: "fst ?r = Inr ()" by code_simp
  then have "?r = (Inr (), snd ?r)" by (metis prod.collapse)
  from revoked_session_stays_dead [OF tok_never_drawn tok_wf tok_only(1) this] ok show ?thesis
    unfolding Let_def by blast
qed

text \<open>C4: Suspending a user revokes all the user's sessions for good: no token of a session the user had
  is accepted again, over any run of the server (not even after the suspension is lifted).\<close>

theorem suspension_ends_sessions:
  fixes h plan k reqs
  assumes fresh: "never_drawn sv (token_hash sv raw)" and wf: "wf_db (w_db w)"
    and owner: "\<forall>s \<in> set (sessions (w_db w)). s_TokenHash s = token_hash sv raw \<longrightarrow> s_UserID s = userID"
  defines "S \<equiv> interleaved h plan sv k"
  assumes run: "SuspendUser adminID userID S w = (Inr (), w1)"
  shows "isl (fst (ValidateSession raw S (snd (serve_all h reqs S w1))))"
proof -
  note rely = rely_never_drawn [OF fresh]
  have "rows_ok (dead_session_of (token_hash sv raw) userID) (w_db w1)"
    by (rule dead_of.est_D [OF dead_of.SuspendUser_est [OF RevokeUserSessions_est]
          dead_of.rely_interleaved [OF rely] TrueI wf run [unfolded S_def]])
  moreover have "rows_ok (session_of (token_hash sv raw) userID) (w_db w1)"
    by (rule owned.keeps_run(2) [OF owned.admin_ops_guar(3) owned.rely_interleaved [OF rely] run [unfolded S_def]])
      (use owner in simp)
  ultimately show ?thesis
    unfolding S_def by (intro dead_after_run [OF fresh] revoked_by_owner)
qed

theorem suspension_ends_sessions_witness:
  "let S = interleaved demo_handlers demo_plan const_svc 0 in
     fst (SuspendUser ''admin'' ''u1'' S tok_world) = Inr ()
     \<and> isl (fst (ValidateSession ''tok'' S (snd (serve_all demo_handlers
            [WithAdmin (demo_req ''adm'') (PostUnsuspend ''u1'')] S (snd (SuspendUser ''admin'' ''u1'' S tok_world))))))"
proof -
  let ?r = "SuspendUser ''admin'' ''u1'' (interleaved demo_handlers demo_plan const_svc 0) tok_world"
  have ok: "fst ?r = Inr ()" by code_simp
  then have "?r = (Inr (), snd ?r)" by (metis prod.collapse)
  from suspension_ends_sessions [OF tok_never_drawn tok_wf tok_only(2) this] ok show ?thesis
    unfolding Let_def by blast
qed

text \<open>C5: No use of a session extends it beyond its absolute deadline: once the clock has passed it the
  token is refused, whatever requests were served before.\<close>

theorem absolute_deadline:
  fixes h plan k reqs
  assumes fresh: "never_drawn sv (token_hash sv raw)"
    and deadline: "\<forall>s \<in> set (sessions (w_db w)). s_TokenHash s = token_hash sv raw \<longrightarrow> s_ExpiresAt s \<le> t"
  defines "S \<equiv> interleaved h plan sv k"
  assumes late: "t < w_now (snd (serve_all h reqs S w))"
  shows "isl (fst (ValidateSession raw S (snd (serve_all h reqs S w))))"
proof -
  note rely = rely_never_drawn [OF fresh]
  have "rely (keeps (expires_by (token_hash S raw) t)) (\<lambda>_. True) (\<lambda>x. x \<noteq> token_hash sv raw) S"
    using expiring.rely_interleaved [OF rely] by (simp add: S_def)
  moreover have "rows_ok (expires_by (token_hash S raw) t) (w_db (snd (serve_all h reqs S w)))"
    using expiring.run_keeps_rows [OF rely] deadline by (simp add: S_def)
  ultimately show ?thesis using late by (rule validate_after_expiry)
qed

theorem absolute_deadline_witness:
  "isl (fst (ValidateSession ''tok'' busy_svc
      (snd (serve_all demo_handlers [] busy_svc (tok_world\<lparr>w_now := 25 * time_Hour\<rparr>)))))"
proof (rule absolute_deadline [OF tok_never_drawn])
  show "\<forall>s \<in> set (sessions (w_db (tok_world\<lparr>w_now := 25 * time_Hour\<rparr>))).
      s_TokenHash s = token_hash const_svc ''tok'' \<longrightarrow> s_ExpiresAt s \<le> 24 * time_Hour"
    by (simp add: tok_world_def demo_world_def demo_db_def demo_session_def)
  show "24 * time_Hour < w_now (snd (serve_all demo_handlers [] busy_svc (tok_world\<lparr>w_now := 25 * time_Hour\<rparr>)))"
    by (simp add: ret_def)
qed

end
