(* ===== verification/SecondFactor.thy ===== *)
theory SecondFactor
  imports SessionSafety
begin

text \<open>
  The second factor.  The stage of a session as a function of the database, the confirmation of saved
  recovery codes (\<^verbatim>\<open>V2MFARecoveryCodesAck\<close>) run to its end, and what it makes of a session that has passed
  the password only.
\<close>

section \<open>Undisturbed runs\<close>




section \<open>The stage read from the database\<close>

definition mfa_status :: "db \<Rightarrow> string \<Rightarrow> MFAStatus" where
  "mfa_status d i =
     (let totp = find (\<lambda>r. tp_UserID r = i) (mfa_totp d) in
      \<lparr>HasTOTP = (case totp of None \<Rightarrow> False | Some r \<Rightarrow> sql_trim (tp_SecretEnc r) \<noteq> []),
       TOTPEnabled = (case totp of None \<Rightarrow> False | Some r \<Rightarrow> tp_Enabled r),
       WebAuthnCount = int (length (filter (\<lambda>r. wa_UserID r = i) (mfa_webauthn_credentials d))),
       RecoveryCodes = int (length (filter (\<lambda>r. rc_user_id r = i) (mfa_recovery_codes d))),
       RecoveryUnused = int (length (filter (\<lambda>r. rc_user_id r = i \<and> rc_used_at r = None) (mfa_recovery_codes d)))\<rparr>)"

definition admin_enforced :: "db \<Rightarrow> bool" where
  "admin_enforced d =
     (case Option.bind (setting_of d featureFlagSettingAdminMFARequired) parseFeatureFlagBool of
        Some b \<Rightarrow> b
      | None \<Rightarrow> (case setting_of d ''setup_completed_at'' of None \<Rightarrow> False | Some v \<Rightarrow> TrimSpace v \<noteq> []))"






section \<open>The confirmation of saved recovery codes\<close>

definition mark_users :: "string \<Rightarrow> (user_row \<Rightarrow> user_row) \<Rightarrow> db \<Rightarrow> db" where
  "mark_users i f d = d\<lparr>users := map (\<lambda>r. if u_ID r = i then f r else r) (users d)\<rparr>"

definition mark_session :: "string \<Rightarrow> gotime \<Rightarrow> db \<Rightarrow> db" where
  "mark_session i now d = d\<lparr>sessions := map (\<lambda>s. if s_ID s = i
     then s\<lparr>s_MFAVerifiedAt := Some now, s_AuthMethod := ''mfa_backup_ack''\<rparr> else s) (sessions d)\<rparr>"

definition drop_setting :: "string \<Rightarrow> db \<Rightarrow> db" where
  "drop_setting k d = d\<lparr>settings := filter (\<lambda>r. set_Key r \<noteq> k) (settings d)\<rparr>"






lemma marks_kept [simp]:
  "users (mark_session j now d) = users d" "users (drop_setting k d) = users d"
  "setting_of (mark_session j now d) = setting_of d" "setting_of (mark_users i f d) = setting_of d"
  "sessions (mark_users i f d) = sessions d" "sessions (drop_setting k d) = sessions d"
  by (simp_all add: mark_session_def drop_setting_def mark_users_def setting_of_def fun_eq_iff)










lemma touched_kept [simp]:
  "setting_of (touched i a b d) = setting_of d" "mfa_status (touched i a b d) j = mfa_status d j"
  "admin_enforced (touched i a b d) = admin_enforced d"
  by (simp_all add: touched_def setting_of_def mfa_status_def admin_enforced_def fun_eq_iff cong: option.case_cong)





section \<open>A second factor that can be skipped\<close>







end
