(* ===== verification/ResetSafety.thy ===== *)
theory ResetSafety
  imports SessionSafety
begin

text \<open>
  Password reset tokens, trusted devices and recovery codes: each is good for one use, or until it is
  revoked, over every run of the server.
\<close>

section \<open>Reset tokens\<close>

lemma tokens_same_hash:
  "wf_db d \<Longrightarrow> t \<in> set (password_reset_tokens d) \<Longrightarrow> t' \<in> set (password_reset_tokens d)
   \<Longrightarrow> t_TokenHash t = t_TokenHash t' \<Longrightarrow> t = t'"
  unfolding wf_db_def
  by (rule uniq_keyD [where ks = tokens_keys and k = "\<lambda>r. [t_TokenHash r]"]) (simp_all add: tokens_keys_def)

lemma matched_row:
  assumes "t_update ks P f t = Some (t', n)" "n \<noteq> 0"
  obtains r where "r \<in> set t" "P r"
proof -
  have "filter P t \<noteq> []" using assms by (auto simp: t_update_Some)
  then show ?thesis using that by (auto simp: filter_empty_conv)
qed

lemma ConsumeReserved_est: "used.E hash C (ConsumeReservedPasswordResetToken hash rid)"
  unfolding ConsumeReservedPasswordResetToken_def set_token_def
proof (rule used.est_right [OF used.guar_time], rule used.est_matched)
  fix now and d :: db and t n
  let ?P = "\<lambda>t. t_TokenHash t = hash \<and> t_UsedAt t = None \<and> t_ExpiresAt t > now
      \<and> t_ReservationID t = Some (TrimSpace rid)"
  assume wf: "wf_db d" and n: "\<not> n \<noteq> 1"
    and up: "t_update tokens_keys ?P (mark_used now) (password_reset_tokens d) = Some (t, n)"
  obtain r where r: "r \<in> set (password_reset_tokens d)" "?P r"
    using matched_row [OF up] n by auto
  have "\<forall>x \<in> set t. t_TokenHash x = hash \<longrightarrow> t_UsedAt x \<noteq> None"
    using up
  proof (rule t_update_all)
    fix x assume x: "x \<in> set (password_reset_tokens d)" "\<not> ?P x"
    then show "t_TokenHash x = hash \<longrightarrow> t_UsedAt x \<noteq> None"
      using tokens_same_hash [OF wf x(1) r(1)] r(2) by auto
  qed (simp add: mark_used_def)
  then show "rows_ok (used_token hash) (d\<lparr>password_reset_tokens := t\<rparr>)" by simp
qed (rule used.token_ops_guar)

lemma consume_est: "used.E hash C (consumeReservedPasswordResetToken hash rid)"
  unfolding consumeReservedPasswordResetToken_def
  by (rule used.est_try_left [OF ConsumeReserved_est])
    (simp_all add: used.est_ignore used.est_fail used.token_ops_guar used.guar_ret)

context row_invariant
begin

lemma releasing_est: "E C m \<Longrightarrow> G m (\<lambda>_. True) \<Longrightarrow> E C (releasing h i m)"
  unfolding releasing_def
  by (rule est_try_left) (simp_all add: est_ignore est_fail token_ops_guar guar_ret)

lemma reset_reserved_est:
  assumes "\<And>i. E C (consumeReservedPasswordResetToken hash i)"
  shows "E C (reset_reserved hash i pam u pw)"
  unfolding reset_reserved_def
  apply (rule est_if)
   apply (rule est_left, rule releasing_est, rule est_right, (rule guar_intros)+, rule est_then_right,
      rule guar_intros, rule est_then_left, rule assms, (rule guar_intros TrueI)+)
  apply (rule releasing_est, rule est_right, (rule guar_intros)+, rule est_right, rule guar_intros,
      rule est_then_right, rule guar_intros, rule est_then_left, rule assms, (rule guar_intros TrueI)+)
  done

lemma ConfirmPasswordReset_est:
  assumes "\<And>i. E C (consumeReservedPasswordResetToken hash i)"
    and hash: "\<And>sv. C sv \<Longrightarrow> hex_sha256 (sha256 sv) raw = hash"
  shows "E C (ConfirmPasswordReset raw pw)"
  unfolding ConfirmPasswordReset_def
  by (rule est_right, (rule guar_intros)+, rule est_if, rule est_fail, rule est_then_right, rule guar_intros,
      rule est_ask, simp only: prod.case hash, rule est_right, rule guar_intros,
      rule est_right, (rule guar_intros)+, rule est_left, rule reset_reserved_est, rule assms(1), (rule guar_intros)+)

lemma ConfirmPasswordReset_refused:
  assumes "\<And>i l. N C (ReservePasswordResetToken hash i l)"
    and hash: "\<And>sv. C sv \<Longrightarrow> hex_sha256 (sha256 sv) raw = hash"
  shows "N C (ConfirmPasswordReset raw pw)"
  unfolding ConfirmPasswordReset_def
  by (rule refuse_right, (rule guar_intros)+, rule refuse_if, rule refuse_fail, rule refuse_then_right,
      rule guar_intros, rule refuse_ask, simp only: prod.case hash, rule refuse_right, rule guar_intros,
      rule refuse_left, rule refuse_mapErr, rule assms(1))

end

lemma Reserve_refused: "used.N hash C (ReservePasswordResetToken hash i l)"
  unfolding ReservePasswordResetToken_def set_token_def Let_def
proof (rule used.refuse_if, rule used.refuse_fail, rule used.refuse_right [OF used.guar_time],
    rule used.refuse_matched)
  fix now lease and d :: db and t n
  assume "rows_ok (used_token hash) d"
    and "t_update tokens_keys (reservable hash now (if l \<le> 0 then 30 * time_Second else l))
       (\<lambda>t. t\<lparr>t_ReservedAt := Some now, t_ReservationID := Some (TrimSpace i)\<rparr>) (password_reset_tokens d) = Some (t, n)"
  then have "n = 0" by (auto simp: t_update_Some reservable_def filter_empty_conv)
  then show "n \<noteq> 1" by simp
qed

text \<open>C6: A reset token works once: after a confirmation that succeeded, among any interleaved requests and
  after any further ones, no confirmation with the same token succeeds.\<close>

theorem reset_token_single_use:
  fixes h plan k reqs
  assumes fresh: "never_drawn sv (token_hash sv raw)" and wf: "wf_db (w_db w)"
  defines "S \<equiv> interleaved h plan sv k"
  assumes first: "ConfirmPasswordReset raw pw S w = (Inr (), w1)"
  shows "isl (fst (ConfirmPasswordReset raw pw' S (snd (serve_all h reqs S w1))))"
proof -
  let ?C = "\<lambda>sv'. token_hash sv' raw = token_hash sv raw"
  note rely = rely_never_drawn [OF fresh]
  have "rows_ok (used_token (token_hash sv raw)) (w_db (snd (serve_all h reqs S w1)))"
    unfolding S_def
    by (rule used.established_after [OF rely wf used.ConfirmPasswordReset_est [OF consume_est, of ?C raw]
          _ first [unfolded S_def]]) simp_all
  then show ?thesis unfolding S_def
    by (intro used.refuse_D [OF used.ConfirmPasswordReset_refused [OF Reserve_refused, of ?C raw]
          used.rely_interleaved [OF rely]]) simp_all
qed

text \<open>In PAM mode the confirmation succeeds once the token is consumed.\<close>

definition consume_by_reset :: "string \<Rightarrow> string \<Rightarrow> (string \<times> User) M" where
  "consume_by_reset raw pw =
     bindM (mapErr (\<lambda>_. ErrPasswordResetUnavailable) PublicPasswordResetEnabled) (\<lambda>enabled.
     if \<not> enabled then fail ErrPasswordResetUnavailable
     else thenM (ValidatePassword pw)
     (bindM (askM (\<lambda>sv. token_hash sv raw)) (\<lambda>hash.
      bindM uuid_NewString (\<lambda>i.
      bindM (mapErr (\<lambda>_. ErrInvalidCredentials)
               (ReservePasswordResetToken hash i passwordResetReservationLease)) (\<lambda>t.
      bindM (releasing hash i (bindM (mapErr (\<lambda>_. ErrInvalidCredentials) (GetUserByID (t_UserID t))) (\<lambda>u.
         thenM (resetPasswordViaPAM u pw) (thenM (consumeReservedPasswordResetToken hash i) (ret u))))) (\<lambda>u.
      ret (t_UserID t, u)))))))"

lemma ConfirmPasswordReset_split:
  assumes "usesPAMAuth sv"
  shows "ConfirmPasswordReset raw pw sv w = bindM (consume_by_reset raw pw) (\<lambda>(i, u).
     bindM (auth_HashPassword pw) (\<lambda>h. thenM (UpdateUserPasswordHash i h) (after_reset u i pw h))) sv w"
  using assms unfolding ConfirmPasswordReset_def consume_by_reset_def reset_reserved_def thenM_def
  by (simp add: bindM_run askM_def ret_def fail_def split: prod.split sum.split)

lemma UpdateUserPasswordHash_returns:
  assumes "quiet sv" "\<And>n. db_fault sv n = None" "wf_db (w_db w)"
  shows "\<exists>w'. UpdateUserPasswordHash i h sv w = (Inr (), w')"
proof -
  have "t_update users_keys (\<lambda>r. u_ID r = i) (\<lambda>r. r\<lparr>u_PasswordHash := h\<rparr>) (users (w_db w)) \<noteq> None"
    using assms(3) by (subst t_update_keeps_keys) (auto simp: wf_db_def users_keys_def)
  then show ?thesis
    using assms(1,2) by (auto simp: UpdateUserPasswordHash_def set_user_def exec_def thenM_def bindM_run
        put_def stmt_def ret_def)
qed

lemma auth_HashPassword_returns:
  "rand sv (w_n w) saltLen = Some salt \<Longrightarrow> \<exists>h. auth_HashPassword pw sv w = (Inr h, w\<lparr>w_n := Suc (w_n w)\<rparr>)"
  by (simp add: auth_HashPassword_def bindM_run askM_def draw_def HashPassword_def lift_secret_def ret_def)

lemma after_reset_pam: "usesPAMAuth sv \<Longrightarrow> \<exists>w'. after_reset u i pw h sv w = (Inr (), w')"
  by (auto simp: after_reset_def ignoreM_def tryM_run bindM_run thenM_def askM_def ret_def split: prod.split)

lemma ConfirmPasswordReset_pam:
  assumes pam: "usesPAMAuth sv" and "quiet sv" "\<And>n. db_fault sv n = None"
    and salt: "\<And>n. rand sv n saltLen \<noteq> None"
    and consumed: "consume_by_reset raw pw sv w = (Inr (i, u), w1)" and wf: "wf_db (w_db w1)"
  shows "\<exists>w'. ConfirmPasswordReset raw pw sv w = (Inr (), w')"
proof -
  obtain h where h: "auth_HashPassword pw sv w1 = (Inr h, w1\<lparr>w_n := Suc (w_n w1)\<rparr>)"
    using auth_HashPassword_returns salt by (metis not_None_eq)
  obtain w2 where "UpdateUserPasswordHash i h sv (w1\<lparr>w_n := Suc (w_n w1)\<rparr>) = (Inr (), w2)"
    using UpdateUserPasswordHash_returns [OF assms(2,3)] wf by fastforce
  moreover obtain w3 where "after_reset u i pw h sv w2 = (Inr (), w3)" using after_reset_pam [OF pam] by blast
  ultimately show ?thesis
    unfolding ConfirmPasswordReset_split [OF pam] using consumed h by (simp add: bindM_run thenM_def)
qed

definition reset_world :: world where
  "reset_world = demo_world\<lparr>w_db := demo_db\<lparr>password_reset_tokens :=
     [demo_token ''t1'' ''u1'' (token_hash const_svc ''tok'')]\<rparr>\<rparr>"

theorem reset_token_single_use_witness:
  "let S = interleaved demo_handlers demo_plan const_svc 0;
       r = ConfirmPasswordReset ''tok'' ''Secret-123'' S reset_world in
     fst r = Inr () \<and> isl (fst (ConfirmPasswordReset ''tok'' ''Other-456'' S (snd (serve_all demo_handlers
            [Public (demo_req ''tok'') (PostResetRequest (Inr ''ann@example.org''))] S (snd r)))))"
proof -
  let ?r = "ConfirmPasswordReset ''tok'' ''Secret-123'' (interleaved demo_handlers demo_plan const_svc 0) reset_world"
  have wf: "wf_db (w_db reset_world)" by code_simp
  let ?p = "consume_by_reset ''tok'' ''Secret-123'' (interleaved demo_handlers demo_plan const_svc 0) reset_world"
  have "\<not> isl (fst ?p)" "wf_db (w_db (snd ?p))" by code_simp+
  then obtain i u w1 where p: "?p = (Inr (i, u), w1)" "wf_db (w_db w1)"
    using Inr_result by (metis prod.collapse snd_conv)
  let ?S = "interleaved demo_handlers demo_plan const_svc 0"
  have pam: "usesPAMAuth ?S" by code_simp
  have quiet: "quiet ?S" by (simp add: alone_def quiet_def)
  have nofault: "db_fault ?S n = None" for n by (simp add: alone_def const_no_fault)
  have salt: "rand ?S n saltLen \<noteq> None" for n by (simp add: alone_def const_svc_def)
  obtain w' where "?r = (Inr (), w')"
    using ConfirmPasswordReset_pam [OF pam quiet nofault salt p] by blast
  then have ok: "fst ?r = Inr ()" and r: "?r = (Inr (), snd ?r)" by simp_all
  from reset_token_single_use [OF tok_never_drawn wf r] ok show ?thesis
    unfolding Let_def by blast
qed

section \<open>Trusted devices\<close>

lemma devices_same_id:
  "wf_db d \<Longrightarrow> r \<in> set (mfa_trusted_devices d) \<Longrightarrow> r' \<in> set (mfa_trusted_devices d) \<Longrightarrow> td_ID r = td_ID r' \<Longrightarrow> r = r'"
  unfolding wf_db_def
  by (rule uniq_keyD [where ks = devices_keys and k = "\<lambda>r. [td_ID r]"]) (simp_all add: devices_keys_def)

lemma RevokeMFATrustedDevice_est: "device.E i C (RevokeMFATrustedDevice u i)"
  unfolding RevokeMFATrustedDevice_def set_device_def
proof (rule device.est_right [OF device.guar_time], rule device.est_rows)
  fix now and d :: db and t n
  let ?P = "\<lambda>r. td_UserID r = u \<and> td_ID r = i \<and> td_RevokedAt r = None"
  assume wf: "wf_db d" and n: "n \<noteq> 0"
    and up: "t_update devices_keys ?P (\<lambda>r. r\<lparr>td_RevokedAt := Some now\<rparr>) (mfa_trusted_devices d) = Some (t, n)"
  obtain r where r: "r \<in> set (mfa_trusted_devices d)" "?P r" using matched_row [OF up n] by blast
  have "\<forall>x \<in> set t. td_ID x = i \<longrightarrow> td_RevokedAt x \<noteq> None"
    using up
  proof (rule t_update_all)
    fix x assume x: "x \<in> set (mfa_trusted_devices d)" "\<not> ?P x"
    then show "td_ID x = i \<longrightarrow> td_RevokedAt x \<noteq> None" using devices_same_id [OF wf x(1) r(1)] r(2) by auto
  qed simp
  then show "rows_ok (revoked_device i) (d\<lparr>mfa_trusted_devices := t\<rparr>)" by simp
qed

text \<open>C8: A trusted device that was revoked never replaces the second factor again: whatever token is
  presented, over any run of the server, the device found is another one.\<close>

theorem revoked_device_never_active:
  fixes h plan k reqs
  assumes fresh: "never_named sv i" and wf: "wf_db (w_db w)"
  defines "S \<equiv> interleaved h plan sv k"
  assumes revoke: "RevokeMFATrustedDevice userID i S w = (Inr (), w1)"
    and found: "GetActiveMFATrustedDeviceByTokenHash userID' hash now S (snd (serve_all h reqs S w1)) = (Inr d, w2)"
  shows "td_ID d \<noteq> i"
proof -
  let ?w = "snd (serve_all h reqs S w1)"
  note rely = rely_never_named [OF fresh]
  have "rows_ok (revoked_device i) (w_db ?w)" unfolding S_def
    by (rule device.established_after [OF rely wf RevokeMFATrustedDevice_est TrueI revoke [unfolded S_def]])
  then have "rows_ok (revoked_device i) (others S (w_n ?w) (w_db ?w))"
    unfolding S_def by (rule rely_dbs(2) [OF device.rely_interleaved [OF rely]])
  then show ?thesis
    using found by (auto simp: GetActiveMFATrustedDeviceByTokenHash_def query_row_Inr device_active_def dest!: find_Some)
qed

definition device_world :: world where
  "device_world = demo_world\<lparr>w_db := demo_db\<lparr>mfa_trusted_devices :=
     map (\<lambda>(i, h). \<lparr>td_ID = i, td_UserID = ''u1'', td_TokenHash = h, td_UAHash = [], td_IPHint = [],
        td_DeviceLabel = [], td_CreatedAt = Some 0, td_LastUsedAt = None, td_ExpiresAt = Some time_Hour,
        td_RevokedAt = None\<rparr>) [(''d1'', ''h1''), (''d2'', ''h2'')]\<rparr>\<rparr>"

theorem revoked_device_never_active_witness:
  "let S = interleaved demo_handlers demo_plan const_svc 0;
       w = snd (serve_all demo_handlers [] S (snd (RevokeMFATrustedDevice ''u1'' ''d1'' S device_world)));
       r = fst (GetActiveMFATrustedDeviceByTokenHash ''u1'' ''h2'' 1 S w) in
     (\<exists>d. r = Inr d \<and> td_ID d \<noteq> ''d1'')"
proof -
  let ?S = "interleaved demo_handlers demo_plan const_svc 0"
  let ?r = "RevokeMFATrustedDevice ''u1'' ''d1'' ?S device_world"
  let ?g = "GetActiveMFATrustedDeviceByTokenHash ''u1'' ''h2'' 1 ?S (snd (serve_all demo_handlers [] ?S (snd ?r)))"
  have named: "never_named const_svc ''d1''" by (simp add: never_named_def const_svc_def demo_svc_def)
  have wf: "wf_db (w_db device_world)" by code_simp
  have ok: "fst ?r = Inr ()" "\<not> isl (fst ?g)" by code_simp+
  have r: "?r = (Inr (), snd ?r)" using ok(1) by (metis prod.collapse)
  obtain d w2 where g: "?g = (Inr d, w2)" using Inr_result [OF ok(2)] by blast
  have "td_ID d \<noteq> ''d1''" by (rule revoked_device_never_active [OF named wf r g])
  then show ?thesis using g by simp
qed

section \<open>Recovery codes\<close>

lemma ConsumeRecoveryCodeHash_est: "code.E i u hash C (ConsumeRecoveryCodeHash u hash)"
  unfolding ConsumeRecoveryCodeHash_def
proof (rule code.est_right [OF code.guar_time])
  fix now
  let ?P = "\<lambda>c. rc_user_id c = u \<and> rc_code_hash c = hash \<and> rc_used_at c = None"
  let ?f = "\<lambda>c. c\<lparr>rc_used_at := Some now\<rparr>"
  have "code.E i u hash C (bindM (on_recovery (t_update recovery_keys ?P ?f))
      (\<lambda>n. if False then fail ErrNotFound else ret (n > 0)))"
  proof (rule code.est_matched)
    fix d :: db and t n
    assume "t_update recovery_keys ?P ?f (mfa_recovery_codes d) = Some (t, n)"
    then show "rows_ok (used_code i u hash) (d\<lparr>mfa_recovery_codes := t\<rparr>)"
      by (simp, elim t_update_all) simp_all
  qed (simp add: code.guar_ret)
  then show "code.E i u hash C (bindM (on_recovery (t_update recovery_keys ?P ?f)) (\<lambda>n. ret (n > 0)))" by simp
qed

lemma consumed_again:
  fixes h plan k reqs sv
  defines "S \<equiv> interleaved h plan sv k"
  assumes first: "ConsumeRecoveryCodeHash userID hash S w = (Inr b, w1)" and wf: "wf_db (w_db w)"
    and fresh: "\<And>c. c \<in> set (mfa_recovery_codes (w_db w1)) \<Longrightarrow> never_named sv (rc_id c)"
    and again: "ConsumeRecoveryCodeHash userID hash S (snd (serve_all h reqs S w1)) = (Inr True, w2)"
  shows "\<exists>c \<in> set (mfa_recovery_codes (w_db w2)). rc_user_id c = userID \<and> rc_code_hash c = hash
           \<and> rc_id c \<notin> rc_id ` set (mfa_recovery_codes (w_db w1))"
proof -
  let ?w = "snd (serve_all h reqs S w1)"
  let ?P = "\<lambda>c. rc_user_id c = userID \<and> rc_code_hash c = hash \<and> rc_used_at c = None"
  define d where "d = others S (Suc (w_n ?w)) (w_db ?w)"
  have used: "rows_ok (used_code (rc_id c) userID hash) d" if c: "c \<in> set (mfa_recovery_codes (w_db w1))" for c
  proof -
    note rely = rely_never_named [OF fresh [OF c]]
    have "rows_ok (used_code (rc_id c) userID hash) (w_db ?w)" unfolding S_def
      by (rule code.established_after [OF rely wf ConsumeRecoveryCodeHash_est TrueI first [unfolded S_def]])
    then show ?thesis unfolding d_def S_def by (rule rely_dbs(2) [OF code.rely_interleaved [OF rely]])
  qed
  obtain now t n where up: "t_update recovery_keys ?P (\<lambda>c. c\<lparr>rc_used_at := Some now\<rparr>) (mfa_recovery_codes d) = Some (t, n)"
    and n: "n > 0" and w2: "mfa_recovery_codes (w_db w2) = t"
    using again by (auto simp: ConsumeRecoveryCodeHash_def runs time_Now_Inr put_Inr d_def)
  obtain c where c: "c \<in> set (mfa_recovery_codes d)" "?P c" using matched_row [OF up] n by auto
  have new: "rc_id c \<notin> rc_id ` set (mfa_recovery_codes (w_db w1))"
  proof
    assume "rc_id c \<in> rc_id ` set (mfa_recovery_codes (w_db w1))"
    then obtain c0 where "c0 \<in> set (mfa_recovery_codes (w_db w1))" "rc_id c0 = rc_id c" by force
    then show False using used [of c0] c by auto
  qed
  have "c\<lparr>rc_used_at := Some now\<rparr> \<in> set t" using up c by (force simp: t_update_Some)
  then show ?thesis using c(2) new unfolding w2 by (intro bexI [of _ "c\<lparr>rc_used_at := Some now\<rparr>"]) simp_all
qed

text \<open>C7: A recovery code works once: after it was consumed, over any run of the server in which the user
  gets no new codes, it is not accepted again.\<close>

theorem recovery_code_single_use:
  fixes h plan k reqs sv w1 userID hash
  defines "S \<equiv> interleaved h plan sv k"
  defines "again \<equiv> ConsumeRecoveryCodeHash userID hash S (snd (serve_all h reqs S w1))"
  assumes first: "ConsumeRecoveryCodeHash userID hash S w = (Inr b, w1)" and wf: "wf_db (w_db w)"
    and fresh: "\<And>c. c \<in> set (mfa_recovery_codes (w_db w1)) \<Longrightarrow> never_named sv (rc_id c)"
    and old: "\<And>c. c \<in> set (mfa_recovery_codes (w_db (snd again))) \<Longrightarrow> rc_user_id c = userID \<Longrightarrow>
                rc_code_hash c = hash \<Longrightarrow> rc_id c \<in> rc_id ` set (mfa_recovery_codes (w_db w1))"
  shows "fst again \<noteq> Inr True"
proof
  assume "fst again = Inr True"
  then have "again = (Inr True, snd again)" by (metis prod.collapse)
  from consumed_again [OF first [unfolded S_def] wf fresh this [unfolded again_def S_def]] old
  show False unfolding again_def S_def by blast
qed

definition code_world :: world where
  "code_world = demo_world\<lparr>w_db := demo_db\<lparr>mfa_recovery_codes :=
     map (\<lambda>(i, h). \<lparr>rc_id = i, rc_user_id = ''u1'', rc_code_hash = h, rc_used_at = None, rc_created_at = 0\<rparr>)
       [(''c1'', ''h1''), (''c2'', ''h2'')]\<rparr>\<rparr>"

theorem recovery_code_single_use_witness:
  "let S = interleaved demo_handlers demo_plan const_svc 0;
       r = ConsumeRecoveryCodeHash ''u1'' ''h1'' S code_world in
     fst r = Inr True \<and> fst (ConsumeRecoveryCodeHash ''u1'' ''h1'' S (snd (serve_all demo_handlers [] S (snd r)))) \<noteq> Inr True"
proof -
  let ?S = "interleaved demo_handlers demo_plan const_svc 0"
  let ?r = "ConsumeRecoveryCodeHash ''u1'' ''h1'' ?S code_world"
  let ?a = "ConsumeRecoveryCodeHash ''u1'' ''h1'' ?S (snd (serve_all demo_handlers [] ?S (snd ?r)))"
  have wf: "wf_db (w_db code_world)" by code_simp
  have ok: "fst ?r = Inr True" by code_simp
  then have r: "?r = (Inr True, snd ?r)" by (metis prod.collapse)
  have ids: "map rc_id (mfa_recovery_codes (w_db (snd ?r))) = [''c1'', ''c2'']"
    "map rc_id (mfa_recovery_codes (w_db (snd ?a))) = [''c1'', ''c2'']" by code_simp+
  have named: "never_named const_svc ''c1''" "never_named const_svc ''c2''"
    by (simp_all add: never_named_def const_svc_def demo_svc_def)
  have "rc_id c = ''c1'' \<or> rc_id c = ''c2''" if "c \<in> set (mfa_recovery_codes (w_db (snd ?r)))" for c
    using that arg_cong [OF ids(1), of set] by auto
  then have fresh: "never_named const_svc (rc_id c)" if "c \<in> set (mfa_recovery_codes (w_db (snd ?r)))" for c
    using that named by metis
  have "rc_id ` set (mfa_recovery_codes (w_db (snd ?a))) = rc_id ` set (mfa_recovery_codes (w_db (snd ?r)))"
    using ids by (metis list.set_map)
  then have old: "rc_id c \<in> rc_id ` set (mfa_recovery_codes (w_db (snd ?r)))"
    if "c \<in> set (mfa_recovery_codes (w_db (snd ?a)))" for c using that by blast
  have "fst ?a \<noteq> Inr True" by (rule recovery_code_single_use [OF r wf fresh old])
  then show ?thesis using ok by (simp add: Let_def del: interleaved.simps)
qed

end
