(* ===== verification/Guards.thy ===== *)
theory Guards
  imports ResetSafety
begin

text \<open>
  Guards: what must hold before the handler of an administration route acts, and a wrong password that the
  login takes for an outage.
\<close>

section \<open>Administration\<close>

lemma admin_chain_validated:
  assumes "hr_cookie r (SessionCookieName h) = Some token" "token \<noteq> []"
    and "ValidateSession token sv w = (Inr (u, s), w1)" "ResolveMFAStage u (Some s) sv w1 = (y, w2)"
  shows "admin_chain h r f sv w = (case y of
      Inl _ \<Rightarrow> (Inr (error_resp 500 ''internal_error''), w2)
    | Inr stage \<Rightarrow>
        if AuthStage stage = AuthStageMFASetupNeeded then (Inr (error_resp 401 ''mfa_setup_required''), w2)
        else if AuthStage stage = AuthStageMFARequired then (Inr (error_resp 401 ''mfa_required''), w2)
        else case AdminOnly (Some u) of Some resp \<Rightarrow> (Inr resp, w2)
        | None \<Rightarrow> (case CSRFFromCookie h r of Some resp \<Rightarrow> (Inr resp, w2) | None \<Rightarrow> f u s sv w2))"
  using assms
  by (auto simp: admin_chain_def Authn_def RequireMFAStageAuthenticated_def bindM_run tryM_run ret_def
      split: sum.split option.split)

lemma admin_chain_refused:
  assumes "\<And>token. hr_cookie r (SessionCookieName h) = Some token \<Longrightarrow> token \<noteq> [] \<Longrightarrow> isl (fst (ValidateSession token sv w))"
    and "admin_chain h r f sv w = (Inr resp, w')"
  shows "rs_status resp \<in> {401, 403} \<and> (\<forall>f'. admin_chain h r f' sv w = (Inr resp, w'))"
  using assms
  by (fastforce simp: admin_chain_def Authn_def bindM_run tryM_run ret_def error_resp_def
      split: option.splits prod.splits sum.splits if_splits)

lemma csrf_passed:
  "CSRFFromCookie h r = None \<longleftrightarrow>
     hr_method r \<in> {''GET'', ''HEAD'', ''OPTIONS''}
     \<or> (hr_header r ''X-CSRF-Token'' \<noteq> [] \<and> hr_cookie r (CSRFCookieName h) = Some (hr_header r ''X-CSRF-Token''))"
  by (auto simp: CSRFFromCookie_def split: option.split)

lemma csrf_403: "CSRFFromCookie h r = Some resp \<Longrightarrow> rs_status resp = 403"
  by (auto simp: CSRFFromCookie_def error_resp_def split: if_splits option.splits)

text \<open>C9: A request to an administration route reaches its handler only with the cookie of a session that
  validates at that moment, of a user who is an administrator and whose stage is authenticated, and,
  unless its method is GET, HEAD or OPTIONS, with the CSRF header equal to the CSRF cookie; otherwise it is
  answered with 401, 403 or 500 without running the handler.\<close>

theorem admin_routes_guarded:
  fixes f
  assumes run: "admin_chain h r f sv w = (Inr resp, w')"
  shows "(\<exists>token u s stage w1 w2.
            hr_cookie r (SessionCookieName h) = Some token \<and> token \<noteq> []
            \<and> ValidateSession token sv w = (Inr (u, s), w1)
            \<and> ResolveMFAStage u (Some s) sv w1 = (Inr stage, w2)
            \<and> AuthStage stage \<notin> {AuthStageMFASetupNeeded, AuthStageMFARequired}
            \<and> u_Role u = ''admin''
            \<and> (hr_method r \<in> {''GET'', ''HEAD'', ''OPTIONS''}
               \<or> (hr_header r ''X-CSRF-Token'' \<noteq> []
                  \<and> hr_cookie r (CSRFCookieName h) = Some (hr_header r ''X-CSRF-Token'')))
            \<and> f u s sv w2 = (Inr resp, w'))
         \<or> (rs_status resp \<in> {401, 403, 500} \<and> (\<forall>f'. admin_chain h r f' sv w = (Inr resp, w')))"
proof (cases "\<exists>token u s w1. hr_cookie r (SessionCookieName h) = Some token \<and> token \<noteq> []
    \<and> ValidateSession token sv w = (Inr (u, s), w1)")
  case False
  then have "isl (fst (ValidateSession token sv w))"
    if "hr_cookie r (SessionCookieName h) = Some token" "token \<noteq> []" for token
    using that by (metis Inr_result surj_pair)
  then have "rs_status resp \<in> {401, 403} \<and> (\<forall>f'. admin_chain h r f' sv w = (Inr resp, w'))"
    by (rule admin_chain_refused [OF _ run])
  then show ?thesis by (intro disjI2) auto
next
  case True
  then obtain token u s w1 where v: "hr_cookie r (SessionCookieName h) = Some token" "token \<noteq> []"
    "ValidateSession token sv w = (Inr (u, s), w1)" by blast
  obtain y w2 where st: "ResolveMFAStage u (Some s) sv w1 = (y, w2)" by force
  note chain = admin_chain_validated [OF v st]
  show ?thesis
  proof (cases "\<exists>stage. y = Inr stage \<and> AuthStage stage \<notin> {AuthStageMFASetupNeeded, AuthStageMFARequired}
      \<and> u_Role u = ''admin'' \<and> CSRFFromCookie h r = None")
    case True
    then obtain stage where stage: "y = Inr stage" "AuthStage stage \<notin> {AuthStageMFASetupNeeded, AuthStageMFARequired}"
      "u_Role u = ''admin''" "CSRFFromCookie h r = None" by blast
    then have "f u s sv w2 = (Inr resp, w')" using run by (simp add: chain AdminOnly_def)
    then show ?thesis using v st stage unfolding csrf_passed by blast
  next
    case False
    then show ?thesis using run
      by (auto simp: chain AdminOnly_def error_resp_def dest: csrf_403 split: sum.splits if_splits option.splits)
  qed
qed

definition admin_world :: world where
  "admin_world = demo_world\<lparr>w_db := demo_db\<lparr>
     users := [(demo_user ''a1'' ''root@example.org'')\<lparr>u_Role := ''admin''\<rparr>, demo_user ''u1'' ''ann@example.org''],
     sessions := [demo_session ''s0'' ''a1'' (token_hash const_svc ''adm''),
                  demo_session ''s1'' ''u1'' (token_hash const_svc ''tok'')]\<rparr>\<rparr>"

theorem admin_routes_guarded_witness:
  "let f = \<lambda>u s. admin_handler (PostSuspend ''u1'') u; r = admin_chain demo_handlers (demo_req ''tok'') f const_svc admin_world in
     \<exists>resp w'. r = (Inr resp, w') \<and> rs_status resp = 403
       \<and> (\<forall>f'. admin_chain demo_handlers (demo_req ''tok'') f' const_svc admin_world = (Inr resp, w'))"
proof -
  let ?f = "\<lambda>u s. admin_handler (PostSuspend ''u1'') u"
  let ?r = "admin_chain demo_handlers (demo_req ''tok'') ?f const_svc admin_world"
  have "map_sum id rs_status (fst ?r) = Inr 403" by code_simp
  then obtain resp w' where r: "?r = (Inr resp, w')" "rs_status resp = 403"
    by (cases ?r; cases "fst ?r") auto
  have no: "map_sum id (\<lambda>(u, s). u_Role u) (fst (ValidateSession ''tok'' const_svc admin_world)) = Inr ''user''"
    by code_simp
  have "\<not> (\<exists>token u s. hr_cookie (demo_req ''tok'') (SessionCookieName demo_handlers) = Some token
      \<and> (\<exists>w1. ValidateSession token const_svc admin_world = (Inr (u, s), w1)) \<and> u_Role u = ''admin'')"
    using no by (auto simp: demo_req_def demo_handlers_def)
  with admin_routes_guarded [OF r(1)] r show ?thesis by (auto simp: Let_def)
qed

section \<open>A wrong password reported as an outage\<close>

text \<open>The PAM login decides whether the mail server is unreachable by searching the text of the error,
  which for a wrong password lists the login names tried: with a correct verifier, a wrong password is
  answered as invalid credentials for \<open>ann\<close>, and as an unreachable verifier for \<open>geoff\<close>, whose name
  contains \<open>eof\<close>.\<close>

theorem wrong_password_taken_for_outage:
  "fst (Login ''ann@example.org'' ''wrong'' ''10.0.0.1'' ''agent'' demo_svc demo_world) = Inl ErrInvalidCredentials
   \<and> fst (Login ''geoff@example.org'' ''wrong'' ''10.0.0.1'' ''agent'' demo_svc demo_world) = Inl ErrPAMVerifierDown"
  by code_simp

end
