(* ===== verification/MailCache.thy ===== *)
theory MailCache
  imports Codec
begin

text \<open>
  The two response caches of the mail API (\<^verbatim>\<open>api/mail_cache.go\<close>): mailbox lists by mail login and
  thread pages by login, scope, mailbox, thread and page.  Both let one request fetch a missing
  entry while the others wait for its result.  The code is the same twice, with another key, time to
  live and clean-up, so the critical sections are modelled once and a locale states what the proofs
  need of the clean-up; the two caches are its interpretations.

  A request runs concurrently with others: it reads the clock, runs a first section under the mutex
  (\<open>get_lookup\<close>), and then returns a hit, waits for another request's fetch, or fetches without the
  mutex and publishes the result in a second section (\<open>get_publish\<close>).  The sections are the atomic
  steps of a machine over all requests; what a fetch returns, when a request arrives, is cancelled or
  invalidates, and how the clock moves, is left to the events.  A result is an error or a value: the
  value that accompanies an error is not modelled.  Copies that protect the cached slices from their
  readers are the identity on values.
\<close>

section \<open>Keys\<close>

definition normalizeMailLoginKey :: "string \<Rightarrow> string" where
  "normalizeMailLoginKey mailLogin = lower_trim mailLogin"

definition threadCacheKey :: "string \<Rightarrow> string \<Rightarrow> string \<Rightarrow> string \<Rightarrow> int \<Rightarrow> int \<Rightarrow> string" where
  "threadCacheKey mailLogin scope mailbox threadID page pageSize =
     Join [normalizeMailLoginKey mailLogin, lower_trim scope, TrimSpace mailbox, TrimSpace threadID,
           show_int page, show_int pageSize] [CHR 0x00]"

definition mailboxCacheTTL :: duration where "mailboxCacheTTL = 20 * time_Second"

definition threadCacheTTL :: duration where "threadCacheTTL = 30 * time_Second"

section \<open>The critical sections\<close>

record 'v cached =
  c_value :: 'v
  c_expiresAt :: gotime

text \<open>\<open>inflight\<close> holds pointers into \<open>calls\<close>, the objects waiters share; an object is \<^const>\<open>None\<close> until
  its channel is closed.\<close>

record 'v cache =
  items :: "string \<Rightarrow> 'v cached option"
  inflight :: "string \<Rightarrow> nat option"
  calls :: "(string + 'v) option list"

definition new_cache :: "'v cache" where
  "new_cache = \<lparr>items = (\<lambda>_. None), inflight = (\<lambda>_. None), calls = []\<rparr>"

datatype 'v looked = Hit 'v | Join_call nat | Lead nat

definition get_lookup :: "string \<Rightarrow> gotime \<Rightarrow> 'v cache \<Rightarrow> 'v looked \<times> 'v cache" where
  "get_lookup key now c =
     (let miss = (case inflight c key of
          Some p \<Rightarrow> (Join_call p, c)
        | None \<Rightarrow> (let p = length (calls c) in
            (Lead p, c\<lparr>inflight := (inflight c)(key \<mapsto> p), calls := calls c @ [None]\<rparr>)))
      in case items c key of
           Some e \<Rightarrow> if now < c_expiresAt e then (Hit (c_value e), c) else miss
         | None \<Rightarrow> miss)"

definition get_publish :: "duration \<Rightarrow> string \<Rightarrow> gotime \<Rightarrow> nat \<Rightarrow> string + 'v \<Rightarrow> 'v cache \<Rightarrow> 'v cache" where
  "get_publish ttl key now p r c =
     c\<lparr>calls := (calls c)[p := Some r],
       items := (case r of Inr v \<Rightarrow> (items c)(key \<mapsto> \<lparr>c_value = v, c_expiresAt = now + ttl\<rparr>) | Inl _ \<Rightarrow> items c),
       inflight := (inflight c)(key := None)\<rparr>"

type_synonym 'v entries = "string \<Rightarrow> 'v cached option"

definition invalidate :: "string \<Rightarrow> 'v entries \<Rightarrow> 'v entries" where
  "invalidate mailLogin m =
     (let key = normalizeMailLoginKey mailLogin in if key = [] then m else m(key := None))"

definition invalidateMailLogin :: "string \<Rightarrow> 'v entries \<Rightarrow> 'v entries" where
  "invalidateMailLogin mailLogin m =
     (let key = normalizeMailLoginKey mailLogin in
      if key = [] then m
      else (\<lambda>k. if HasPrefix k (key @ [CHR 0x00]) then None else m k))"

section \<open>Concurrent requests\<close>

text \<open>Where a request stands; the time is the one it read on entry.\<close>

datatype 'v thread =
    Entered string gotime
  | Waiting string gotime nat
  | Fetching string gotime nat
  | Fetched string gotime nat "string + 'v"
  | Returned string gotime "string + 'v"

text \<open>\<open>published\<close> records every publication: its key, when the fetch was begun, when it was published
  and the result.\<close>

record 'v sys =
  s_cache :: "'v cache"
  s_clock :: gotime
  s_threads :: "'v thread list"
  s_published :: "(string \<times> gotime \<times> gotime \<times> (string + 'v)) list"

datatype 'v event =
    Arrive string | Tick nat | Invalidate string
  | Lookup nat | FetchReturns nat "string + 'v" | Publish nat | Wake nat | Cancel nat

definition after_lookup :: "string \<Rightarrow> gotime \<Rightarrow> 'v looked \<Rightarrow> 'v thread" where
  "after_lookup key now r = (case r of
     Hit v \<Rightarrow> Returned key now (Inr v) | Join_call p \<Rightarrow> Waiting key now p | Lead p \<Rightarrow> Fetching key now p)"

definition thread_at :: "nat \<Rightarrow> 'v sys \<Rightarrow> 'v thread option" where
  "thread_at i s = (if i < length (s_threads s) then Some (s_threads s ! i) else None)"

definition goto :: "nat \<Rightarrow> 'v thread \<Rightarrow> 'v sys \<Rightarrow> 'v sys" where
  "goto i t s = s\<lparr>s_threads := (s_threads s)[i := t]\<rparr>"

fun apply_event :: "duration \<Rightarrow> (string \<Rightarrow> 'v entries \<Rightarrow> 'v entries) \<Rightarrow> 'v event \<Rightarrow> 'v sys \<Rightarrow> 'v sys option" where
  "apply_event ttl forget (Arrive key) s =
     Some (s\<lparr>s_threads := s_threads s @ [Entered key (s_clock s)]\<rparr>)"
| "apply_event ttl forget (Tick d) s = Some (s\<lparr>s_clock := s_clock s + int d\<rparr>)"
| "apply_event ttl forget (Invalidate login) s =
     Some (s\<lparr>s_cache := (s_cache s)\<lparr>items := forget login (items (s_cache s))\<rparr>\<rparr>)"
| "apply_event ttl forget (Lookup i) s = (case thread_at i s of
     Some (Entered key now) \<Rightarrow> (case get_lookup key now (s_cache s) of
       (r, c) \<Rightarrow> Some (goto i (after_lookup key now r) (s\<lparr>s_cache := c\<rparr>)))
   | _ \<Rightarrow> None)"
| "apply_event ttl forget (FetchReturns i r) s = (case thread_at i s of
     Some (Fetching key now p) \<Rightarrow> Some (goto i (Fetched key now p r) s) | _ \<Rightarrow> None)"
| "apply_event ttl forget (Publish i) s = (case thread_at i s of
     Some (Fetched key now p r) \<Rightarrow>
       Some (goto i (Returned key now r)
         (s\<lparr>s_cache := get_publish ttl key now p r (s_cache s),
            s_published := (key, now, s_clock s, r) # s_published s\<rparr>))
   | _ \<Rightarrow> None)"
| "apply_event ttl forget (Wake i) s = (case thread_at i s of
     Some (Waiting key now p) \<Rightarrow>
       (if p < length (calls (s_cache s))
        then map_option (\<lambda>r. goto i (Returned key now r) s) (calls (s_cache s) ! p) else None)
   | _ \<Rightarrow> None)"
| "apply_event ttl forget (Cancel i) s = (case thread_at i s of
     Some (Waiting key now p) \<Rightarrow> Some (goto i (Returned key now (Inl ''context canceled'')) s)
   | _ \<Rightarrow> None)"

fun run_events :: "duration \<Rightarrow> (string \<Rightarrow> 'v entries \<Rightarrow> 'v entries) \<Rightarrow> 'v event list \<Rightarrow> 'v sys \<Rightarrow> 'v sys option" where
  "run_events ttl forget [] s = Some s"
| "run_events ttl forget (e # es) s = Option.bind (apply_event ttl forget e s) (run_events ttl forget es)"

definition start :: "gotime \<Rightarrow> 'v sys" where
  "start t = \<lparr>s_cache = new_cache, s_clock = t, s_threads = [], s_published = []\<rparr>"

inductive reachable :: "duration \<Rightarrow> (string \<Rightarrow> 'v entries \<Rightarrow> 'v entries) \<Rightarrow> 'v sys \<Rightarrow> bool" for ttl forget where
  init: "reachable ttl forget (start t)"
| event: "reachable ttl forget s \<Longrightarrow> apply_event ttl forget e s = Some s' \<Longrightarrow> reachable ttl forget s'"

text \<open>The steps of the requests themselves, as opposed to arrivals, cancellations, invalidations and the
  clock.\<close>

fun of_thread :: "'v event \<Rightarrow> bool" where
  "of_thread (Arrive _) = False" | "of_thread (Tick _) = False" | "of_thread (Invalidate _) = False"
| "of_thread (Cancel _) = False" | "of_thread _ = True"

inductive progress :: "duration \<Rightarrow> (string \<Rightarrow> 'v entries \<Rightarrow> 'v entries) \<Rightarrow> 'v sys \<Rightarrow> 'v sys \<Rightarrow> bool"
  for ttl forget where
  by_event: "of_thread e \<Longrightarrow> apply_event ttl forget e s = Some s' \<Longrightarrow> progress ttl forget s s'"

fun rank :: "'v thread \<Rightarrow> nat" where
  "rank (Entered _ _) = 3" | "rank (Fetching _ _ _) = 2" | "rank (Fetched _ _ _ _) = 1"
| "rank (Waiting _ _ _) = 1" | "rank (Returned _ _ _) = 0"

definition total_rank :: "'v sys \<Rightarrow> nat" where "total_rank s = sum_list (map rank (s_threads s))"

fun returned :: "'v thread \<Rightarrow> bool" where
  "returned (Returned _ _ _) = True" | "returned _ = False"

definition all_returned :: "'v sys \<Rightarrow> bool" where
  "all_returned s \<longleftrightarrow> list_all returned (s_threads s)"

section \<open>The invariant\<close>

text \<open>Which key and call object a request is fetching for.\<close>

fun leads :: "'v thread \<Rightarrow> (string \<times> nat) option" where
  "leads (Fetching key now p) = Some (key, p)"
| "leads (Fetched key now p r) = Some (key, p)"
| "leads _ = None"

fun entered_at :: "'v thread \<Rightarrow> gotime" where
  "entered_at (Entered k n) = n" | "entered_at (Waiting k n p) = n" | "entered_at (Fetching k n p) = n"
| "entered_at (Fetched k n p r) = n" | "entered_at (Returned k n r) = n"

definition open_call :: "'v cache \<Rightarrow> nat \<Rightarrow> bool" where
  "open_call c p \<longleftrightarrow> p < length (calls c) \<and> calls c ! p = None"

definition leaders :: "'v thread list \<Rightarrow> (string \<times> nat) list" where
  "leaders ts = concat (map (\<lambda>t. case leads t of None \<Rightarrow> [] | Some x \<Rightarrow> [x]) ts)"

text \<open>The calls in flight are the open calls requests lead, one request and one key each; a waiter's call
  is in flight for its key, or closed.\<close>

definition waits_ok :: "'v cache \<Rightarrow> 'v thread \<Rightarrow> bool" where
  "waits_ok c t \<longleftrightarrow> (case t of
     Waiting k n p \<Rightarrow> p < length (calls c) \<and> (calls c ! p = None \<longrightarrow> inflight c k = Some p)
   | _ \<Rightarrow> True)"

definition flight_ok :: "'v cache \<Rightarrow> 'v thread list \<Rightarrow> bool" where
  "flight_ok c ts \<longleftrightarrow>
     distinct (map snd (leaders ts)) \<and> set (leaders ts) = Map.graph (inflight c)
     \<and> (\<forall>p \<in> ran (inflight c). open_call c p) \<and> list_all (waits_ok c) ts"

text \<open>Cached and shared results come from publications.\<close>

type_synonym 'v publication = "string \<times> gotime \<times> gotime \<times> (string + 'v)"

definition fresh_for :: "duration \<Rightarrow> 'v publication list \<Rightarrow> string \<Rightarrow> gotime \<Rightarrow> string + 'v \<Rightarrow> bool" where
  "fresh_for ttl pub k now r \<longleftrightarrow>
     (\<exists>t0 t1. (k, t0, t1, r) \<in> set pub \<and> (now < t0 + ttl \<or> now \<le> t1))"

definition item_ok :: "duration \<Rightarrow> 'v publication list \<Rightarrow> string \<Rightarrow> 'v cached \<Rightarrow> bool" where
  "item_ok ttl pub k e \<longleftrightarrow> (\<exists>t0 t1. (k, t0, t1, Inr (c_value e)) \<in> set pub \<and> c_expiresAt e = t0 + ttl)"

definition thread_ok :: "duration \<Rightarrow> 'v publication list \<Rightarrow> gotime \<Rightarrow> 'v cache \<Rightarrow> 'v thread \<Rightarrow> bool" where
  "thread_ok ttl pub clock c t \<longleftrightarrow> entered_at t \<le> clock \<and> (case t of
     Waiting k n p \<Rightarrow> \<forall>r. p < length (calls c) \<and> calls c ! p = Some r \<longrightarrow> fresh_for ttl pub k n r
   | Returned k n (Inr v) \<Rightarrow> fresh_for ttl pub k n (Inr v)
   | _ \<Rightarrow> True)"

definition values_ok :: "duration \<Rightarrow> 'v publication list \<Rightarrow> gotime \<Rightarrow> 'v cache \<Rightarrow> 'v thread list \<Rightarrow> bool" where
  "values_ok ttl pub clock c ts \<longleftrightarrow>
     (\<forall>k e. items c k = Some e \<longrightarrow> item_ok ttl pub k e) \<and> list_all (thread_ok ttl pub clock c) ts"

section \<open>Single flight\<close>

lemma goto_simps [simp]:
  "s_cache (goto i t s) = s_cache s" "s_clock (goto i t s) = s_clock s"
  "s_published (goto i t s) = s_published s" "s_threads (goto i t s) = (s_threads s)[i := t]"
  by (simp_all add: goto_def)

lemma leaders_simps [simp]:
  "leaders [] = []" "leaders (xs @ ys) = leaders xs @ leaders ys"
  "leaders (t # ts) = (case leads t of None \<Rightarrow> leaders ts | Some x \<Rightarrow> x # leaders ts)"
  by (simp_all add: leaders_def split: option.split)

lemma thread_at_split:
  assumes "thread_at i s = Some t"
  obtains xs ys where "s_threads s = xs @ t # ys" "\<And>u. (s_threads s)[i := u] = xs @ u # ys"
proof -
  have i: "i < length (s_threads s)" "t = s_threads s ! i"
    using assms by (auto simp: thread_at_def split: if_splits)
  show ?thesis
    using that [of "take i (s_threads s)" "drop (Suc i) (s_threads s)"] i
      id_take_nth_drop [OF i(1)] upd_conv_take_nth_drop [OF i(1)] by simp
qed

lemma flight_forget: "flight_ok (c\<lparr>items := m\<rparr>) ts \<longleftrightarrow> flight_ok c ts"
  by (simp add: flight_ok_def open_call_def waits_ok_def [abs_def])

text \<open>A step that leaves the cache alone and does not change what the request leads.\<close>

lemma flight_goto:
  assumes "flight_ok c (xs @ u # ys)" "leads t = leads u" "waits_ok c t"
  shows "flight_ok c (xs @ t # ys)"
proof -
  have "leaders (xs @ t # ys) = leaders (xs @ u # ys)" using assms(2) by simp
  then show ?thesis using assms(1,3) by (simp add: flight_ok_def del: leaders_simps)
qed

lemma waits_ok_new_call:
  "waits_ok c t \<Longrightarrow> inflight c key = None
   \<Longrightarrow> waits_ok (c\<lparr>inflight := (inflight c)(key \<mapsto> length (calls c)), calls := calls c @ [None]\<rparr>) t"
  by (auto simp: waits_ok_def nth_append split: thread.splits)

lemma flight_lead:
  assumes "flight_ok c (xs @ Entered key now # ys)" "inflight c key = None"
  shows "flight_ok (c\<lparr>inflight := (inflight c)(key \<mapsto> length (calls c)), calls := calls c @ [None]\<rparr>)
           (xs @ Fetching key now (length (calls c)) # ys)"
proof -
  let ?c = "c\<lparr>inflight := (inflight c)(key \<mapsto> length (calls c)), calls := calls c @ [None]\<rparr>"
  have g: "set (leaders (xs @ ys)) = Map.graph (inflight c)" and r: "\<forall>p \<in> ran (inflight c). open_call c p"
    and d: "distinct (map snd (leaders (xs @ ys)))" and wt: "list_all (waits_ok c) (xs @ ys)"
    using assms(1) by (simp_all add: flight_ok_def)
  have "length (calls c) \<notin> snd ` set (leaders (xs @ ys))"
    using r unfolding g snd_graph_ran by (auto simp: open_call_def)
  moreover have "(inflight c)(key := None) = inflight c" using assms(2) by auto
  moreover have "list_all (waits_ok ?c) (xs @ ys)"
    using wt waits_ok_new_call [OF _ assms(2)] by (auto simp: list_all_iff)
  moreover have "\<forall>p \<in> ran (inflight ?c). open_call ?c p"
    using r by (auto simp: open_call_def nth_append assms(2))
  ultimately show ?thesis using d g
    by (simp add: flight_ok_def graph_map_upd waits_ok_def Un_commute image_Un)
qed

lemma flight_lookup:
  assumes "flight_ok c (xs @ Entered key now # ys)" "get_lookup key now c = (r, c')"
  shows "flight_ok c' (xs @ after_lookup key now r # ys)"
proof (cases r)
  case (Lead p)
  then show ?thesis using assms flight_lead [OF assms(1)]
    by (auto simp: get_lookup_def after_lookup_def split: option.splits if_splits)
next
  case (Hit v)
  then have "c' = c" using assms(2) by (auto simp: get_lookup_def split: option.splits if_splits)
  with Hit show ?thesis using flight_goto [OF assms(1)] by (simp add: after_lookup_def waits_ok_def)
next
  case (Join_call p)
  then have "c' = c" "inflight c key = Some p"
    using assms(2) by (auto simp: get_lookup_def split: option.splits if_splits)
  moreover have "open_call c p"
    using assms(1) calculation(2) by (auto simp: flight_ok_def intro: ranI)
  ultimately show ?thesis using flight_goto [OF assms(1)] Join_call
    by (simp add: after_lookup_def waits_ok_def open_call_def)
qed

lemma waits_ok_publish:
  assumes "waits_ok c t" "inflight c key = Some p" "p < length (calls c)"
  shows "waits_ok (get_publish ttl key now p r c) t"
  using assms by (auto simp: waits_ok_def get_publish_def nth_list_update split: thread.splits)

lemma flight_publish:
  assumes "flight_ok c (xs @ Fetched key now p r # ys)"
  shows "flight_ok (get_publish ttl key now p r c) (xs @ Returned key now r # ys)"
proof -
  let ?c = "get_publish ttl key now p r c"
  have g: "insert (key, p) (set (leaders (xs @ ys))) = Map.graph (inflight c)"
    and d: "p \<notin> snd ` set (leaders (xs @ ys))" "distinct (map snd (leaders (xs @ ys)))"
    and o: "\<forall>p \<in> ran (inflight c). open_call c p" and wt: "list_all (waits_ok c) (xs @ ys)"
    using assms by (auto simp: flight_ok_def)
  have key: "inflight c key = Some p" using g by (auto intro: in_graphD)
  have pl: "p < length (calls c)" using o key by (auto simp: open_call_def intro: ranI)
  have other: "fst x \<noteq> key" if "x \<in> set (leaders (xs @ ys))" for x
  proof
    assume "fst x = key"
    then have "inflight c key = Some (snd x)" using that g by (metis insertI2 prod.collapse in_graphD)
    then show False using that d(1) key by auto
  qed
  have g': "set (leaders (xs @ ys)) = Map.graph ((inflight c)(key := None))"
    using g other by (auto simp: graph_fun_upd_None)
  have inf: "inflight ?c = (inflight c)(key := None)" "calls ?c = (calls c)[p := Some r]"
    by (simp_all add: get_publish_def)
  have "open_call ?c q" if "q \<in> ran (inflight ?c)" for q
  proof -
    have "q \<in> snd ` set (leaders (xs @ ys))" using that unfolding inf(1) g' snd_graph_ran by simp
    then have "q \<noteq> p" using d(1) by blast
    moreover have "q \<in> ran (inflight c)" using that unfolding inf(1) by (auto simp: ran_def split: if_splits)
    ultimately show ?thesis using o by (auto simp: open_call_def inf(2))
  qed
  moreover have "list_all (waits_ok ?c) (xs @ ys)"
    using wt waits_ok_publish [OF _ key pl] by (auto simp: list_all_iff)
  ultimately show ?thesis using d(2) g'
    by (simp add: flight_ok_def inf(1) waits_ok_def)
qed

section \<open>Freshness\<close>

lemma fresh_mono: "fresh_for ttl pub k n r \<Longrightarrow> fresh_for ttl (x # pub) k n r"
  by (auto simp: fresh_for_def)

lemma item_mono: "item_ok ttl pub k e \<Longrightarrow> item_ok ttl (x # pub) k e"
  by (auto simp: item_ok_def)

lemma thread_ok_mono: "thread_ok ttl pub clock c t \<Longrightarrow> clock \<le> clock' \<Longrightarrow> thread_ok ttl pub clock' c t"
  by (auto simp: thread_ok_def)

lemma thread_ok_items [simp]: "thread_ok ttl pub clock (c\<lparr>items := m\<rparr>) = thread_ok ttl pub clock c"
  by (auto simp: thread_ok_def fun_eq_iff split: thread.split sum.split)

lemma values_forget:
  assumes "values_ok ttl pub clock c ts" "\<And>k. m k = None \<or> m k = items c k"
  shows "values_ok ttl pub clock (c\<lparr>items := m\<rparr>) ts"
  using assms by (simp add: values_ok_def) (metis option.distinct(1))

lemma values_goto:
  "values_ok ttl pub clock c (xs @ u # ys) \<Longrightarrow> thread_ok ttl pub clock c t
   \<Longrightarrow> values_ok ttl pub clock c (xs @ t # ys)"
  by (simp add: values_ok_def)

lemma values_lookup:
  assumes "values_ok ttl pub clock c (xs @ Entered key now # ys)" "flight_ok c (xs @ Entered key now # ys)"
    and "get_lookup key now c = (r, c')"
  shows "values_ok ttl pub clock c' (xs @ after_lookup key now r # ys)"
proof (cases r)
  case (Lead p)
  then have c': "items c' = items c" "calls c' = calls c @ [None]"
    using assms(3) by (auto simp: get_lookup_def split: option.splits if_splits)
  have "thread_ok ttl pub clock c' t" if "thread_ok ttl pub clock c t" for t
    using that by (auto simp: thread_ok_def c' nth_append split: thread.splits sum.splits if_splits)
  then show ?thesis using assms(1) Lead
    by (auto simp: values_ok_def c'(1) list_all_iff after_lookup_def thread_ok_def)
next
  case (Hit v)
  then obtain e where e: "c' = c" "items c key = Some e" "v = c_value e" "now < c_expiresAt e"
    using assms(3) by (auto simp: get_lookup_def split: option.splits if_splits)
  then have "fresh_for ttl pub key now (Inr v)"
    using assms(1) by (fastforce simp: values_ok_def item_ok_def fresh_for_def)
  then have "thread_ok ttl pub clock c (Returned key now (Inr v))"
    using assms(1) by (simp add: values_ok_def thread_ok_def)
  with e(1) Hit show ?thesis using values_goto [OF assms(1)] by (simp add: after_lookup_def)
next
  case (Join_call p)
  then have e: "c' = c" "inflight c key = Some p"
    using assms(3) by (auto simp: get_lookup_def split: option.splits if_splits)
  then have "calls c ! p = None" using assms(2) by (auto simp: flight_ok_def open_call_def intro: ranI)
  then have "thread_ok ttl pub clock c (Waiting key now p)"
    using assms(1) by (simp add: values_ok_def thread_ok_def)
  with e(1) Join_call show ?thesis using values_goto [OF assms(1)] by (simp add: after_lookup_def)
qed

lemma one_key_per_call:
  assumes "flight_ok c ts" "inflight c k = Some p" "inflight c k' = Some p"
  shows "k = k'"
proof -
  have "(k, p) \<in> set (leaders ts)" "(k', p) \<in> set (leaders ts)"
    using assms by (auto simp: flight_ok_def intro: in_graphI)
  moreover have "inj_on snd (set (leaders ts))"
    using assms(1) unfolding flight_ok_def distinct_map by blast
  ultimately show ?thesis using inj_onD by fastforce
qed

lemma leader_inflight:
  assumes "flight_ok c (xs @ t # ys)" "leads t = Some (k, p)"
  shows "inflight c k = Some p" "open_call c p"
proof -
  have "(k, p) \<in> Map.graph (inflight c)" using assms by (auto simp: flight_ok_def)
  then show "inflight c k = Some p" by (rule in_graphD)
  then show "open_call c p" using assms(1) by (auto simp: flight_ok_def intro: ranI)
qed

lemma values_publish:
  assumes v: "values_ok ttl pub clock c (xs @ Fetched key now p r # ys)"
    and f: "flight_ok c (xs @ Fetched key now p r # ys)"
  shows "values_ok ttl ((key, now, clock, r) # pub) clock (get_publish ttl key now p r c)
           (xs @ Returned key now r # ys)"
proof -
  let ?c = "get_publish ttl key now p r c" and ?pub = "(key, now, clock, r) # pub"
  have lead: "inflight c key = Some p" "open_call c p" using leader_inflight [OF f] by simp_all
  have "thread_ok ttl ?pub clock ?c t" if t: "t \<in> set (xs @ ys)" for t
  proof -
    have ok: "thread_ok ttl pub clock c t" "waits_ok c t"
      using that v f by (auto simp: values_ok_def flight_ok_def list_all_iff)
    show ?thesis
    proof (cases t)
      case (Waiting k n q)
      have "fresh_for ttl ?pub k n r'" if "q < length (calls c)" "calls ?c ! q = Some r'" for r'
      proof (cases "q = p")
        case True
        then have "k = key" "r' = r"
          using ok(2) that one_key_per_call [OF f _ lead(1)] lead(2) Waiting
          by (auto simp: waits_ok_def open_call_def get_publish_def)
        then show ?thesis using ok(1) Waiting by (auto simp: thread_ok_def fresh_for_def)
      next
        case False
        then show ?thesis using ok(1) that Waiting
          by (auto simp: thread_ok_def get_publish_def intro: fresh_mono)
      qed
      then show ?thesis using ok(1) Waiting by (auto simp: thread_ok_def get_publish_def)
    qed (use ok(1) in \<open>auto simp: thread_ok_def split: sum.splits intro: fresh_mono\<close>)
  qed
  moreover have "thread_ok ttl ?pub clock ?c (Returned key now r)"
    using v by (auto simp: values_ok_def thread_ok_def fresh_for_def split: sum.splits)
  moreover have "item_ok ttl ?pub k e" if "items ?c k = Some e" for k e
    using that v by (auto simp: get_publish_def values_ok_def item_ok_def split: sum.splits if_splits)
  ultimately show ?thesis by (auto simp: values_ok_def list_all_iff)
qed

section \<open>Progress\<close>

lemma leaders_set: "x \<in> set (leaders ts) \<longleftrightarrow> (\<exists>t \<in> set ts. leads t = Some x)"
  by (induction ts) (auto split: option.split)

lemma leaders_mem: "i < length ts \<Longrightarrow> leads (ts ! i) = Some x \<Longrightarrow> x \<in> set (leaders ts)"
  unfolding leaders_set using nth_mem by blast

lemma leaders_conv: "x \<in> set (leaders ts) \<Longrightarrow> \<exists>i < length ts. leads (ts ! i) = Some x"
  unfolding leaders_set by (auto simp: in_set_conv_nth [of _ ts])

lemma leaders_unique:
  assumes "distinct (leaders ts)" "i < length ts" "j < length ts"
    "leads (ts ! i) = Some x" "leads (ts ! j) = Some x"
  shows "i = j"
proof (rule ccontr)
  have no: False if "a < b" "b < length ts" "leads (ts ! a) = Some x" "leads (ts ! b) = Some x" for a b
  proof -
    have a: "a < length ts" using that by simp
    have "ts ! b \<in> set (drop (Suc a) ts)"
      using that nth_mem [of "b - Suc a" "drop (Suc a) ts"] by simp
    then have "x \<in> set (leaders (drop (Suc a) ts))" using that(4) leaders_set by blast
    then have "\<not> distinct (leaders (take a ts @ ts ! a # drop (Suc a) ts))" using that(3) by simp
    then show False using assms(1) id_take_nth_drop [OF a] by simp
  qed
  assume "i \<noteq> j"
  then show False using no [of i j] no [of j i] assms(2-5) by (meson linorder_neqE_nat)
qed

lemma total_rank_goto:
  assumes "thread_at i s = Some t" "rank u < rank t" "s_threads s1 = s_threads s"
  shows "total_rank (goto i u s1) < total_rank s"
  using assms(1)
proof (rule thread_at_split)
  fix xs ys assume "s_threads s = xs @ t # ys" "\<And>u. (s_threads s)[i := u] = xs @ u # ys"
  then show ?thesis using assms(2,3) by (simp add: total_rank_def)
qed

lemma progress_rank: "progress ttl forget s s' \<Longrightarrow> total_rank s' < total_rank s"
proof (erule progress.cases)
  fix e a b assume "of_thread e" "apply_event ttl forget e a = Some b" "s = a" "s' = b"
  then show ?thesis
    by (cases e)
      (auto split: option.splits thread.splits prod.splits if_splits looked.splits
        simp: after_lookup_def intro!: total_rank_goto)
qed

lemma rank_le: "rank t \<le> 3" by (cases t) simp_all

lemma total_rank_le: "total_rank s \<le> 3 * length (s_threads s)"
proof -
  have "sum_list (map rank ts) \<le> 3 * length ts" for ts :: "'a thread list"
  proof (induction ts)
    case (Cons t ts)
    then show ?case using rank_le [of t] by simp
  qed simp
  then show ?thesis by (simp add: total_rank_def)
qed

section \<open>Every run of a cache\<close>

text \<open>What a cache must promise: its clean-up only removes entries.\<close>

locale response_cache =
  fixes ttl :: duration and forget :: "string \<Rightarrow> 'v entries \<Rightarrow> 'v entries"
  assumes forget_removes: "forget login m k = None \<or> forget login m k = m k"
begin

definition sys_ok :: "'v sys \<Rightarrow> bool" where
  "sys_ok s \<longleftrightarrow> flight_ok (s_cache s) (s_threads s)
     \<and> values_ok ttl (s_published s) (s_clock s) (s_cache s) (s_threads s)"

lemma thread_of:
  assumes "sys_ok s" "thread_at i s = Some t"
  obtains xs ys where "s_threads s = xs @ t # ys" "\<And>u. (s_threads s)[i := u] = xs @ u # ys"
    "flight_ok (s_cache s) (xs @ t # ys)"
    "values_ok ttl (s_published s) (s_clock s) (s_cache s) (xs @ t # ys)"
    "thread_ok ttl (s_published s) (s_clock s) (s_cache s) t" "waits_ok (s_cache s) t"
proof (rule thread_at_split [OF assms(2)])
  fix xs ys assume s: "s_threads s = xs @ t # ys" "\<And>u. (s_threads s)[i := u] = xs @ u # ys"
  then have "flight_ok (s_cache s) (xs @ t # ys)"
    "values_ok ttl (s_published s) (s_clock s) (s_cache s) (xs @ t # ys)"
    using assms(1) by (simp_all add: sys_ok_def)
  moreover from this have "thread_ok ttl (s_published s) (s_clock s) (s_cache s) t" "waits_ok (s_cache s) t"
    by (simp_all add: values_ok_def flight_ok_def)
  ultimately show ?thesis using that s by blast
qed

lemma event_keeps_ok:
  assumes ok: "sys_ok s" and ev: "apply_event ttl forget e s = Some s'"
  shows "sys_ok s'"
proof (cases e)
  case (Arrive key)
  then show ?thesis using assms
    by (auto simp: sys_ok_def flight_ok_def values_ok_def waits_ok_def thread_ok_def)
next
  case (Tick d)
  then show ?thesis using assms
    by (auto simp: sys_ok_def values_ok_def list_all_iff intro: thread_ok_mono [of _ _ "s_clock s"])
next
  case (Invalidate login)
  then show ?thesis using assms forget_removes [of login "items (s_cache s)"]
    by (auto simp: sys_ok_def flight_forget values_forget)
next
  case (Lookup i)
  then obtain key now r c where l: "thread_at i s = Some (Entered key now)"
    "get_lookup key now (s_cache s) = (r, c)" "s' = goto i (after_lookup key now r) (s\<lparr>s_cache := c\<rparr>)"
    using ev by (auto split: option.splits thread.splits prod.splits)
  from ok l(1) show ?thesis
    by (rule thread_of) (simp add: sys_ok_def l(3) flight_lookup [OF _ l(2)] values_lookup [OF _ _ l(2)])
next
  case (FetchReturns i r)
  then obtain key now p where l: "thread_at i s = Some (Fetching key now p)" "s' = goto i (Fetched key now p r) s"
    using ev by (auto split: option.splits thread.splits)
  from ok l(1) show ?thesis
    by (rule thread_of) (simp add: sys_ok_def l(2) flight_goto values_goto waits_ok_def thread_ok_def)
next
  case (Publish i)
  then obtain key now p r where l: "thread_at i s = Some (Fetched key now p r)"
    "s' = goto i (Returned key now r) (s\<lparr>s_cache := get_publish ttl key now p r (s_cache s),
       s_published := (key, now, s_clock s, r) # s_published s\<rparr>)"
    using ev by (auto split: option.splits thread.splits)
  from ok l(1) show ?thesis
    by (rule thread_of) (simp add: sys_ok_def l(2) flight_publish values_publish)
next
  case (Wake i)
  then obtain key now p r where l: "thread_at i s = Some (Waiting key now p)" "p < length (calls (s_cache s))"
    "calls (s_cache s) ! p = Some r" "s' = goto i (Returned key now r) s"
    using ev by (auto split: option.splits thread.splits if_splits)
  show ?thesis using ok l(1)
  proof (rule thread_of)
    fix xs ys
    assume x: "\<And>u. (s_threads s)[i := u] = xs @ u # ys"
      "flight_ok (s_cache s) (xs @ Waiting key now p # ys)"
      "values_ok ttl (s_published s) (s_clock s) (s_cache s) (xs @ Waiting key now p # ys)"
      "thread_ok ttl (s_published s) (s_clock s) (s_cache s) (Waiting key now p)"
    have "thread_ok ttl (s_published s) (s_clock s) (s_cache s) (Returned key now r)"
      using x(4) l(2,3) by (cases r) (auto simp: thread_ok_def)
    then show ?thesis using values_goto [OF x(3)] flight_goto [OF x(2)] x(1)
      by (simp add: sys_ok_def l(4) waits_ok_def)
  qed
next
  case (Cancel i)
  then obtain key now p where l: "thread_at i s = Some (Waiting key now p)"
    "s' = goto i (Returned key now (Inl ''context canceled'')) s"
    using ev by (auto split: option.splits thread.splits)
  from ok l(1) show ?thesis
    by (rule thread_of) (simp add: sys_ok_def l(2) flight_goto values_goto waits_ok_def thread_ok_def)
qed

lemma reachable_ok: "reachable ttl forget s \<Longrightarrow> sys_ok s"
proof (induction rule: reachable.induct)
  case (init t)
  then show ?case
    by (simp add: sys_ok_def start_def new_cache_def flight_ok_def values_ok_def open_call_def)
next
  case (event s e s')
  then show ?case using event_keeps_ok by blast
qed

lemma one_fetch_per_key:
  assumes "reachable ttl forget s" "thread_at i s = Some t" "thread_at j s = Some u"
    and "leads t = Some (k, p)" "leads u = Some (k, q)"
  shows "i = j"
proof -
  have f: "flight_ok (s_cache s) (s_threads s)" using reachable_ok [OF assms(1)] by (simp add: sys_ok_def)
  have i: "i < length (s_threads s)" "leads (s_threads s ! i) = Some (k, p)"
    and j: "j < length (s_threads s)" "leads (s_threads s ! j) = Some (k, q)"
    using assms(2-5) by (auto simp: thread_at_def split: if_splits)
  have "inflight (s_cache s) k = Some p" "inflight (s_cache s) k = Some q"
    using f leaders_mem [OF i] leaders_mem [OF j] by (auto simp: flight_ok_def dest: in_graphD)
  then have "q = p" by simp
  moreover have "distinct (leaders (s_threads s))" using f unfolding flight_ok_def distinct_map by blast
  ultimately show ?thesis using leaders_unique i j by blast
qed

lemma leader_moves:
  assumes "thread_at i s = Some t" "leads t = Some x"
  shows "\<exists>s'. progress ttl forget s s'"
proof (cases t)
  case (Fetching k n p)
  then show ?thesis using assms by (intro exI progress.intros [of "FetchReturns i (Inl [])"]) auto
next
  case (Fetched k n p r)
  then show ?thesis using assms by (intro exI progress.intros [of "Publish i"]) auto
qed (use assms in auto)

lemma not_stuck:
  assumes r: "reachable ttl forget s" and "\<not> all_returned s"
  shows "\<exists>s'. progress ttl forget s s'"
proof -
  have f: "flight_ok (s_cache s) (s_threads s)" using reachable_ok [OF r] by (simp add: sys_ok_def)
  obtain i where i: "i < length (s_threads s)" "\<not> returned (s_threads s ! i)"
    using assms(2) by (auto simp: all_returned_def list_all_length)
  then have at: "thread_at i s = Some (s_threads s ! i)" by (simp add: thread_at_def)
  show ?thesis
  proof (cases "s_threads s ! i")
    case (Entered k n)
    obtain r c where "get_lookup k n (s_cache s) = (r, c)" by force
    then show ?thesis using at Entered by (intro exI progress.intros [of "Lookup i"]) auto
  next
    case (Waiting k n p)
    have w: "p < length (calls (s_cache s))" "calls (s_cache s) ! p = None \<Longrightarrow> inflight (s_cache s) k = Some p"
      using f i(1) Waiting by (auto simp: flight_ok_def list_all_length waits_ok_def)
    show ?thesis
    proof (cases "calls (s_cache s) ! p")
      case None
      then have "(k, p) \<in> set (leaders (s_threads s))"
        using w(2) f by (auto simp: flight_ok_def intro: in_graphI)
      then obtain j where "j < length (s_threads s)" "leads (s_threads s ! j) = Some (k, p)"
        using leaders_conv by blast
      then show ?thesis using leader_moves [of j] by (simp add: thread_at_def)
    next
      case (Some r)
      then show ?thesis using at Waiting w(1) by (intro exI progress.intros [of "Wake i"]) auto
    qed
  qed (use i leader_moves [OF at] in auto)
qed

lemma served_fresh:
  assumes "reachable ttl forget s" "thread_at i s = Some (Returned k now (Inr v))"
  shows "fresh_for ttl (s_published s) k now (Inr v)"
  using reachable_ok [OF assms(1)] assms(2) by (rule thread_of) (simp add: thread_ok_def)

end

section \<open>The two caches\<close>

interpretation mailbox_cache: response_cache mailboxCacheTTL invalidate
  by unfold_locales (simp add: invalidate_def)

interpretation thread_cache: response_cache threadCacheTTL invalidateMailLogin
  by unfold_locales (simp add: invalidateMailLogin_def)

text \<open>C26: In every interleaving of requests, invalidations and cancellations, at most one request per key
  is fetching, in the cache of mailbox lists and in the cache of threads.\<close>

theorem cache_single_flight:
  assumes "(ttl, forget) \<in> {(mailboxCacheTTL, invalidate), (threadCacheTTL, invalidateMailLogin)}"
    and "reachable ttl forget s" "thread_at i s = Some t" "thread_at j s = Some u" "leads t = Some (k, p)" "leads u = Some (k, q)"
  shows "i = j \<and> p = q"
proof -
  have "i = j"
    using assms(1,2) mailbox_cache.one_fetch_per_key [OF _ assms(3-6)] thread_cache.one_fetch_per_key [OF _ assms(3-6)]
    by blast
  then show ?thesis using assms(3-6) by simp
qed

text \<open>Two requests for one login, and a third for another one.\<close>

definition demo_events :: "string event list" where
  "demo_events = [Arrive ''ann'', Lookup 0, Tick 5, Arrive ''ann'', Lookup 1, Arrive ''bob'', Lookup 2,
     FetchReturns 0 (Inr ''inbox''), Publish 0]"

definition demo_run :: "string event list \<Rightarrow> string sys" where
  "demo_run es = the (run_events mailboxCacheTTL invalidate es (start 0))"

lemma run_reachable:
  "run_events ttl forget es s = Some s' \<Longrightarrow> reachable ttl forget s \<Longrightarrow> reachable ttl forget s'"
  by (induction es arbitrary: s) (auto split: bind_splits intro: reachable.event)

lemma demo_run_reachable:
  "run_events mailboxCacheTTL invalidate es (start 0) \<noteq> None \<Longrightarrow> reachable mailboxCacheTTL invalidate (demo_run es)"
  unfolding demo_run_def using run_reachable reachable.init by (metis option.exhaust_sel)

theorem cache_single_flight_witness:
  "let s = demo_run (take 7 demo_events) in
     map_option leads (thread_at 0 s) = Some (Some (''ann'', 0)) \<and> map_option leads (thread_at 1 s) = Some None
     \<and> map_option leads (thread_at 2 s) = Some (Some (''bob'', 1))
     \<and> (\<forall>i t. thread_at i s = Some t \<and> leads t = Some (''ann'', 0) \<longrightarrow> i = 0)"
proof -
  let ?s = "demo_run (take 7 demo_events)"
  have r: "reachable mailboxCacheTTL invalidate ?s" by (rule demo_run_reachable) code_simp
  have s: "map_option leads (thread_at 0 ?s) = Some (Some (''ann'', 0))" by code_simp
  then obtain t where t: "thread_at 0 ?s = Some t" "leads t = Some (''ann'', 0)" by auto
  have "i = 0" if "thread_at i ?s = Some u" "leads u = Some (''ann'', 0)" for i u
    using cache_single_flight [OF _ r that(1) t(1) that(2) t(2)] by blast
  moreover have "map_option leads (thread_at 1 ?s) = Some None" by code_simp
  moreover have "map_option leads (thread_at 2 ?s) = Some (Some (''bob'', 1))" by code_simp
  ultimately show ?thesis using s by auto
qed

text \<open>C28: A value a request for mailbox lists gets was fetched for the request's own key, by a fetch that
  began less than the time to live before the request or was published after it came in.\<close>

theorem cache_serves_fresh:
  assumes "reachable mailboxCacheTTL invalidate s" "thread_at i s = Some (Returned k now (Inr v))"
  shows "\<exists>t0 t1. (k, t0, t1, Inr v) \<in> set (s_published s) \<and> (now < t0 + 20 * time_Second \<or> now \<le> t1)"
  using mailbox_cache.served_fresh [OF assms] by (simp add: fresh_for_def mailboxCacheTTL_def)

theorem cache_serves_fresh_witness:
  "let s = demo_run (demo_events @ [Wake 1]) in
     thread_at 1 s = Some (Returned ''ann'' 5 (Inr ''inbox''))
     \<and> (\<exists>t0 t1. (''ann'', t0, t1, Inr ''inbox'') \<in> set (s_published s) \<and> (5 < t0 + 20 * time_Second \<or> 5 \<le> t1))"
proof -
  let ?s = "demo_run (demo_events @ [Wake 1])"
  have r: "reachable mailboxCacheTTL invalidate ?s" by (rule demo_run_reachable) code_simp
  have t: "thread_at 1 ?s = Some (Returned ''ann'' 5 (Inr ''inbox''))" by code_simp
  show ?thesis using cache_serves_fresh [OF r t] t by simp
qed

text \<open>C27: No request waits for ever: from every reachable state, provided fetches return, every schedule of
  the requests, without any being cancelled, comes to an end after at most three steps for each of
  them, and ends only when every request has returned.\<close>

theorem cache_requests_end:
  assumes "(ttl, forget) \<in> {(mailboxCacheTTL, invalidate), (threadCacheTTL, invalidateMailLogin)}"
    and "reachable ttl forget s"
  shows "(\<forall>s'. progress ttl forget s s' \<longrightarrow> reachable ttl forget s' \<and> total_rank s' < total_rank s)
     \<and> total_rank s \<le> 3 * length (s_threads s)
     \<and> ((\<nexists>s'. progress ttl forget s s') \<longrightarrow> all_returned s)
     \<and> (\<exists>s'. (progress ttl forget)\<^sup>*\<^sup>* s s' \<and> all_returned s')"
proof -
  have stuck: "all_returned x" if "reachable ttl forget x" "\<nexists>x'. progress ttl forget x x'" for x
    using that assms(1) mailbox_cache.not_stuck thread_cache.not_stuck by blast
  have step: "reachable ttl forget x'" if "reachable ttl forget x" "progress ttl forget x x'" for x x'
    using that by (auto elim!: progress.cases intro: reachable.event)
  have "\<exists>s'. (progress ttl forget)\<^sup>*\<^sup>* s s' \<and> all_returned s'"
    using assms(2)
  proof (induction "total_rank s" arbitrary: s rule: less_induct)
    case less
    then show ?case using stuck step progress_rank by (metis converse_rtranclp_into_rtranclp rtranclp.rtrancl_refl)
  qed
  then show ?thesis
    using stuck [OF assms(2)] step [OF assms(2)] progress_rank total_rank_le by blast
qed

theorem cache_requests_end_witness:
  "\<exists>s'. (progress mailboxCacheTTL invalidate)\<^sup>*\<^sup>* (demo_run demo_events) s' \<and> all_returned s'"
proof -
  have "reachable mailboxCacheTTL invalidate (demo_run demo_events)" by (rule demo_run_reachable) code_simp
  then show ?thesis using cache_requests_end [of mailboxCacheTTL invalidate "demo_run demo_events"] by blast
qed

text \<open>An invalidation does not reach a fetch under way: a request that comes in after the cache of its
  login was invalidated is served a list whose fetch began before the invalidation.\<close>

theorem invalidation_misses_fetch_under_way:
  "let s = demo_run [Arrive ''ann'', Lookup 0, FetchReturns 0 (Inr ''old''), Tick 1, Invalidate ''ann'', Tick 1,
                     Publish 0, Tick 1, Arrive ''ann'', Lookup 1] in
     thread_at 1 s = Some (Returned ''ann'' 3 (Inr ''old'')) \<and> s_published s = [(''ann'', 0, 2, Inr ''old'')]"
  by code_simp

section \<open>Keys of the thread cache\<close>

definition no_nul :: "string \<Rightarrow> bool" where "no_nul s \<longleftrightarrow> CHR 0x00 \<notin> set s"

lemma cut_at_nul:
  "no_nul a \<Longrightarrow> no_nul a' \<Longrightarrow> a @ CHR 0x00 # b = a' @ CHR 0x00 # b' \<longleftrightarrow> a = a' \<and> b = b'"
  by (metis Split_append list.inject no_nul_def same_append_eq)

lemma show_int_no_nul: "no_nul (show_int i)"
  using not_digit_notin [of "CHR 0x00"] by (auto simp: no_nul_def show_int_def is_digit_def)

lemma show_int_inj: "show_int i = show_int j \<Longrightarrow> i = j"
  using not_digit_notin [of "CHR ''-''"] show_nat_inj
  by (auto simp: show_int_def is_digit_def split: if_splits) (metis list.set_intros(1))+

lemma prefix_at_nul:
  "no_nul a \<Longrightarrow> no_nul a' \<Longrightarrow> prefix (a' @ [CHR 0x00]) (a @ CHR 0x00 # b) \<longleftrightarrow> a' = a"
  using cut_at_nul by (auto simp: prefix_def)

text \<open>Two requests share a thread cache entry exactly when they agree on the login, the scope, the
  mailbox, the thread, the page and the page size, up to case and blanks; and invalidating a login
  removes the entries of that login and no others.  Both rest on the separator: the texts must not
  contain the byte zero.\<close>

theorem thread_cache_keys:
  assumes "list_all no_nul [normalizeMailLoginKey l, lower_trim sc, TrimSpace mb, TrimSpace th]"
    and "list_all no_nul [normalizeMailLoginKey l', lower_trim sc', TrimSpace mb', TrimSpace th']"
  shows "(threadCacheKey l sc mb th page sz = threadCacheKey l' sc' mb' th' page' sz' \<longleftrightarrow>
            normalizeMailLoginKey l = normalizeMailLoginKey l' \<and> lower_trim sc = lower_trim sc'
            \<and> TrimSpace mb = TrimSpace mb' \<and> TrimSpace th = TrimSpace th' \<and> page = page' \<and> sz = sz')
     \<and> invalidateMailLogin l' m (threadCacheKey l sc mb th page sz) =
         (if normalizeMailLoginKey l' \<noteq> [] \<and> normalizeMailLoginKey l = normalizeMailLoginKey l' then None
          else m (threadCacheKey l sc mb th page sz))"
  using assms show_int_inj
  by (auto simp: threadCacheKey_def cut_at_nul show_int_no_nul invalidateMailLogin_def HasPrefix_def prefix_at_nul)

theorem thread_cache_keys_witness:
  "let key = threadCacheKey '' Ann@example.org'' ''all'' ''INBOX'' ''conv:1'' 1 50 in
     invalidateMailLogin ''ann@example.org'' (\<lambda>_. Some \<lparr>c_value = (), c_expiresAt = 0\<rparr>) key = None
     \<and> invalidateMailLogin ''an'' (\<lambda>_. Some \<lparr>c_value = (), c_expiresAt = 0\<rparr>) key = Some \<lparr>c_value = (), c_expiresAt = 0\<rparr>"
proof -
  let ?norm = "list_all no_nul [normalizeMailLoginKey '' Ann@example.org'', lower_trim ''all'', TrimSpace ''INBOX'', TrimSpace ''conv:1'']"
  have n: ?norm by code_simp
  have "list_all no_nul [normalizeMailLoginKey ''ann@example.org'', lower_trim [], TrimSpace [], TrimSpace []]"
    "list_all no_nul [normalizeMailLoginKey ''an'', lower_trim [], TrimSpace [], TrimSpace []]" by code_simp+
  moreover have "normalizeMailLoginKey ''ann@example.org'' = ''ann@example.org''"
    "normalizeMailLoginKey '' Ann@example.org'' = ''ann@example.org''" "normalizeMailLoginKey ''an'' = ''an''"
    by code_simp+
  ultimately show ?thesis
    using thread_cache_keys [OF n, of "''ann@example.org''" "[]" "[]" "[]", where m = "\<lambda>_. Some \<lparr>c_value = (), c_expiresAt = 0\<rparr>"]
      thread_cache_keys [OF n, of "''an''" "[]" "[]" "[]", where m = "\<lambda>_. Some \<lparr>c_value = (), c_expiresAt = 0\<rparr>"]
    by simp
qed

end
