(* ===== verification/UpdateFiles.thy ===== *)
theory UpdateFiles
  imports StoreUsers Demo
begin

text \<open>
  The files by which the server and the privileged update worker talk to each other
  (\<^verbatim>\<open>internal/update\<close>: types.go, state.go, request_queue.go, paths.go and the checks of
  runtime_probe.go): the status of the last update, the record of automatic updates, the queue of
  requests and the lock of the worker.

  A file holds a document, is absent, does not parse, or is a symbolic link, which the code refuses
  to follow.  A file operation is one step: another process may have changed the files before it, and
  it may fail; a write replaces the whole document or nothing (\<^verbatim>\<open>writeJSONAtomic\<close> renames a temporary
  file).  The zero value of \<^verbatim>\<open>time.Time\<close> is \<^const>\<open>None\<close>.  Settings and the audit log live in the
  database of the server.
\<close>

section \<open>Documents\<close>

definition ApplyStateIdle :: string where "ApplyStateIdle = ''idle''"
definition ApplyStateQueued :: string where "ApplyStateQueued = ''queued''"
definition ApplyStateInProgress :: string where "ApplyStateInProgress = ''in_progress''"
definition ApplyStateCompleted :: string where "ApplyStateCompleted = ''completed''"
definition ApplyStateFailed :: string where "ApplyStateFailed = ''failed''"
definition ApplyStateRolledBack :: string where "ApplyStateRolledBack = ''rolled_back''"

definition ApplyModeApply :: string where "ApplyModeApply = ''apply''"
definition ApplyModePrepare :: string where "ApplyModePrepare = ''prepare''"

definition AutoUpdateStateIdle :: string where "AutoUpdateStateIdle = ''idle''"
definition AutoUpdateStatePreparing :: string where "AutoUpdateStatePreparing = ''preparing''"
definition AutoUpdateStateDownloaded :: string where "AutoUpdateStateDownloaded = ''downloaded''"
definition AutoUpdateStateScheduled :: string where "AutoUpdateStateScheduled = ''scheduled''"
definition AutoUpdateStateApplying :: string where "AutoUpdateStateApplying = ''applying''"
definition AutoUpdateStateFailed :: string where "AutoUpdateStateFailed = ''failed''"

lemmas apply_states = ApplyStateIdle_def ApplyStateQueued_def ApplyStateInProgress_def
  ApplyStateCompleted_def ApplyStateFailed_def ApplyStateRolledBack_def
lemmas apply_modes = ApplyModeApply_def ApplyModePrepare_def
lemmas auto_states = AutoUpdateStateIdle_def AutoUpdateStatePreparing_def AutoUpdateStateDownloaded_def
  AutoUpdateStateScheduled_def AutoUpdateStateApplying_def AutoUpdateStateFailed_def

record ReleaseInfo =
  rel_TagName :: string
  rel_Name :: string
  rel_PublishedAt :: "gotime option"
  rel_HTMLURL :: string

record ApplyRequest =
  ar_RequestID :: string
  ar_RequestedAt :: "gotime option"
  ar_RequestedBy :: string
  ar_Mode :: string
  ar_TargetVersion :: string

record ApplyStatus =
  as_State :: string
  as_RequestID :: string
  as_RequestedAt :: "gotime option"
  as_StartedAt :: "gotime option"
  as_FinishedAt :: "gotime option"
  as_TargetVersion :: string
  as_FromVersion :: string
  as_ToVersion :: string
  as_RolledBack :: bool
  as_Error :: string

record autoUpdateStateRecord =
  au_State :: string
  au_TargetVersion :: string
  au_DownloadedAt :: "gotime option"
  au_ScheduledFor :: "gotime option"
  au_Error :: string
  au_DeferredVersion :: string

definition zero_request :: ApplyRequest where
  "zero_request = \<lparr>ar_RequestID = [], ar_RequestedAt = None, ar_RequestedBy = [], ar_Mode = [], ar_TargetVersion = []\<rparr>"

definition apply_status :: "string \<Rightarrow> ApplyStatus" where
  "apply_status st = \<lparr>as_State = st, as_RequestID = [], as_RequestedAt = None, as_StartedAt = None,
     as_FinishedAt = None, as_TargetVersion = [], as_FromVersion = [], as_ToVersion = [],
     as_RolledBack = False, as_Error = []\<rparr>"

definition auto_record :: "string \<Rightarrow> autoUpdateStateRecord" where
  "auto_record st = \<lparr>au_State = st, au_TargetVersion = [], au_DownloadedAt = None, au_ScheduledFor = None,
     au_Error = [], au_DeferredVersion = []\<rparr>"

section \<open>The state of the updater\<close>

datatype uerr =
    ErrUpdaterNotConfigured | ErrUpdateInProgress | ErrInvalidTargetVersion
  | ErrUpdateRequestFailed uerr
  | NotExist | Permission | InvalidPayload | IOErr string
  | CheckErr string | ReleaseErr string | DbErr err

fun err_text :: "uerr \<Rightarrow> string" where
  "err_text ErrUpdaterNotConfigured = ''updater is not configured on this host''"
| "err_text ErrUpdateInProgress = ''an update is already in progress''"
| "err_text ErrInvalidTargetVersion = ''invalid target version''"
| "err_text (ErrUpdateRequestFailed e) = ''failed to queue update request: '' @ err_text e"
| "err_text NotExist = ''file does not exist''"
| "err_text Permission = ''permission denied''"
| "err_text InvalidPayload = ''invalid payload''"
| "err_text (IOErr m) = m"
| "err_text (CheckErr m) = m"
| "err_text (ReleaseErr m) = m"
| "err_text (DbErr e) = ''database error''"

definition isUpdaterPermissionError :: "uerr \<Rightarrow> bool" where
  "isUpdaterPermissionError e \<longleftrightarrow> e = Permission"

datatype 'a slot = Absent | Doc 'a | Broken | Symlink

text \<open>The requests are the file \<^verbatim>\<open>update-request.json\<close> and the files \<^verbatim>\<open>update-request-*.json\<close>, the latter
  by name.\<close>

datatype reqpath = Legacy | Queued string

record files =
  f_auto :: "autoUpdateStateRecord slot"
  f_status :: "ApplyStatus slot"
  f_legacy :: "ApplyRequest slot"
  f_queue :: "(string \<times> ApplyRequest slot) list"
  f_locked :: bool

record ustate =
  us_files :: files
  us_world :: world

text \<open>What the updater asks of its surroundings: systemd units, file modes, the release service, the
  downloads and the replacement of the installed program.\<close>

record systemdUnitState =
  un_LoadState :: string
  un_ActiveState :: string
  un_SubState :: string
  un_Result :: string

record updaterRuntimeStatus =
  rt_PathUnit :: systemdUnitState
  rt_ServiceUnit :: systemdUnitState
  rt_ServiceExecPath :: string
  rt_ServiceExecExists :: bool
  rt_ProbeErr :: "string option"

record fileinfo =
  fi_IsDir :: bool
  fi_Perm :: nat
  fi_Uid :: int
  fi_Gid :: int

datatype statpath = PathUnitFile | ServiceUnitFile | RequestDir | StatusDir

record uenv =
  ue_svc :: Svc
  ue_fault :: "nat \<Rightarrow> uerr option"
  ue_others :: "nat \<Rightarrow> files \<Rightarrow> files"
  ue_probe :: "nat \<Rightarrow> updaterRuntimeStatus"
  ue_stat :: "nat \<Rightarrow> statpath \<Rightarrow> uerr + fileinfo"
  ue_mtime :: "nat \<Rightarrow> reqpath \<Rightarrow> gotime option"
  ue_euid :: int
  ue_egid :: int
  ue_groups :: "int list option"
  ue_latest :: "nat \<Rightarrow> string \<Rightarrow> uerr + (ReleaseInfo \<times> string \<times> bool)"
  ue_prepare :: "nat \<Rightarrow> string \<Rightarrow> uerr + string"
  ue_apply :: "nat \<Rightarrow> ApplyRequest \<Rightarrow> string \<times> bool \<times> uerr option"
  ue_version :: string
  ue_offset :: int
  parse3339 :: "string \<Rightarrow> gotime option"
  ue_check_interval_min :: int

type_synonym 'a U = "uenv \<Rightarrow> ustate \<Rightarrow> (uerr + 'a) \<times> ustate"

section \<open>Composing operations\<close>

definition retU :: "'a \<Rightarrow> 'a U" where "retU x = (\<lambda>v s. (Inr x, s))"

definition failU :: "uerr \<Rightarrow> 'a U" where "failU e = (\<lambda>v s. (Inl e, s))"

definition tryU :: "'a U \<Rightarrow> (uerr + 'a \<Rightarrow> 'b U) \<Rightarrow> 'b U" where
  "tryU m k = (\<lambda>v s. case m v s of (r, s') \<Rightarrow> k r v s')"

definition bindU :: "'a U \<Rightarrow> ('a \<Rightarrow> 'b U) \<Rightarrow> 'b U" where
  "bindU m k = tryU m (\<lambda>r. case r of Inl e \<Rightarrow> failU e | Inr x \<Rightarrow> k x)"

definition ignoreU :: "'a U \<Rightarrow> 'b U \<Rightarrow> 'b U" where "ignoreU m k = tryU m (\<lambda>_. k)"

definition mapErrU :: "(uerr \<Rightarrow> uerr) \<Rightarrow> 'a U \<Rightarrow> 'a U" where
  "mapErrU f m = tryU m (\<lambda>r. case r of Inl e \<Rightarrow> failU (f e) | Inr x \<Rightarrow> retU x)"

definition askU :: "(uenv \<Rightarrow> 'a) \<Rightarrow> 'a U" where "askU f = (\<lambda>v s. (Inr (f v), s))"

definition store :: "'a M \<Rightarrow> 'a U" where
  "store m = (\<lambda>v s. case m (ue_svc v) (us_world s) of
     (Inl e, w) \<Rightarrow> (Inl (DbErr e), s\<lparr>us_world := w\<rparr>) | (Inr x, w) \<Rightarrow> (Inr x, s\<lparr>us_world := w\<rparr>))"

abbreviation nowU :: "gotime U" where "nowU \<equiv> store time_Now"

text \<open>An answer of the surroundings, by the counter of outside calls.\<close>

definition drawU :: "(uenv \<Rightarrow> nat \<Rightarrow> 'a) \<Rightarrow> 'a U" where
  "drawU f = (\<lambda>v s. let w = us_world s in (Inr (f v (w_n w)), s\<lparr>us_world := w\<lparr>w_n := Suc (w_n w)\<rparr>\<rparr>))"

text \<open>One file operation.\<close>

definition fileop :: "(files \<Rightarrow> uerr + files \<times> 'a) \<Rightarrow> 'a U" where
  "fileop f = (\<lambda>v s.
     let w = us_world s; n = w_n w; fs = ue_others v n (us_files s);
         s1 = \<lparr>us_files = fs, us_world = w\<lparr>w_n := Suc n\<rparr>\<rparr>
     in case ue_fault v n of
          Some e \<Rightarrow> (Inl e, s1)
        | None \<Rightarrow> (case f fs of Inl e \<Rightarrow> (Inl e, s1) | Inr (fs', x) \<Rightarrow> (Inr x, s1\<lparr>us_files := fs'\<rparr>)))"

definition readJSONFile :: "(files \<Rightarrow> 'a slot) \<Rightarrow> 'a U" where
  "readJSONFile get = fileop (\<lambda>fs. case get fs of
     Absent \<Rightarrow> Inl NotExist | Broken \<Rightarrow> Inl InvalidPayload
   | Symlink \<Rightarrow> Inl (IOErr ''refusing symlink path'') | Doc d \<Rightarrow> Inr (fs, d))"

definition writeJSONAtomic :: "(files \<Rightarrow> 'a slot) \<Rightarrow> (('a slot \<Rightarrow> 'a slot) \<Rightarrow> files \<Rightarrow> files) \<Rightarrow> 'a \<Rightarrow> unit U" where
  "writeJSONAtomic get upd d = fileop (\<lambda>fs. case get fs of
     Symlink \<Rightarrow> Inl (IOErr ''refusing symlink path'') | _ \<Rightarrow> Inr (upd (\<lambda>_. Doc d) fs, ()))"

definition readApplyStatus :: "ApplyStatus U" where
  "readApplyStatus = tryU (readJSONFile f_status) (\<lambda>r. case r of
     Inl e \<Rightarrow> if e = NotExist then retU (apply_status ApplyStateIdle) else failU e
   | Inr st \<Rightarrow> retU (if as_State st = [] then st\<lparr>as_State := ApplyStateIdle\<rparr> else st))"

definition readAutoUpdateState :: "autoUpdateStateRecord U" where
  "readAutoUpdateState = tryU (readJSONFile f_auto) (\<lambda>r. case r of
     Inl e \<Rightarrow> if e = NotExist then retU (auto_record AutoUpdateStateIdle) else failU e
   | Inr st \<Rightarrow> retU (st\<lparr>au_State := (if au_State st = [] then AutoUpdateStateIdle else au_State st),
       au_TargetVersion := TrimSpace (au_TargetVersion st), au_Error := TrimSpace (au_Error st),
       au_DeferredVersion := TrimSpace (au_DeferredVersion st)\<rparr>))"

abbreviation write_status :: "ApplyStatus \<Rightarrow> unit U" where
  "write_status \<equiv> writeJSONAtomic f_status f_status_update"

abbreviation write_auto :: "autoUpdateStateRecord \<Rightarrow> unit U" where
  "write_auto \<equiv> writeJSONAtomic f_auto f_auto_update"

text \<open>Making a file readable for the group changes its mode only, but may fail.\<close>

definition ensureDespatchReadable :: "unit U" where
  "ensureDespatchReadable = fileop (\<lambda>fs. Inr (fs, ()))"

definition writeAutoUpdateState :: "autoUpdateStateRecord \<Rightarrow> unit U" where
  "writeAutoUpdateState rec =
     (let rec' = (if au_State rec = [] then rec\<lparr>au_State := AutoUpdateStateIdle\<rparr> else rec) in
      bindU (write_auto rec') (\<lambda>_.
      tryU ensureDespatchReadable (\<lambda>r. case r of
        Inl e \<Rightarrow> if isUpdaterPermissionError e then retU () else failU e | Inr _ \<Rightarrow> retU ())))"

section \<open>The request queue\<close>

definition sanitize_byte :: "char \<Rightarrow> char" where
  "sanitize_byte c = (let n = of_char c :: nat in
     if 97 \<le> n \<and> n \<le> 122 \<or> 65 \<le> n \<and> n \<le> 90 \<or> 48 \<le> n \<and> n \<le> 57 \<or> c = CHR ''-'' \<or> c = CHR ''_'' \<or> c = CHR ''.''
     then c else CHR ''-'')"

definition trim_dashes :: "string \<Rightarrow> string" where
  "trim_dashes s = rev (dropWhile (\<lambda>c. c = CHR ''-'') (rev (dropWhile (\<lambda>c. c = CHR ''-'') s)))"

text \<open>On ASCII text; a rune of several bytes gives one dash in the code and several here.\<close>

definition sanitizePathToken :: "string \<Rightarrow> string" where
  "sanitizePathToken v0 = (let v = TrimSpace v0 in
     if v = [] then ''unknown''
     else let out = trim_dashes (map sanitize_byte v) in if out = [] then ''unknown'' else out)"

definition pad20 :: "int \<Rightarrow> string" where
  "pad20 t = (let s = show_int t in replicate (20 - length s) (CHR ''0'') @ s)"

definition requestQueuePath :: "ApplyRequest \<Rightarrow> reqpath U" where
  "requestQueuePath req =
     (let i = sanitizePathToken (TrimSpace (ar_RequestID req));
          requestID = (if i = [] then ''request'' else i)
      in bindU (case ar_RequestedAt req of None \<Rightarrow> nowU | Some t \<Rightarrow> retU t) (\<lambda>ts.
         retU (Queued (''update-request-'' @ pad20 ts @ ''-'' @ requestID @ ''.json''))))"

fun get_request :: "reqpath \<Rightarrow> files \<Rightarrow> ApplyRequest slot" where
  "get_request Legacy fs = f_legacy fs"
| "get_request (Queued n) fs = (case map_of (f_queue fs) n of None \<Rightarrow> Absent | Some d \<Rightarrow> d)"

fun set_request :: "reqpath \<Rightarrow> ApplyRequest slot \<Rightarrow> files \<Rightarrow> files" where
  "set_request Legacy d fs = fs\<lparr>f_legacy := d\<rparr>"
| "set_request (Queued n) d fs =
     fs\<lparr>f_queue := (let q = filter (\<lambda>p. fst p \<noteq> n) (f_queue fs) in if d = Absent then q else insort_key fst (n, d) q)\<rparr>"

definition write_request :: "reqpath \<Rightarrow> ApplyRequest \<Rightarrow> unit U" where
  "write_request p req = writeJSONAtomic (get_request p) (\<lambda>f fs. set_request p (f (get_request p fs)) fs) req"

text \<open>\<^verbatim>\<open>os.Remove\<close>; a link is removed like a file.\<close>

definition remove_request :: "reqpath \<Rightarrow> unit U" where
  "remove_request p = fileop (\<lambda>fs. if get_request p fs = Absent then Inl NotExist else Inr (set_request p Absent fs, ()))"

definition pendingRequestPaths :: "reqpath list U" where
  "pendingRequestPaths =
     bindU (fileop (\<lambda>fs. Inr (fs, f_legacy fs \<noteq> Absent))) (\<lambda>legacy.
     bindU (fileop (\<lambda>fs. Inr (fs, map (\<lambda>(n, _). Queued n) (f_queue fs)))) (\<lambda>matches.
       retU ((if legacy then [Legacy] else []) @ matches)))"

definition normalizeApplyMode :: "string \<Rightarrow> string" where
  "normalizeApplyMode mode = (if lower_trim mode = ApplyModePrepare then ApplyModePrepare else ApplyModeApply)"

fun read_requests :: "reqpath list \<Rightarrow> (reqpath \<times> ApplyRequest) list U" where
  "read_requests [] = retU []"
| "read_requests (p # ps) = tryU (readJSONFile (get_request p)) (\<lambda>r.
     if r = Inl NotExist then read_requests ps
     else (let req = (case r of Inr req \<Rightarrow> req | Inl _ \<Rightarrow> zero_request\<lparr>ar_Mode := ApplyModeApply\<rparr>) in
       bindU (read_requests ps) (\<lambda>rest.
         retU ((p, req\<lparr>ar_Mode := normalizeApplyMode (ar_Mode req)\<rparr>) # rest))))"

definition pendingRequests :: "(reqpath \<times> ApplyRequest) list U" where
  "pendingRequests = bindU pendingRequestPaths read_requests"

definition firstPendingRequestPath :: "reqpath U" where
  "firstPendingRequestPath = bindU pendingRequestPaths (\<lambda>ps. case ps of [] \<Rightarrow> failU NotExist | p # _ \<Rightarrow> retU p)"

fun remove_all :: "reqpath list \<Rightarrow> unit U" where
  "remove_all [] = retU ()"
| "remove_all (p # ps) = tryU (remove_request p) (\<lambda>r. case r of
     Inl e \<Rightarrow> if e = NotExist then remove_all ps else failU e | Inr _ \<Rightarrow> remove_all ps)"

definition removePendingRequestPaths :: "unit U" where
  "removePendingRequestPaths = bindU pendingRequestPaths remove_all"

section \<open>The runtime of the worker\<close>

definition isSystemdLoadStateKnown :: "string \<Rightarrow> bool" where
  "isSystemdLoadStateKnown raw \<longleftrightarrow> lower_trim raw \<notin> {[], ''not-found'', ''error'', ''bad-setting''}"

definition Known :: "systemdUnitState \<Rightarrow> bool" where "Known u \<longleftrightarrow> isSystemdLoadStateKnown (un_LoadState u)"

definition Active :: "systemdUnitState \<Rightarrow> bool" where
  "Active u \<longleftrightarrow> EqualFold (TrimSpace (un_ActiveState u)) ''active''"

definition TriggerLimited :: "systemdUnitState \<Rightarrow> bool" where
  "TriggerLimited u \<longleftrightarrow> Contains (lower_trim (un_Result u)) ''trigger-limit''"

definition StartLimited :: "systemdUnitState \<Rightarrow> bool" where
  "StartLimited u \<longleftrightarrow> Contains (lower_trim (un_Result u)) ''start-limit''"

definition Healthy :: "updaterRuntimeStatus \<Rightarrow> bool" where
  "Healthy s \<longleftrightarrow> rt_ProbeErr s = None \<and> Known (rt_PathUnit s) \<and> Active (rt_PathUnit s)
     \<and> Known (rt_ServiceUnit s) \<and> rt_ServiceExecExists s"

text \<open>The reason of a diagnostic; its explanation and repair hint are text only.\<close>

definition ConfigDiagnostic :: "updaterRuntimeStatus \<Rightarrow> string option" where
  "ConfigDiagnostic s =
     (if rt_ProbeErr s \<noteq> None then Some ''updater_runtime_probe_failed''
      else if \<not> Known (rt_ServiceUnit s) then Some ''updater_service_missing''
      else if \<not> Known (rt_PathUnit s) \<or> \<not> Active (rt_PathUnit s) then
        (if TriggerLimited (rt_PathUnit s) \<or> StartLimited (rt_PathUnit s) \<or> StartLimited (rt_ServiceUnit s)
         then Some ''updater_path_trigger_limited'' else Some ''updater_path_inactive'')
      else if TrimSpace (rt_ServiceExecPath s) = [] then Some ''updater_worker_missing''
      else if \<not> rt_ServiceExecExists s then Some ''updater_worker_missing''
      else None)"

definition stateOrUnknown :: "string \<Rightarrow> string" where
  "stateOrUnknown v = (if TrimSpace v = [] then ''unknown'' else TrimSpace v)"

definition updaterPathFailureSummary :: "updaterRuntimeStatus \<Rightarrow> string" where
  "updaterPathFailureSummary s =
     (let given = (\<lambda>k x. if TrimSpace x \<noteq> [] then [k @ stateOrUnknown x] else []) in
      Join ([''path_load_state='' @ stateOrUnknown (un_LoadState (rt_PathUnit s)),
             ''path_active_state='' @ stateOrUnknown (un_ActiveState (rt_PathUnit s))]
            @ given ''path_sub_state='' (un_SubState (rt_PathUnit s))
            @ given ''path_result='' (un_Result (rt_PathUnit s))
            @ given ''service_active_state='' (un_ActiveState (rt_ServiceUnit s))
            @ given ''service_sub_state='' (un_SubState (rt_ServiceUnit s))
            @ given ''service_result='' (un_Result (rt_ServiceUnit s))) '' '')"

definition updaterPathFailureDetail :: "updaterRuntimeStatus \<Rightarrow> string" where
  "updaterPathFailureDetail s = ''despatch-updater.path is not active ('' @ updaterPathFailureSummary s @ '')''"

definition StaleQueueError :: "updaterRuntimeStatus \<Rightarrow> string" where
  "StaleQueueError s =
     (case rt_ProbeErr s of
        Some m \<Rightarrow> ''queued request was not picked up because updater runtime inspection failed: '' @ m
      | None \<Rightarrow>
          if \<not> Known (rt_ServiceUnit s) then
            ''queued request was not picked up because despatch-updater.service is not installed or not known to systemd''
          else if \<not> Known (rt_PathUnit s) \<or> \<not> Active (rt_PathUnit s) then
            (if TriggerLimited (rt_PathUnit s) \<or> StartLimited (rt_PathUnit s) \<or> StartLimited (rt_ServiceUnit s)
             then ''queued request was not picked up because despatch-updater.path hit a systemd trigger/start limit (''
               @ updaterPathFailureSummary s @ '')''
             else ''queued request was not picked up because '' @ updaterPathFailureDetail s)
          else if TrimSpace (rt_ServiceExecPath s) = [] \<or> \<not> rt_ServiceExecExists s then
            ''queued request was not picked up because despatch-updater.service does not resolve to a working updater executable''
          else ''queued request was not picked up by updater runtime within 30s; requeue update'')"

lemma healthy_iff: "Healthy s \<and> TrimSpace (rt_ServiceExecPath s) \<noteq> [] \<longleftrightarrow> ConfigDiagnostic s = None"
  by (auto simp: Healthy_def ConfigDiagnostic_def)

end
