(* ===== verification/UpdateManager.thy ===== *)
theory UpdateManager
  imports UpdateFiles
begin

text \<open>
  The update manager of the server (\<^verbatim>\<open>internal/update/manager.go\<close>): its status, the queueing of requests
  for the worker, the recovery of requests nobody picked up, and the automatic updates, which prepare
  a release, schedule it for the night and queue it.  Only the reason of a configuration diagnostic is
  kept.
\<close>

unbundle bit_operations_syntax

section \<open>Whether the updater can be used\<close>

definition processInGroup :: "uenv \<Rightarrow> int \<Rightarrow> bool" where
  "processInGroup v gid \<longleftrightarrow> ue_egid v = gid \<or> (case ue_groups v of None \<Rightarrow> False | Some gs \<Rightarrow> gid \<in> set gs)"

text \<open>The masks are the octal 300, 030 and 003: write and search for owner, group and others.\<close>

definition dirWritableByCurrentProcess :: "uenv \<Rightarrow> fileinfo \<Rightarrow> bool" where
  "dirWritableByCurrentProcess v i \<longleftrightarrow> fi_IsDir i \<and>
     (if ue_euid v = 0 then True
      else if ue_euid v = fi_Uid i then fi_Perm i AND 192 = 192
      else if processInGroup v (fi_Gid i) then fi_Perm i AND 24 = 24
      else fi_Perm i AND 3 = 3)"

definition statU :: "statpath \<Rightarrow> (uerr + fileinfo) U" where
  "statU p = drawU (\<lambda>v n. ue_stat v n p)"

definition checkWritablePath :: "statpath \<Rightarrow> string \<Rightarrow> string option U" where
  "checkWritablePath p stage =
     (let prefix = (if TrimSpace stage = [] then ''path'' else TrimSpace stage);
          diag = Some (prefix @ ''_dir_unwritable'')
      in bindU (statU p) (\<lambda>r. bindU (askU id) (\<lambda>v. retU (case r of
           Inl _ \<Rightarrow> diag
         | Inr i \<Rightarrow> if \<not> fi_IsDir i then diag
                   else if \<not> dirWritableByCurrentProcess v i then diag else None))))"

definition configurationStatus :: "updaterRuntimeStatus \<Rightarrow> (bool \<times> string option) U" where
  "configurationStatus rt =
     bindU (askU (\<lambda>v. UpdateEnabled (cfg (ue_svc v)))) (\<lambda>on.
     if \<not> on then retU (False, None)
     else bindU (statU PathUnitFile) (\<lambda>r1. case r1 of
       Inl _ \<Rightarrow> retU (False, Some ''updater_unit_missing'')
     | Inr _ \<Rightarrow> bindU (statU ServiceUnitFile) (\<lambda>r2. case r2 of
         Inl _ \<Rightarrow> retU (False, Some ''updater_service_missing'')
       | Inr _ \<Rightarrow> bindU (checkWritablePath RequestDir ''request'') (\<lambda>d1. case d1 of
           Some d \<Rightarrow> retU (False, Some d)
         | None \<Rightarrow> bindU (checkWritablePath StatusDir ''status'') (\<lambda>d2. case d2 of
             Some d \<Rightarrow> retU (False, Some d)
           | None \<Rightarrow> retU (case ConfigDiagnostic rt of Some d \<Rightarrow> (False, Some d) | None \<Rightarrow> (True, None)))))))"

section \<open>Requests nobody picked up\<close>

definition updateQueuePickupGrace :: duration where "updateQueuePickupGrace = 30 * time_Second"

definition readApplyStatusTolerant :: "ApplyStatus U" where
  "readApplyStatusTolerant = tryU readApplyStatus (\<lambda>r. case r of
     Inr st \<Rightarrow> retU st
   | Inl e \<Rightarrow> if isUpdaterPermissionError e then retU (apply_status ApplyStateIdle) else failU e)"

definition staleQueuedApplyStatus :: "updaterRuntimeStatus \<Rightarrow> ApplyStatus \<Rightarrow> ApplyStatus U" where
  "staleQueuedApplyStatus rt current =
     (if as_State current \<noteq> ApplyStateQueued then retU current
      else case as_RequestedAt current of
        None \<Rightarrow> retU current
      | Some requestedAt \<Rightarrow>
          bindU nowU (\<lambda>now.
          if now < requestedAt + updateQueuePickupGrace then retU current
          else bindU nowU (\<lambda>fin. retU (current\<lparr>as_State := ApplyStateFailed, as_FinishedAt := Some fin,
                 as_Error := StaleQueueError rt\<rparr>))))"

definition recoverStaleQueuedApply :: "updaterRuntimeStatus \<Rightarrow> ApplyStatus \<Rightarrow> ApplyStatus U" where
  "recoverStaleQueuedApply rt current =
     bindU (staleQueuedApplyStatus rt current) (\<lambda>nxt.
     if as_State nxt = as_State current \<and> as_Error nxt = as_Error current \<and> as_FinishedAt nxt = as_FinishedAt current
     then retU current
     else bindU removePendingRequestPaths (\<lambda>_.
          bindU (write_status nxt) (\<lambda>_.
          ignoreU ensureDespatchReadable (retU nxt))))"

text \<open>The loop over the pending requests: \<^const>\<open>None\<close> when one of them is still within its grace period, else
  the stale ones.\<close>

fun stale_prepares :: "autoUpdateStateRecord \<Rightarrow> (reqpath \<times> ApplyRequest) list \<Rightarrow> reqpath list option U" where
  "stale_prepares rec [] = retU (Some [])"
| "stale_prepares rec ((p, req) # rest) =
     (if normalizeApplyMode (ar_Mode req) \<noteq> ApplyModePrepare then stale_prepares rec rest
      else if au_TargetVersion rec \<noteq> [] \<and> TrimSpace (ar_TargetVersion req) \<noteq> []
              \<and> TrimSpace (ar_TargetVersion req) \<noteq> au_TargetVersion rec then stale_prepares rec rest
      else bindU (case ar_RequestedAt req of Some t \<Rightarrow> retU (Some t) | None \<Rightarrow> drawU (\<lambda>v n. ue_mtime v n p)) (\<lambda>at.
        case at of
          None \<Rightarrow> retU None
        | Some t \<Rightarrow> bindU nowU (\<lambda>now.
            if now < t + updateQueuePickupGrace then retU None
            else bindU (stale_prepares rec rest) (\<lambda>more. retU (map_option (\<lambda>ps. p # ps) more)))))"

definition recoverStaleAutoPrepare :: "updaterRuntimeStatus \<Rightarrow> unit U" where
  "recoverStaleAutoPrepare rt = tryU readAutoUpdateState (\<lambda>r. case r of
     Inl e \<Rightarrow> if isUpdaterPermissionError e then retU () else failU e
   | Inr rec \<Rightarrow>
       if au_State rec \<noteq> AutoUpdateStatePreparing then retU ()
       else tryU pendingRequests (\<lambda>q. case q of
         Inl e \<Rightarrow> if isUpdaterPermissionError e then retU () else failU e
       | Inr pending \<Rightarrow> bindU (stale_prepares rec pending) (\<lambda>stale. case stale of
           None \<Rightarrow> retU ()
         | Some [] \<Rightarrow> retU ()
         | Some paths \<Rightarrow> bindU (remove_all paths) (\<lambda>_.
             writeAutoUpdateState (rec\<lparr>au_State := AutoUpdateStateFailed, au_DownloadedAt := None,
               au_ScheduledFor := None, au_Error := StaleQueueError rt\<rparr>)))))"

section \<open>Queueing\<close>

definition target_byte :: "char \<Rightarrow> bool" where
  "target_byte c \<longleftrightarrow> (let n = of_char c :: nat in
     65 \<le> n \<and> n \<le> 90 \<or> 97 \<le> n \<and> n \<le> 122 \<or> 48 \<le> n \<and> n \<le> 57 \<or> c = CHR ''.'' \<or> c = CHR ''_'' \<or> c = CHR ''-'')"

definition targetVersionRx :: "string \<Rightarrow> bool" where
  "targetVersionRx s \<longleftrightarrow> s \<noteq> [] \<and> list_all target_byte s"

definition request_failed :: "'a U \<Rightarrow> 'a U" where "request_failed = mapErrU ErrUpdateRequestFailed"

definition ensureUpdaterRequestStatusDirectories :: "unit U" where
  "ensureUpdaterRequestStatusDirectories = fileop (\<lambda>fs. Inr (fs, ()))"

definition queueRequest :: "string \<Rightarrow> string \<Rightarrow> string \<Rightarrow> string \<Rightarrow> ApplyRequest U" where
  "queueRequest requestedBy targetVersion requestID0 mode0 =
     bindU (drawU ue_probe) (\<lambda>rt.
     bindU (request_failed (recoverStaleAutoPrepare rt)) (\<lambda>_.
     bindU (request_failed readApplyStatusTolerant) (\<lambda>cur0.
     bindU (request_failed (recoverStaleQueuedApply rt cur0)) (\<lambda>current.
     bindU (configurationStatus rt) (\<lambda>(configured, _).
     bindU (askU (\<lambda>v. UpdateEnabled (cfg (ue_svc v)))) (\<lambda>on.
     if \<not> on \<or> \<not> configured then failU ErrUpdaterNotConfigured
     else let mode = normalizeApplyMode mode0; target = TrimSpace targetVersion in
     if target \<noteq> [] \<and> \<not> targetVersionRx target then failU ErrInvalidTargetVersion
     else bindU (if TrimSpace requestID0 = [] then store uuid_NewString else retU (TrimSpace requestID0)) (\<lambda>requestID.
     if as_State current = ApplyStateQueued \<or> as_State current = ApplyStateInProgress then failU ErrUpdateInProgress
     else bindU (request_failed pendingRequestPaths) (\<lambda>pending.
     if pending \<noteq> [] then failU ErrUpdateInProgress
     else bindU nowU (\<lambda>now.
       let req = \<lparr>ar_RequestID = requestID, ar_RequestedAt = Some now, ar_RequestedBy = TrimSpace requestedBy,
                  ar_Mode = mode, ar_TargetVersion = target\<rparr> in
       bindU (request_failed ensureUpdaterRequestStatusDirectories) (\<lambda>_.
       bindU (requestQueuePath req) (\<lambda>path.
       bindU (request_failed (write_request path req)) (\<lambda>_.
       bindU (if mode = ApplyModeApply
              then request_failed (write_status ((apply_status ApplyStateQueued)\<lparr>as_RequestID := ar_RequestID req,
                as_RequestedAt := ar_RequestedAt req, as_TargetVersion := ar_TargetVersion req\<rparr>))
              else retU ()) (\<lambda>_. retU req)))))))))))))"

definition QueueApply :: "string \<Rightarrow> string \<Rightarrow> string \<Rightarrow> ApplyRequest U" where
  "QueueApply requestedBy targetVersion requestID = queueRequest requestedBy targetVersion requestID ApplyModeApply"

definition QueuePrepare :: "string \<Rightarrow> string \<Rightarrow> string \<Rightarrow> ApplyRequest U" where
  "QueuePrepare requestedBy targetVersion requestID = queueRequest requestedBy targetVersion requestID ApplyModePrepare"

definition ApplyErrorCode :: "uerr \<Rightarrow> string" where
  "ApplyErrorCode e =
     (if e = ErrUpdaterNotConfigured then ''updater_not_configured''
      else if e = ErrUpdateInProgress then ''update_in_progress''
      else if e = ErrInvalidTargetVersion then ''invalid_target_version''
      else ''update_request_failed'')"

section \<open>The latest release\<close>

definition getSettingU :: "string \<Rightarrow> string U" where
  "getSettingU key = tryU (store (GetSetting key)) (\<lambda>r. retU (case r of
     Inl _ \<Rightarrow> [] | Inr None \<Rightarrow> [] | Inr (Some v) \<Rightarrow> TrimSpace v))"

definition shouldRefresh :: "bool U" where
  "shouldRefresh =
     bindU (getSettingU ''update_last_check_at'') (\<lambda>raw.
     if TrimSpace raw = [] then retU True
     else bindU (askU (\<lambda>v. (parse3339 v raw, ue_check_interval_min v))) (\<lambda>(parsed, minutes).
       case parsed of None \<Rightarrow> retU True
       | Some lastCheck \<Rightarrow> bindU nowU (\<lambda>now. retU (now > lastCheck + minutes * time_Minute))))"

definition set_setting :: "string \<Rightarrow> string \<Rightarrow> 'b U \<Rightarrow> 'b U" where
  "set_setting key val k = ignoreU (store (UpsertSetting key val)) k"

definition refreshLatest :: "unit U" where
  "refreshLatest =
     bindU (getSettingU ''update_etag'') (\<lambda>etag.
     bindU (drawU (\<lambda>v n. ue_latest v n etag)) (\<lambda>r.
     bindU nowU (\<lambda>now. bindU (askU (\<lambda>v. rfc3339 (ue_svc v))) (\<lambda>fmt.
     set_setting ''update_last_check_at'' (fmt now)
     (case r of
        Inl e \<Rightarrow> set_setting ''update_last_check_error'' (err_text e) (failU e)
      | Inr (latest, newETag, notModified) \<Rightarrow>
          set_setting ''update_last_check_error'' []
          (ignoreU (if newETag \<noteq> [] then store (UpsertSetting ''update_etag'' newETag) else retU ())
          (if notModified then retU ()
           else set_setting ''update_latest_tag'' (TrimSpace (rel_TagName latest))
             (set_setting ''update_latest_html_url'' (TrimSpace (rel_HTMLURL latest))
             (ignoreU (case rel_PublishedAt latest of None \<Rightarrow> retU ()
               | Some t \<Rightarrow> store (UpsertSetting ''update_latest_published_at'' (fmt t))) (retU ()))))))))))"

definition MarkSuccess :: "string \<Rightarrow> unit U" where
  "MarkSuccess targetVersion =
     set_setting ''update_last_success_version'' (TrimSpace targetVersion)
     (bindU nowU (\<lambda>now. bindU (askU (\<lambda>v. rfc3339 (ue_svc v))) (\<lambda>fmt.
       set_setting ''update_last_success_at'' (fmt now) (retU ()))))"

definition compareVersions :: "string \<Rightarrow> string \<Rightarrow> bool" where
  "compareVersions current latest =
     (let c = TrimSpace current; l = TrimSpace latest;
          trim = (\<lambda>v. TrimPrefix (ToLower (TrimSpace v)) ''v'')
      in if c = [] \<or> l = [] then False else if EqualFold c l then False else trim c \<noteq> trim l)"

section \<open>Automatic updates\<close>

record AutoUpdateStatus =
  aus_Enabled :: bool
  aus_State :: string
  aus_TargetVersion :: string
  aus_DownloadedAt :: "gotime option"
  aus_ScheduledFor :: "gotime option"
  aus_Error :: string

record StatusResponse =
  sr_Enabled :: bool
  sr_Configured :: bool
  sr_Current :: string
  sr_Latest :: "ReleaseInfo option"
  sr_LastCheckedAt :: string
  sr_LastCheckError :: string
  sr_UpdateAvailable :: bool
  sr_Apply :: ApplyStatus
  sr_AutoUpdate :: AutoUpdateStatus
  sr_ConfigDiagnostic :: "string option"

definition autoStatusFromRecord :: "autoUpdateStateRecord \<Rightarrow> bool \<Rightarrow> AutoUpdateStatus" where
  "autoStatusFromRecord rec enabled = \<lparr>aus_Enabled = enabled,
     aus_State = (if au_State rec = [] then AutoUpdateStateIdle else au_State rec),
     aus_TargetVersion = TrimSpace (au_TargetVersion rec), aus_DownloadedAt = au_DownloadedAt rec,
     aus_ScheduledFor = au_ScheduledFor rec, aus_Error = TrimSpace (au_Error rec)\<rparr>"

definition presentAutoUpdateStatus :: "StatusResponse \<Rightarrow> autoUpdateStateRecord \<Rightarrow> bool \<Rightarrow> AutoUpdateStatus" where
  "presentAutoUpdateStatus status rec enabled =
     (let auto = autoStatusFromRecord rec enabled;
          target0 = TrimSpace (as_TargetVersion (sr_Apply status));
          target = (if target0 = [] then (case sr_Latest status of None \<Rightarrow> [] | Some r \<Rightarrow> TrimSpace (rel_TagName r)) else target0);
          applying = au_State rec \<in> {AutoUpdateStateScheduled, AutoUpdateStateDownloaded, AutoUpdateStatePreparing}
            \<and> as_State (sr_Apply status) \<in> {ApplyStateQueued, ApplyStateInProgress}
            \<and> target \<noteq> [] \<and> target = TrimSpace (au_TargetVersion rec);
          auto1 = (if applying then auto\<lparr>aus_State := AutoUpdateStateApplying\<rparr> else auto)
      in case sr_Latest status of
           Some r \<Rightarrow> if aus_State auto1 = AutoUpdateStateIdle \<and> enabled \<and> sr_UpdateAvailable status
                     then auto1\<lparr>aus_TargetVersion := TrimSpace (rel_TagName r)\<rparr> else auto1
         | None \<Rightarrow> auto1)"

definition autoUpdateEnabled :: "bool U" where
  "autoUpdateEnabled = bindU (store (GetSetting ''update_auto_enabled'')) (\<lambda>raw. retU (case raw of
     None \<Rightarrow> True
   | Some s \<Rightarrow> lower_trim s \<notin> {''0'', ''false'', ''off'', ''disabled'', ''no''}))"

definition boolToSetting :: "bool \<Rightarrow> string" where "boolToSetting b = (if b then ''1'' else ''0'')"

definition PersistAutomaticPreference :: "string \<Rightarrow> bool \<Rightarrow> unit U" where
  "PersistAutomaticPreference actorUserID enabled =
     bindU (store (UpsertSetting ''update_auto_enabled'' (boolToSetting enabled))) (\<lambda>_.
     ignoreU (store (InsertAudit (TrimSpace actorUserID) ''update_auto'' ''automatic_updates''
       (if enabled then ''{\"enabled\":true}'' else ''{\"enabled\":false}''))) (retU ()))"

text \<open>A read that may be refused: the code goes on with the zero record.\<close>

definition read_auto_tolerant :: "autoUpdateStateRecord U" where
  "read_auto_tolerant = tryU readAutoUpdateState (\<lambda>r. case r of
     Inr rec \<Rightarrow> retU rec
   | Inl e \<Rightarrow> if isUpdaterPermissionError e then retU (auto_record []) else failU e)"

definition SetAutomaticEnabled :: "string \<Rightarrow> bool \<Rightarrow> AutoUpdateStatus U" where
  "SetAutomaticEnabled actorUserID enabled =
     bindU (PersistAutomaticPreference actorUserID enabled) (\<lambda>_.
     bindU read_auto_tolerant (\<lambda>rec0.
     let rec = (if \<not> enabled \<and> au_State rec0 = AutoUpdateStateScheduled
                then rec0\<lparr>au_State := AutoUpdateStateDownloaded, au_ScheduledFor := None\<rparr> else rec0) in
     tryU (write_auto rec) (\<lambda>r. case r of
       Inl e \<Rightarrow> if isUpdaterPermissionError e then retU (autoStatusFromRecord rec enabled) else failU e
     | Inr _ \<Rightarrow> retU (autoStatusFromRecord rec enabled))))"

definition CancelScheduledUpdate :: "string \<Rightarrow> AutoUpdateStatus U" where
  "CancelScheduledUpdate actorUserID =
     bindU autoUpdateEnabled (\<lambda>enabled.
     bindU readAutoUpdateState (\<lambda>rec0.
     let rec = rec0\<lparr>au_DeferredVersion := TrimSpace (au_TargetVersion rec0),
                    au_State := AutoUpdateStateDownloaded, au_ScheduledFor := None, au_Error := []\<rparr> in
     bindU (write_auto rec) (\<lambda>_.
     ignoreU (store (InsertAudit (TrimSpace actorUserID) ''update_auto'' ''cancel_scheduled_update''
       (''{\"target_version\":\"'' @ au_TargetVersion rec @ ''\"}''))) (retU (autoStatusFromRecord rec enabled)))))"

definition day :: duration where "day = 24 * time_Hour"

text \<open>The next two o'clock of a zone with a constant offset from UTC.\<close>

definition nextNightlyWindow :: "int \<Rightarrow> gotime \<Rightarrow> gotime" where
  "nextNightlyWindow offset now =
     (let scheduled = now - (now + offset) mod day + 2 * time_Hour
      in if now < scheduled then scheduled else scheduled + 24 * time_Hour)"

definition Status :: "bool \<Rightarrow> StatusResponse U" where
  "Status forceCheck =
     bindU (drawU ue_probe) (\<lambda>rt.
     bindU (configurationStatus rt) (\<lambda>(configured, diag).
     bindU (recoverStaleAutoPrepare rt) (\<lambda>_.
     tryU autoUpdateEnabled (\<lambda>en. let autoEnabled = (case en of Inr b \<Rightarrow> b | Inl _ \<Rightarrow> False) in
     bindU read_auto_tolerant (\<lambda>autoRecord.
     bindU (askU (\<lambda>v. (UpdateEnabled (cfg (ue_svc v)), ue_version v))) (\<lambda>(on, version).
     bindU (if \<not> on then retU False else if forceCheck then retU True else shouldRefresh) (\<lambda>refresh.
     tryU (if refresh then refreshLatest else retU ()) (\<lambda>checked.
     case (forceCheck, checked) of (True, Inl e) \<Rightarrow> failU e | _ \<Rightarrow>
     bindU (getSettingU ''update_latest_tag'') (\<lambda>latestTag.
     bindU (if latestTag = [] then retU None
            else bindU (getSettingU ''update_latest_published_at'') (\<lambda>publishedRaw.
                 bindU (getSettingU ''update_latest_html_url'') (\<lambda>latestURL.
                 bindU (askU parse3339) (\<lambda>parse.
                 retU (Some \<lparr>rel_TagName = latestTag, rel_Name = [],
                   rel_PublishedAt = (if publishedRaw = [] then None else parse publishedRaw),
                   rel_HTMLURL = latestURL\<rparr>))))) (\<lambda>latest.
     bindU (getSettingU ''update_last_check_at'') (\<lambda>lastAt.
     bindU (getSettingU ''update_last_check_error'') (\<lambda>lastErr.
     bindU readApplyStatusTolerant (\<lambda>applied.
     bindU (staleQueuedApplyStatus rt applied) (\<lambda>apply0.
     tryU (if as_State apply0 = ApplyStateIdle \<and> configured then pendingRequests else retU []) (\<lambda>pend.
     let status = (\<lambda>st. \<lparr>sr_Enabled = on, sr_Configured = configured, sr_Current = version, sr_Latest = latest,
           sr_LastCheckedAt = lastAt,
           sr_LastCheckError = (case checked of Inl e \<Rightarrow> if lastErr = [] then err_text e else lastErr | Inr _ \<Rightarrow> lastErr),
           sr_UpdateAvailable = (case latest of None \<Rightarrow> False | Some r \<Rightarrow> compareVersions version (rel_TagName r)),
           sr_Apply = st, sr_AutoUpdate = autoStatusFromRecord autoRecord autoEnabled, sr_ConfigDiagnostic = diag\<rparr>) in
     case pend of
       Inl e \<Rightarrow> if isUpdaterPermissionError e then retU (status apply0) else failU e
     | Inr reqs \<Rightarrow>
         let queued = list_ex (\<lambda>(_, r). normalizeApplyMode (ar_Mode r) = ApplyModeApply) reqs;
             st = status (if queued then apply0\<lparr>as_State := ApplyStateQueued\<rparr> else apply0)
         in retU (st\<lparr>sr_AutoUpdate := presentAutoUpdateStatus st autoRecord autoEnabled\<rparr>))))))))))))))))"

definition save_auto :: "autoUpdateStateRecord \<Rightarrow> unit U" where
  "save_auto rec = ignoreU (write_auto rec) (retU ())"

text \<open>The tick once the status is known: \<open>latestTag\<close> is the release on offer, \<open>rec0\<close> the record.\<close>

definition tick_release :: "string \<Rightarrow> string \<Rightarrow> autoUpdateStateRecord \<Rightarrow> unit U" where
  "tick_release applyState latestTag rec =
     (if au_DeferredVersion rec = latestTag then retU ()
      else if au_State rec \<in> {AutoUpdateStatePreparing, AutoUpdateStateScheduled, AutoUpdateStateApplying} then
        bindU (if au_State rec = AutoUpdateStateScheduled then
                 (case au_ScheduledFor rec of None \<Rightarrow> retU False | Some at \<Rightarrow> bindU nowU (\<lambda>now. retU (\<not> now < at)))
               else retU False) (\<lambda>due.
        if due \<and> applyState = ApplyStateIdle then
          tryU (queueRequest ''system:auto-update'' latestTag (''auto-apply-'' @ sanitizePathToken latestTag) ApplyModeApply)
            (\<lambda>r. case r of
               Inr _ \<Rightarrow> retU ()
             | Inl e \<Rightarrow> if e = ErrUpdateInProgress then retU ()
                       else save_auto (rec\<lparr>au_State := AutoUpdateStateFailed, au_Error := err_text e\<rparr>))
        else retU ())
      else if au_State rec = AutoUpdateStateDownloaded then
        bindU nowU (\<lambda>now. bindU (askU ue_offset) (\<lambda>off.
          save_auto (rec\<lparr>au_State := AutoUpdateStateScheduled, au_ScheduledFor := Some (nextNightlyWindow off now),
                         au_Error := []\<rparr>)))
      else if au_State rec = AutoUpdateStateFailed \<and> TrimSpace (au_TargetVersion rec) = latestTag then retU ()
      else let rec' = (auto_record AutoUpdateStatePreparing)\<lparr>au_TargetVersion := latestTag\<rparr> in
        bindU (write_auto rec') (\<lambda>_.
        tryU (queueRequest ''system:auto-update'' latestTag (''auto-prepare-'' @ sanitizePathToken latestTag) ApplyModePrepare)
          (\<lambda>r. case r of
             Inr _ \<Rightarrow> retU ()
           | Inl e \<Rightarrow> if e = ErrUpdateInProgress then retU ()
                     else save_auto (rec'\<lparr>au_State := AutoUpdateStateFailed, au_Error := err_text e\<rparr>))))"

definition AutomaticTick :: "unit U" where
  "AutomaticTick =
     bindU (askU (\<lambda>v. UpdateEnabled (cfg (ue_svc v)))) (\<lambda>on.
     if \<not> on then retU ()
     else bindU (Status False) (\<lambda>status.
     if \<not> sr_Configured status then retU ()
     else bindU read_auto_tolerant (\<lambda>rec0.
     let enabled = aus_Enabled (sr_AutoUpdate status);
         rec = (if au_State rec0 = [] then rec0\<lparr>au_State := AutoUpdateStateIdle\<rparr> else rec0);
         latestTag = (case sr_Latest status of None \<Rightarrow> [] | Some r \<Rightarrow> TrimSpace (rel_TagName r)) in
     if latestTag = [] \<or> \<not> sr_UpdateAvailable status then
       (if au_State rec \<noteq> AutoUpdateStateIdle \<or> au_TargetVersion rec \<noteq> [] \<or> au_Error rec \<noteq> [] \<or> au_DeferredVersion rec \<noteq> []
        then save_auto (auto_record AutoUpdateStateIdle) else retU ())
     else if \<not> enabled then
       (if au_State rec = AutoUpdateStateScheduled
        then save_auto (rec\<lparr>au_State := AutoUpdateStateDownloaded, au_ScheduledFor := None, au_Error := []\<rparr>)
        else retU ())
     else if au_TargetVersion rec \<noteq> [] \<and> au_TargetVersion rec \<noteq> latestTag then
       bindU (save_auto (auto_record AutoUpdateStateIdle)) (\<lambda>_.
         tick_release (as_State (sr_Apply status)) latestTag (auto_record AutoUpdateStateIdle))
     else tick_release (as_State (sr_Apply status)) latestTag rec)))"

end
