(* ===== verification/UpdateWorker.thy ===== *)
theory UpdateWorker
  imports UpdateManager
begin

text \<open>
  The update worker (\<^verbatim>\<open>internal/update/worker.go\<close>, \<^verbatim>\<open>runWorker\<close>): one run takes the lock, reads the first
  pending request, prepares or applies the release and records the outcome.  Downloading and unpacking
  a release (\<^verbatim>\<open>prepareReleasePayload\<close>) and replacing the installed program (\<^verbatim>\<open>applyRelease\<close>) are answers of
  the surroundings: a tag or an error, and a version, whether the old program was put back, and an
  error.  The removal of the prepared payload after a success, whose error is dropped, belongs to them: no
  modelled operation reads that directory.
\<close>

text \<open>\<^verbatim>\<open>defer\<close>: the second operation runs whatever the first returns, and its result is dropped.\<close>

definition finallyU :: "'a U \<Rightarrow> 'b U \<Rightarrow> 'a U" where
  "finallyU m k = (\<lambda>v s. case m v s of (r, s1) \<Rightarrow> (case k v s1 of (_, s2) \<Rightarrow> (r, s2)))"

definition unix_seconds :: "gotime \<Rightarrow> string" where "unix_seconds t = show_int (t div time_Second)"

definition lock_worker :: "bool U" where
  "lock_worker = fileop (\<lambda>fs. if f_locked fs then Inr (fs, False) else Inr (fs\<lparr>f_locked := True\<rparr>, True))"

definition unlock_worker :: "unit U" where
  "unlock_worker = fileop (\<lambda>fs. Inr (fs\<lparr>f_locked := False\<rparr>, ()))"

definition ensureUpdaterRuntimeDirectories :: "unit U" where
  "ensureUpdaterRuntimeDirectories = fileop (\<lambda>fs. Inr (fs, ()))"

text \<open>A change of the record of automatic updates, made when it can be read and the guard holds.\<close>

definition update_auto ::
  "(autoUpdateStateRecord \<Rightarrow> bool) \<Rightarrow> (autoUpdateStateRecord \<Rightarrow> autoUpdateStateRecord) \<Rightarrow> 'b U \<Rightarrow> 'b U" where
  "update_auto P f k = tryU readAutoUpdateState (\<lambda>r. case r of
     Inl _ \<Rightarrow> k
   | Inr rec \<Rightarrow> if P rec then ignoreU (writeAutoUpdateState (f rec)) k else k)"

definition discard_request :: "reqpath \<Rightarrow> unit U" where
  "discard_request path =
     bindU nowU (\<lambda>now.
     ignoreU (remove_request path)
     (bindU (askU ue_version) (\<lambda>version.
     ignoreU (write_status ((apply_status ApplyStateFailed)\<lparr>as_RequestID := ''invalid-request-'' @ unix_seconds now,
       as_RequestedAt := Some now, as_StartedAt := Some now, as_FinishedAt := Some now, as_FromVersion := version,
       as_Error := ''invalid updater request payload; discarded''\<rparr>))
     (ignoreU ensureDespatchReadable (retU ())))))"

definition removed_or :: "reqpath \<Rightarrow> 'b U \<Rightarrow> 'b U" where
  "removed_or path k = tryU (remove_request path) (\<lambda>r. case r of
     Inl e \<Rightarrow> if e = NotExist then k else failU e | Inr _ \<Rightarrow> k)"

definition run_prepare :: "reqpath \<Rightarrow> ApplyRequest \<Rightarrow> unit U" where
  "run_prepare path req =
     (let target = TrimSpace (ar_TargetVersion req) in
      update_auto (\<lambda>rec. TrimSpace (au_TargetVersion rec) = target \<or> TrimSpace (au_TargetVersion rec) = [])
        (\<lambda>rec. rec\<lparr>au_State := AutoUpdateStatePreparing, au_TargetVersion := target, au_Error := []\<rparr>)
      (removed_or path
      (bindU (drawU (\<lambda>v n. ue_prepare v n target)) (\<lambda>r. case r of
         Inl e \<Rightarrow> update_auto (\<lambda>_. True)
           (\<lambda>rec. rec\<lparr>au_State := AutoUpdateStateFailed, au_TargetVersion := target, au_Error := err_text e\<rparr>) (failU e)
       | Inr tag \<Rightarrow>
           bindU nowU (\<lambda>now. bindU nowU (\<lambda>now2. bindU (askU ue_offset) (\<lambda>off.
             writeAutoUpdateState ((auto_record AutoUpdateStateScheduled)\<lparr>au_TargetVersion := TrimSpace tag,
               au_DownloadedAt := Some now, au_ScheduledFor := Some (nextNightlyWindow off now2)\<rparr>))))))))"

definition outcome :: "string \<Rightarrow> bool \<Rightarrow> uerr option \<Rightarrow> ApplyStatus \<Rightarrow> ApplyStatus" where
  "outcome toVersion rollback err st = (case err of
     None \<Rightarrow> st\<lparr>as_State := ApplyStateCompleted, as_ToVersion := toVersion\<rparr>
   | Some e \<Rightarrow> st\<lparr>as_Error := err_text e, as_ToVersion := toVersion, as_RolledBack := rollback,
       as_State := (if rollback then ApplyStateRolledBack else as_State st)\<rparr>)"

text \<open>The deferred end of an application: the final status, with the time it ended, and the request gone.\<close>

definition finish_apply :: "reqpath \<Rightarrow> ApplyStatus \<Rightarrow> unit U" where
  "finish_apply path st =
     bindU nowU (\<lambda>now.
     ignoreU (write_status (st\<lparr>as_FinishedAt := Some now\<rparr>))
     (ignoreU ensureDespatchReadable (ignoreU (remove_request path) (retU ()))))"

definition run_apply :: "reqpath \<Rightarrow> ApplyRequest \<Rightarrow> unit U" where
  "run_apply path req =
     (let target = TrimSpace (ar_TargetVersion req) in
      bindU nowU (\<lambda>started. bindU (askU ue_version) (\<lambda>version.
      let base = (apply_status ApplyStateFailed)\<lparr>as_RequestID := ar_RequestID req, as_RequestedAt := ar_RequestedAt req,
            as_StartedAt := Some started, as_TargetVersion := target, as_FromVersion := version\<rparr> in
      ignoreU (write_status (base\<lparr>as_State := ApplyStateInProgress\<rparr>))
      (ignoreU ensureDespatchReadable
      (update_auto (\<lambda>rec. target \<noteq> [] \<and> TrimSpace (au_TargetVersion rec) = target)
         (\<lambda>rec. rec\<lparr>au_State := AutoUpdateStateApplying, au_Error := []\<rparr>)
      (removed_or path
      (bindU nowU (\<lambda>_.
       if target \<noteq> [] \<and> \<not> targetVersionRx target then
         finallyU (failU ErrInvalidTargetVersion)
           (finish_apply path (base\<lparr>as_Error := err_text ErrInvalidTargetVersion\<rparr>))
       else bindU (drawU (\<lambda>v n. ue_apply v n req)) (\<lambda>(toVersion, rollback, err).
         finallyU
           (case err of
              Some e \<Rightarrow> update_auto (\<lambda>rec. target \<noteq> [] \<and> TrimSpace (au_TargetVersion rec) = target)
                (\<lambda>rec. rec\<lparr>au_State := AutoUpdateStateFailed, au_Error := err_text e\<rparr>) (failU e)
            | None \<Rightarrow> update_auto (\<lambda>rec. TrimSpace (au_TargetVersion rec) \<noteq> []
                  \<and> TrimSpace (au_TargetVersion rec) = TrimSpace toVersion)
                (\<lambda>rec. auto_record AutoUpdateStateIdle) (ignoreU (MarkSuccess toVersion) (retU ())))
           (finish_apply path (outcome toVersion rollback err base)))))))))))"

definition run_request :: "reqpath \<Rightarrow> ApplyRequest \<Rightarrow> unit U" where
  "run_request path req0 =
     bindU (if TrimSpace (ar_RequestID req0) = [] then bindU nowU (\<lambda>t. retU (''update-'' @ unix_seconds t))
            else retU (ar_RequestID req0)) (\<lambda>requestID.
     bindU (case ar_RequestedAt req0 of None \<Rightarrow> bindU nowU (\<lambda>t. retU (Some t)) | Some t \<Rightarrow> retU (Some t)) (\<lambda>at.
     let req = req0\<lparr>ar_RequestID := requestID, ar_RequestedAt := at, ar_Mode := normalizeApplyMode (ar_Mode req0)\<rparr> in
     if ar_Mode req = ApplyModePrepare then run_prepare path req else run_apply path req))"

definition work_queue :: "unit U" where
  "work_queue = tryU firstPendingRequestPath (\<lambda>r. case r of
     Inl e \<Rightarrow> if e = NotExist then retU () else failU e
   | Inr path \<Rightarrow> tryU (readJSONFile (get_request path)) (\<lambda>q. case q of
       Inl e \<Rightarrow> if e = NotExist then retU () else if e = InvalidPayload then discard_request path else failU e
     | Inr req \<Rightarrow> run_request path req))"

definition runWorker :: "unit U" where
  "runWorker =
     bindU (askU (\<lambda>v. UpdateEnabled (cfg (ue_svc v)))) (\<lambda>on.
     if \<not> on then ignoreU removePendingRequestPaths (retU ())
     else bindU ensureUpdaterRuntimeDirectories (\<lambda>_.
     bindU lock_worker (\<lambda>locked.
     if \<not> locked then retU () else finallyU work_queue unlock_worker)))"

end
