(* ===== verification/UpdateSafety.thy ===== *)
theory UpdateSafety
  imports UpdateWorker
begin

text \<open>
  What the updater keeps.  An invariant of the files that other processes keep too is kept by every
  operation built from operations that keep it: the locale \<open>files_invariant\<close> proves this once, as rules
  for the operations of the manager, and each invariant is an interpretation.
\<close>

section \<open>Invariants of the files\<close>

named_theorems inv_intros \<open>operations that keep an invariant of the files\<close>

definition upholds :: "uenv \<Rightarrow> (files \<Rightarrow> bool) \<Rightarrow> 'a U \<Rightarrow> ('a \<Rightarrow> bool) \<Rightarrow> bool" where
  "upholds v I m Q \<longleftrightarrow> (\<forall>s. I (us_files s) \<longrightarrow>
     I (us_files (snd (m v s))) \<and> (\<forall>x. fst (m v s) = Inr x \<longrightarrow> Q x))"

locale files_invariant =
  fixes v :: uenv and I :: "files \<Rightarrow> bool"
  assumes others_keep: "I fs \<Longrightarrow> I (ue_others v n fs)"
begin

abbreviation H :: "'a U \<Rightarrow> ('a \<Rightarrow> bool) \<Rightarrow> bool" where "H \<equiv> upholds v I"

lemma H_ret [inv_intros]: "Q x \<Longrightarrow> H (retU x) Q"
  by (simp add: upholds_def retU_def)

lemma H_fail [inv_intros]: "H (failU e) Q"
  by (simp add: upholds_def failU_def)

lemma H_ask [inv_intros]: "Q (f v) \<Longrightarrow> H (askU f) Q"
  by (simp add: upholds_def askU_def)

lemma H_draw [inv_intros]: "H (drawU f) (\<lambda>_. True)"
  by (simp add: upholds_def drawU_def)

lemma H_store [inv_intros]: "H (store m) (\<lambda>_. True)"
  by (simp add: upholds_def store_def split: prod.split sum.split)

lemma H_try:
  assumes "H m Q'" "\<And>e. H (k (Inl e)) Q" "\<And>x. Q' x \<Longrightarrow> H (k (Inr x)) Q"
  shows "H (tryU m k) Q"
proof -
  have "I (us_files (snd (tryU m k v s))) \<and> (\<forall>x. fst (tryU m k v s) = Inr x \<longrightarrow> Q x)" if s: "I (us_files s)" for s
  proof -
    obtain r s1 where m: "m v s = (r, s1)" by force
    then have "I (us_files s1)" "\<And>x. r = Inr x \<Longrightarrow> Q' x" using assms(1) s by (auto simp: upholds_def)
    moreover from this have "H (k r) Q" using assms(2,3) by (cases r) auto
    ultimately show ?thesis by (auto simp: tryU_def m upholds_def)
  qed
  then show ?thesis by (simp add: upholds_def)
qed

lemma H_bind: "H m Q' \<Longrightarrow> (\<And>x. Q' x \<Longrightarrow> H (k x) Q) \<Longrightarrow> H (bindU m k) Q"
  unfolding bindU_def by (erule H_try) (simp_all add: H_fail)

lemma H_bindT [inv_intros]: "H m (\<lambda>_. True) \<Longrightarrow> (\<And>x. H (k x) Q) \<Longrightarrow> H (bindU m k) Q"
  by (erule H_bind)

lemma H_tryT [inv_intros]: "H m (\<lambda>_. True) \<Longrightarrow> (\<And>r. H (k r) Q) \<Longrightarrow> H (tryU m k) Q"
  by (erule H_try)

lemma H_ignore [inv_intros]: "H m (\<lambda>_. True) \<Longrightarrow> H k Q \<Longrightarrow> H (ignoreU m k) Q"
  unfolding ignoreU_def by (erule H_try)

lemma H_mapErr [inv_intros]: "H m Q \<Longrightarrow> H (mapErrU f m) Q"
  unfolding mapErrU_def by (erule H_try) (simp_all add: H_fail H_ret)

lemma H_finally [inv_intros]:
  assumes "H m Q" "H k (\<lambda>_. True)"
  shows "H (finallyU m k) Q"
  using assms by (auto simp: upholds_def finallyU_def split: prod.split)

lemma H_weaken: "H m Q \<Longrightarrow> (\<And>x. Q x \<Longrightarrow> Q' x) \<Longrightarrow> H m Q'"
  by (simp add: upholds_def)

lemma H_if [inv_intros]: "(b \<Longrightarrow> H m Q) \<Longrightarrow> (\<not> b \<Longrightarrow> H m' Q) \<Longrightarrow> H (if b then m else m') Q"
  by simp

lemma H_option [inv_intros]:
  "(x = None \<Longrightarrow> H m Q) \<Longrightarrow> (\<And>y. x = Some y \<Longrightarrow> H (f y) Q) \<Longrightarrow> H (case x of None \<Rightarrow> m | Some y \<Rightarrow> f y) Q"
  by (cases x) simp_all

lemma H_sum [inv_intros]:
  "(\<And>e. x = Inl e \<Longrightarrow> H (f e) Q) \<Longrightarrow> (\<And>y. x = Inr y \<Longrightarrow> H (g y) Q) \<Longrightarrow> H (case x of Inl e \<Rightarrow> f e | Inr y \<Rightarrow> g y) Q"
  by (cases x) simp_all

lemma H_prod [inv_intros]: "(\<And>a b. x = (a, b) \<Longrightarrow> H (f a b) Q) \<Longrightarrow> H (case x of (a, b) \<Rightarrow> f a b) Q"
  by (cases x) simp

lemma H_list [inv_intros]:
  "(x = [] \<Longrightarrow> H m Q) \<Longrightarrow> (\<And>y ys. x = y # ys \<Longrightarrow> H (f y ys) Q) \<Longrightarrow> H (case x of [] \<Rightarrow> m | y # ys \<Rightarrow> f y ys) Q"
  by (cases x) simp_all

lemma H_fileop:
  assumes "\<And>fs fs' x. I fs \<Longrightarrow> f fs = Inr (fs', x) \<Longrightarrow> I fs' \<and> Q x"
  shows "H (fileop f) Q"
proof -
  have "I (us_files (snd (fileop f v s))) \<and> (\<forall>x. fst (fileop f v s) = Inr x \<longrightarrow> Q x)" if "I (us_files s)" for s
    using that others_keep [OF that] assms
    by (auto simp: fileop_def Let_def split: option.splits sum.splits prod.splits)
  then show ?thesis by (simp add: upholds_def)
qed

lemma H_read [inv_intros]: "H (readJSONFile get) (\<lambda>_. True)"
  unfolding readJSONFile_def by (rule H_fileop) (auto split: slot.splits)

lemma H_read_only [inv_intros]: "H (fileop (\<lambda>fs. Inr (fs, f fs))) (\<lambda>_. True)"
  by (rule H_fileop) simp

lemma reads_uphold [inv_intros]:
  "H readApplyStatus (\<lambda>_. True)" "H readAutoUpdateState (\<lambda>_. True)" "H readApplyStatusTolerant (\<lambda>_. True)"
  "H pendingRequestPaths (\<lambda>_. True)" "H firstPendingRequestPath (\<lambda>_. True)" "H ensureDespatchReadable (\<lambda>_. True)"
  "H ensureUpdaterRequestStatusDirectories (\<lambda>_. True)" "H (statU sp) (\<lambda>_. True)"
  "H (checkWritablePath sp stg) (\<lambda>_. True)" "H (configurationStatus rt) (\<lambda>_. True)" "H (getSettingU key) (\<lambda>_. True)"
  "H shouldRefresh (\<lambda>_. True)" "H autoUpdateEnabled (\<lambda>_. True)" "H read_auto_tolerant (\<lambda>_. True)"
  "H (requestQueuePath req) (\<lambda>_. True)" "H (staleQueuedApplyStatus rt cur) (\<lambda>_. True)"
  unfolding readApplyStatus_def readAutoUpdateState_def readApplyStatusTolerant_def pendingRequestPaths_def
    firstPendingRequestPath_def ensureDespatchReadable_def ensureUpdaterRequestStatusDirectories_def statU_def
    checkWritablePath_def configurationStatus_def getSettingU_def shouldRefresh_def autoUpdateEnabled_def
    read_auto_tolerant_def requestQueuePath_def staleQueuedApplyStatus_def Let_def
  by (rule inv_intros TrueI)+

lemma H_read_requests [inv_intros]: "H (read_requests ps) (\<lambda>_. True)"
proof (induction ps)
  case (Cons p ps)
  show ?case unfolding read_requests.simps Let_def by (rule inv_intros Cons TrueI)+
qed (simp add: H_ret)

lemma H_pending [inv_intros]: "H pendingRequests (\<lambda>_. True)"
  unfolding pendingRequests_def by (rule inv_intros)+

lemma H_set_setting [inv_intros]: "H k Q \<Longrightarrow> H (set_setting key val k) Q"
  unfolding set_setting_def by (rule H_ignore H_store)+

lemma H_refresh [inv_intros]: "H refreshLatest (\<lambda>_. True)"
  unfolding refreshLatest_def by (rule inv_intros TrueI)+

lemma H_mark [inv_intros]: "H (MarkSuccess ver) (\<lambda>_. True)"
  unfolding MarkSuccess_def by (rule inv_intros TrueI)+

lemma H_stale_prepares [inv_intros]: "H (stale_prepares rec ps) (\<lambda>_. True)"
proof (induction ps)
  case (Cons a ps)
  obtain p req where a: "a = (p, req)" by force
  show ?case unfolding a stale_prepares.simps by (rule inv_intros Cons TrueI)+
qed (simp add: H_ret)

end

section \<open>A status that is neither idle nor queued\<close>

text \<open>What the manager may do to the files whatever the status says: change the record of automatic updates,
  remove requests, queue a request to prepare.  The status itself is fixed.\<close>

locale settled_status = files_invariant +
  fixes st :: ApplyStatus
  assumes I_auto: "I fs \<Longrightarrow> I (fs\<lparr>f_auto := d\<rparr>)"
    and I_remove: "I fs \<Longrightarrow> I (set_request p Absent fs)"
    and I_prepare: "I fs \<Longrightarrow> ar_Mode req = ApplyModePrepare \<Longrightarrow> I (set_request p (Doc req) fs)"
    and I_status: "I fs \<Longrightarrow> f_status fs = Doc st"
    and settled: "as_State st \<notin> {[], ApplyStateIdle, ApplyStateQueued}"
    and readable: "ue_fault v n \<notin> {Some Permission, Some NotExist}"
begin

lemma settledD: "as_State st \<noteq> []" "as_State st \<noteq> ApplyStateIdle" "as_State st \<noteq> ApplyStateQueued"
  using settled by simp_all

lemma H_write_auto [inv_intros]: "H (write_auto rec) (\<lambda>_. True)"
  unfolding writeJSONAtomic_def using I_auto by (intro H_fileop) (auto split: slot.splits)

lemma H_save_auto [inv_intros]: "H (save_auto rec) (\<lambda>_. True)" "H (writeAutoUpdateState rec) (\<lambda>_. True)"
  unfolding save_auto_def writeAutoUpdateState_def Let_def by (rule inv_intros TrueI)+

lemma H_remove [inv_intros]: "H (remove_request p) (\<lambda>_. True)"
  unfolding remove_request_def using I_remove by (intro H_fileop) (auto split: if_splits)

lemma H_remove_all [inv_intros]: "H (remove_all ps) (\<lambda>_. True)"
proof (induction ps)
  case (Cons p ps)
  then show ?case unfolding remove_all.simps by (intro inv_intros TrueI)
qed (simp add: H_ret)

lemma H_recover_prepare [inv_intros]: "H (recoverStaleAutoPrepare rt) (\<lambda>_. True)"
  unfolding recoverStaleAutoPrepare_def by (rule inv_intros TrueI)+

lemma H_write_prepare: "ar_Mode req = ApplyModePrepare \<Longrightarrow> H (write_request p req) (\<lambda>_. True)"
  unfolding write_request_def writeJSONAtomic_def using I_prepare
  by (intro H_fileop) (auto split: slot.splits)

lemma read_status:
  assumes "I (us_files s)" "fst (readApplyStatusTolerant v s) = Inr x"
  shows "x = st"
proof -
  have "f_status (ue_others v n (us_files s)) = Doc st" for n using assms(1) I_status others_keep by blast
  then show ?thesis using assms(2) settled readable [of "w_n (us_world s)"]
    by (auto simp: readApplyStatusTolerant_def readApplyStatus_def readJSONFile_def fileop_def tryU_def
        retU_def failU_def isUpdaterPermissionError_def apply_states split: option.splits sum.splits slot.splits if_splits)
qed

lemma H_read_tolerant: "H readApplyStatusTolerant (\<lambda>x. x = st)"
  using reads_uphold(3) read_status by (auto simp: upholds_def)

lemma stale_settled: "as_State x = as_State st \<Longrightarrow> staleQueuedApplyStatus rt x = retU x"
  using settled by (simp add: staleQueuedApplyStatus_def)

lemma H_recover_queued: "H (recoverStaleQueuedApply rt st) (\<lambda>x. x = st)"
  by (simp add: recoverStaleQueuedApply_def stale_settled bindU_def tryU_def retU_def upholds_def)

lemma bind_status: "H (k st) Q \<Longrightarrow> H (bindU readApplyStatusTolerant k) Q"
  by (rule H_bind [OF H_read_tolerant]) simp

lemma bind_status_failed: "H (k st) Q \<Longrightarrow> H (bindU (request_failed readApplyStatusTolerant) k) Q"
  unfolding request_failed_def by (rule H_bind [OF H_mapErr [OF H_read_tolerant]]) simp

lemma bind_recover: "H (k st) Q \<Longrightarrow> H (bindU (request_failed (recoverStaleQueuedApply rt st)) k) Q"
  unfolding request_failed_def by (rule H_bind [OF H_mapErr [OF H_recover_queued]]) simp

lemma bind_stale: "H (k st) Q \<Longrightarrow> H (bindU (staleQueuedApplyStatus rt st) k) Q"
  by (simp add: stale_settled bindU_def tryU_def retU_def)

lemma H_request_failed [inv_intros]: "H m Q \<Longrightarrow> H (request_failed m) Q"
  unfolding request_failed_def by (rule H_mapErr)

lemma H_bool [inv_intros]: "H m Q \<Longrightarrow> H m' Q \<Longrightarrow> H (case b of True \<Rightarrow> m | False \<Rightarrow> m') Q"
  by (cases b) simp_all

lemma try_not_idle:
  "H (k (Inr [])) Q \<Longrightarrow> H (tryU (if as_State st = ApplyStateIdle \<and> c then pendingRequests else retU []) k) Q"
  using settled by (simp add: tryU_def retU_def)

lemma ret_status: "H (retU (r\<lparr>sr_Apply := st, sr_AutoUpdate := a\<rparr>)) (\<lambda>r. sr_Apply r = st)"
  by (simp add: H_ret)

lemmas status_binds = bind_status bind_status_failed bind_recover bind_stale try_not_idle

lemma H_Status: "H (Status force) (\<lambda>r. sr_Apply r = st)"
  unfolding Status_def Let_def
  by (rule status_binds inv_intros TrueI | (simp add: settledD; fail))+

lemma H_queue_prepare:
  assumes "normalizeApplyMode mode = ApplyModePrepare"
  shows "H (queueRequest who target i mode) (\<lambda>_. True)"
  unfolding queueRequest_def Let_def assms
  by (rule status_binds inv_intros H_write_prepare TrueI | (simp add: apply_modes; fail))+

lemma H_tick_release:
  assumes "applyState \<noteq> ApplyStateIdle"
  shows "H (tick_release applyState tag rec) (\<lambda>_. True)"
proof -
  have "H (queueRequest who target i ApplyModePrepare) (\<lambda>_. True)" for who target i
    by (rule H_queue_prepare) (code_simp)
  then show ?thesis
    unfolding tick_release_def Let_def using assms
    by (intro inv_intros TrueI) simp_all
qed

lemma H_AutomaticTick: "H AutomaticTick (\<lambda>_. True)"
proof -
  have rel: "H (tick_release (as_State st) tag rec) (\<lambda>_. True)" for tag rec
    by (intro H_tick_release settledD)
  have bind: "H (bindU (Status force) k) Q" if "\<And>r. sr_Apply r = st \<Longrightarrow> H (k r) Q" for force k and Q :: "unit \<Rightarrow> bool"
    using that by (rule H_bind [OF H_Status])
  show ?thesis unfolding AutomaticTick_def Let_def
    by (rule bind rel inv_intros TrueI | (simp add: rel; fail))+
qed

end

section \<open>Requests by path\<close>

lemma map_of_insort: "n \<notin> fst ` set q \<Longrightarrow> map_of (insort_key fst (n, d) q) = (map_of q)(n \<mapsto> d)"
  by (induction q) (auto simp: fun_eq_iff)

lemma map_of_filter_key: "map_of (filter (\<lambda>p. fst p \<noteq> n) q) = (map_of q)(n := None)"
  by (induction q) (auto simp: fun_eq_iff)

lemma get_set_request [simp]: "get_request q (set_request p d fs) = (if q = p then d else get_request q fs)"
proof -
  have n: "n \<notin> fst ` set (filter (\<lambda>p. fst p \<noteq> n) qs)" for n and qs :: "(string \<times> ApplyRequest slot) list"
    by auto
  show ?thesis
    by (cases p; cases q) (auto simp: map_of_insort [OF n] map_of_filter_key split: option.split)
qed

lemma set_request_other [simp]:
  "f_status (set_request p d fs) = f_status fs" "f_auto (set_request p d fs) = f_auto fs"
  "f_locked (set_request p d fs) = f_locked fs"
  by (cases p; simp)+

lemma get_request_other [simp]:
  "get_request p (fs\<lparr>f_auto := a\<rparr>) = get_request p fs" "get_request p (fs\<lparr>f_status := b\<rparr>) = get_request p fs"
  "get_request p (fs\<lparr>f_locked := c\<rparr>) = get_request p fs"
  by (cases p; simp)+

text \<open>The pending requests that ask for an application.\<close>

definition apply_requests :: "files \<Rightarrow> (reqpath \<times> ApplyRequest) set" where
  "apply_requests fs = {(p, r). get_request p fs = Doc r \<and> ar_Mode r \<noteq> ApplyModePrepare}"

definition settled_files :: "ApplyStatus \<Rightarrow> (reqpath \<times> ApplyRequest) set \<Rightarrow> files \<Rightarrow> bool" where
  "settled_files st A fs \<longleftrightarrow> f_status fs = Doc st \<and> apply_requests fs \<subseteq> A"

text \<open>An environment in which no other process touches the files and a file that is there can be read.\<close>

definition steady :: "uenv \<Rightarrow> uenv" where
  "steady v = v\<lparr>ue_others := \<lambda>n fs. fs,
     ue_fault := \<lambda>n. if ue_fault v n \<in> {Some Permission, Some NotExist} then None else ue_fault v n\<rparr>"

lemma steady_id:
  assumes "\<And>n fs. ue_others v n fs = fs" "\<And>n. ue_fault v n \<notin> {Some Permission, Some NotExist}"
  shows "steady v = v"
proof -
  have "ue_others v = (\<lambda>n fs. fs)" using assms(1) by blast
  moreover have "(\<lambda>n. if ue_fault v n \<in> {Some Permission, Some NotExist} then None else ue_fault v n) = ue_fault v"
    using assms(2) by auto
  ultimately have "steady v = v\<lparr>ue_others := ue_others v, ue_fault := ue_fault v\<rparr>"
    unfolding steady_def by presburger
  then show ?thesis by simp
qed

lemma settled_files_laws:
  "settled_files st A fs \<Longrightarrow> settled_files st A (fs\<lparr>f_auto := d\<rparr>)"
  "settled_files st A fs \<Longrightarrow> settled_files st A (set_request p Absent fs)"
  "settled_files st A fs \<Longrightarrow> ar_Mode req = ApplyModePrepare \<Longrightarrow> settled_files st A (set_request p (Doc req) fs)"
  by (auto simp: settled_files_def apply_requests_def split: if_splits)

interpretation completed: settled_status "steady v" "settled_files (st\<lparr>as_State := ApplyStateCompleted\<rparr>) A"
  "st\<lparr>as_State := ApplyStateCompleted\<rparr>" for v st A
  by unfold_locales
    (simp_all add: settled_files_laws, auto simp: steady_def settled_files_def apply_states)

definition crash_files :: "ApplyStatus \<Rightarrow> files \<Rightarrow> bool" where
  "crash_files st fs \<longleftrightarrow> settled_files (st\<lparr>as_State := ApplyStateInProgress\<rparr>) UNIV fs \<and> f_locked fs"

interpretation crashed: settled_status "steady v" "crash_files st" "st\<lparr>as_State := ApplyStateInProgress\<rparr>" for v st
  by unfold_locales
    (simp_all add: crash_files_def settled_files_laws, auto simp: steady_def settled_files_def apply_states)

section \<open>Automatic updates after the first one\<close>

fun ticks :: "nat \<Rightarrow> uenv \<Rightarrow> ustate \<Rightarrow> ustate" where
  "ticks 0 v s = s"
| "ticks (Suc k) v s = ticks k v (snd (AutomaticTick v s))"

text \<open>C31: Once an update has completed, no number of automatic ticks applies another one, as long as nobody else writes
  the files and no file operation fails with a permission error or reports a file that is there as missing (a status
  that cannot be read so counts as idle): the status file keeps saying \<open>completed\<close>, which the tick that finds a scheduled
  release due does not accept as idle, so it queues no request to apply, however much time passes,
  whatever releases appear and whatever other errors the file operations have.\<close>

theorem automatic_updates_stop:
  assumes "\<And>n fs. ue_others v n fs = fs" "\<And>n. ue_fault v n \<notin> {Some Permission, Some NotExist}"
    and "f_status (us_files s) = Doc st" "as_State st = ApplyStateCompleted"
  shows "f_status (us_files (ticks k v s)) = Doc st
         \<and> apply_requests (us_files (ticks k v s)) \<subseteq> apply_requests (us_files s)"
proof -
  let ?A = "apply_requests (us_files s)"
  have st: "st\<lparr>as_State := ApplyStateCompleted\<rparr> = st" using assms(4) by simp
  have "settled_files st ?A (us_files (ticks k v s'))" if "settled_files st ?A (us_files s')" for s'
    using that
  proof (induction k arbitrary: s')
    case (Suc k)
    then show ?case
      using completed.H_AutomaticTick [of v st ?A, unfolded st steady_id [OF assms(1,2)]]
      by (auto simp: upholds_def)
  qed simp
  moreover have "settled_files st ?A (us_files s)" using assms(3) by (simp add: settled_files_def)
  ultimately show ?thesis by (auto simp: settled_files_def)
qed

text \<open>A release that is due, on a server with and without a finished update behind it.\<close>

definition demo_unit :: systemdUnitState where
  "demo_unit = \<lparr>un_LoadState = ''loaded'', un_ActiveState = ''active'', un_SubState = [], un_Result = []\<rparr>"

definition demo_env :: uenv where
  "demo_env = \<lparr>ue_svc = demo_svc\<lparr>cfg := demo_cfg\<lparr>UpdateEnabled := True\<rparr>\<rparr>, ue_fault = (\<lambda>_. None), ue_others = (\<lambda>_ fs. fs),
     ue_probe = (\<lambda>_. \<lparr>rt_PathUnit = demo_unit, rt_ServiceUnit = demo_unit, rt_ServiceExecPath = ''w'',
       rt_ServiceExecExists = True, rt_ProbeErr = None\<rparr>),
     ue_stat = (\<lambda>_ _. Inr \<lparr>fi_IsDir = True, fi_Perm = 0, fi_Uid = 0, fi_Gid = 0\<rparr>), ue_mtime = (\<lambda>_ _. None),
     ue_euid = 0, ue_egid = 0, ue_groups = None,
     ue_latest = (\<lambda>_ _. Inr (\<lparr>rel_TagName = ''v2'', rel_Name = [], rel_PublishedAt = None, rel_HTMLURL = []\<rparr>, [], False)),
     ue_prepare = (\<lambda>_ _. Inr ''v2''), ue_apply = (\<lambda>_ _. (''v2'', False, None)), ue_version = ''v1'', ue_offset = 0,
     parse3339 = (\<lambda>_. Some time_Hour), ue_check_interval_min = 60\<rparr>"

text \<open>A database in which the latest release is known.\<close>

definition known_world :: world where
  "known_world = demo_world\<lparr>w_db := empty_db\<lparr>settings :=
     [\<lparr>set_Key = ''update_last_check_at'', set_Value = ''t'', set_UpdatedAt = 0\<rparr>,
      \<lparr>set_Key = ''update_latest_tag'', set_Value = ''v2'', set_UpdatedAt = 0\<rparr>]\<rparr>\<rparr>"

definition due_state :: "ApplyStatus slot \<Rightarrow> ustate" where
  "due_state st = \<lparr>us_files = \<lparr>f_auto = Doc ((auto_record AutoUpdateStateScheduled)\<lparr>au_TargetVersion := ''v2'',
       au_ScheduledFor := Some 0\<rparr>), f_status = st, f_legacy = Absent, f_queue = [], f_locked = False\<rparr>,
     us_world = known_world\<rparr>"

theorem automatic_updates_stop_witness:
  "length (f_queue (us_files (ticks 1 demo_env (due_state Absent)))) = 1
   \<and> f_status (us_files (ticks 5 demo_env (due_state (Doc (apply_status ApplyStateCompleted))))) = Doc (apply_status ApplyStateCompleted)
   \<and> apply_requests (us_files (ticks 5 demo_env (due_state (Doc (apply_status ApplyStateCompleted))))) = {}"
proof -
  let ?s = "due_state (Doc (apply_status ApplyStateCompleted))"
  have "apply_requests (us_files ?s) = {}"
    by (auto simp: apply_requests_def due_state_def elim!: get_request.elims)
  moreover have "length (f_queue (us_files (ticks 1 demo_env (due_state Absent)))) = 1" by code_simp
  moreover have "f_status (us_files (ticks 5 demo_env ?s)) = Doc (apply_status ApplyStateCompleted)
      \<and> apply_requests (us_files (ticks 5 demo_env ?s)) \<subseteq> apply_requests (us_files ?s)"
    by (rule automatic_updates_stop) (simp_all add: demo_env_def due_state_def apply_status_def)
  ultimately show ?thesis by simp
qed

section \<open>A worker that was killed\<close>

context settled_status
begin

lemma H_queue_busy:
  assumes "as_State st = ApplyStateInProgress"
  shows "H (queueRequest who target i mode) (\<lambda>_. False)"
  unfolding queueRequest_def Let_def
  by (rule status_binds inv_intros TrueI | (simp add: assms; fail))+

lemma H_settings [inv_intros]:
  "H (SetAutomaticEnabled who b) (\<lambda>_. True)" "H (CancelScheduledUpdate who) (\<lambda>_. True)"
  unfolding SetAutomaticEnabled_def CancelScheduledUpdate_def PersistAutomaticPreference_def Let_def
  by (rule inv_intros TrueI)+

end

text \<open>Everything the server and the worker do.\<close>

datatype uop =
    DoStatus bool | DoQueueApply string string string | DoTick | DoSetAutomatic string bool | DoCancel string | DoWorker

fun perform :: "uop \<Rightarrow> uenv \<Rightarrow> ustate \<Rightarrow> ustate" where
  "perform (DoStatus force) v s = snd (Status force v s)"
| "perform (DoQueueApply who target i) v s = snd (QueueApply who target i v s)"
| "perform DoTick v s = snd (AutomaticTick v s)"
| "perform (DoSetAutomatic who b) v s = snd (SetAutomaticEnabled who b v s)"
| "perform (DoCancel who) v s = snd (CancelScheduledUpdate who v s)"
| "perform DoWorker v s = snd (runWorker v s)"

fun perform_all :: "uop list \<Rightarrow> uenv \<Rightarrow> ustate \<Rightarrow> ustate" where
  "perform_all [] v s = s"
| "perform_all (x # xs) v s = perform_all xs v (perform x v s)"

lemma crash_worker: "upholds (steady v) (crash_files st) runWorker (\<lambda>_. True)"
proof -
  have "upholds (steady v) (crash_files st) lock_worker Not"
    unfolding lock_worker_def by (rule crashed.H_fileop) (auto simp: crash_files_def split: if_splits)
  then have lock: "upholds (steady v) (crash_files st) (bindU lock_worker (\<lambda>l. if \<not> l then retU () else m)) (\<lambda>_. True)"
    for m :: "unit U" by (rule crashed.H_bind) (simp add: crashed.H_ret)
  show ?thesis unfolding runWorker_def ensureUpdaterRuntimeDirectories_def removePendingRequestPaths_def
    by (rule lock crashed.H_bindT crashed.H_if crashed.H_ask crashed.H_ignore crashed.H_read_only crashed.H_ret
        crashed.reads_uphold crashed.H_remove_all TrueI)+
qed

lemma crash_perform:
  assumes "crash_files st (us_files s)"
  shows "crash_files st (us_files (perform x (steady v) s))"
proof -
  have q: "upholds (steady v) (crash_files st) (queueRequest who target i mode) (\<lambda>_. False)" for who target i mode
    by (rule crashed.H_queue_busy) simp
  show ?thesis
    using assms crashed.H_Status crashed.H_AutomaticTick crashed.H_settings crash_worker q
    by (cases x) (fastforce simp: upholds_def QueueApply_def)+
qed

text \<open>C32: A worker that is killed while it applies an update blocks updates until the files are repaired by
  hand: as long as nobody else writes the files and no file operation fails with a permission error or reports
  a file that is there as missing (a status that cannot be read so counts as idle), the lock file and the status
  \<open>in_progress\<close> stay, whatever the server and later runs of the worker do, however much time passes and
  whatever other errors there are, and every request to apply is refused.\<close>

theorem killed_worker_blocks_updates:
  assumes "\<And>n fs. ue_others v n fs = fs" "\<And>n. ue_fault v n \<notin> {Some Permission, Some NotExist}"
    and "f_locked (us_files s)" "f_status (us_files s) = Doc st" "as_State st = ApplyStateInProgress"
  shows "f_locked (us_files (perform_all ops v s)) \<and> f_status (us_files (perform_all ops v s)) = Doc st
         \<and> isl (fst (QueueApply who target i v (perform_all ops v s)))"
proof -
  have st: "st\<lparr>as_State := ApplyStateInProgress\<rparr> = st" using assms(5) by simp
  have v: "steady v = v" using assms(1,2) by (rule steady_id)
  have c: "crash_files st (us_files (perform_all ops v s'))" if "crash_files st (us_files s')" for s'
    using that crash_perform [where v = v, unfolded v] by (induction ops arbitrary: s') auto
  have "crash_files st (us_files s)" using assms(3,4) st by (simp add: crash_files_def settled_files_def)
  from c [OF this] have e: "crash_files st (us_files (perform_all ops v s))" .
  have "upholds v (crash_files st) (QueueApply who target i) (\<lambda>_. False)"
    using crashed.H_queue_busy [of st v] by (simp add: v QueueApply_def)
  then have "isl (fst (QueueApply who target i v (perform_all ops v s)))"
    using e by (auto simp: upholds_def) (metis isl_def old.sum.exhaust)
  then show ?thesis using e st by (simp add: crash_files_def settled_files_def)
qed

theorem killed_worker_blocks_updates_witness:
  "let s = \<lparr>us_files = (us_files (due_state (Doc (apply_status ApplyStateInProgress))))\<lparr>f_locked := True\<rparr>, us_world = demo_world\<rparr>;
       s' = perform_all [DoWorker, DoStatus True, DoTick, DoWorker] demo_env s in
     f_locked (us_files s') \<and> isl (fst (QueueApply ''root'' ''v2'' [] demo_env s'))"
  using killed_worker_blocks_updates
    [of demo_env "\<lparr>us_files = (us_files (due_state (Doc (apply_status ApplyStateInProgress))))\<lparr>f_locked := True\<rparr>, us_world = demo_world\<rparr>"
      "apply_status ApplyStateInProgress" "[DoWorker, DoStatus True, DoTick, DoWorker]" "''root''" "''v2''" "[]"]
  by (simp add: demo_env_def due_state_def apply_status_def)

section \<open>One request at a time\<close>

lemma bindU_Inr: "bindU m k v s = (Inr y, s') \<longleftrightarrow> (\<exists>x s1. m v s = (Inr x, s1) \<and> k x v s1 = (Inr y, s'))"
  by (auto simp: bindU_def tryU_def failU_def split: prod.splits sum.splits)

lemma retU_Inr: "retU x v s = (Inr y, s') \<longleftrightarrow> y = x \<and> s' = s"
  by (auto simp: retU_def)

lemma failU_Inr: "failU e v s = (Inr y, s') \<longleftrightarrow> False"
  by (simp add: failU_def)

lemma request_failed_Inr: "request_failed m v s = (Inr y, s') \<longleftrightarrow> m v s = (Inr y, s')"
  by (auto simp: request_failed_def mapErrU_def tryU_def failU_def retU_def split: prod.splits sum.splits)

lemma store_Inr:
  "store m v s = (Inr y, s') \<longleftrightarrow> (\<exists>w. m (ue_svc v) (us_world s) = (Inr y, w) \<and> s' = s\<lparr>us_world := w\<rparr>)"
  by (auto simp: store_def split: prod.splits sum.splits)

lemma fileop_Inr:
  "fileop f v s = (Inr y, s') \<longleftrightarrow>
     (\<exists>fs'. ue_fault v (w_n (us_world s)) = None \<and> f (ue_others v (w_n (us_world s)) (us_files s)) = Inr (fs', y)
        \<and> s' = \<lparr>us_files = fs', us_world = (us_world s)\<lparr>w_n := Suc (w_n (us_world s))\<rparr>\<rparr>)"
  by (auto simp: fileop_def split: option.splits sum.splits)

lemmas uruns = bindU_Inr retU_Inr failU_Inr request_failed_Inr store_Inr fileop_Inr

lemma pending_none:
  assumes "\<And>n fs. ue_others v n fs = fs" "pendingRequestPaths v s = (Inr [], s')"
  shows "us_files s' = us_files s" "get_request q (us_files s) = Absent"
  using assms by (cases q; auto simp: pendingRequestPaths_def uruns split: if_splits)+

lemma write_status_Inr:
  "write_status d v s = (Inr y, s') \<Longrightarrow> f_status (us_files s') = Doc d \<and>
     (\<exists>fs. us_files s' = fs\<lparr>f_status := Doc d\<rparr> \<and> fs = ue_others v (w_n (us_world s)) (us_files s))"
  by (auto simp: writeJSONAtomic_def uruns split: slot.splits)

lemma write_request_Inr:
  "write_request p r v s = (Inr y, s') \<Longrightarrow>
     us_files s' = set_request p (Doc r) (ue_others v (w_n (us_world s)) (us_files s))"
  by (auto simp: write_request_def writeJSONAtomic_def uruns split: slot.splits)

text \<open>C30: A request is queued only when none is pending, so that afterwards it is the only one; its target
  is empty or a plain version name; and a request to apply is announced as queued in the status file.
  Nothing else may write the files meanwhile.\<close>

theorem queued_request_alone:
  assumes quiet: "\<And>n fs. ue_others v n fs = fs" and q: "queueRequest who target i mode v s = (Inr req, s')"
  shows "(\<exists>p. \<forall>p'. get_request p' (us_files s') = (if p' = p then Doc req else Absent))
     \<and> ar_TargetVersion req = TrimSpace target \<and> ar_Mode req = normalizeApplyMode mode
     \<and> (ar_TargetVersion req \<noteq> [] \<longrightarrow> targetVersionRx (ar_TargetVersion req))
     \<and> (ar_Mode req = ApplyModeApply \<longrightarrow>
          (\<exists>st. f_status (us_files s') = Doc st \<and> as_State st = ApplyStateQueued \<and> as_RequestID st = ar_RequestID req))"
proof -
  let ?m = "normalizeApplyMode mode"
  let ?status = "(apply_status ApplyStateQueued)\<lparr>as_RequestID := ar_RequestID req, as_RequestedAt := ar_RequestedAt req,
    as_TargetVersion := ar_TargetVersion req\<rparr>"
  obtain s1 s2 s3 s4 s5 p now rid where p1: "pendingRequestPaths v s1 = (Inr [], s2)"
    and now: "nowU v s2 = (Inr now, s3)"
    and req: "req = \<lparr>ar_RequestID = rid, ar_RequestedAt = Some now, ar_RequestedBy = TrimSpace who, ar_Mode = ?m,
               ar_TargetVersion = TrimSpace target\<rparr>"
    and rx: "TrimSpace target \<noteq> [] \<longrightarrow> targetVersionRx (TrimSpace target)"
    and dirs: "ensureUpdaterRequestStatusDirectories v s3 = (Inr (), s4)"
    and path: "requestQueuePath req v s4 = (Inr p, s4)" and wr: "write_request p req v s4 = (Inr (), s5)"
    and st: "if ?m = ApplyModeApply then write_status ?status v s5 = (Inr (), s') else s' = s5"
  proof -
    from q show ?thesis
      unfolding queueRequest_def Let_def
      by (auto simp: uruns requestQueuePath_def split: if_splits prod.splits intro!: that)
  qed
  have f: "us_files s4 = us_files s1" "\<And>p'. get_request p' (us_files s1) = Absent"
    using pending_none [OF quiet p1] now dirs
    by (auto simp: uruns ensureUpdaterRequestStatusDirectories_def quiet)
  have r: "get_request p' (us_files s') = (if p' = p then Doc req else Absent)" for p'
    using write_request_Inr [OF wr] st f write_status_Inr [of ?status v s5 "()" s'] by (auto simp: quiet split: if_splits)
  have "\<exists>x. f_status (us_files s') = Doc x \<and> as_State x = ApplyStateQueued \<and> as_RequestID x = ar_RequestID req"
    if "?m = ApplyModeApply"
    using st that write_status_Inr [of ?status v s5 "()" s'] by (auto simp: apply_status_def)
  then show ?thesis using r rx req by auto
qed

definition idle_state :: ustate where
  "idle_state = \<lparr>us_files = \<lparr>f_auto = Absent, f_status = Absent, f_legacy = Absent, f_queue = [], f_locked = False\<rparr>,
     us_world = demo_world\<rparr>"

theorem queued_request_alone_witness:
  "\<exists>req s' p. QueueApply ''root'' '' v2 '' ''r1'' demo_env idle_state = (Inr req, s') \<and> ar_TargetVersion req = ''v2''
     \<and> (\<forall>p'. get_request p' (us_files s') = (if p' = p then Doc req else Absent))"
proof -
  have "\<not> isl (fst (QueueApply ''root'' '' v2 '' ''r1'' demo_env idle_state))" by code_simp
  then obtain req s' where q: "queueRequest ''root'' '' v2 '' ''r1'' ApplyModeApply demo_env idle_state = (Inr req, s')"
    unfolding QueueApply_def using Inr_result by blast
  have "TrimSpace '' v2 '' = ''v2''" by code_simp
  with queued_request_alone [OF _ q] q show ?thesis by (auto simp: demo_env_def QueueApply_def)
qed

section \<open>A cancelled update that comes back\<close>

definition cancelled_state :: ustate where
  "cancelled_state = snd (CancelScheduledUpdate ''root'' demo_env (due_state Absent))"

text \<open>The environment in which the query for the latest release fails.\<close>

definition locked_once :: uenv where
  "locked_once = demo_env\<lparr>ue_svc := (ue_svc demo_env)\<lparr>db_fault := (\<lambda>n. if n = 16 then Some ''database is locked'' else None)\<rparr>\<rparr>"

definition auto_of :: "ustate \<Rightarrow> string \<times> string \<times> string" where
  "auto_of s = (case f_auto (us_files s) of
     Doc r \<Rightarrow> (au_State r, au_TargetVersion r, au_DeferredVersion r) | _ \<Rightarrow> ([], [], []))"

lemma cancelled_stays: "auto_of (ticks 1 demo_env cancelled_state) = (''downloaded'', ''v2'', ''v2'')"
  by code_simp

lemma cancelled_returns: "auto_of (ticks 1 locked_once cancelled_state) = (''idle'', [], [])"
  by code_simp

text \<open>A tick that sees the release of a cancelled update leaves the cancellation alone; but when the query
  for the latest release fails, which the code reads as \<open>no release\<close>, the tick clears the record together
  with the cancellation, so that the release is prepared and scheduled again.\<close>

theorem cancellation_lost_by_failed_query:
  "auto_of (ticks 1 demo_env cancelled_state) = (''downloaded'', ''v2'', ''v2'')
   \<and> auto_of (ticks 1 locked_once cancelled_state) = (''idle'', [], [])"
  using cancelled_stays cancelled_returns by blast

section \<open>The outcome of a run of the worker\<close>

definition calm :: "uenv \<Rightarrow> uenv" where "calm v = v\<lparr>ue_others := \<lambda>n fs. fs, ue_fault := \<lambda>n. None\<rparr>"

lemma calm_id:
  assumes "\<And>n fs. ue_others v n fs = fs" "\<And>n. ue_fault v n = None"
  shows "calm v = v"
proof -
  have "ue_others v = (\<lambda>n fs. fs)" "ue_fault v = (\<lambda>n. None)" using assms by auto
  then have "calm v = v\<lparr>ue_others := ue_others v, ue_fault := ue_fault v\<rparr>" unfolding calm_def by presburger
  then show ?thesis by simp
qed

definition no_link :: "files \<Rightarrow> bool" where "no_link fs \<longleftrightarrow> f_status fs \<noteq> Symlink"

interpretation plain: files_invariant "calm v" no_link for v
  by unfold_locales (simp add: calm_def)

lemma calm_fileop:
  "fileop f (calm v) s = (let s1 = s\<lparr>us_world := (us_world s)\<lparr>w_n := Suc (w_n (us_world s))\<rparr>\<rparr> in
     case f (us_files s) of Inl e \<Rightarrow> (Inl e, s1) | Inr (fs, x) \<Rightarrow> (Inr x, s1\<lparr>us_files := fs\<rparr>))"
  by (cases s) (simp add: fileop_def calm_def split: sum.split)

lemma H_plain_auto [inv_intros]: "upholds (calm v) no_link (write_auto rec) (\<lambda>_. True)"
  unfolding writeJSONAtomic_def by (rule plain.H_fileop) (auto simp: no_link_def split: slot.splits)

lemma H_plain_save: "upholds (calm v) no_link (writeAutoUpdateState rec) (\<lambda>_. True)"
  unfolding writeAutoUpdateState_def Let_def by (rule H_plain_auto plain.H_bindT plain.H_tryT plain.H_sum plain.H_if plain.H_ret plain.H_fail
    plain.reads_uphold TrueI)+

lemma H_plain_status: "upholds (calm v) no_link (write_status st) (\<lambda>_. True)"
  unfolding writeJSONAtomic_def by (rule plain.H_fileop) (auto simp: no_link_def split: slot.splits)

lemma H_plain_remove: "upholds (calm v) no_link (remove_request p) (\<lambda>_. True)"
  unfolding remove_request_def by (rule plain.H_fileop) (auto simp: no_link_def split: if_splits)

lemma upholds_next:
  "upholds v I m Q \<Longrightarrow> I (us_files s) \<Longrightarrow> I (us_files (snd (m v s)))"
  by (simp add: upholds_def)

lemma ignore_run: "ignoreU m k v s = k v (snd (m v s))"
  by (simp add: ignoreU_def tryU_def split: prod.split)

lemma now_run: "\<exists>t s1. bindU nowU k v s = k t v s1 \<and> us_files s1 = us_files s"
proof -
  obtain t s1 where "nowU v s = (Inr t, s1)" "us_files s1 = us_files s"
    by (simp add: store_def time_Now_def)
  then show ?thesis by (auto simp: bindU_def tryU_def)
qed

lemma draw_run: "\<exists>s1. bindU (drawU f) k v s = k (f v (w_n (us_world s))) v s1 \<and> us_files s1 = us_files s"
  by (auto simp: bindU_def tryU_def drawU_def)

lemma ask_run: "bindU (askU f) k v s = k (f v) v s"
  by (simp add: bindU_def tryU_def askU_def)

lemma update_auto_run:
  assumes "no_link (us_files s)"
  shows "\<exists>s1. update_auto P f k (calm v) s = k (calm v) s1 \<and> no_link (us_files s1)"
proof -
  obtain r s1 where r: "readAutoUpdateState (calm v) s = (r, s1)" by force
  then have "no_link (us_files s1)" using upholds_next [OF plain.reads_uphold(2) assms] by (metis snd_conv)
  then show ?thesis using upholds_next [OF H_plain_save]
    by (cases r) (auto simp: update_auto_def tryU_def r ignore_run)
qed

lemma removed_run:
  assumes "no_link (us_files s)"
  shows "\<exists>s1. removed_or p k (calm v) s = k (calm v) s1 \<and> no_link (us_files s1)"
proof -
  have "no_link (us_files (snd (remove_request p (calm v) s)))" by (rule upholds_next [OF H_plain_remove assms])
  then show ?thesis
    by (auto simp: removed_or_def tryU_def remove_request_def calm_fileop split: if_splits)
qed

lemma finish_run:
  assumes "no_link (us_files s)"
  shows "\<exists>at. f_status (us_files (snd (finish_apply path st (calm v) s))) = Doc (st\<lparr>as_FinishedAt := at\<rparr>)"
    and "get_request path (us_files (snd (finish_apply path st (calm v) s))) = Absent"
proof -
  obtain at s1 where n: "finish_apply path st (calm v) s =
      ignoreU (write_status (st\<lparr>as_FinishedAt := Some at\<rparr>))
        (ignoreU ensureDespatchReadable (ignoreU (remove_request path) (retU ()))) (calm v) s1"
    and f: "us_files s1 = us_files s"
    using now_run [of "\<lambda>now. ignoreU (write_status (st\<lparr>as_FinishedAt := Some now\<rparr>))
        (ignoreU ensureDespatchReadable (ignoreU (remove_request path) (retU ())))" "calm v" s]
    unfolding finish_apply_def by blast
  have w: "us_files (snd (write_status d (calm v) s1)) = (us_files s)\<lparr>f_status := Doc d\<rparr>" for d
    using assms f by (auto simp: writeJSONAtomic_def calm_fileop no_link_def split: slot.split)
  show "\<exists>at. f_status (us_files (snd (finish_apply path st (calm v) s))) = Doc (st\<lparr>as_FinishedAt := at\<rparr>)"
    "get_request path (us_files (snd (finish_apply path st (calm v) s))) = Absent"
    unfolding n ignore_run
    by (auto simp: retU_def remove_request_def ensureDespatchReadable_def calm_fileop w split: if_splits)
qed

definition recorded :: "reqpath \<Rightarrow> (uerr + unit) \<times> ustate \<Rightarrow> bool" where
  "recorded path r \<longleftrightarrow> get_request path (us_files (snd r)) = Absent
     \<and> (\<exists>st. f_status (us_files (snd r)) = Doc st
          \<and> as_State st \<in> {ApplyStateCompleted, ApplyStateFailed, ApplyStateRolledBack}
          \<and> (as_State st = ApplyStateCompleted \<longleftrightarrow> fst r = Inr ()))"

lemma recorded_now: "(\<And>t s1. us_files s1 = us_files s \<Longrightarrow> recorded p (k t v s1)) \<Longrightarrow> recorded p (bindU nowU k v s)"
  using now_run [of k v s] by metis

lemma recorded_draw: "(\<And>x s1. us_files s1 = us_files s \<Longrightarrow> recorded p (k x v s1)) \<Longrightarrow> recorded p (bindU (drawU f) k v s)"
  using draw_run [of f k v s] by metis

lemma recorded_auto:
  "no_link (us_files s) \<Longrightarrow> (\<And>s1. no_link (us_files s1) \<Longrightarrow> recorded p (k (calm v) s1))
   \<Longrightarrow> recorded p (update_auto P f k (calm v) s)"
  using update_auto_run [of s P f k v] by metis

lemma recorded_removed:
  "no_link (us_files s) \<Longrightarrow> (\<And>s1. no_link (us_files s1) \<Longrightarrow> recorded p (k (calm v) s1))
   \<Longrightarrow> recorded p (removed_or p k (calm v) s)"
  using removed_run [of s p k v] by metis

lemma finally_run: "finallyU X k v s = (fst (X v s), snd (k v (snd (X v s))))"
  by (simp add: finallyU_def split: prod.split)

lemma recorded_finish:
  assumes "no_link (us_files (snd (X (calm v) s)))"
    and "as_State st \<in> {ApplyStateCompleted, ApplyStateFailed, ApplyStateRolledBack}"
    and "as_State st = ApplyStateCompleted \<longleftrightarrow> fst (X (calm v) s) = Inr ()"
  shows "recorded p (finallyU X (finish_apply p st) (calm v) s)"
proof -
  obtain at where "f_status (us_files (snd (finish_apply p st (calm v) (snd (X (calm v) s))))) = Doc (st\<lparr>as_FinishedAt := at\<rparr>)"
    using finish_run(1) [OF assms(1)] by blast
  then show ?thesis using assms(2,3) finish_run(2) [OF assms(1)] by (simp add: recorded_def finally_run)
qed

lemma status_next: "no_link (us_files s) \<Longrightarrow> no_link (us_files (snd (write_status st (calm v) s)))"
  "no_link (us_files s) \<Longrightarrow> no_link (us_files (snd (ensureDespatchReadable (calm v) s)))"
  by (auto intro: upholds_next [OF H_plain_status] upholds_next [OF plain.reads_uphold(6)])

text \<open>What comes before the final status is written.\<close>

lemma before_finish:
  assumes "no_link (us_files s)"
  shows "no_link (us_files (snd (update_auto P f (failU e :: unit U) (calm v) s)))
         \<and> fst (update_auto P f (failU e :: unit U) (calm v) s) = Inl e"
  using update_auto_run [OF assms, of P f "failU e :: unit U" v] by (auto simp: failU_def)

lemma before_finish_ok:
  assumes "no_link (us_files s)"
  shows "no_link (us_files (snd (update_auto P f (ignoreU (MarkSuccess x) (retU ())) (calm v) s)))
         \<and> fst (update_auto P f (ignoreU (MarkSuccess x) (retU ())) (calm v) s) = Inr ()"
proof -
  obtain s1 where s1: "update_auto P f (ignoreU (MarkSuccess x) (retU ())) (calm v) s
      = ignoreU (MarkSuccess x) (retU ()) (calm v) s1" "no_link (us_files s1)"
    using update_auto_run [OF assms] by blast
  then show ?thesis using upholds_next [OF plain.H_mark s1(2)] by (simp add: ignore_run retU_def)
qed

lemma run_apply_recorded:
  assumes "no_link (us_files s)"
  shows "recorded path (run_apply path req (calm v) s)"
proof -
  have fin: "recorded path (finallyU
       (case err of
          Some e \<Rightarrow> update_auto (P e) (f e) (failU e) | None \<Rightarrow> update_auto P' f' (ignoreU (MarkSuccess x) (retU ())))
       (finish_apply path (outcome x rb err base)) (calm v) s')"
    if "no_link (us_files s')" "as_State base = ApplyStateFailed" for s' err P P' f f' x rb base
    using that before_finish [OF that(1)] before_finish_ok [OF that(1)]
    by (cases err) (auto intro!: recorded_finish simp: outcome_def apply_states)
  have bad: "recorded path (finallyU (failU ErrInvalidTargetVersion) (finish_apply path st) (calm v) s')"
    if "no_link (us_files s')" "as_State st = ApplyStateFailed" for s' st
    using that by (intro recorded_finish) (simp_all add: failU_def apply_states)
  show ?thesis unfolding run_apply_def Let_def
    using assms
    by (intro recorded_now)
      (auto simp: ask_run ignore_run apply_status_def intro!: recorded_auto recorded_removed recorded_now recorded_draw status_next fin bad)
qed

text \<open>C29: While no file operation fails and no other process writes the files, a run of the enabled worker that
  finds no lock, no request under the legacy name, a status file that is not a symbolic link, and a request to
  apply at the head of the queue ends with the request removed, the lock released and a final status:
  \<open>completed\<close> exactly when the run reports success, else \<open>failed\<close> or \<open>rolled_back\<close>; it does not leave
  \<open>in_progress\<close>.\<close>

theorem worker_records_outcome:
  assumes "\<And>n fs. ue_others v n fs = fs" "\<And>n. ue_fault v n = None" "UpdateEnabled (cfg (ue_svc v))"
    and "\<not> f_locked (us_files s)" "f_status (us_files s) \<noteq> Symlink"
    and "f_legacy (us_files s) = Absent" "f_queue (us_files s) = (n, Doc req) # rest"
    and "normalizeApplyMode (ar_Mode req) = ApplyModeApply"
  shows "let (r, s') = runWorker v s; fs = us_files s' in
           \<not> f_locked fs \<and> get_request (Queued n) fs = Absent
           \<and> (\<exists>st. f_status fs = Doc st \<and> as_State st \<in> {ApplyStateCompleted, ApplyStateFailed, ApplyStateRolledBack}
                \<and> (as_State st = ApplyStateCompleted \<longleftrightarrow> r = Inr ()))"
proof -
  have v: "calm v = v" using assms(1,2) by (rule calm_id)
  have on: "UpdateEnabled (cfg (ue_svc (calm v)))" using assms(3) by (simp add: v)
  have mode: "ApplyModeApply \<noteq> ApplyModePrepare" by (simp add: apply_modes)
  have rec: "recorded (Queued n) (run_request (Queued n) req (calm v) s1)" if "no_link (us_files s1)" for s1
    using that assms(8) run_apply_recorded mode
    by (auto simp: run_request_def bindU_def tryU_def retU_def failU_def store_def time_Now_def split: option.split)
  obtain s1 where s1: "runWorker (calm v) s = finallyU work_queue unlock_worker (calm v) s1"
    "us_files s1 = (us_files s)\<lparr>f_locked := True\<rparr>"
    using assms(3,4)
    by (auto simp: runWorker_def askU_def on bindU_def tryU_def ensureUpdaterRuntimeDirectories_def lock_worker_def calm_fileop)
  have "\<exists>s2. work_queue (calm v) s1 = run_request (Queued n) req (calm v) s2 \<and> us_files s2 = us_files s1"
    using s1(2) assms(6,7)
    by (auto simp: work_queue_def firstPendingRequestPath_def pendingRequestPaths_def readJSONFile_def bindU_def
        tryU_def retU_def calm_fileop)
  then have "recorded (Queued n) (work_queue (calm v) s1)"
    using rec s1(2) assms(5) by (auto simp: no_link_def)
  then show ?thesis
    using s1(1) by (auto simp: v finally_run recorded_def unlock_worker_def calm_fileop [of _ v, unfolded v])
qed

theorem worker_records_outcome_witness:
  "let s = snd (QueueApply ''root'' ''v2'' ''r1'' demo_env idle_state); (r, s') = runWorker demo_env s in
     \<not> f_locked (us_files s') \<and> (\<exists>st. f_status (us_files s') = Doc st \<and> as_State st \<noteq> ApplyStateInProgress)"
proof -
  let ?s = "snd (QueueApply ''root'' ''v2'' ''r1'' demo_env idle_state)"
  have "map_option normalizeApplyMode (case f_queue (us_files ?s) of (_, Doc r) # _ \<Rightarrow> Some (ar_Mode r) | _ \<Rightarrow> None)
      = Some ApplyModeApply" by code_simp
  then obtain n req rest where "f_queue (us_files ?s) = (n, Doc req) # rest"
    "normalizeApplyMode (ar_Mode req) = ApplyModeApply"
    by (auto split: list.splits slot.splits)
  moreover have "\<not> f_locked (us_files ?s)" "f_status (us_files ?s) \<noteq> Symlink" "f_legacy (us_files ?s) = Absent"
    by code_simp+
  moreover have "UpdateEnabled (cfg (ue_svc demo_env))" by code_simp
  ultimately have "let (r, s') = runWorker demo_env ?s; fs = us_files s' in
           \<not> f_locked fs \<and> get_request (Queued n) fs = Absent
           \<and> (\<exists>st. f_status fs = Doc st \<and> as_State st \<in> {ApplyStateCompleted, ApplyStateFailed, ApplyStateRolledBack}
                \<and> (as_State st = ApplyStateCompleted \<longleftrightarrow> r = Inr ()))"
    by (intro worker_records_outcome) (simp_all add: demo_env_def)
  then show ?thesis by (auto simp: apply_states split: prod.splits)
qed

end
