(* ===== verification/Threading.thy ===== *)
theory Threading
  imports Codec Sql
begin

text \<open>
  \<^verbatim>\<open>internal/mail/threading.go\<close>: how messages are grouped into conversations.  A subject is stripped of
  reply marks and list tags, message ids are taken out of headers and brought into one form, and the
  thread id is a hash of the first of these that a message has.

  The regular expressions are written as the functions they compute.  Each of the three anchored ones
  can match in at most one way, so no backtracking is involved: a list tag ends at its first closing
  bracket, and a reply mark ends at its first colon.  The class \<^verbatim>\<open>\s\<close> is five ASCII characters, fewer
  than \<^verbatim>\<open>strings.TrimSpace\<close> removes.  The counts of \<^verbatim>\<open>{1,40}\<close> are runes, counted by their first bytes;
  with the ASCII case map of \<^verbatim>\<open>strings.ToLower\<close> this is exact on valid UTF-8.  SHA-256, the decoder of
  encoded header words and the address parser of \<^verbatim>\<open>net/mail\<close> are parameters.
\<close>

section \<open>Fields\<close>

text \<open>\<^verbatim>\<open>strings.Fields\<close>: the maximal runs of the text between white space, which is that of
  \<^const>\<open>TrimSpace\<close>.\<close>

definition flush :: "string \<Rightarrow> string list" where "flush acc = (if acc = [] then [] else [acc])"

lemma space_rune_shortens:
  assumes "find (\<lambda>p. prefix p s) space_runes = Some p"
  shows "s \<noteq> []" "p \<noteq> []" "length s - length p < length s"
proof -
  have p: "p \<in> set space_runes" "prefix p s" using find_prefix_Some [OF assms] by auto
  then show "p \<noteq> []" using space_runes_nonempty(1) by auto
  with p(2) show "s \<noteq> []" by auto
  with \<open>p \<noteq> []\<close> show "length s - length p < length s" by (cases p; cases s) auto
qed

function rune_fields :: "string \<Rightarrow> string \<Rightarrow> string list" where
  "rune_fields acc s =
     (case find (\<lambda>p. prefix p s) space_runes of
        Some p \<Rightarrow> flush acc @ rune_fields [] (drop (length p) s)
      | None \<Rightarrow> (case s of [] \<Rightarrow> flush acc | c # r \<Rightarrow> rune_fields (acc @ [c]) r))"
  by pat_completeness auto
termination
  by (relation "measure (\<lambda>(acc, s). length s)") (auto dest: space_rune_shortens)

declare rune_fields.simps [simp del]

definition Fields :: "string \<Rightarrow> string list" where "Fields s = rune_fields [] s"

section \<open>Patterns\<close>

definition re_space :: "char \<Rightarrow> bool" where
  "re_space c \<longleftrightarrow> c \<in> {CHR 0x09, CHR 0x0A, CHR 0x0C, CHR 0x0D, CHR 0x20}"

definition skip_space :: "string \<Rightarrow> string" where "skip_space s = dropWhile re_space s"

definition rune_count :: "string \<Rightarrow> nat" where
  "rune_count s = length (filter (\<lambda>c. \<not> utf8_cont c) s)"

text \<open>\<^verbatim>\<open>\[[^\[\]]{1,40}\]\<close> at the start of the text: what follows it.\<close>

definition list_tag :: "string \<Rightarrow> string option" where
  "list_tag s = (case s of
     [] \<Rightarrow> None
   | c # r \<Rightarrow>
       (case split2 (CHR '']'') r of
          None \<Rightarrow> None
        | Some (body, t) \<Rightarrow>
            if c = CHR ''['' \<and> CHR ''['' \<notin> set body \<and> 1 \<le> rune_count body \<and> rune_count body \<le> 40
            then Some t else None))"

text \<open>The words before the colon of a reply mark.  Under \<^verbatim>\<open>(?i)\<close> the letter s also stands for U+017F.\<close>

definition mark_words :: "string list" where
  "mark_words = [''re'', ''aw'', ''sv'', [CHR 0xC5, CHR 0xBF, CHR ''v''], ''wg'', ''fw'', ''fwd'']"

definition cjk_words :: "string list" where
  "cjk_words =
     [[CHR 0xE5, CHR 0x9B, CHR 0x9E, CHR 0xE5, CHR 0xA4, CHR 0x8D],
      [CHR 0xE7, CHR 0xAD, CHR 0x94, CHR 0xE5, CHR 0xA4, CHR 0x8D],
      [CHR 0xE8, CHR 0xBD, CHR 0xAC, CHR 0xE5, CHR 0x8F, CHR 0x91]]"

text \<open>\<^verbatim>\<open>\s*(?:\[[0-9]+\])?\s*\<close>, the whole text.\<close>

definition counter_tail :: "string \<Rightarrow> bool" where
  "counter_tail s = (case skip_space s of
     [] \<Rightarrow> True
   | c # r \<Rightarrow>
       (case split2 (CHR '']'') r of
          None \<Rightarrow> False
        | Some (ds, t) \<Rightarrow> c = CHR ''['' \<and> ds \<noteq> [] \<and> list_all is_digit ds \<and> skip_space t = []))"

definition mark_word :: "string \<Rightarrow> bool" where
  "mark_word s \<longleftrightarrow>
     list_ex (\<lambda>w. prefix w s \<and> counter_tail (drop (length w) s)) mark_words
     \<or> list_ex (\<lambda>w. prefix w s \<and> skip_space (drop (length w) s) = []) cjk_words"

text \<open>A reply mark at the start of a lower-case text, up to its colon: what follows it.\<close>

definition reply_mark :: "string \<Rightarrow> string option" where
  "reply_mark s = (case split2 (CHR '':'') s of
     None \<Rightarrow> None
   | Some (a, t) \<Rightarrow> if mark_word a then Some t else None)"

definition trailers :: "string list" where "trailers = [''(fwd)'', ''(fw)'']"

text \<open>\<^verbatim>\<open>\((?:fwd|fw)\)\s*$\<close>: the text before it.\<close>

definition trailer :: "string \<Rightarrow> string option" where
  "trailer s =
     (let r = rev (skip_space (rev s)) in
      map_option (\<lambda>v. take (length r - length v) r) (find (\<lambda>v. suffix v r) trailers))"

section \<open>Subjects\<close>

function strip_tags :: "string \<Rightarrow> string" where
  "strip_tags s = (case list_tag s of None \<Rightarrow> s | Some t \<Rightarrow> strip_tags (skip_space t))"
  by pat_completeness auto
termination
proof (relation "measure length", goal_cases)
  case (2 s t)
  then have "length t < length s"
    by (auto simp: list_tag_def split: list.splits option.splits if_splits dest!: split2_Some)
  moreover have "length (skip_space t) \<le> length t" by (simp add: skip_space_def length_dropWhile_le)
  ultimately show ?case by simp
qed simp

declare strip_tags.simps [simp del]

definition strip_mark :: "string \<Rightarrow> string" where
  "strip_mark s = (case reply_mark s of None \<Rightarrow> s | Some t \<Rightarrow> skip_space t)"

definition strip_trailer :: "string \<Rightarrow> string" where
  "strip_trailer s = (case trailer s of None \<Rightarrow> s | Some u \<Rightarrow> rev (skip_space (rev u)))"

text \<open>One pass of the loop.\<close>

definition thread_round :: "string \<Rightarrow> string" where
  "thread_round s =
     TrimSpace (strip_trailer (TrimSpace (strip_mark (TrimSpace (strip_tags s)))))"

lemma TrimSpace_sublist: "sublist (TrimSpace s) s"
proof -
  have "sublist (TrimSpace s) (trim_left s)"
    unfolding TrimSpace_def by (rule prefix_imp_sublist [OF trim_right_prefix])
  also have "sublist (trim_left s) s"
    unfolding trim_left_def by (rule suffix_imp_sublist [OF strip_runes_suffix])
  finally show ?thesis .
qed

lemma skip_space_suffix: "suffix (skip_space s) s"
  by (simp add: skip_space_def suffix_dropWhile)

lemma list_tag_Some:
  "list_tag s = Some t \<Longrightarrow>
   \<exists>b. s = CHR ''['' # b @ CHR '']'' # t \<and> CHR '']'' \<notin> set b \<and> CHR ''['' \<notin> set b
       \<and> 1 \<le> rune_count b \<and> rune_count b \<le> 40"
  by (auto simp: list_tag_def split: list.splits option.splits if_splits dest!: split2_Some)

lemma reply_mark_Some:
  "reply_mark s = Some t \<Longrightarrow> \<exists>a. s = a @ CHR '':'' # t \<and> CHR '':'' \<notin> set a \<and> mark_word a"
  by (auto simp: reply_mark_def split: option.splits if_splits dest!: split2_Some)

lemma trailer_Some:
  assumes "trailer s = Some u"
  shows "\<exists>v w. v \<in> set trailers \<and> s = u @ v @ w \<and> list_all re_space w"
proof -
  define r where "r = rev (skip_space (rev s))"
  obtain v where v: "find (\<lambda>v. suffix v r) trailers = Some v" "u = take (length r - length v) r"
    using assms by (auto simp: trailer_def r_def)
  then have *: "v \<in> set trailers" "suffix v r" by (auto simp: find_Some_iff)
  then have "r = u @ v" using v(2) by (auto simp: suffix_def)
  moreover have "s = r @ rev (takeWhile re_space (rev s))"
    unfolding r_def skip_space_def by (metis rev_append rev_rev_ident takeWhile_dropWhile_id)
  moreover have "list_all re_space (rev (takeWhile re_space (rev s)))"
    by (auto simp: list_all_iff dest: set_takeWhileD)
  ultimately show ?thesis using *(1) by (metis append.assoc)
qed

lemma strip_tags_suffix: "suffix (strip_tags s) s"
proof (induction s rule: strip_tags.induct)
  case (1 s)
  show ?case
  proof (cases "list_tag s")
    case (Some t)
    then have "suffix t s" by (fastforce simp: suffix_def dest!: list_tag_Some)
    then have "suffix (skip_space t) s" using skip_space_suffix suffix_order.trans by blast
    moreover have "suffix (strip_tags (skip_space t)) (skip_space t)" by (rule 1 [OF Some])
    ultimately show ?thesis using Some by (subst strip_tags.simps) (auto intro: suffix_order.trans)
  qed (simp add: strip_tags.simps)
qed

lemma strip_mark_suffix: "suffix (strip_mark s) s"
proof (cases "reply_mark s")
  case (Some t)
  then have "suffix t s" by (fastforce simp: suffix_def dest!: reply_mark_Some)
  then show ?thesis
    using Some skip_space_suffix suffix_order.trans by (fastforce simp: strip_mark_def)
qed (simp add: strip_mark_def)

lemma strip_trailer_prefix: "prefix (strip_trailer s) s"
proof (cases "trailer s")
  case (Some u)
  then have "prefix u s" by (auto dest!: trailer_Some)
  moreover have "prefix (rev (skip_space (rev u))) u"
    using skip_space_suffix [of "rev u"] by (simp add: suffix_to_prefix)
  ultimately show ?thesis using Some by (auto simp: strip_trailer_def intro: prefix_order.trans)
qed (simp add: strip_trailer_def)

lemma thread_round_sublist: "sublist (thread_round s) s"
proof -
  let ?a = "TrimSpace (strip_tags s)" and ?b = "TrimSpace (strip_mark (TrimSpace (strip_tags s)))"
  have "sublist (thread_round s) (strip_trailer ?b)"
    unfolding thread_round_def by (rule TrimSpace_sublist)
  also have "sublist (strip_trailer ?b) ?b" by (rule prefix_imp_sublist [OF strip_trailer_prefix])
  also have "sublist ?b (strip_mark ?a)" by (rule TrimSpace_sublist)
  also have "sublist (strip_mark ?a) ?a" by (rule suffix_imp_sublist [OF strip_mark_suffix])
  also have "sublist ?a (strip_tags s)" by (rule TrimSpace_sublist)
  also have "sublist (strip_tags s) s" by (rule suffix_imp_sublist [OF strip_tags_suffix])
  finally show ?thesis .
qed

lemma sublist_shorter: "sublist u s \<Longrightarrow> u \<noteq> s \<Longrightarrow> length u < length s"
  by (auto simp: sublist_def)

lemmas thread_round_shortens = sublist_shorter [OF thread_round_sublist]

function thread_loop :: "string \<Rightarrow> string" where
  "thread_loop s =
     (if s = [] then s
      else if thread_round s = s then s
      else thread_loop (thread_round s))"
  by pat_completeness auto
termination by (relation "measure length") (auto dest: thread_round_shortens)

declare thread_loop.simps [simp del]

definition NormalizeThreadSubject :: "string \<Rightarrow> string" where
  "NormalizeThreadSubject subject =
     Join (Fields (thread_loop (TrimSpace (ToLower subject)))) '' ''"

definition ThreadSubjectLooksReply :: "string \<Rightarrow> bool" where
  "ThreadSubjectLooksReply subject =
     (let s = ToLower (TrimSpace subject) in
      reply_mark (strip_tags (skip_space s)) \<noteq> None \<or> trailer s \<noteq> None)"

section \<open>Message ids\<close>

text \<open>\<^verbatim>\<open><[^>]+>|[^<>,[:space:]]+@[^<>,[:space:]]+\<close>, all matches from left to right.  A bracket pair with
  something in it is a match of the first alternative.  Elsewhere the second alternative takes the
  whole run of allowed characters, or nothing of it: the run must have an at-sign that is neither its
  first nor its last character.\<close>

definition id_sep :: "char \<Rightarrow> bool" where
  "id_sep c \<longleftrightarrow> c \<in> {CHR ''<'', CHR ''>'', CHR '','', CHR 0x09, CHR 0x0A, CHR 0x0B, CHR 0x0C, CHR 0x0D, CHR 0x20}"

definition addr_run :: "string \<Rightarrow> bool" where "addr_run s \<longleftrightarrow> CHR ''@'' \<in> set (butlast (tl s))"

function msgid_tokens :: "string \<Rightarrow> string list" where
  "msgid_tokens s = (case s of
     [] \<Rightarrow> []
   | c # r \<Rightarrow>
       if c = CHR ''<'' then
         (case split2 (CHR ''>'') r of
            Some (b, t) \<Rightarrow>
              if b \<noteq> [] then (CHR ''<'' # b @ [CHR ''>'']) # msgid_tokens t else msgid_tokens r
          | None \<Rightarrow> msgid_tokens r)
       else if id_sep c then msgid_tokens r
       else
         (let run = c # takeWhile (\<lambda>d. \<not> id_sep d) r; rest = dropWhile (\<lambda>d. \<not> id_sep d) r in
          (if addr_run run then [run] else []) @ msgid_tokens rest))"
  by pat_completeness auto
termination
  by (relation "measure length") (auto simp: less_Suc_eq_le length_dropWhile_le dest!: split2_Some)

declare msgid_tokens.simps [simp del]

definition normalizeMessageIDToken :: "string \<Rightarrow> string" where
  "normalizeMessageIDToken v =
     TrimSpace (TrimSuffix (TrimPrefix (TrimSpace (ToLower v)) ''<'') ''>'')"

definition FindMessageIDToken :: "string \<Rightarrow> string" where
  "FindMessageIDToken s = (case msgid_tokens s of [] \<Rightarrow> [] | t # _ \<Rightarrow> t)"

definition NormalizeMessageIDHeader :: "string \<Rightarrow> string" where
  "NormalizeMessageIDHeader v =
     (let token = TrimSpace (FindMessageIDToken (TrimSpace v)) in
      if token \<noteq> [] then normalizeMessageIDToken token else normalizeMessageIDToken v)"

text \<open>The loops over headers keep the first of equal values and drop empty ones.\<close>

definition add_new :: "string list \<Rightarrow> string \<Rightarrow> string list" where
  "add_new out x = (if x = [] \<or> x \<in> set out then out else out @ [x])"

definition NormalizeMessageIDHeaders :: "string list \<Rightarrow> string list" where
  "NormalizeMessageIDHeaders values = foldl (\<lambda>out v. add_new out (NormalizeMessageIDHeader v)) [] values"

definition ParseMessageIDList :: "string \<Rightarrow> string list" where
  "ParseMessageIDList raw = NormalizeMessageIDHeaders (msgid_tokens raw)"

definition FormatMessageIDList :: "string list \<Rightarrow> string" where
  "FormatMessageIDList values = Join (NormalizeMessageIDHeaders values) '' ''"

definition BuildReplyHeaders :: "string \<Rightarrow> string \<Rightarrow> string list \<Rightarrow> string \<times> string list" where
  "BuildReplyHeaders parentMessageID parentInReplyTo parentReferences =
     (let inReplyTo = NormalizeMessageIDHeader parentMessageID;
          refs0 = NormalizeMessageIDHeaders parentReferences;
          seeded = NormalizeMessageIDHeader parentInReplyTo;
          refs1 = (if refs0 = [] \<and> seeded \<noteq> [] then [seeded] else refs0);
          refs2 = (if inReplyTo \<noteq> [] then refs1 @ [inReplyTo] else refs1)
      in (inReplyTo, NormalizeMessageIDHeaders refs2))"

section \<open>Participants\<close>

text \<open>What is not of the program: the address parser (the addresses of a list, or no result), the
  decoder of encoded words, and the hash.\<close>

record mail_lib =
  ParseAddressList :: "string \<Rightarrow> string list option"
  ParseAddress :: "string \<Rightarrow> string option"
  DecodeHeader :: "string \<Rightarrow> string option"
  Sum256 :: "string \<Rightarrow> string"

definition trim_cutset :: "string \<Rightarrow> string \<Rightarrow> string" where
  "trim_cutset cs s = rev (dropWhile (\<lambda>c. c \<in> set cs) (rev (dropWhile (\<lambda>c. c \<in> set cs) s)))"

definition fields_comma_semicolon :: "string \<Rightarrow> string list" where
  "fields_comma_semicolon s = filter (\<lambda>f. f \<noteq> []) (concat (map (Split (CHR '';'')) (Split (CHR '','') s)))"

definition token_email :: "string \<Rightarrow> string" where
  "token_email token =
     (let email = ToLower (TrimSpace (trim_cutset ('' <>'' @ [CHR 0x22, CHR 0x27]) token))
      in if CHR ''@'' \<in> set email then email else [])"

definition add_participants :: "mail_lib \<Rightarrow> string list \<Rightarrow> string \<Rightarrow> string list" where
  "add_participants lib out value =
     (let raw = TrimSpace value in
      if raw = [] then out
      else case ParseAddressList lib raw of
        Some (a # as) \<Rightarrow> foldl (\<lambda>o' x. add_new o' (ToLower (TrimSpace x))) out (a # as)
      | _ \<Rightarrow>
          (case ParseAddress lib raw of
             Some a \<Rightarrow> add_new out (ToLower (TrimSpace a))
           | None \<Rightarrow> foldl (\<lambda>o' t. add_new o' (token_email t)) out (fields_comma_semicolon raw)))"

definition NormalizeThreadParticipants :: "mail_lib \<Rightarrow> string list \<Rightarrow> string list" where
  "NormalizeThreadParticipants lib values = sort (foldl (add_participants lib) [] values)"

definition ThreadParticipantsOverlap :: "mail_lib \<Rightarrow> string list \<Rightarrow> string list \<Rightarrow> nat" where
  "ThreadParticipantsOverlap lib a b =
     (if a = [] \<or> b = [] then 0
      else let seen = NormalizeThreadParticipants lib [Join a '', '']
           in length (filter (\<lambda>x. x \<in> set seen) (NormalizeThreadParticipants lib [Join b '', ''])))"

section \<open>Thread ids\<close>

definition hex_value :: "char \<Rightarrow> nat option" where
  "hex_value c = char_index ''0123456789abcdef'' (ascii_lower c)"

fun hex_pairs :: "nat list \<Rightarrow> string option" where
  "hex_pairs [] = Some []"
| "hex_pairs [a] = None"
| "hex_pairs (a # b # r) = map_option ((#) (char_of (a * 16 + b))) (hex_pairs r)"

definition HexDecode :: "string \<Rightarrow> string option" where
  "HexDecode s = (case opt_all (map hex_value s) of None \<Rightarrow> None | Some vs \<Rightarrow> hex_pairs vs)"

text \<open>The padded variants of base64: whole groups of four, the last with up to two equals signs.\<close>

definition b64_decode_padded :: "string \<Rightarrow> string \<Rightarrow> string option" where
  "b64_decode_padded al s =
     (let t = filter (\<lambda>c. c \<noteq> CHR 0x0A \<and> c \<noteq> CHR 0x0D) s in
      if length t mod 4 \<noteq> 0 then None
      else if suffix ''=='' t then b64_decode al (take (length t - 2) t)
      else if suffix ''='' t then b64_decode al (take (length t - 1) t)
      else b64_decode al t)"

definition long_enough :: "string option \<Rightarrow> string option" where
  "long_enough d = (case d of None \<Rightarrow> None | Some b \<Rightarrow> if length b \<ge> 22 then Some (HexEncode (take 22 b)) else None)"

fun first_some :: "'a option list \<Rightarrow> 'a option" where
  "first_some [] = None"
| "first_some (Some x # xs) = Some x"
| "first_some (None # xs) = first_some xs"

definition NormalizeConversationIndexRoot :: "string \<Rightarrow> string" where
  "NormalizeConversationIndexRoot raw =
     (let v = Join (Fields (TrimSpace raw)) [] in
      if v = [] then []
      else opt_str (first_some (map long_enough
             [HexDecode v,
              b64_decode_padded b64_std_alphabet v, RawStdDecode v,
              b64_decode_padded b64_url_alphabet v, RawURLDecode v])))"

definition DecodeHeaderText :: "mail_lib \<Rightarrow> string \<Rightarrow> string" where
  "DecodeHeaderText lib raw =
     (let v = TrimSpace raw in
      if v = [] then [] else (case DecodeHeader lib v of None \<Rightarrow> v | Some d \<Rightarrow> TrimSpace d))"

definition NormalizeThreadTopic :: "mail_lib \<Rightarrow> string \<Rightarrow> string" where
  "NormalizeThreadTopic lib v = NormalizeThreadSubject (DecodeHeaderText lib v)"

text \<open>A kind, a colon and ten bytes of a hash, in hexadecimal.\<close>

definition hashed :: "mail_lib \<Rightarrow> string \<Rightarrow> string \<Rightarrow> string" where
  "hashed lib kind payload = kind @ HexEncode (take 10 (Sum256 lib payload))"

definition deriveHintThreadID :: "mail_lib \<Rightarrow> string \<Rightarrow> string list \<Rightarrow> string \<Rightarrow> string" where
  "deriveHintThreadID lib subject participants listID =
     (let baseSubject = NormalizeThreadSubject subject;
          base = (if baseSubject = [] then ''untitled'' else baseSubject);
          people = NormalizeThreadParticipants lib [Join participants '', ''];
          lst = ToLower (TrimSpace listID)
      in hashed lib ''hint:''
           (''hint:'' @ base @ (if people \<noteq> [] then ''|'' @ Join people '','' else [])
            @ (if lst \<noteq> [] then ''|list:'' @ lst else [])))"

definition firstNonEmptyThreadValue :: "string list \<Rightarrow> string" where
  "firstNonEmptyThreadValue values = opt_str (find (\<lambda>v. v \<noteq> []) (map TrimSpace values))"

record thread_headers =
  h_MessageID :: string
  h_InReplyTo :: string
  h_References :: "string list"
  h_Subject :: string
  h_From :: string
  h_Participants :: "string list"
  h_ThreadTopic :: string
  h_ThreadIndex :: string
  h_ListID :: string

definition DeriveIndexedThreadIDWithHints :: "mail_lib \<Rightarrow> thread_headers \<Rightarrow> string" where
  "DeriveIndexedThreadIDWithHints lib h =
     (let root = NormalizeConversationIndexRoot (h_ThreadIndex h);
          refs = NormalizeMessageIDHeaders (h_References h);
          inReplyTo = NormalizeMessageIDHeader (h_InReplyTo h);
          messageID = NormalizeMessageIDHeader (h_MessageID h);
          hint = firstNonEmptyThreadValue
                   [NormalizeThreadTopic lib (h_ThreadTopic h), NormalizeThreadSubject (h_Subject h)];
          people = h_From h # h_Participants h
      in if root \<noteq> [] then hashed lib ''cidx:'' (''cidx:'' @ root)
         else if refs \<noteq> [] then hashed lib ''hdr:'' (''hdr:'' @ hd refs)
         else if inReplyTo \<noteq> [] then hashed lib ''hdr:'' (''hdr:'' @ inReplyTo)
         else if hint \<noteq> [] \<and> (ThreadSubjectLooksReply (h_Subject h)
                  \<or> TrimSpace (h_ThreadTopic h) \<noteq> [] \<or> TrimSpace (h_ListID h) \<noteq> [])
         then deriveHintThreadID lib hint people (h_ListID h)
         else if messageID \<noteq> [] then hashed lib ''hdr:'' (''hdr:'' @ messageID)
         else deriveHintThreadID lib (h_Subject h) people (h_ListID h))"

definition DeriveThreadID :: "mail_lib \<Rightarrow> string \<Rightarrow> string \<Rightarrow> string \<Rightarrow> string" where
  "DeriveThreadID lib mailbox subject from_value =
     (let n1 = NormalizeThreadSubject subject;
          n2 = (if n1 = [] then ToLower (TrimSpace from_value) else n1);
          n3 = (if n2 = [] then ''untitled'' else n2)
      in hashed lib ''conv:'' n3)"

definition DeriveIndexedThreadID ::
  "mail_lib \<Rightarrow> string \<Rightarrow> string \<Rightarrow> string list \<Rightarrow> string \<Rightarrow> string \<Rightarrow> string" where
  "DeriveIndexedThreadID lib messageID inReplyTo references subject from_value =
     DeriveIndexedThreadIDWithHints lib
       \<lparr>h_MessageID = messageID, h_InReplyTo = inReplyTo, h_References = references,
        h_Subject = subject, h_From = from_value, h_Participants = [], h_ThreadTopic = [],
        h_ThreadIndex = [], h_ListID = []\<rparr>"

definition DeriveLiveThreadID ::
  "mail_lib \<Rightarrow> string \<Rightarrow> string \<Rightarrow> string \<Rightarrow> string list \<Rightarrow> string \<Rightarrow> string \<Rightarrow> string" where
  "DeriveLiveThreadID lib mailbox messageID inReplyTo references subject from_value =
     (if NormalizeMessageIDHeader messageID = [] \<and> NormalizeMessageIDHeader inReplyTo = []
         \<and> NormalizeMessageIDHeaders references = []
      then DeriveThreadID lib mailbox subject from_value
      else DeriveIndexedThreadID lib messageID inReplyTo references subject from_value)"

definition threadSummarySubject :: "string \<Rightarrow> string" where
  "threadSummarySubject subject =
     (let n = NormalizeThreadSubject subject in if n \<noteq> [] then n else ''(no subject)'')"

end
