(* ===== verification/ThreadingLaws.thy ===== *)
theory ThreadingLaws
  imports Threading
begin

text \<open>
  What the grouping of messages rests on: stripping a subject ends, and its result does not depend on
  the marks, tags and trailers that replies and forwards add; message ids survive being stored; a
  reply lands in the thread of the message it answers.

  The passes over a subject are compared with a rewriting relation on trimmed texts that removes one
  mark, tag or trailer at a time.  The relation is locally confluent, because the patterns at the two
  ends cannot overlap, and every step shortens the text, so every text has one normal form.
\<close>

section \<open>Trimming\<close>

text \<open>White space next to a byte that occurs in no space rune is trimmed as if the byte were the end.\<close>

lemma prefix_stop: "c \<notin> set p \<Longrightarrow> prefix p (a @ c # b) \<longleftrightarrow> prefix p a"
proof
  assume c: "c \<notin> set p" and p: "prefix p (a @ c # b)"
  show "prefix p a"
  proof (rule ccontr)
    assume "\<not> prefix p a"
    with p obtain q where "p = a @ q" "prefix q (c # b)" "q \<noteq> []"
      by (metis prefix_append append_Nil2 prefix_order.refl)
    then show False using c by (cases q) auto
  qed
qed simp

lemma strip_runes_stop:
  assumes "\<forall>p \<in> set ps. c \<notin> set p"
  shows "strip_runes n ps (a @ c # b) = strip_runes n ps a @ c # b"
proof (induction n arbitrary: a)
  case (Suc n)
  have eq: "find (\<lambda>p. prefix p (a @ c # b)) ps = find (\<lambda>p. prefix p a) ps"
    using assms by (intro find_cong) (auto simp: prefix_stop)
  show ?case
  proof (cases "find (\<lambda>p. prefix p a) ps")
    case (Some p)
    then have "prefix p a" by (auto dest: find_prefix_Some)
    then have "drop (length p) (a @ c # b) = drop (length p) a @ c # b"
      by (simp add: prefix_length_le)
    with Some eq show ?thesis using Suc.IH by simp
  qed (simp add: eq)
qed simp

lemma strip_runes_enough:
  assumes "[] \<notin> set ps" "length s \<le> n"
  shows "strip_runes n ps s = strip_runes (length s) ps s"
proof -
  have "strip_runes (m + k) ps s = strip_runes m ps s" if "length s \<le> m" for m k s
    using that
  proof (induction m arbitrary: s)
    case 0
    have "no_rune ps []" using assms(1) by (auto simp: no_rune_def)
    with 0 show ?case by (simp add: strip_runes_id)
  next
    case (Suc m)
    show ?case
    proof (cases "find (\<lambda>p. prefix p s) ps")
      case (Some p)
      then have p: "p \<in> set ps" "prefix p s" by (auto dest: find_prefix_Some)
      then have "p \<noteq> []" using assms(1) by metis
      then have "length (drop (length p) s) \<le> m" using Suc.prems by (cases p) auto
      with Some show ?thesis using Suc.IH by simp
    qed simp
  qed
  from this [of s "length s" "n - length s"] show ?thesis using assms(2) by simp
qed

definition solid :: "char \<Rightarrow> bool" where "solid c \<longleftrightarrow> (\<forall>p \<in> set space_runes. c \<notin> set p)"

lemma trim_left_stop: "solid c \<Longrightarrow> trim_left (a @ c # b) = trim_left a @ c # b"
  unfolding trim_left_def
  by (subst strip_runes_stop, simp add: solid_def,
      subst strip_runes_enough [OF space_runes_nonempty(1)]) simp_all

lemma trim_right_stop: "solid c \<Longrightarrow> trim_right (b @ c # a) = b @ c # trim_right a"
  unfolding trim_right_def rev_append rev.simps append_assoc append.simps
  by (subst strip_runes_stop, simp add: solid_def,
      subst strip_runes_enough [OF space_runes_nonempty(2)]) simp_all

lemma trim_Nil [simp]: "trim_left [] = []" "trim_right [] = []"
  by (simp_all add: trim_left_def trim_right_def)

lemma TrimSpace_left_stop: "solid c \<Longrightarrow> TrimSpace (a @ c # b) = trim_left a @ trim_right (c # b)"
  using trim_right_stop [of c "[]" b] trim_right_stop [of c "trim_left a" b]
  by (simp add: TrimSpace_def trim_left_stop)

lemma TrimSpace_solid_Cons: "solid c \<Longrightarrow> TrimSpace (c # b) = c # trim_right b"
  using TrimSpace_left_stop [of c "[]" b] trim_right_stop [of c "[]" b] by simp

lemma TrimSpace_solid_snoc: "solid c \<Longrightarrow> TrimSpace (a @ [c]) = trim_left a @ [c]"
  using TrimSpace_left_stop [of c a "[]"] trim_right_stop [of c "[]" "[]"] by simp

lemma trim_left_idem: "trim_left (trim_left s) = trim_left s"
  unfolding trim_left_def
  by (rule strip_runes_id [OF strip_runes_no_rune [OF space_runes_nonempty(1) order_refl]])

lemma TrimSpace_trim_left: "TrimSpace (trim_left s) = TrimSpace s"
  by (simp add: TrimSpace_def trim_left_idem)

text \<open>Space runes do not overlap: a rune starts with a byte that continues none.  So the two ends can
  be trimmed in either order.\<close>

lemma space_runes_apart:
  "\<forall>p \<in> set space_runes. \<forall>q \<in> set space_runes.
     (prefix p q \<longrightarrow> p = q) \<and> \<not> prefix (drop 1 p) q = (drop 1 p \<noteq> []) \<and> (drop 2 p = [] \<or> \<not> prefix (drop 2 p) q)
     \<and> length p \<le> 3"
  by code_simp

lemma rune_suffix_apart:
  assumes pq: "p \<in> set space_runes" "q \<in> set space_runes" and s: "suffix q (p @ t)" "\<not> suffix q t"
  shows "p = q \<and> t = []"
proof -
  obtain z where z: "q = z @ t" "suffix z p" using s by (auto simp: suffix_append)
  then obtain k where k: "z = drop k p" by (metis suffix_def append_eq_conv_conj)
  have "z \<noteq> []" using z s(2) by auto
  then have "k < length p" using k by auto
  moreover have "length p \<le> 3" using space_runes_apart pq by blast
  ultimately consider "k = 0" | "k = 1" | "k = 2" by linarith
  then show ?thesis
    using space_runes_apart pq z(1) \<open>z \<noteq> []\<close> k by cases (metis append_self_conv drop0 prefixI)+
qed

lemma rune_suffix_unique:
  assumes "p \<in> set space_runes" "q \<in> set space_runes" "suffix p s" "suffix q s"
  shows "p = q"
proof -
  have "q \<noteq> []" "p \<noteq> []" using assms(1,2) space_runes_nonempty(1) by metis+
  with suffix_same_cases [OF assms(3,4)] assms(1,2) show ?thesis
    using rune_suffix_apart [of p q "[]"] rune_suffix_apart [of q p "[]"] by auto
qed

lemma trim_right_rune: "q \<in> set space_runes \<Longrightarrow> trim_right (s @ q) = trim_right s"
proof -
  assume q: "q \<in> set space_runes"
  then have "q \<noteq> []" using space_runes_nonempty(1) by metis
  then obtain n where n: "length (s @ q) = Suc n" "length s \<le> n" by (cases q) auto
  have "find (\<lambda>p. prefix p (rev (s @ q))) (map rev space_runes) = Some (rev q)"
  proof -
    have "\<exists>r. find (\<lambda>p. prefix p (rev (s @ q))) (map rev space_runes) = Some r"
      using q by (auto simp: find_None_iff prefix_def simp flip: not_None_eq)
    then obtain r where r: "find (\<lambda>p. prefix p (rev (s @ q))) (map rev space_runes) = Some r" ..
    then have "r \<in> rev ` set space_runes" "prefix r (rev (s @ q))" using find_prefix_Some by fastforce+
    then have "rev r \<in> set space_runes" "suffix (rev r) (s @ q)" by (auto simp: suffix_to_prefix)
    then show ?thesis using rune_suffix_unique [OF _ q] r by (metis rev_swap suffix_order.refl suffix_appendI)
  qed
  then show ?thesis
    unfolding trim_right_def n(1)
    using strip_runes_enough [OF space_runes_nonempty(2), of "rev s" n] n(2) by simp
qed

lemma trim_right_id: "(\<And>q. q \<in> set space_runes \<Longrightarrow> \<not> suffix q s) \<Longrightarrow> trim_right s = s"
  unfolding trim_right_def by (subst strip_runes_id) (auto simp: no_rune_def suffix_to_prefix)

lemma trim_left_rune: "p \<in> set space_runes \<Longrightarrow> trim_left (p @ s) = trim_left s"
proof -
  assume p: "p \<in> set space_runes"
  then have "p \<noteq> []" using space_runes_nonempty(1) by metis
  then obtain n where n: "length (p @ s) = Suc n" "length s \<le> n" by (cases p) auto
  have "\<exists>r. find (\<lambda>q. prefix q (p @ s)) space_runes = Some r"
    using p by (auto simp: find_None_iff simp flip: not_None_eq)
  then obtain r where r: "find (\<lambda>q. prefix q (p @ s)) space_runes = Some r" ..
  then have "r \<in> set space_runes" "prefix r (p @ s)" using find_prefix_Some by blast+
  then have "r = p"
    using p space_runes_apart prefix_same_cases [of r "p @ s" p] by (metis prefixI)
  with r show ?thesis
    unfolding trim_left_def n(1)
    using strip_runes_enough [OF space_runes_nonempty(1), of s n] n(2) by simp
qed

lemma trim_left_id: "(\<And>q. q \<in> set space_runes \<Longrightarrow> \<not> prefix q s) \<Longrightarrow> trim_left s = s"
  unfolding trim_left_def by (subst strip_runes_id) (auto simp: no_rune_def)

lemma rune_nonempty: "p \<in> set space_runes \<Longrightarrow> p \<noteq> []"
  using space_runes_nonempty(1) by metis

lemma trim_right_rune_Cons:
  assumes p: "p \<in> set space_runes"
  shows "trim_right (p @ s) = (if trim_right s = [] then [] else p @ trim_right s)"
proof (induction s rule: length_induct)
  case (1 s)
  show ?case
  proof (cases "\<exists>q \<in> set space_runes. suffix q s")
    case True
    then obtain q s' where q: "q \<in> set space_runes" "s = s' @ q" by (auto simp: suffix_def)
    then have "length s' < length s" using rune_nonempty [OF q(1)] by simp
    with 1 show ?thesis unfolding q(2) by (metis append.assoc trim_right_rune [OF q(1)])
  next
    case False
    then have s: "trim_right s = s" by (intro trim_right_id) auto
    show ?thesis
    proof (cases "s = []")
      case True
      then show ?thesis using trim_right_rune [OF p, of "[]"] by simp
    next
      case ne: False
      then have "\<not> suffix q (p @ s)" if "q \<in> set space_runes" for q
        using rune_suffix_apart [OF p that] False that by blast
      then show ?thesis using ne s by (simp add: trim_right_id)
    qed
  qed
qed

lemma trim_commute: "trim_left (trim_right s) = trim_right (trim_left s)"
proof (induction s rule: length_induct)
  case (1 s)
  show ?case
  proof (cases "\<exists>p \<in> set space_runes. prefix p s")
    case True
    then obtain p s' where p: "p \<in> set space_runes" "s = p @ s'" by (auto simp: prefix_def)
    then have "length s' < length s" using rune_nonempty [OF p(1)] by simp
    then have IH: "trim_left (trim_right s') = trim_right (trim_left s')" using 1 by blast
    show ?thesis
      unfolding p(2) trim_left_rune [OF p(1)] IH [symmetric] trim_right_rune_Cons [OF p(1)]
      by (simp add: trim_left_rune [OF p(1)])
  next
    case False
    then have "trim_left s = s" by (intro trim_left_id) auto
    moreover have "trim_left (trim_right s) = trim_right s"
      using False trim_right_prefix prefix_order.trans by (intro trim_left_id) blast
    ultimately show ?thesis by simp
  qed
qed

lemma TrimSpace_trim_right: "TrimSpace (trim_right s) = TrimSpace s"
proof -
  have "trim_right (trim_right s) = trim_right s"
    unfolding trim_right_def rev_rev_ident
    by (subst strip_runes_id [OF strip_runes_no_rune [OF space_runes_nonempty(2)]]) simp_all
  then show ?thesis by (simp add: TrimSpace_def flip: trim_commute)
qed

lemma TrimSpace_skip_space: "TrimSpace (skip_space s) = TrimSpace s"
proof (induction s)
  case (Cons c s)
  have "[c] \<in> set space_runes" if "re_space c" using that by (auto simp: re_space_def space_runes_def)
  then show ?case
    using Cons trim_left_rune [of "[c]" s] by (auto simp: skip_space_def TrimSpace_def)
qed (simp add: skip_space_def)

lemma TrimSpace_skip_right: "TrimSpace (rev (skip_space (rev s))) = TrimSpace s"
proof (induction s rule: rev_induct)
  case (snoc c s)
  have "[c] \<in> set space_runes" if "re_space c" using that by (auto simp: re_space_def space_runes_def)
  then show ?case
    using snoc trim_right_rune [of "[c]" s]
    by (auto simp: skip_space_def TrimSpace_def simp flip: trim_commute)
qed (simp add: skip_space_def)

section \<open>One mark at a time\<close>

definition left :: "string \<Rightarrow> string \<Rightarrow> bool" where
  "left x t \<longleftrightarrow> list_tag x = Some t \<or> reply_mark x = Some t"

inductive red :: "string \<Rightarrow> string \<Rightarrow> bool" where
  red_left: "left x t \<Longrightarrow> red x (TrimSpace t)"
| red_trailer: "trailer x = Some u \<Longrightarrow> red x (TrimSpace u)"

inductive_cases redE: "red x y"

lemma solid_chars [simp]:
  "solid CHR ''['' = True" "solid CHR '']'' = True" "solid CHR '':'' = True"
  "solid CHR ''('' = True" "solid CHR '')'' = True"
  by code_simp+

lemma mark_word_hd: "mark_word a \<Longrightarrow> \<exists>c m. a = c # m \<and> solid c \<and> c \<noteq> CHR ''[''"
proof -
  have w: "\<forall>w \<in> set (mark_words @ cjk_words). w \<noteq> [] \<and> solid (hd w) \<and> hd w \<noteq> CHR ''[''" by code_simp
  assume "mark_word a"
  then obtain w where *: "w \<in> set (mark_words @ cjk_words)" "prefix w a"
    by (auto simp: mark_word_def list_ex_iff)
  with w have "w \<noteq> []" "solid (hd w)" "hd w \<noteq> CHR ''[''" by blast+
  then show ?thesis using *(2) by (cases w) (auto simp: prefix_def)
qed

lemma list_tag_intro:
  "CHR '']'' \<notin> set b \<Longrightarrow> CHR ''['' \<notin> set b \<Longrightarrow> 1 \<le> rune_count b \<Longrightarrow> rune_count b \<le> 40
   \<Longrightarrow> list_tag (CHR ''['' # b @ CHR '']'' # t) = Some t"
  by (simp add: list_tag_def split2_append)

lemma reply_mark_intro: "CHR '':'' \<notin> set a \<Longrightarrow> mark_word a \<Longrightarrow> reply_mark (a @ CHR '':'' # t) = Some t"
  by (simp add: reply_mark_def split2_append)

lemma left_split:
  assumes "left x t"
  obtains c m d where "x = c # m @ d # t" "solid c" "solid d" "d = CHR '']'' \<or> d = CHR '':''"
    "\<forall>r. left (c # m @ d # r) r"
proof (cases "list_tag x = Some t")
  case True
  then obtain b where b: "x = CHR ''['' # b @ CHR '']'' # t" "CHR '']'' \<notin> set b" "CHR ''['' \<notin> set b"
    "1 \<le> rune_count b" "rune_count b \<le> 40" using list_tag_Some by blast
  have "left (CHR ''['' # b @ CHR '']'' # r) r" for r
    unfolding left_def using list_tag_intro [OF b(2-5)] by blast
  then show ?thesis using b(1) by (intro that [of "CHR ''[''" b "CHR '']''"]) simp_all
next
  case False
  then have "reply_mark x = Some t" using assms by (simp add: left_def)
  then obtain a where a: "x = a @ CHR '':'' # t" "CHR '':'' \<notin> set a" "mark_word a"
    using reply_mark_Some by blast
  then obtain c m where c: "a = c # m" "solid c" using mark_word_hd by blast
  have "left (a @ CHR '':'' # r) r" for r using a by (simp add: left_def reply_mark_intro)
  then show ?thesis using a c by (intro that [of c m "CHR '':''"]) simp_all
qed

lemma left_fun: "left x t \<Longrightarrow> left x t' \<Longrightarrow> t = t'"
proof -
  have "False" if "list_tag x = Some a" "reply_mark x = Some b" for a b
    using that list_tag_Some [of x a] reply_mark_Some [of x b] mark_word_hd by fastforce
  then show "left x t \<Longrightarrow> left x t' \<Longrightarrow> t = t'" by (auto simp: left_def)
qed

lemma TrimSpace_left_stays:
  assumes "solid c" "solid d"
  shows "TrimSpace (c # m @ d # r) = c # m @ d # trim_right r"
  using trim_right_stop [OF assms(2), of m r] by (simp add: TrimSpace_solid_Cons [OF assms(1)])

lemma trailers_shape: "v \<in> set trailers \<Longrightarrow> \<exists>w. v = CHR ''('' # w @ [CHR '')''] \<and> CHR '':'' \<notin> set v \<and> CHR '']'' \<notin> set v"
  by (auto simp: trailers_def intro: exI [of _ "''fwd''"] exI [of _ "''fw''"])

lemma trailer_intro:
  assumes "v \<in> set trailers"
  shows "trailer (u @ v) = Some u"
proof -
  have "rev (skip_space (rev (u @ v))) = u @ v"
    using assms by (auto simp: trailers_def skip_space_def re_space_def)
  moreover have "find (\<lambda>v'. suffix v' (u @ v)) trailers = Some v"
    using assms by (auto simp: trailers_def suffix_def append_eq_append_conv2 Cons_eq_append_conv)
  ultimately show ?thesis by (simp add: trailer_def)
qed

lemma trailer_trimmed:
  assumes "trailer x = Some u" "TrimSpace x = x"
  obtains v where "v \<in> set trailers" "x = u @ v"
proof -
  obtain v w where *: "v \<in> set trailers" "x = u @ v @ w" "list_all re_space w"
    using trailer_Some [OF assms(1)] by blast
  have "w = []"
  proof (cases w rule: rev_cases)
    case (snoc w' c)
    then have "[c] \<in> set (map rev space_runes)"
      using *(3) by (auto simp: re_space_def space_runes_def)
    moreover have "prefix [c] (rev (TrimSpace x))" using *(2) snoc assms(2) by simp
    ultimately show ?thesis using TrimSpace_no_right [of x] by (auto simp: no_rune_def)
  qed
  with * that show ?thesis by simp
qed

lemma TrimSpace_before_trailer:
  assumes "v \<in> set trailers"
  shows "TrimSpace (r @ v) = trim_left r @ v"
proof -
  obtain w where v: "v = CHR ''('' # w @ [CHR '')'']" using trailers_shape [OF assms] by blast
  have "trim_right v = v" using trim_right_stop [of "CHR '')''" "CHR ''('' # w" "[]"] v by simp
  then show ?thesis using TrimSpace_left_stop [of "CHR ''(''" r "w @ [CHR '')'']"] v by simp
qed

lemma red_local:
  assumes "red x y" "red x z" "TrimSpace x = x"
  shows "y = z \<or> (\<exists>w. red y w \<and> red z w)"
proof -
  have mixed: "\<exists>w. red (TrimSpace t) w \<and> red (TrimSpace u) w" if l: "left x t" and r: "trailer x = Some u" for t u
  proof -
    obtain v where v: "v \<in> set trailers" "x = u @ v" using trailer_trimmed [OF r assms(3)] .
    obtain c m d where l: "x = c # m @ d # t" "solid c" "solid d" "d = CHR '']'' \<or> d = CHR '':''"
      "\<forall>r. left (c # m @ d # r) r" by (rule left_split [OF l])
    have "d \<notin> set v" using trailers_shape [OF v(1)] l(4) by auto
    moreover have "(c # m) @ d # t = u @ v" using l(1) v(2) by simp
    ultimately obtain r where r: "u = c # m @ d # r" "t = r @ v"
      by (fastforce simp: append_eq_append_conv2 Cons_eq_append_conv)
    have "red (TrimSpace t) (TrimSpace (trim_left r))"
      unfolding r TrimSpace_before_trailer [OF v(1)] by (rule red_trailer [OF trailer_intro [OF v(1)]])
    moreover have "red (TrimSpace u) (TrimSpace (trim_right r))"
      unfolding r TrimSpace_left_stays [OF l(2,3)] by (rule red_left) (rule l(5) [rule_format])
    ultimately show ?thesis unfolding TrimSpace_trim_left TrimSpace_trim_right by blast
  qed
  show ?thesis using assms(1,2)
  proof (elim redE)
    fix t t' assume "y = TrimSpace t" "left x t" "z = TrimSpace t'" "left x t'"
    then show ?thesis using left_fun by blast
  qed (use mixed in \<open>blast | simp\<close>)+
qed

lemma red_shorter: "red x y \<Longrightarrow> length y < length x"
proof (erule redE)
  fix t assume "y = TrimSpace t" "left x t"
  then show ?thesis
    using sublist_length_le [OF TrimSpace_sublist, of t] by (auto elim!: left_split)
next
  fix u assume "y = TrimSpace u" "trailer x = Some u"
  then show ?thesis
    using sublist_length_le [OF TrimSpace_sublist, of u]
    by (fastforce dest!: trailer_Some simp: trailers_def)
qed

lemma red_trimmed: "red x y \<Longrightarrow> TrimSpace y = y"
  by (erule redE) simp_all

definition normal :: "string \<Rightarrow> bool" where "normal x \<longleftrightarrow> (\<forall>y. \<not> red x y)"

lemma normal_exists: "\<exists>n. red\<^sup>*\<^sup>* x n \<and> normal n"
proof (induction x rule: length_induct)
  case (1 x)
  show ?case
  proof (cases "normal x")
    case False
    then obtain y where "red x y" by (auto simp: normal_def)
    with 1 red_shorter show ?thesis by (meson converse_rtranclp_into_rtranclp)
  qed blast
qed

lemma normal_unique:
  "TrimSpace x = x \<Longrightarrow> red\<^sup>*\<^sup>* x a \<Longrightarrow> normal a \<Longrightarrow> red\<^sup>*\<^sup>* x b \<Longrightarrow> normal b \<Longrightarrow> a = b"
proof (induction x arbitrary: a b rule: length_induct)
  case (1 x)
  have IH: "a = b" if "red x y" "red\<^sup>*\<^sup>* y a" "normal a" "red\<^sup>*\<^sup>* y b" "normal b" for y a b
    using 1(1) red_shorter [OF that(1)] red_trimmed [OF that(1)] that by blast
  show ?case
  proof (cases "normal x")
    case True
    then show ?thesis using 1 by (metis converse_rtranclpE normal_def)
  next
    case False
    then obtain y z where yz: "red x y" "red\<^sup>*\<^sup>* y a" "red x z" "red\<^sup>*\<^sup>* z b"
      using 1 by (metis converse_rtranclpE)
    from red_local [OF yz(1,3) 1(2)] show ?thesis
    proof
      assume "\<exists>w. red y w \<and> red z w"
      then obtain w n where "red y w" "red z w" "red\<^sup>*\<^sup>* w n" "normal n" using normal_exists by blast
      then have "red\<^sup>*\<^sup>* y n" "red\<^sup>*\<^sup>* z n" by (simp_all add: converse_rtranclp_into_rtranclp)
      with \<open>normal n\<close> have "a = n" "b = n" using IH yz 1 by blast+
      then show ?thesis by simp
    qed (use IH yz 1 in blast)
  qed
qed

section \<open>The loop computes the normal form\<close>

lemma red_tags: "red\<^sup>*\<^sup>* (TrimSpace s) (TrimSpace (strip_tags s))"
proof (induction s rule: strip_tags.induct)
  case (1 s)
  show ?case
  proof (cases "list_tag s")
    case (Some t)
    then have "left s t" by (simp add: left_def)
    then obtain c m d where l: "s = c # m @ d # t" "solid c" "solid d" "\<forall>r. left (c # m @ d # r) r"
      by (rule left_split) blast
    have "red (TrimSpace s) (TrimSpace (trim_right t))"
      unfolding l(1) TrimSpace_left_stays [OF l(2,3)] by (rule red_left) (rule l(4) [rule_format])
    then have "red (TrimSpace s) (TrimSpace (skip_space t))"
      by (simp add: TrimSpace_trim_right TrimSpace_skip_space)
    with 1 [OF Some] Some show ?thesis
      by (subst strip_tags.simps) (simp add: converse_rtranclp_into_rtranclp)
  qed (simp add: strip_tags.simps)
qed

lemma red_mark: "TrimSpace y = y \<Longrightarrow> red\<^sup>*\<^sup>* y (TrimSpace (strip_mark y))"
  by (cases "reply_mark y")
     (auto simp: strip_mark_def left_def TrimSpace_skip_space intro!: r_into_rtranclp red_left)

lemma red_strip_trailer: "TrimSpace y = y \<Longrightarrow> red\<^sup>*\<^sup>* y (TrimSpace (strip_trailer y))"
  by (cases "trailer y")
     (auto simp: strip_trailer_def TrimSpace_skip_right intro!: r_into_rtranclp red_trailer)

lemma reds_length: "red\<^sup>*\<^sup>* x y \<Longrightarrow> x = y \<or> length y < length x"
  by (induction rule: rtranclp_induct) (auto dest: red_shorter)

lemma thread_round_red:
  assumes "TrimSpace x = x"
  shows "red\<^sup>*\<^sup>* x (thread_round x)" and "thread_round x = x \<Longrightarrow> normal x"
proof -
  define a where "a = TrimSpace (strip_tags x)"
  define b where "b = TrimSpace (strip_mark a)"
  have x: "thread_round x = TrimSpace (strip_trailer b)" by (simp add: thread_round_def a_def b_def)
  have xa: "red\<^sup>*\<^sup>* x a" using red_tags [of x] assms by (simp add: a_def)
  have ab: "red\<^sup>*\<^sup>* a b" using red_mark [of a] by (simp add: a_def b_def)
  have bx: "red\<^sup>*\<^sup>* b (thread_round x)" using red_strip_trailer [of b] by (simp add: x b_def)
  show "red\<^sup>*\<^sup>* x (thread_round x)" using xa ab bx by simp
  assume fix_x: "thread_round x = x"
  then have eqs: "a = x" "b = x" using reds_length [OF xa] reds_length [OF ab] reds_length [OF bx] by auto
  have "list_tag x = None"
  proof (rule ccontr)
    assume "list_tag x \<noteq> None"
    then obtain t where "list_tag x = Some t" by blast
    moreover have "length (strip_tags (skip_space t)) \<le> length t"
      using suffix_length_le [OF strip_tags_suffix, of "skip_space t"]
        suffix_length_le [OF skip_space_suffix, of t] by linarith
    ultimately show False
      using eqs(1) sublist_length_le [OF TrimSpace_sublist, of "strip_tags x"]
      by (auto simp: a_def strip_tags.simps [of x] dest!: list_tag_Some)
  qed
  moreover have "reply_mark x = None"
  proof (rule ccontr)
    assume "reply_mark x \<noteq> None"
    then obtain t where t: "reply_mark x = Some t" by blast
    then have "red x b" using red_left [of x t] eqs(1)
      by (simp add: b_def strip_mark_def TrimSpace_skip_space left_def)
    then show False using red_shorter eqs(2) by blast
  qed
  moreover have "trailer x = None"
  proof (rule ccontr)
    assume "trailer x \<noteq> None"
    then obtain u where "trailer x = Some u" by blast
    then have "red x (thread_round x)" using red_trailer [of x u] eqs(2)
      by (simp add: x strip_trailer_def TrimSpace_skip_right)
    then show False using red_shorter fix_x by fastforce
  qed
  ultimately show "normal x" by (auto simp: normal_def left_def elim!: redE)
qed

lemma thread_loop_normal:
  "TrimSpace x = x \<Longrightarrow> red\<^sup>*\<^sup>* x (thread_loop x) \<and> normal (thread_loop x)"
proof (induction x rule: thread_loop.induct)
  case (1 x)
  have nil: "thread_round [] = []"
    using thread_round_sublist [of "[]"] by simp
  show ?case
  proof (cases "thread_round x = x")
    case True
    then have "thread_loop x = x" by (subst thread_loop.simps) simp
    then show ?thesis using thread_round_red(2) [OF 1(2) True] by simp
  next
    case False
    then have "x \<noteq> []" using nil by auto
    moreover have "TrimSpace (thread_round x) = thread_round x" by (simp add: thread_round_def)
    ultimately have "red\<^sup>*\<^sup>* (thread_round x) (thread_loop (thread_round x)) \<and> normal (thread_loop (thread_round x))"
      using 1(1) False by blast
    then show ?thesis
      using thread_round_red(1) [OF 1(2)] False \<open>x \<noteq> []\<close>
      by (subst (1 2) thread_loop.simps) (auto intro: rtranclp_trans)
  qed
qed

lemma thread_loop_red: "TrimSpace x = x \<Longrightarrow> red x y \<Longrightarrow> thread_loop x = thread_loop y"
  using thread_loop_normal [of x] thread_loop_normal [of y] red_trimmed [of x y]
  by (blast intro: normal_unique converse_rtranclp_into_rtranclp)

section \<open>Subjects\<close>

text \<open>The loop of the subject normalization ends: after at most as many passes as the subject has bytes it
  reaches a text that a further pass leaves alone.\<close>

theorem thread_subject_loop_ends:
  "\<exists>n. n \<le> length s \<and> thread_loop s = (thread_round ^^ n) s
       \<and> thread_round (thread_loop s) = thread_loop s"
proof (induction s rule: thread_loop.induct)
  case (1 s)
  show ?case
  proof (cases "thread_round s = s")
    case True
    then have "thread_loop s = s" by (subst thread_loop.simps) simp
    with True show ?thesis by (intro exI [of _ 0]) simp
  next
    case False
    then have "s \<noteq> []" using thread_round_sublist [of "[]"] by auto
    with 1 False obtain n where n: "n \<le> length (thread_round s)"
      "thread_loop (thread_round s) = (thread_round ^^ n) (thread_round s)"
      "thread_round (thread_loop (thread_round s)) = thread_loop (thread_round s)" by blast
    moreover have "thread_loop s = thread_loop (thread_round s)"
      using False \<open>s \<noteq> []\<close> by (subst thread_loop.simps) simp
    ultimately show ?thesis
      using thread_round_shortens [OF False] by (intro exI [of _ "Suc n"]) (simp add: funpow_swap1)
  qed
qed

lemma ascii_lower_cases: "ascii_lower c = c \<or> 97 \<le> byte_of (ascii_lower c) \<and> byte_of (ascii_lower c) \<le> 122"
  by (simp add: ascii_lower_def)

lemma ascii_lower_punct:
  "ascii_lower c = CHR ''['' \<longleftrightarrow> c = CHR ''[''" "ascii_lower c = CHR '']'' \<longleftrightarrow> c = CHR '']''"
proof -
  have *: "ascii_lower c = d \<longleftrightarrow> c = d" if "byte_of d < 97" "ascii_lower d = d" for d
    using ascii_lower_cases [of c] that by auto
  show "ascii_lower c = CHR ''['' \<longleftrightarrow> c = CHR ''[''" "ascii_lower c = CHR '']'' \<longleftrightarrow> c = CHR '']''"
    by (rule *; simp add: ascii_lower_def)+
qed

lemma rune_count_ToLower: "rune_count (ToLower b) = rune_count b"
proof -
  have "utf8_cont (ascii_lower c) = utf8_cont c" for c
    by (auto simp: utf8_cont_def ascii_lower_def)
  then show ?thesis by (simp add: rune_count_def ToLower_def filter_map o_def)
qed

lemma notin_ToLower:
  "CHR ''['' \<notin> set b \<Longrightarrow> CHR ''['' \<notin> set (ToLower b)" "CHR '']'' \<notin> set b \<Longrightarrow> CHR '']'' \<notin> set (ToLower b)"
  using ascii_lower_punct unfolding ToLower_def set_map by (metis imageE)+

lemma skip_space_Nil: "skip_space s = [] \<Longrightarrow> c \<in> set s \<Longrightarrow> re_space c"
  by (auto simp: skip_space_def dropWhile_eq_Nil_conv)

lemma counter_tail_no_colon: "counter_tail r \<Longrightarrow> CHR '':'' \<notin> set r"
proof
  assume r: "counter_tail r" "CHR '':'' \<in> set r"
  have sp: "\<not> re_space CHR '':''" "\<not> is_digit CHR '':''" by code_simp+
  have "CHR '':'' \<in> set (skip_space r)"
    using r(2) sp(1) set_takeWhileD [of "CHR '':''" re_space r] takeWhile_dropWhile_id [of re_space r]
    unfolding skip_space_def by (metis Un_iff set_append)
  then show False
    using r(1) sp skip_space_Nil
    by (auto simp: counter_tail_def list_all_iff split: list.splits option.splits dest!: split2_Some)
qed

lemma mark_word_no_colon:
  assumes "mark_word a"
  shows "CHR '':'' \<notin> set a"
proof -
  have words: "\<forall>w \<in> set (mark_words @ cjk_words). CHR '':'' \<notin> set w" by code_simp
  obtain w where w: "w \<in> set (mark_words @ cjk_words)" "prefix w a" "CHR '':'' \<notin> set (drop (length w) a)"
  proof -
    have sp: "\<not> re_space CHR '':''" by code_simp
    have "\<exists>w. w \<in> set (mark_words @ cjk_words) \<and> prefix w a \<and> CHR '':'' \<notin> set (drop (length w) a)"
      using assms counter_tail_no_colon skip_space_Nil sp unfolding mark_word_def list_ex_iff by fastforce
    then show ?thesis using that by blast
  qed
  then have "a = w @ drop (length w) a" by (auto simp: prefix_def)
  with w words show ?thesis by (metis Un_iff set_append)
qed

lemma normal_form_left:
  assumes "\<forall>r. left (c # m @ d # r) r" "solid c" "solid d"
  shows "thread_loop (TrimSpace (c # m @ d # s)) = thread_loop (TrimSpace s)"
proof -
  have "red (TrimSpace (c # m @ d # s)) (TrimSpace (trim_right s))"
    unfolding TrimSpace_left_stays [OF assms(2,3)] by (rule red_left) (rule assms(1) [rule_format])
  then show ?thesis by (simp add: thread_loop_red TrimSpace_trim_right)
qed

lemma normal_form_mark:
  assumes "mark_word a"
  shows "thread_loop (TrimSpace (a @ CHR '':'' # s)) = thread_loop (TrimSpace s)"
proof -
  obtain c m where c: "a = c # m" "solid c" using mark_word_hd [OF assms] by blast
  have "\<forall>r. left (c # m @ CHR '':'' # r) r"
    using reply_mark_intro [OF mark_word_no_colon [OF assms] assms] by (simp add: left_def c(1))
  from normal_form_left [OF this c(2)] show ?thesis by (simp add: c(1))
qed

lemma normal_form_tag:
  assumes "CHR '']'' \<notin> set b" "CHR ''['' \<notin> set b" "1 \<le> rune_count b" "rune_count b \<le> 40"
  shows "thread_loop (TrimSpace (CHR ''['' # b @ CHR '']'' # s)) = thread_loop (TrimSpace s)"
  using list_tag_intro [OF assms] by (intro normal_form_left) (simp_all add: left_def)

lemma normal_form_trailer:
  assumes "v \<in> set trailers"
  shows "thread_loop (TrimSpace (s @ v)) = thread_loop (TrimSpace s)"
proof -
  have "red (TrimSpace (s @ v)) (TrimSpace (trim_left s))"
    unfolding TrimSpace_before_trailer [OF assms] by (rule red_trailer [OF trailer_intro [OF assms]])
  then show ?thesis by (simp add: thread_loop_red TrimSpace_trim_left)
qed

text \<open>C35: Replies and forwards keep the subject by which messages are grouped: a reply mark (any of the known
  words in any case, with an optional counter) or a list tag in front of a subject, and a forward note
  behind it, make no difference, whatever the subject is and however often they were added.\<close>

theorem thread_subject_stable:
  fixes s :: string
  shows "(\<forall>a. mark_word (ToLower a) \<longrightarrow> NormalizeThreadSubject (a @ '':'' @ s) = NormalizeThreadSubject s)
    \<and> (\<forall>b. CHR ''['' \<notin> set b \<and> CHR '']'' \<notin> set b \<and> 1 \<le> rune_count b \<and> rune_count b \<le> 40
           \<longrightarrow> NormalizeThreadSubject (''['' @ b @ '']'' @ s) = NormalizeThreadSubject s)
    \<and> NormalizeThreadSubject (s @ ''(fwd)'') = NormalizeThreadSubject s
    \<and> NormalizeThreadSubject (s @ ''(fw)'') = NormalizeThreadSubject s"
proof (intro conjI allI impI)
  have app: "ToLower (x @ y) = ToLower x @ ToLower y" for x y by (simp add: ToLower_def)
  have lits: "ToLower (CHR '':'' # x) = CHR '':'' # ToLower x" "ToLower (CHR ''['' # x) = CHR ''['' # ToLower x"
    "ToLower (CHR '']'' # x) = CHR '']'' # ToLower x" "ToLower ''(fwd)'' = ''(fwd)''" "ToLower ''(fw)'' = ''(fw)''" for x
    by (simp_all add: ToLower_def ascii_lower_def)
  note simps = NormalizeThreadSubject_def app lits
  show "NormalizeThreadSubject (a @ '':'' @ s) = NormalizeThreadSubject s" if "mark_word (ToLower a)" for a
    using normal_form_mark [OF that, of "ToLower s"] by (simp add: simps)
  show "NormalizeThreadSubject (''['' @ b @ '']'' @ s) = NormalizeThreadSubject s"
    if "CHR ''['' \<notin> set b \<and> CHR '']'' \<notin> set b \<and> 1 \<le> rune_count b \<and> rune_count b \<le> 40" for b
    using normal_form_tag [of "ToLower b" "ToLower s"] that notin_ToLower
    by (simp add: simps rune_count_ToLower)
  show "NormalizeThreadSubject (s @ ''(fwd)'') = NormalizeThreadSubject s"
    "NormalizeThreadSubject (s @ ''(fw)'') = NormalizeThreadSubject s"
    using normal_form_trailer [of _ "ToLower s"] by (simp_all add: simps trailers_def)
qed

theorem thread_subject_stable_witness:
  "NormalizeThreadSubject ''Re[2]: Status'' = NormalizeThreadSubject '' Status''
   \<and> NormalizeThreadSubject ''[Team] Re: Status'' = NormalizeThreadSubject '' Re: Status''"
proof
  have "mark_word (ToLower ''Re[2]'')" by code_simp
  then show "NormalizeThreadSubject ''Re[2]: Status'' = NormalizeThreadSubject '' Status''"
    using conjunct1 [OF thread_subject_stable [of "'' Status''"], rule_format, of "''Re[2]''"] by simp
  have "1 \<le> rune_count ''Team''" "rune_count ''Team'' \<le> 40" by code_simp+
  then show "NormalizeThreadSubject ''[Team] Re: Status'' = NormalizeThreadSubject '' Re: Status''"
    using thread_subject_stable [of "'' Re: Status''", THEN conjunct2, THEN conjunct1, rule_format, of "''Team''"]
    by simp
qed

section \<open>Message ids\<close>


lemma add_all_distinct:
  "distinct acc \<Longrightarrow> [] \<notin> set acc \<Longrightarrow>
   distinct (foldl (\<lambda>out v. add_new out (f v)) acc vs) \<and> [] \<notin> set (foldl (\<lambda>out v. add_new out (f v)) acc vs)"
proof (induction vs arbitrary: acc)
  case (Cons v vs)
  have "distinct (add_new acc (f v))" "[] \<notin> set (add_new acc (f v))"
    using Cons.prems by (auto simp: add_new_def)
  with Cons.IH show ?case by simp
qed simp

lemma add_all_set: "set (foldl (\<lambda>out v. add_new out (f v)) acc vs) \<subseteq> set acc \<union> f ` set vs"
proof (induction vs arbitrary: acc)
  case (Cons v vs)
  have "set (add_new acc (f v)) \<subseteq> insert (f v) (set acc)" by (auto simp: add_new_def)
  with Cons [of "add_new acc (f v)"] show ?case by auto
qed simp

lemma add_all_new:
  "distinct (acc @ map f vs) \<Longrightarrow> [] \<notin> f ` set vs \<Longrightarrow>
   foldl (\<lambda>out v. add_new out (f v)) acc vs = acc @ map f vs"
  by (induction vs arbitrary: acc) (auto simp: add_new_def)

lemma headers_distinct: "distinct (NormalizeMessageIDHeaders vs)" "[] \<notin> set (NormalizeMessageIDHeaders vs)"
  using add_all_distinct [of "[]" NormalizeMessageIDHeader vs] by (simp_all add: NormalizeMessageIDHeaders_def)

lemma headers_origin: "i \<in> set (NormalizeMessageIDHeaders vs) \<Longrightarrow> \<exists>v. i = NormalizeMessageIDHeader v"
  using add_all_set [of NormalizeMessageIDHeader "[]" vs] by (auto simp: NormalizeMessageIDHeaders_def)


lemma normalized_id: "ToLower (NormalizeMessageIDHeader v) = NormalizeMessageIDHeader v"
  "TrimSpace (NormalizeMessageIDHeader v) = NormalizeMessageIDHeader v"
proof -
  have low: "ToLower x = x" if "sublist x (ToLower y)" for x y
    unfolding ToLower_def using set_mono_sublist [OF that] by (intro map_idI) (auto simp: ToLower_def)
  have "sublist (normalizeMessageIDToken t) (ToLower t)" for t
  proof -
    have sub: "sublist (TrimSuffix x a) x" "sublist (TrimPrefix x a) x" for x a
      by (simp_all add: TrimSuffix_def TrimPrefix_def sublist_take sublist_drop)
    show ?thesis unfolding normalizeMessageIDToken_def
      by (meson TrimSpace_sublist sub sublist_order.order_trans)
  qed
  then have "ToLower (normalizeMessageIDToken t) = normalizeMessageIDToken t" for t by (rule low)
  then show "ToLower (NormalizeMessageIDHeader v) = NormalizeMessageIDHeader v"
    by (simp add: NormalizeMessageIDHeader_def)
  show "TrimSpace (NormalizeMessageIDHeader v) = NormalizeMessageIDHeader v"
    by (simp add: NormalizeMessageIDHeader_def normalizeMessageIDToken_def)
qed

text \<open>An id that none of the separators of an id list occurs in.\<close>

definition plain_id :: "string \<Rightarrow> bool" where "plain_id i \<longleftrightarrow> list_all (\<lambda>c. \<not> id_sep c) i"

lemma tokens_run:
  assumes "plain_id i"
  shows "msgid_tokens i = (if addr_run i then [i] else [])"
    and "msgid_tokens (i @ CHR '' '' # r) = (if addr_run i then [i] else []) @ msgid_tokens r"
proof -
  have sp: "id_sep CHR '' ''" "id_sep CHR ''<''" by (simp_all add: id_sep_def)
  have nil: "msgid_tokens [] = []" by (simp add: msgid_tokens.simps)
  have blank: "msgid_tokens (CHR '' '' # r) = msgid_tokens r" for r
    by (subst msgid_tokens.simps) (simp add: sp)
  have "msgid_tokens (i @ q) = (if addr_run i then [i] else []) @ msgid_tokens q"
    if q: "q = [] \<or> (\<exists>r. q = CHR '' '' # r)" for q
  proof (cases i)
    case Nil
    then show ?thesis by (simp add: addr_run_def)
  next
    case (Cons c j)
    have j: "\<forall>d \<in> set j. \<not> id_sep d" and c: "\<not> id_sep c" using assms Cons by (auto simp: plain_id_def list_all_iff)
    have "takeWhile (\<lambda>d. \<not> id_sep d) (j @ q) = j" "dropWhile (\<lambda>d. \<not> id_sep d) (j @ q) = q"
      using j q sp(1) by auto
    then show ?thesis using Cons c sp(2) by (subst msgid_tokens.simps) auto
  qed
  from this [of "[]"] this [of "CHR '' '' # r"]
  show "msgid_tokens i = (if addr_run i then [i] else [])"
    "msgid_tokens (i @ CHR '' '' # r) = (if addr_run i then [i] else []) @ msgid_tokens r"
    by (simp_all add: nil blank)
qed

lemma tokens_Join:
  "(\<forall>i \<in> set ids. plain_id i) \<Longrightarrow> msgid_tokens (Join ids '' '') = filter addr_run ids"
  by (induction ids "'' ''" rule: Join.induct) (simp_all add: tokens_run msgid_tokens.simps [of "[]"])

lemma normalize_plain:
  assumes "plain_id i" "ToLower i = i" "TrimSpace i = i"
  shows "NormalizeMessageIDHeader i = i"
proof -
  have "\<not> prefix ''<'' i" "\<not> suffix ''>'' i"
    using assms(1) set_mono_prefix [of "''<''" i] set_mono_suffix [of "''>''" i]
    by (auto simp: plain_id_def list_all_iff id_sep_def)
  then have "normalizeMessageIDToken i = i"
    using assms by (simp add: normalizeMessageIDToken_def TrimPrefix_def TrimSuffix_def)
  then show ?thesis
    using assms tokens_run(1) [OF assms(1)]
    by (simp add: NormalizeMessageIDHeader_def FindMessageIDToken_def addr_run_def)
qed

lemma normalize_idem: "plain_id (NormalizeMessageIDHeader v) \<Longrightarrow>
  NormalizeMessageIDHeader (NormalizeMessageIDHeader v) = NormalizeMessageIDHeader v"
  by (simp add: normalize_plain normalized_id)

text \<open>C37: Of the ids of a references header that hold no blank, comma or angle bracket, written as a list and read back,
  exactly those survive that have an at-sign inside: an id without one, which the list is written with, is lost when
  the list is read, and the index reads every list it is given before storing it.  (An id with a separator, which the
  pattern takes between angle brackets, is written without the brackets and read back in parts.)\<close>

theorem references_roundtrip:
  assumes "\<forall>i \<in> set (NormalizeMessageIDHeaders vs). plain_id i"
  shows "ParseMessageIDList (FormatMessageIDList vs) = filter addr_run (NormalizeMessageIDHeaders vs)"
proof -
  let ?ids = "filter addr_run (NormalizeMessageIDHeaders vs)"
  have fixed: "map NormalizeMessageIDHeader ?ids = ?ids"
    using assms headers_origin normalize_idem by (intro map_idI) fastforce
  have "foldl (\<lambda>out v. add_new out (NormalizeMessageIDHeader v)) [] ?ids = [] @ map NormalizeMessageIDHeader ?ids"
  proof (rule add_all_new)
    show "distinct ([] @ map NormalizeMessageIDHeader ?ids)" using fixed headers_distinct(1) by simp
    show "[] \<notin> NormalizeMessageIDHeader ` set ?ids"
      unfolding set_map [symmetric] fixed using headers_distinct(2) by simp
  qed
  then have "NormalizeMessageIDHeaders ?ids = ?ids" 
    using fixed by (metis NormalizeMessageIDHeaders_def append_Nil)
  then show ?thesis by (simp only: ParseMessageIDList_def FormatMessageIDList_def tokens_Join [OF assms])
qed

theorem references_roundtrip_witness:
  "ParseMessageIDList (FormatMessageIDList [''<A@x>'', ''<local-id>'', ''<b@x>'']) = [''a@x'', ''b@x'']"
proof -
  have ids: "NormalizeMessageIDHeaders [''<A@x>'', ''<local-id>'', ''<b@x>''] = [''a@x'', ''local-id'', ''b@x'']"
    by code_simp
  have plain: "\<forall>i \<in> set [''a@x'', ''local-id'', ''b@x'']. plain_id i" by code_simp
  have "filter addr_run [''a@x'', ''local-id'', ''b@x''] = [''a@x'', ''b@x'']" by code_simp
  with references_roundtrip [of "[''<A@x>'', ''<local-id>'', ''<b@x>'']", unfolded ids, OF plain]
  show ?thesis by simp
qed









end
