(* ===== verification/OutboundPolicy.thy ===== *)
theory OutboundPolicy
  imports Threading MailProviders
begin

text \<open>
  \<^verbatim>\<open>internal/service/outbound.go\<close>, what decides without touching a table: the policies of a campaign, the
  classification of replies and the footer of a mail.

  A policy is a JSON object in a column of the campaign.  \<^verbatim>\<open>json.Unmarshal\<close> into a struct that holds the
  defaults is the parameter \<open>unmarshal\<close> (text and defaults to the filled struct; errors are ignored by
  the code).  The search for a return date in an out-of-office reply is a parameter as well.
\<close>

section \<open>Normalization\<close>

text \<open>A text that must be one of a list of words, up to case and blanks, and is a default otherwise.\<close>

definition one_of :: "string list \<Rightarrow> string \<Rightarrow> string \<Rightarrow> string" where
  "one_of words dflt raw = (let v = ToLower (TrimSpace raw) in if v \<in> set words then v else dflt)"

definition reply_outcomes :: "string list" where
  "reply_outcomes =
     [''positive_interest'', ''meeting_intent'', ''question'', ''objection'', ''referral'', ''wrong_person'',
      ''not_interested'', ''unsubscribe_request'', ''out_of_office'', ''bounce'', ''auto_reply_other'', ''hostile'',
      ''manual_review_required'']"

definition normalizeReplyOutcome :: "string \<Rightarrow> string" where
  "normalizeReplyOutcome raw = one_of reply_outcomes [] raw"

definition firstNonEmptyString :: "string list \<Rightarrow> string" where
  "firstNonEmptyString values = opt_str (find (\<lambda>v. v \<noteq> []) (map TrimSpace values))"

section \<open>Policies\<close>

record outboundReplyPolicy =
  StopOnReply :: bool
  PauseOnQuestion :: bool
  PauseOnObjection :: bool
  PauseOnManualReview :: bool
  PauseOnOutOfOffice :: bool
  AutoResumeOutOfOffice :: bool
  StopSameDomainOnReply :: bool
  StopSameDomainOnPositive :: bool
  StopSameDomainOnNegative :: bool
  SuppressSameDomainOnHostile :: bool

record outboundSuppressionPolicy =
  SameDomainPositiveStop :: bool
  SameDomainNegativeStop :: bool
  SameDomainUnsubscribeSuppress :: bool
  SameDomainHostileSuppress :: bool
  WorkspaceSuppressUnsubscribe :: bool
  WorkspaceSuppressBounce :: bool

record outboundSchedulePolicy =
  Timezone :: string
  MaxSendsPerDay :: int
  MaxSendsPerHour :: int
  MaxSendsPerDomainPerDay :: int
  RespectProviderCaps :: bool

record outboundCompliancePolicy =
  UnsubscribeRequired :: bool
  UnsubscribeScope :: string
  TrackingMode :: string
  Promotional :: bool
  FooterMode :: string

record outboundGovernancePolicy =
  RecipientCollisionMode :: string
  DomainCollisionMode :: string
  MaxActivePerDomain :: int
  PositiveDomainAction :: string
  NegativeDomainAction :: string
  UnsubscribeDomainAction :: string
  HostileDomainAction :: string

record outboundTaskPolicy =
  tp_Title :: string
  tp_Instructions :: string
  tp_ActionLabel :: string

record outboundSeedContext =
  sd_AccountID :: string
  sd_ThreadID :: string
  sd_MessageID :: string
  sd_ThreadSubject :: string
  sd_Mailbox :: string

record outboundProviderPacing =
  DailyCap :: int
  HourlyCap :: int
  GapSeconds :: int

type_synonym payload = "(string \<times> string) list"

type_synonym 'p unmarshal = "string \<Rightarrow> 'p \<Rightarrow> 'p"

definition parsed :: "'p unmarshal \<Rightarrow> string \<Rightarrow> 'p \<Rightarrow> 'p" where
  "parsed unmarshal raw policy =
     (let trimmed = TrimSpace raw in if trimmed = [] \<or> trimmed = ''{}'' then policy else unmarshal trimmed policy)"

definition default_reply_policy :: outboundReplyPolicy where
  "default_reply_policy =
     \<lparr>StopOnReply = True, PauseOnQuestion = True, PauseOnObjection = True, PauseOnManualReview = True,
      PauseOnOutOfOffice = True, AutoResumeOutOfOffice = True, StopSameDomainOnReply = False,
      StopSameDomainOnPositive = False, StopSameDomainOnNegative = False, SuppressSameDomainOnHostile = True\<rparr>"

definition parseOutboundReplyPolicy :: "outboundReplyPolicy unmarshal \<Rightarrow> string \<Rightarrow> outboundReplyPolicy" where
  "parseOutboundReplyPolicy unmarshal raw = parsed unmarshal raw default_reply_policy"

definition parseOutboundSuppressionPolicy ::
  "outboundSuppressionPolicy unmarshal \<Rightarrow> string \<Rightarrow> outboundSuppressionPolicy" where
  "parseOutboundSuppressionPolicy unmarshal raw =
     parsed unmarshal raw
       \<lparr>SameDomainPositiveStop = False, SameDomainNegativeStop = False, SameDomainUnsubscribeSuppress = True,
        SameDomainHostileSuppress = True, WorkspaceSuppressUnsubscribe = True, WorkspaceSuppressBounce = True\<rparr>"

definition parseOutboundSchedulePolicy :: "outboundSchedulePolicy unmarshal \<Rightarrow> string \<Rightarrow> outboundSchedulePolicy" where
  "parseOutboundSchedulePolicy unmarshal raw =
     parsed unmarshal raw
       \<lparr>Timezone = [], MaxSendsPerDay = 0, MaxSendsPerHour = 0, MaxSendsPerDomainPerDay = 0, RespectProviderCaps = False\<rparr>"

definition nonblank_or :: "string \<Rightarrow> string \<Rightarrow> string" where
  "nonblank_or dflt v = (if TrimSpace v = [] then dflt else v)"

definition parseOutboundCompliancePolicy ::
  "outboundCompliancePolicy unmarshal \<Rightarrow> string \<Rightarrow> outboundCompliancePolicy" where
  "parseOutboundCompliancePolicy unmarshal raw =
     (let p = parsed unmarshal raw
        \<lparr>UnsubscribeRequired = False, UnsubscribeScope = ''recipient'', TrackingMode = ''none'', Promotional = False,
         FooterMode = ''compliance''\<rparr>
      in p\<lparr>UnsubscribeScope := nonblank_or ''recipient'' (UnsubscribeScope p),
           TrackingMode := nonblank_or ''none'' (TrackingMode p),
           FooterMode := nonblank_or ''compliance'' (FooterMode p)\<rparr>)"

definition normalizeOutboundGovernanceCollisionMode :: "string \<Rightarrow> string" where
  "normalizeOutboundGovernanceCollisionMode raw = one_of [''block''] ''warn'' raw"

definition governance_actions :: "string list" where
  "governance_actions =
     [''stop_campaign'', ''stop_workspace'', ''pause_workspace'', ''suppress_campaign'', ''suppress_workspace'']"

definition normalizeOutboundGovernanceAction :: "string \<Rightarrow> string" where
  "normalizeOutboundGovernanceAction raw = one_of governance_actions ''none'' raw"

definition parseOutboundGovernancePolicy ::
  "outboundGovernancePolicy unmarshal \<Rightarrow> string \<Rightarrow> outboundGovernancePolicy" where
  "parseOutboundGovernancePolicy unmarshal raw =
     (let p = parsed unmarshal raw
        \<lparr>RecipientCollisionMode = ''warn'', DomainCollisionMode = ''warn'', MaxActivePerDomain = 0,
         PositiveDomainAction = ''none'', NegativeDomainAction = ''none'',
         UnsubscribeDomainAction = ''suppress_workspace'', HostileDomainAction = ''suppress_workspace''\<rparr>
      in \<lparr>RecipientCollisionMode = normalizeOutboundGovernanceCollisionMode (RecipientCollisionMode p),
          DomainCollisionMode = normalizeOutboundGovernanceCollisionMode (DomainCollisionMode p),
          MaxActivePerDomain = max 0 (MaxActivePerDomain p),
          PositiveDomainAction = normalizeOutboundGovernanceAction (PositiveDomainAction p),
          NegativeDomainAction = normalizeOutboundGovernanceAction (NegativeDomainAction p),
          UnsubscribeDomainAction = normalizeOutboundGovernanceAction (UnsubscribeDomainAction p),
          HostileDomainAction = normalizeOutboundGovernanceAction (HostileDomainAction p)\<rparr>)"

definition parseOutboundTaskPolicy :: "outboundTaskPolicy unmarshal \<Rightarrow> string \<Rightarrow> outboundTaskPolicy" where
  "parseOutboundTaskPolicy unmarshal raw =
     (let p = parsed unmarshal raw \<lparr>tp_Title = [], tp_Instructions = [], tp_ActionLabel = ''Mark handled and continue''\<rparr>
      in \<lparr>tp_Title = TrimSpace (tp_Title p), tp_Instructions = TrimSpace (tp_Instructions p),
          tp_ActionLabel = firstNonEmptyString [TrimSpace (tp_ActionLabel p), ''Mark handled and continue'']\<rparr>)"

definition parseOutboundSeedContext :: "outboundSeedContext unmarshal \<Rightarrow> string \<Rightarrow> outboundSeedContext" where
  "parseOutboundSeedContext unmarshal raw =
     (let p = parsed unmarshal raw \<lparr>sd_AccountID = [], sd_ThreadID = [], sd_MessageID = [], sd_ThreadSubject = [], sd_Mailbox = []\<rparr>
      in \<lparr>sd_AccountID = TrimSpace (sd_AccountID p), sd_ThreadID = TrimSpace (sd_ThreadID p),
          sd_MessageID = TrimSpace (sd_MessageID p), sd_ThreadSubject = TrimSpace (sd_ThreadSubject p),
          sd_Mailbox = TrimSpace (sd_Mailbox p)\<rparr>)"

text \<open>A map from outcomes to actions.  Of two keys that normalize to the same, the code keeps the one its
  map iteration meets last, here the one that comes last.\<close>

definition parseOutboundBranchPolicy :: "(string \<Rightarrow> payload option) \<Rightarrow> string \<Rightarrow> payload" where
  "parseOutboundBranchPolicy unmarshal raw =
     (let trimmed = TrimSpace raw in
      if trimmed = [] \<or> trimmed = ''{}'' then []
      else case unmarshal trimmed of
        None \<Rightarrow> []
      | Some kvs \<Rightarrow>
          rev (filter (\<lambda>(k, v). k \<noteq> [] \<and> v \<noteq> [] \<and> v \<noteq> ''default'')
                 (map (\<lambda>(k, v). (ToLower (TrimSpace k), ToLower (TrimSpace v))) kvs)))"

definition outboundProviderPacingForAccount :: "MailAccount \<Rightarrow> outboundProviderPacing" where
  "outboundProviderPacingForAccount account =
     (let t = NormalizeMailProviderType (ma_ProviderType account) in
      if t = MailProviderTypeGmail then \<lparr>DailyCap = 150, HourlyCap = 20, GapSeconds = 120\<rparr>
      else if t = MailProviderTypeLibero then \<lparr>DailyCap = 100, HourlyCap = 12, GapSeconds = 240\<rparr>
      else \<lparr>DailyCap = 80, HourlyCap = 10, GapSeconds = 240\<rparr>)"

section \<open>Replies\<close>

text \<open>The fields of \<^verbatim>\<open>models.IndexedMessage\<close> that the outbound code reads.\<close>

record IndexedMessage =
  im_ID :: string
  im_ThreadID :: string
  im_MessageIDHeader :: string
  im_InReplyToHeader :: string
  im_ReferencesHeader :: string
  im_FromValue :: string
  im_Subject :: string
  im_Snippet :: string
  im_BodyText :: string
  im_RawSource :: string
  im_DateHeader :: "gotime option"
  im_InternalDate :: "gotime option"

definition outboundBounceMarkers :: "string list" where
  "outboundBounceMarkers =
     [''delivery status notification'',
      ''delivery failure'',
      ''mail delivery failed'',
      ''undeliverable'',
      ''returned mail'',
      ''failure notice'']"

definition outboundOOOMarkers :: "string list" where
  "outboundOOOMarkers =
     [''out of office'',
      ''out-of-office'',
      ''automatic reply'',
      ''auto reply'',
      ''auto-reply'',
      ''autoreply'',
      ''vacation responder'',
      ''away from the office'']"

definition outboundUnsubscribeMarkers :: "string list" where
  "outboundUnsubscribeMarkers =
     [''unsubscribe'',
      ''remove me'',
      ''don'' @ [CHR 0x27] @ ''t contact me'',
      ''do not contact me'',
      ''stop emailing me'',
      ''stop contacting me'',
      ''take me off'',
      [CHR 0xD0, CHR 0xBD, CHR 0xD0, CHR 0xB5] @ '' '' @ [CHR 0xD0, CHR 0xBF, CHR 0xD0, CHR 0xB8, CHR 0xD1, CHR 0x88, CHR 0xD0, CHR 0xB8, CHR 0xD1, CHR 0x82, CHR 0xD0, CHR 0xB5] @ '' '' @ [CHR 0xD0, CHR 0xBC, CHR 0xD0, CHR 0xBD, CHR 0xD0, CHR 0xB5]]"

definition outboundNotInterestedMarkers :: "string list" where
  "outboundNotInterestedMarkers =
     [''not interested'',
      ''no interest'',
      ''no thanks'',
      ''not a fit'',
      ''pass on this'',
      ''not for us'',
      [CHR 0xD0, CHR 0xBD, CHR 0xD0, CHR 0xB5] @ '' '' @ [CHR 0xD0, CHR 0xB8, CHR 0xD0, CHR 0xBD, CHR 0xD1, CHR 0x82, CHR 0xD0, CHR 0xB5, CHR 0xD1, CHR 0x80, CHR 0xD0, CHR 0xB5, CHR 0xD1, CHR 0x81, CHR 0xD0, CHR 0xBD, CHR 0xD0, CHR 0xBE]]"

definition outboundPositiveMarkers :: "string list" where
  "outboundPositiveMarkers =
     [''interested'',
      ''sounds good'',
      ''let'' @ [CHR 0x27] @ ''s talk'',
      ''lets talk'',
      ''happy to chat'',
      ''looks relevant'',
      [CHR 0xD0, CHR 0xB4, CHR 0xD0, CHR 0xB0, CHR 0xD0, CHR 0xB2, CHR 0xD0, CHR 0xB0, CHR 0xD0, CHR 0xB9, CHR 0xD1, CHR 0x82, CHR 0xD0, CHR 0xB5] @ '' '' @ [CHR 0xD0, CHR 0xBE, CHR 0xD0, CHR 0xB1, CHR 0xD1, CHR 0x81, CHR 0xD1, CHR 0x83, CHR 0xD0, CHR 0xB4, CHR 0xD0, CHR 0xB8, CHR 0xD0, CHR 0xBC]]"

definition outboundMeetingMarkers :: "string list" where
  "outboundMeetingMarkers =
     [''meeting'',
      ''calendar'',
      ''schedule'',
      ''book time'',
      ''book a call'',
      ''call next week'',
      ''demo'',
      [CHR 0xD0, CHR 0xB2, CHR 0xD1, CHR 0x81, CHR 0xD1, CHR 0x82, CHR 0xD1, CHR 0x80, CHR 0xD0, CHR 0xB5, CHR 0xD1, CHR 0x87],
      [CHR 0xD1, CHR 0x81, CHR 0xD0, CHR 0xBE, CHR 0xD0, CHR 0xB7, CHR 0xD0, CHR 0xB2, CHR 0xD0, CHR 0xBE, CHR 0xD0, CHR 0xBD]]"

definition outboundWrongPersonMarkers :: "string list" where
  "outboundWrongPersonMarkers =
     [''wrong person'',
      ''not the right person'',
      ''not the best person'',
      ''left the company'',
      ''no longer work here'',
      ''i'' @ [CHR 0x27] @ ''m not the right'',
      [CHR 0xD0, CHR 0xBD, CHR 0xD0, CHR 0xB5] @ '' '' @ [CHR 0xD1, CHR 0x82, CHR 0xD0, CHR 0xBE, CHR 0xD1, CHR 0x82] @ '' '' @ [CHR 0xD1, CHR 0x87, CHR 0xD0, CHR 0xB5, CHR 0xD0, CHR 0xBB, CHR 0xD0, CHR 0xBE, CHR 0xD0, CHR 0xB2, CHR 0xD0, CHR 0xB5, CHR 0xD0, CHR 0xBA]]"

definition outboundReferralMarkers :: "string list" where
  "outboundReferralMarkers =
     [''reach out to'',
      ''contact '',
      ''speak with'',
      ''talk to'',
      ''loop in'',
      ''connect with'']"

definition outboundObjectionMarkers :: "string list" where
  "outboundObjectionMarkers =
     [''budget'',
      ''timing'',
      ''already use'',
      ''already working with'',
      ''contract'',
      ''security review'']"

definition outboundHostileMarkers :: "string list" where
  "outboundHostileMarkers =
     [''stop spamming'',
      ''spam me'',
      ''fuck off'',
      ''leave me alone'',
      [CHR 0xD0, CHR 0xB8, CHR 0xD0, CHR 0xB4, CHR 0xD0, CHR 0xB8] @ '' '' @ [CHR 0xD0, CHR 0xBD, CHR 0xD0, CHR 0xB0, CHR 0xD1, CHR 0x85]]"

definition containsAnyFold :: "string \<Rightarrow> string list \<Rightarrow> bool" where
  "containsAnyFold haystack needles =
     (let v = ToLower (TrimSpace haystack) in list_ex (\<lambda>n. n \<noteq> [] \<and> Contains v (ToLower n)) needles)"

definition extractReplyBodyFingerprint :: "IndexedMessage \<Rightarrow> string" where
  "extractReplyBodyFingerprint m =
     (let body = TrimSpace (im_BodyText m) in ToLower (if body = [] then TrimSpace (im_Snippet m) else body))"

text \<open>The outcome, the confidence in hundredths and the date of return.\<close>

definition classifyOutboundReply ::
  "(IndexedMessage \<Rightarrow> gotime option) \<Rightarrow> IndexedMessage \<Rightarrow> string \<times> int \<times> gotime option" where
  "classifyOutboundReply return_date m =
     (let subject = ToLower (TrimSpace (im_Subject m));
          body = extractReplyBodyFingerprint m;
          from_value = ToLower (TrimSpace (im_FromValue m));
          raw = ToLower (TrimSpace (im_RawSource m));
          joined = Join [subject, body, from_value, raw] [CHR 0x0A]
      in if containsAnyFold from_value [''mailer-daemon'', ''postmaster''] \<or> containsAnyFold joined outboundBounceMarkers
         then (''bounce'', 98, None)
         else if Contains raw ''auto-submitted: auto-replied'' \<or> containsAnyFold joined outboundOOOMarkers
         then (''out_of_office'', 90, return_date m)
         else if Contains raw ''auto-submitted:'' then (''auto_reply_other'', 70, None)
         else if containsAnyFold joined outboundUnsubscribeMarkers then (''unsubscribe_request'', 96, None)
         else if containsAnyFold joined outboundHostileMarkers then (''hostile'', 90, None)
         else if containsAnyFold joined outboundWrongPersonMarkers
         then (if Contains body ''@'' \<or> containsAnyFold joined outboundReferralMarkers
               then (''referral'', 82, None) else (''wrong_person'', 90, None))
         else if containsAnyFold joined outboundNotInterestedMarkers then (''not_interested'', 90, None)
         else if containsAnyFold joined outboundMeetingMarkers then (''meeting_intent'', 86, None)
         else if containsAnyFold joined outboundPositiveMarkers then (''positive_interest'', 82, None)
         else if containsAnyFold joined outboundObjectionMarkers then (''objection'', 68, None)
         else if Contains body ''?'' then (''question'', 62, None)
         else (''manual_review_required'', 35, None))"

definition footer_text :: string where
  "footer_text = ''To opt out of future outreach, reply with '' @ [CHR 0x22] @ ''unsubscribe'' @ [CHR 0x22] @ ''.''"

definition appendOutboundComplianceFooter :: "string \<Rightarrow> outboundCompliancePolicy \<Rightarrow> string" where
  "appendOutboundComplianceFooter body0 compliance =
     (let body = TrimSpace body0 in
      if \<not> UnsubscribeRequired compliance then body
      else if EqualFold (TrimSpace (FooterMode compliance)) ''none'' then body
      else if body = [] then footer_text
      else body @ [CHR 0x0A, CHR 0x0A, CHR ''-'', CHR ''-'', CHR 0x0A] @ footer_text)"

definition recipientStateStatusForOutcome :: "string \<Rightarrow> string" where
  "recipientStateStatusForOutcome outcome =
     (let o' = normalizeReplyOutcome outcome in
      if o' = ''positive_interest'' then ''interested''
      else if o' = ''meeting_intent'' then ''meeting_booked''
      else if o' \<in> {''question'', ''objection'', ''referral'', ''out_of_office'', ''auto_reply_other'', ''manual_review_required''}
      then ''replied''
      else if o' = ''wrong_person'' then ''wrong_person''
      else if o' = ''not_interested'' then ''not_interested''
      else if o' = ''unsubscribe_request'' then ''unsubscribed''
      else if o' = ''bounce'' then ''hard_bounce''
      else if o' = ''hostile'' then ''suppressed''
      else ''active'')"

end
