(* ===== verification/Addresses.thy ===== *)
theory Addresses
  imports Runtime
begin

text \<open>
  \<^verbatim>\<open>internal/mail/address.go\<close> and \<^verbatim>\<open>internal/api/mail_addresses.go\<close>: one mailbox address in a request or a row.
\<close>

definition NormalizeMailboxAddress :: "Svc \<Rightarrow> string \<Rightarrow> err + string" where
  "NormalizeMailboxAddress sv raw =
     (let trimmed = TrimSpace raw in
      if trimmed = [] then Inl (ErrMsg ''email address is required'')
      else case Svc.ParseAddress sv trimmed of
        None \<Rightarrow> Inl (ErrMsg ''invalid email address'')
      | Some a \<Rightarrow> (if TrimSpace a = [] then Inl (ErrMsg ''invalid email address'') else Inr (TrimSpace a)))"

definition normalizeRequiredMailboxAddress :: "Svc \<Rightarrow> string \<Rightarrow> string \<Rightarrow> err + string" where
  "normalizeRequiredMailboxAddress sv raw field =
     (let trimmed = TrimSpace raw in
      if trimmed = [] then Inl (ErrMsg (field @ '' is required''))
      else case NormalizeMailboxAddress sv trimmed of
        Inl _ \<Rightarrow> Inl (ErrMsg (field @ '' must be a valid email address'')) | Inr a \<Rightarrow> Inr a)"

definition normalizeOptionalMailboxAddress :: "Svc \<Rightarrow> string \<Rightarrow> string \<Rightarrow> err + string" where
  "normalizeOptionalMailboxAddress sv raw field =
     (let trimmed = TrimSpace raw in
      if trimmed = [] then Inr []
      else case NormalizeMailboxAddress sv trimmed of
        Inl _ \<Rightarrow> Inl (ErrMsg (field @ '' must be a valid email address'')) | Inr a \<Rightarrow> Inr a)"

lemma mailbox_address_trimmed: "normalizeRequiredMailboxAddress sv raw field = Inr a \<Longrightarrow> a \<noteq> [] \<and> TrimSpace a = a"
  by (auto simp: normalizeRequiredMailboxAddress_def NormalizeMailboxAddress_def Let_def split: if_splits option.splits sum.splits)

end
