(* ===== verification/OutboundStore.thy ===== *)
theory OutboundStore
  imports OutboundPolicy StoreUsers Addresses
begin

text \<open>
  \<^verbatim>\<open>internal/store/outbound.go\<close> and \<^verbatim>\<open>internal/models/outbound.go\<close>: the tables of outbound campaigns and
  the statements on them.

  An operation runs over the tables of the campaigns, the mail sent so far and the world of the account
  server, from which it takes clock, UUIDs and users.  As in \<open>Runtime\<close>, every statement may fail, and
  other requests and workers may change the tables before it.  A nullable text column that the scan
  turns into the empty string is a string here, a nullable time is an option; the columns that only the
  lists of the user interface join in (names, counters, labels) are left out.  The payload of an event,
  a JSON object, is kept as its list of members.
\<close>

section \<open>Rows\<close>

record OutboundCampaign =
  oc_ID :: string
  oc_UserID :: string
  oc_Name :: string
  oc_Status :: string
  oc_GoalKind :: string
  oc_PlaybookKey :: string
  oc_CampaignMode :: string
  oc_AudienceSourceKind :: string
  oc_AudienceSourceRef :: string
  oc_SenderPolicyKind :: string
  oc_SenderPolicyRef :: string
  oc_ReplyPolicyJSON :: string
  oc_SuppressionPolicyJSON :: string
  oc_SchedulePolicyJSON :: string
  oc_CompliancePolicyJSON :: string
  oc_GovernancePolicyJSON :: string
  oc_CreatedAt :: gotime
  oc_UpdatedAt :: gotime
  oc_LaunchedAt :: "gotime option"
  oc_CompletedAt :: "gotime option"

record OutboundCampaignStep =
  st_ID :: string
  st_CampaignID :: string
  st_Position :: int
  st_Kind :: string
  st_ThreadMode :: string
  st_SubjectTemplate :: string
  st_BodyTemplate :: string
  st_WaitIntervalMinutes :: int
  st_SendWindowJSON :: string
  st_TaskPolicyJSON :: string
  st_BranchPolicyJSON :: string
  st_StopIfReplied :: bool
  st_StopIfClicked :: bool
  st_StopIfBooked :: bool
  st_StopIfUnsubscribed :: bool
  st_CreatedAt :: gotime
  st_UpdatedAt :: gotime

record OutboundEnrollment =
  en_ID :: string
  en_CampaignID :: string
  en_ContactID :: string
  en_RecipientEmail :: string
  en_RecipientDomain :: string
  en_SenderAccountID :: string
  en_SenderProfileID :: string
  en_ReplyFunnelID :: string
  en_ThreadBindingID :: string
  en_Status :: string
  en_CurrentStepPosition :: int
  en_LastSentMessageID :: string
  en_LastSentAt :: "gotime option"
  en_NextActionAt :: "gotime option"
  en_PauseReason :: string
  en_StopReason :: string
  en_ReplyOutcome :: string
  en_ReplyConfidence :: int
  en_ManualOwnerUserID :: string
  en_SeedContextJSON :: string
  en_CreatedAt :: "gotime option"
  en_UpdatedAt :: "gotime option"

text \<open>The confidence, a floating-point number that is only stored, is kept in hundredths.\<close>

record OutboundEvent =
  ev_ID :: string
  ev_CampaignID :: string
  ev_EnrollmentID :: string
  ev_EventKind :: string
  ev_Payload :: payload
  ev_ActorKind :: string
  ev_ActorRef :: string
  ev_CreatedAt :: gotime

record RecipientState =
  rs_UserID :: string
  rs_RecipientEmail :: string
  rs_PrimaryContactID :: string
  rs_RecipientDomain :: string
  rs_Status :: string
  rs_Scope :: string
  rs_LastReplyAt :: "gotime option"
  rs_LastReplyOutcome :: string
  rs_SuppressedUntil :: "gotime option"
  rs_SuppressionReason :: string
  rs_Notes :: string
  rs_UpdatedAt :: "gotime option"

record MailThreadBinding =
  tb_ID :: string
  tb_AccountID :: string
  tb_ThreadID :: string
  tb_BindingType :: string
  tb_CampaignID :: string
  tb_EnrollmentID :: string
  tb_FunnelID :: string
  tb_ReplyAccountID :: string
  tb_ReplySenderProfileID :: string
  tb_CollectorAccountID :: string
  tb_OwnerUserID :: string
  tb_RecipientEmail :: string
  tb_RecipientDomain :: string
  tb_RootOutboundMessageID :: string
  tb_LastOutboundMessageID :: string
  tb_LastReplyMessageID :: string
  tb_ThreadSubject :: string
  tb_LastReplyAt :: "gotime option"
  tb_CreatedAt :: "gotime option"
  tb_UpdatedAt :: "gotime option"

record OutboundSuppression =
  sp_ID :: string
  sp_UserID :: string
  sp_ScopeKind :: string
  sp_ScopeValue :: string
  sp_CampaignID :: string
  sp_Reason :: string
  sp_SourceKind :: string
  sp_ExpiresAt :: "gotime option"
  sp_CreatedAt :: "gotime option"
  sp_UpdatedAt :: "gotime option"

definition zero_binding :: MailThreadBinding where
  "zero_binding = \<lparr>tb_ID = [], tb_AccountID = [], tb_ThreadID = [], tb_BindingType = [], tb_CampaignID = [],
     tb_EnrollmentID = [], tb_FunnelID = [], tb_ReplyAccountID = [], tb_ReplySenderProfileID = [],
     tb_CollectorAccountID = [], tb_OwnerUserID = [], tb_RecipientEmail = [], tb_RecipientDomain = [],
     tb_RootOutboundMessageID = [], tb_LastOutboundMessageID = [], tb_LastReplyMessageID = [],
     tb_ThreadSubject = [], tb_LastReplyAt = None, tb_CreatedAt = None, tb_UpdatedAt = None\<rparr>"

record odb =
  campaigns :: "OutboundCampaign list"
  steps :: "OutboundCampaignStep list"
  enrollments :: "OutboundEnrollment list"
  events :: "OutboundEvent list"
  recipient_states :: "RecipientState list"
  bindings :: "MailThreadBinding list"
  suppressions :: "OutboundSuppression list"

definition campaigns_keys :: "(OutboundCampaign, string list) keys" where "campaigns_keys = [\<lambda>r. [oc_ID r]]"

definition steps_keys :: "(OutboundCampaignStep, string \<times> int) keys" where
  "steps_keys = [\<lambda>r. (st_ID r, 0), \<lambda>r. (st_CampaignID r, st_Position r)]"

definition enrollments_keys :: "(OutboundEnrollment, string list) keys" where
  "enrollments_keys = [\<lambda>r. [en_ID r], \<lambda>r. [en_CampaignID r, sql_lower (en_RecipientEmail r)]]"

definition events_keys :: "(OutboundEvent, string list) keys" where "events_keys = [\<lambda>r. [ev_ID r]]"

definition recipient_keys :: "(RecipientState, string list) keys" where
  "recipient_keys = [\<lambda>r. [rs_UserID r, sql_lower (rs_RecipientEmail r)]]"

definition bindings_keys :: "(MailThreadBinding, string list) keys" where "bindings_keys = [\<lambda>r. [tb_ID r]]"

definition suppressions_keys :: "(OutboundSuppression, string list) keys" where
  "suppressions_keys =
     [\<lambda>r. [sp_ID r], \<lambda>r. [sp_UserID r, sp_ScopeKind r, sql_lower (sp_ScopeValue r), sp_CampaignID r]]"

section \<open>Running operations\<close>

text \<open>\<open>outboundSenderSelection\<close> and the rendered step are what the choice of a sender and the rendering of
  a template yield; the request is what the mail client is given.\<close>

record outboundSenderSelection =
  sel_Account :: MailAccount
  sel_SenderProfileID :: string
  sel_HeaderFromName :: string
  sel_HeaderFromEmail :: string
  sel_EnvelopeFrom :: string
  sel_ReplyTo :: string
  sel_ReplyAccountID :: string
  sel_ReplyFunnelID :: string
  sel_CollectorAccountID :: string

record outboundRenderedStep =
  rd_Subject :: string
  rd_Body :: string
  rd_Missing :: "string list"
  rd_Selection :: outboundSenderSelection

record SendRequest =
  rq_From :: string
  rq_HeaderFromName :: string
  rq_HeaderFromEmail :: string
  rq_EnvelopeFrom :: string
  rq_ReplyTo :: string
  rq_To :: "string list"
  rq_Subject :: string
  rq_Body :: string
  rq_MessageID :: string
  rq_InReplyToID :: string
  rq_References :: "string list"

text \<open>What is around the campaigns: the account server, the faults of the tables and the changes of
  others, JSON, the rendering of a step and the choice of its sender (their results may depend on the
  tables), the secrets of accounts, the mail client, the recognition of own messages and of return dates,
  a JSON string's text, compact JSON and times in RFC 3339.\<close>

record oenv =
  oe_svc :: Svc
  oe_fault :: "nat \<Rightarrow> string option"
  oe_others :: "nat \<Rightarrow> odb \<Rightarrow> odb"
  oe_reply :: "outboundReplyPolicy unmarshal"
  oe_suppression :: "outboundSuppressionPolicy unmarshal"
  oe_schedule :: "outboundSchedulePolicy unmarshal"
  oe_compliance :: "outboundCompliancePolicy unmarshal"
  oe_governance :: "outboundGovernancePolicy unmarshal"
  oe_task :: "outboundTaskPolicy unmarshal"
  oe_seed :: "outboundSeedContext unmarshal"
  oe_branch :: "string \<Rightarrow> payload option"
  oe_render :: "nat \<Rightarrow> OutboundCampaign \<Rightarrow> OutboundCampaignStep \<Rightarrow> OutboundEnrollment \<Rightarrow> err + outboundRenderedStep"
  oe_select :: "nat \<Rightarrow> OutboundCampaign \<Rightarrow> OutboundEnrollment \<Rightarrow> err + outboundSenderSelection"
  oe_decrypt :: "MailAccount \<Rightarrow> err + string"
  oe_send :: "nat \<Rightarrow> SendRequest \<Rightarrow> err option"
  oe_self :: "nat \<Rightarrow> MailAccount \<Rightarrow> IndexedMessage \<Rightarrow> err + bool"
  oe_indexed :: "nat \<Rightarrow> string \<Rightarrow> string \<Rightarrow> IndexedMessage option"
  oe_return_date :: "IndexedMessage \<Rightarrow> gotime option"
  oe_json_text :: "string \<Rightarrow> string option"
  oe_json_compact :: "string \<Rightarrow> string option"
  oe_rfc3339 :: "string \<Rightarrow> gotime option"

text \<open>A mail that left: whose campaign it was, which enrollment and step, and the request.\<close>

record sent_mail =
  sn_UserID :: string
  sn_CampaignID :: string
  sn_EnrollmentID :: string
  sn_Position :: int
  sn_Request :: SendRequest

record ostate =
  ob_db :: odb
  ob_sent :: "sent_mail list"
  ob_world :: world

type_synonym 'a Ob = "oenv \<Rightarrow> ostate \<Rightarrow> (err + 'a) \<times> ostate"

definition retO :: "'a \<Rightarrow> 'a Ob" where "retO x = (\<lambda>v s. (Inr x, s))"

definition failO :: "err \<Rightarrow> 'a Ob" where "failO e = (\<lambda>v s. (Inl e, s))"

definition tryO :: "'a Ob \<Rightarrow> (err + 'a \<Rightarrow> 'b Ob) \<Rightarrow> 'b Ob" where
  "tryO m k = (\<lambda>v s. case m v s of (r, s') \<Rightarrow> k r v s')"

definition bindO :: "'a Ob \<Rightarrow> ('a \<Rightarrow> 'b Ob) \<Rightarrow> 'b Ob" where
  "bindO m k = tryO m (\<lambda>r. case r of Inl e \<Rightarrow> failO e | Inr x \<Rightarrow> k x)"

definition thenO :: "'a Ob \<Rightarrow> 'b Ob \<Rightarrow> 'b Ob" where "thenO m k = bindO m (\<lambda>_. k)"

definition ignoreO :: "'a Ob \<Rightarrow> 'b Ob \<Rightarrow> 'b Ob" where "ignoreO m k = tryO m (\<lambda>_. k)"

definition askO :: "(oenv \<Rightarrow> 'a) \<Rightarrow> 'a Ob" where "askO f = (\<lambda>v s. (Inr (f v), s))"

definition liftO :: "(oenv \<Rightarrow> nat \<Rightarrow> err + 'a) \<Rightarrow> 'a Ob" where
  "liftO f = (\<lambda>v s. let w = ob_world s in (f v (w_n w), s\<lparr>ob_world := w\<lparr>w_n := Suc (w_n w)\<rparr>\<rparr>))"

text \<open>An operation of the account server: its clock, its UUIDs, its tables.\<close>

definition coreO :: "'a M \<Rightarrow> 'a Ob" where
  "coreO m = (\<lambda>v s. case m (oe_svc v) (ob_world s) of (r, w) \<Rightarrow> (r, s\<lparr>ob_world := w\<rparr>))"

abbreviation nowO :: "gotime Ob" where "nowO \<equiv> coreO time_Now"
abbreviation uuidO :: "string Ob" where "uuidO \<equiv> coreO uuid_NewString"

definition stmtO :: "(odb \<Rightarrow> (odb \<times> 'a) option) \<Rightarrow> 'a Ob" where
  "stmtO f = (\<lambda>v s.
     let w = ob_world s; n = w_n w;
         s1 = s\<lparr>ob_db := oe_others v n (ob_db s), ob_world := w\<lparr>w_n := Suc n\<rparr>\<rparr>
     in case oe_fault v n of
          Some msg \<Rightarrow> (Inl (DBErr msg), s1)
        | None \<Rightarrow> (case f (ob_db s1) of
                     None \<Rightarrow> (Inl (DBErr ''constraint failed''), s1)
                   | Some (d, x) \<Rightarrow> (Inr x, s1\<lparr>ob_db := d\<rparr>)))"

definition queryO :: "(odb \<Rightarrow> 'a) \<Rightarrow> 'a Ob" where "queryO f = stmtO (\<lambda>d. Some (d, f d))"

definition rowO :: "(odb \<Rightarrow> 'a option) \<Rightarrow> 'a Ob" where
  "rowO f = bindO (queryO f) (\<lambda>r. case r of None \<Rightarrow> failO ErrNotFound | Some x \<Rightarrow> retO x)"

definition putO :: "(odb \<Rightarrow> 'r list) \<Rightarrow> (('r list \<Rightarrow> 'r list) \<Rightarrow> odb \<Rightarrow> odb)
    \<Rightarrow> ('r list \<Rightarrow> ('r list \<times> int) option) \<Rightarrow> int Ob" where
  "putO get upd f = stmtO (\<lambda>d. map_option (\<lambda>(t, n). (upd (\<lambda>_. t) d, n)) (f (get d)))"

fun forO :: "'a list \<Rightarrow> ('a \<Rightarrow> unit Ob) \<Rightarrow> unit Ob" where
  "forO [] f = retO ()"
| "forO (x # xs) f = thenO (f x) (forO xs f)"

section \<open>Campaigns and steps\<close>

definition normalizeOutboundCampaignStatus :: "string \<Rightarrow> string" where
  "normalizeOutboundCampaignStatus raw = one_of [''running'', ''paused'', ''completed'', ''archived''] ''draft'' raw"

definition normalizeOutboundStepKind :: "string \<Rightarrow> string" where
  "normalizeOutboundStepKind raw = one_of [''manual_task''] ''email'' raw"

definition normalizeOutboundThreadMode :: "string \<Rightarrow> string" where
  "normalizeOutboundThreadMode raw = one_of [''new_thread''] ''same_thread'' raw"

definition normalizeOutboundSenderPolicyKind :: "string \<Rightarrow> string" where
  "normalizeOutboundSenderPolicyKind raw =
     one_of [''single_sender'', ''campaign_pool'', ''reply_funnel'', ''thread_owner''] ''preferred_sender'' raw"

definition normalizeOutboundGoalKind :: "string \<Rightarrow> string" where
  "normalizeOutboundGoalKind raw =
     one_of [''thread_revival'', ''find_owner'', ''referral_request'', ''reengage_dormant''] ''general_outreach'' raw"

definition normalizeOutboundCampaignMode :: "string \<Rightarrow> string" where
  "normalizeOutboundCampaignMode raw = one_of [''existing_threads''] ''new_threads'' raw"

definition normalizeOutboundAudienceSourceKind :: "string \<Rightarrow> string" where
  "normalizeOutboundAudienceSourceKind raw = one_of [''contact_group'', ''saved_search'', ''csv_import''] ''manual'' raw"

definition scanOutboundCampaign :: "OutboundCampaign \<Rightarrow> OutboundCampaign" where
  "scanOutboundCampaign c = c\<lparr>
     oc_Status := normalizeOutboundCampaignStatus (oc_Status c),
     oc_GoalKind := normalizeOutboundGoalKind (oc_GoalKind c), oc_PlaybookKey := TrimSpace (oc_PlaybookKey c),
     oc_CampaignMode := normalizeOutboundCampaignMode (oc_CampaignMode c),
     oc_AudienceSourceKind := normalizeOutboundAudienceSourceKind (oc_AudienceSourceKind c),
     oc_AudienceSourceRef := TrimSpace (oc_AudienceSourceRef c),
     oc_SenderPolicyKind := normalizeOutboundSenderPolicyKind (oc_SenderPolicyKind c),
     oc_Name := TrimSpace (oc_Name c), oc_SenderPolicyRef := TrimSpace (oc_SenderPolicyRef c),
     oc_ReplyPolicyJSON := TrimSpace (oc_ReplyPolicyJSON c),
     oc_SuppressionPolicyJSON := TrimSpace (oc_SuppressionPolicyJSON c),
     oc_SchedulePolicyJSON := TrimSpace (oc_SchedulePolicyJSON c),
     oc_CompliancePolicyJSON := TrimSpace (oc_CompliancePolicyJSON c),
     oc_GovernancePolicyJSON := TrimSpace (oc_GovernancePolicyJSON c)\<rparr>"

definition ListOutboundCampaigns :: "string \<Rightarrow> OutboundCampaign list Ob" where
  "ListOutboundCampaigns userID =
     queryO (\<lambda>d. map scanOutboundCampaign
       (sort_key (\<lambda>c. - oc_UpdatedAt c) (sort_key (\<lambda>c. sql_lower (oc_Name c))
         (filter (\<lambda>c. oc_UserID c = userID) (campaigns d)))))"

definition GetOutboundCampaignByID :: "string \<Rightarrow> string \<Rightarrow> OutboundCampaign Ob" where
  "GetOutboundCampaignByID userID i =
     rowO (\<lambda>d. map_option scanOutboundCampaign
       (find (\<lambda>c. oc_UserID c = userID \<and> oc_ID c = TrimSpace i) (campaigns d)))"

definition GetOutboundCampaignByIDAny :: "string \<Rightarrow> OutboundCampaign Ob" where
  "GetOutboundCampaignByIDAny i =
     rowO (\<lambda>d. map_option scanOutboundCampaign (find (\<lambda>c. oc_ID c = TrimSpace i) (campaigns d)))"

definition or_object :: "string \<Rightarrow> string" where
  "or_object raw = (if TrimSpace raw = [] then ''{}'' else TrimSpace raw)"

text \<open>The columns of a campaign that a request writes, normalized.\<close>

definition campaign_columns :: "OutboundCampaign \<Rightarrow> OutboundCampaign \<Rightarrow> OutboundCampaign" where
  "campaign_columns new c = c\<lparr>
     oc_Name := TrimSpace (oc_Name new), oc_Status := normalizeOutboundCampaignStatus (oc_Status new),
     oc_GoalKind := normalizeOutboundGoalKind (oc_GoalKind new), oc_PlaybookKey := TrimSpace (oc_PlaybookKey new),
     oc_CampaignMode := normalizeOutboundCampaignMode (oc_CampaignMode new),
     oc_AudienceSourceKind := normalizeOutboundAudienceSourceKind (oc_AudienceSourceKind new),
     oc_AudienceSourceRef := TrimSpace (oc_AudienceSourceRef new),
     oc_SenderPolicyKind := normalizeOutboundSenderPolicyKind (oc_SenderPolicyKind new),
     oc_SenderPolicyRef := TrimSpace (oc_SenderPolicyRef new),
     oc_ReplyPolicyJSON := or_object (oc_ReplyPolicyJSON new),
     oc_SuppressionPolicyJSON := or_object (oc_SuppressionPolicyJSON new),
     oc_SchedulePolicyJSON := or_object (oc_SchedulePolicyJSON new),
     oc_CompliancePolicyJSON := or_object (oc_CompliancePolicyJSON new),
     oc_GovernancePolicyJSON := or_object (oc_GovernancePolicyJSON new)\<rparr>"

definition CreateOutboundCampaign :: "OutboundCampaign \<Rightarrow> OutboundCampaign Ob" where
  "CreateOutboundCampaign c =
     bindO nowO (\<lambda>now.
     bindO (if TrimSpace (oc_ID c) = [] then uuidO else retO (oc_ID c)) (\<lambda>i.
     thenO (putO campaigns campaigns_update (t_insert campaigns_keys
              (campaign_columns c (c\<lparr>oc_ID := i, oc_CreatedAt := now, oc_UpdatedAt := now\<rparr>))))
     (GetOutboundCampaignByID (oc_UserID c) i)))"

text \<open>The times of launch and completion are taken from the argument, not from the row read before.\<close>

definition UpdateOutboundCampaign :: "OutboundCampaign \<Rightarrow> OutboundCampaign Ob" where
  "UpdateOutboundCampaign c =
     bindO (GetOutboundCampaignByID (oc_UserID c) (oc_ID c)) (\<lambda>current.
     bindO nowO (\<lambda>now.
     bindO (putO campaigns campaigns_update
       (t_update campaigns_keys (\<lambda>r. oc_UserID r = oc_UserID current \<and> oc_ID r = oc_ID current)
         (\<lambda>r. (campaign_columns c r)\<lparr>oc_UpdatedAt := now, oc_LaunchedAt := oc_LaunchedAt c,
            oc_CompletedAt := oc_CompletedAt c\<rparr>))) (\<lambda>n.
     if n = 0 then failO ErrNotFound else GetOutboundCampaignByID (oc_UserID current) (oc_ID current))))"

definition SetOutboundCampaignStatus ::
  "string \<Rightarrow> string \<Rightarrow> string \<Rightarrow> gotime option \<Rightarrow> gotime option \<Rightarrow> unit Ob" where
  "SetOutboundCampaignStatus userID i status launchedAt completedAt =
     bindO nowO (\<lambda>now.
     bindO (putO campaigns campaigns_update
       (t_update campaigns_keys (\<lambda>c. oc_UserID c = userID \<and> oc_ID c = TrimSpace i)
         (\<lambda>c. c\<lparr>oc_Status := normalizeOutboundCampaignStatus status, oc_UpdatedAt := now,
            oc_LaunchedAt := (case launchedAt of None \<Rightarrow> oc_LaunchedAt c | Some t \<Rightarrow> Some t),
            oc_CompletedAt := (case completedAt of None \<Rightarrow> oc_CompletedAt c | Some t \<Rightarrow> Some t)\<rparr>))) (\<lambda>n.
     if n = 0 then failO ErrNotFound else retO ()))"

definition scanOutboundCampaignStep :: "OutboundCampaignStep \<Rightarrow> OutboundCampaignStep" where
  "scanOutboundCampaignStep r = r\<lparr>
     st_Kind := normalizeOutboundStepKind (st_Kind r), st_ThreadMode := normalizeOutboundThreadMode (st_ThreadMode r),
     st_SubjectTemplate := TrimSpace (st_SubjectTemplate r), st_BodyTemplate := TrimSpace (st_BodyTemplate r),
     st_SendWindowJSON := TrimSpace (st_SendWindowJSON r),
     st_TaskPolicyJSON := TrimSpace (st_TaskPolicyJSON r), st_BranchPolicyJSON := TrimSpace (st_BranchPolicyJSON r)\<rparr>"

definition ListOutboundCampaignSteps :: "string \<Rightarrow> OutboundCampaignStep list Ob" where
  "ListOutboundCampaignSteps campaignID =
     queryO (\<lambda>d. map scanOutboundCampaignStep
       (sort_key st_Position (sort_key st_CreatedAt (filter (\<lambda>r. st_CampaignID r = TrimSpace campaignID) (steps d)))))"

definition GetOutboundCampaignStepByID :: "string \<Rightarrow> OutboundCampaignStep Ob" where
  "GetOutboundCampaignStepByID stepID =
     rowO (\<lambda>d. map_option scanOutboundCampaignStep (find (\<lambda>r. st_ID r = TrimSpace stepID) (steps d)))"

definition step_columns :: "OutboundCampaignStep \<Rightarrow> OutboundCampaignStep \<Rightarrow> OutboundCampaignStep" where
  "step_columns new r = r\<lparr>
     st_Position := st_Position new, st_Kind := normalizeOutboundStepKind (st_Kind new),
     st_ThreadMode := normalizeOutboundThreadMode (st_ThreadMode new),
     st_SubjectTemplate := TrimSpace (st_SubjectTemplate new), st_BodyTemplate := TrimSpace (st_BodyTemplate new),
     st_WaitIntervalMinutes := st_WaitIntervalMinutes new, st_SendWindowJSON := or_object (st_SendWindowJSON new),
     st_TaskPolicyJSON := or_object (st_TaskPolicyJSON new), st_BranchPolicyJSON := or_object (st_BranchPolicyJSON new),
     st_StopIfReplied := st_StopIfReplied new, st_StopIfClicked := st_StopIfClicked new,
     st_StopIfBooked := st_StopIfBooked new, st_StopIfUnsubscribed := st_StopIfUnsubscribed new\<rparr>"

definition CreateOutboundCampaignStep :: "OutboundCampaignStep \<Rightarrow> OutboundCampaignStep Ob" where
  "CreateOutboundCampaignStep r =
     bindO nowO (\<lambda>now.
     bindO (if TrimSpace (st_ID r) = [] then uuidO else retO (st_ID r)) (\<lambda>i.
     thenO (putO steps steps_update (t_insert steps_keys
              (step_columns r (r\<lparr>st_ID := i, st_CampaignID := TrimSpace (st_CampaignID r), st_CreatedAt := now, st_UpdatedAt := now\<rparr>))))
     (GetOutboundCampaignStepByID i)))"

definition UpdateOutboundCampaignStep :: "OutboundCampaignStep \<Rightarrow> OutboundCampaignStep Ob" where
  "UpdateOutboundCampaignStep r =
     bindO (GetOutboundCampaignStepByID (st_ID r)) (\<lambda>current.
     bindO nowO (\<lambda>now.
     bindO (putO steps steps_update (t_update steps_keys (\<lambda>x. st_ID x = st_ID current)
              (\<lambda>x. (step_columns r x)\<lparr>st_UpdatedAt := now\<rparr>))) (\<lambda>n.
     if n = 0 then failO ErrNotFound else GetOutboundCampaignStepByID (st_ID current))))"

definition DeleteOutboundCampaignStep :: "string \<Rightarrow> unit Ob" where
  "DeleteOutboundCampaignStep stepID =
     bindO (putO steps steps_update (t_delete (\<lambda>r. st_ID r = TrimSpace stepID))) (\<lambda>n.
     if n = 0 then failO ErrNotFound else retO ())"

definition DeleteOutboundCampaignSteps :: "string \<Rightarrow> unit Ob" where
  "DeleteOutboundCampaignSteps campaignID =
     thenO (putO steps steps_update (t_delete (\<lambda>r. st_CampaignID r = TrimSpace campaignID))) (retO ())"

text \<open>One transaction: an update per id, the first one that violates a unique key undoes them all.  The clock
  is read once here, for the column that only records when a row changed.\<close>

fun reorder_steps :: "gotime \<Rightarrow> string \<Rightarrow> int \<Rightarrow> string list \<Rightarrow> OutboundCampaignStep list \<Rightarrow> OutboundCampaignStep list option" where
  "reorder_steps now campaignID idx [] t = Some t"
| "reorder_steps now campaignID idx (stepID # stepIDs) t =
     (case t_update steps_keys (\<lambda>r. st_CampaignID r = TrimSpace campaignID \<and> st_ID r = TrimSpace stepID)
             (\<lambda>r. r\<lparr>st_Position := idx + 1, st_UpdatedAt := now\<rparr>) t of
        None \<Rightarrow> None
      | Some (t', _) \<Rightarrow> reorder_steps now campaignID (idx + 1) stepIDs t')"

definition ReorderOutboundCampaignSteps :: "string \<Rightarrow> string list \<Rightarrow> unit Ob" where
  "ReorderOutboundCampaignSteps campaignID stepIDs =
     bindO nowO (\<lambda>now.
     thenO (putO steps steps_update (\<lambda>t. map_option (\<lambda>t'. (t', 0)) (reorder_steps now campaignID 0 stepIDs t)))
     (retO ()))"

section \<open>Enrollments\<close>

definition enrollment_statuses :: "string list" where
  "enrollment_statuses =
     [''scheduled'', ''sending'', ''waiting_reply'', ''paused'', ''stopped'', ''completed'', ''bounced'',
      ''unsubscribed'', ''manual_only'']"

definition normalizeOutboundEnrollmentStatus :: "string \<Rightarrow> string" where
  "normalizeOutboundEnrollmentStatus raw = one_of enrollment_statuses ''pending'' raw"

text \<open>\<^verbatim>\<open>strings.LastIndex(value, "@")\<close>: what follows the last at-sign.\<close>

definition outboundRecipientDomain :: "string \<Rightarrow> string" where
  "outboundRecipientDomain email =
     (let v = ToLower (TrimSpace email) in
      if CHR ''@'' \<in> set v then TrimSpace (rev (takeWhile (\<lambda>c. c \<noteq> CHR ''@'') (rev v))) else [])"

definition normalizeOutboundRecipientEmail :: "Svc \<Rightarrow> string \<Rightarrow> err + string" where
  "normalizeOutboundRecipientEmail sv raw =
     map_sum id (\<lambda>a. ToLower (TrimSpace a)) (NormalizeMailboxAddress sv raw)"

definition scanOutboundEnrollment :: "OutboundEnrollment \<Rightarrow> OutboundEnrollment" where
  "scanOutboundEnrollment e = e\<lparr>
     en_ContactID := TrimSpace (en_ContactID e), en_SenderAccountID := TrimSpace (en_SenderAccountID e),
     en_SenderProfileID := TrimSpace (en_SenderProfileID e), en_ReplyFunnelID := TrimSpace (en_ReplyFunnelID e),
     en_ThreadBindingID := TrimSpace (en_ThreadBindingID e), en_Status := normalizeOutboundEnrollmentStatus (en_Status e),
     en_ReplyOutcome := normalizeReplyOutcome (en_ReplyOutcome e),
     en_ManualOwnerUserID := TrimSpace (en_ManualOwnerUserID e), en_SeedContextJSON := TrimSpace (en_SeedContextJSON e),
     en_PauseReason := TrimSpace (en_PauseReason e), en_StopReason := TrimSpace (en_StopReason e),
     en_LastSentMessageID := TrimSpace (en_LastSentMessageID e)\<rparr>"

text \<open>The rows of \<^verbatim>\<open>outboundEnrollmentSelectSQL\<close>: an enrollment with its campaign.\<close>

definition enrolled :: "odb \<Rightarrow> (OutboundEnrollment \<times> OutboundCampaign) list" where
  "enrolled d = concat (map (\<lambda>e. map (Pair e) (filter (\<lambda>c. oc_ID c = en_CampaignID e) (campaigns d))) (enrollments d))"

definition select_enrollments ::
  "(OutboundEnrollment \<times> OutboundCampaign \<Rightarrow> bool) \<Rightarrow> (OutboundEnrollment \<Rightarrow> int) \<Rightarrow> odb \<Rightarrow> OutboundEnrollment list" where
  "select_enrollments P key d = map scanOutboundEnrollment (sort_key key (map fst (filter P (enrolled d))))"

definition or_zero :: "gotime option \<Rightarrow> gotime" where "or_zero t = (case t of None \<Rightarrow> 0 | Some x \<Rightarrow> x)"

definition ListOutboundEnrollmentsByCampaign :: "string \<Rightarrow> string \<Rightarrow> OutboundEnrollment list Ob" where
  "ListOutboundEnrollmentsByCampaign userID campaignID =
     queryO (select_enrollments (\<lambda>(e, c). oc_UserID c = userID \<and> en_CampaignID e = TrimSpace campaignID)
       (\<lambda>e. - or_zero (en_UpdatedAt e)))"

definition GetOutboundEnrollmentByID :: "string \<Rightarrow> string \<Rightarrow> OutboundEnrollment Ob" where
  "GetOutboundEnrollmentByID userID i =
     rowO (\<lambda>d. map_option (scanOutboundEnrollment \<circ> fst)
       (find (\<lambda>(e, c). oc_UserID c = userID \<and> en_ID e = TrimSpace i) (enrolled d)))"

definition GetOutboundEnrollmentByCampaignEmail :: "string \<Rightarrow> string \<Rightarrow> OutboundEnrollment Ob" where
  "GetOutboundEnrollmentByCampaignEmail campaignID recipientEmail =
     rowO (\<lambda>d. map_option (scanOutboundEnrollment \<circ> fst)
       (find (\<lambda>(e, c). en_CampaignID e = TrimSpace campaignID
          \<and> sql_lower (en_RecipientEmail e) = sql_lower (ToLower (TrimSpace recipientEmail))) (enrolled d)))"

text \<open>The row that \<^verbatim>\<open>UpsertOutboundEnrollment\<close> writes, and the update of an existing row from it, which keeps
  id, campaign, address and creation time.\<close>

definition enrollment_row :: "gotime \<Rightarrow> string \<Rightarrow> OutboundEnrollment \<Rightarrow> OutboundEnrollment" where
  "enrollment_row now recipientEmail e = e\<lparr>
     en_CampaignID := TrimSpace (en_CampaignID e),
     en_RecipientEmail := recipientEmail, en_RecipientDomain := outboundRecipientDomain recipientEmail,
     en_ContactID := TrimSpace (en_ContactID e), en_SenderAccountID := TrimSpace (en_SenderAccountID e),
     en_SenderProfileID := TrimSpace (en_SenderProfileID e), en_ReplyFunnelID := TrimSpace (en_ReplyFunnelID e),
     en_ThreadBindingID := TrimSpace (en_ThreadBindingID e), en_Status := normalizeOutboundEnrollmentStatus (en_Status e),
     en_PauseReason := TrimSpace (en_PauseReason e), en_StopReason := TrimSpace (en_StopReason e),
     en_ReplyOutcome := normalizeReplyOutcome (en_ReplyOutcome e),
     en_ManualOwnerUserID := TrimSpace (en_ManualOwnerUserID e),
     en_SeedContextJSON := (if TrimSpace (en_SeedContextJSON e) = [] then ''{}'' else TrimSpace (en_SeedContextJSON e)),
     en_LastSentMessageID := TrimSpace (en_LastSentMessageID e),
     en_CreatedAt := (case en_CreatedAt e of None \<Rightarrow> Some now | Some t \<Rightarrow> Some t), en_UpdatedAt := Some now\<rparr>"

definition overwrite_enrollment :: "OutboundEnrollment \<Rightarrow> OutboundEnrollment \<Rightarrow> OutboundEnrollment" where
  "overwrite_enrollment new old = new\<lparr>
     en_ID := en_ID old, en_CampaignID := en_CampaignID old, en_RecipientEmail := en_RecipientEmail old,
     en_CreatedAt := en_CreatedAt old\<rparr>"

definition same_enrollment :: "OutboundEnrollment \<Rightarrow> OutboundEnrollment \<Rightarrow> bool" where
  "same_enrollment new old \<longleftrightarrow> en_CampaignID old = en_CampaignID new
     \<and> sql_lower (en_RecipientEmail old) = sql_lower (en_RecipientEmail new)"

definition UpsertOutboundEnrollment :: "OutboundEnrollment \<Rightarrow> OutboundEnrollment Ob" where
  "UpsertOutboundEnrollment e0 =
     bindO nowO (\<lambda>now.
     bindO (if TrimSpace (en_ID e0) = [] then uuidO else retO (en_ID e0)) (\<lambda>i.
     bindO (askO (\<lambda>v. normalizeOutboundRecipientEmail (oe_svc v) (en_RecipientEmail e0))) (\<lambda>r. case r of
       Inl e \<Rightarrow> failO e
     | Inr recipientEmail \<Rightarrow>
         (let row = enrollment_row now recipientEmail (e0\<lparr>en_ID := i\<rparr>) in
          thenO (putO enrollments enrollments_update
                   (t_upsert enrollments_keys (same_enrollment row) (overwrite_enrollment row) row))
          (GetOutboundEnrollmentByCampaignEmail (en_CampaignID e0) recipientEmail)))))"

definition due :: "gotime \<Rightarrow> OutboundEnrollment \<times> OutboundCampaign \<Rightarrow> bool" where
  "due now = (\<lambda>(e, c). oc_Status c = ''running'' \<and> en_Status e \<in> {''pending'', ''scheduled''}
     \<and> (case en_NextActionAt e of None \<Rightarrow> True | Some t \<Rightarrow> t \<le> now))"

definition ListDueOutboundEnrollments :: "gotime \<Rightarrow> nat \<Rightarrow> OutboundEnrollment list Ob" where
  "ListDueOutboundEnrollments now limit =
     queryO (\<lambda>d. take (if limit = 0 then 50 else limit) (select_enrollments (due now)
       (\<lambda>e. case en_NextActionAt e of None \<Rightarrow> or_zero (en_CreatedAt e) | Some t \<Rightarrow> t) d))"

definition ListOutboundOOOResumeDue :: "gotime \<Rightarrow> nat \<Rightarrow> OutboundEnrollment list Ob" where
  "ListOutboundOOOResumeDue now limit =
     queryO (\<lambda>d. take (if limit = 0 then 50 else limit) (select_enrollments
       (\<lambda>(e, c). oc_Status c = ''running'' \<and> en_Status e = ''paused'' \<and> en_PauseReason e = ''out_of_office''
          \<and> (case en_NextActionAt e of None \<Rightarrow> False | Some t \<Rightarrow> t \<le> now))
       (\<lambda>e. or_zero (en_NextActionAt e)) d))"

definition active_statuses :: "string list" where
  "active_statuses = [''pending'', ''scheduled'', ''sending'', ''waiting_reply'', ''paused'', ''manual_only'']"

definition ListActiveOutboundEnrollmentsByRecipient :: "string \<Rightarrow> string \<Rightarrow> string \<Rightarrow> OutboundEnrollment list Ob" where
  "ListActiveOutboundEnrollmentsByRecipient userID recipientEmail excludeCampaignID =
     queryO (select_enrollments
       (\<lambda>(e, c). oc_UserID c = userID \<and> sql_lower (en_RecipientEmail e) = sql_lower (ToLower (TrimSpace recipientEmail))
          \<and> en_Status e \<in> set active_statuses
          \<and> (TrimSpace excludeCampaignID = [] \<or> en_CampaignID e \<noteq> TrimSpace excludeCampaignID))
       (\<lambda>e. - or_zero (en_UpdatedAt e)))"

definition ListActiveOutboundEnrollmentsByDomain :: "string \<Rightarrow> string \<Rightarrow> string \<Rightarrow> OutboundEnrollment list Ob" where
  "ListActiveOutboundEnrollmentsByDomain userID domain excludeCampaignID =
     queryO (select_enrollments
       (\<lambda>(e, c). oc_UserID c = userID \<and> sql_lower (en_RecipientDomain e) = sql_lower (ToLower (TrimSpace domain))
          \<and> en_Status e \<in> set active_statuses
          \<and> (TrimSpace excludeCampaignID = [] \<or> en_CampaignID e \<noteq> TrimSpace excludeCampaignID))
       (\<lambda>e. - or_zero (en_UpdatedAt e)))"

section \<open>Events and recipients\<close>

definition AppendOutboundEvent :: "string \<Rightarrow> string \<Rightarrow> string \<Rightarrow> payload \<Rightarrow> string \<Rightarrow> string \<Rightarrow> unit Ob" where
  "AppendOutboundEvent campaignID enrollmentID kind payload actorKind actorRef =
     bindO nowO (\<lambda>now.
     bindO uuidO (\<lambda>i.
     thenO (putO events events_update (t_insert events_keys
       \<lparr>ev_ID = i, ev_CampaignID = TrimSpace campaignID, ev_EnrollmentID = TrimSpace enrollmentID,
        ev_EventKind = TrimSpace kind, ev_Payload = payload,
        ev_ActorKind = (if TrimSpace actorKind = [] then ''system'' else TrimSpace actorKind),
        ev_ActorRef = TrimSpace actorRef, ev_CreatedAt = now\<rparr>))
     (retO ())))"

definition scanOutboundEvent :: "OutboundEvent \<Rightarrow> OutboundEvent" where
  "scanOutboundEvent x = x\<lparr>ev_EventKind := TrimSpace (ev_EventKind x), ev_ActorKind := TrimSpace (ev_ActorKind x),
     ev_ActorRef := TrimSpace (ev_ActorRef x)\<rparr>"

definition ListOutboundCampaignEvents :: "string \<Rightarrow> nat \<Rightarrow> OutboundEvent list Ob" where
  "ListOutboundCampaignEvents campaignID limit =
     queryO (\<lambda>d. map scanOutboundEvent (take (if limit = 0 then 100 else limit)
       (sort_key (\<lambda>x. - ev_CreatedAt x) (filter (\<lambda>x. ev_CampaignID x = TrimSpace campaignID) (events d)))))"

definition normalizeRecipientStateStatus :: "string \<Rightarrow> string" where
  "normalizeRecipientStateStatus raw =
     one_of [''replied'', ''interested'', ''not_interested'', ''wrong_person'', ''meeting_booked'', ''unsubscribed'',
       ''hard_bounce'', ''suppressed''] ''active'' raw"

definition normalizeRecipientScope :: "string \<Rightarrow> string" where
  "normalizeRecipientScope raw = one_of [''campaign_only''] ''workspace'' raw"

definition scanRecipientState :: "RecipientState \<Rightarrow> RecipientState" where
  "scanRecipientState r = r\<lparr>
     rs_PrimaryContactID := TrimSpace (rs_PrimaryContactID r),
     rs_RecipientEmail := ToLower (TrimSpace (rs_RecipientEmail r)),
     rs_RecipientDomain := ToLower (TrimSpace (rs_RecipientDomain r)),
     rs_Status := normalizeRecipientStateStatus (rs_Status r), rs_Scope := normalizeRecipientScope (rs_Scope r),
     rs_LastReplyOutcome := normalizeReplyOutcome (rs_LastReplyOutcome r),
     rs_SuppressionReason := TrimSpace (rs_SuppressionReason r), rs_Notes := TrimSpace (rs_Notes r)\<rparr>"

definition GetRecipientState :: "string \<Rightarrow> string \<Rightarrow> RecipientState Ob" where
  "GetRecipientState userID recipientEmail =
     rowO (\<lambda>d. map_option scanRecipientState
       (find (\<lambda>r. rs_UserID r = userID \<and> sql_lower (rs_RecipientEmail r) = sql_lower (ToLower (TrimSpace recipientEmail)))
         (recipient_states d)))"

definition UpsertRecipientState :: "RecipientState \<Rightarrow> RecipientState Ob" where
  "UpsertRecipientState r0 =
     bindO nowO (\<lambda>now.
     bindO (askO (\<lambda>v. normalizeOutboundRecipientEmail (oe_svc v) (rs_RecipientEmail r0))) (\<lambda>r. case r of
       Inl e \<Rightarrow> failO e
     | Inr recipientEmail \<Rightarrow>
         (let row = r0\<lparr>rs_RecipientEmail := recipientEmail, rs_RecipientDomain := outboundRecipientDomain recipientEmail,
                rs_PrimaryContactID := TrimSpace (rs_PrimaryContactID r0),
                rs_Status := normalizeRecipientStateStatus (rs_Status r0), rs_Scope := normalizeRecipientScope (rs_Scope r0),
                rs_LastReplyOutcome := normalizeReplyOutcome (rs_LastReplyOutcome r0),
                rs_SuppressionReason := TrimSpace (rs_SuppressionReason r0), rs_Notes := TrimSpace (rs_Notes r0),
                rs_UpdatedAt := Some now\<rparr>
          in thenO (putO recipient_states recipient_states_update (t_upsert recipient_keys
                 (\<lambda>old. rs_UserID old = rs_UserID row \<and> sql_lower (rs_RecipientEmail old) = sql_lower recipientEmail)
                 (\<lambda>old. row\<lparr>rs_UserID := rs_UserID old, rs_RecipientEmail := rs_RecipientEmail old\<rparr>) row))
             (GetRecipientState (rs_UserID r0) recipientEmail))))"

section \<open>Thread bindings\<close>

definition normalizeThreadBindingType :: "string \<Rightarrow> string" where
  "normalizeThreadBindingType raw = one_of [''reply_funnel'', ''manual''] ''campaign'' raw"

definition scanMailThreadBinding :: "MailThreadBinding \<Rightarrow> MailThreadBinding" where
  "scanMailThreadBinding b = b\<lparr>
     tb_BindingType := normalizeThreadBindingType (tb_BindingType b), tb_CampaignID := TrimSpace (tb_CampaignID b),
     tb_EnrollmentID := TrimSpace (tb_EnrollmentID b), tb_FunnelID := TrimSpace (tb_FunnelID b),
     tb_ReplyAccountID := TrimSpace (tb_ReplyAccountID b), tb_ReplySenderProfileID := TrimSpace (tb_ReplySenderProfileID b),
     tb_CollectorAccountID := TrimSpace (tb_CollectorAccountID b), tb_OwnerUserID := TrimSpace (tb_OwnerUserID b),
     tb_ThreadID := TrimSpace (tb_ThreadID b), tb_RecipientEmail := ToLower (TrimSpace (tb_RecipientEmail b)),
     tb_RecipientDomain := ToLower (TrimSpace (tb_RecipientDomain b)),
     tb_RootOutboundMessageID := NormalizeMessageIDHeader (tb_RootOutboundMessageID b),
     tb_LastOutboundMessageID := NormalizeMessageIDHeader (tb_LastOutboundMessageID b),
     tb_LastReplyMessageID := TrimSpace (tb_LastReplyMessageID b), tb_ThreadSubject := TrimSpace (tb_ThreadSubject b)\<rparr>"

definition GetMailThreadBindingByID :: "string \<Rightarrow> MailThreadBinding Ob" where
  "GetMailThreadBindingByID i =
     rowO (\<lambda>d. map_option scanMailThreadBinding (find (\<lambda>b. tb_ID b = TrimSpace i) (bindings d)))"

definition GetMailThreadBindingByEnrollment :: "string \<Rightarrow> MailThreadBinding Ob" where
  "GetMailThreadBindingByEnrollment enrollmentID =
     rowO (\<lambda>d. if TrimSpace enrollmentID = [] then None
       else map_option scanMailThreadBinding (find (\<lambda>b. tb_EnrollmentID b = TrimSpace enrollmentID) (bindings d)))"

definition UpsertMailThreadBinding :: "MailThreadBinding \<Rightarrow> MailThreadBinding Ob" where
  "UpsertMailThreadBinding b0 =
     bindO nowO (\<lambda>now.
     bindO (if TrimSpace (tb_ID b0) = [] then uuidO else retO (tb_ID b0)) (\<lambda>i.
     bindO (askO (\<lambda>v. normalizeOutboundRecipientEmail (oe_svc v) (tb_RecipientEmail b0))) (\<lambda>r.
       let email = (case r of Inl e \<Rightarrow> tb_RecipientEmail b0 | Inr x \<Rightarrow> x);
           dom1 = (case r of Inl e \<Rightarrow> tb_RecipientDomain b0 | Inr x \<Rightarrow> outboundRecipientDomain x);
           dom2 = (if TrimSpace dom1 = [] \<and> TrimSpace email \<noteq> [] then outboundRecipientDomain email else dom1);
           row = b0\<lparr>tb_ID := i, tb_RecipientEmail := email, tb_RecipientDomain := dom2,
             tb_AccountID := TrimSpace (tb_AccountID b0), tb_ThreadID := TrimSpace (tb_ThreadID b0),
             tb_BindingType := normalizeThreadBindingType (tb_BindingType b0),
             tb_CampaignID := TrimSpace (tb_CampaignID b0), tb_EnrollmentID := TrimSpace (tb_EnrollmentID b0),
             tb_FunnelID := TrimSpace (tb_FunnelID b0), tb_ReplyAccountID := TrimSpace (tb_ReplyAccountID b0),
             tb_ReplySenderProfileID := TrimSpace (tb_ReplySenderProfileID b0),
             tb_CollectorAccountID := TrimSpace (tb_CollectorAccountID b0), tb_OwnerUserID := TrimSpace (tb_OwnerUserID b0),
             tb_RootOutboundMessageID := NormalizeMessageIDHeader (tb_RootOutboundMessageID b0),
             tb_LastOutboundMessageID := NormalizeMessageIDHeader (tb_LastOutboundMessageID b0),
             tb_LastReplyMessageID := TrimSpace (tb_LastReplyMessageID b0), tb_ThreadSubject := TrimSpace (tb_ThreadSubject b0),
             tb_CreatedAt := (case tb_CreatedAt b0 of None \<Rightarrow> Some now | Some t \<Rightarrow> Some t), tb_UpdatedAt := Some now\<rparr>
       in thenO (putO bindings bindings_update (t_upsert bindings_keys (\<lambda>old. tb_ID old = i)
              (\<lambda>old. row\<lparr>tb_CreatedAt := tb_CreatedAt old\<rparr>) row))
          (GetMailThreadBindingByID i))))"

definition latest_binding :: "(MailThreadBinding \<Rightarrow> bool) \<Rightarrow> odb \<Rightarrow> MailThreadBinding option" where
  "latest_binding P d =
     (case sort_key (\<lambda>b. - or_zero (tb_UpdatedAt b)) (filter P (bindings d)) of
        [] \<Rightarrow> None | b # _ \<Rightarrow> Some (scanMailThreadBinding b))"

definition FindMailThreadBindingByReplyHeaders :: "string \<Rightarrow> string list \<Rightarrow> MailThreadBinding Ob" where
  "FindMailThreadBindingByReplyHeaders accountID messageIDs =
     (let ids = NormalizeMessageIDHeaders messageIDs; a = TrimSpace accountID in
      if ids = [] then failO ErrNotFound
      else rowO (latest_binding (\<lambda>b.
        (tb_AccountID b = a \<or> a \<noteq> [] \<and> (tb_ReplyAccountID b = a \<or> tb_CollectorAccountID b = a))
        \<and> (tb_RootOutboundMessageID b \<in> set ids \<or> tb_LastOutboundMessageID b \<in> set ids))))"

definition FindMailThreadBindingByOutboundMessageID :: "string \<Rightarrow> string \<Rightarrow> MailThreadBinding Ob" where
  "FindMailThreadBindingByOutboundMessageID accountID messageID =
     (let m = NormalizeMessageIDHeader messageID in
      if m = [] then failO ErrNotFound
      else rowO (latest_binding (\<lambda>b. tb_AccountID b = TrimSpace accountID
        \<and> (tb_RootOutboundMessageID b = m \<or> tb_LastOutboundMessageID b = m))))"

section \<open>Suppressions\<close>

definition normalizeSuppressionScopeKind :: "string \<Rightarrow> string" where
  "normalizeSuppressionScopeKind raw = one_of [''domain''] ''recipient'' raw"

definition normalizeSuppressionSourceKind :: "string \<Rightarrow> string" where
  "normalizeSuppressionSourceKind raw = one_of [''unsubscribe'', ''bounce'', ''reply_policy'', ''compliance''] ''manual'' raw"

definition scanOutboundSuppression :: "OutboundSuppression \<Rightarrow> OutboundSuppression" where
  "scanOutboundSuppression p = p\<lparr>
     sp_ScopeKind := normalizeSuppressionScopeKind (sp_ScopeKind p), sp_ScopeValue := ToLower (TrimSpace (sp_ScopeValue p)),
     sp_CampaignID := TrimSpace (sp_CampaignID p), sp_Reason := TrimSpace (sp_Reason p),
     sp_SourceKind := normalizeSuppressionSourceKind (sp_SourceKind p)\<rparr>"

definition suppresses :: "string \<Rightarrow> string \<Rightarrow> string \<Rightarrow> string \<Rightarrow> gotime \<Rightarrow> OutboundSuppression \<Rightarrow> bool" where
  "suppresses userID email domain campaignID now p \<longleftrightarrow>
     sp_UserID p = userID
     \<and> (case sp_ExpiresAt p of None \<Rightarrow> True | Some t \<Rightarrow> t > now)
     \<and> (sp_ScopeKind p = ''recipient'' \<and> sql_lower (sp_ScopeValue p) = sql_lower email
        \<or> sp_ScopeKind p = ''domain'' \<and> sql_lower (sp_ScopeValue p) = sql_lower domain)
     \<and> (sp_CampaignID p = [] \<or> sp_CampaignID p = campaignID)"

definition GetActiveOutboundSuppression ::
  "string \<Rightarrow> string \<Rightarrow> string \<Rightarrow> string \<Rightarrow> gotime \<Rightarrow> OutboundSuppression Ob" where
  "GetActiveOutboundSuppression userID recipientEmail recipientDomain campaignID now =
     (let email = ToLower (TrimSpace recipientEmail); domain = ToLower (TrimSpace recipientDomain); c = TrimSpace campaignID in
      rowO (\<lambda>d. case sort_key (\<lambda>p. if sp_CampaignID p = c \<and> c \<noteq> [] then 0 else 1::int)
                  (sort_key (\<lambda>p. - or_zero (sp_UpdatedAt p)) (filter (suppresses userID email domain c now) (suppressions d))) of
          [] \<Rightarrow> None | p # _ \<Rightarrow> Some (scanOutboundSuppression p)))"

definition ListOutboundSuppressions :: "string \<Rightarrow> OutboundSuppression list Ob" where
  "ListOutboundSuppressions userID =
     queryO (\<lambda>d. map scanOutboundSuppression
       (sort_key (\<lambda>p. - or_zero (sp_UpdatedAt p)) (sort_key sp_ScopeKind (sort_key (\<lambda>p. sql_lower (sp_ScopeValue p))
         (filter (\<lambda>p. sp_UserID p = userID) (suppressions d))))))"

definition suppression_row :: "gotime \<Rightarrow> OutboundSuppression \<Rightarrow> OutboundSuppression" where
  "suppression_row now p = p\<lparr>
     sp_UserID := TrimSpace (sp_UserID p), sp_ScopeKind := normalizeSuppressionScopeKind (sp_ScopeKind p),
     sp_ScopeValue := ToLower (TrimSpace (sp_ScopeValue p)), sp_CampaignID := TrimSpace (sp_CampaignID p),
     sp_Reason := TrimSpace (sp_Reason p), sp_SourceKind := normalizeSuppressionSourceKind (sp_SourceKind p),
     sp_CreatedAt := (case sp_CreatedAt p of None \<Rightarrow> Some now | Some t \<Rightarrow> Some t), sp_UpdatedAt := Some now\<rparr>"

definition same_scope :: "OutboundSuppression \<Rightarrow> OutboundSuppression \<Rightarrow> bool" where
  "same_scope row p \<longleftrightarrow> sp_UserID p = sp_UserID row \<and> sp_ScopeKind p = sp_ScopeKind row
     \<and> sql_lower (sp_ScopeValue p) = sql_lower (sp_ScopeValue row) \<and> sp_CampaignID p = sp_CampaignID row"

definition overwrite_suppression :: "OutboundSuppression \<Rightarrow> OutboundSuppression \<Rightarrow> OutboundSuppression" where
  "overwrite_suppression row q = q\<lparr>sp_Reason := sp_Reason row, sp_SourceKind := sp_SourceKind row,
     sp_ExpiresAt := sp_ExpiresAt row, sp_UpdatedAt := sp_UpdatedAt row\<rparr>"

text \<open>The second statement of an upsert: a row with this scope, found by the first, is overwritten by its
  id, else the row is inserted.\<close>

definition write_suppression :: "OutboundSuppression \<Rightarrow> OutboundSuppression option \<Rightarrow> int Ob" where
  "write_suppression row existing = (case existing of
     Some p \<Rightarrow> putO suppressions suppressions_update
       (t_update suppressions_keys (\<lambda>q. sp_ID q = TrimSpace (sp_ID p)) (overwrite_suppression row))
   | None \<Rightarrow> putO suppressions suppressions_update (t_insert suppressions_keys row))"

definition UpsertOutboundSuppression :: "OutboundSuppression \<Rightarrow> OutboundSuppression Ob" where
  "UpsertOutboundSuppression p0 =
     bindO nowO (\<lambda>now.
     bindO (if TrimSpace (sp_ID p0) = [] then uuidO else retO (sp_ID p0)) (\<lambda>i.
       let row = suppression_row now (p0\<lparr>sp_ID := i\<rparr>) in
       bindO (queryO (\<lambda>d. find (same_scope row) (suppressions d))) (\<lambda>existing.
       thenO (write_suppression row existing)
       (bindO (queryO (\<lambda>d. find (same_scope row) (suppressions d))) (\<lambda>r. case r of
          None \<Rightarrow> failO (DBErr ''sql: no rows in result set'') | Some p \<Rightarrow> retO (scanOutboundSuppression p))))))"

definition DeleteOutboundSuppression :: "string \<Rightarrow> string \<Rightarrow> unit Ob" where
  "DeleteOutboundSuppression userID i =
     bindO (putO suppressions suppressions_update (t_delete (\<lambda>p. sp_UserID p = userID \<and> sp_ID p = TrimSpace i))) (\<lambda>n.
     if n = 0 then failO ErrNotFound else retO ())"

end
