(* ===== verification/Outbound.thy ===== *)
theory Outbound
  imports OutboundStore
begin

text \<open>
  \<^verbatim>\<open>internal/service/outbound.go\<close> and \<^verbatim>\<open>internal/workers/mail_workers.go\<close>: the dispatch of due enrollments, the
  handling of replies, the actions of a user on an enrollment, and the worker that runs the dispatch.
  The choice of the sender and the rendering of a template (\<^verbatim>\<open>renderOutboundStep\<close>), the decryption of an
  account's secret and the mail client are parameters: the model covers whatever they answer.  Texts of
  errors and lists of missing template variables are left out of the payloads of events.
\<close>

section \<open>Steps\<close>

definition stepForOutboundSend :: "OutboundCampaignStep list \<Rightarrow> string \<Rightarrow> int \<Rightarrow> OutboundCampaignStep option" where
  "stepForOutboundSend sts lastSentMessageID currentPosition =
     (let sorted_steps = sort_key st_Position sts in
      case sorted_steps of
        [] \<Rightarrow> None
      | first # _ \<Rightarrow>
          if TrimSpace lastSentMessageID = [] then Some first
          else find (\<lambda>r. st_Position r = currentPosition + 1) sorted_steps)"

definition outboundStepByPosition :: "OutboundCampaignStep list \<Rightarrow> int \<Rightarrow> OutboundCampaignStep option" where
  "outboundStepByPosition sts position = find (\<lambda>r. st_Position r = position) sts"

definition outboundBranchActionForOutcome :: "(string \<Rightarrow> payload option) \<Rightarrow> OutboundCampaignStep \<Rightarrow> string \<Rightarrow> string" where
  "outboundBranchActionForOutcome unmarshal r outcome =
     (let branches = parseOutboundBranchPolicy unmarshal (st_BranchPolicyJSON r); key = normalizeReplyOutcome outcome in
      if branches = [] then [] else if key = [] then []
      else ToLower (TrimSpace (opt_str (map_of branches key))))"

text \<open>\<^verbatim>\<open>fmt.Sscanf(s, "%d", &n)\<close> on trimmed text with \<open>n\<close> zero before: a sign, then digits; anything else, and a
  number out of range, leaves zero.\<close>

definition scan_position :: "string \<Rightarrow> int" where
  "scan_position s =
     (let neg = (case s of c # _ \<Rightarrow> c = CHR ''-'' | [] \<Rightarrow> False);
          r = (case s of c # t \<Rightarrow> if c = CHR ''-'' \<or> c = CHR ''+'' then t else s | [] \<Rightarrow> s);
          ds = takeWhile is_digit r; n = int (digits_value ds); x = (if neg then - n else n)
      in if ds = [] \<or> x < - (2 ^ 63) \<or> x \<ge> 2 ^ 63 then 0 else x)"

text \<open>What a reply branch does to the enrollment; \<^const>\<open>None\<close> when no branch applies.\<close>

definition applyOutboundReplyBranch ::
  "(string \<Rightarrow> payload option) \<Rightarrow> gotime \<Rightarrow> OutboundCampaign \<Rightarrow> OutboundEnrollment \<Rightarrow> OutboundCampaignStep list \<Rightarrow> string
   \<Rightarrow> OutboundEnrollment option" where
  "applyOutboundReplyBranch unmarshal now campaign e sts outcome =
     (if normalizeReplyOutcome outcome \<in> {''unsubscribe_request'', ''bounce'', ''hostile''} then None
      else case outboundStepByPosition sts (en_CurrentStepPosition e) of
        None \<Rightarrow> None
      | Some currentStep \<Rightarrow>
          (let action = outboundBranchActionForOutcome unmarshal currentStep outcome in
           if action = [] then None
           else if action \<in> {''continue'', ''next_step''}
           then Some (e\<lparr>en_Status := ''scheduled'', en_PauseReason := [], en_StopReason := [], en_NextActionAt := Some now\<rparr>)
           else if action = ''pause''
           then Some (e\<lparr>en_Status := ''paused'', en_PauseReason := ''branch_pause'', en_StopReason := [], en_NextActionAt := None\<rparr>)
           else if action = ''manual_review''
           then Some (e\<lparr>en_Status := ''manual_only'', en_ManualOwnerUserID := oc_UserID campaign,
                  en_PauseReason := ''branch_manual_review'', en_StopReason := [], en_NextActionAt := None\<rparr>)
           else if action = ''stop''
           then Some (e\<lparr>en_Status := ''stopped'', en_StopReason := firstNonEmptyString [outcome, ''branch_stop''],
                  en_PauseReason := [], en_NextActionAt := None\<rparr>)
           else if HasPrefix action ''manual_task:''
           then (case outboundStepByPosition sts (scan_position (TrimSpace (TrimPrefix action ''manual_task:''))) of
                   None \<Rightarrow> None
                 | Some target \<Rightarrow>
                     if st_Kind target \<noteq> ''manual_task'' then None
                     else Some (e\<lparr>en_Status := ''scheduled'', en_CurrentStepPosition := st_Position target - 1,
                            en_PauseReason := [], en_StopReason := [], en_NextActionAt := Some now\<rparr>))
           else None))"

section \<open>Dispatch\<close>

definition account_sends :: "string \<Rightarrow> gotime \<Rightarrow> OutboundEvent list \<Rightarrow> nat" where
  "account_sends accountID since evs =
     length (filter (\<lambda>x. ev_EventKind x = ''step_sent'' \<and> \<not> ev_CreatedAt x < since
       \<and> TrimSpace (case map_of (ev_Payload x) ''sender_account_id'' of None \<Rightarrow> ''<nil>'' | Some a \<Rightarrow> a) = TrimSpace accountID) evs)"

fun sends_of_campaigns :: "string \<Rightarrow> gotime \<Rightarrow> OutboundCampaign list \<Rightarrow> nat Ob" where
  "sends_of_campaigns accountID since [] = retO 0"
| "sends_of_campaigns accountID since (c # cs) =
     bindO (ListOutboundCampaignEvents (oc_ID c) 5000) (\<lambda>evs.
     bindO (sends_of_campaigns accountID since cs) (\<lambda>n. retO (account_sends accountID since evs + n)))"

definition outboundAccountSendsSince :: "string \<Rightarrow> string \<Rightarrow> gotime \<Rightarrow> nat Ob" where
  "outboundAccountSendsSince userID accountID since =
     bindO (ListOutboundCampaigns userID) (sends_of_campaigns accountID since)"

text \<open>The message id of a mail: a fresh UUID at the host of the sender address.\<close>

definition nextOutboundMessageID :: "string \<Rightarrow> string Ob" where
  "nextOutboundMessageID fromEmail =
     (let t = TrimSpace fromEmail; after = rev (takeWhile (\<lambda>c. c \<noteq> CHR ''@'') (rev t));
          host = (if CHR ''@'' \<in> set t \<and> after \<noteq> [] then TrimSpace (drop (length t - length after) fromEmail)
                  else ''despatch.local'')
      in bindO uuidO (\<lambda>i. retO (''<outbound-'' @ i @ ''@'' @ host @ ''>'')))"

text \<open>Saving the enrollment and noting an event whose own failure is ignored.\<close>

definition save_and_note :: "OutboundEnrollment \<Rightarrow> string \<Rightarrow> string \<Rightarrow> payload \<Rightarrow> string \<Rightarrow> string \<Rightarrow> unit Ob" where
  "save_and_note e campaignID kind payload actorKind actorRef =
     thenO (UpsertOutboundEnrollment e)
     (ignoreO (AppendOutboundEvent campaignID (en_ID e) kind payload actorKind actorRef) (retO ()))"

text \<open>The checks of provider caps: \<open>True\<close> when the mail may go out now.\<close>

definition delayed :: "OutboundEnrollment \<Rightarrow> duration \<Rightarrow> OutboundEnrollment Ob" where
  "delayed e delay = bindO nowO (\<lambda>now.
     retO (e\<lparr>en_Status := ''scheduled'', en_PauseReason := ''provider_pacing'', en_NextActionAt := Some (now + delay)\<rparr>))"

definition check_caps :: "OutboundCampaign \<Rightarrow> OutboundEnrollment \<Rightarrow> MailAccount \<Rightarrow> bool Ob" where
  "check_caps campaign e account =
     bindO (askO (\<lambda>v. parseOutboundSchedulePolicy (oe_schedule v) (oc_SchedulePolicyJSON campaign))) (\<lambda>schedule.
     if \<not> RespectProviderCaps schedule then retO True
     else let pacing = outboundProviderPacingForAccount account in
       bindO nowO (\<lambda>now1.
       bindO (outboundAccountSendsSince (oc_UserID campaign) (ma_ID account) (now1 - 24 * time_Hour)) (\<lambda>sends24h.
       if int sends24h \<ge> DailyCap pacing then
         bindO (delayed e (12 * time_Hour)) (\<lambda>e'.
         thenO (save_and_note e' (oc_ID campaign) ''provider_pacing_delayed''
                  [(''sender_account_id'', ma_ID account), (''window'', ''24h''), (''daily_cap'', show_int (DailyCap pacing))] ''worker'' [])
         (retO False))
       else
         bindO nowO (\<lambda>now2.
         bindO (outboundAccountSendsSince (oc_UserID campaign) (ma_ID account) (now2 - time_Hour)) (\<lambda>sends1h.
         if int sends1h \<ge> HourlyCap pacing then
           bindO (delayed e (max (GapSeconds pacing * time_Second) (15 * time_Minute))) (\<lambda>e'.
           thenO (save_and_note e' (oc_ID campaign) ''provider_pacing_delayed''
                    [(''sender_account_id'', ma_ID account), (''window'', ''1h''), (''hourly_cap'', show_int (HourlyCap pacing)),
                     (''gap_seconds'', show_int (GapSeconds pacing))] ''worker'' [])
           (retO False))
         else retO True)))))"

text \<open>The binding of the conversation: the stored one, or one seeded from an existing thread, or none yet.\<close>

definition dispatch_binding :: "OutboundCampaign \<Rightarrow> OutboundEnrollment \<Rightarrow> outboundSenderSelection \<Rightarrow> MailThreadBinding Ob" where
  "dispatch_binding campaign e sel =
     tryO (GetMailThreadBindingByEnrollment (en_ID e)) (\<lambda>r.
       let stored = (case r of Inl _ \<Rightarrow> zero_binding | Inr b \<Rightarrow> b) in
       if TrimSpace (tb_ID stored) \<noteq> [] then retO stored
       else bindO (askO (\<lambda>v. parseOutboundSeedContext (oe_seed v) (en_SeedContextJSON e))) (\<lambda>seed.
         if sd_AccountID seed = [] \<and> sd_ThreadID seed = [] \<and> sd_MessageID seed = [] \<and> sd_ThreadSubject seed = []
         then retO stored
         else bindO uuidO (\<lambda>i. bindO nowO (\<lambda>now.
           retO (zero_binding\<lparr>tb_ID := i, tb_AccountID := firstNonEmptyString [sd_AccountID seed, ma_ID (sel_Account sel)],
             tb_ThreadID := sd_ThreadID seed, tb_BindingType := ''manual'', tb_CampaignID := oc_ID campaign,
             tb_EnrollmentID := en_ID e, tb_OwnerUserID := oc_UserID campaign, tb_RecipientEmail := en_RecipientEmail e,
             tb_RecipientDomain := en_RecipientDomain e, tb_RootOutboundMessageID := sd_MessageID seed,
             tb_LastOutboundMessageID := sd_MessageID seed, tb_ThreadSubject := sd_ThreadSubject seed,
             tb_CreatedAt := Some now\<rparr>)))))"

definition dispatch_request ::
  "OutboundEnrollment \<Rightarrow> OutboundCampaignStep \<Rightarrow> outboundSenderSelection \<Rightarrow> MailThreadBinding \<Rightarrow> string \<Rightarrow> string \<Rightarrow> string
   \<Rightarrow> SendRequest" where
  "dispatch_request e r sel binding messageID subject body =
     (let threaded = (st_ThreadMode r = ''same_thread'' \<and> TrimSpace (tb_LastOutboundMessageID binding) \<noteq> []);
          root = NormalizeMessageIDHeader (tb_RootOutboundMessageID binding);
          last_id = NormalizeMessageIDHeader (tb_LastOutboundMessageID binding);
          refs1 = (if root \<noteq> [] then [root] else []);
          refs2 = (if last_id \<noteq> [] \<and> (refs1 = [] \<or> last refs1 \<noteq> last_id) then refs1 @ [last_id] else refs1);
          subject1 = (if threaded \<and> subject = [] then firstNonEmptyString [tb_ThreadSubject binding, subject] else subject);
          subject2 = (if TrimSpace subject1 = [] \<and> TrimSpace (tb_ThreadSubject binding) \<noteq> []
                      then TrimSpace (tb_ThreadSubject binding) else subject1)
      in \<lparr>rq_From = sel_HeaderFromEmail sel, rq_HeaderFromName = sel_HeaderFromName sel,
          rq_HeaderFromEmail = sel_HeaderFromEmail sel, rq_EnvelopeFrom = sel_EnvelopeFrom sel,
          rq_ReplyTo = sel_ReplyTo sel, rq_To = [en_RecipientEmail e], rq_Subject = subject2, rq_Body = body,
          rq_MessageID = messageID, rq_InReplyToID = (if threaded then last_id else []),
          rq_References = (if threaded then NormalizeMessageIDHeaders refs2 else [])\<rparr>)"

text \<open>The mail client; a mail it takes is recorded as sent.\<close>

definition send_outbound :: "sent_mail \<Rightarrow> unit Ob" where
  "send_outbound m = (\<lambda>v s.
     let w = ob_world s; s1 = s\<lparr>ob_world := w\<lparr>w_n := Suc (w_n w)\<rparr>\<rparr> in
     case oe_send v (w_n w) (sn_Request m) of
       Some e \<Rightarrow> (Inl e, s1)
     | None \<Rightarrow> (Inr (), s1\<lparr>ob_sent := ob_sent s @ [m]\<rparr>))"

definition sent_binding ::
  "OutboundCampaign \<Rightarrow> OutboundEnrollment \<Rightarrow> outboundSenderSelection \<Rightarrow> SendRequest \<Rightarrow> gotime \<Rightarrow> string \<Rightarrow> MailThreadBinding
   \<Rightarrow> MailThreadBinding" where
  "sent_binding campaign e sel req now i b0 =
     (let account = ma_ID (sel_Account sel);
          b1 = (if TrimSpace (tb_ID b0) \<noteq> [] then b0
                else zero_binding\<lparr>tb_ID := i, tb_BindingType := ''campaign'', tb_RootOutboundMessageID := rq_MessageID req,
                       tb_ThreadSubject := rq_Subject req, tb_CreatedAt := Some now\<rparr>);
          b2 = (if TrimSpace (sel_ReplyFunnelID sel) \<noteq> []
                then b1\<lparr>tb_BindingType := ''reply_funnel'', tb_FunnelID := sel_ReplyFunnelID sel,
                        tb_CollectorAccountID := sel_CollectorAccountID sel\<rparr> else b1)
      in b2\<lparr>tb_AccountID := account, tb_ReplyAccountID := firstNonEmptyString [sel_ReplyAccountID sel, account],
            tb_ReplySenderProfileID := sel_SenderProfileID sel, tb_OwnerUserID := oc_UserID campaign,
            tb_CampaignID := oc_ID campaign, tb_EnrollmentID := en_ID e, tb_RecipientEmail := en_RecipientEmail e,
            tb_RecipientDomain := en_RecipientDomain e,
            tb_RootOutboundMessageID := (if TrimSpace (tb_RootOutboundMessageID b2) = [] then rq_MessageID req
                                         else tb_RootOutboundMessageID b2),
            tb_LastOutboundMessageID := rq_MessageID req,
            tb_ThreadSubject := (if TrimSpace (tb_ThreadSubject b2) = [] then rq_Subject req else tb_ThreadSubject b2)\<rparr>)"

definition sent_enrollment ::
  "OutboundCampaignStep list \<Rightarrow> OutboundCampaignStep \<Rightarrow> outboundSenderSelection \<Rightarrow> SendRequest \<Rightarrow> gotime \<Rightarrow> string
   \<Rightarrow> OutboundEnrollment \<Rightarrow> OutboundEnrollment" where
  "sent_enrollment sts r sel req now bindingID e =
     (let e1 = e\<lparr>en_ThreadBindingID := bindingID, en_SenderAccountID := ma_ID (sel_Account sel),
            en_SenderProfileID := sel_SenderProfileID sel, en_ReplyFunnelID := sel_ReplyFunnelID sel,
            en_LastSentMessageID := rq_MessageID req, en_LastSentAt := Some now, en_CurrentStepPosition := st_Position r,
            en_PauseReason := [], en_StopReason := [], en_ReplyOutcome := [], en_ReplyConfidence := 0\<rparr>
      in case stepForOutboundSend sts (rq_MessageID req) (st_Position r) of
           Some nextStep \<Rightarrow> e1\<lparr>en_Status := ''scheduled'',
             en_NextActionAt := Some (now + max 0 (st_WaitIntervalMinutes nextStep) * time_Minute)\<rparr>
         | None \<Rightarrow> e1\<lparr>en_Status := ''waiting_reply'', en_NextActionAt := None\<rparr>)"

text \<open>The last part of the dispatch, after the checks: the mail is built, sent and recorded.\<close>

definition dispatch_send ::
  "OutboundCampaign \<Rightarrow> OutboundCampaignStep list \<Rightarrow> OutboundCampaignStep \<Rightarrow> OutboundEnrollment \<Rightarrow> outboundRenderedStep \<Rightarrow> unit Ob" where
  "dispatch_send campaign sts r e rendered =
     (let sel = rd_Selection rendered in
      bindO (askO (\<lambda>v. appendOutboundComplianceFooter (rd_Body rendered)
               (parseOutboundCompliancePolicy (oe_compliance v) (oc_CompliancePolicyJSON campaign)))) (\<lambda>body.
      bindO (dispatch_binding campaign e sel) (\<lambda>binding.
      bindO (nextOutboundMessageID (sel_HeaderFromEmail sel)) (\<lambda>messageID.
      let req = dispatch_request e r sel binding messageID (TrimSpace (rd_Subject rendered)) body in
      bindO (liftO (\<lambda>v n. oe_decrypt v (sel_Account sel))) (\<lambda>pass.
      tryO (send_outbound \<lparr>sn_UserID = oc_UserID campaign, sn_CampaignID = oc_ID campaign, sn_EnrollmentID = en_ID e,
              sn_Position = st_Position r, sn_Request = req\<rparr>) (\<lambda>res. case res of
        Inl err \<Rightarrow>
          save_and_note (e\<lparr>en_Status := ''manual_only'', en_PauseReason := ''send_failed'', en_NextActionAt := None\<rparr>)
            (oc_ID campaign) ''send_failed'' [] ''worker'' []
      | Inr _ \<Rightarrow>
          bindO nowO (\<lambda>now.
          bindO (if TrimSpace (tb_ID binding) = [] then uuidO else retO []) (\<lambda>i.
          bindO (UpsertMailThreadBinding (sent_binding campaign e sel req now i binding)) (\<lambda>saved.
          save_and_note (sent_enrollment sts r sel req now (tb_ID saved) e) (oc_ID campaign) ''step_sent''
            [(''step_position'', show_int (st_Position r)), (''message_id'', messageID),
             (''sender_account_id'', ma_ID (sel_Account sel)), (''sender_profile_id'', sel_SenderProfileID sel),
             (''recipient_email'', en_RecipientEmail e), (''recipient_domain'', en_RecipientDomain e),
             (''reply_funnel_id'', sel_ReplyFunnelID sel), (''collector_account'', sel_CollectorAccountID sel)]
            ''worker'' []))))))))) "

definition dispatch_step ::
  "OutboundCampaign \<Rightarrow> OutboundCampaignStep list \<Rightarrow> OutboundCampaignStep \<Rightarrow> OutboundEnrollment \<Rightarrow> unit Ob" where
  "dispatch_step campaign sts r e =
     tryO (liftO (\<lambda>v n. oe_render v n campaign r e)) (\<lambda>res. case res of
       Inl err \<Rightarrow>
         thenO (save_and_note (e\<lparr>en_Status := ''manual_only'', en_PauseReason := ''send_failed'', en_NextActionAt := None\<rparr>)
                  (oc_ID campaign) ''preflight_blocked'' [] ''worker'' [])
         (failO err)
     | Inr rendered \<Rightarrow>
         if rd_Missing rendered \<noteq> [] then
           save_and_note (e\<lparr>en_Status := ''manual_only'', en_PauseReason := ''template_missing'', en_NextActionAt := None\<rparr>)
             (oc_ID campaign) ''preflight_blocked'' [] ''worker'' []
         else
           bindO nowO (\<lambda>now.
           tryO (GetActiveOutboundSuppression (oc_UserID campaign) (en_RecipientEmail e) (en_RecipientDomain e) (oc_ID campaign) now)
           (\<lambda>res. case res of
             Inr p \<Rightarrow>
               save_and_note (e\<lparr>en_Status := ''stopped'', en_StopReason := firstNonEmptyString [sp_Reason p, ''suppressed''],
                    en_PauseReason := [], en_NextActionAt := None\<rparr>)
                 (oc_ID campaign) ''preflight_blocked''
                 [(''scope_kind'', sp_ScopeKind p), (''scope_value'', sp_ScopeValue p), (''reason'', sp_Reason p),
                  (''source_kind'', sp_SourceKind p)] ''worker'' ''suppression''
           | Inl err \<Rightarrow>
               if err \<noteq> ErrNotFound then failO err
               else bindO (check_caps campaign e (sel_Account (rd_Selection rendered))) (\<lambda>ok.
                 if ok then dispatch_send campaign sts r e rendered else retO ()))))"

definition DispatchOutboundEnrollment :: "OutboundEnrollment \<Rightarrow> unit Ob" where
  "DispatchOutboundEnrollment e =
     bindO (GetOutboundCampaignByIDAny (en_CampaignID e)) (\<lambda>campaign.
     bindO (coreO (GetUserByID (oc_UserID campaign))) (\<lambda>user.
     bindO (ListOutboundCampaignSteps (oc_ID campaign)) (\<lambda>sts.
     case stepForOutboundSend sts (en_LastSentMessageID e) (en_CurrentStepPosition e) of
       None \<Rightarrow>
         save_and_note (e\<lparr>en_Status := ''completed'', en_NextActionAt := None, en_PauseReason := [], en_StopReason := []\<rparr>)
           (oc_ID campaign) ''completed_no_more_steps'' [] ''worker'' []
     | Some r \<Rightarrow>
         if st_Kind r = ''manual_task'' then
           bindO (askO (\<lambda>v. parseOutboundTaskPolicy (oe_task v) (st_TaskPolicyJSON r))) (\<lambda>task.
           save_and_note (e\<lparr>en_Status := ''manual_only'', en_CurrentStepPosition := st_Position r,
                en_ManualOwnerUserID := oc_UserID campaign, en_PauseReason := ''manual_task'', en_StopReason := [],
                en_NextActionAt := None\<rparr>)
             (oc_ID campaign) ''manual_task_due''
             [(''step_position'', show_int (st_Position r)), (''title'', tp_Title task),
              (''instructions'', tp_Instructions task), (''action_label'', tp_ActionLabel task)] ''worker'' [])
         else dispatch_step campaign sts r e)))"

section \<open>Replies\<close>

definition domain_action ::
  "outboundReplyPolicy \<Rightarrow> outboundSuppressionPolicy \<Rightarrow> outboundGovernancePolicy \<Rightarrow> string \<Rightarrow> string" where
  "domain_action reply supp gov outcome =
     (let o' = normalizeReplyOutcome outcome in
      if o' \<in> {''positive_interest'', ''meeting_intent''} then
        (if PositiveDomainAction gov \<noteq> ''none'' then PositiveDomainAction gov
         else if StopSameDomainOnReply reply \<or> StopSameDomainOnPositive reply \<or> SameDomainPositiveStop supp
         then ''stop_campaign'' else ''none'')
      else if o' \<in> {''not_interested'', ''wrong_person'', ''referral''} then
        (if NegativeDomainAction gov \<noteq> ''none'' then NegativeDomainAction gov
         else if StopSameDomainOnReply reply \<or> StopSameDomainOnNegative reply \<or> SameDomainNegativeStop supp
         then ''stop_campaign'' else ''none'')
      else if o' = ''unsubscribe_request'' then
        (if UnsubscribeDomainAction gov \<noteq> ''none'' then UnsubscribeDomainAction gov
         else if SameDomainUnsubscribeSuppress supp
         then (if WorkspaceSuppressUnsubscribe supp then ''suppress_workspace'' else ''suppress_campaign'')
         else ''stop_campaign'')
      else if o' = ''hostile'' then
        (if HostileDomainAction gov \<noteq> ''none'' then HostileDomainAction gov
         else if SameDomainHostileSuppress supp \<or> SuppressSameDomainOnHostile reply
         then ''suppress_workspace'' else ''stop_campaign'')
      else ''none'')"

definition govern :: "string \<Rightarrow> OutboundEnrollment \<Rightarrow> OutboundEnrollment" where
  "govern action other =
     (if action = ''pause_workspace''
      then other\<lparr>en_Status := ''paused'', en_PauseReason := ''same_domain_reply'', en_StopReason := [], en_NextActionAt := None\<rparr>
      else other\<lparr>en_Status := ''stopped'', en_StopReason := ''same_domain_reply'', en_PauseReason := [], en_NextActionAt := None\<rparr>)"

definition policies :: "OutboundCampaign \<Rightarrow> (outboundReplyPolicy \<times> outboundSuppressionPolicy \<times> outboundGovernancePolicy) Ob" where
  "policies campaign = askO (\<lambda>v.
     (parseOutboundReplyPolicy (oe_reply v) (oc_ReplyPolicyJSON campaign),
      parseOutboundSuppressionPolicy (oe_suppression v) (oc_SuppressionPolicyJSON campaign),
      parseOutboundGovernancePolicy (oe_governance v) (oc_GovernancePolicyJSON campaign)))"

definition new_suppression :: "string \<Rightarrow> string \<Rightarrow> string \<Rightarrow> string \<Rightarrow> string \<Rightarrow> string \<Rightarrow> gotime option \<Rightarrow> OutboundSuppression" where
  "new_suppression userID kind value campaignID reason source expires =
     \<lparr>sp_ID = [], sp_UserID = userID, sp_ScopeKind = kind, sp_ScopeValue = value, sp_CampaignID = campaignID,
      sp_Reason = reason, sp_SourceKind = source, sp_ExpiresAt = expires, sp_CreatedAt = None, sp_UpdatedAt = None\<rparr>"

definition applyOutcomeDomainActions :: "OutboundCampaign \<Rightarrow> OutboundEnrollment \<Rightarrow> string \<Rightarrow> unit Ob" where
  "applyOutcomeDomainActions campaign e outcome =
     bindO (policies campaign) (\<lambda>(reply, supp, gov).
     let action = domain_action reply supp gov outcome in
     thenO (if action = ''none'' then retO ()
        else bindO (ListActiveOutboundEnrollmentsByDomain (oc_UserID campaign) (en_RecipientDomain e) []) (\<lambda>others.
          forO (filter (\<lambda>x. en_ID x \<noteq> en_ID e
                  \<and> \<not> (action \<in> {''stop_campaign'', ''suppress_campaign''} \<and> en_CampaignID x \<noteq> oc_ID campaign)) others)
            (\<lambda>x. thenO (UpsertOutboundEnrollment (govern action x))
               (ignoreO (AppendOutboundEvent (oc_ID campaign) (en_ID x) ''domain_governed'' [] ''classifier'' action) (retO ())))))
     (if action \<in> {''suppress_campaign'', ''suppress_workspace''}
      then thenO (UpsertOutboundSuppression (new_suppression (oc_UserID campaign) ''domain'' (en_RecipientDomain e)
                    (if action = ''suppress_workspace'' then [] else oc_ID campaign)
                    (''domain suppression due to '' @ outcome) ''reply_policy'' None)) (retO ())
      else retO ()))"

text \<open>The enrollment after a reply, when no branch of the step applies.\<close>

definition reply_enrollment :: "outboundReplyPolicy \<Rightarrow> OutboundCampaign \<Rightarrow> string \<Rightarrow> gotime option \<Rightarrow> OutboundEnrollment \<Rightarrow> OutboundEnrollment" where
  "reply_enrollment reply campaign outcome resumeAt e =
     (let manual = e\<lparr>en_Status := ''manual_only'', en_ManualOwnerUserID := oc_UserID campaign\<rparr>;
          stop = e\<lparr>en_Status := ''stopped'', en_StopReason := outcome\<rparr>
      in if outcome \<in> {''positive_interest'', ''meeting_intent''} then stop
         else if outcome = ''question'' then (if PauseOnQuestion reply then manual else stop)
         else if outcome = ''objection'' then (if PauseOnObjection reply then manual else stop)
         else if outcome \<in> {''referral'', ''wrong_person'', ''not_interested'', ''hostile''} then stop
         else if outcome = ''unsubscribe_request'' then e\<lparr>en_Status := ''unsubscribed'', en_StopReason := outcome\<rparr>
         else if outcome = ''bounce'' then e\<lparr>en_Status := ''bounced'', en_StopReason := outcome\<rparr>
         else if outcome = ''out_of_office'' then
           (if PauseOnOutOfOffice reply
            then e\<lparr>en_Status := ''paused'', en_PauseReason := ''out_of_office'',
                   en_NextActionAt := (if AutoResumeOutOfOffice reply \<and> resumeAt \<noteq> None then resumeAt else en_NextActionAt e)\<rparr>
            else manual)
         else if outcome \<in> {''auto_reply_other'', ''manual_review_required''} then
           (if PauseOnManualReview reply then manual
            else e\<lparr>en_Status := ''paused'', en_PauseReason := ''manual_review''\<rparr>)
         else if StopOnReply reply then e\<lparr>en_Status := ''stopped'', en_StopReason := ''reply''\<rparr>
         else e)"

definition reply_suppression :: "outboundSuppressionPolicy \<Rightarrow> outboundCompliancePolicy \<Rightarrow> OutboundCampaign \<Rightarrow> OutboundEnrollment \<Rightarrow> string
    \<Rightarrow> OutboundSuppression option" where
  "reply_suppression supp compliance campaign e outcome =
     (if outcome = ''unsubscribe_request'' then
        Some (new_suppression (oc_UserID campaign) ''recipient'' (en_RecipientEmail e)
          (if EqualFold (TrimSpace (UnsubscribeScope compliance)) ''workspace'' \<or> WorkspaceSuppressUnsubscribe supp
           then [] else oc_ID campaign) ''recipient requested unsubscribe'' ''unsubscribe'' None)
      else if outcome = ''bounce'' then
        Some (new_suppression (oc_UserID campaign) ''recipient'' (en_RecipientEmail e)
          (if WorkspaceSuppressBounce supp then [] else oc_ID campaign) ''hard bounce'' ''bounce'' None)
      else if outcome = ''hostile'' then
        Some (new_suppression (oc_UserID campaign) ''recipient'' (en_RecipientEmail e) [] ''hostile reply'' ''reply_policy'' None)
      else None)"

definition reply_state :: "OutboundCampaign \<Rightarrow> OutboundEnrollment \<Rightarrow> gotime \<Rightarrow> string \<Rightarrow> RecipientState" where
  "reply_state campaign e replyAt outcome =
     \<lparr>rs_UserID = oc_UserID campaign, rs_RecipientEmail = en_RecipientEmail e, rs_PrimaryContactID = en_ContactID e,
      rs_RecipientDomain = en_RecipientDomain e, rs_Status = recipientStateStatusForOutcome outcome, rs_Scope = ''workspace'',
      rs_LastReplyAt = Some replyAt, rs_LastReplyOutcome = outcome, rs_SuppressedUntil = None,
      rs_SuppressionReason = (if outcome = ''unsubscribe_request'' then ''unsubscribe_request''
        else if outcome = ''hostile'' then ''hostile_reply'' else if outcome = ''bounce'' then ''bounce'' else []),
      rs_Notes = [], rs_UpdatedAt = None\<rparr>"

text \<open>The writes that follow the decision on the enrollment.\<close>

definition finish_reply ::
  "OutboundCampaign \<Rightarrow> outboundSuppressionPolicy \<Rightarrow> outboundCompliancePolicy \<Rightarrow> IndexedMessage \<Rightarrow> string \<Rightarrow> gotime \<Rightarrow> OutboundEnrollment
   \<Rightarrow> unit Ob" where
  "finish_reply campaign supp compliance indexed outcome replyAt e =
     thenO (UpsertOutboundEnrollment e)
     (thenO (UpsertRecipientState (reply_state campaign e replyAt outcome))
     (thenO (case reply_suppression supp compliance campaign e outcome of
               None \<Rightarrow> retO () | Some p \<Rightarrow> thenO (UpsertOutboundSuppression p) (retO ()))
     (thenO (applyOutcomeDomainActions campaign e outcome)
     (ignoreO (AppendOutboundEvent (oc_ID campaign) (en_ID e) ''reply_detected''
        [(''message_id'', im_ID indexed), (''thread_id'', im_ThreadID indexed), (''outcome'', outcome)] ''worker'' [])
     (ignoreO (AppendOutboundEvent (oc_ID campaign) (en_ID e) ''reply_classified''
        [(''message_id'', im_ID indexed), (''reply_outcome'', outcome), (''status'', en_Status e),
         (''pause_reason'', en_PauseReason e), (''stop_reason'', en_StopReason e)] ''classifier'' outcome)
     (retO ()))))))"

text \<open>The conversation and the enrollment as the reply leaves them before its outcome is looked at.\<close>

definition replied_binding :: "IndexedMessage \<Rightarrow> gotime \<Rightarrow> MailThreadBinding \<Rightarrow> MailThreadBinding" where
  "replied_binding indexed replyAt b = b\<lparr>tb_LastReplyMessageID := im_ID indexed, tb_LastReplyAt := Some replyAt,
     tb_ThreadID := (if TrimSpace (im_ThreadID indexed) \<noteq> [] then im_ThreadID indexed else tb_ThreadID b),
     tb_ThreadSubject := (if TrimSpace (im_Subject indexed) \<noteq> [] then im_Subject indexed else tb_ThreadSubject b)\<rparr>"

definition replied_enrollment :: "string \<Rightarrow> string \<Rightarrow> int \<Rightarrow> OutboundEnrollment \<Rightarrow> OutboundEnrollment" where
  "replied_enrollment bindingID outcome confidence e = e\<lparr>en_ThreadBindingID := bindingID, en_ReplyOutcome := outcome,
     en_ReplyConfidence := confidence, en_NextActionAt := None, en_PauseReason := [], en_StopReason := []\<rparr>"

text \<open>The branch of the step, if one applies, else the reply policy, decides on the enrollment.\<close>

definition decide_reply ::
  "OutboundCampaign \<Rightarrow> outboundReplyPolicy \<Rightarrow> string \<Rightarrow> gotime option \<Rightarrow> OutboundEnrollment \<Rightarrow> OutboundEnrollment Ob" where
  "decide_reply campaign reply outcome resumeAt e =
     tryO (ListOutboundCampaignSteps (oc_ID campaign)) (\<lambda>res.
       let sts = (case res of Inl _ \<Rightarrow> [] | Inr xs \<Rightarrow> xs) in
       bindO nowO (\<lambda>now.
       askO (\<lambda>v. case applyOutboundReplyBranch (oe_branch v) now campaign e sts outcome of
         Some x \<Rightarrow> x | None \<Rightarrow> reply_enrollment reply campaign outcome resumeAt e)))"

definition applyOutboundReplyOutcome ::
  "OutboundCampaign \<Rightarrow> OutboundEnrollment \<Rightarrow> MailThreadBinding \<Rightarrow> IndexedMessage \<Rightarrow> string \<Rightarrow> int \<Rightarrow> gotime option \<Rightarrow> unit Ob" where
  "applyOutboundReplyOutcome campaign e binding0 indexed outcome0 confidence resumeAt =
     (let outcome = normalizeReplyOutcome outcome0 in
      bindO (case im_DateHeader indexed of Some t \<Rightarrow> retO t
             | None \<Rightarrow> (case im_InternalDate indexed of Some t \<Rightarrow> retO t | None \<Rightarrow> nowO)) (\<lambda>replyAt.
      bindO (policies campaign) (\<lambda>(reply, supp, gov).
      bindO (askO (\<lambda>v. parseOutboundCompliancePolicy (oe_compliance v) (oc_CompliancePolicyJSON campaign))) (\<lambda>compliance.
      let binding = replied_binding indexed replyAt binding0 in
      thenO (UpsertMailThreadBinding binding)
      (bindO (decide_reply campaign reply outcome resumeAt (replied_enrollment (tb_ID binding) outcome confidence e)) (\<lambda>e'.
       finish_reply campaign supp compliance indexed outcome replyAt e'))))))"

definition ProcessOutboundIndexedMessage :: "MailAccount \<Rightarrow> IndexedMessage \<Rightarrow> unit Ob" where
  "ProcessOutboundIndexedMessage account indexed =
     thenO (if TrimSpace (im_MessageIDHeader indexed) = [] then retO ()
        else tryO (FindMailThreadBindingByOutboundMessageID (ma_ID account) (im_MessageIDHeader indexed)) (\<lambda>res. case res of
          Inl _ \<Rightarrow> retO ()
        | Inr b \<Rightarrow> thenO (UpsertMailThreadBinding (b\<lparr>
             tb_ThreadID := (if TrimSpace (im_ThreadID indexed) \<noteq> [] then im_ThreadID indexed else tb_ThreadID b),
             tb_ThreadSubject := (if TrimSpace (im_Subject indexed) \<noteq> [] then im_Subject indexed else tb_ThreadSubject b)\<rparr>))
            (retO ())))
     (bindO (liftO (\<lambda>v n. oe_self v n account indexed)) (\<lambda>own.
      if own then retO ()
      else
        let inReplyTo = NormalizeMessageIDHeader (im_InReplyToHeader indexed);
            headers = NormalizeMessageIDHeaders
              (ParseMessageIDList (im_ReferencesHeader indexed) @ (if inReplyTo \<noteq> [] then [inReplyTo] else []))
        in if headers = [] then retO ()
           else tryO (FindMailThreadBindingByReplyHeaders (ma_ID account) headers) (\<lambda>res. case res of
             Inl err \<Rightarrow> if err = ErrNotFound then retO () else failO err
           | Inr binding \<Rightarrow>
               if TrimSpace (tb_LastReplyMessageID binding) = TrimSpace (im_ID indexed) then retO ()
               else
                 bindO (GetOutboundCampaignByIDAny (tb_CampaignID binding)) (\<lambda>campaign.
                 bindO (GetOutboundEnrollmentByID (oc_UserID campaign) (tb_EnrollmentID binding)) (\<lambda>e.
                 bindO (askO (\<lambda>v. classifyOutboundReply (oe_return_date v) indexed)) (\<lambda>(outcome, confidence, resumeAt).
                 applyOutboundReplyOutcome campaign e binding indexed outcome confidence resumeAt))))))"

definition ApplyManualReplyOutcome :: "string \<Rightarrow> string \<Rightarrow> string \<Rightarrow> int \<Rightarrow> unit Ob" where
  "ApplyManualReplyOutcome userID enrollmentID outcome confidence =
     bindO (GetOutboundEnrollmentByID userID enrollmentID) (\<lambda>e.
     bindO (GetOutboundCampaignByID userID (en_CampaignID e)) (\<lambda>campaign.
     tryO (GetMailThreadBindingByEnrollment (en_ID e)) (\<lambda>res. case res of
       Inl err \<Rightarrow> if err \<noteq> ErrNotFound then failO err
                   else applyOutboundReplyOutcome campaign e zero_binding
                     \<lparr>im_ID = [], im_ThreadID = [], im_MessageIDHeader = [], im_InReplyToHeader = [], im_ReferencesHeader = [],
                      im_FromValue = [], im_Subject = [], im_Snippet = [], im_BodyText = [], im_RawSource = [],
                      im_DateHeader = None, im_InternalDate = None\<rparr> outcome (if confidence \<le> 0 then 100 else confidence) None
     | Inr binding \<Rightarrow>
         (let plain = \<lparr>im_ID = tb_LastReplyMessageID binding, im_ThreadID = tb_ThreadID binding, im_MessageIDHeader = [],
                im_InReplyToHeader = [], im_ReferencesHeader = [], im_FromValue = [], im_Subject = tb_ThreadSubject binding,
                im_Snippet = [], im_BodyText = [], im_RawSource = [], im_DateHeader = tb_LastReplyAt binding,
                im_InternalDate = tb_LastReplyAt binding\<rparr>;
              account = firstNonEmptyString [tb_ReplyAccountID binding, tb_CollectorAccountID binding, tb_AccountID binding]
          in bindO (if TrimSpace (tb_LastReplyMessageID binding) \<noteq> [] \<and> account \<noteq> []
                    then liftO (\<lambda>v n. Inr (case oe_indexed v n account (tb_LastReplyMessageID binding) of
                                             None \<Rightarrow> plain | Some m \<Rightarrow> m))
                    else retO plain) (\<lambda>indexed.
             applyOutboundReplyOutcome campaign e binding indexed outcome (if confidence \<le> 0 then 100 else confidence) None)))))"

section \<open>Actions of a user\<close>

text \<open>What an action does to the enrollment; the two suppressing actions write a suppression first.\<close>

definition ops_enrollment :: "string \<Rightarrow> string \<Rightarrow> string \<Rightarrow> gotime option \<Rightarrow> gotime \<Rightarrow> OutboundEnrollment \<Rightarrow> OutboundEnrollment option" where
  "ops_enrollment userID action scopeValue until now e =
     (if action = ''takeover''
      then Some (e\<lparr>en_Status := ''manual_only'', en_ManualOwnerUserID := userID, en_PauseReason := [], en_NextActionAt := None\<rparr>)
      else if action = ''pause''
      then Some (e\<lparr>en_Status := ''paused'', en_PauseReason := ''manual_pause'', en_NextActionAt := until\<rparr>)
      else if action = ''resume''
      then Some (e\<lparr>en_Status := ''scheduled'', en_PauseReason := [], en_NextActionAt := Some now\<rparr>)
      else if action = ''stop''
      then Some (e\<lparr>en_Status := ''stopped'', en_StopReason := firstNonEmptyString [scopeValue, ''manual_stop''],
             en_PauseReason := [], en_NextActionAt := None\<rparr>)
      else if action = ''suppress_recipient''
      then Some (e\<lparr>en_Status := ''stopped'', en_StopReason := ''manual_suppression'', en_NextActionAt := None\<rparr>)
      else if action = ''suppress_domain''
      then Some (e\<lparr>en_Status := ''stopped'', en_StopReason := ''manual_domain_suppression'', en_NextActionAt := None\<rparr>)
      else None)"

definition ops_suppression :: "string \<Rightarrow> OutboundCampaign \<Rightarrow> OutboundEnrollment \<Rightarrow> string \<Rightarrow> string \<Rightarrow> gotime option
    \<Rightarrow> OutboundSuppression option" where
  "ops_suppression userID campaign e action scopeValue until =
     (if action = ''suppress_recipient''
      then Some (new_suppression userID ''recipient'' (firstNonEmptyString [scopeValue, en_RecipientEmail e]) []
                   ''manual suppression'' ''manual'' until)
      else if action = ''suppress_domain''
      then Some (new_suppression userID ''domain'' (firstNonEmptyString [scopeValue, en_RecipientDomain e]) (oc_ID campaign)
                   ''manual domain suppression'' ''manual'' until)
      else None)"

definition ApplyReplyOpsAction :: "string \<Rightarrow> string \<Rightarrow> string \<Rightarrow> string \<Rightarrow> gotime option \<Rightarrow> unit Ob" where
  "ApplyReplyOpsAction userID enrollmentID action0 scopeValue until =
     (let action = ToLower (TrimSpace action0) in
      bindO (GetOutboundEnrollmentByID userID enrollmentID) (\<lambda>e.
      bindO (GetOutboundCampaignByID userID (en_CampaignID e)) (\<lambda>campaign.
      tryO (GetMailThreadBindingByEnrollment (en_ID e)) (\<lambda>res.
      if (case res of Inl err \<Rightarrow> err \<noteq> ErrNotFound | Inr _ \<Rightarrow> False)
      then failO (case res of Inl err \<Rightarrow> err | Inr _ \<Rightarrow> ErrNotFound)
      else let binding = (case res of Inl _ \<Rightarrow> zero_binding | Inr b \<Rightarrow> b) in
        thenO (case ops_suppression userID campaign e action scopeValue until of
                 None \<Rightarrow> retO () | Some p \<Rightarrow> thenO (UpsertOutboundSuppression p) (retO ()))
        (bindO (if action = ''resume'' then nowO else retO 0) (\<lambda>now.
         case ops_enrollment userID action scopeValue until now e of
           None \<Rightarrow> failO (ErrMsg ''unsupported reply-ops action'')
         | Some e' \<Rightarrow>
             thenO (UpsertOutboundEnrollment e')
             (thenO (if TrimSpace (tb_ID binding) \<noteq> [] \<and> TrimSpace (tb_OwnerUserID binding) = []
                     then thenO (UpsertMailThreadBinding (binding\<lparr>tb_OwnerUserID := oc_UserID campaign\<rparr>)) (retO ())
                     else retO ())
             (ignoreO (AppendOutboundEvent (oc_ID campaign) (en_ID e') action [] ''user'' userID) (retO ())))))))))"

section \<open>The worker\<close>

text \<open>One round of the loop: pauses of absent recipients that are over end, then up to fifty due enrollments,
  read at the beginning, are dispatched one after the other.  Errors are logged.\<close>

definition resume_item :: "OutboundEnrollment \<Rightarrow> unit Ob" where
  "resume_item item =
     bindO nowO (\<lambda>now.
     tryO (UpsertOutboundEnrollment (item\<lparr>en_Status := ''scheduled'', en_PauseReason := [], en_NextActionAt := Some now\<rparr>))
     (\<lambda>res. case res of
       Inl _ \<Rightarrow> retO ()
     | Inr _ \<Rightarrow> ignoreO (AppendOutboundEvent (en_CampaignID item) (en_ID item) ''resume_requested'' [] ''worker'' ''ooo'') (retO ())))"

definition resumeOutboundOOO :: "unit Ob" where
  "resumeOutboundOOO =
     bindO nowO (\<lambda>now.
     tryO (ListOutboundOOOResumeDue now 50) (\<lambda>res. case res of
       Inl _ \<Rightarrow> retO () | Inr items \<Rightarrow> forO items resume_item))"

definition processOutboundDue :: "unit Ob" where
  "processOutboundDue =
     thenO resumeOutboundOOO
     (bindO nowO (\<lambda>now.
      tryO (ListDueOutboundEnrollments now 50) (\<lambda>res. case res of
        Inl _ \<Rightarrow> retO ()
      | Inr items \<Rightarrow> forO items (\<lambda>item. ignoreO (DispatchOutboundEnrollment item) (retO ())))))"

end
