(* ===== verification/OutboundLaunch.thy ===== *)
theory OutboundLaunch
  imports Outbound
begin

text \<open>
  \<^verbatim>\<open>internal/service/outbound.go\<close>: the preflight of a campaign and its launch.  Of an issue the message for
  the user is left out.
\<close>

section \<open>Preflight\<close>

record OutboundPreflightIssue =
  pi_Code :: string
  pi_Severity :: string
  pi_Recipient :: string
  pi_Domain :: string
  pi_SenderRef :: string
  pi_CampaignID :: string
  pi_Blocking :: bool

definition campaign_issue :: "string \<Rightarrow> string \<Rightarrow> bool \<Rightarrow> OutboundPreflightIssue" where
  "campaign_issue code severity blocking =
     \<lparr>pi_Code = code, pi_Severity = severity, pi_Recipient = [], pi_Domain = [], pi_SenderRef = [], pi_CampaignID = [],
      pi_Blocking = blocking\<rparr>"

definition recipient_issue :: "OutboundEnrollment \<Rightarrow> string \<Rightarrow> string \<Rightarrow> bool \<Rightarrow> OutboundPreflightIssue" where
  "recipient_issue e code severity blocking =
     (campaign_issue code severity blocking)\<lparr>pi_Recipient := en_RecipientEmail e, pi_Domain := en_RecipientDomain e\<rparr>"

definition severity_if :: "bool \<Rightarrow> string" where "severity_if b = (if b then ''error'' else ''warning'')"

definition existing_threads :: "OutboundCampaign \<Rightarrow> bool" where
  "existing_threads campaign = EqualFold (TrimSpace (oc_CampaignMode campaign)) ''existing_threads''"

definition step_issues :: "outboundTaskPolicy unmarshal \<Rightarrow> OutboundCampaign \<Rightarrow> OutboundCampaignStep \<Rightarrow> OutboundPreflightIssue list" where
  "step_issues unmarshal campaign r =
     (if st_Kind r = ''manual_task'' \<and> tp_Title (parseOutboundTaskPolicy unmarshal (st_TaskPolicyJSON r)) = []
      then [campaign_issue ''manual_task_missing_title'' ''error'' True] else []) @
     (if existing_threads campaign \<and> st_Kind r = ''email'' \<and> st_ThreadMode r \<noteq> ''same_thread''
      then [campaign_issue ''existing_threads_new_thread_step'' ''warning'' False] else [])"

definition seeded :: "outboundSeedContext unmarshal \<Rightarrow> OutboundEnrollment \<Rightarrow> bool" where
  "seeded unmarshal e =
     (let seed = parseOutboundSeedContext unmarshal (en_SeedContextJSON e) in
      TrimSpace (en_ThreadBindingID e) \<noteq> [] \<or> sd_AccountID seed \<noteq> [] \<or> sd_ThreadID seed \<noteq> [] \<or> sd_MessageID seed \<noteq> [])"

definition domain_count :: "OutboundEnrollment list \<Rightarrow> string \<Rightarrow> nat" where
  "domain_count es domain = length (filter (\<lambda>e. TrimSpace (en_RecipientDomain e) \<noteq> [] \<and> en_RecipientDomain e = domain) es)"

definition sends_24h :: "gotime \<Rightarrow> OutboundEvent list \<Rightarrow> string \<Rightarrow> string \<Rightarrow> nat \<times> nat" where
  "sends_24h now evs senderAccountID domain =
     (let recent = filter (\<lambda>x. ev_EventKind x = ''step_sent'' \<and> \<not> ev_CreatedAt x < now - 24 * time_Hour) evs;
          value = (\<lambda>k x. TrimSpace (case map_of (ev_Payload x) k of None \<Rightarrow> ''<nil>'' | Some a \<Rightarrow> a))
      in (length (filter (\<lambda>x. value ''sender_account_id'' x = TrimSpace senderAccountID) recent),
          length (filter (\<lambda>x. EqualFold (value ''recipient_domain'' x) (TrimSpace domain)) recent)))"

definition outboundSendCounts24h :: "string \<Rightarrow> string \<Rightarrow> string \<Rightarrow> (nat \<times> nat) Ob" where
  "outboundSendCounts24h campaignID senderAccountID domain =
     bindO (ListOutboundCampaignEvents campaignID 5000) (\<lambda>evs.
     bindO nowO (\<lambda>now. retO (sends_24h now evs senderAccountID domain)))"

text \<open>The steps are rendered in order; an error ends the loop.\<close>

fun render_issues :: "OutboundCampaign \<Rightarrow> OutboundEnrollment \<Rightarrow> outboundSenderSelection \<Rightarrow> OutboundCampaignStep list
    \<Rightarrow> OutboundPreflightIssue list Ob" where
  "render_issues campaign e sel [] = retO []"
| "render_issues campaign e sel (r # rs) =
     (if st_Kind r = ''manual_task'' then render_issues campaign e sel rs
      else tryO (liftO (\<lambda>v n. oe_render v n campaign r e)) (\<lambda>res. case res of
        Inl _ \<Rightarrow> retO [(recipient_issue e ''sender_unavailable'' ''error'' True)\<lparr>pi_SenderRef := ma_ID (sel_Account sel)\<rparr>]
      | Inr rendered \<Rightarrow>
          bindO (render_issues campaign e sel rs) (\<lambda>more.
          retO ((if rd_Missing rendered \<noteq> [] then [recipient_issue e ''missing_template_variables'' ''error'' True] else []) @ more))))"

text \<open>Counts of an account are read once per preflight; the caches are lists of account and count.\<close>

type_synonym counts = "(string \<times> nat) list"

definition cached_count :: "string \<Rightarrow> string \<Rightarrow> duration \<Rightarrow> counts \<Rightarrow> counts Ob" where
  "cached_count userID accountID window cache =
     (case map_of cache accountID of
        Some _ \<Rightarrow> retO cache
      | None \<Rightarrow> bindO nowO (\<lambda>now.
          bindO (outboundAccountSendsSince userID accountID (now - window)) (\<lambda>n. retO ((accountID, n) # cache))))"

definition count_of :: "counts \<Rightarrow> string \<Rightarrow> int" where
  "count_of cache accountID = (case map_of cache accountID of None \<Rightarrow> 0 | Some n \<Rightarrow> int n)"

definition pacing_issues ::
  "string \<Rightarrow> outboundSchedulePolicy \<Rightarrow> OutboundEnrollment \<Rightarrow> MailAccount \<Rightarrow> counts \<times> counts
   \<Rightarrow> (OutboundPreflightIssue list \<times> counts \<times> counts) Ob" where
  "pacing_issues userID schedule e account = (\<lambda>(day, hour).
     if \<not> RespectProviderCaps schedule then retO ([], day, hour)
     else bindO (cached_count userID (ma_ID account) (24 * time_Hour) day) (\<lambda>day'.
       bindO (cached_count userID (ma_ID account) time_Hour hour) (\<lambda>hour'.
       let pacing = outboundProviderPacingForAccount account;
           issue = (\<lambda>code. (recipient_issue e code ''warning'' False)\<lparr>pi_SenderRef := ma_ID account\<rparr>)
       in retO (
         (if DailyCap pacing > 0 \<and> count_of day' (ma_ID account) \<ge> DailyCap pacing then [issue ''provider_daily_soft_cap''] else []) @
         (if HourlyCap pacing > 0 \<and> count_of hour' (ma_ID account) \<ge> HourlyCap pacing then [issue ''provider_hourly_soft_cap''] else []) @
         (if MaxSendsPerDay schedule > 0 \<and> DailyCap pacing > 0 \<and> MaxSendsPerDay schedule > DailyCap pacing
          then [issue ''campaign_daily_cap_above_provider_soft_cap''] else []) @
         (if MaxSendsPerHour schedule > 0 \<and> HourlyCap pacing > 0 \<and> MaxSendsPerHour schedule > HourlyCap pacing
          then [issue ''campaign_hourly_cap_above_provider_soft_cap''] else []), day', hour'))))"

definition cap_issues :: "OutboundCampaign \<Rightarrow> outboundSchedulePolicy \<Rightarrow> OutboundEnrollment \<Rightarrow> MailAccount \<Rightarrow> OutboundPreflightIssue list Ob" where
  "cap_issues campaign schedule e account =
     (if \<not> (MaxSendsPerDay schedule > 0 \<or> MaxSendsPerDomainPerDay schedule > 0) then retO []
      else bindO (outboundSendCounts24h (oc_ID campaign) (ma_ID account) (en_RecipientDomain e)) (\<lambda>(sender24h, domain24h).
        retO (
         (if MaxSendsPerDay schedule > 0 \<and> int sender24h \<ge> MaxSendsPerDay schedule
          then [(recipient_issue e ''sender_daily_cap'' ''warning'' False)\<lparr>pi_SenderRef := ma_ID account\<rparr>] else []) @
         (if MaxSendsPerDomainPerDay schedule > 0 \<and> int domain24h \<ge> MaxSendsPerDomainPerDay schedule
          then [recipient_issue e ''domain_daily_cap'' ''warning'' False] else []))))"

text \<open>A list that could not be read counts as empty.\<close>

definition elsewhere_issue :: "OutboundEnrollment \<Rightarrow> string \<Rightarrow> bool \<Rightarrow> OutboundEnrollment list Ob \<Rightarrow> OutboundPreflightIssue list Ob" where
  "elsewhere_issue e code block active =
     tryO active (\<lambda>res. retO (case res of
       Inr (x # _) \<Rightarrow> [(recipient_issue e code (severity_if block) block)\<lparr>pi_CampaignID := en_CampaignID x\<rparr>]
     | _ \<Rightarrow> []))"

definition suppressed_issue :: "string \<Rightarrow> OutboundCampaign \<Rightarrow> OutboundEnrollment \<Rightarrow> OutboundPreflightIssue list Ob" where
  "suppressed_issue userID campaign e =
     bindO nowO (\<lambda>now.
     tryO (GetActiveOutboundSuppression userID (en_RecipientEmail e) (en_RecipientDomain e) (oc_ID campaign) now) (\<lambda>res. case res of
       Inr _ \<Rightarrow> retO [recipient_issue e ''recipient_suppressed'' ''error'' True]
     | Inl err \<Rightarrow> if err \<noteq> ErrNotFound then failO err else retO []))"

text \<open>What follows the choice of a sender.\<close>

definition selected_issues ::
  "string \<Rightarrow> OutboundCampaign \<Rightarrow> OutboundCampaignStep list \<Rightarrow> outboundSchedulePolicy \<Rightarrow> OutboundEnrollment
   \<Rightarrow> outboundSenderSelection \<Rightarrow> counts \<times> counts \<Rightarrow> (OutboundPreflightIssue list \<times> counts \<times> counts) Ob" where
  "selected_issues userID campaign sts schedule e sel caches =
     bindO (askO (\<lambda>v. parseOutboundSeedContext (oe_seed v) (en_SeedContextJSON e))) (\<lambda>seed.
     let mismatch = (if existing_threads campaign \<and> sd_AccountID seed \<noteq> [] \<and> TrimSpace (ma_ID (sel_Account sel)) \<noteq> sd_AccountID seed
           then [(recipient_issue e ''thread_owner_mismatch'' ''warning'' False)\<lparr>pi_SenderRef := ma_ID (sel_Account sel)\<rparr>] else [])
     in bindO (render_issues campaign e sel sts) (\<lambda>rendering.
        bindO (pacing_issues userID schedule e (sel_Account sel) caches) (\<lambda>(pacing, caches').
        bindO (cap_issues campaign schedule e (sel_Account sel)) (\<lambda>caps.
        retO (mismatch @ rendering @ pacing @ caps, caches')))))"

fun recipients_issues ::
  "string \<Rightarrow> OutboundCampaign \<Rightarrow> OutboundCampaignStep list \<Rightarrow> outboundSchedulePolicy \<Rightarrow> outboundGovernancePolicy
   \<Rightarrow> OutboundEnrollment list \<Rightarrow> string list \<Rightarrow> counts \<times> counts \<Rightarrow> OutboundEnrollment list \<Rightarrow> OutboundPreflightIssue list Ob" where
  "recipients_issues userID campaign sts schedule governance es seen caches [] = retO []"
| "recipients_issues userID campaign sts schedule governance es seen caches (e # rest) =
     (let key = ToLower (TrimSpace (en_RecipientEmail e)) in
      if key \<in> set seen then
        bindO (recipients_issues userID campaign sts schedule governance es seen caches rest) (\<lambda>more.
        retO (recipient_issue e ''duplicate_recipient'' ''error'' True # more))
      else
        let cap = (if MaxActivePerDomain governance > 0 \<and> int (domain_count es (en_RecipientDomain e)) > MaxActivePerDomain governance
              then [recipient_issue e ''domain_active_cap'' ''warning'' (DomainCollisionMode governance = ''block'')] else [])
        in bindO (suppressed_issue userID campaign e) (\<lambda>suppressed.
           bindO (elsewhere_issue e ''recipient_active_elsewhere'' (RecipientCollisionMode governance = ''block'')
             (ListActiveOutboundEnrollmentsByRecipient userID (en_RecipientEmail e) (oc_ID campaign))) (\<lambda>elsewhere.
           bindO (elsewhere_issue e ''domain_active_elsewhere'' (DomainCollisionMode governance = ''block'')
             (ListActiveOutboundEnrollmentsByDomain userID (en_RecipientDomain e) (oc_ID campaign))) (\<lambda>domain_elsewhere.
           bindO (tryO (liftO (\<lambda>v n. oe_select v n campaign e)) (\<lambda>res. case res of
               Inl _ \<Rightarrow> retO ([recipient_issue e ''sender_unavailable'' ''error'' True], caches)
             | Inr sel \<Rightarrow> selected_issues userID campaign sts schedule e sel caches)) (\<lambda>(found, caches').
           bindO (recipients_issues userID campaign sts schedule governance es (key # seen) caches' rest) (\<lambda>more.
           retO (cap @ suppressed @ elsewhere @ domain_elsewhere @ found @ more)))))))"

definition PreflightOutboundCampaign :: "string \<Rightarrow> OutboundCampaign \<Rightarrow> OutboundPreflightIssue list Ob" where
  "PreflightOutboundCampaign userID campaign =
     bindO (ListOutboundCampaignSteps (oc_ID campaign)) (\<lambda>sts.
     bindO (askO (\<lambda>v. concat (map (step_issues (oe_task v) campaign) sts))) (\<lambda>issues1.
     if sts = [] then retO (issues1 @ [campaign_issue ''missing_steps'' ''error'' True])
     else let issues2 = issues1 @ (if \<not> list_ex (\<lambda>r. st_Kind r = ''email'') sts
                then [campaign_issue ''no_email_steps'' ''warning'' False] else [])
       in bindO (ListOutboundEnrollmentsByCampaign userID (oc_ID campaign)) (\<lambda>es.
          if es = [] then retO (issues2 @ [campaign_issue ''missing_recipients'' ''error'' True])
          else
            bindO (askO (\<lambda>v. (parseOutboundCompliancePolicy (oe_compliance v) (oc_CompliancePolicyJSON campaign),
                              parseOutboundSchedulePolicy (oe_schedule v) (oc_SchedulePolicyJSON campaign),
                              parseOutboundGovernancePolicy (oe_governance v) (oc_GovernancePolicyJSON campaign),
                              list_ex (seeded (oe_seed v)) es))) (\<lambda>(compliance, schedule, governance, hasSeed).
            bindO (recipients_issues userID campaign sts schedule governance es [] ([], []) es) (\<lambda>found.
            retO (issues2 @
              (if existing_threads campaign \<and> \<not> hasSeed then [campaign_issue ''missing_existing_thread_context'' ''error'' True] else []) @
              found @
              (if Promotional compliance \<and> \<not> UnsubscribeRequired compliance
               then [campaign_issue ''promotional_without_unsubscribe'' ''warning'' False] else [])))))))"

section \<open>Launch\<close>

definition launch_skips :: "string list" where
  "launch_skips = [''completed'', ''stopped'', ''bounced'', ''unsubscribed'', ''waiting_reply'', ''paused'', ''manual_only'']"

definition LaunchOutboundCampaign :: "string \<Rightarrow> string \<Rightarrow> OutboundPreflightIssue list Ob" where
  "LaunchOutboundCampaign userID campaignID =
     bindO (GetOutboundCampaignByID userID campaignID) (\<lambda>campaign.
     bindO (PreflightOutboundCampaign userID campaign) (\<lambda>issues.
     if list_ex pi_Blocking issues then retO issues
     else
       bindO (ListOutboundEnrollmentsByCampaign userID (oc_ID campaign)) (\<lambda>es.
       bindO nowO (\<lambda>now.
       thenO (forO (filter (\<lambda>e. en_Status e \<notin> set launch_skips) es) (\<lambda>e.
           thenO (UpsertOutboundEnrollment (e\<lparr>en_Status := ''scheduled'',
             en_NextActionAt := (case en_NextActionAt e of None \<Rightarrow> Some now | Some t \<Rightarrow> Some t)\<rparr>)) (retO ())))
       (thenO (SetOutboundCampaignStatus userID (oc_ID campaign) ''running'' (Some now) None)
       (retO issues))))))"

end
