(* ===== verification/OutboundHandlers.thy ===== *)
theory OutboundHandlers
  imports OutboundLaunch Handlers
begin

text \<open>
  \<^verbatim>\<open>internal/api/router_outbound.go\<close>: the handlers of campaigns, steps, enrollments, replies, recipients and
  suppressions.  As in \<open>Handlers\<close>, a handler takes the id of the signed-in user, if it reads it, the
  parameters of the URL and the decoded body, and of its response the status and the error code are kept.
\<close>

section \<open>Bodies and responses\<close>

definition with_bodyO :: "decode_err + 'b \<Rightarrow> ('b \<Rightarrow> resp Ob) \<Rightarrow> resp Ob" where
  "with_bodyO body k = (case body of
     Inl JsonTooLarge \<Rightarrow> retO (error_resp 413 ''request_too_large'')
   | Inl JsonInvalid \<Rightarrow> retO (error_resp 400 ''bad_request'')
   | Inr b \<Rightarrow> k b)"

definition respondO :: "'a Ob \<Rightarrow> (err \<Rightarrow> resp) \<Rightarrow> ('a \<Rightarrow> resp) \<Rightarrow> resp Ob" where
  "respondO m on_err on_ok = tryO m (\<lambda>r. case r of Inl e \<Rightarrow> retO (on_err e) | Inr x \<Rightarrow> retO (on_ok x))"

text \<open>A missing row is answered with 404, any other error with 500.\<close>

definition missing_or :: "string \<Rightarrow> string \<Rightarrow> err \<Rightarrow> resp" where
  "missing_or missing failed e = (if e = ErrNotFound then error_resp 404 missing else error_resp 500 failed)"

definition compactJSONOrString :: "oenv \<Rightarrow> string \<Rightarrow> string \<Rightarrow> string option" where
  "compactJSONOrString v raw defaultValue =
     (let trimmed = TrimSpace raw in
      if trimmed = [] then Some defaultValue
      else if HasPrefix trimmed ''\"'' then map_option TrimSpace (oe_json_text v raw)
      else oe_json_compact v raw)"

definition parseNullableRFC3339 :: "oenv \<Rightarrow> string \<Rightarrow> gotime option option" where
  "parseNullableRFC3339 v raw =
     (let value = TrimSpace raw in if value = [] then Some None else map_option Some (oe_rfc3339 v value))"

section \<open>Campaigns\<close>

record outboundCampaignWriteRequest =
  cw_Name :: string
  cw_Status :: string
  cw_GoalKind :: string
  cw_PlaybookKey :: string
  cw_CampaignMode :: string
  cw_AudienceSourceKind :: string
  cw_AudienceSourceRef :: string
  cw_SenderPolicyKind :: string
  cw_SenderPolicyRef :: string
  cw_ReplyPolicy :: string
  cw_SuppressionPolicy :: string
  cw_SchedulePolicy :: string
  cw_CompliancePolicy :: string
  cw_GovernancePolicy :: string

text \<open>The first policy that is not JSON, or a blank name, makes the request invalid; all of them lead to
  the same response.\<close>

definition outboundCampaignFromRequest :: "oenv \<Rightarrow> outboundCampaignWriteRequest \<Rightarrow> OutboundCampaign option" where
  "outboundCampaignFromRequest v req =
     Option.bind (compactJSONOrString v (cw_SenderPolicyRef req) []) (\<lambda>senderPolicyRef.
     Option.bind (compactJSONOrString v (cw_ReplyPolicy req) ''{}'') (\<lambda>replyPolicy.
     Option.bind (compactJSONOrString v (cw_SuppressionPolicy req) ''{}'') (\<lambda>suppressionPolicy.
     Option.bind (compactJSONOrString v (cw_SchedulePolicy req) ''{}'') (\<lambda>schedulePolicy.
     Option.bind (compactJSONOrString v (cw_CompliancePolicy req) ''{}'') (\<lambda>compliancePolicy.
     Option.bind (compactJSONOrString v (cw_GovernancePolicy req) ''{}'') (\<lambda>governancePolicy.
     if TrimSpace (cw_Name req) = [] then None
     else Some \<lparr>oc_ID = [], oc_UserID = [], oc_Name = TrimSpace (cw_Name req), oc_Status = cw_Status req,
       oc_GoalKind = cw_GoalKind req, oc_PlaybookKey = TrimSpace (cw_PlaybookKey req), oc_CampaignMode = cw_CampaignMode req,
       oc_AudienceSourceKind = cw_AudienceSourceKind req, oc_AudienceSourceRef = TrimSpace (cw_AudienceSourceRef req),
       oc_SenderPolicyKind = cw_SenderPolicyKind req, oc_SenderPolicyRef = senderPolicyRef,
       oc_ReplyPolicyJSON = replyPolicy, oc_SuppressionPolicyJSON = suppressionPolicy,
       oc_SchedulePolicyJSON = schedulePolicy, oc_CompliancePolicyJSON = compliancePolicy,
       oc_GovernancePolicyJSON = governancePolicy, oc_CreatedAt = 0, oc_UpdatedAt = 0,
       oc_LaunchedAt = None, oc_CompletedAt = None\<rparr>))))))"

definition V2CreateOutboundCampaign :: "string \<Rightarrow> decode_err + outboundCampaignWriteRequest \<Rightarrow> resp Ob" where
  "V2CreateOutboundCampaign userID body = with_bodyO body (\<lambda>req.
     bindO (askO (\<lambda>v. outboundCampaignFromRequest v req)) (\<lambda>item. case item of
       None \<Rightarrow> retO (error_resp 400 ''outbound_campaign_create_failed'')
     | Some c \<Rightarrow> respondO (CreateOutboundCampaign (c\<lparr>oc_UserID := userID\<rparr>))
                   (\<lambda>_. error_resp 500 ''outbound_campaign_create_failed'') (\<lambda>_. ok_resp 201)))"

definition V2GetOutboundCampaign :: "string \<Rightarrow> string \<Rightarrow> resp Ob" where
  "V2GetOutboundCampaign userID i =
     respondO (GetOutboundCampaignByID userID i) (missing_or ''outbound_campaign_not_found'' ''outbound_campaign_get_failed'')
       (\<lambda>_. ok_resp 200)"

definition V2UpdateOutboundCampaign :: "string \<Rightarrow> string \<Rightarrow> decode_err + outboundCampaignWriteRequest \<Rightarrow> resp Ob" where
  "V2UpdateOutboundCampaign userID i body = with_bodyO body (\<lambda>req.
     bindO (askO (\<lambda>v. outboundCampaignFromRequest v req)) (\<lambda>item. case item of
       None \<Rightarrow> retO (error_resp 400 ''outbound_campaign_update_failed'')
     | Some c \<Rightarrow> respondO (UpdateOutboundCampaign (c\<lparr>oc_ID := i, oc_UserID := userID\<rparr>))
                   (missing_or ''outbound_campaign_not_found'' ''outbound_campaign_update_failed'') (\<lambda>_. ok_resp 200)))"

definition V2LaunchOutboundCampaign :: "string \<Rightarrow> string \<Rightarrow> resp Ob" where
  "V2LaunchOutboundCampaign userID i =
     respondO (LaunchOutboundCampaign userID i)
       (missing_or ''outbound_campaign_not_found'' ''outbound_campaign_launch_failed'')
       (\<lambda>issues. ok_resp (if list_ex pi_Blocking issues then 409 else 200))"

definition V2PauseOutboundCampaign :: "string \<Rightarrow> string \<Rightarrow> resp Ob" where
  "V2PauseOutboundCampaign userID i =
     respondO (SetOutboundCampaignStatus userID i ''paused'' None None)
       (missing_or ''outbound_campaign_not_found'' ''outbound_campaign_pause_failed'') (\<lambda>_. ok_resp 200)"

definition V2ResumeOutboundCampaign :: "string \<Rightarrow> string \<Rightarrow> resp Ob" where
  "V2ResumeOutboundCampaign userID i =
     respondO (SetOutboundCampaignStatus userID i ''running'' None None)
       (missing_or ''outbound_campaign_not_found'' ''outbound_campaign_resume_failed'') (\<lambda>_. ok_resp 200)"

definition V2ArchiveOutboundCampaign :: "string \<Rightarrow> string \<Rightarrow> resp Ob" where
  "V2ArchiveOutboundCampaign userID i =
     bindO nowO (\<lambda>now.
     respondO (SetOutboundCampaignStatus userID i ''archived'' None (Some now))
       (missing_or ''outbound_campaign_not_found'' ''outbound_campaign_archive_failed'') (\<lambda>_. ok_resp 200))"

definition V2PreflightOutboundCampaign :: "string \<Rightarrow> string \<Rightarrow> resp Ob" where
  "V2PreflightOutboundCampaign userID i =
     tryO (GetOutboundCampaignByID userID i) (\<lambda>res. case res of
       Inl e \<Rightarrow> retO (missing_or ''outbound_campaign_not_found'' ''outbound_preflight_failed'' e)
     | Inr campaign \<Rightarrow> respondO (PreflightOutboundCampaign userID campaign)
         (\<lambda>_. error_resp 500 ''outbound_preflight_failed'') (\<lambda>_. ok_resp 200))"

section \<open>Steps\<close>

record outboundStepWriteRequest =
  sw_Position :: int
  sw_Kind :: string
  sw_ThreadMode :: string
  sw_SubjectTemplate :: string
  sw_BodyTemplate :: string
  sw_WaitIntervalMinutes :: int
  sw_SendWindow :: string
  sw_TaskPolicy :: string
  sw_BranchPolicy :: string
  sw_StopIfReplied :: "bool option"
  sw_StopIfClicked :: "bool option"
  sw_StopIfBooked :: "bool option"
  sw_StopIfUnsubscribed :: "bool option"

definition normalizeOutboundStepRequest :: "outboundStepWriteRequest \<Rightarrow> OutboundCampaignStep" where
  "normalizeOutboundStepRequest req =
     \<lparr>st_ID = [], st_CampaignID = [], st_Position = sw_Position req, st_Kind = sw_Kind req, st_ThreadMode = sw_ThreadMode req,
      st_SubjectTemplate = TrimSpace (sw_SubjectTemplate req), st_BodyTemplate = TrimSpace (sw_BodyTemplate req),
      st_WaitIntervalMinutes = sw_WaitIntervalMinutes req, st_SendWindowJSON = [], st_TaskPolicyJSON = [], st_BranchPolicyJSON = [],
      st_StopIfReplied = (sw_StopIfReplied req \<noteq> Some False), st_StopIfClicked = (sw_StopIfClicked req = Some True),
      st_StopIfBooked = (sw_StopIfBooked req = Some True), st_StopIfUnsubscribed = (sw_StopIfUnsubscribed req \<noteq> Some False),
      st_CreatedAt = 0, st_UpdatedAt = 0\<rparr>"

definition step_of_request :: "oenv \<Rightarrow> outboundStepWriteRequest \<Rightarrow> OutboundCampaignStep option" where
  "step_of_request v req =
     Option.bind (compactJSONOrString v (sw_SendWindow req) ''{}'') (\<lambda>sendWindow.
     Option.bind (compactJSONOrString v (sw_TaskPolicy req) ''{}'') (\<lambda>taskPolicy.
     Option.bind (compactJSONOrString v (sw_BranchPolicy req) ''{}'') (\<lambda>branchPolicy.
     Some ((normalizeOutboundStepRequest req)\<lparr>st_SendWindowJSON := sendWindow, st_TaskPolicyJSON := taskPolicy,
       st_BranchPolicyJSON := branchPolicy\<rparr>))))"

definition V2ListOutboundCampaignSteps :: "string \<Rightarrow> string \<Rightarrow> resp Ob" where
  "V2ListOutboundCampaignSteps userID campaignID =
     tryO (GetOutboundCampaignByID userID campaignID) (\<lambda>res. case res of
       Inl e \<Rightarrow> retO (missing_or ''outbound_campaign_not_found'' ''outbound_steps_list_failed'' e)
     | Inr _ \<Rightarrow> respondO (ListOutboundCampaignSteps campaignID) (\<lambda>_. error_resp 500 ''outbound_steps_list_failed'') (\<lambda>_. ok_resp 200))"

definition V2CreateOutboundCampaignStep :: "string \<Rightarrow> string \<Rightarrow> decode_err + outboundStepWriteRequest \<Rightarrow> resp Ob" where
  "V2CreateOutboundCampaignStep userID campaignID body =
     tryO (GetOutboundCampaignByID userID campaignID) (\<lambda>res. case res of
       Inl e \<Rightarrow> retO (missing_or ''outbound_campaign_not_found'' ''outbound_step_create_failed'' e)
     | Inr _ \<Rightarrow> with_bodyO body (\<lambda>req.
         bindO (askO (\<lambda>v. step_of_request v req)) (\<lambda>item. case item of
           None \<Rightarrow> retO (error_resp 400 ''outbound_step_create_failed'')
         | Some r \<Rightarrow> respondO (CreateOutboundCampaignStep (r\<lparr>st_CampaignID := campaignID\<rparr>))
                       (\<lambda>_. error_resp 500 ''outbound_step_create_failed'') (\<lambda>_. ok_resp 201))))"

text \<open>The next three handlers do not read the signed-in user.\<close>

definition V2UpdateOutboundCampaignStep :: "string \<Rightarrow> decode_err + outboundStepWriteRequest \<Rightarrow> resp Ob" where
  "V2UpdateOutboundCampaignStep stepID body = with_bodyO body (\<lambda>req.
     bindO (askO (\<lambda>v. step_of_request v req)) (\<lambda>item. case item of
       None \<Rightarrow> retO (error_resp 400 ''outbound_step_update_failed'')
     | Some r \<Rightarrow> respondO (UpdateOutboundCampaignStep (r\<lparr>st_ID := stepID\<rparr>))
                   (missing_or ''outbound_step_not_found'' ''outbound_step_update_failed'') (\<lambda>_. ok_resp 200)))"

definition V2DeleteOutboundCampaignStep :: "string \<Rightarrow> resp Ob" where
  "V2DeleteOutboundCampaignStep stepID =
     respondO (DeleteOutboundCampaignStep stepID) (missing_or ''outbound_step_not_found'' ''outbound_step_delete_failed'')
       (\<lambda>_. ok_resp 200)"

definition V2ReorderOutboundCampaignSteps :: "string \<Rightarrow> decode_err + string list \<Rightarrow> resp Ob" where
  "V2ReorderOutboundCampaignSteps campaignID body = with_bodyO body (\<lambda>stepIDs.
     respondO (ReorderOutboundCampaignSteps campaignID stepIDs) (\<lambda>_. error_resp 500 ''outbound_step_reorder_failed'')
       (\<lambda>_. ok_resp 200))"

section \<open>Enrollments\<close>

definition V2GetOutboundEnrollment :: "string \<Rightarrow> string \<Rightarrow> resp Ob" where
  "V2GetOutboundEnrollment userID i =
     respondO (GetOutboundEnrollmentByID userID i)
       (missing_or ''outbound_enrollment_not_found'' ''outbound_enrollment_get_failed'') (\<lambda>_. ok_resp 200)"

record enrollmentPatch =
  ep_Status :: "string option"
  ep_ManualOwnerUserID :: "string option"
  ep_NextActionAt :: "string option"
  ep_PauseReason :: "string option"
  ep_StopReason :: "string option"

definition patched :: "string option \<Rightarrow> string \<Rightarrow> string" where
  "patched field old = (case field of None \<Rightarrow> old | Some x \<Rightarrow> TrimSpace x)"

definition patch_enrollment :: "oenv \<Rightarrow> enrollmentPatch \<Rightarrow> OutboundEnrollment \<Rightarrow> OutboundEnrollment option" where
  "patch_enrollment v req e =
     map_option (\<lambda>nextAction. e\<lparr>en_Status := patched (ep_Status req) (en_Status e),
         en_ManualOwnerUserID := patched (ep_ManualOwnerUserID req) (en_ManualOwnerUserID e),
         en_NextActionAt := nextAction,
         en_PauseReason := patched (ep_PauseReason req) (en_PauseReason e),
         en_StopReason := patched (ep_StopReason req) (en_StopReason e)\<rparr>)
       (case ep_NextActionAt req of None \<Rightarrow> Some (en_NextActionAt e) | Some raw \<Rightarrow> parseNullableRFC3339 v raw)"

definition V2UpdateOutboundEnrollment :: "string \<Rightarrow> string \<Rightarrow> decode_err + enrollmentPatch \<Rightarrow> resp Ob" where
  "V2UpdateOutboundEnrollment userID i body =
     tryO (GetOutboundEnrollmentByID userID i) (\<lambda>res. case res of
       Inl e \<Rightarrow> retO (missing_or ''outbound_enrollment_not_found'' ''outbound_enrollment_update_failed'' e)
     | Inr current \<Rightarrow> with_bodyO body (\<lambda>req.
         bindO (askO (\<lambda>v. patch_enrollment v req current)) (\<lambda>item. case item of
           None \<Rightarrow> retO (error_resp 400 ''outbound_enrollment_update_failed'')
         | Some e \<Rightarrow> respondO (UpsertOutboundEnrollment e)
                       (\<lambda>_. error_resp 500 ''outbound_enrollment_update_failed'') (\<lambda>_. ok_resp 200))))"

definition V2PauseOutboundEnrollment :: "string \<Rightarrow> string \<Rightarrow> resp Ob" where
  "V2PauseOutboundEnrollment userID i =
     respondO (ApplyReplyOpsAction userID i ''pause'' [] None) (\<lambda>_. error_resp 500 ''outbound_enrollment_pause_failed'') (\<lambda>_. ok_resp 200)"

definition V2ResumeOutboundEnrollment :: "string \<Rightarrow> string \<Rightarrow> resp Ob" where
  "V2ResumeOutboundEnrollment userID i =
     respondO (ApplyReplyOpsAction userID i ''resume'' [] None) (\<lambda>_. error_resp 500 ''outbound_enrollment_resume_failed'') (\<lambda>_. ok_resp 200)"

definition V2StopOutboundEnrollment :: "string \<Rightarrow> string \<Rightarrow> resp Ob" where
  "V2StopOutboundEnrollment userID i =
     respondO (ApplyReplyOpsAction userID i ''stop'' [] None) (\<lambda>_. error_resp 500 ''outbound_enrollment_stop_failed'') (\<lambda>_. ok_resp 200)"

definition V2AssignOutboundEnrollment :: "string \<Rightarrow> string \<Rightarrow> decode_err + string \<Rightarrow> resp Ob" where
  "V2AssignOutboundEnrollment userID i body = with_bodyO body (\<lambda>owner.
     tryO (GetOutboundEnrollmentByID userID i) (\<lambda>res. case res of
       Inl _ \<Rightarrow> retO (error_resp 500 ''outbound_enrollment_assign_failed'')
     | Inr current \<Rightarrow>
         respondO (UpsertOutboundEnrollment (current\<lparr>en_ManualOwnerUserID := OutboundPolicy.firstNonEmptyString [owner, userID],
             en_Status := ''manual_only''\<rparr>))
           (\<lambda>_. error_resp 500 ''outbound_enrollment_assign_failed'') (\<lambda>_. ok_resp 200)))"

section \<open>Replies\<close>

text \<open>The confidence of a request is kept in hundredths.\<close>

record outboundReplyOpsActionRequest =
  ra_Outcome :: string
  ra_Confidence :: int
  ra_Action :: string
  ra_ScopeValue :: string
  ra_Until :: string

definition V2ClassifyReplyOpsItem :: "string \<Rightarrow> string \<Rightarrow> decode_err + outboundReplyOpsActionRequest \<Rightarrow> resp Ob" where
  "V2ClassifyReplyOpsItem userID i body = with_bodyO body (\<lambda>req.
     if TrimSpace (ra_Outcome req) = [] then retO (error_resp 400 ''reply_ops_classify_failed'')
     else respondO (ApplyManualReplyOutcome userID i (ra_Outcome req) (ra_Confidence req))
       (\<lambda>_. error_resp 500 ''reply_ops_classify_failed'') (\<lambda>_. ok_resp 200))"

definition V2TakeoverReplyOpsItem :: "string \<Rightarrow> string \<Rightarrow> resp Ob" where
  "V2TakeoverReplyOpsItem userID i =
     respondO (ApplyReplyOpsAction userID i ''takeover'' [] None) (\<lambda>_. error_resp 500 ''reply_ops_takeover_failed'') (\<lambda>_. ok_resp 200)"

definition V2ApplyReplyOpsAction :: "string \<Rightarrow> string \<Rightarrow> decode_err + outboundReplyOpsActionRequest \<Rightarrow> resp Ob" where
  "V2ApplyReplyOpsAction userID i body = with_bodyO body (\<lambda>req.
     bindO (askO (\<lambda>v. parseNullableRFC3339 v (ra_Until req))) (\<lambda>parsed_until. case parsed_until of
       None \<Rightarrow> retO (error_resp 400 ''reply_ops_action_failed'')
     | Some until \<Rightarrow> respondO (ApplyReplyOpsAction userID i (ra_Action req) (ra_ScopeValue req) until)
         (\<lambda>_. error_resp 500 ''reply_ops_action_failed'') (\<lambda>_. ok_resp 200)))"

section \<open>Recipients and suppressions\<close>

definition V2GetOutboundRecipient :: "string \<Rightarrow> string \<Rightarrow> resp Ob" where
  "V2GetOutboundRecipient userID email =
     respondO (GetRecipientState userID email) (missing_or ''outbound_recipient_not_found'' ''outbound_recipient_get_failed'')
       (\<lambda>_. ok_resp 200)"

definition filled :: "string \<Rightarrow> string \<Rightarrow> string" where
  "filled field old = (if TrimSpace field \<noteq> [] then field else old)"

definition no_recipient_state :: "string \<Rightarrow> string \<Rightarrow> RecipientState" where
  "no_recipient_state userID email =
     \<lparr>rs_UserID = userID, rs_RecipientEmail = email, rs_PrimaryContactID = [], rs_RecipientDomain = [], rs_Status = [],
      rs_Scope = [], rs_LastReplyAt = None, rs_LastReplyOutcome = [], rs_SuppressedUntil = None, rs_SuppressionReason = [],
      rs_Notes = [], rs_UpdatedAt = None\<rparr>"

definition V2UpdateOutboundRecipient :: "string \<Rightarrow> string \<Rightarrow> decode_err + RecipientState \<Rightarrow> resp Ob" where
  "V2UpdateOutboundRecipient userID email body =
     tryO (GetRecipientState userID email) (\<lambda>res.
       if (case res of Inl e \<Rightarrow> e \<noteq> ErrNotFound | Inr _ \<Rightarrow> False) then retO (error_resp 500 ''outbound_recipient_update_failed'')
       else with_bodyO body (\<lambda>req.
         let current = (case res of Inl _ \<Rightarrow> no_recipient_state userID email | Inr r \<Rightarrow> r) in
         respondO (UpsertRecipientState (current\<lparr>rs_UserID := userID, rs_RecipientEmail := email,
             rs_Status := filled (rs_Status req) (rs_Status current), rs_Scope := filled (rs_Scope req) (rs_Scope current),
             rs_SuppressionReason := filled (rs_SuppressionReason req) (rs_SuppressionReason current),
             rs_Notes := filled (rs_Notes req) (rs_Notes current)\<rparr>))
           (\<lambda>_. error_resp 500 ''outbound_recipient_update_failed'') (\<lambda>_. ok_resp 200)))"

definition V2CreateOutboundSuppression :: "string \<Rightarrow> decode_err + OutboundSuppression \<Rightarrow> resp Ob" where
  "V2CreateOutboundSuppression userID body = with_bodyO body (\<lambda>req.
     respondO (UpsertOutboundSuppression (req\<lparr>sp_UserID := userID\<rparr>)) (\<lambda>_. error_resp 500 ''outbound_suppression_create_failed'')
       (\<lambda>_. ok_resp 201))"

definition V2DeleteOutboundSuppression :: "string \<Rightarrow> string \<Rightarrow> resp Ob" where
  "V2DeleteOutboundSuppression userID i =
     respondO (DeleteOutboundSuppression userID i)
       (missing_or ''outbound_suppression_not_found'' ''outbound_suppression_delete_failed'') (\<lambda>_. ok_resp 200)"

end
