(* ===== verification/OutboundSafety.thy ===== *)
theory OutboundSafety
  imports OutboundHandlers
begin

text \<open>
  What the campaigns keep.  \<open>keepsO v I S m Q\<close> says that the operation \<open>m\<close>, whatever the world answers it,
  keeps the property \<open>I\<close> of the tables, sends only mails with the property \<open>S\<close> and ends with a result that
  satisfies \<open>Q\<close>.  The locale \<open>outbound_contract\<close> collects what \<open>I\<close> and \<open>S\<close> must allow for every operation of
  the campaigns to keep them; the operations are proved against it once.  Its interpretations are the type
  of the tables and the permanent suppression of a recipient.
\<close>

section \<open>Operations that keep a property\<close>

named_theorems ob_intros \<open>operations that keep a property of the tables\<close>

definition keepsO :: "oenv \<Rightarrow> (odb \<Rightarrow> bool) \<Rightarrow> (sent_mail \<Rightarrow> bool) \<Rightarrow> 'a Ob \<Rightarrow> (err + 'a \<Rightarrow> bool) \<Rightarrow> bool" where
  "keepsO v I S m Q \<longleftrightarrow> (\<forall>s. I (ob_db s) \<longrightarrow>
     I (ob_db (snd (m v s))) \<and> (\<exists>new. ob_sent (snd (m v s)) = ob_sent s @ new \<and> list_all S new) \<and> Q (fst (m v s)))"

lemma keepsO_I:
  assumes "\<And>s r s'. I (ob_db s) \<Longrightarrow> m v s = (r, s') \<Longrightarrow>
     I (ob_db s') \<and> (\<exists>new. ob_sent s' = ob_sent s @ new \<and> list_all S new) \<and> Q r"
  shows "keepsO v I S m Q"
proof -
  have "m v s = (fst (m v s), snd (m v s))" for s by simp
  then show ?thesis unfolding keepsO_def using assms by fast
qed

lemma keepsO_D:
  assumes "keepsO v I S m Q" "m v s = (r, s')" "I (ob_db s)"
  obtains new where "I (ob_db s')" "ob_sent s' = ob_sent s @ new" "list_all S new" "Q r"
  using assms by (auto simp: keepsO_def)

lemma keepsO_weaken: "keepsO v I S m Q \<Longrightarrow> (\<And>r. Q r \<Longrightarrow> Q' r) \<Longrightarrow> keepsO v I S m Q'"
  by (auto simp: keepsO_def)

lemma keepsO_ret: "Q (Inr x) \<Longrightarrow> keepsO v I S (retO x) Q"
  by (simp add: keepsO_def retO_def)

lemma keepsO_fail: "Q (Inl e) \<Longrightarrow> keepsO v I S (failO e) Q"
  by (simp add: keepsO_def failO_def)

lemma keepsO_ask: "Q (Inr (f v)) \<Longrightarrow> keepsO v I S (askO f) Q"
  by (simp add: keepsO_def askO_def)

lemma keepsO_try:
  assumes "keepsO v I S m Q'" "\<And>r. Q' r \<Longrightarrow> keepsO v I S (k r) Q"
  shows "keepsO v I S (tryO m k) Q"
proof (rule keepsO_I)
  fix s r s' assume I: "I (ob_db s)" and run: "tryO m k v s = (r, s')"
  obtain r1 s1 where m: "m v s = (r1, s1)" by force
  from keepsO_D [OF assms(1) m I] obtain new1 where 1: "I (ob_db s1)" "ob_sent s1 = ob_sent s @ new1" "list_all S new1" "Q' r1" .
  moreover have "k r1 v s1 = (r, s')" using run by (simp add: tryO_def m)
  from keepsO_D [OF assms(2) [OF 1(4)] this 1(1)] obtain new2
    where "I (ob_db s')" "ob_sent s' = ob_sent s1 @ new2" "list_all S new2" "Q r" .
  ultimately show "I (ob_db s') \<and> (\<exists>new. ob_sent s' = ob_sent s @ new \<and> list_all S new) \<and> Q r" by auto
qed

lemma keepsO_bind:
  "keepsO v I S m Q' \<Longrightarrow> (\<And>e. Q' (Inl e) \<Longrightarrow> Q (Inl e)) \<Longrightarrow> (\<And>x. Q' (Inr x) \<Longrightarrow> keepsO v I S (k x) Q)
     \<Longrightarrow> keepsO v I S (bindO m k) Q"
  unfolding bindO_def by (erule keepsO_try) (auto intro: keepsO_fail split: sum.split)

text \<open>Runs that end with a value.\<close>

lemma tryO_run: "tryO m k v s = (r, s') \<longleftrightarrow> (\<exists>r1 s1. m v s = (r1, s1) \<and> k r1 v s1 = (r, s'))"
  by (simp add: tryO_def split: prod.split)

lemma bindO_Inr: "bindO m k v s = (Inr y, s') \<longleftrightarrow> (\<exists>x s1. m v s = (Inr x, s1) \<and> k x v s1 = (Inr y, s'))"
  by (cases "m v s") (auto simp: bindO_def tryO_def failO_def split: sum.splits)

lemma thenO_Inr: "thenO m k v s = (Inr y, s') \<longleftrightarrow> (\<exists>x s1. m v s = (Inr x, s1) \<and> k v s1 = (Inr y, s'))"
  by (simp add: thenO_def bindO_Inr)

lemma askO_Inr: "askO f v s = (Inr y, s') \<longleftrightarrow> y = f v \<and> s' = s"
  by (auto simp: askO_def)

lemma retO_Inr: "retO x v s = (Inr y, s') \<longleftrightarrow> y = x \<and> s' = s"
  by (auto simp: retO_def)

lemmas runsO = bindO_Inr thenO_Inr askO_Inr retO_Inr

text \<open>The rules for a result of which nothing is claimed.\<close>

abbreviation keeps :: "oenv \<Rightarrow> (odb \<Rightarrow> bool) \<Rightarrow> (sent_mail \<Rightarrow> bool) \<Rightarrow> 'a Ob \<Rightarrow> bool" where
  "keeps v I S m \<equiv> keepsO v I S m (\<lambda>_. True)"

lemma keeps_ret [ob_intros]: "keeps v I S (retO x)" by (simp add: keepsO_ret)
lemma keeps_fail [ob_intros]: "keeps v I S (failO e)" by (simp add: keepsO_fail)
lemma keeps_ask [ob_intros]: "keeps v I S (askO f)" by (simp add: keepsO_ask)

lemma keeps_try [ob_intros]: "keeps v I S m \<Longrightarrow> (\<And>r. keeps v I S (k r)) \<Longrightarrow> keeps v I S (tryO m k)"
  by (erule keepsO_try)

lemma keeps_bind [ob_intros]: "keeps v I S m \<Longrightarrow> (\<And>x. keeps v I S (k x)) \<Longrightarrow> keeps v I S (bindO m k)"
  by (erule keepsO_bind) simp_all

lemma keeps_then [ob_intros]: "keeps v I S m \<Longrightarrow> keeps v I S k \<Longrightarrow> keeps v I S (thenO m k)"
  unfolding thenO_def by (rule keeps_bind)

lemma keeps_ignore [ob_intros]: "keeps v I S m \<Longrightarrow> keeps v I S k \<Longrightarrow> keeps v I S (ignoreO m k)"
  unfolding ignoreO_def by (rule keeps_try)

lemma keeps_for [ob_intros]: "(\<And>x. x \<in> set xs \<Longrightarrow> keeps v I S (f x)) \<Longrightarrow> keeps v I S (forO xs f)"
  by (induction xs) (simp_all add: keeps_ret keeps_then)

lemma keeps_lift [ob_intros]: "keeps v I S (liftO f)"
  by (simp add: keepsO_def liftO_def Let_def)

lemma keeps_core [ob_intros]: "keeps v I S (coreO m)"
  by (rule keepsO_I) (auto simp: coreO_def split: prod.splits)

lemma keeps_if [ob_intros]: "keeps v I S m \<Longrightarrow> keeps v I S k \<Longrightarrow> keeps v I S (if b then m else k)"
  by simp

lemma keeps_case_option [ob_intros]:
  "keeps v I S m \<Longrightarrow> (\<And>x. keeps v I S (k x)) \<Longrightarrow> keeps v I S (case z of None \<Rightarrow> m | Some x \<Rightarrow> k x)"
  by (cases z) simp_all

lemma keeps_case_sum [ob_intros]:
  "(\<And>e. keeps v I S (m e)) \<Longrightarrow> (\<And>x. keeps v I S (k x)) \<Longrightarrow> keeps v I S (case z of Inl e \<Rightarrow> m e | Inr x \<Rightarrow> k x)"
  by (cases z) simp_all

lemma keeps_case_prod [ob_intros]:
  "(\<And>x y. keeps v I S (k x y)) \<Longrightarrow> keeps v I S (case z of (x, y) \<Rightarrow> k x y)"
  by (cases z) simp

lemma keeps_Let [ob_intros]: "(\<And>x. keeps v I S (k x)) \<Longrightarrow> keeps v I S (Let z k)"
  by (simp add: Let_def)

lemma keeps_send: "S m \<Longrightarrow> keeps v I S (send_outbound m)"
  by (rule keepsO_I) (auto simp: send_outbound_def Let_def split: option.splits)

section \<open>The contract\<close>

text \<open>The columns that hold one of a fixed set of words, table by table.\<close>

definition normal_campaign :: "OutboundCampaign \<Rightarrow> bool" where
  "normal_campaign c \<longleftrightarrow>
     oc_Status c \<in> {''draft'', ''running'', ''paused'', ''completed'', ''archived''}
     \<and> oc_GoalKind c \<in> {''general_outreach'', ''thread_revival'', ''find_owner'', ''referral_request'', ''reengage_dormant''}
     \<and> oc_CampaignMode c \<in> {''new_threads'', ''existing_threads''}
     \<and> oc_AudienceSourceKind c \<in> {''manual'', ''contact_group'', ''saved_search'', ''csv_import''}
     \<and> oc_SenderPolicyKind c \<in> {''preferred_sender'', ''single_sender'', ''campaign_pool'', ''reply_funnel'', ''thread_owner''}"

definition normal_step :: "OutboundCampaignStep \<Rightarrow> bool" where
  "normal_step r \<longleftrightarrow> st_Kind r \<in> {''email'', ''manual_task''} \<and> st_ThreadMode r \<in> {''same_thread'', ''new_thread''}"

definition normal_enrollment :: "OutboundEnrollment \<Rightarrow> bool" where
  "normal_enrollment e \<longleftrightarrow>
     en_Status e \<in> insert ''pending'' (set enrollment_statuses) \<and> en_ReplyOutcome e \<in> insert [] (set reply_outcomes)"

definition normal_recipient :: "RecipientState \<Rightarrow> bool" where
  "normal_recipient r \<longleftrightarrow>
     rs_Status r \<in> {''active'', ''replied'', ''interested'', ''not_interested'', ''wrong_person'', ''meeting_booked'',
       ''unsubscribed'', ''hard_bounce'', ''suppressed''}
     \<and> rs_Scope r \<in> {''workspace'', ''campaign_only''} \<and> rs_LastReplyOutcome r \<in> insert [] (set reply_outcomes)"

definition normal_binding :: "MailThreadBinding \<Rightarrow> bool" where
  "normal_binding b \<longleftrightarrow> tb_BindingType b \<in> {''campaign'', ''reply_funnel'', ''manual''}"

definition normal_suppression :: "OutboundSuppression \<Rightarrow> bool" where
  "normal_suppression p \<longleftrightarrow> sp_ScopeKind p \<in> {''recipient'', ''domain''}
     \<and> sp_SourceKind p \<in> {''manual'', ''unsubscribe'', ''bounce'', ''reply_policy'', ''compliance''}"

lemma one_of_in: "one_of ws d x \<in> insert d (set ws)"
  by (simp add: one_of_def Let_def)

lemmas normalizers =
  normalizeOutboundCampaignStatus_def normalizeOutboundGoalKind_def normalizeOutboundCampaignMode_def
  normalizeOutboundAudienceSourceKind_def normalizeOutboundSenderPolicyKind_def normalizeOutboundStepKind_def
  normalizeOutboundThreadMode_def normalizeOutboundEnrollmentStatus_def normalizeReplyOutcome_def
  normalizeRecipientStateStatus_def normalizeRecipientScope_def normalizeThreadBindingType_def
  normalizeSuppressionScopeKind_def normalizeSuppressionSourceKind_def

text \<open>A property of the tables admits every new content of a table that keeps the unique keys and
  has only normal rows, if the old content had.\<close>

definition admits :: "(odb \<Rightarrow> bool) \<Rightarrow> (odb \<Rightarrow> 'r list) \<Rightarrow> (('r list \<Rightarrow> 'r list) \<Rightarrow> odb \<Rightarrow> odb) \<Rightarrow> ('r, 'k) keys
    \<Rightarrow> ('r \<Rightarrow> bool) \<Rightarrow> bool" where
  "admits I get upd ks normal \<longleftrightarrow>
     (\<forall>d t. I d \<and> (uniq ks (get d) \<longrightarrow> uniq ks t) \<and> (list_all normal (get d) \<longrightarrow> list_all normal t) \<longrightarrow> I (upd (\<lambda>_. t) d))"

text \<open>The id of the row that an upsert writes: a fresh one, or the one given.\<close>

definition id_for :: "(string \<Rightarrow> bool) \<Rightarrow> OutboundSuppression \<Rightarrow> string \<Rightarrow> bool" where
  "id_for fresh p i \<longleftrightarrow> (if TrimSpace (sp_ID p) = [] then fresh i else i = sp_ID p)"

text \<open>What other processes keep, the operations that only read keep: among them the preflight of a campaign.\<close>

locale table_invariant =
  fixes v :: oenv and I :: "odb \<Rightarrow> bool" and S :: "sent_mail \<Rightarrow> bool"
  assumes others_keep: "I d \<Longrightarrow> I (oe_others v n d)"
begin

abbreviation H :: "'a Ob \<Rightarrow> bool" where "H \<equiv> keeps v I S"

lemma H_stmt:
  assumes "\<And>d d' x. I d \<Longrightarrow> f d = Some (d', x) \<Longrightarrow> I d' \<and> Q (Inr x)" "\<And>msg. Q (Inl (DBErr msg))"
  shows "keepsO v I S (stmtO f) Q"
proof (rule keepsO_I)
  fix s r s' assume "I (ob_db s)" and run: "stmtO f v s = (r, s')"
  then have I: "I (oe_others v (w_n (ob_world s)) (ob_db s))" by (simp add: others_keep)
  with run show "I (ob_db s') \<and> (\<exists>new. ob_sent s' = ob_sent s @ new \<and> list_all S new) \<and> Q r"
    using assms by (auto simp: stmtO_def Let_def split: option.splits)
qed

lemma H_query [ob_intros]: "H (queryO f)"
  unfolding queryO_def by (rule H_stmt) auto

lemma H_row [ob_intros]: "H (rowO f)"
  unfolding rowO_def by (intro ob_intros)

text \<open>The statements of the store.\<close>

lemma H_campaign_reads [ob_intros]:
  "H (ListOutboundCampaigns u)" "H (GetOutboundCampaignByID u i)" "H (GetOutboundCampaignByIDAny i)"
  unfolding ListOutboundCampaigns_def GetOutboundCampaignByID_def GetOutboundCampaignByIDAny_def by (rule ob_intros)+

lemma H_step_reads [ob_intros]: "H (ListOutboundCampaignSteps c)" "H (GetOutboundCampaignStepByID i)"
  unfolding ListOutboundCampaignSteps_def GetOutboundCampaignStepByID_def by (rule ob_intros)+

lemma H_enrollment_reads [ob_intros]:
  "H (ListOutboundEnrollmentsByCampaign u c)" "H (GetOutboundEnrollmentByID u i)" "H (GetOutboundEnrollmentByCampaignEmail c m)"
  "H (ListDueOutboundEnrollments t l)" "H (ListOutboundOOOResumeDue t l)"
  "H (ListActiveOutboundEnrollmentsByRecipient u m c)" "H (ListActiveOutboundEnrollmentsByDomain u m c)"
  unfolding ListOutboundEnrollmentsByCampaign_def GetOutboundEnrollmentByID_def GetOutboundEnrollmentByCampaignEmail_def
    ListDueOutboundEnrollments_def ListOutboundOOOResumeDue_def ListActiveOutboundEnrollmentsByRecipient_def
    ListActiveOutboundEnrollmentsByDomain_def by (rule ob_intros)+

lemma H_other_reads [ob_intros]:
  "H (ListOutboundCampaignEvents c l)" "H (GetRecipientState u m)" "H (GetMailThreadBindingByID i)"
  "H (GetMailThreadBindingByEnrollment i)" "H (GetActiveOutboundSuppression u m dm c t)" "H (ListOutboundSuppressions u)"
  unfolding ListOutboundCampaignEvents_def GetRecipientState_def GetMailThreadBindingByID_def
    GetMailThreadBindingByEnrollment_def GetActiveOutboundSuppression_def ListOutboundSuppressions_def Let_def
  by (rule ob_intros)+

lemma H_binding_searches [ob_intros]:
  "H (FindMailThreadBindingByReplyHeaders a ids)" "H (FindMailThreadBindingByOutboundMessageID a i)"
  unfolding FindMailThreadBindingByReplyHeaders_def FindMailThreadBindingByOutboundMessageID_def
  by (intro ob_intros)+

lemma H_sends_of_campaigns [ob_intros]: "H (sends_of_campaigns a t cs)"
  by (induction cs) (auto intro!: ob_intros)

lemma H_render_issues [ob_intros]: "H (render_issues campaign e sel sts)"
  by (induction sts) (auto intro!: ob_intros)

lemma H_pacing_issues [ob_intros]: "H (pacing_issues u schedule e account caches)"
  unfolding pacing_issues_def cached_count_def outboundAccountSendsSince_def by (cases caches) (auto intro!: ob_intros)

lemma H_cap_issues [ob_intros]: "H (cap_issues campaign schedule e account)"
  unfolding cap_issues_def outboundSendCounts24h_def by (intro ob_intros)

lemma H_elsewhere_issue [ob_intros]: "H active \<Longrightarrow> H (elsewhere_issue e code block active)"
  unfolding elsewhere_issue_def by (intro ob_intros)

lemma H_suppressed_issue [ob_intros]: "H (suppressed_issue u campaign e)"
  unfolding suppressed_issue_def by (intro ob_intros)

lemma H_selected_issues [ob_intros]: "H (selected_issues u campaign sts schedule e sel caches)"
  unfolding selected_issues_def by (intro ob_intros)

lemma H_recipients_issues [ob_intros]: "H (recipients_issues u campaign sts schedule governance es seen caches rest)"
proof (induction rest arbitrary: seen caches)
  case (Cons e rest)
  show ?case unfolding recipients_issues.simps by (intro ob_intros Cons.IH)
qed (simp add: keeps_ret)

lemma H_PreflightOutboundCampaign [ob_intros]: "H (PreflightOutboundCampaign u campaign)"
  unfolding PreflightOutboundCampaign_def by (intro ob_intros)

end

text \<open>The operations that write.  A contract adds what a property must allow them.\<close>

locale outbound_contract = table_invariant v I S
  for v :: oenv and I :: "odb \<Rightarrow> bool" and S :: "sent_mail \<Rightarrow> bool" +
  fixes okP :: "OutboundSuppression \<Rightarrow> bool" and okU :: "OutboundSuppression \<Rightarrow> string \<Rightarrow> bool"
    and okD :: "string \<Rightarrow> string \<Rightarrow> bool" and fresh :: "string \<Rightarrow> bool"
  assumes uuid_fresh: "fresh (uuid (oe_svc v) n)"
    and tables:
      "admits I campaigns campaigns_update campaigns_keys normal_campaign"
      "admits I steps steps_update steps_keys normal_step"
      "admits I enrollments enrollments_update enrollments_keys normal_enrollment"
      "admits I events events_update events_keys (\<lambda>_. True)"
      "admits I recipient_states recipient_states_update recipient_keys normal_recipient"
      "admits I bindings bindings_update bindings_keys normal_binding"
    and clear: "I d \<Longrightarrow> filter (suppresses uid (ToLower (TrimSpace em)) (ToLower (TrimSpace dm)) (TrimSpace cid) now) (suppressions d) = []
      \<Longrightarrow> sn_UserID m = uid \<Longrightarrow> sn_CampaignID m = cid \<Longrightarrow> rq_To (sn_Request m) = [em] \<Longrightarrow> S m"
    and ok_permanent: "sp_ID p = [] \<Longrightarrow> sp_ExpiresAt p = None \<Longrightarrow> okP p"
    and sup_insert: "I d \<Longrightarrow> okP p \<Longrightarrow> id_for fresh p i \<Longrightarrow> row = suppression_row now (p\<lparr>sp_ID := i\<rparr>)
      \<Longrightarrow> t_insert suppressions_keys row (suppressions d) = Some (t, k) \<Longrightarrow> I (d\<lparr>suppressions := t\<rparr>)"
    and sup_known: "I d \<Longrightarrow> okP p \<Longrightarrow> row = suppression_row now (p\<lparr>sp_ID := i\<rparr>)
      \<Longrightarrow> find (same_scope row) (suppressions d) = Some q \<Longrightarrow> okU row (sp_ID q)"
    and sup_update: "I d \<Longrightarrow> okU row j \<Longrightarrow> row = suppression_row now (p\<lparr>sp_ID := i\<rparr>)
      \<Longrightarrow> t_update suppressions_keys (\<lambda>q. sp_ID q = TrimSpace j) (overwrite_suppression row) (suppressions d) = Some (t, k)
      \<Longrightarrow> I (d\<lparr>suppressions := t\<rparr>)"
    and sup_delete: "I d \<Longrightarrow> okD userID i
      \<Longrightarrow> I (d\<lparr>suppressions := filter (\<lambda>p. \<not> (sp_UserID p = userID \<and> sp_ID p = TrimSpace i)) (suppressions d)\<rparr>)"
begin

lemma H_put:
  assumes "admits I get upd ks normal"
    and "\<And>d t n. f (get d) = Some (t, n) \<Longrightarrow> (uniq ks (get d) \<longrightarrow> uniq ks t) \<and> (list_all normal (get d) \<longrightarrow> list_all normal t)"
  shows "H (putO get upd f)"
  unfolding putO_def
proof (rule H_stmt)
  fix d d' x assume I: "I d" and run: "map_option (\<lambda>(t, n). (upd (\<lambda>_. t) d, n)) (f (get d)) = Some (d', x)"
  then obtain t where "f (get d) = Some (t, x)" "d' = upd (\<lambda>_. t) d" by auto
  with assms I show "I d' \<and> True" by (auto simp: admits_def)
qed simp

lemma H_insert: "admits I get upd ks normal \<Longrightarrow> normal r \<Longrightarrow> H (putO get upd (t_insert ks r))"
  by (rule H_put) (auto simp: t_insert_Some)

lemma H_update:
  assumes "admits I get upd ks normal" "\<And>r. P r \<Longrightarrow> normal r \<Longrightarrow> normal (f r)"
  shows "H (putO get upd (t_update ks P f))"
  using assms(1) by (rule H_put) (use assms(2) in \<open>auto simp: t_update_Some list_all_iff\<close>)

lemma H_upsert:
  assumes "admits I get upd ks normal" "normal row" "\<And>r. normal r \<Longrightarrow> normal (f r)"
  shows "H (putO get upd (t_upsert ks P f row))"
  using assms(1) by (rule H_put) (use assms(2,3) in \<open>auto simp: list_all_iff dest!: t_upsert_Some\<close>)

lemma H_delete:
  assumes "admits I get upd ks normal"
  shows "H (putO get upd (t_delete P))"
  using assms by (rule H_put) (auto simp: t_delete_Some list_all_iff uniq_filter)

text \<open>The statements of the store.\<close>

lemma H_CreateOutboundCampaign [ob_intros]: "H (CreateOutboundCampaign c)"
  unfolding CreateOutboundCampaign_def
  by (intro ob_intros H_insert [OF tables(1)])
    (auto simp: normal_campaign_def campaign_columns_def normalizers one_of_def Let_def)

lemma H_UpdateOutboundCampaign [ob_intros]: "H (UpdateOutboundCampaign c)"
  unfolding UpdateOutboundCampaign_def
  by (intro ob_intros H_update [OF tables(1)])
    (auto simp: normal_campaign_def campaign_columns_def normalizers one_of_def Let_def)

lemma H_SetOutboundCampaignStatus [ob_intros]: "H (SetOutboundCampaignStatus u i status l c)"
  unfolding SetOutboundCampaignStatus_def
  by (intro ob_intros H_update [OF tables(1)]) (auto simp: normal_campaign_def normalizers one_of_def Let_def)

lemma H_CreateOutboundCampaignStep [ob_intros]: "H (CreateOutboundCampaignStep r)"
  unfolding CreateOutboundCampaignStep_def
  by (intro ob_intros H_insert [OF tables(2)]) (auto simp: normal_step_def step_columns_def normalizers one_of_def Let_def)

lemma H_UpdateOutboundCampaignStep [ob_intros]: "H (UpdateOutboundCampaignStep r)"
  unfolding UpdateOutboundCampaignStep_def
  by (intro ob_intros H_update [OF tables(2)]) (auto simp: normal_step_def step_columns_def normalizers one_of_def Let_def)

lemma H_DeleteOutboundCampaignStep [ob_intros]: "H (DeleteOutboundCampaignStep i)" "H (DeleteOutboundCampaignSteps c)"
  unfolding DeleteOutboundCampaignStep_def DeleteOutboundCampaignSteps_def by (intro ob_intros H_delete [OF tables(2)])+

lemma reorder_steps_keeps:
  "reorder_steps now c idx ids t = Some t' \<Longrightarrow>
     (uniq steps_keys t \<longrightarrow> uniq steps_keys t') \<and> (list_all normal_step t \<longrightarrow> list_all normal_step t')"
proof (induction ids arbitrary: idx t)
  case (Cons i ids)
  then obtain t1 n where 1: "t_update steps_keys (\<lambda>r. st_CampaignID r = TrimSpace c \<and> st_ID r = TrimSpace i)
      (\<lambda>r. r\<lparr>st_Position := idx + 1, st_UpdatedAt := now\<rparr>) t = Some (t1, n)" and 2: "reorder_steps now c (idx + 1) ids t1 = Some t'"
    by (auto split: option.splits prod.splits)
  from 1 have "uniq steps_keys t1" "list_all normal_step t \<longrightarrow> list_all normal_step t1"
    by (auto simp: t_update_Some list_all_iff normal_step_def)
  with Cons.IH [OF 2] show ?case by blast
qed simp

lemma H_ReorderOutboundCampaignSteps [ob_intros]: "H (ReorderOutboundCampaignSteps c ids)"
  unfolding ReorderOutboundCampaignSteps_def
  by (intro ob_intros H_put [OF tables(2)]) (auto dest: reorder_steps_keeps)

lemma H_UpsertOutboundEnrollment [ob_intros]: "H (UpsertOutboundEnrollment e)"
  unfolding UpsertOutboundEnrollment_def Let_def
  by (intro ob_intros H_upsert [OF tables(3)])
    (auto simp: normal_enrollment_def overwrite_enrollment_def enrollment_row_def normalizers one_of_def Let_def)

lemma H_AppendOutboundEvent [ob_intros]: "H (AppendOutboundEvent c e k payload a r)"
  unfolding AppendOutboundEvent_def by (intro ob_intros H_insert [OF tables(4)]) simp

lemma H_UpsertRecipientState [ob_intros]: "H (UpsertRecipientState r)"
  unfolding UpsertRecipientState_def Let_def
  by (intro ob_intros H_upsert [OF tables(5)]) (auto simp: normal_recipient_def normalizers one_of_def Let_def)

lemma H_UpsertMailThreadBinding [ob_intros]: "H (UpsertMailThreadBinding b)"
  unfolding UpsertMailThreadBinding_def Let_def
  by (intro ob_intros H_upsert [OF tables(6)]) (auto simp: normal_binding_def normalizers one_of_def Let_def)

text \<open>Suppressions.\<close>

lemma H_new_id: "keepsO v I S (if TrimSpace (sp_ID p) = [] then uuidO else retO (sp_ID p)) (\<lambda>r. case r of Inl _ \<Rightarrow> True | Inr i \<Rightarrow> id_for fresh p i)"
proof (cases "TrimSpace (sp_ID p) = []")
  case True
  then show ?thesis
    by (auto intro!: keepsO_I simp: coreO_def uuid_NewString_def draw_def id_for_def uuid_fresh Let_def split: prod.splits)
next
  case False
  then show ?thesis by (simp add: keepsO_ret id_for_def)
qed

lemma H_sup_put:
  assumes "\<And>d t k. I d \<Longrightarrow> f (suppressions d) = Some (t, k) \<Longrightarrow> I (d\<lparr>suppressions := t\<rparr>)"
  shows "H (putO suppressions suppressions_update f)"
  unfolding putO_def
proof (rule H_stmt)
  fix d d' x assume I: "I d" and run: "map_option (\<lambda>(t, n). (suppressions_update (\<lambda>_. t) d, n)) (f (suppressions d)) = Some (d', x)"
  then obtain t where "f (suppressions d) = Some (t, x)" "d' = d\<lparr>suppressions := t\<rparr>" by auto
  with assms I show "I d' \<and> True" by simp
qed simp

lemma H_write_suppression:
  assumes "okP p" "id_for fresh p i" "row = suppression_row now (p\<lparr>sp_ID := i\<rparr>)" "\<And>q. existing = Some q \<Longrightarrow> okU row (sp_ID q)"
  shows "H (write_suppression row existing)"
proof (cases existing)
  case None
  then show ?thesis unfolding write_suppression_def using sup_insert [OF _ assms(1-3)] by (simp add: H_sup_put)
next
  case (Some q)
  then show ?thesis unfolding write_suppression_def using sup_update [OF _ assms(4) assms(3)] by (simp add: H_sup_put)
qed

lemma H_UpsertOutboundSuppression:
  assumes "okP p"
  shows "H (UpsertOutboundSuppression p)"
  unfolding UpsertOutboundSuppression_def Let_def
proof (rule keeps_bind [OF keeps_core], rule keepsO_bind [OF H_new_id], simp, simp)
  fix now i assume i: "id_for fresh p i"
  let ?row = "suppression_row now (p\<lparr>sp_ID := i\<rparr>)"
  let ?find = "queryO (\<lambda>d. find (same_scope ?row) (suppressions d))"
  have known: "keepsO v I S ?find (\<lambda>r. \<forall>q. r = Inr (Some q) \<longrightarrow> okU ?row (sp_ID q))"
    unfolding queryO_def by (rule H_stmt) (auto intro: sup_known [OF _ assms refl])
  show "H (bindO ?find (\<lambda>existing. thenO (write_suppression ?row existing)
     (bindO ?find (\<lambda>r. case r of None \<Rightarrow> failO (DBErr ''sql: no rows in result set'') | Some p \<Rightarrow> retO (scanOutboundSuppression p)))))"
  proof (rule keepsO_bind [OF known])
    fix x :: "OutboundSuppression option" assume "\<forall>q. (Inr x :: err + _) = Inr (Some q) \<longrightarrow> okU ?row (sp_ID q)"
    then have "H (write_suppression ?row x)" by (intro H_write_suppression [OF assms i refl]) simp
    then show "H (thenO (write_suppression ?row x) (bindO ?find
        (\<lambda>r. case r of None \<Rightarrow> failO (DBErr ''sql: no rows in result set'') | Some p \<Rightarrow> retO (scanOutboundSuppression p))))"
      by (intro ob_intros)
  qed simp
qed

lemma H_DeleteOutboundSuppression: "okD u i \<Longrightarrow> H (DeleteOutboundSuppression u i)"
  unfolding DeleteOutboundSuppression_def by (intro ob_intros H_sup_put) (simp add: t_delete_Some sup_delete del: de_Morgan_conj)

lemma H_upsert_new [ob_intros]: "H (UpsertOutboundSuppression (new_suppression u kind val c reason source None))"
  by (rule H_UpsertOutboundSuppression, rule ok_permanent) (simp_all add: new_suppression_def)

text \<open>The service.\<close>

lemma H_save_and_note [ob_intros]: "H (save_and_note e c k payload a r)"
  unfolding save_and_note_def by (intro ob_intros)

lemma H_check_caps [ob_intros]: "H (check_caps c e a)"
  unfolding check_caps_def outboundAccountSendsSince_def delayed_def by (intro ob_intros)

lemma H_dispatch_binding [ob_intros]: "H (dispatch_binding c e sel)"
  unfolding dispatch_binding_def by (intro ob_intros)

lemma H_nextOutboundMessageID [ob_intros]: "H (nextOutboundMessageID a)"
  unfolding nextOutboundMessageID_def by (intro ob_intros)

lemma H_dispatch_send:
  assumes "\<And>m. sn_UserID m = oc_UserID campaign \<Longrightarrow> sn_CampaignID m = oc_ID campaign \<Longrightarrow>
    rq_To (sn_Request m) = [en_RecipientEmail e] \<Longrightarrow> S m"
  shows "H (dispatch_send campaign sts r e rendered)"
proof -
  have "H (send_outbound \<lparr>sn_UserID = oc_UserID campaign, sn_CampaignID = oc_ID campaign, sn_EnrollmentID = en_ID e,
      sn_Position = st_Position r, sn_Request = dispatch_request e r sel binding messageID subject body\<rparr>)"
    for sel binding messageID subject body
    by (rule keeps_send, rule assms) (simp_all add: dispatch_request_def Let_def)
  then show ?thesis unfolding dispatch_send_def Let_def by (intro ob_intros)
qed

text \<open>When the look-up of suppressions finds nothing, a mail to the recipient is allowed.\<close>

lemma H_checked_suppression:
  "keepsO v I S (GetActiveOutboundSuppression uid em dm cid now)
     (\<lambda>r. r = Inl ErrNotFound \<longrightarrow>
        (\<forall>m. sn_UserID m = uid \<longrightarrow> sn_CampaignID m = cid \<longrightarrow> rq_To (sn_Request m) = [em] \<longrightarrow> S m))"
  unfolding GetActiveOutboundSuppression_def rowO_def Let_def
proof (rule keepsO_bind)
  let ?P = "suppresses uid (ToLower (TrimSpace em)) (ToLower (TrimSpace dm)) (TrimSpace cid) now"
  let ?find = "\<lambda>d. case sort_key (\<lambda>p. if sp_CampaignID p = TrimSpace cid \<and> TrimSpace cid \<noteq> [] then 0 else 1::int)
      (sort_key (\<lambda>p. - or_zero (sp_UpdatedAt p)) (filter ?P (suppressions d))) of
      [] \<Rightarrow> None | p # _ \<Rightarrow> Some (scanOutboundSuppression p)"
  let ?free = "\<forall>m. sn_UserID m = uid \<longrightarrow> sn_CampaignID m = cid \<longrightarrow> rq_To (sn_Request m) = [em] \<longrightarrow> S m"
  have "?find d = None \<Longrightarrow> filter ?P (suppressions d) = []" for d
    by (simp split: list.splits) (metis length_0_conv length_sort)
  then have "I d \<Longrightarrow> ?find d = None \<Longrightarrow> ?free" for d using clear by blast
  then show "keepsO v I S (queryO ?find) (\<lambda>r. r \<noteq> Inl ErrNotFound \<and> (r = Inr None \<longrightarrow> ?free))"
    unfolding queryO_def by (intro H_stmt) auto
qed (auto intro: keepsO_fail keepsO_ret split: option.split)

lemma H_dispatch_step [ob_intros]: "H (dispatch_step campaign sts r e)"
proof -
  have suppressed: "H (tryO (GetActiveOutboundSuppression (oc_UserID campaign) (en_RecipientEmail e) (en_RecipientDomain e) (oc_ID campaign) now)
    (\<lambda>res. case res of
       Inl err \<Rightarrow> if err \<noteq> ErrNotFound then failO err
         else bindO (check_caps campaign e (sel_Account (rd_Selection rendered))) (\<lambda>ok.
           if ok then dispatch_send campaign sts r e rendered else retO ())
     | Inr p \<Rightarrow> stop p))" if "\<And>p. H (stop p)" for now rendered stop
  proof (rule keepsO_try [OF H_checked_suppression])
    fix res :: "err + OutboundSuppression"
    assume "res = Inl ErrNotFound \<longrightarrow> (\<forall>m. sn_UserID m = oc_UserID campaign \<longrightarrow> sn_CampaignID m = oc_ID campaign
      \<longrightarrow> rq_To (sn_Request m) = [en_RecipientEmail e] \<longrightarrow> S m)"
    then have "res = Inl ErrNotFound \<Longrightarrow> H (dispatch_send campaign sts r e rendered)" by (intro H_dispatch_send) blast
    with that show "H (case res of
         Inl err \<Rightarrow> if err \<noteq> ErrNotFound then failO err
           else bindO (check_caps campaign e (sel_Account (rd_Selection rendered))) (\<lambda>ok.
             if ok then dispatch_send campaign sts r e rendered else retO ())
       | Inr p \<Rightarrow> stop p)"
      by (auto intro!: keeps_bind H_check_caps keeps_fail keeps_ret split: sum.split)
  qed
  show ?thesis unfolding dispatch_step_def by (intro ob_intros suppressed)
qed

lemma H_DispatchOutboundEnrollment [ob_intros]: "H (DispatchOutboundEnrollment e)"
  unfolding DispatchOutboundEnrollment_def by (intro ob_intros)

lemma H_applyOutcomeDomainActions [ob_intros]: "H (applyOutcomeDomainActions campaign e outcome)"
  unfolding applyOutcomeDomainActions_def policies_def by (intro ob_intros)

lemma H_reply_suppression [ob_intros]: 
  "H (case reply_suppression supp compliance campaign e outcome of
        None \<Rightarrow> retO () | Some p \<Rightarrow> thenO (UpsertOutboundSuppression p) (retO ()))"
  by (auto simp: reply_suppression_def intro!: keeps_then keeps_ret H_upsert_new)

lemma H_finish_reply [ob_intros]: "H (finish_reply campaign supp compliance indexed outcome replyAt e)"
  unfolding finish_reply_def by (intro ob_intros)

lemma H_decide_reply [ob_intros]: "H (decide_reply campaign reply outcome resumeAt e)"
  unfolding decide_reply_def by (intro ob_intros)

lemma H_applyOutboundReplyOutcome [ob_intros]: "H (applyOutboundReplyOutcome campaign e binding indexed outcome confidence resumeAt)"
  unfolding applyOutboundReplyOutcome_def policies_def Let_def by (intro ob_intros)

lemma H_ProcessOutboundIndexedMessage [ob_intros]: "H (ProcessOutboundIndexedMessage account indexed)"
  unfolding ProcessOutboundIndexedMessage_def by (intro ob_intros)

lemma H_ApplyManualReplyOutcome [ob_intros]: "H (ApplyManualReplyOutcome u i outcome confidence)"
  unfolding ApplyManualReplyOutcome_def by (intro ob_intros)

lemma H_processOutboundDue [ob_intros]: "H processOutboundDue"
  unfolding processOutboundDue_def resumeOutboundOOO_def resume_item_def by (intro ob_intros)

lemma H_ApplyReplyOpsAction:
  assumes "\<And>campaign e p. ops_suppression u campaign e (ToLower (TrimSpace action)) scopeValue until = Some p \<Longrightarrow> okP p"
  shows "H (ApplyReplyOpsAction u i action scopeValue until)"
proof -
  have sup: "H (case ops_suppression u campaign e (ToLower (TrimSpace action)) scopeValue until of
      None \<Rightarrow> retO () | Some p \<Rightarrow> thenO (UpsertOutboundSuppression p) (retO ()))" for campaign e
    using assms [of campaign e] by (auto intro!: keeps_then keeps_ret H_UpsertOutboundSuppression split: option.split)
  show ?thesis unfolding ApplyReplyOpsAction_def Let_def by (intro sup ob_intros)
qed

lemma H_plain_action [ob_intros]: "H (ApplyReplyOpsAction u i action [] None)"
  by (rule H_ApplyReplyOpsAction)
    (auto simp: ops_suppression_def new_suppression_def intro!: ok_permanent split: if_splits)

lemma H_LaunchOutboundCampaign [ob_intros]: "H (LaunchOutboundCampaign u i)"
  unfolding LaunchOutboundCampaign_def by (intro ob_intros)

text \<open>The handlers.\<close>

lemma H_respond [ob_intros]: "H m \<Longrightarrow> H (respondO m on_err on_ok)"
  unfolding respondO_def by (intro ob_intros)

lemma H_with_body [ob_intros]: "(\<And>b. H (k b)) \<Longrightarrow> H (with_bodyO body k)"
  unfolding with_bodyO_def by (auto intro: keeps_ret split: sum.split decode_err.split)

lemmas outbound_handlers =
  V2CreateOutboundCampaign_def V2GetOutboundCampaign_def V2UpdateOutboundCampaign_def V2LaunchOutboundCampaign_def
  V2PauseOutboundCampaign_def V2ResumeOutboundCampaign_def V2ArchiveOutboundCampaign_def V2PreflightOutboundCampaign_def
  V2ListOutboundCampaignSteps_def V2CreateOutboundCampaignStep_def V2UpdateOutboundCampaignStep_def
  V2DeleteOutboundCampaignStep_def V2ReorderOutboundCampaignSteps_def V2GetOutboundEnrollment_def
  V2UpdateOutboundEnrollment_def V2PauseOutboundEnrollment_def V2ResumeOutboundEnrollment_def V2StopOutboundEnrollment_def
  V2AssignOutboundEnrollment_def V2ClassifyReplyOpsItem_def V2TakeoverReplyOpsItem_def V2GetOutboundRecipient_def
  V2UpdateOutboundRecipient_def

end

section \<open>Requests and rounds of the worker\<close>

datatype outbound_call =
  CreateCampaign string "decode_err + outboundCampaignWriteRequest"
| GetCampaign string string
| UpdateCampaign string string "decode_err + outboundCampaignWriteRequest"
| LaunchCampaign string string
| PauseCampaign string string
| ResumeCampaign string string
| ArchiveCampaign string string
| PreflightCampaign string string
| ListSteps string string
| CreateStep string string "decode_err + outboundStepWriteRequest"
| UpdateStep string "decode_err + outboundStepWriteRequest"
| DeleteStep string
| ReorderSteps string "decode_err + string list"
| GetEnrollment string string
| UpdateEnrollment string string "decode_err + enrollmentPatch"
| PauseEnrollment string string
| ResumeEnrollment string string
| StopEnrollment string string
| AssignEnrollment string string "decode_err + string"
| ClassifyReply string string "decode_err + outboundReplyOpsActionRequest"
| TakeoverReply string string
| ReplyOps string string "decode_err + outboundReplyOpsActionRequest"
| GetRecipient string string
| UpdateRecipient string string "decode_err + RecipientState"
| CreateSuppression string "decode_err + OutboundSuppression"
| DeleteSuppression string string

text \<open>A request, a round of the worker, or a message that the indexer found in an account.\<close>

datatype outbound_op = Request outbound_call | Round | Indexed MailAccount IndexedMessage

fun serve :: "outbound_call \<Rightarrow> resp Ob" where
  "serve (CreateCampaign u b) = V2CreateOutboundCampaign u b"
| "serve (GetCampaign u i) = V2GetOutboundCampaign u i"
| "serve (UpdateCampaign u i b) = V2UpdateOutboundCampaign u i b"
| "serve (LaunchCampaign u i) = V2LaunchOutboundCampaign u i"
| "serve (PauseCampaign u i) = V2PauseOutboundCampaign u i"
| "serve (ResumeCampaign u i) = V2ResumeOutboundCampaign u i"
| "serve (ArchiveCampaign u i) = V2ArchiveOutboundCampaign u i"
| "serve (PreflightCampaign u i) = V2PreflightOutboundCampaign u i"
| "serve (ListSteps u i) = V2ListOutboundCampaignSteps u i"
| "serve (CreateStep u i b) = V2CreateOutboundCampaignStep u i b"
| "serve (UpdateStep i b) = V2UpdateOutboundCampaignStep i b"
| "serve (DeleteStep i) = V2DeleteOutboundCampaignStep i"
| "serve (ReorderSteps i b) = V2ReorderOutboundCampaignSteps i b"
| "serve (GetEnrollment u i) = V2GetOutboundEnrollment u i"
| "serve (UpdateEnrollment u i b) = V2UpdateOutboundEnrollment u i b"
| "serve (PauseEnrollment u i) = V2PauseOutboundEnrollment u i"
| "serve (ResumeEnrollment u i) = V2ResumeOutboundEnrollment u i"
| "serve (StopEnrollment u i) = V2StopOutboundEnrollment u i"
| "serve (AssignEnrollment u i b) = V2AssignOutboundEnrollment u i b"
| "serve (ClassifyReply u i b) = V2ClassifyReplyOpsItem u i b"
| "serve (TakeoverReply u i) = V2TakeoverReplyOpsItem u i"
| "serve (ReplyOps u i b) = V2ApplyReplyOpsAction u i b"
| "serve (GetRecipient u i) = V2GetOutboundRecipient u i"
| "serve (UpdateRecipient u i b) = V2UpdateOutboundRecipient u i b"
| "serve (CreateSuppression u b) = V2CreateOutboundSuppression u b"
| "serve (DeleteSuppression u i) = V2DeleteOutboundSuppression u i"

fun run_op :: "outbound_op \<Rightarrow> oenv \<Rightarrow> ostate \<Rightarrow> ostate" where
  "run_op (Request c) v s = snd (serve c v s)"
| "run_op Round v s = snd (processOutboundDue v s)"
| "run_op (Indexed a m) v s = snd (ProcessOutboundIndexedMessage a m v s)"

fun run_ops :: "outbound_op list \<Rightarrow> oenv \<Rightarrow> ostate \<Rightarrow> ostate" where
  "run_ops [] v s = s"
| "run_ops (x # xs) v s = run_ops xs v (run_op x v s)"

text \<open>What a request may write into the suppressions, and delete of them.\<close>

fun permitted :: "oenv \<Rightarrow> (OutboundSuppression \<Rightarrow> bool) \<Rightarrow> (string \<Rightarrow> string \<Rightarrow> bool) \<Rightarrow> outbound_op \<Rightarrow> bool" where
  "permitted v okP okD (Request (ReplyOps u i (Inr req))) \<longleftrightarrow>
     (\<forall>campaign e p until. parseNullableRFC3339 v (ra_Until req) = Some until \<longrightarrow>
        ops_suppression u campaign e (ToLower (TrimSpace (ra_Action req))) (ra_ScopeValue req) until = Some p \<longrightarrow> okP p)"
| "permitted v okP okD (Request (CreateSuppression u (Inr p))) \<longleftrightarrow> okP (p\<lparr>sp_UserID := u\<rparr>)"
| "permitted v okP okD (Request (DeleteSuppression u i)) \<longleftrightarrow> okD u i"
| "permitted v okP okD _ \<longleftrightarrow> True"

context outbound_contract
begin

lemma H_V2ApplyReplyOpsAction:
  assumes "permitted v okP okD (Request (ReplyOps u i body))"
  shows "H (V2ApplyReplyOpsAction u i body)"
proof (cases body)
  case (Inl e)
  then show ?thesis by (cases e) (simp_all add: V2ApplyReplyOpsAction_def with_bodyO_def keeps_ret)
next
  case (Inr req)
  have "H (ApplyReplyOpsAction u i (ra_Action req) (ra_ScopeValue req) until)"
    if "parseNullableRFC3339 v (ra_Until req) = Some until" for until
    using assms that Inr by (intro H_ApplyReplyOpsAction) simp
  then have "H (case x of None \<Rightarrow> retO (error_resp 400 ''reply_ops_action_failed'')
      | Some until \<Rightarrow> respondO (ApplyReplyOpsAction u i (ra_Action req) (ra_ScopeValue req) until)
          (\<lambda>_. error_resp 500 ''reply_ops_action_failed'') (\<lambda>_. ok_resp 200))"
    if "x = parseNullableRFC3339 v (ra_Until req)" for x
    using that by (auto intro!: keeps_ret H_respond split: option.split)
  then show ?thesis unfolding V2ApplyReplyOpsAction_def with_bodyO_def Inr
    by (auto intro!: keepsO_bind [where Q' = "\<lambda>r. r = Inr (parseNullableRFC3339 v (ra_Until req))"] keepsO_ask)
qed

lemma H_serve:
  assumes "permitted v okP okD (Request c)"
  shows "H (serve c)"
proof (cases c)
  case (ReplyOps u i body)
  then show ?thesis using assms H_V2ApplyReplyOpsAction by simp
next
  case (CreateSuppression u body)
  then show ?thesis using assms
    by (cases body) (auto simp: V2CreateOutboundSuppression_def with_bodyO_def intro!: keeps_ret H_respond H_UpsertOutboundSuppression
        split: decode_err.split)
next
  case (DeleteSuppression u i)
  then show ?thesis using assms by (simp add: V2DeleteOutboundSuppression_def H_respond H_DeleteOutboundSuppression)
qed (simp only: serve.simps outbound_handlers, intro ob_intros)+

lemma run_op_keeps:
  assumes "permitted v okP okD x" "I (ob_db s)"
  shows "I (ob_db (run_op x v s)) \<and> (\<exists>new. ob_sent (run_op x v s) = ob_sent s @ new \<and> list_all S new)"
proof (cases x)
  case (Request c)
  then show ?thesis using H_serve [of c] assms by (auto simp: keepsO_def)
next
  case Round
  then show ?thesis using H_processOutboundDue assms by (auto simp: keepsO_def)
next
  case (Indexed a m)
  then show ?thesis using H_ProcessOutboundIndexedMessage [of a m] assms by (auto simp: keepsO_def)
qed

lemma run_ops_keep:
  assumes "list_all (permitted v okP okD) xs" "I (ob_db s)"
  shows "I (ob_db (run_ops xs v s)) \<and> (\<exists>new. ob_sent (run_ops xs v s) = ob_sent s @ new \<and> list_all S new)"
  using assms
proof (induction xs arbitrary: s)
  case (Cons x xs)
  then obtain new1 where 1: "I (ob_db (run_op x v s))" "ob_sent (run_op x v s) = ob_sent s @ new1" "list_all S new1"
    using run_op_keeps [of x s] by auto
  with Cons.IH [of "run_op x v s"] Cons.prems show ?case by auto
qed simp

end

end
