(* ===== verification/OutboundDemo.thy ===== *)
theory OutboundDemo
  imports OutboundSafety Demo
begin

text \<open>
  Concrete campaigns for the witnesses: a plain account server, one running campaign of user \<open>u1\<close> with two
  mails, one recipient whose first mail is due, no failures and no other processes.
\<close>

text \<open>For evaluation an operation is unfolded only when it is run, not inside the continuation of another one.\<close>

lemmas outbound_code [code] =
  bindO_def [THEN fun_cong, THEN fun_cong] thenO_def [THEN fun_cong, THEN fun_cong]
  ignoreO_def [THEN fun_cong, THEN fun_cong] queryO_def [THEN fun_cong, THEN fun_cong]
  rowO_def [THEN fun_cong, THEN fun_cong] putO_def [THEN fun_cong, THEN fun_cong]
  ListOutboundCampaigns_def [THEN fun_cong, THEN fun_cong] GetOutboundCampaignByID_def [THEN fun_cong, THEN fun_cong]
  GetOutboundCampaignByIDAny_def [THEN fun_cong, THEN fun_cong] CreateOutboundCampaign_def [THEN fun_cong, THEN fun_cong]
  UpdateOutboundCampaign_def [THEN fun_cong, THEN fun_cong] SetOutboundCampaignStatus_def [THEN fun_cong, THEN fun_cong]
  ListOutboundCampaignSteps_def [THEN fun_cong, THEN fun_cong] GetOutboundCampaignStepByID_def [THEN fun_cong, THEN fun_cong]
  CreateOutboundCampaignStep_def [THEN fun_cong, THEN fun_cong] UpdateOutboundCampaignStep_def [THEN fun_cong, THEN fun_cong]
  DeleteOutboundCampaignStep_def [THEN fun_cong, THEN fun_cong]
  DeleteOutboundCampaignSteps_def [THEN fun_cong, THEN fun_cong]
  ReorderOutboundCampaignSteps_def [THEN fun_cong, THEN fun_cong]
  ListOutboundEnrollmentsByCampaign_def [THEN fun_cong, THEN fun_cong]
  GetOutboundEnrollmentByID_def [THEN fun_cong, THEN fun_cong]
  GetOutboundEnrollmentByCampaignEmail_def [THEN fun_cong, THEN fun_cong]
  UpsertOutboundEnrollment_def [THEN fun_cong, THEN fun_cong] ListDueOutboundEnrollments_def [THEN fun_cong, THEN fun_cong]
  ListOutboundOOOResumeDue_def [THEN fun_cong, THEN fun_cong]
  ListActiveOutboundEnrollmentsByRecipient_def [THEN fun_cong, THEN fun_cong]
  ListActiveOutboundEnrollmentsByDomain_def [THEN fun_cong, THEN fun_cong]
  AppendOutboundEvent_def [THEN fun_cong, THEN fun_cong] ListOutboundCampaignEvents_def [THEN fun_cong, THEN fun_cong]
  GetRecipientState_def [THEN fun_cong, THEN fun_cong] UpsertRecipientState_def [THEN fun_cong, THEN fun_cong]
  GetMailThreadBindingByID_def [THEN fun_cong, THEN fun_cong]
  GetMailThreadBindingByEnrollment_def [THEN fun_cong, THEN fun_cong]
  UpsertMailThreadBinding_def [THEN fun_cong, THEN fun_cong]
  FindMailThreadBindingByReplyHeaders_def [THEN fun_cong, THEN fun_cong]
  FindMailThreadBindingByOutboundMessageID_def [THEN fun_cong, THEN fun_cong]
  GetActiveOutboundSuppression_def [THEN fun_cong, THEN fun_cong] ListOutboundSuppressions_def [THEN fun_cong, THEN fun_cong]
  write_suppression_def [THEN fun_cong, THEN fun_cong] UpsertOutboundSuppression_def [THEN fun_cong, THEN fun_cong]
  DeleteOutboundSuppression_def [THEN fun_cong, THEN fun_cong] outboundAccountSendsSince_def [THEN fun_cong, THEN fun_cong]
  nextOutboundMessageID_def [THEN fun_cong, THEN fun_cong] save_and_note_def [THEN fun_cong, THEN fun_cong]
  delayed_def [THEN fun_cong, THEN fun_cong] check_caps_def [THEN fun_cong, THEN fun_cong]
  dispatch_binding_def [THEN fun_cong, THEN fun_cong] dispatch_send_def [THEN fun_cong, THEN fun_cong]
  dispatch_step_def [THEN fun_cong, THEN fun_cong] DispatchOutboundEnrollment_def [THEN fun_cong, THEN fun_cong]
  policies_def [THEN fun_cong, THEN fun_cong] applyOutcomeDomainActions_def [THEN fun_cong, THEN fun_cong]
  finish_reply_def [THEN fun_cong, THEN fun_cong] decide_reply_def [THEN fun_cong, THEN fun_cong]
  applyOutboundReplyOutcome_def [THEN fun_cong, THEN fun_cong]
  ProcessOutboundIndexedMessage_def [THEN fun_cong, THEN fun_cong] ApplyManualReplyOutcome_def [THEN fun_cong, THEN fun_cong]
  ApplyReplyOpsAction_def [THEN fun_cong, THEN fun_cong] resume_item_def [THEN fun_cong, THEN fun_cong]
  resumeOutboundOOO_def [THEN fun_cong, THEN fun_cong] processOutboundDue_def [THEN fun_cong, THEN fun_cong]
  outboundSendCounts24h_def [THEN fun_cong, THEN fun_cong] cached_count_def [THEN fun_cong, THEN fun_cong]
  cap_issues_def [THEN fun_cong, THEN fun_cong] elsewhere_issue_def [THEN fun_cong, THEN fun_cong]
  suppressed_issue_def [THEN fun_cong, THEN fun_cong] selected_issues_def [THEN fun_cong, THEN fun_cong]
  PreflightOutboundCampaign_def [THEN fun_cong, THEN fun_cong] LaunchOutboundCampaign_def [THEN fun_cong, THEN fun_cong]
  with_bodyO_def [THEN fun_cong, THEN fun_cong] respondO_def [THEN fun_cong, THEN fun_cong]
  V2CreateOutboundCampaign_def [THEN fun_cong, THEN fun_cong] V2GetOutboundCampaign_def [THEN fun_cong, THEN fun_cong]
  V2UpdateOutboundCampaign_def [THEN fun_cong, THEN fun_cong] V2LaunchOutboundCampaign_def [THEN fun_cong, THEN fun_cong]
  V2PauseOutboundCampaign_def [THEN fun_cong, THEN fun_cong] V2ResumeOutboundCampaign_def [THEN fun_cong, THEN fun_cong]
  V2ArchiveOutboundCampaign_def [THEN fun_cong, THEN fun_cong] V2PreflightOutboundCampaign_def [THEN fun_cong, THEN fun_cong]
  V2ListOutboundCampaignSteps_def [THEN fun_cong, THEN fun_cong]
  V2CreateOutboundCampaignStep_def [THEN fun_cong, THEN fun_cong]
  V2UpdateOutboundCampaignStep_def [THEN fun_cong, THEN fun_cong]
  V2DeleteOutboundCampaignStep_def [THEN fun_cong, THEN fun_cong]
  V2ReorderOutboundCampaignSteps_def [THEN fun_cong, THEN fun_cong]
  V2GetOutboundEnrollment_def [THEN fun_cong, THEN fun_cong] V2UpdateOutboundEnrollment_def [THEN fun_cong, THEN fun_cong]
  V2PauseOutboundEnrollment_def [THEN fun_cong, THEN fun_cong] V2ResumeOutboundEnrollment_def [THEN fun_cong, THEN fun_cong]
  V2StopOutboundEnrollment_def [THEN fun_cong, THEN fun_cong] V2AssignOutboundEnrollment_def [THEN fun_cong, THEN fun_cong]
  V2ClassifyReplyOpsItem_def [THEN fun_cong, THEN fun_cong] V2TakeoverReplyOpsItem_def [THEN fun_cong, THEN fun_cong]
  V2ApplyReplyOpsAction_def [THEN fun_cong, THEN fun_cong] V2GetOutboundRecipient_def [THEN fun_cong, THEN fun_cong]
  V2UpdateOutboundRecipient_def [THEN fun_cong, THEN fun_cong] V2CreateOutboundSuppression_def [THEN fun_cong, THEN fun_cong]
  V2DeleteOutboundSuppression_def [THEN fun_cong, THEN fun_cong]

definition demo_selection :: outboundSenderSelection where
  "demo_selection = \<lparr>sel_Account = demo_account ''m1'' ''u1'', sel_SenderProfileID = [], sel_HeaderFromName = ''Ann'',
     sel_HeaderFromEmail = ''a@e.org'', sel_EnvelopeFrom = ''a@e.org'', sel_ReplyTo = [],
     sel_ReplyAccountID = ''m1'', sel_ReplyFunnelID = [], sel_CollectorAccountID = []\<rparr>"

text \<open>The campaigns need of the account server its clock, its UUIDs, its parser of addresses and its users.\<close>

definition plain_cfg :: Config where
  "plain_cfg = \<lparr>
     SessionAbsoluteHour = 1, SessionIdleMinutes = 1, SessionEncryptKey = [], DovecotAuthMode = [], BaseDomain = [],
     PasswordMinLength = 1, PasswordMaxLength = 1, PasskeyPasswordlessEnabled = False, PasswordResetPublicEnabled = False,
     PasswordResetSender = [], PasswordResetFrom = [], PasswordResetExternalSenderReady = False,
     PasswordResetTokenTTLMinutes = 1, PasswordResetRequireMappedLogin = False, PAMResetHelperEnabled = False,
     CaptchaEnabled = False, MailSecEnabled = False, UpdateEnabled = False, UpdateRequireSignature = False, IMAPHost = [],
     IMAPPort = 1, IMAPTLS = True, IMAPStartTLS = False, SMTPHost = [], SMTPPort = 1, SMTPTLS = False, SMTPStartTLS = True\<rparr>"

definition plain_svc :: Svc where
  "plain_svc = \<lparr>
     cfg = plain_cfg, idkey = (\<lambda>p s t m n l. []), sha256 = (\<lambda>s. []),
     aes_gcm = \<lparr>seal = (\<lambda>k n p. p), open_sealed = (\<lambda>k n c. Some c)\<rparr>,
     ParseAddress = Some, LoadLocation = Some, json_Marshal = (\<lambda>kvs. []), rfc3339 = (\<lambda>t. []),
     noop_provisioner = False, log_sender = False, sender_probes = True, sender_sends_codes = True,
     db_fault = (\<lambda>n. None), others = (\<lambda>n d. d), tick = (\<lambda>n. 1), uuid = (\<lambda>n. CHR ''i'' # show_nat n),
     rand = (\<lambda>n k. None), imap_login = (\<lambda>n u p. None), provision_upsert = (\<lambda>n. None), provision_disable = (\<lambda>n. None),
     send_mail = (\<lambda>n. None), pam_reset = (\<lambda>n. PamOk)\<rparr>"

definition demo_oenv :: oenv where
  "demo_oenv = \<lparr>
     oe_svc = plain_svc, oe_fault = (\<lambda>n. None), oe_others = (\<lambda>n d. d),
     oe_reply = (\<lambda>s p. p), oe_suppression = (\<lambda>s p. p), oe_schedule = (\<lambda>s p. p), oe_compliance = (\<lambda>s p. p),
     oe_governance = (\<lambda>s p. p), oe_task = (\<lambda>s p. p), oe_seed = (\<lambda>s p. p), oe_branch = (\<lambda>s. None),
     oe_render = (\<lambda>n c r e. Inr \<lparr>rd_Subject = st_SubjectTemplate r, rd_Body = st_BodyTemplate r, rd_Missing = [],
       rd_Selection = demo_selection\<rparr>),
     oe_select = (\<lambda>n c e. Inr demo_selection), oe_decrypt = (\<lambda>a. Inr ''secret''), oe_send = (\<lambda>n req. None),
     oe_self = (\<lambda>n a m. Inr False), oe_indexed = (\<lambda>n a i. None), oe_return_date = (\<lambda>m. None),
     oe_json_text = Some, oe_json_compact = Some, oe_rfc3339 = (\<lambda>s. Some 100)\<rparr>"

definition demo_campaign :: OutboundCampaign where
  "demo_campaign = \<lparr>oc_ID = ''c1'', oc_UserID = ''u1'', oc_Name = ''Spring'', oc_Status = ''running'',
     oc_GoalKind = ''general_outreach'', oc_PlaybookKey = [], oc_CampaignMode = ''new_threads'', oc_AudienceSourceKind = ''manual'',
     oc_AudienceSourceRef = [], oc_SenderPolicyKind = ''preferred_sender'', oc_SenderPolicyRef = [],
     oc_ReplyPolicyJSON = ''{}'', oc_SuppressionPolicyJSON = ''{}'', oc_SchedulePolicyJSON = ''{}'',
     oc_CompliancePolicyJSON = ''{}'', oc_GovernancePolicyJSON = ''{}'', oc_CreatedAt = 0, oc_UpdatedAt = 0,
     oc_LaunchedAt = Some 0, oc_CompletedAt = None\<rparr>"

definition demo_step :: "string \<Rightarrow> int \<Rightarrow> string \<Rightarrow> OutboundCampaignStep" where
  "demo_step i position kind = \<lparr>st_ID = i, st_CampaignID = ''c1'', st_Position = position, st_Kind = kind,
     st_ThreadMode = ''same_thread'', st_SubjectTemplate = ''Hello'', st_BodyTemplate = ''Text'', st_WaitIntervalMinutes = 60,
     st_SendWindowJSON = ''{}'', st_TaskPolicyJSON = ''{}'', st_BranchPolicyJSON = ''{}'', st_StopIfReplied = True,
     st_StopIfClicked = False, st_StopIfBooked = False, st_StopIfUnsubscribed = True, st_CreatedAt = 0, st_UpdatedAt = 0\<rparr>"

definition demo_enrollment :: OutboundEnrollment where
  "demo_enrollment = \<lparr>en_ID = ''e1'', en_CampaignID = ''c1'', en_ContactID = [], en_RecipientEmail = ''b@c.io'',
     en_RecipientDomain = ''c.io'', en_SenderAccountID = [], en_SenderProfileID = [], en_ReplyFunnelID = [],
     en_ThreadBindingID = [], en_Status = ''scheduled'', en_CurrentStepPosition = 0, en_LastSentMessageID = [],
     en_LastSentAt = None, en_NextActionAt = Some 0, en_PauseReason = [], en_StopReason = [], en_ReplyOutcome = [],
     en_ReplyConfidence = 0, en_ManualOwnerUserID = ''u1'', en_SeedContextJSON = ''{}'', en_CreatedAt = Some 0,
     en_UpdatedAt = Some 0\<rparr>"

definition demo_suppression :: OutboundSuppression where
  "demo_suppression = \<lparr>sp_ID = ''p1'', sp_UserID = ''u1'', sp_ScopeKind = ''recipient'', sp_ScopeValue = ''b@c.io'',
     sp_CampaignID = [], sp_Reason = ''recipient requested unsubscribe'', sp_SourceKind = ''unsubscribe'', sp_ExpiresAt = None,
     sp_CreatedAt = Some 0, sp_UpdatedAt = Some 0\<rparr>"

definition demo_tables :: odb where
  "demo_tables = \<lparr>campaigns = [demo_campaign], steps = [demo_step ''s1'' 1 ''email'', demo_step ''s2'' 2 ''email''],
     enrollments = [demo_enrollment], events = [], recipient_states = [], bindings = [], suppressions = []\<rparr>"

definition demo_ostate :: "odb \<Rightarrow> ostate" where
  "demo_ostate d = \<lparr>ob_db = d, ob_sent = [],
     ob_world = \<lparr>w_db = empty_db\<lparr>users := [demo_user ''u1'' ''a@e.org'']\<rparr>, w_now = 0, w_n = 0, w_log = []\<rparr>\<rparr>"

definition barred_tables :: odb where
  "barred_tables = demo_tables\<lparr>suppressions := [demo_suppression]\<rparr>"

text \<open>A campaign with nothing filled in, one recipient and a reply, for evaluations.\<close>

definition bare_campaign :: OutboundCampaign where
  "bare_campaign = \<lparr>oc_ID = ''c'', oc_UserID = ''u'', oc_Name = [], oc_Status = [],
     oc_GoalKind = [], oc_PlaybookKey = [], oc_CampaignMode = [], oc_AudienceSourceKind = [],
     oc_AudienceSourceRef = [], oc_SenderPolicyKind = [], oc_SenderPolicyRef = [],
     oc_ReplyPolicyJSON = [], oc_SuppressionPolicyJSON = [], oc_SchedulePolicyJSON = [],
     oc_CompliancePolicyJSON = [], oc_GovernancePolicyJSON = [], oc_CreatedAt = 0, oc_UpdatedAt = 0,
     oc_LaunchedAt = None, oc_CompletedAt = None\<rparr>"

definition bare_enrollment :: OutboundEnrollment where
  "bare_enrollment = \<lparr>en_ID = ''e'', en_CampaignID = ''c'', en_ContactID = [], en_RecipientEmail = ''b@c'',
     en_RecipientDomain = ''c'', en_SenderAccountID = [], en_SenderProfileID = [], en_ReplyFunnelID = [],
     en_ThreadBindingID = [], en_Status = [], en_CurrentStepPosition = 0, en_LastSentMessageID = [],
     en_LastSentAt = None, en_NextActionAt = None, en_PauseReason = [], en_StopReason = [], en_ReplyOutcome = [],
     en_ReplyConfidence = 0, en_ManualOwnerUserID = [], en_SeedContextJSON = [], en_CreatedAt = None,
     en_UpdatedAt = None\<rparr>"

definition bare_tables :: odb where
  "bare_tables = \<lparr>campaigns = [bare_campaign], steps = [],
     enrollments = [], events = [], recipient_states = [], bindings = [], suppressions = []\<rparr>"

definition bare_ostate :: "odb \<Rightarrow> ostate" where
  "bare_ostate d = \<lparr>ob_db = d, ob_sent = [],
     ob_world = \<lparr>w_db = empty_db, w_now = 0, w_n = 0, w_log = []\<rparr>\<rparr>"

definition bare_reply :: "IndexedMessage" where
  "bare_reply = \<lparr>im_ID = [], im_ThreadID = [], im_MessageIDHeader = [], im_InReplyToHeader = [],
     im_ReferencesHeader = [], im_FromValue = [], im_Subject = [], im_Snippet = [], im_BodyText = [],
     im_RawSource = [], im_DateHeader = Some 5, im_InternalDate = None\<rparr>"

lemma demo_oenv_calm [simp]: "oe_others demo_oenv n d = d" "oe_fault demo_oenv n = None" "oe_svc demo_oenv = plain_svc"
  by (simp_all add: demo_oenv_def)

lemma demo_uuid_trimmed: "TrimSpace (uuid plain_svc n) = uuid plain_svc n"
proof (rule TrimSpace_plain)
  have "list_all (\<lambda>p. list_all (\<lambda>c. \<not> is_digit c) p) space_runes" by code_simp
  then have "set (show_nat n) \<inter> space_bytes = {}"
    using not_digit_notin [of _ n] by (auto simp: space_bytes_def list_all_iff)
  moreover have "set ''i'' \<inter> space_bytes = {}" by (simp add: space_bytes_def space_runes_def)
  ultimately show "set (uuid plain_svc n) \<inter> space_bytes = {}" unfolding plain_svc_def by simp
qed

end
