(* ===== verification/OutboundLaws.thy ===== *)
theory OutboundLaws
  imports OutboundDemo
begin

text \<open>
  The two invariants of the campaigns' tables, as interpretations of \<open>outbound_contract\<close>: the tables stay
  well typed, and a permanent suppression of a recipient stays, so that no mail of the user goes there.
  The list of suppressions refines a map from scopes to times of expiry.
\<close>

section \<open>The type of the tables\<close>




text \<open>Other requests and workers keep a property of the tables if the environment is \<open>guarded\<close> by it.\<close>

definition guarded :: "(odb \<Rightarrow> bool) \<Rightarrow> oenv \<Rightarrow> oenv" where
  "guarded I v = v\<lparr>oe_others := \<lambda>n d. if I d \<and> \<not> I (oe_others v n d) then d else oe_others v n d\<rparr>"

lemma guarded_id: "(\<And>n d. I d \<Longrightarrow> I (oe_others v n d)) \<Longrightarrow> guarded I v = v"
  by (cases v) (auto simp: guarded_def fun_eq_iff)

lemma guarded_keeps: "I d \<Longrightarrow> I (oe_others (guarded I v) n d)"
  by (simp add: guarded_def)










section \<open>Permanent suppressions\<close>

text \<open>A row that keeps the user \<open>u\<close> from mailing the recipient \<open>r\<close>, in all campaigns and for good.\<close>

definition bars :: "string \<Rightarrow> string \<Rightarrow> OutboundSuppression \<Rightarrow> bool" where
  "bars u r p \<longleftrightarrow> sp_UserID p = u \<and> sp_ScopeKind p = ''recipient'' \<and> sql_lower (sp_ScopeValue p) = sql_lower r
     \<and> sp_CampaignID p = [] \<and> sp_ExpiresAt p = None"

text \<open>The row with the id \<open>i\<close> is such a row; ids have no blanks around.\<close>

definition barred :: "string \<Rightarrow> string \<Rightarrow> string \<Rightarrow> odb \<Rightarrow> bool" where
  "barred u r i d \<longleftrightarrow> uniq suppressions_keys (suppressions d) \<and> list_all (\<lambda>p. TrimSpace (sp_ID p) = sp_ID p) (suppressions d)
     \<and> list_ex (\<lambda>p. sp_ID p = i \<and> bars u r p) (suppressions d)"

definition mails_to :: "string \<Rightarrow> string \<Rightarrow> sent_mail \<Rightarrow> bool" where
  "mails_to u r m \<longleftrightarrow> sn_UserID m = u \<and> list_ex (\<lambda>a. sql_lower (ToLower (TrimSpace a)) = sql_lower r) (rq_To (sn_Request m))"

text \<open>A suppression that does not end another one: it is permanent, or of another scope.\<close>

definition same_target :: "string \<Rightarrow> string \<Rightarrow> OutboundSuppression \<Rightarrow> bool" where
  "same_target u r p \<longleftrightarrow> TrimSpace (sp_UserID p) = u \<and> normalizeSuppressionScopeKind (sp_ScopeKind p) = ''recipient''
     \<and> sql_lower (ToLower (TrimSpace (sp_ScopeValue p))) = sql_lower r \<and> TrimSpace (sp_CampaignID p) = []"

definition lasting :: "string \<Rightarrow> string \<Rightarrow> OutboundSuppression \<Rightarrow> bool" where
  "lasting u r p \<longleftrightarrow> TrimSpace (sp_ID p) = sp_ID p \<and> (sp_ExpiresAt p = None \<or> \<not> same_target u r p)"

text \<open>Updates by id and deletions that leave the row with the id \<open>i\<close> as it is.\<close>

definition harmless :: "string \<Rightarrow> OutboundSuppression \<Rightarrow> string \<Rightarrow> bool" where
  "harmless i row j \<longleftrightarrow> sp_ExpiresAt row = None \<or> TrimSpace j \<noteq> i"

definition spares :: "string \<Rightarrow> string \<Rightarrow> string \<Rightarrow> string \<Rightarrow> bool" where
  "spares u i uid j \<longleftrightarrow> \<not> (uid = u \<and> TrimSpace j = i)"

definition trimmed_ids :: "oenv \<Rightarrow> oenv" where
  "trimmed_ids v = v\<lparr>oe_svc := (oe_svc v)\<lparr>uuid := \<lambda>n. TrimSpace (uuid (oe_svc v) n)\<rparr>\<rparr>"

lemma trimmed_ids_id: "(\<And>n. TrimSpace (uuid (oe_svc v) n) = uuid (oe_svc v) n) \<Longrightarrow> trimmed_ids v = v"
  by (cases v) (simp add: trimmed_ids_def)

lemma barred_admits:
  "admits (barred u r i) campaigns campaigns_update ks nc" "admits (barred u r i) steps steps_update ks' ns"
  "admits (barred u r i) enrollments enrollments_update ks'' ne" "admits (barred u r i) events events_update ks3 nv"
  "admits (barred u r i) recipient_states recipient_states_update ks4 nr" "admits (barred u r i) bindings bindings_update ks5 nb"
  by (simp_all add: admits_def barred_def)

lemma barred_clear:
  assumes "barred u r i d" "filter (suppresses uid (ToLower (TrimSpace em)) dm c now) (suppressions d) = []"
    "sn_UserID m = uid" "rq_To (sn_Request m) = [em]"
  shows "\<not> mails_to u r m"
proof
  assume "mails_to u r m"
  with assms(3,4) have u: "uid = u" and em: "sql_lower (ToLower (TrimSpace em)) = sql_lower r" by (auto simp: mails_to_def)
  from assms(1) obtain p where "p \<in> set (suppressions d)" "bars u r p" by (auto simp: barred_def list_ex_iff)
  then have "p \<in> set (filter (suppresses uid (ToLower (TrimSpace em)) dm c now) (suppressions d))"
    using u em by (simp add: bars_def suppresses_def)
  with assms(2) show False by simp
qed

lemma barred_insert:
  assumes "barred u r i d" "t_insert suppressions_keys row (suppressions d) = Some (t, k)" "TrimSpace (sp_ID row) = sp_ID row"
  shows "barred u r i (d\<lparr>suppressions := t\<rparr>)"
  using assms by (auto simp: barred_def t_insert_Some list_ex_iff)

lemma barred_delete:
  assumes "barred u r i d" "spares u i uid j"
  shows "barred u r i (d\<lparr>suppressions := filter (\<lambda>p. \<not> (sp_UserID p = uid \<and> sp_ID p = TrimSpace j)) (suppressions d)\<rparr>)"
  using assms by (auto simp: spares_def barred_def uniq_filter list_all_iff list_ex_iff bars_def)

text \<open>An update of the row with another id, or one that sets no time, keeps the row.\<close>

lemma barred_update:
  assumes "barred u r i d" "harmless i row j"
    "t_update suppressions_keys (\<lambda>q. sp_ID q = TrimSpace j) (overwrite_suppression row) (suppressions d) = Some (t, k)"
  shows "barred u r i (d\<lparr>suppressions := t\<rparr>)"
proof -
  have t: "uniq suppressions_keys t" "t = map (\<lambda>q. if sp_ID q = TrimSpace j then overwrite_suppression row q else q) (suppressions d)"
    using assms(3) unfolding t_update_Some by blast+
  have "sp_ID (overwrite_suppression row q) = sp_ID q" for q by (simp add: overwrite_suppression_def)
  then have "list_all (\<lambda>p. TrimSpace (sp_ID p) = sp_ID p) t" using assms(1) t(2) by (auto simp: barred_def list_all_iff)
  moreover obtain p where p: "p \<in> set (suppressions d)" "sp_ID p = i" "bars u r p" using assms(1) by (auto simp: barred_def list_ex_iff)
  let ?p = "if sp_ID p = TrimSpace j then overwrite_suppression row p else p"
  have "?p \<in> set t" using p(1) t(2) by auto
  moreover have "sp_ID ?p = i \<and> bars u r ?p" using p assms(2) by (auto simp: bars_def overwrite_suppression_def harmless_def)
  ultimately show ?thesis using t(1) by (auto simp: barred_def list_ex_iff)
qed

lemma barred_known:
  assumes "barred u r i d" "lasting u r p" "row = suppression_row now (p\<lparr>sp_ID := k\<rparr>)"
    "find (same_scope row) (suppressions d) = Some q"
  shows "harmless i row (sp_ID q)"
  unfolding harmless_def
proof (rule disjCI)
  assume i: "\<not> TrimSpace (sp_ID q) \<noteq> i"
  from assms(4) have q: "q \<in> set (suppressions d)" "same_scope row q" by (auto simp: find_Some_iff)
  moreover obtain b where b: "b \<in> set (suppressions d)" "sp_ID b = i" "bars u r b" using assms(1) by (auto simp: barred_def list_ex_iff)
  ultimately have "sp_ID q = sp_ID b" using i assms(1) by (auto simp: barred_def list_all_iff)
  with assms(1) q(1) b(1) have "q = b"
    by (auto simp: barred_def suppressions_keys_def intro: uniq_keyD [of suppressions_keys _ "\<lambda>r. [sp_ID r]"])
  with q(2) b(3) have "same_target u r p"
    by (auto simp: same_scope_def bars_def same_target_def assms(3) suppression_row_def)
  with assms(2,3) show "sp_ExpiresAt row = None" by (simp add: lasting_def suppression_row_def)
qed

interpretation barred: outbound_contract "guarded (barred u r i) (trimmed_ids v)" "barred u r i" "\<lambda>m. \<not> mails_to u r m"
  "lasting u r" "harmless i" "spares u i" "\<lambda>j. TrimSpace j = j" for u r i v
proof unfold_locales
  show "TrimSpace (uuid (oe_svc (guarded (barred u r i) (trimmed_ids v))) n) = uuid (oe_svc (guarded (barred u r i) (trimmed_ids v))) n" for n
    by (simp add: guarded_def trimmed_ids_def)
  show "lasting u r p" if "sp_ID p = []" "sp_ExpiresAt p = None" for p using that by (simp add: lasting_def)
  show "barred u r i (d\<lparr>suppressions := t\<rparr>)"
    if "barred u r i d" "lasting u r p" "id_for (\<lambda>j. TrimSpace j = j) p k" "row = suppression_row now (p\<lparr>sp_ID := k\<rparr>)"
      "t_insert suppressions_keys row (suppressions d) = Some (t, l)" for d p k row now t l
    using that by (intro barred_insert [OF that(1,5)]) (auto simp: id_for_def lasting_def suppression_row_def split: if_splits)
qed (fact guarded_keeps barred_admits | (rule barred_clear barred_known barred_update barred_delete; assumption))+

text \<open>The requests that could end the suppression: its user deletes it, or suppresses the same recipient again
  for a limited time, also by the action on a reply.  Such an action that names no recipient suppresses the one of the
  enrollment in the tables, which the request does not show, so it counts whoever that is.  So does a suppression created under
  an id with blanks around it, for any user: a later update of that row would trim the id and overwrite
  the row of the trimmed id.\<close>

fun ends_bar :: "oenv \<Rightarrow> string \<Rightarrow> string \<Rightarrow> string \<Rightarrow> outbound_op \<Rightarrow> bool" where
  "ends_bar v u r i (Request (ReplyOps uid j (Inr req))) \<longleftrightarrow>
     TrimSpace uid = u \<and> ToLower (TrimSpace (ra_Action req)) = ''suppress_recipient''
     \<and> parseNullableRFC3339 v (ra_Until req) \<notin> {None, Some None}
     \<and> (TrimSpace (ra_ScopeValue req) = [] \<or> sql_lower (ToLower (TrimSpace (ra_ScopeValue req))) = sql_lower r)"
| "ends_bar v u r i (Request (CreateSuppression uid (Inr p))) \<longleftrightarrow> \<not> lasting u r (p\<lparr>sp_UserID := uid\<rparr>)"
| "ends_bar v u r i (Request (DeleteSuppression uid j)) \<longleftrightarrow> uid = u \<and> TrimSpace j = i"
| "ends_bar v u r i _ \<longleftrightarrow> False"

lemma domain_scope_kind: "normalizeSuppressionScopeKind ''domain'' = ''domain''"
  by code_simp

lemma first_named: "TrimSpace x \<noteq> [] \<Longrightarrow> OutboundPolicy.firstNonEmptyString (x # xs) = TrimSpace x"
  by (simp add: OutboundPolicy.firstNonEmptyString_def opt_str_def)

lemma ops_lasting:
  assumes "ops_suppression uid campaign e action scopeValue until = Some p"
    "TrimSpace uid = u \<and> action = ''suppress_recipient'' \<longrightarrow> until = None
       \<or> TrimSpace scopeValue \<noteq> [] \<and> sql_lower (ToLower (TrimSpace scopeValue)) \<noteq> sql_lower r"
  shows "lasting u r p"
  using assms
  by (auto simp: first_named TrimSpace_idem ops_suppression_def new_suppression_def lasting_def same_target_def domain_scope_kind split: if_splits)

lemma not_ends_permitted:
  assumes "\<not> ends_bar v u r i x"
  shows "permitted v (lasting u r) (spares u i) x"
proof (cases "(v, u, r, i, x)" rule: ends_bar.cases)
  case (1 v' u' r' i' uid j req)
  then show ?thesis using assms ops_lasting by auto
qed (use assms in \<open>simp_all add: spares_def\<close>)

text \<open>C11: Once a recipient is suppressed for good in all campaigns of a user, no run of requests of any user,
  rounds of the worker and indexed messages mails that recipient in the name of the user, as long as the user
  neither deletes the suppression, nor suppresses the same recipient again for a limited time, nor acts on a reply with a
  suppression for a limited time that leaves the recipient open, and nobody creates a suppression under an id
  with blanks around it.  Failures and other processes may interleave, provided these keep the suppression; the ids in the
  table and those that are generated have no blanks around them.\<close>

theorem suppressed_recipient_never_mailed:
  assumes "barred u r i (ob_db s)" "list_all (\<lambda>x. \<not> ends_bar v u r i x) xs"
    "\<And>n d. barred u r i d \<Longrightarrow> barred u r i (oe_others v n d)" "\<And>n. TrimSpace (uuid (oe_svc v) n) = uuid (oe_svc v) n"
  shows "\<exists>new. ob_sent (run_ops xs v s) = ob_sent s @ new \<and> list_all (\<lambda>m. \<not> mails_to u r m) new"
proof -
  have "list_all (permitted v (lasting u r) (spares u i)) xs" using assms(2) by (auto simp: list_all_iff not_ends_permitted)
  with barred.run_ops_keep [of u r i v xs s] assms show ?thesis by (simp add: guarded_id trimmed_ids_id)
qed

lemma demo_barred: "barred ''u1'' ''b@c.io'' ''p1'' barred_tables"
  by code_simp

theorem suppressed_recipient_never_mailed_witness:
  "\<exists>new. ob_sent (run_ops [Request (ResumeEnrollment ''u1'' ''e1''), Round] demo_oenv (demo_ostate barred_tables)) = new
     \<and> list_all (\<lambda>m. \<not> mails_to ''u1'' ''b@c.io'' m) new"
  using suppressed_recipient_never_mailed
    [of "''u1''" "''b@c.io''" "''p1''" "demo_ostate barred_tables" demo_oenv "[Request (ResumeEnrollment ''u1'' ''e1''), Round]"]
  by (simp add: demo_barred demo_ostate_def demo_uuid_trimmed)

section \<open>A blocked launch\<close>

text \<open>Without other processes at work, the tables of a reading operation are the tables it began with.\<close>

definition calmO :: "oenv \<Rightarrow> oenv" where "calmO v = v\<lparr>oe_others := \<lambda>n d. d\<rparr>"

lemma calmO_id: "(\<And>n d. oe_others v n d = d) \<Longrightarrow> calmO v = v"
  by (cases v) (auto simp: calmO_def fun_eq_iff)

interpretation same: table_invariant "calmO v" "\<lambda>d. d = d0" "\<lambda>_. False" for v d0
  by unfold_locales (simp add: calmO_def)

lemma keeps_same:
  assumes "\<And>d0. keeps (calmO v) (\<lambda>d. d = d0) (\<lambda>_. False) m" "m (calmO v) s = (r, s')"
  shows "ob_db s' = ob_db s \<and> ob_sent s' = ob_sent s"
  using assms(1) [of "ob_db s"] assms(2) by (auto simp: keepsO_def list_all_iff dest!: spec [of _ s])

text \<open>C15: A launch that answers with a blocking issue has changed nothing: no campaign, no enrollment and no other
  table is written and no mail is sent.\<close>

theorem blocked_launch_changes_nothing:
  assumes "LaunchOutboundCampaign u i v s = (Inr issues, s')" "list_ex pi_Blocking issues" "\<And>n d. oe_others v n d = d"
  shows "ob_db s' = ob_db s \<and> ob_sent s' = ob_sent s"
proof -
  have v: "calmO v = v" using assms(3) by (rule calmO_id)
  obtain c s1 issues' s2 where 1: "GetOutboundCampaignByID u i v s = (Inr c, s1)"
    and 2: "PreflightOutboundCampaign u c v s1 = (Inr issues', s2)"
    and 3: "(if list_ex pi_Blocking issues' then retO issues'
       else bindO (ListOutboundEnrollmentsByCampaign u (oc_ID c)) (\<lambda>es.
         bindO nowO (\<lambda>now.
         thenO (forO (filter (\<lambda>e. en_Status e \<notin> set launch_skips) es) (\<lambda>e.
             thenO (UpsertOutboundEnrollment (e\<lparr>en_Status := ''scheduled'',
               en_NextActionAt := (case en_NextActionAt e of None \<Rightarrow> Some now | Some t \<Rightarrow> Some t)\<rparr>)) (retO ())))
         (thenO (SetOutboundCampaignStatus u (oc_ID c) ''running'' (Some now) None)
         (retO issues'))))) v s2 = (Inr issues, s')"
    using assms(1) unfolding LaunchOutboundCampaign_def bindO_Inr [of "GetOutboundCampaignByID u i"]
      bindO_Inr [of "PreflightOutboundCampaign u _"] by blast
  from 3 assms(2) have "issues' = issues" by (auto simp: runsO split: if_splits)
  with 3 assms(2) have "s' = s2" by (simp add: retO_Inr)
  moreover have "ob_db s1 = ob_db s \<and> ob_sent s1 = ob_sent s"
    using keeps_same [OF same.H_campaign_reads(2)] 1 v by metis
  moreover have "ob_db s2 = ob_db s1 \<and> ob_sent s2 = ob_sent s1"
    using keeps_same [OF same.H_PreflightOutboundCampaign] 2 v by metis
  ultimately show ?thesis by simp
qed

lemma demo_blocked_launch:
  "\<exists>issues s'. LaunchOutboundCampaign ''u'' ''c'' demo_oenv (bare_ostate bare_tables) = (Inr issues, s') \<and> list_ex pi_Blocking issues"
proof -
  let ?p = "LaunchOutboundCampaign ''u'' ''c'' demo_oenv (bare_ostate bare_tables)"
  have "case fst ?p of Inl e \<Rightarrow> False | Inr issues \<Rightarrow> list_ex pi_Blocking issues" by code_simp
  then show ?thesis by (cases ?p) (auto split: sum.splits)
qed

theorem blocked_launch_changes_nothing_witness:
  "\<exists>issues s'. LaunchOutboundCampaign ''u'' ''c'' demo_oenv (bare_ostate bare_tables) = (Inr issues, s') \<and> list_ex pi_Blocking issues
     \<and> ob_db s' = bare_tables \<and> ob_sent s' = []"
proof -
  obtain issues s' where run: "LaunchOutboundCampaign ''u'' ''c'' demo_oenv (bare_ostate bare_tables) = (Inr issues, s')"
    "list_ex pi_Blocking issues" using demo_blocked_launch by blast
  from blocked_launch_changes_nothing [OF run] have "ob_db s' = bare_tables \<and> ob_sent s' = []" by (simp add: bare_ostate_def)
  with run show ?thesis by blast
qed

end
