(* ===== verification/SuppressionLaws.thy ===== *)
theory SuppressionLaws
  imports OutboundLaws
begin

text \<open>
  The list of suppressions as an abstract data type: a map from scopes to times of expiry, which the store's
  table refines, and the way from a reply that asks to unsubscribe to a suppression that lasts.
\<close>

section \<open>Runs without interference\<close>

definition calm_env :: "oenv \<Rightarrow> bool" where "calm_env v \<longleftrightarrow> (\<forall>n d. oe_others v n d = d)"

lemma coreO_same: "coreO m v s = (r, s') \<Longrightarrow> ob_db s' = ob_db s"
  by (auto simp: coreO_def split: prod.splits)

lemma stmtO_calm: "calm_env v \<Longrightarrow> stmtO f v s = (Inr x, s') \<Longrightarrow> f (ob_db s) = Some (ob_db s', x)"
  by (auto simp: calm_env_def stmtO_def Let_def split: option.splits)

lemma stmtO_calm_error: "calm_env v \<Longrightarrow> stmtO f v s = (Inl e, s') \<Longrightarrow> ob_db s' = ob_db s \<and> e \<noteq> ErrNotFound"
  by (auto simp: calm_env_def stmtO_def Let_def split: option.splits)

lemma queryO_calm: "calm_env v \<Longrightarrow> queryO f v s = (Inr x, s') \<Longrightarrow> x = f (ob_db s) \<and> ob_db s' = ob_db s"
  unfolding queryO_def by (drule (1) stmtO_calm) auto

lemma putO_calm:
  assumes "calm_env v" "putO get upd f v s = (Inr n, s')"
  obtains t where "f (get (ob_db s)) = Some (t, n)" "ob_db s' = upd (\<lambda>_. t) (ob_db s)"
  using stmtO_calm [OF assms(1) assms(2) [unfolded putO_def]] by auto

section \<open>The abstract list\<close>

definition scope_of :: "OutboundSuppression \<Rightarrow> string list" where
  "scope_of p = [sp_UserID p, sp_ScopeKind p, sql_lower (sp_ScopeValue p), sp_CampaignID p]"

definition abs_suppressions :: "odb \<Rightarrow> string list \<rightharpoonup> gotime option" where
  "abs_suppressions d = map_of (map (\<lambda>p. (scope_of p, sp_ExpiresAt p)) (suppressions d))"

definition spec_alive :: "gotime \<Rightarrow> gotime option option \<Rightarrow> bool" where
  "spec_alive now x = (case x of None \<Rightarrow> False | Some None \<Rightarrow> True | Some (Some t) \<Rightarrow> t > now)"

text \<open>A recipient is suppressed if one of four scopes is: the address or its domain, everywhere or in the campaign.\<close>

definition spec_suppressed :: "(string list \<rightharpoonup> gotime option) \<Rightarrow> string \<Rightarrow> string \<Rightarrow> string \<Rightarrow> string \<Rightarrow> gotime \<Rightarrow> bool" where
  "spec_suppressed m u email domain c now =
     list_ex (\<lambda>k. spec_alive now (m k))
       [[u, ''recipient'', sql_lower email, []], [u, ''recipient'', sql_lower email, c],
        [u, ''domain'', sql_lower domain, []], [u, ''domain'', sql_lower domain, c]]"

text \<open>The scope that a request to suppress writes.\<close>

definition requested_scope :: "OutboundSuppression \<Rightarrow> string list" where
  "requested_scope p = [TrimSpace (sp_UserID p), normalizeSuppressionScopeKind (sp_ScopeKind p),
     sql_lower (ToLower (TrimSpace (sp_ScopeValue p))), TrimSpace (sp_CampaignID p)]"

definition sound_suppressions :: "odb \<Rightarrow> bool" where
  "sound_suppressions d \<longleftrightarrow> uniq suppressions_keys (suppressions d) \<and> list_all (\<lambda>p. TrimSpace (sp_ID p) = sp_ID p) (suppressions d)"

lemma same_scope_iff: "same_scope row p \<longleftrightarrow> scope_of p = scope_of row"
  by (auto simp: same_scope_def scope_of_def)

lemma sound_distinct:
  assumes "sound_suppressions d"
  shows "distinct (map scope_of (suppressions d))" "distinct (map sp_ID (suppressions d))"
proof -
  have "distinct (map (\<lambda>r. [sp_ID r]) (suppressions d))" "distinct (map scope_of (suppressions d))"
    using assms by (simp_all add: sound_suppressions_def uniq_def suppressions_keys_def scope_of_def [abs_def])
  then show "distinct (map scope_of (suppressions d))" "distinct (map sp_ID (suppressions d))"
    by (auto simp: distinct_map inj_on_def)
qed

lemma map_of_update_one:
  assumes "distinct (map key t)" "q \<in> set t" "\<And>r. r \<in> set t \<Longrightarrow> P r \<longleftrightarrow> r = q" "\<And>r. key (g r) = key r"
  shows "map_of (map (\<lambda>r. (key r, val r)) (map (\<lambda>r. if P r then g r else r) t)) =
    (map_of (map (\<lambda>r. (key r, val r)) t))(key q \<mapsto> val (g q))"
  using assms(1-3)
proof (induction t)
  case (Cons a t)
  show ?case
  proof (cases "a = q")
    case True
    then have "\<forall>r \<in> set t. \<not> P r" using Cons.prems by (metis distinct.simps(2) image_eqI list.set_intros(2) list.simps(9) set_map)
    then have "map (\<lambda>r. if P r then g r else r) t = t" by (simp add: map_idI)
    then show ?thesis using True Cons.prems(3) assms(4) by (simp add: fun_eq_iff del: map_map)
  next
    case False
    then have "key a \<noteq> key q" "\<not> P a" using Cons.prems by auto
    then show ?thesis using Cons False by (auto simp: fun_eq_iff simp del: map_map)
  qed
qed simp

lemma map_of_snoc:
  "k \<notin> set (map key t) \<Longrightarrow> map_of (map (\<lambda>r. (key r, val r)) t @ [(k, x)]) = (map_of (map (\<lambda>r. (key r, val r)) t))(k \<mapsto> x)"
  by (induction t) (auto simp: fun_eq_iff)

section \<open>The table refines the map\<close>

text \<open>The run of an upsert: its row is inserted, or overwrites the row of its scope.\<close>

definition upserted :: "OutboundSuppression \<Rightarrow> OutboundSuppression list \<Rightarrow> OutboundSuppression list \<Rightarrow> bool" where
  "upserted row t t' \<longleftrightarrow> (\<exists>k. Some (t', k) = (case find (same_scope row) t of
     None \<Rightarrow> t_insert suppressions_keys row t
   | Some e \<Rightarrow> t_update suppressions_keys (\<lambda>x. sp_ID x = TrimSpace (sp_ID e)) (overwrite_suppression row) t))"

lemma UpsertOutboundSuppression_run:
  assumes "calm_env v" "UpsertOutboundSuppression p v s = (Inr q, s')"
  obtains now i t where "ob_db s' = (ob_db s)\<lparr>suppressions := t\<rparr>"
    "upserted (suppression_row now (p\<lparr>sp_ID := i\<rparr>)) (suppressions (ob_db s)) t"
    "TrimSpace (sp_ID p) \<noteq> [] \<longrightarrow> i = sp_ID p" "TrimSpace (sp_ID p) = [] \<longrightarrow> (\<exists>n. i = uuid (oe_svc v) n)"
proof -
  obtain now s1 i s2 e s3 n s4 r s5 where
    1: "nowO v s = (Inr now, s1)" and 2: "(if TrimSpace (sp_ID p) = [] then uuidO else retO (sp_ID p)) v s1 = (Inr i, s2)"
    and 3: "queryO (\<lambda>d. find (same_scope (suppression_row now (p\<lparr>sp_ID := i\<rparr>))) (suppressions d)) v s2 = (Inr e, s3)"
    and 4: "write_suppression (suppression_row now (p\<lparr>sp_ID := i\<rparr>)) e v s3 = (Inr n, s4)"
    and 5: "queryO (\<lambda>d. find (same_scope (suppression_row now (p\<lparr>sp_ID := i\<rparr>))) (suppressions d)) v s4 = (Inr r, s5)"
    and 6: "(case r of None \<Rightarrow> failO (DBErr ''sql: no rows in result set'') | Some p \<Rightarrow> retO (scanOutboundSuppression p)) v s5 = (Inr q, s')"
    using assms(2) unfolding UpsertOutboundSuppression_def Let_def by (auto simp: bindO_Inr thenO_Inr)
  have i: "ob_db s2 = ob_db s1" "TrimSpace (sp_ID p) \<noteq> [] \<longrightarrow> i = sp_ID p" "TrimSpace (sp_ID p) = [] \<longrightarrow> (\<exists>n. i = uuid (oe_svc v) n)"
    using 2 by (auto simp: retO_Inr coreO_def uuid_NewString_def draw_def split: if_splits)
  have "ob_db s1 = ob_db s" using 1 by (rule coreO_same)
  with i(1) queryO_calm [OF assms(1) 3] have e: "ob_db s3 = ob_db s"
    "e = find (same_scope (suppression_row now (p\<lparr>sp_ID := i\<rparr>))) (suppressions (ob_db s))" by simp_all
  have "ob_db s' = ob_db s5" using 6 by (auto simp: failO_def retO_Inr split: option.splits)
  with queryO_calm [OF assms(1) 5] have s': "ob_db s' = ob_db s4" by simp
  let ?row = "suppression_row now (p\<lparr>sp_ID := i\<rparr>)"
  have "\<exists>t. ob_db s4 = (ob_db s)\<lparr>suppressions := t\<rparr> \<and> upserted ?row (suppressions (ob_db s)) t"
  proof (cases e)
    case None
    with 4 obtain t where "t_insert suppressions_keys ?row (suppressions (ob_db s)) = Some (t, n)"
      "ob_db s4 = (ob_db s)\<lparr>suppressions := t\<rparr>"
      using putO_calm [OF assms(1)] e(1) unfolding write_suppression_def by (metis option.simps(4))
    then show ?thesis using e(2) None by (auto simp: upserted_def split: option.split)
  next
    case (Some x)
    with 4 obtain t where "t_update suppressions_keys (\<lambda>y. sp_ID y = TrimSpace (sp_ID x)) (overwrite_suppression ?row)
        (suppressions (ob_db s)) = Some (t, n)" "ob_db s4 = (ob_db s)\<lparr>suppressions := t\<rparr>"
      using putO_calm [OF assms(1)] e(1) unfolding write_suppression_def by (metis option.simps(5))
    then show ?thesis using e(2) Some by (auto simp: upserted_def split: option.split)
  qed
  with that i(2,3) s' show ?thesis by auto
qed

lemma upserted_abs:
  assumes "sound_suppressions d" "upserted row (suppressions d) t"
  shows "abs_suppressions (d\<lparr>suppressions := t\<rparr>) = (abs_suppressions d)(scope_of row \<mapsto> sp_ExpiresAt row)"
proof (cases "find (same_scope row) (suppressions d)")
  case None
  then have "scope_of row \<notin> set (map scope_of (suppressions d))" by (auto simp: find_None_iff same_scope_iff)
  moreover from None assms(2) have "t = suppressions d @ [row]" by (auto simp: upserted_def t_insert_def split: if_splits)
  ultimately show ?thesis by (simp add: abs_suppressions_def map_of_snoc del: set_map map_of_append)
next
  case (Some q)
  then have q: "q \<in> set (suppressions d)" "scope_of q = scope_of row" by (auto simp: find_Some_iff same_scope_iff)
  from q(1) assms(1) have "TrimSpace (sp_ID q) = sp_ID q" by (auto simp: sound_suppressions_def list_all_iff)
  with Some assms(2) have t: "t = map (\<lambda>r. if sp_ID r = sp_ID q then overwrite_suppression row r else r) (suppressions d)"
    by (auto simp: upserted_def t_update_def Let_def split: if_splits)
  have "inj_on sp_ID (set (suppressions d))" using sound_distinct(2) [OF assms(1)] by (simp add: distinct_map)
  then have one: "sp_ID r = sp_ID q \<longleftrightarrow> r = q" if "r \<in> set (suppressions d)" for r
    using q(1) that by (metis inj_onD)
  have "scope_of (overwrite_suppression row r) = scope_of r" "sp_ExpiresAt (overwrite_suppression row q) = sp_ExpiresAt row" for r
    by (simp_all add: scope_of_def overwrite_suppression_def)
  with map_of_update_one [OF sound_distinct(1) [OF assms(1)] q(1) one, of "overwrite_suppression row" sp_ExpiresAt] q(2)
  show ?thesis unfolding abs_suppressions_def t by simp
qed

lemma scope_of_row: "scope_of (suppression_row now (p\<lparr>sp_ID := i\<rparr>)) = requested_scope p"
  "sp_ExpiresAt (suppression_row now (p\<lparr>sp_ID := i\<rparr>)) = sp_ExpiresAt p"
  by (simp_all add: scope_of_def suppression_row_def requested_scope_def)

lemma abs_suppressions_Some:
  "sound_suppressions d \<Longrightarrow> abs_suppressions d k = Some x \<longleftrightarrow> (\<exists>p \<in> set (suppressions d). scope_of p = k \<and> sp_ExpiresAt p = x)"
  using sound_distinct(1) [of d] by (auto simp: abs_suppressions_def map_of_eq_Some_iff distinct_map o_def inj_on_def)

lemma spec_alive_iff: "spec_alive now x \<longleftrightarrow> (\<exists>e. x = Some e \<and> (case e of None \<Rightarrow> True | Some t \<Rightarrow> t > now))"
  by (auto simp: spec_alive_def split: option.splits)

text \<open>The four scopes of a recipient, and the rows that are among them.\<close>

definition scopes_for :: "string \<Rightarrow> string \<Rightarrow> string \<Rightarrow> string \<Rightarrow> string list list" where
  "scopes_for u email domain c =
     [[u, ''recipient'', sql_lower email, []], [u, ''recipient'', sql_lower email, c],
      [u, ''domain'', sql_lower domain, []], [u, ''domain'', sql_lower domain, c]]"

lemma suppresses_scope:
  "suppresses u email domain c now p \<longleftrightarrow> (case sp_ExpiresAt p of None \<Rightarrow> True | Some t \<Rightarrow> t > now) \<and> scope_of p \<in> set (scopes_for u email domain c)"
  by (auto simp: suppresses_def scope_of_def scopes_for_def)

lemma suppresses_abs:
  assumes "sound_suppressions d"
  shows "filter (suppresses u email domain c now) (suppressions d) \<noteq> [] \<longleftrightarrow> spec_suppressed (abs_suppressions d) u email domain c now"
proof -
  have alive: "spec_alive now (abs_suppressions d k) \<longleftrightarrow> (\<exists>p \<in> set (suppressions d). scope_of p = k
      \<and> (case sp_ExpiresAt p of None \<Rightarrow> True | Some t \<Rightarrow> t > now))" for k
    by (auto simp: spec_alive_iff abs_suppressions_Some [OF assms])
  have "spec_suppressed (abs_suppressions d) u email domain c now \<longleftrightarrow> (\<exists>k \<in> set (scopes_for u email domain c). spec_alive now (abs_suppressions d k))"
    unfolding spec_suppressed_def scopes_for_def list_ex_iff ..
  then show ?thesis unfolding alive filter_empty_conv suppresses_scope by blast
qed

lemma rowO_calm:
  assumes "calm_env v" "rowO f v s = (r, s')" "(\<exists>q. r = Inr q) \<or> r = Inl ErrNotFound"
  shows "(\<exists>q. r = Inr q) \<longleftrightarrow> f (ob_db s) \<noteq> None"
proof -
  obtain x s1 where q: "queryO f v s = (x, s1)" by force
  have "x \<noteq> Inl ErrNotFound" using stmtO_calm_error [OF assms(1)] q unfolding queryO_def by (cases x) auto
  with assms(2,3) q obtain y where y: "x = Inr y" by (cases x) (auto simp: rowO_def bindO_def tryO_def failO_def)
  have "y = f (ob_db s)" using queryO_calm [OF assms(1), of f s y s1] q y by simp
  with assms(2) q y show ?thesis by (auto simp: rowO_def bindO_def tryO_def failO_def retO_def split: option.splits)
qed

lemma first_None: "(case sort_key f (sort_key g xs) of [] \<Rightarrow> None | p # _ \<Rightarrow> Some (h p)) \<noteq> None \<longleftrightarrow> xs \<noteq> []"
  using length_sort [of f "sort_key g xs"] length_sort [of g xs] by (cases "sort_key f (sort_key g xs)") auto

lemma lookup_abs:
  assumes "calm_env v" "sound_suppressions (ob_db s)" "GetActiveOutboundSuppression u em dm c now v s = (r, s')"
    "(\<exists>q. r = Inr q) \<or> r = Inl ErrNotFound"
  shows "(\<exists>q. r = Inr q) \<longleftrightarrow> spec_suppressed (abs_suppressions (ob_db s)) u (ToLower (TrimSpace em)) (ToLower (TrimSpace dm)) (TrimSpace c) now"
  using rowO_calm [OF assms(1) assms(3) [unfolded GetActiveOutboundSuppression_def Let_def] assms(4)]
  unfolding first_None suppresses_abs [OF assms(2)] .

lemma eq_option: "(\<And>x. a = Some x \<longleftrightarrow> b = Some x) \<Longrightarrow> a = b"
  by (metis option.exhaust)

lemma delete_abs:
  assumes "calm_env v" "sound_suppressions (ob_db s)" "DeleteOutboundSuppression u i v s = (Inr (), s')"
  obtains q where "q \<in> set (suppressions (ob_db s))" "sp_UserID q = u" "sp_ID q = TrimSpace i"
    "abs_suppressions (ob_db s') = (abs_suppressions (ob_db s))(scope_of q := None)"
proof -
  let ?t = "suppressions (ob_db s)" and ?P = "\<lambda>p. sp_UserID p = u \<and> sp_ID p = TrimSpace i"
  obtain n s1 where 1: "putO suppressions suppressions_update (t_delete ?P) v s = (Inr n, s1)" "n \<noteq> 0" "s' = s1"
    using assms(3) by (auto simp: DeleteOutboundSuppression_def bindO_Inr failO_def retO_Inr split: if_splits)
  from putO_calm [OF assms(1) 1(1)] obtain t where t: "t_delete ?P ?t = Some (t, n)" "ob_db s1 = (ob_db s)\<lparr>suppressions := t\<rparr>" .
  then have t': "t = filter (\<lambda>p. \<not> ?P p) ?t" and n: "n = int (length (filter ?P ?t))" unfolding t_delete_Some by blast+
  from n 1(2) have "filter ?P ?t \<noteq> []" by auto
  then obtain q where q: "q \<in> set ?t" "?P q" by (auto simp: filter_empty_conv)
  have inj: "inj_on sp_ID (set ?t)" "inj_on scope_of (set ?t)" using sound_distinct [OF assms(2)] by (simp_all add: distinct_map)
  have one: "?P r \<longleftrightarrow> r = q" if "r \<in> set ?t" for r using inj_onD [OF inj(1), of r q] q that by metis
  have scope: "scope_of r = scope_of q \<longleftrightarrow> r = q" if "r \<in> set ?t" for r using inj_onD [OF inj(2), of r q] q(1) that by metis
  have sound: "sound_suppressions (ob_db s')"
    using assms(2) t(2) t' 1(3) by (auto simp: sound_suppressions_def uniq_filter list_all_iff)
  have "set (suppressions (ob_db s')) = set ?t - {q}" using t(2) t' 1(3) one by auto
  then have "abs_suppressions (ob_db s') k = ((abs_suppressions (ob_db s))(scope_of q := None)) k" for k
    using scope by (intro eq_option) (auto simp: abs_suppressions_Some [OF sound] abs_suppressions_Some [OF assms(2)])
  with that q show ?thesis by blast
qed

text \<open>C14: The table of suppressions refines a map from scopes to times of expiry: an upsert that succeeds is the update
  of the map at the requested scope, a deletion that succeeds removes one scope of the user, and a look-up that reaches
  the table finds a suppression exactly when one of the four scopes of the recipient is alive in the map.\<close>

theorem suppressions_refine_map:
  assumes "calm_env v" "sound_suppressions (ob_db s)"
  shows "(UpsertOutboundSuppression p v s = (Inr q, s1) \<longrightarrow>
      abs_suppressions (ob_db s1) = (abs_suppressions (ob_db s))(requested_scope p \<mapsto> sp_ExpiresAt p))
    \<and> (DeleteOutboundSuppression u i v s = (Inr (), s2) \<longrightarrow>
      (\<exists>k. hd k = u \<and> abs_suppressions (ob_db s) k \<noteq> None \<and> abs_suppressions (ob_db s2) = (abs_suppressions (ob_db s))(k := None)))
    \<and> (GetActiveOutboundSuppression u em dm c now v s = (r, s3) \<and> ((\<exists>q. r = Inr q) \<or> r = Inl ErrNotFound) \<longrightarrow>
      ((\<exists>q. r = Inr q) \<longleftrightarrow>
        spec_suppressed (abs_suppressions (ob_db s)) u (ToLower (TrimSpace em)) (ToLower (TrimSpace dm)) (TrimSpace c) now))"
proof (intro conjI impI)
  assume "UpsertOutboundSuppression p v s = (Inr q, s1)"
  from UpsertOutboundSuppression_run [OF assms(1) this] upserted_abs [OF assms(2)] scope_of_row
  show "abs_suppressions (ob_db s1) = (abs_suppressions (ob_db s))(requested_scope p \<mapsto> sp_ExpiresAt p)" by metis
next
  assume "DeleteOutboundSuppression u i v s = (Inr (), s2)"
  from delete_abs [OF assms this] obtain q where q: "q \<in> set (suppressions (ob_db s))" "sp_UserID q = u"
    "abs_suppressions (ob_db s2) = (abs_suppressions (ob_db s))(scope_of q := None)" by metis
  moreover have "abs_suppressions (ob_db s) (scope_of q) = Some (sp_ExpiresAt q)"
    using q(1) by (auto simp: abs_suppressions_Some [OF assms(2)])
  ultimately show "\<exists>k. hd k = u \<and> abs_suppressions (ob_db s) k \<noteq> None \<and> abs_suppressions (ob_db s2) = (abs_suppressions (ob_db s))(k := None)"
    by (intro exI [of _ "scope_of q"]) (simp add: scope_of_def)
qed (use lookup_abs [OF assms] in blast)

lemma demo_calm_env: "calm_env demo_oenv"
  by (simp add: calm_env_def)

lemma demo_sound: "sound_suppressions barred_tables" "sound_suppressions bare_tables"
  by code_simp+

lemma demo_delete: "fst (DeleteOutboundSuppression ''u1'' ''p1'' demo_oenv (demo_ostate barred_tables)) = Inr ()"
  by code_simp

theorem suppressions_refine_map_witness:
  "\<exists>k. hd k = ''u1'' \<and> abs_suppressions (ob_db (snd (DeleteOutboundSuppression ''u1'' ''p1'' demo_oenv (demo_ostate barred_tables))))
     = (abs_suppressions barred_tables)(k := None)"
proof -
  let ?s = "demo_ostate barred_tables"
  have "DeleteOutboundSuppression ''u1'' ''p1'' demo_oenv ?s = (Inr (), snd (DeleteOutboundSuppression ''u1'' ''p1'' demo_oenv ?s))"
    using demo_delete by (simp add: prod_eq_iff)
  moreover have "sound_suppressions (ob_db ?s)" by (simp add: demo_ostate_def demo_sound)
  ultimately have "\<exists>k. hd k = ''u1'' \<and> abs_suppressions (ob_db (snd (DeleteOutboundSuppression ''u1'' ''p1'' demo_oenv ?s)))
      = (abs_suppressions (ob_db ?s))(k := None)"
    using suppressions_refine_map [OF demo_calm_env, of ?s] by blast
  then show ?thesis by (simp add: demo_ostate_def)
qed

section \<open>Unsubscribing\<close>

interpretation sound: outbound_contract "guarded sound_suppressions (trimmed_ids v)" sound_suppressions "\<lambda>_. True"
  "\<lambda>p. TrimSpace (sp_ID p) = sp_ID p" "\<lambda>_ _. True" "\<lambda>_ _. True" "\<lambda>j. TrimSpace j = j" for v
proof unfold_locales
  show "sound_suppressions (d\<lparr>suppressions := t\<rparr>)"
    if "sound_suppressions d" "TrimSpace (sp_ID p) = sp_ID p" "id_for (\<lambda>j. TrimSpace j = j) p i"
      "row = suppression_row now (p\<lparr>sp_ID := i\<rparr>)" "t_insert suppressions_keys row (suppressions d) = Some (t, k)" for d p i row now t k
    using that by (auto simp: sound_suppressions_def t_insert_Some id_for_def suppression_row_def split: if_splits)
  show "sound_suppressions (d\<lparr>suppressions := t\<rparr>)"
    if "sound_suppressions d" "t_update suppressions_keys (\<lambda>q. sp_ID q = TrimSpace j) (overwrite_suppression row) (suppressions d) = Some (t, k)"
    for d j row t k
  proof -
    have "uniq suppressions_keys t" "list_all (\<lambda>p. TrimSpace (sp_ID p) = sp_ID p) t"
      using that by (auto simp: sound_suppressions_def t_update_Some list_all_iff overwrite_suppression_def)
    then show ?thesis by (simp add: sound_suppressions_def)
  qed
qed (auto simp: guarded_def trimmed_ids_def admits_def sound_suppressions_def uniq_filter list_all_iff)

text \<open>What holds of the tables when an operation succeeds.\<close>

definition afterO :: "oenv \<Rightarrow> (odb \<Rightarrow> bool) \<Rightarrow> 'a Ob \<Rightarrow> (odb \<Rightarrow> bool) \<Rightarrow> bool" where
  "afterO v P m Q \<longleftrightarrow> (\<forall>s x s'. P (ob_db s) \<longrightarrow> m v s = (Inr x, s') \<longrightarrow> Q (ob_db s'))"

lemma afterO_keeps: "keeps v I S m \<Longrightarrow> afterO v I m I"
  by (auto simp: afterO_def elim: keepsO_D)

lemma afterO_bind: "afterO v P m R \<Longrightarrow> (\<And>x. afterO v R (k x) Q) \<Longrightarrow> afterO v P (bindO m k) Q"
  by (fastforce simp: afterO_def bindO_Inr)

lemma afterO_then: "afterO v P m R \<Longrightarrow> afterO v R k Q \<Longrightarrow> afterO v P (thenO m k) Q"
  unfolding thenO_def by (rule afterO_bind)

lemma afterO_weaken: "afterO v P m Q \<Longrightarrow> (\<And>d. Q d \<Longrightarrow> Q' d) \<Longrightarrow> afterO v P m Q'"
  by (auto simp: afterO_def)

lemma afterO_ask: "afterO v P (k (f v)) Q \<Longrightarrow> afterO v P (bindO (askO f) k) Q"
  by (auto simp: afterO_def bindO_Inr askO_Inr)

lemma bindO_try: "bindO (tryO m f) k = tryO m (\<lambda>r. bindO (f r) k)"
  by (auto simp: fun_eq_iff bindO_def tryO_def split: prod.split)

lemma afterO_assoc: "afterO v P (bindO m (\<lambda>x. bindO (f x) k)) Q \<Longrightarrow> afterO v P (bindO (bindO m f) k) Q"
  by (fastforce simp: afterO_def bindO_Inr)

lemma afterO_try:
  assumes "keeps v I S m" "\<And>r. afterO v I (k r) Q"
  shows "afterO v I (tryO m k) Q"
  unfolding afterO_def
proof (intro allI impI)
  fix s x s' assume I: "I (ob_db s)" and "tryO m k v s = (Inr x, s')"
  then obtain r s1 where m: "m v s = (r, s1)" and k: "k r v s1 = (Inr x, s')" by (auto simp: tryO_run)
  from assms(1) m I have "I (ob_db s1)" by (rule keepsO_D)
  with assms(2) k show "Q (ob_db s')" by (auto simp: afterO_def)
qed

lemma keeps_ex: "(\<And>i. keeps v (J i) S m) \<Longrightarrow> keeps v (\<lambda>d. \<exists>i. J i d) S m"
  by (force simp: keepsO_def)

lemma upsert_bars:
  assumes "calm_env v" "\<And>n. TrimSpace (uuid (oe_svc v) n) = uuid (oe_svc v) n" "sp_ID p = []" "sp_ExpiresAt p = None"
    "requested_scope p = [u, ''recipient'', sql_lower r, []]"
  shows "afterO v sound_suppressions (UpsertOutboundSuppression p) (\<lambda>d. \<exists>i. barred u r i d)"
  unfolding afterO_def
proof (intro allI impI)
  fix s q s' assume sound: "sound_suppressions (ob_db s)" and run: "UpsertOutboundSuppression p v s = (Inr q, s')"
  have "guarded sound_suppressions (trimmed_ids v) = v" using assms(1,2) by (simp add: trimmed_ids_id guarded_id calm_env_def)
  moreover have "keeps (guarded sound_suppressions (trimmed_ids v)) sound_suppressions (\<lambda>_. True) (UpsertOutboundSuppression p)"
    by (rule sound.H_UpsertOutboundSuppression) (simp add: assms(3))
  ultimately have s': "sound_suppressions (ob_db s')" using run sound by (metis keepsO_D)
  from UpsertOutboundSuppression_run [OF assms(1) run] upserted_abs [OF sound] scope_of_row
  have "abs_suppressions (ob_db s') = (abs_suppressions (ob_db s))(requested_scope p \<mapsto> sp_ExpiresAt p)" by metis
  then have "abs_suppressions (ob_db s') [u, ''recipient'', sql_lower r, []] = Some None" using assms(4,5) by simp
  then obtain b where "b \<in> set (suppressions (ob_db s'))" "scope_of b = [u, ''recipient'', sql_lower r, []]" "sp_ExpiresAt b = None"
    by (auto simp: abs_suppressions_Some [OF s'])
  with s' have "barred u r (sp_ID b) (ob_db s')"
    by (auto simp: barred_def bars_def scope_of_def sound_suppressions_def list_ex_iff)
  then show "\<exists>i. barred u r i (ob_db s')" ..
qed

lemma unsubscribe_outcome: "normalizeReplyOutcome ''unsubscribe_request'' = ''unsubscribe_request''"
  by code_simp

lemma recipient_scope_kind: "normalizeSuppressionScopeKind ''recipient'' = ''recipient''"
  by code_simp

lemma unsubscribe_suppression:
  assumes "WorkspaceSuppressUnsubscribe supp"
  shows "reply_suppression supp compliance campaign e ''unsubscribe_request'' =
    Some (new_suppression (oc_UserID campaign) ''recipient'' (en_RecipientEmail e) [] ''recipient requested unsubscribe'' ''unsubscribe'' None)"
  using assms by (simp add: reply_suppression_def)

text \<open>The suppression of the reply, the actions on its domain and the events.\<close>

lemma after_reply_suppression:
  assumes "calm_env v" "\<And>n. TrimSpace (uuid (oe_svc v) n) = uuid (oe_svc v) n" "TrimSpace (oc_UserID campaign) = oc_UserID campaign"
    "WorkspaceSuppressUnsubscribe supp"
  shows "afterO v sound_suppressions
    (thenO (case reply_suppression supp compliance campaign e ''unsubscribe_request'' of
              None \<Rightarrow> retO () | Some p \<Rightarrow> thenO (UpsertOutboundSuppression p) (retO ()))
     (thenO (applyOutcomeDomainActions campaign e outcome)
     (ignoreO (AppendOutboundEvent c1 e1 k1 p1 a1 r1) (ignoreO (AppendOutboundEvent c2 e2 k2 p2 a2 r2) (retO ())))))
    (\<lambda>d. \<exists>i. barred (oc_UserID campaign) (ToLower (TrimSpace (en_RecipientEmail e))) i d)"
proof -
  let ?u = "oc_UserID campaign" and ?r = "ToLower (TrimSpace (en_RecipientEmail e))"
  let ?p = "new_suppression ?u ''recipient'' (en_RecipientEmail e) [] ''recipient requested unsubscribe'' ''unsubscribe'' None"
  have scope: "requested_scope ?p = [?u, ''recipient'', sql_lower ?r, []]"
    using assms(3) by (simp add: requested_scope_def new_suppression_def recipient_scope_kind)
  have "guarded (barred ?u ?r i) (trimmed_ids v) = v" for i using assms(1,2) by (simp add: trimmed_ids_id guarded_id calm_env_def)
  then have C: "outbound_contract v (barred ?u ?r i) (\<lambda>m. \<not> mails_to ?u ?r m) (lasting ?u ?r) (harmless i) (spares ?u i) (\<lambda>j. TrimSpace j = j)" for i
    using barred.outbound_contract_axioms [of ?u ?r i v] by simp
  have keeps: "keeps v (\<lambda>d. \<exists>i. barred ?u ?r i d) (\<lambda>m. \<not> mails_to ?u ?r m) (applyOutcomeDomainActions campaign e outcome)"
    "keeps v (\<lambda>d. \<exists>i. barred ?u ?r i d) (\<lambda>m. \<not> mails_to ?u ?r m) (AppendOutboundEvent c x k q a r)" for c x k q a r
    by (rule keeps_ex, rule outbound_contract.H_applyOutcomeDomainActions [OF C], rule keeps_ex, rule outbound_contract.H_AppendOutboundEvent [OF C])
  then have rest: "afterO v (\<lambda>d. \<exists>i. barred ?u ?r i d) (thenO (applyOutcomeDomainActions campaign e outcome)
      (ignoreO (AppendOutboundEvent c1 e1 k1 p1 a1 r1) (ignoreO (AppendOutboundEvent c2 e2 k2 p2 a2 r2) (retO ()))))
      (\<lambda>d. \<exists>i. barred ?u ?r i d)"
    by (intro afterO_keeps [where S = "\<lambda>m. \<not> mails_to ?u ?r m"] keeps_then keeps_ignore keeps_ret)
  have "afterO v sound_suppressions (UpsertOutboundSuppression ?p) (\<lambda>d. \<exists>i. barred ?u ?r i d)"
    using assms(1,2) scope by (intro upsert_bars) (simp_all add: new_suppression_def)
  then show ?thesis unfolding unsubscribe_suppression [OF assms(4)] option.case
    by (intro afterO_then [OF _ rest] afterO_then [OF _ afterO_keeps [OF keeps_ret]])
qed

text \<open>C12: A reply that is taken as a request to unsubscribe, in a campaign that suppresses such recipients in the whole
  workspace (the default), ends, if it is processed without an error, with a permanent suppression of the recipient for the
  user: the situation from which \<open>suppressed_recipient_never_mailed\<close> starts.\<close>

theorem unsubscribe_reply_bars_recipient:
  assumes "applyOutboundReplyOutcome campaign e binding indexed outcome confidence resumeAt v s = (Inr (), s')"
    "normalizeReplyOutcome outcome = ''unsubscribe_request''"
    "WorkspaceSuppressUnsubscribe (parseOutboundSuppressionPolicy (oe_suppression v) (oc_SuppressionPolicyJSON campaign))"
    "calm_env v" "\<And>n. TrimSpace (uuid (oe_svc v) n) = uuid (oe_svc v) n"
    "TrimSpace (oc_UserID campaign) = oc_UserID campaign" "sound_suppressions (ob_db s)"
  shows "\<exists>i. barred (oc_UserID campaign) (ToLower (TrimSpace (en_RecipientEmail e))) i (ob_db s')"
proof -
  have "guarded sound_suppressions (trimmed_ids v) = v" using assms(4,5) by (simp add: trimmed_ids_id guarded_id calm_env_def)
  then have C: "outbound_contract v sound_suppressions (\<lambda>_. True) (\<lambda>p. TrimSpace (sp_ID p) = sp_ID p) (\<lambda>_ _. True) (\<lambda>_ _. True) (\<lambda>j. TrimSpace j = j)"
    using sound.outbound_contract_axioms [of v] by simp
  then have T: "table_invariant v sound_suppressions" by (simp add: outbound_contract_def)
  have email: "en_RecipientEmail (reply_enrollment reply campaign ''unsubscribe_request'' resumeAt (replied_enrollment b out conf x)) = en_RecipientEmail x"
    "applyOutboundReplyBranch br now campaign x sts ''unsubscribe_request'' = None" for reply x br now sts b out conf
    by (simp_all add: reply_enrollment_def replied_enrollment_def applyOutboundReplyBranch_def unsubscribe_outcome)
  note keep = afterO_keeps [where S = "\<lambda>_. True"]
  have finish: "afterO v sound_suppressions
      (finish_reply campaign (parseOutboundSuppressionPolicy (oe_suppression v) (oc_SuppressionPolicyJSON campaign)) compliance indexed
        ''unsubscribe_request'' replyAt (reply_enrollment reply campaign ''unsubscribe_request'' resumeAt (replied_enrollment b out conf e)))
      (\<lambda>d. \<exists>i. barred (oc_UserID campaign) (ToLower (TrimSpace (en_RecipientEmail e))) i d)" for compliance replyAt reply b out conf
    unfolding finish_reply_def
    by (rule afterO_then [OF keep [OF outbound_contract.H_UpsertOutboundEnrollment [OF C]]],
        rule afterO_then [OF keep [OF outbound_contract.H_UpsertRecipientState [OF C]]],
        rule afterO_weaken [OF after_reply_suppression [OF assms(4,5,6,3)]]) (simp add: email)
  have decide: "afterO v sound_suppressions (bindO (decide_reply campaign reply ''unsubscribe_request'' resumeAt (replied_enrollment b out conf e)) k) Q"
    if "afterO v sound_suppressions (k (reply_enrollment reply campaign ''unsubscribe_request'' resumeAt (replied_enrollment b out conf e))) Q"
    for reply b out conf k Q
    unfolding decide_reply_def Let_def email bindO_try option.case
    by (rule afterO_try [OF table_invariant.H_step_reads(1) [OF T]], rule afterO_assoc, rule afterO_bind [OF keep [OF keeps_core]], rule afterO_ask, rule that)
  have "afterO v sound_suppressions (applyOutboundReplyOutcome campaign e binding indexed outcome confidence resumeAt)
    (\<lambda>d. \<exists>i. barred (oc_UserID campaign) (ToLower (TrimSpace (en_RecipientEmail e))) i d)"
    unfolding applyOutboundReplyOutcome_def Let_def policies_def assms(2)
    by (rule afterO_bind [OF keep], intro ob_intros, rule afterO_ask, simp only: prod.case, rule afterO_ask,
        rule afterO_then [OF keep [OF outbound_contract.H_UpsertMailThreadBinding [OF C]]], rule decide, rule finish)
  then show ?thesis using assms(1,7) by (auto simp: afterO_def)
qed

definition demo_unsubscribe :: "(err + unit) \<times> ostate" where
  "demo_unsubscribe = applyOutboundReplyOutcome bare_campaign bare_enrollment zero_binding bare_reply
     ''unsubscribe_request'' 100 None demo_oenv (bare_ostate bare_tables)"

lemma demo_unsubscribe_ok: "fst demo_unsubscribe = Inr ()"
  by code_simp

theorem unsubscribe_reply_bars_recipient_witness:
  "\<exists>i. barred ''u'' ''b@c'' i (ob_db (snd demo_unsubscribe))"
proof -
  have run: "applyOutboundReplyOutcome bare_campaign bare_enrollment zero_binding bare_reply
     ''unsubscribe_request'' 100 None demo_oenv (bare_ostate bare_tables) = (Inr (), snd demo_unsubscribe)"
    using demo_unsubscribe_ok unfolding demo_unsubscribe_def by (simp add: prod_eq_iff)
  have ws: "WorkspaceSuppressUnsubscribe (parseOutboundSuppressionPolicy (oe_suppression demo_oenv) (oc_SuppressionPolicyJSON bare_campaign))"
    and user: "TrimSpace (oc_UserID bare_campaign) = oc_UserID bare_campaign" "oc_UserID bare_campaign = ''u''"
    and email: "ToLower (TrimSpace (en_RecipientEmail bare_enrollment)) = ''b@c''"
    by code_simp+
  show ?thesis
    using unsubscribe_reply_bars_recipient [OF run unsubscribe_outcome ws demo_calm_env _ user(1)]
    by (simp add: demo_uuid_trimmed user(2) email bare_ostate_def demo_sound)
qed

end
