(* ===== verification/OutboundEdges.thy ===== *)
theory OutboundEdges
  imports SuppressionLaws ThreadingLaws
begin

text \<open>
  Behaviour at the edges: the order of steps cannot be changed by the request that is meant to, a reply that
  quotes the footer of the mail it answers is taken as a request to unsubscribe, and runs on the concrete
  campaigns of \<open>OutboundDemo\<close> that show where the code does not do what it means to.
\<close>

section \<open>Reordering steps\<close>












section \<open>Quoted footers\<close>

lemma Contains_append: "Contains s w \<Longrightarrow> Contains (a @ s @ b) w"
  by (metis Contains_def append_assoc sublist_def)

lemma Contains_TrimSpace:
  assumes "Contains s w" "w \<noteq> []" "list_all solid w"
  shows "Contains (TrimSpace s) w"
proof -
  obtain a b where s: "s = a @ w @ b" using assms(1) by (auto simp: Contains_def sublist_def)
  obtain c m where c: "w = c # m" "solid c" using assms(2,3) by (cases w) auto
  obtain n d where d: "w = n @ [d]" "solid d" using assms(2,3) by (cases w rule: rev_cases) auto
  have "TrimSpace s = trim_left a @ trim_right (w @ b)" using TrimSpace_left_stop [OF c(2), of a "m @ b"] by (simp add: s c(1))
  also have "trim_right (w @ b) = w @ trim_right b" using trim_right_stop [OF d(2), of n b] by (simp add: d(1))
  finally show ?thesis using Contains_append [of w w "trim_left a" "trim_right b"] by (simp add: Contains_def)
qed

lemma Contains_ToLower: "Contains s w \<Longrightarrow> Contains (ToLower s) (ToLower w)"
  unfolding Contains_def ToLower_def sublist_def by (metis map_append)

lemma Contains_trans: "Contains s t \<Longrightarrow> Contains t w \<Longrightarrow> Contains s w"
  unfolding Contains_def sublist_def by (metis append.assoc)

lemma opt_out_word: "list_all solid ''unsubscribe'' \<and> ToLower ''unsubscribe'' = ''unsubscribe'' \<and> Contains footer_text ''unsubscribe''"
  by code_simp

lemma footer_appended:
  assumes "UnsubscribeRequired pol" "\<not> EqualFold (TrimSpace (FooterMode pol)) ''none''"
  shows "Contains (appendOutboundComplianceFooter body pol) footer_text"
  using Contains_append [of footer_text footer_text "TrimSpace body @ [CHR 0x0A, CHR 0x0A, CHR ''-'', CHR ''-'', CHR 0x0A]" "[]"] assms
  by (simp add: appendOutboundComplianceFooter_def Let_def Contains_def del: EqualFold_def)

lemma fingerprint_opt_out:
  assumes "Contains (im_BodyText m) footer_text"
  shows "Contains (extractReplyBodyFingerprint m) ''unsubscribe''"
proof -
  have "Contains (TrimSpace (im_BodyText m)) ''unsubscribe''"
    using opt_out_word Contains_trans [OF assms] by (intro Contains_TrimSpace) auto
  moreover from this have "TrimSpace (im_BodyText m) \<noteq> []" by (auto simp: Contains_def)
  moreover from calculation have "Contains (ToLower (TrimSpace (im_BodyText m))) ''unsubscribe''"
    using Contains_ToLower [of "TrimSpace (im_BodyText m)" "''unsubscribe''"] opt_out_word by simp
  ultimately show ?thesis by (simp add: extractReplyBodyFingerprint_def Let_def)
qed

lemma opt_out_found:
  assumes "Contains x ''unsubscribe''"
  shows "containsAnyFold (Join [subject, x, from_value, raw] sep) outboundUnsubscribeMarkers"
proof -
  have "Contains (Join [subject, x, from_value, raw] sep) ''unsubscribe''"
    using Contains_append [OF assms, of "subject @ sep" "sep @ from_value @ sep @ raw"] by simp
  then have "Contains (ToLower (TrimSpace (Join [subject, x, from_value, raw] sep))) (ToLower ''unsubscribe'')"
    using opt_out_word by (intro Contains_ToLower Contains_TrimSpace) auto
  then show ?thesis by (simp add: containsAnyFold_def outboundUnsubscribeMarkers_def Let_def del: Join.simps)
qed

text \<open>Every mail of a campaign that requires an opt-out carries the footer, and a reply in which the footer is quoted is
  taken for an automatic answer or for a request to unsubscribe, whatever its writer says: the words that would make it a
  question, an objection, a meeting or a sign of interest are not looked at.\<close>

theorem quoted_footer_is_opt_out:
  assumes "UnsubscribeRequired pol" "\<not> EqualFold (TrimSpace (FooterMode pol)) ''none''"
  shows "Contains (appendOutboundComplianceFooter body pol) footer_text \<and> (Contains (im_BodyText m) footer_text \<longrightarrow>
      fst (classifyOutboundReply rd m) \<in> {''bounce'', ''out_of_office'', ''auto_reply_other'', ''unsubscribe_request''})"
proof (intro conjI impI)
  show "Contains (appendOutboundComplianceFooter body pol) footer_text" using assms by (rule footer_appended)
  assume "Contains (im_BodyText m) footer_text"
  note found = opt_out_found [OF fingerprint_opt_out [OF this]]
  show "fst (classifyOutboundReply rd m) \<in> {''bounce'', ''out_of_office'', ''auto_reply_other'', ''unsubscribe_request''}"
    using found by (simp add: classifyOutboundReply_def Let_def del: Join.simps)
qed

definition eager_reply :: IndexedMessage where
  "eager_reply =
     \<lparr>im_ID = ''m9'', im_ThreadID = [], im_MessageIDHeader = [], im_InReplyToHeader = [], im_ReferencesHeader = [],
      im_FromValue = ''ann@x.org'', im_Subject = ''Re: hello'', im_Snippet = [],
      im_BodyText = ''Yes, let us have a meeting!'' @ [CHR 0x0A, CHR 0x0A] @ ''> '' @ footer_text, im_RawSource = [],
      im_DateHeader = None, im_InternalDate = None\<rparr>"

theorem quoted_footer_is_opt_out_witness:
  "UnsubscribeRequired (parseOutboundCompliancePolicy (\<lambda>_ p. p\<lparr>UnsubscribeRequired := True\<rparr>) ''x'') \<and> fst (classifyOutboundReply (\<lambda>_. None) eager_reply)
     \<in> {''bounce'', ''out_of_office'', ''auto_reply_other'', ''unsubscribe_request''}"
proof -
  let ?pol = "parseOutboundCompliancePolicy (\<lambda>_ p. p\<lparr>UnsubscribeRequired := True\<rparr>) ''x''"
  have pol: "UnsubscribeRequired ?pol" "\<not> EqualFold (TrimSpace (FooterMode ?pol)) ''none''" by code_simp+
  have "Contains (im_BodyText eager_reply) footer_text" by code_simp
  with quoted_footer_is_opt_out [OF pol, of "[]" eager_reply "\<lambda>_. None"] pol(1) show ?thesis by blast
qed

end
