(* ===== verification/TableRun.thy ===== *)
theory TableRun
  imports Handlers MailIds Threading Addresses
begin

text \<open>
  How code over tables of its own is run: drafts and senders, mail rules, triage.  An operation reads an
  environment (the account server, the faults of the tables, the changes of others) and a state (the
  tables, the world of the account server); both are extensible records, to which a component adds what
  else it reaches, such as a mail client.  The type of the tables is a parameter.

  \<open>wpT m v Q s\<close> says that \<open>m\<close>, run in \<open>v\<close> from \<open>s\<close>, ends with a result and a state that satisfy \<open>Q\<close>: its rules
  turn a run into conditions on the tables.  \<open>stays v I m\<close> says that \<open>m\<close> keeps \<open>I\<close>.
\<close>

section \<open>Operations\<close>

record 'd tenv =
  te_svc :: Svc
  te_fault :: "nat \<Rightarrow> string option"
  te_others :: "nat \<Rightarrow> 'd \<Rightarrow> 'd"

record 'd tstate =
  ts_db :: 'd
  ts_world :: world

type_synonym ('d, 'e, 's, 'a) T =
  "('d, 'e) tenv_scheme \<Rightarrow> ('d, 's) tstate_scheme \<Rightarrow> (err + 'a) \<times> ('d, 's) tstate_scheme"

definition retT :: "'a \<Rightarrow> ('d, 'e, 's, 'a) T" where "retT x = (\<lambda>v s. (Inr x, s))"

definition failT :: "err \<Rightarrow> ('d, 'e, 's, 'a) T" where "failT e = (\<lambda>v s. (Inl e, s))"

definition tryT :: "('d, 'e, 's, 'a) T \<Rightarrow> (err + 'a \<Rightarrow> ('d, 'e, 's, 'b) T) \<Rightarrow> ('d, 'e, 's, 'b) T" where
  "tryT m k = (\<lambda>v s. case m v s of (r, s') \<Rightarrow> k r v s')"

definition bindT :: "('d, 'e, 's, 'a) T \<Rightarrow> ('a \<Rightarrow> ('d, 'e, 's, 'b) T) \<Rightarrow> ('d, 'e, 's, 'b) T" where
  "bindT m k = tryT m (\<lambda>r. case r of Inl e \<Rightarrow> failT e | Inr x \<Rightarrow> k x)"

definition thenT :: "('d, 'e, 's, 'a) T \<Rightarrow> ('d, 'e, 's, 'b) T \<Rightarrow> ('d, 'e, 's, 'b) T" where "thenT m k = bindT m (\<lambda>_. k)"

definition ignoreT :: "('d, 'e, 's, 'a) T \<Rightarrow> ('d, 'e, 's, 'b) T \<Rightarrow> ('d, 'e, 's, 'b) T" where "ignoreT m k = tryT m (\<lambda>_. k)"

definition askT :: "(('d, 'e) tenv_scheme \<Rightarrow> 'a) \<Rightarrow> ('d, 'e, 's, 'a) T" where "askT f = (\<lambda>v s. (Inr (f v), s))"

text \<open>A call to something outside, which answers by the number of the call.\<close>

definition outT :: "(('d, 'e) tenv_scheme \<Rightarrow> nat \<Rightarrow> err + 'a) \<Rightarrow> ('d, 'e, 's, 'a) T" where
  "outT f = (\<lambda>v s. let w = ts_world s in (f v (w_n w), s\<lparr>ts_world := w\<lparr>w_n := Suc (w_n w)\<rparr>\<rparr>))"

text \<open>An operation of the account server.\<close>

definition coreT :: "'a M \<Rightarrow> ('d, 'e, 's, 'a) T" where
  "coreT m = (\<lambda>v s. case m (te_svc v) (ts_world s) of (r, w) \<Rightarrow> (r, s\<lparr>ts_world := w\<rparr>))"

abbreviation nowT :: "('d, 'e, 's, gotime) T" where "nowT \<equiv> coreT time_Now"
abbreviation uuidT :: "('d, 'e, 's, string) T" where "uuidT \<equiv> coreT uuid_NewString"

text \<open>One statement; one that fails changes nothing.\<close>

definition stmtT :: "('d \<Rightarrow> ('d \<times> 'a) option) \<Rightarrow> ('d, 'e, 's, 'a) T" where
  "stmtT f = (\<lambda>v s.
     let w = ts_world s; n = w_n w;
         s1 = s\<lparr>ts_db := te_others v n (ts_db s), ts_world := w\<lparr>w_n := Suc n\<rparr>\<rparr>
     in case te_fault v n of
          Some msg \<Rightarrow> (Inl (DBErr msg), s1)
        | None \<Rightarrow> (case f (ts_db s1) of
                     None \<Rightarrow> (Inl (DBErr ''constraint failed''), s1)
                   | Some (d, x) \<Rightarrow> (Inr x, s1\<lparr>ts_db := d\<rparr>)))"

definition queryT :: "('d \<Rightarrow> 'a) \<Rightarrow> ('d, 'e, 's, 'a) T" where "queryT f = stmtT (\<lambda>d. Some (d, f d))"

definition rowT :: "('d \<Rightarrow> 'a option) \<Rightarrow> ('d, 'e, 's, 'a) T" where
  "rowT f = bindT (queryT f) (\<lambda>r. case r of None \<Rightarrow> failT ErrNotFound | Some x \<Rightarrow> retT x)"

definition putT :: "('d \<Rightarrow> 'r list) \<Rightarrow> (('r list \<Rightarrow> 'r list) \<Rightarrow> 'd \<Rightarrow> 'd)
    \<Rightarrow> ('r list \<Rightarrow> ('r list \<times> int) option) \<Rightarrow> ('d, 'e, 's, int) T" where
  "putT get upd f = stmtT (\<lambda>d. map_option (\<lambda>(t, n). (upd (\<lambda>_. t) d, n)) (f (get d)))"

text \<open>\<^verbatim>\<open>RowsAffected\<close> of zero is \<^verbatim>\<open>ErrNotFound\<close>.\<close>

definition foundT :: "('d, 'e, 's, int) T \<Rightarrow> ('d, 'e, 's, unit) T" where
  "foundT m = bindT m (\<lambda>n. if n = 0 then failT ErrNotFound else retT ())"

text \<open>A transaction: from its first statement to its commit it is alone, and an error rolls it back.\<close>

definition in_txT :: "('d, 'e, 's, 'a) T \<Rightarrow> ('d, 'e, 's, 'a) T" where
  "in_txT body = (\<lambda>v s.
     case queryT (\<lambda>_. ()) v s of
       (Inl e, s1) \<Rightarrow> (Inl e, s1)
     | (Inr _, s1) \<Rightarrow>
         (case bindT body (\<lambda>x. thenT (queryT (\<lambda>_. ())) (retT x)) (v\<lparr>te_others := \<lambda>_ d. d\<rparr>) s1 of
            (Inl e, s2) \<Rightarrow> (Inl e, s2\<lparr>ts_db := ts_db s1\<rparr>)
          | (Inr x, s2) \<Rightarrow> (Inr x, s2)))"

fun forT :: "'a list \<Rightarrow> ('a \<Rightarrow> ('d, 'e, 's, unit) T) \<Rightarrow> ('d, 'e, 's, unit) T" where
  "forT [] f = retT ()"
| "forT (x # xs) f = thenT (f x) (forT xs f)"

fun mapT :: "('a \<Rightarrow> ('d, 'e, 's, 'b) T) \<Rightarrow> 'a list \<Rightarrow> ('d, 'e, 's, 'b list) T" where
  "mapT f [] = retT []"
| "mapT f (x # xs) = bindT (f x) (\<lambda>y. bindT (mapT f xs) (\<lambda>ys. retT (y # ys)))"

text \<open>Handlers: a decoded body, an error turned into a response.\<close>

definition with_bodyT :: "decode_err + 'b \<Rightarrow> ('b \<Rightarrow> ('d, 'e, 's, resp) T) \<Rightarrow> ('d, 'e, 's, resp) T" where
  "with_bodyT body k = (case body of
     Inl JsonTooLarge \<Rightarrow> retT (error_resp 413 ''request_too_large'')
   | Inl JsonInvalid \<Rightarrow> retT (error_resp 400 ''bad_request'')
   | Inr b \<Rightarrow> k b)"

text \<open>\<^verbatim>\<open>if err != nil\<close> with a response of its own, else on with the value.\<close>

definition orT :: "('d, 'e, 's, 'a) T \<Rightarrow> (err \<Rightarrow> resp) \<Rightarrow> ('a \<Rightarrow> ('d, 'e, 's, resp) T) \<Rightarrow> ('d, 'e, 's, resp) T" where
  "orT m on_err k = tryT m (\<lambda>r. case r of Inl e \<Rightarrow> retT (on_err e) | Inr x \<Rightarrow> k x)"

definition absent_or :: "string \<Rightarrow> int \<Rightarrow> string \<Rightarrow> err \<Rightarrow> resp" where
  "absent_or missing status failed e = (if e = ErrNotFound then error_resp 404 missing else error_resp status failed)"

section \<open>Runs as conditions\<close>

named_theorems wp_simps \<open>runs of operations as conditions on the state\<close>

definition wpT :: "('d, 'e, 's, 'a) T \<Rightarrow> ('d, 'e) tenv_scheme \<Rightarrow> (err + 'a \<Rightarrow> ('d, 's) tstate_scheme \<Rightarrow> bool)
    \<Rightarrow> ('d, 's) tstate_scheme \<Rightarrow> bool" where
  "wpT m v Q s \<longleftrightarrow> (case m v s of (r, s') \<Rightarrow> Q r s')"

lemma wp_ret [wp_simps]: "wpT (retT x) v Q s = Q (Inr x) s" by (simp add: wpT_def retT_def)
lemma wp_fail [wp_simps]: "wpT (failT e) v Q s = Q (Inl e) s" by (simp add: wpT_def failT_def)
lemma wp_ask [wp_simps]: "wpT (askT f) v Q s = Q (Inr (f v)) s" by (simp add: wpT_def askT_def)

lemma wp_try [wp_simps]: "wpT (tryT m k) v Q s = wpT m v (\<lambda>r. wpT (k r) v Q) s"
  by (simp add: wpT_def tryT_def split: prod.split)

lemma wp_bind [wp_simps]: "wpT (bindT m k) v Q s = wpT m v (\<lambda>r s'. case r of Inl e \<Rightarrow> Q (Inl e) s' | Inr x \<Rightarrow> wpT (k x) v Q s') s"
  unfolding bindT_def wp_try by (rule arg_cong [where f = "\<lambda>q. wpT m v q s"]) (auto simp: wp_fail fun_eq_iff split: sum.split)

lemma wp_then [wp_simps]: "wpT (thenT m k) v Q s = wpT m v (\<lambda>r s'. case r of Inl e \<Rightarrow> Q (Inl e) s' | Inr x \<Rightarrow> wpT k v Q s') s"
  by (simp add: thenT_def wp_bind)

lemma wp_ignore [wp_simps]: "wpT (ignoreT m k) v Q s = wpT m v (\<lambda>_. wpT k v Q) s"
  by (simp add: ignoreT_def wp_try)

lemma wp_or [wp_simps]: "wpT (orT m f k) v Q s = wpT m v (\<lambda>r s'. case r of Inl e \<Rightarrow> Q (Inr (f e)) s' | Inr x \<Rightarrow> wpT (k x) v Q s') s"
  unfolding orT_def wp_try by (rule arg_cong [where f = "\<lambda>q. wpT m v q s"]) (auto simp: wp_ret fun_eq_iff split: sum.split)

lemma wp_mono: "wpT m v Q s \<Longrightarrow> (\<And>r s'. Q r s' \<Longrightarrow> Q' r s') \<Longrightarrow> wpT m v Q' s"
  by (auto simp: wpT_def split: prod.splits)

lemma wp_conj: "wpT m v Q s \<Longrightarrow> wpT m v Q' s \<Longrightarrow> wpT m v (\<lambda>r s'. Q r s' \<and> Q' r s') s"
  by (auto simp: wpT_def split: prod.splits)

lemma wp_run: "m v s = (r, s') \<Longrightarrow> wpT m v Q s = Q r s'" by (simp add: wpT_def)

lemma wpD: "wpT m v Q s \<Longrightarrow> Q (fst (m v s)) (snd (m v s))" by (simp add: wpT_def split: prod.splits)

lemma wpI: "(\<And>r s'. m v s = (r, s') \<Longrightarrow> Q r s') \<Longrightarrow> wpT m v Q s" by (simp add: wpT_def split: prod.splits)

text \<open>The account server and what is outside change only the world.\<close>

lemma wp_core: "(\<And>r w. Q r (s\<lparr>ts_world := w\<rparr>)) \<Longrightarrow> wpT (coreT m) v Q s"
  by (simp add: wpT_def coreT_def split: prod.splits)

lemma wp_now: "(\<And>t w. Q (Inr t) (s\<lparr>ts_world := w\<rparr>)) \<Longrightarrow> wpT nowT v Q s"
  by (simp add: wpT_def coreT_def time_Now_def Let_def)

lemma wp_uuid: "(\<And>t w. Q (Inr t) (s\<lparr>ts_world := w\<rparr>)) \<Longrightarrow> wpT uuidT v Q s"
  by (simp add: wpT_def coreT_def uuid_NewString_def draw_def)

lemma wp_out: "(\<And>r w. Q r (s\<lparr>ts_world := w\<rparr>)) \<Longrightarrow> wpT (outT f) v Q s"
  by (simp add: wpT_def outT_def Let_def)

text \<open>A statement on its own, with or without a fault.\<close>

definition lone :: "('d, 'e) tenv_scheme \<Rightarrow> bool" where "lone v \<longleftrightarrow> te_others v = (\<lambda>_ d. d)"

definition calm :: "('d, 'e) tenv_scheme \<Rightarrow> bool" where "calm v \<longleftrightarrow> lone v \<and> te_fault v = (\<lambda>_. None)"

lemma calm_lone: "calm v \<Longrightarrow> lone v" by (simp add: calm_def)

lemma wp_stmt:
  assumes "lone v" "\<And>e w. Q (Inl e) (s\<lparr>ts_world := w\<rparr>)"
    "\<And>d x w. f (ts_db s) = Some (d, x) \<Longrightarrow> Q (Inr x) (s\<lparr>ts_world := w, ts_db := d\<rparr>)"
  shows "wpT (stmtT f) v Q s"
  using assms by (auto simp: wpT_def stmtT_def Let_def lone_def split: option.split)

text \<open>Without faults.\<close>

lemma wp_stmt_calm:
  assumes "calm v" "f (ts_db s) = None \<Longrightarrow> (\<And>w. Q (Inl (DBErr ''constraint failed'')) (s\<lparr>ts_world := w\<rparr>))"
    "\<And>d x w. f (ts_db s) = Some (d, x) \<Longrightarrow> Q (Inr x) (s\<lparr>ts_world := w, ts_db := d\<rparr>)"
  shows "wpT (stmtT f) v Q s"
  using assms by (auto simp: wpT_def stmtT_def Let_def calm_def lone_def split: option.split)

lemma wp_query_calm: "calm v \<Longrightarrow> (\<And>w. Q (Inr (f (ts_db s))) (s\<lparr>ts_world := w\<rparr>)) \<Longrightarrow> wpT (queryT f) v Q s"
  unfolding queryT_def by (rule wp_stmt_calm) auto

lemma wp_query: "lone v \<Longrightarrow> (\<And>e w. Q (Inl e) (s\<lparr>ts_world := w\<rparr>)) \<Longrightarrow> (\<And>w. Q (Inr (f (ts_db s))) (s\<lparr>ts_world := w\<rparr>))
    \<Longrightarrow> wpT (queryT f) v Q s"
  unfolding queryT_def by (rule wp_stmt) auto

lemma wp_row: "lone v \<Longrightarrow> (\<And>e w. Q (Inl e) (s\<lparr>ts_world := w\<rparr>)) \<Longrightarrow> (\<And>x w. f (ts_db s) = Some x \<Longrightarrow> Q (Inr x) (s\<lparr>ts_world := w\<rparr>))
    \<Longrightarrow> wpT (rowT f) v Q s"
  unfolding rowT_def wp_simps by (rule wp_query) (auto simp: wp_simps split: option.split)

lemma wp_put:
  assumes "lone v" "\<And>e w. Q (Inl e) (s\<lparr>ts_world := w\<rparr>)"
    "\<And>t n w. f (get (ts_db s)) = Some (t, n) \<Longrightarrow> Q (Inr n) (s\<lparr>ts_world := w, ts_db := upd (\<lambda>_. t) (ts_db s)\<rparr>)"
  shows "wpT (putT get upd f) v Q s"
  unfolding putT_def by (rule wp_stmt) (use assms in auto)

lemma wp_found:
  "wpT (foundT m) v Q s = wpT m v (\<lambda>r s'. case r of Inl e \<Rightarrow> Q (Inl e) s' | Inr n \<Rightarrow> if n = 0 then Q (Inl ErrNotFound) s' else Q (Inr ()) s') s"
  unfolding foundT_def wp_simps by (rule arg_cong [where f = "\<lambda>q. wpT m v q s"]) (auto simp: wp_simps fun_eq_iff split: sum.split)

section \<open>Transactions\<close>

lemma wp_tx:
  assumes "lone v" "\<And>e w. Q (Inl e) (s\<lparr>ts_world := w\<rparr>)"
    "\<And>w. wpT body v (\<lambda>r s'. case r of Inl e \<Rightarrow> Q (Inl e) (s'\<lparr>ts_db := ts_db s\<rparr>)
       | Inr x \<Rightarrow> (\<forall>w e. Q (Inl e) (s'\<lparr>ts_world := w, ts_db := ts_db s\<rparr>)) \<and> (\<forall>w. Q (Inr x) (s'\<lparr>ts_world := w\<rparr>))) (s\<lparr>ts_world := w\<rparr>)"
  shows "wpT (in_txT body) v Q s"
proof -
  have v: "v\<lparr>te_others := \<lambda>_ d. d\<rparr> = v" using assms(1) by (cases v) (simp add: lone_def)
  have "wpT (queryT (\<lambda>_. ())) v (\<lambda>r s1. case r of Inl e \<Rightarrow> Q (Inl e) s1 | Inr _ \<Rightarrow>
      wpT (bindT body (\<lambda>x. thenT (queryT (\<lambda>_. ())) (retT x))) v
        (\<lambda>r s2. case r of Inl e \<Rightarrow> Q (Inl e) (s2\<lparr>ts_db := ts_db s1\<rparr>) | Inr x \<Rightarrow> Q (Inr x) s2) s1) s"
    by (rule wp_query [OF assms(1)])
      (auto simp: assms(2) wp_simps split: sum.split intro!: wp_mono [OF assms(3)] wp_query [OF assms(1)])
  then show ?thesis
    by (auto simp: wpT_def in_txT_def v split: prod.splits sum.splits)
qed

section \<open>What operations keep\<close>

named_theorems stay_intros \<open>operations that keep a property of the state\<close>

definition stays :: "('d, 'e) tenv_scheme \<Rightarrow> (('d, 's) tstate_scheme \<Rightarrow> bool) \<Rightarrow> ('d, 'e, 's, 'a) T \<Rightarrow> bool" where
  "stays v I m \<longleftrightarrow> (\<forall>s. I s \<longrightarrow> I (snd (m v s)))"

lemma stays_I: "(\<And>s. I s \<Longrightarrow> wpT m v (\<lambda>_. I) s) \<Longrightarrow> stays v I m"
  by (auto simp: stays_def dest: wpD)

lemma stays_wp: "stays v I m \<Longrightarrow> I s \<Longrightarrow> wpT m v (\<lambda>_. I) s"
  by (rule wpI) (metis snd_conv stays_def)

lemma stays_ret [stay_intros]: "stays v I (retT x)" by (simp add: stays_def retT_def)
lemma stays_fail [stay_intros]: "stays v I (failT e)" by (simp add: stays_def failT_def)
lemma stays_ask [stay_intros]: "stays v I (askT f)" by (simp add: stays_def askT_def)

lemma stays_try [stay_intros]: "stays v I m \<Longrightarrow> (\<And>r. stays v I (k r)) \<Longrightarrow> stays v I (tryT m k)"
  by (rule stays_I) (simp add: wp_try, erule (1) wp_mono [OF stays_wp], rule stays_wp, simp_all)

lemma stays_bind [stay_intros]: "stays v I m \<Longrightarrow> (\<And>x. stays v I (k x)) \<Longrightarrow> stays v I (bindT m k)"
  unfolding bindT_def by (intro stays_try) (auto intro: stays_fail split: sum.split)

lemma stays_then [stay_intros]: "stays v I m \<Longrightarrow> stays v I k \<Longrightarrow> stays v I (thenT m k)"
  unfolding thenT_def by (intro stays_bind)

lemma stays_ignore [stay_intros]: "stays v I m \<Longrightarrow> stays v I k \<Longrightarrow> stays v I (ignoreT m k)"
  unfolding ignoreT_def by (intro stays_try)

lemma stays_or [stay_intros]: "stays v I m \<Longrightarrow> (\<And>x. stays v I (k x)) \<Longrightarrow> stays v I (orT m f k)"
  unfolding orT_def by (intro stays_try) (auto intro: stays_ret split: sum.split)

lemma stays_body [stay_intros]: "(\<And>b. stays v I (k b)) \<Longrightarrow> stays v I (with_bodyT body k)"
  unfolding with_bodyT_def by (auto intro: stays_ret split: sum.split decode_err.split)

lemma stays_for [stay_intros]: "(\<And>x. x \<in> set xs \<Longrightarrow> stays v I (f x)) \<Longrightarrow> stays v I (forT xs f)"
  by (induction xs) (simp_all add: stays_ret stays_then)

lemma stays_map [stay_intros]: "(\<And>x. x \<in> set xs \<Longrightarrow> stays v I (f x)) \<Longrightarrow> stays v I (mapT f xs)"
  by (induction xs) (simp_all add: stays_ret stays_bind)

lemma stays_found [stay_intros]: "stays v I m \<Longrightarrow> stays v I (foundT m)"
  unfolding foundT_def by (intro stays_bind) (auto intro: stays_ret stays_fail)

lemma stays_if [stay_intros]: "stays v I m \<Longrightarrow> stays v I k \<Longrightarrow> stays v I (if b then m else k)"
  by simp

lemma stays_case_option [stay_intros]:
  "stays v I m \<Longrightarrow> (\<And>x. stays v I (k x)) \<Longrightarrow> stays v I (case z of None \<Rightarrow> m | Some x \<Rightarrow> k x)"
  by (cases z) simp_all

lemma stays_case_sum [stay_intros]:
  "(\<And>e. stays v I (m e)) \<Longrightarrow> (\<And>x. stays v I (k x)) \<Longrightarrow> stays v I (case z of Inl e \<Rightarrow> m e | Inr x \<Rightarrow> k x)"
  by (cases z) simp_all

lemma stays_case_prod [stay_intros]: "(\<And>x y. stays v I (k x y)) \<Longrightarrow> stays v I (case z of (x, y) \<Rightarrow> k x y)"
  by (cases z) simp

lemma stays_Let [stay_intros]: "(\<And>x. stays v I (k x)) \<Longrightarrow> stays v I (Let z k)"
  by (simp add: Let_def)

text \<open>A property of the tables and of what a component adds to the state, not of the world, in an environment where nobody
  else writes.\<close>

locale world_blind =
  fixes v :: "('d, 'e) tenv_scheme" and I :: "('d, 's) tstate_scheme \<Rightarrow> bool"
  assumes blind: "I s \<Longrightarrow> I (s\<lparr>ts_world := w\<rparr>)" and alone: "lone v"
begin

lemma stays_core [stay_intros]: "stays v I (coreT m)"
  by (rule stays_I) (auto intro: wp_core blind)

lemma stays_out [stay_intros]: "stays v I (outT f)"
  by (rule stays_I) (auto intro: wp_out blind)

lemma stays_stmt:
  assumes "\<And>s d x. I s \<Longrightarrow> f (ts_db s) = Some (d, x) \<Longrightarrow> I (s\<lparr>ts_db := d\<rparr>)"
  shows "stays v I (stmtT f)"
proof (rule stays_I, rule wp_stmt [OF alone])
  fix s d x w assume "I s" "f (ts_db s) = Some (d, x)"
  then show "I (s\<lparr>ts_world := w, ts_db := d\<rparr>)" using assms [of "s\<lparr>ts_world := w\<rparr>" d x] blind by simp
qed (rule blind)

lemma stays_query [stay_intros]: "stays v I (queryT f)"
  unfolding queryT_def by (rule stays_stmt) auto

lemma stays_row [stay_intros]: "stays v I (rowT f)"
  unfolding rowT_def by (intro stays_bind stays_query) (auto intro: stays_ret stays_fail split: option.split)

end

end
