(* ===== verification/MailTables.thy ===== *)
theory MailTables
  imports TableRun
begin

text \<open>
  The tables of composing mail: the rows of \<^verbatim>\<open>internal/models/v2.go\<close> for identities, session profiles,
  preferences, drafts, their versions and attachments, the queue of delayed mails and the columns of the
  message index that composing reads, with their unique keys; the environment with JSON and the mail
  client; the requests handed to the client.
\<close>

section \<open>Rows\<close>

record MailIdentity =
  mi_ID :: string
  mi_AccountID :: string
  mi_DisplayName :: string
  mi_FromEmail :: string
  mi_ReplyTo :: string
  mi_SignatureText :: string
  mi_SignatureHTML :: string
  mi_IsDefault :: bool
  mi_CreatedAt :: gotime
  mi_UpdatedAt :: gotime

record SessionMailProfile =
  sm_ID :: string
  sm_UserID :: string
  sm_FromEmail :: string
  sm_DisplayName :: string
  sm_ReplyTo :: string
  sm_SignatureText :: string
  sm_SignatureHTML :: string
  sm_CreatedAt :: "gotime option"
  sm_UpdatedAt :: gotime

record UserPreferences =
  up_UserID :: string
  up_Locale :: string
  up_FormatLocale :: string
  up_Theme :: string
  up_Density :: string
  up_LayoutMode :: string
  up_KeymapJSON :: string
  up_RemoteImagePolicy :: string
  up_Timezone :: string
  up_PageSize :: int
  up_GroupingMode :: string
  up_DefaultSenderID :: string
  up_UpdatedAt :: gotime

record Draft =
  d_ID :: string
  d_UserID :: string
  d_AccountID :: string
  d_IdentityID :: string
  d_SenderProfileID :: string
  d_ComposeMode :: string
  d_ContextMessageID :: string
  d_ContextAccountID :: string
  d_FromMode :: string
  d_FromManual :: string
  d_ClientStateJSON :: string
  d_ToValue :: string
  d_CCValue :: string
  d_BCCValue :: string
  d_Subject :: string
  d_BodyText :: string
  d_BodyHTML :: string
  d_AttachmentsJSON :: string
  d_CryptoOptions :: string
  d_SendMode :: string
  d_ScheduledFor :: "gotime option"
  d_Status :: string
  d_LastSendError :: string
  d_CreatedAt :: gotime
  d_UpdatedAt :: gotime

record DraftVersion =
  dv_ID :: string
  dv_DraftID :: string
  dv_VersionNo :: int
  dv_SnapshotJSON :: string
  dv_CreatedAt :: gotime

record DraftAttachment =
  da_ID :: string
  da_DraftID :: string
  da_UserID :: string
  da_Filename :: string
  da_ContentType :: string
  da_SizeBytes :: int
  da_InlinePart :: bool
  da_ContentID :: string
  da_SortOrder :: int
  da_Data :: string
  da_CreatedAt :: gotime
  da_UpdatedAt :: gotime

record ScheduledSendQueueItem =
  q_ID :: string
  q_DraftID :: string
  q_UserID :: string
  q_AccountID :: string
  q_DueAt :: gotime
  q_State :: string
  q_RetryCount :: int
  q_NextRetryAt :: "gotime option"
  q_LastError :: string
  q_CreatedAt :: gotime
  q_UpdatedAt :: gotime

record CryptoKeyring =
  ck_ID :: string
  ck_UserID :: string
  ck_AccountID :: string
  ck_Kind :: string
  ck_Fingerprint :: string
  ck_UserIDsJSON :: string
  ck_PublicKey :: string
  ck_PrivateKeyEnc :: string
  ck_PassphraseHint :: string
  ck_ExpiresAt :: "gotime option"
  ck_TrustLevel :: string
  ck_CreatedAt :: gotime
  ck_UpdatedAt :: gotime

text \<open>Of \<^verbatim>\<open>message_index\<close> the columns that a reply reads and the one it writes.\<close>

record index_row =
  ix_AccountID :: string
  ix_ID :: string
  ix_MessageIDHeader :: string
  ix_InReplyToHeader :: string
  ix_ReferencesHeader :: string
  ix_Answered :: bool

section \<open>Tables and keys\<close>

record mdb =
  identities :: "MailIdentity list"
  profiles :: "SessionMailProfile list"
  preferences :: "UserPreferences list"
  drafts :: "Draft list"
  versions :: "DraftVersion list"
  attachments :: "DraftAttachment list"
  queue :: "ScheduledSendQueueItem list"
  keyrings :: "CryptoKeyring list"
  message_index :: "index_row list"

definition identities_keys :: "(MailIdentity, string list) keys" where "identities_keys = [\<lambda>r. [mi_ID r]]"
definition profiles_keys :: "(SessionMailProfile, string list) keys" where
  "profiles_keys = [\<lambda>r. [sm_ID r], \<lambda>r. [sm_UserID r, sm_FromEmail r]]"
definition preferences_keys :: "(UserPreferences, string list) keys" where "preferences_keys = [\<lambda>r. [up_UserID r]]"
definition drafts_keys :: "(Draft, string list) keys" where "drafts_keys = [\<lambda>r. [d_ID r]]"
definition versions_keys :: "(DraftVersion, string \<times> int) keys" where
  "versions_keys = [\<lambda>r. (dv_ID r, 0), \<lambda>r. (dv_DraftID r, dv_VersionNo r)]"
definition attachments_keys :: "(DraftAttachment, string list) keys" where "attachments_keys = [\<lambda>r. [da_ID r]]"
definition queue_keys :: "(ScheduledSendQueueItem, string list) keys" where "queue_keys = [\<lambda>r. [q_ID r]]"
definition index_keys :: "(index_row, string list) keys" where "index_keys = [\<lambda>r. [ix_ID r]]"

section \<open>The mail client and the environment\<close>

record SendAttachment =
  sa_Filename :: string
  sa_ContentType :: string
  sa_Data :: string
  sa_Inline :: bool
  sa_ContentID :: string

record SendRequest =
  mr_From :: string
  mr_HeaderFromName :: string
  mr_HeaderFromEmail :: string
  mr_EnvelopeFrom :: string
  mr_ReplyTo :: string
  mr_To :: "string list"
  mr_CC :: "string list"
  mr_BCC :: "string list"
  mr_Subject :: string
  mr_Body :: string
  mr_BodyHTML :: string
  mr_InReplyToID :: string
  mr_References :: "string list"
  mr_Attachments :: "SendAttachment list"
  mr_SentMailbox :: string

text \<open>What the mail client was asked: a mail of a draft (of none when the name is empty), through the mailbox with the given
  login, with the answer; a flag.\<close>

datatype mail_call =
    MailOut (mo_draft: string) (mo_login: string) (mo_request: SendRequest) (mo_ok: bool)
  | FlagAnswered (fa_login: string) (fa_message: string)

record v2SendCryptoOptions =
  co_Provider :: string
  co_Sign :: bool
  co_Encrypt :: bool
  co_SignKeyringID :: string
  co_RecipientKeyringIDs :: "string list"

text \<open>The environment adds the plain text of HTML, the text of an error, the JSON the drafts hold (the ids of attachment references, the
  references written out, normalized attachments, a snapshot, a list of strings, the options for signing and encrypting), times
  in RFC 3339, messages read from the server, the mail security service (whether it is there, and its answer to an operation
  with a payload: the fields of the result that are strings), the mailbox for sent mail, and the answers of the mail client.\<close>

record menv = "mdb tenv" +
  me_plain_text :: "string \<Rightarrow> string"
  me_error :: "err \<Rightarrow> string"
  me_refs :: "string \<Rightarrow> string list option"
  me_refs_json :: "DraftAttachment list \<Rightarrow> string"
  me_normal_refs :: "string \<Rightarrow> string option"
  me_snapshot :: "Draft \<Rightarrow> string"
  me_strings :: "string \<Rightarrow> string list option"
  me_rfc3339 :: "string \<Rightarrow> gotime option"
  me_message :: "nat \<Rightarrow> string \<Rightarrow> string \<Rightarrow> err + (string \<times> string \<times> string list)"
  me_crypto_options :: "string \<Rightarrow> v2SendCryptoOptions option"
  me_mailsec_on :: "nat \<Rightarrow> bool"
  me_mailsec :: "nat \<Rightarrow> string \<Rightarrow> string \<Rightarrow> (string \<times> string list) list \<Rightarrow> err + (string \<times> string) list"
  me_sent_mailbox :: "nat \<Rightarrow> string \<Rightarrow> string option"
  me_send :: "nat \<Rightarrow> string \<Rightarrow> SendRequest \<Rightarrow> err option"

record mstate = "mdb tstate" +
  m_calls :: "mail_call list"

type_synonym 'a Mb = "menv \<Rightarrow> mstate \<Rightarrow> (err + 'a) \<times> mstate"

definition send_mail_of :: "string \<Rightarrow> string \<Rightarrow> SendRequest \<Rightarrow> unit Mb" where
  "send_mail_of draftID login req = (\<lambda>v s.
     let w = ts_world s; s1 = s\<lparr>ts_world := w\<lparr>w_n := Suc (w_n w)\<rparr>\<rparr>; answer = me_send v (w_n w) login req
     in (case answer of Some e \<Rightarrow> Inl e | None \<Rightarrow> Inr (),
         s1\<lparr>m_calls := m_calls s @ [MailOut draftID login req (answer = None)]\<rparr>))"

text \<open>The answer to a flag is never looked at.\<close>

definition flag_answered :: "string \<Rightarrow> string \<Rightarrow> unit Mb" where
  "flag_answered login messageID = (\<lambda>v s. (Inr (), s\<lparr>m_calls := m_calls s @ [FlagAnswered login messageID]\<rparr>))"

abbreviation on_identities where "on_identities \<equiv> putT identities identities_update"
abbreviation on_profiles where "on_profiles \<equiv> putT profiles profiles_update"
abbreviation on_preferences where "on_preferences \<equiv> putT preferences preferences_update"
abbreviation on_drafts where "on_drafts \<equiv> putT drafts drafts_update"
abbreviation on_versions where "on_versions \<equiv> putT versions versions_update"
abbreviation on_attachments where "on_attachments \<equiv> putT attachments attachments_update"
abbreviation on_queue where "on_queue \<equiv> putT queue queue_update"
abbreviation on_index where "on_index \<equiv> putT message_index message_index_update"

end
