(* ===== verification/Senders.thy ===== *)
theory Senders
  imports MailTables
begin

text \<open>
  Who a mail is from.  \<^verbatim>\<open>internal/store/v2_store.go\<close> (identities, preferences), \<^verbatim>\<open>internal/store/session_mail_profiles.go\<close>,
  \<^verbatim>\<open>internal/service/mail_sender.go\<close>, and the handlers of \<^verbatim>\<open>internal/api/router_mail_senders.go\<close> and
  \<^verbatim>\<open>internal/api/router_mail_profiles.go\<close>.  Of a response the status and the code are kept.
\<close>

section \<open>Store: preferences\<close>

definition normalize_locale_part :: "nat \<Rightarrow> string \<Rightarrow> string" where
  "normalize_locale_part i raw =
     (let part = TrimSpace raw in
      if part = [] then raw else if i = 0 then ToLower part else if length part = 2 then ToUpper part else ToLower part)"

definition normalizeUserPreferenceLocale :: "string \<Rightarrow> string" where
  "normalizeUserPreferenceLocale raw =
     (let value = TrimSpace (map (\<lambda>c. if c = CHR ''_'' then CHR ''-'' else c) raw) in
      if value = [] then []
      else let parts = Split CHR ''-'' value in Join (map2 normalize_locale_part [0..<length parts] parts) ''-'')"

definition defaultUserPreferences :: "string \<Rightarrow> gotime \<Rightarrow> UserPreferences" where
  "defaultUserPreferences userID now =
     \<lparr>up_UserID = userID, up_Locale = [], up_FormatLocale = [], up_Theme = ''machine-dark'', up_Density = ''comfortable'',
      up_LayoutMode = ''three-pane'', up_KeymapJSON = ''{}'', up_RemoteImagePolicy = ''block'', up_Timezone = [],
      up_PageSize = 50, up_GroupingMode = ''day'', up_DefaultSenderID = [], up_UpdatedAt = now\<rparr>"

definition GetUserPreferences :: "string \<Rightarrow> UserPreferences Mb" where
  "GetUserPreferences userID =
     tryT (queryT (\<lambda>d. find (\<lambda>p. up_UserID p = userID) (preferences d))) (\<lambda>r. case r of
       Inr (Some p) \<Rightarrow> retT p
     | Inr None \<Rightarrow> bindT nowT (\<lambda>now. retT (defaultUserPreferences userID now))
     | Inl e \<Rightarrow> if isOptionalSchemaErr e then bindT nowT (\<lambda>now. retT (defaultUserPreferences userID now)) else failT e)"

definition or_word :: "string \<Rightarrow> string \<Rightarrow> string" where "or_word word raw = (if TrimSpace raw = [] then word else raw)"

definition UpsertUserPreferences :: "UserPreferences \<Rightarrow> UserPreferences Mb" where
  "UpsertUserPreferences p0 =
     bindT nowT (\<lambda>now.
     let p = p0\<lparr>up_UpdatedAt := now, up_Locale := normalizeUserPreferenceLocale (up_Locale p0),
           up_FormatLocale := normalizeUserPreferenceLocale (up_FormatLocale p0),
           up_Theme := or_word ''machine-dark'' (up_Theme p0), up_Density := or_word ''comfortable'' (up_Density p0),
           up_LayoutMode := or_word ''three-pane'' (up_LayoutMode p0), up_KeymapJSON := or_word ''{}'' (up_KeymapJSON p0),
           up_RemoteImagePolicy := or_word ''block'' (up_RemoteImagePolicy p0),
           up_PageSize := (if up_PageSize p0 \<le> 0 then 50 else up_PageSize p0),
           up_GroupingMode := or_word ''day'' (up_GroupingMode p0)\<rparr> in
     tryT (on_preferences (t_upsert preferences_keys (\<lambda>q. up_UserID q = up_UserID p) (\<lambda>_. p) p)) (\<lambda>r. case r of
       Inr _ \<Rightarrow> retT p
     | Inl e \<Rightarrow> if isOptionalSchemaErr e then retT p else failT e))"

section \<open>Store: identities\<close>

definition default_then_age :: "MailIdentity list \<Rightarrow> MailIdentity list" where
  "default_then_age rows =
     (let aged = sort_key mi_CreatedAt rows in filter mi_IsDefault aged @ filter (\<lambda>i. \<not> mi_IsDefault i) aged)"

definition ListMailIdentities :: "string \<Rightarrow> MailIdentity list Mb" where
  "ListMailIdentities accountID =
     tryT (queryT (\<lambda>d. default_then_age (filter (\<lambda>i. mi_AccountID i = accountID) (identities d)))) (\<lambda>r. case r of
       Inr rows \<Rightarrow> retT rows
     | Inl e \<Rightarrow> if isOptionalSchemaErr e then retT [] else failT e)"

text \<open>\<^verbatim>\<open>SET is_default=CASE WHEN id=? THEN 1 ELSE 0 END WHERE account_id=?\<close>, whose error is ignored.\<close>

definition only_default :: "string \<Rightarrow> string \<Rightarrow> gotime \<Rightarrow> int Mb" where
  "only_default i accountID now =
     on_identities (t_update identities_keys (\<lambda>r. mi_AccountID r = accountID)
       (\<lambda>r. r\<lparr>mi_IsDefault := (mi_ID r = i), mi_UpdatedAt := now\<rparr>))"

definition CreateMailIdentity :: "MailIdentity \<Rightarrow> MailIdentity Mb" where
  "CreateMailIdentity i0 =
     bindT nowT (\<lambda>now.
     bindT (if TrimSpace (mi_ID i0) = [] then uuidT else retT (mi_ID i0)) (\<lambda>newID.
     let i = i0\<lparr>mi_ID := newID, mi_CreatedAt := now, mi_UpdatedAt := now\<rparr> in
     thenT (on_identities (t_insert identities_keys i))
     (ignoreT (if mi_IsDefault i then only_default (mi_ID i) (mi_AccountID i) now else retT 0)
     (retT i))))"

definition GetMailIdentityByID :: "string \<Rightarrow> MailIdentity Mb" where
  "GetMailIdentityByID i = rowT (\<lambda>d. find (\<lambda>r. mi_ID r = i) (identities d))"

definition UpdateMailIdentity :: "MailIdentity \<Rightarrow> MailIdentity Mb" where
  "UpdateMailIdentity i =
     bindT nowT (\<lambda>now.
     bindT (GetMailIdentityByID (mi_ID i)) (\<lambda>current.
     thenT (foundT (on_identities (t_update identities_keys (\<lambda>r. mi_ID r = mi_ID i)
              (\<lambda>r. i\<lparr>mi_CreatedAt := mi_CreatedAt r, mi_UpdatedAt := now\<rparr>))))
     (ignoreT (if mi_IsDefault i then only_default (mi_ID i) (mi_AccountID i) now else retT 0)
     (ignoreT (if TrimSpace (mi_AccountID current) \<noteq> [] \<and> mi_AccountID current \<noteq> mi_AccountID i
               then on_identities (t_update identities_keys (\<lambda>r. mi_AccountID r = mi_AccountID current) (\<lambda>r. r\<lparr>mi_UpdatedAt := now\<rparr>))
               else retT 0)
     (GetMailIdentityByID (mi_ID i))))))"

definition DeleteMailIdentity :: "string \<Rightarrow> string \<Rightarrow> unit Mb" where
  "DeleteMailIdentity accountID i =
     foundT (on_identities (t_delete (\<lambda>r. mi_ID r = i \<and> mi_AccountID r = accountID)))"

section \<open>Store: session profiles\<close>

definition GetSessionMailProfile :: "string \<Rightarrow> string \<Rightarrow> SessionMailProfile Mb" where
  "GetSessionMailProfile userID fromEmail =
     rowT (\<lambda>d. find (\<lambda>p. sm_UserID p = userID \<and> sm_FromEmail p = TrimSpace fromEmail) (profiles d))"

definition GetSessionMailProfileByID :: "string \<Rightarrow> string \<Rightarrow> SessionMailProfile Mb" where
  "GetSessionMailProfileByID userID i =
     rowT (\<lambda>d. find (\<lambda>p. sm_UserID p = userID \<and> sm_ID p = TrimSpace i) (profiles d))"

definition UpsertSessionMailProfile :: "SessionMailProfile \<Rightarrow> SessionMailProfile Mb" where
  "UpsertSessionMailProfile p0 =
     bindT nowT (\<lambda>now.
     bindT (if TrimSpace (sm_ID p0) = [] then uuidT else retT (sm_ID p0)) (\<lambda>newID.
     let p = p0\<lparr>sm_ID := newID, sm_CreatedAt := (case sm_CreatedAt p0 of None \<Rightarrow> Some now | Some t \<Rightarrow> Some t),
           sm_UpdatedAt := now, sm_FromEmail := TrimSpace (sm_FromEmail p0)\<rparr> in
     thenT (on_profiles (t_upsert profiles_keys (\<lambda>q. sm_UserID q = sm_UserID p \<and> sm_FromEmail q = sm_FromEmail p)
              (\<lambda>q. q\<lparr>sm_DisplayName := sm_DisplayName p, sm_ReplyTo := sm_ReplyTo p, sm_SignatureText := sm_SignatureText p,
                 sm_SignatureHTML := sm_SignatureHTML p, sm_UpdatedAt := now\<rparr>) p))
     (GetSessionMailProfile (sm_UserID p) (sm_FromEmail p))))"

section \<open>Service: sender profiles\<close>

record SenderProfile =
  pf_ID :: string
  pf_Kind :: string
  pf_Name :: string
  pf_FromEmail :: string
  pf_ReplyTo :: string
  pf_SignatureText :: string
  pf_SignatureHTML :: string
  pf_AccountID :: string
  pf_AccountLabel :: string
  pf_IsDefault :: bool
  pf_IsPrimary :: bool
  pf_CanDelete :: bool
  pf_CanSchedule :: bool
  pf_Status :: string
  pf_AccountIsDefault :: bool
  pf_IsAccountDefault :: bool

record ResolvedComposeSender =
  cs_IdentityID :: string
  cs_SenderProfileID :: string
  cs_AccountID :: string
  cs_HeaderFromName :: string
  cs_HeaderFromEmail :: string
  cs_EnvelopeFrom :: string
  cs_ReplyTo :: string

definition sessionMailIdentityForUser :: "Svc \<Rightarrow> User \<Rightarrow> string" where
  "sessionMailIdentityForUser sv u =
     (let candidate = TrimSpace (MailIdentity u) in
      if candidate = [] then [] else case Svc.ParseAddress sv candidate of None \<Rightarrow> [] | Some a \<Rightarrow> TrimSpace a)"

definition new_profile :: "string \<Rightarrow> string \<Rightarrow> string \<Rightarrow> SessionMailProfile" where
  "new_profile i userID fromEmail =
     \<lparr>sm_ID = i, sm_UserID = userID, sm_FromEmail = fromEmail, sm_DisplayName = [], sm_ReplyTo = [], sm_SignatureText = [],
      sm_SignatureHTML = [], sm_CreatedAt = None, sm_UpdatedAt = 0\<rparr>"

definition EnsureSessionMailProfile :: "User \<Rightarrow> SessionMailProfile Mb" where
  "EnsureSessionMailProfile u =
     bindT (askT (\<lambda>v. sessionMailIdentityForUser (te_svc v) u)) (\<lambda>fromEmail.
     tryT (GetSessionMailProfile (u_ID u) fromEmail) (\<lambda>r. case r of
       Inr profile \<Rightarrow> retT profile
     | Inl e \<Rightarrow> if e \<noteq> ErrNotFound then failT e
                 else bindT uuidT (\<lambda>i. UpsertSessionMailProfile (new_profile i (u_ID u) fromEmail))))"

definition senderAccountLabel :: "MailAccount \<Rightarrow> string" where
  "senderAccountLabel account =
     (if TrimSpace (ma_DisplayName account) \<noteq> [] then TrimSpace (ma_DisplayName account)
      else if TrimSpace (ma_Login account) \<noteq> [] then TrimSpace (ma_Login account) else TrimSpace (ma_ID account))"

definition senderStatusForAccount :: "MailAccount option \<Rightarrow> string \<times> bool" where
  "senderStatusForAccount account = (case account of
     None \<Rightarrow> (''needs_account'', False)
   | Some a \<Rightarrow> if TrimSpace (ma_ID a) = [] then (''needs_account'', False)
               else if EqualFold (TrimSpace (ma_Status a)) ''active'' \<or> TrimSpace (ma_Status a) = [] then (''ok'', True)
               else (''unavailable'', False))"

definition chooseDefaultMailAccount :: "MailAccount list \<Rightarrow> MailAccount option" where
  "chooseDefaultMailAccount accounts = (case find ma_IsDefault accounts of
     Some a \<Rightarrow> Some a | None \<Rightarrow> (case accounts of [] \<Rightarrow> None | a # _ \<Rightarrow> Some a))"

definition primary_profile :: "SessionMailProfile \<Rightarrow> MailAccount option \<Rightarrow> SenderProfile list" where
  "primary_profile sessionProfile defaultAccount =
     (let own = TrimSpace (sm_FromEmail sessionProfile);
          from_email = (if own = [] then (case defaultAccount of None \<Rightarrow> [] | Some a \<Rightarrow> TrimSpace (ma_Login a)) else own)
      in if from_email = [] then []
         else [\<lparr>pf_ID = sm_ID sessionProfile, pf_Kind = ''primary'', pf_Name = TrimSpace (sm_DisplayName sessionProfile),
           pf_FromEmail = from_email, pf_ReplyTo = TrimSpace (sm_ReplyTo sessionProfile),
           pf_SignatureText = TrimSpace (sm_SignatureText sessionProfile), pf_SignatureHTML = TrimSpace (sm_SignatureHTML sessionProfile),
           pf_AccountID = (case defaultAccount of None \<Rightarrow> [] | Some a \<Rightarrow> ma_ID a),
           pf_AccountLabel = (case defaultAccount of None \<Rightarrow> [] | Some a \<Rightarrow> senderAccountLabel a),
           pf_IsDefault = False, pf_IsPrimary = True, pf_CanDelete = False,
           pf_CanSchedule = snd (senderStatusForAccount defaultAccount), pf_Status = fst (senderStatusForAccount defaultAccount),
           pf_AccountIsDefault = (case defaultAccount of None \<Rightarrow> False | Some a \<Rightarrow> ma_IsDefault a),
           pf_IsAccountDefault = (case defaultAccount of None \<Rightarrow> False | Some a \<Rightarrow> ma_IsDefault a)\<rparr>])"

definition alias_profile :: "MailAccount \<Rightarrow> MailIdentity \<Rightarrow> SenderProfile" where
  "alias_profile account i =
     \<lparr>pf_ID = mi_ID i, pf_Kind = ''alias'', pf_Name = TrimSpace (mi_DisplayName i), pf_FromEmail = TrimSpace (mi_FromEmail i),
      pf_ReplyTo = TrimSpace (mi_ReplyTo i), pf_SignatureText = TrimSpace (mi_SignatureText i),
      pf_SignatureHTML = TrimSpace (mi_SignatureHTML i), pf_AccountID = ma_ID account, pf_AccountLabel = senderAccountLabel account,
      pf_IsDefault = False, pf_IsPrimary = False, pf_CanDelete = True,
      pf_CanSchedule = snd (senderStatusForAccount (Some account)), pf_Status = fst (senderStatusForAccount (Some account)),
      pf_AccountIsDefault = ma_IsDefault account, pf_IsAccountDefault = mi_IsDefault i\<rparr>"

text \<open>The accounts with those of their identities that have an address.\<close>

definition owned_identities :: "MailAccount list \<Rightarrow> (MailAccount \<times> MailIdentity) list Mb" where
  "owned_identities accounts =
     bindT (mapT (\<lambda>a. bindT (ListMailIdentities (ma_ID a)) (\<lambda>rows.
       retT (map (Pair a) (filter (\<lambda>i. TrimSpace (mi_FromEmail i) \<noteq> []) rows)))) accounts) (\<lambda>xss. retT (concat xss))"

definition default_alias :: "string \<Rightarrow> (MailAccount \<times> MailIdentity) list \<Rightarrow> string" where
  "default_alias defaultAccountID owned =
     (case find (\<lambda>(a, i). ma_ID a = defaultAccountID \<and> mi_IsDefault i) owned of None \<Rightarrow> [] | Some (a, i) \<Rightarrow> mi_ID i)"

fun mark_default :: "string \<Rightarrow> SenderProfile list \<Rightarrow> SenderProfile list" where
  "mark_default i [] = []"
| "mark_default i (p # ps) = (if pf_ID p = i then p\<lparr>pf_IsDefault := True\<rparr> # ps else p # mark_default i ps)"

definition with_default :: "string \<Rightarrow> SenderProfile list \<Rightarrow> SenderProfile list" where
  "with_default i items =
     (if list_ex (\<lambda>p. pf_ID p = i) items then mark_default i items
      else case items of [] \<Rightarrow> [] | p # ps \<Rightarrow> p\<lparr>pf_IsDefault := True\<rparr> # ps)"

definition ListSenderProfiles :: "User \<Rightarrow> SenderProfile list Mb" where
  "ListSenderProfiles u =
     bindT (EnsureSessionMailProfile u) (\<lambda>sessionProfile.
     bindT (coreT (ListMailAccounts (u_ID u))) (\<lambda>accounts.
     bindT (GetUserPreferences (u_ID u)) (\<lambda>prefs.
     let defaultAccount = chooseDefaultMailAccount accounts;
         defaultAccountID = (case defaultAccount of None \<Rightarrow> [] | Some a \<Rightarrow> ma_ID a) in
     bindT (owned_identities accounts) (\<lambda>owned.
     let wanted = TrimSpace (up_DefaultSenderID prefs); alias = default_alias defaultAccountID owned;
         chosen = (if wanted \<noteq> [] then wanted else if alias \<noteq> [] then alias else sm_ID sessionProfile)
     in retT (with_default chosen
          (primary_profile sessionProfile defaultAccount @ map (\<lambda>(a, i). alias_profile a i) owned))))))"

definition GetSenderProfileByID :: "User \<Rightarrow> string \<Rightarrow> SenderProfile Mb" where
  "GetSenderProfileByID u senderProfileID =
     (let i = TrimSpace senderProfileID in
      if i = [] then failT ErrNotFound
      else bindT (ListSenderProfiles u) (\<lambda>items. case find (\<lambda>p. pf_ID p = i) items of
        None \<Rightarrow> failT ErrNotFound | Some p \<Rightarrow> retT p))"

definition SetDefaultSenderProfile :: "User \<Rightarrow> string \<Rightarrow> unit Mb" where
  "SetDefaultSenderProfile u senderProfileID =
     (let i = TrimSpace senderProfileID in
      thenT (if i \<noteq> [] then thenT (GetSenderProfileByID u i) (retT ()) else retT ())
      (bindT (GetUserPreferences (u_ID u)) (\<lambda>prefs.
       thenT (UpsertUserPreferences (prefs\<lparr>up_UserID := u_ID u, up_DefaultSenderID := i\<rparr>)) (retT ()))))"

definition DefaultSenderProfileID :: "User \<Rightarrow> string Mb" where
  "DefaultSenderProfileID u =
     bindT (ListSenderProfiles u) (\<lambda>items. retT (case find pf_IsDefault items of None \<Rightarrow> [] | Some p \<Rightarrow> pf_ID p))"

text \<open>The id if it is a sender, else on with the next choice.\<close>

definition sender_or :: "User \<Rightarrow> string \<Rightarrow> string Mb \<Rightarrow> string Mb" where
  "sender_or u i otherwise =
     (if i = [] then otherwise
      else tryT (GetSenderProfileByID u i) (\<lambda>r. case r of
        Inr _ \<Rightarrow> retT i | Inl e \<Rightarrow> if e \<noteq> ErrNotFound then failT e else otherwise))"

definition DeriveDraftSenderProfileID :: "User \<Rightarrow> Draft \<Rightarrow> string Mb" where
  "DeriveDraftSenderProfileID u draft =
     (let identityID = TrimSpace (d_IdentityID draft); fromMode = ToLower (TrimSpace (d_FromMode draft)) in
      sender_or u (TrimSpace (d_SenderProfileID draft))
      (sender_or u identityID
      (if fromMode \<in> {[], ''default'', ''manual''}
       then bindT (EnsureSessionMailProfile u) (\<lambda>p. retT (sm_ID p))
       else if fromMode = ''identity'' \<and> identityID \<noteq> [] then retT identityID
       else DefaultSenderProfileID u)))"

definition resolveLegacySenderProfileID :: "User \<Rightarrow> string \<Rightarrow> string \<Rightarrow> string \<Rightarrow> string Mb" where
  "resolveLegacySenderProfileID u fromMode identityID fromManual =
     (let authEmail = TrimSpace (MailIdentity u); mode = ToLower (TrimSpace fromMode) in
      bindT (EnsureSessionMailProfile u) (\<lambda>sessionProfile.
      if mode \<in> {[], ''default''} then retT (sm_ID sessionProfile)
      else if mode = ''manual'' then
        (let manualSender = (if TrimSpace fromManual = [] then authEmail else TrimSpace fromManual) in
         if \<not> EqualFold manualSender authEmail then failT (ErrMsg ''manual sender must match authenticated account email'')
         else retT (sm_ID sessionProfile))
      else if mode = ''identity'' then
        (let i = TrimSpace identityID in
         if i = [] then failT (ErrMsg ''identity_id is required when from_mode=identity'')
         else thenT (GetSenderProfileByID u i) (retT i))
      else failT (ErrMsg ''unsupported from_mode'')))"

definition resolved :: "SenderProfile \<Rightarrow> string \<Rightarrow> ResolvedComposeSender" where
  "resolved p accountID =
     \<lparr>cs_IdentityID = pf_ID p, cs_SenderProfileID = pf_ID p, cs_AccountID = accountID, cs_HeaderFromName = TrimSpace (pf_Name p),
      cs_HeaderFromEmail = TrimSpace (pf_FromEmail p), cs_EnvelopeFrom = TrimSpace (pf_FromEmail p), cs_ReplyTo = TrimSpace (pf_ReplyTo p)\<rparr>"

definition ResolveComposeSender :: "User \<Rightarrow> string \<Rightarrow> string \<Rightarrow> string \<Rightarrow> string \<Rightarrow> ResolvedComposeSender Mb" where
  "ResolveComposeSender u senderProfileID fromMode identityID fromManual =
     (if TrimSpace (MailIdentity u) = [] then failT (ErrMsg ''authenticated session mail identity is required'')
      else bindT (if TrimSpace senderProfileID = [] then resolveLegacySenderProfileID u fromMode identityID fromManual
                  else retT (TrimSpace senderProfileID)) (\<lambda>i.
      bindT (GetSenderProfileByID u i) (\<lambda>profile.
      if TrimSpace (pf_FromEmail profile) = [] then failT (ErrMsg ''selected sender is missing from_email'')
      else if TrimSpace (pf_AccountID profile) = [] then
        (if pf_IsPrimary profile then retT (resolved profile [])
         else failT (ErrMsg ''selected sender requires a sending account''))
      else bindT (coreT (GetMailAccountByID (u_ID u) (pf_AccountID profile))) (\<lambda>account.
        if fst (senderStatusForAccount (Some account)) \<noteq> ''ok'' then
          (if pf_IsPrimary profile then retT (resolved profile [])
           else failT (ErrMsg ''selected sender is not available for sending''))
        else retT (resolved profile (ma_ID account))))))"

section \<open>Signatures\<close>

fun without_cr :: "string \<Rightarrow> string" where
  "without_cr (a # b # s) = (if a = CHR 0x0D \<and> b = CHR 0x0A then b # without_cr s else a # without_cr (b # s))"
| "without_cr s = s"

abbreviation dash_line :: string where "dash_line \<equiv> [CHR ''-'', CHR ''-'', CHR 0x0A]"
abbreviation dash_blank_line :: string where "dash_blank_line \<equiv> [CHR ''-'', CHR ''-'', CHR '' '', CHR 0x0A]"

definition stripSignatureDelimiter :: "string \<Rightarrow> string" where
  "stripSignatureDelimiter raw =
     TrimSpace (TrimPrefix (TrimPrefix (TrimPrefix (TrimSpace (without_cr raw)) dash_blank_line) dash_line) ''-- '')"

definition normalizeStoredSignatureText :: "string \<Rightarrow> string" where
  "normalizeStoredSignatureText raw =
     (let trimmed = TrimSpace (without_cr raw) in
      if trimmed = [] then []
      else if HasPrefix trimmed dash_blank_line then trimmed
      else if HasPrefix trimmed dash_line then dash_blank_line @ TrimPrefix trimmed dash_line
      else dash_blank_line @ stripSignatureDelimiter trimmed)"

definition html_escape :: "string \<Rightarrow> string" where
  "html_escape s = concat (map (\<lambda>c. if c = CHR ''&'' then ''&amp;'' else if c = CHR 0x27 then ''&#39;''
     else if c = CHR ''<'' then ''&lt;'' else if c = CHR ''>'' then ''&gt;'' else if c = CHR 0x22 then ''&#34;'' else [c]) s)"

definition signatureHTMLFromText :: "string \<Rightarrow> string" where
  "signatureHTMLFromText rawText =
     (let body = TrimSpace (without_cr rawText) in
      if body = [] then [] else concat (map (\<lambda>l. ''<p>'' @ html_escape l @ ''</p>'') (Split CHR 0x0A body)))"

definition signatureTextFromHTML :: "(string \<Rightarrow> string) \<Rightarrow> string \<Rightarrow> string" where
  "signatureTextFromHTML plain_text rawHTML =
     (let plain = TrimSpace (plain_text rawHTML) in if plain = [] then [] else dash_blank_line @ plain)"

definition normalizeSignatureFields :: "(string \<Rightarrow> string) \<Rightarrow> string \<Rightarrow> string \<Rightarrow> string \<times> string" where
  "normalizeSignatureFields plain_text signatureHTML signatureText =
     (let html0 = TrimSpace signatureHTML; text0 = normalizeStoredSignatureText signatureText;
          html1 = (if html0 = [] \<and> text0 \<noteq> [] then signatureHTMLFromText (stripSignatureDelimiter text0) else html0);
          text1 = (if text0 = [] \<and> html1 \<noteq> [] then signatureTextFromHTML plain_text html1 else text0)
      in (html1, text1))"

section \<open>Handlers\<close>

record senderMutationRequest =
  sq_Name :: "string option"
  sq_DisplayName :: "string option"
  sq_FromEmail :: "string option"
  sq_ReplyTo :: "string option"
  sq_SignatureText :: "string option"
  sq_SignatureHTML :: "string option"
  sq_AccountID :: "string option"
  sq_IsDefault :: "bool option"

definition senderRequestName :: "senderMutationRequest \<Rightarrow> string option" where
  "senderRequestName req = (case sq_Name req of None \<Rightarrow> sq_DisplayName req | Some n \<Rightarrow> Some n)"

definition valueOrEmpty :: "string option \<Rightarrow> string" where "valueOrEmpty v = (case v of None \<Rightarrow> [] | Some x \<Rightarrow> x)"

text \<open>A part of a request that is there replaces the old value.\<close>

definition given :: "'a option \<Rightarrow> ('a \<Rightarrow> 'b) \<Rightarrow> 'b \<Rightarrow> 'b" where
  "given field f old = (case field of None \<Rightarrow> old | Some x \<Rightarrow> f x)"

definition V2ListSenders :: "User \<Rightarrow> resp Mb" where
  "V2ListSenders u = orT (ListSenderProfiles u) (\<lambda>_. error_resp 500 ''mail_senders_failed'') (\<lambda>_. retT (ok_resp 200))"

definition V2CreateSender :: "User \<Rightarrow> string \<Rightarrow> decode_err + senderMutationRequest \<Rightarrow> resp Mb" where
  "V2CreateSender u id_param body =
     (let accountID = TrimSpace id_param in
      orT (coreT (GetMailAccountByID (u_ID u) accountID)) (absent_or ''account_not_found'' 500 ''create_sender_failed'') (\<lambda>_.
      with_bodyT body (\<lambda>req.
      bindT (askT (\<lambda>v. (normalizeRequiredMailboxAddress (te_svc v) (valueOrEmpty (sq_FromEmail req)) ''from_email'',
                        normalizeOptionalMailboxAddress (te_svc v) (valueOrEmpty (sq_ReplyTo req)) ''reply_to'',
                        normalizeSignatureFields (me_plain_text v) (valueOrEmpty (sq_SignatureHTML req)) (valueOrEmpty (sq_SignatureText req)))))
        (\<lambda>(fromEmail, replyTo, sig).
      case (fromEmail, replyTo) of
        (Inr from_email, Inr reply_to) \<Rightarrow>
          orT (CreateMailIdentity \<lparr>mi_ID = [], mi_AccountID = accountID, mi_DisplayName = TrimSpace (valueOrEmpty (senderRequestName req)),
                 mi_FromEmail = from_email, mi_ReplyTo = reply_to, mi_SignatureText = snd sig, mi_SignatureHTML = fst sig,
                 mi_IsDefault = (sq_IsDefault req = Some True), mi_CreatedAt = 0, mi_UpdatedAt = 0\<rparr>)
            (\<lambda>_. error_resp 400 ''create_sender_failed'') (\<lambda>saved.
          orT (if sq_IsDefault req = Some True then SetDefaultSenderProfile u (mi_ID saved) else retT ())
            (\<lambda>_. error_resp 500 ''create_sender_failed'') (\<lambda>_.
          orT (GetSenderProfileByID u (mi_ID saved)) (\<lambda>_. error_resp 500 ''create_sender_failed'') (\<lambda>_. retT (ok_resp 201))))
      | _ \<Rightarrow> retT (error_resp 400 ''create_sender_failed'')))))"

text \<open>The columns of a profile or an identity a request changes; \<^const>\<open>None\<close> when an address is not valid.\<close>

definition edit_profile :: "Svc \<Rightarrow> (string \<Rightarrow> string) \<Rightarrow> string option \<Rightarrow> string option \<Rightarrow> string option \<Rightarrow> string option
    \<Rightarrow> SessionMailProfile \<Rightarrow> SessionMailProfile option" where
  "edit_profile sv plain_text name replyTo html txt p =
     (case given replyTo (\<lambda>r. normalizeOptionalMailboxAddress sv r ''reply_to'') (Inr (sm_ReplyTo p)) of
        Inl _ \<Rightarrow> None
      | Inr r \<Rightarrow>
          (let sig = normalizeSignatureFields plain_text (given html TrimSpace (sm_SignatureHTML p))
                 (given txt normalizeStoredSignatureText (sm_SignatureText p))
           in Some (p\<lparr>sm_DisplayName := given name TrimSpace (sm_DisplayName p), sm_ReplyTo := r,
                sm_SignatureHTML := fst sig, sm_SignatureText := snd sig\<rparr>)))"

definition edit_identity :: "Svc \<Rightarrow> (string \<Rightarrow> string) \<Rightarrow> senderMutationRequest \<Rightarrow> MailIdentity \<Rightarrow> MailIdentity option" where
  "edit_identity sv plain_text req i =
     (case (given (sq_FromEmail req) (\<lambda>f. normalizeRequiredMailboxAddress sv f ''from_email'') (Inr (mi_FromEmail i)),
            given (sq_ReplyTo req) (\<lambda>r. normalizeOptionalMailboxAddress sv r ''reply_to'') (Inr (mi_ReplyTo i))) of
        (Inr f, Inr r) \<Rightarrow>
          (let sig = normalizeSignatureFields plain_text (given (sq_SignatureHTML req) TrimSpace (mi_SignatureHTML i))
                 (given (sq_SignatureText req) normalizeStoredSignatureText (mi_SignatureText i))
           in Some (i\<lparr>mi_DisplayName := given (senderRequestName req) TrimSpace (mi_DisplayName i), mi_FromEmail := f,
                mi_ReplyTo := r, mi_SignatureHTML := fst sig, mi_SignatureText := snd sig\<rparr>))
      | _ \<Rightarrow> None)"

definition update_primary :: "User \<Rightarrow> senderMutationRequest \<Rightarrow> resp Mb \<Rightarrow> resp Mb" where
  "update_primary u req finish =
     orT (EnsureSessionMailProfile u) (\<lambda>_. error_resp 500 ''update_sender_failed'') (\<lambda>profile.
     bindT (askT (\<lambda>v. edit_profile (te_svc v) (me_plain_text v) (senderRequestName req) (sq_ReplyTo req)
                        (sq_SignatureHTML req) (sq_SignatureText req) profile)) (\<lambda>edited. case edited of
       None \<Rightarrow> retT (error_resp 400 ''update_sender_failed'')
     | Some p \<Rightarrow>
         orT (UpsertSessionMailProfile p) (\<lambda>_. error_resp 400 ''update_sender_failed'') (\<lambda>_.
         orT (if sq_IsDefault req = Some True then SetDefaultSenderProfile u (sm_ID p) else retT ())
           (\<lambda>_. error_resp 500 ''update_sender_failed'') (\<lambda>_. finish))))"

definition update_alias :: "User \<Rightarrow> string \<Rightarrow> senderMutationRequest \<Rightarrow> resp Mb \<Rightarrow> resp Mb" where
  "update_alias u senderID req finish =
     orT (GetMailIdentityByID senderID) (absent_or ''sender_not_found'' 500 ''update_sender_failed'') (\<lambda>identity.
     orT (coreT (GetMailAccountByID (u_ID u) (mi_AccountID identity))) (\<lambda>_. error_resp 403 ''forbidden'') (\<lambda>_.
     bindT (askT (\<lambda>v. edit_identity (te_svc v) (me_plain_text v) req identity)) (\<lambda>edited. case edited of
       None \<Rightarrow> retT (error_resp 400 ''update_sender_failed'')
     | Some i \<Rightarrow>
         let next = given (sq_AccountID req) TrimSpace (mi_AccountID i) in
         if sq_AccountID req \<noteq> None \<and> next = [] then retT (error_resp 400 ''update_sender_failed'')
         else orT (if sq_AccountID req \<noteq> None then thenT (coreT (GetMailAccountByID (u_ID u) next)) (retT ()) else retT ())
           (\<lambda>_. error_resp 403 ''forbidden'') (\<lambda>_.
         let i' = i\<lparr>mi_AccountID := next, mi_IsDefault := given (sq_IsDefault req) id (mi_IsDefault i)\<rparr> in
         orT (UpdateMailIdentity i') (absent_or ''sender_not_found'' 400 ''update_sender_failed'') (\<lambda>_.
         orT (if sq_IsDefault req = Some True then SetDefaultSenderProfile u (mi_ID i') else retT ())
           (\<lambda>_. error_resp 500 ''update_sender_failed'') (\<lambda>_. finish))))))"

definition V2UpdateSender :: "User \<Rightarrow> string \<Rightarrow> decode_err + senderMutationRequest \<Rightarrow> resp Mb" where
  "V2UpdateSender u id_param body =
     (let senderID = TrimSpace id_param;
          finish = orT (GetSenderProfileByID u senderID) (\<lambda>_. error_resp 500 ''update_sender_failed'') (\<lambda>_. retT (ok_resp 200)) in
      orT (GetSenderProfileByID u senderID) (absent_or ''sender_not_found'' 500 ''update_sender_failed'') (\<lambda>current.
      with_bodyT body (\<lambda>req.
      if pf_IsPrimary current then update_primary u req finish else update_alias u senderID req finish)))"

definition V2DeleteSender :: "User \<Rightarrow> string \<Rightarrow> resp Mb" where
  "V2DeleteSender u id_param =
     (let senderID = TrimSpace id_param in
      orT (GetSenderProfileByID u senderID) (absent_or ''sender_not_found'' 500 ''delete_sender_failed'') (\<lambda>current.
      if pf_IsPrimary current then retT (error_resp 400 ''sender_protected'')
      else orT (GetMailIdentityByID senderID) (absent_or ''sender_not_found'' 500 ''delete_sender_failed'') (\<lambda>identity.
        orT (coreT (GetMailAccountByID (u_ID u) (mi_AccountID identity))) (\<lambda>_. error_resp 403 ''forbidden'') (\<lambda>_.
        orT (DeleteMailIdentity (mi_AccountID identity) (mi_ID identity)) (absent_or ''sender_not_found'' 500 ''delete_sender_failed'') (\<lambda>_.
        tryT (GetUserPreferences (u_ID u)) (\<lambda>r.
        ignoreT (case r of Inl _ \<Rightarrow> retT () | Inr prefs \<Rightarrow>
            if TrimSpace (up_DefaultSenderID prefs) = mi_ID identity then SetDefaultSenderProfile u [] else retT ())
        (retT (ok_resp 200))))))))"

definition V2GetSessionMailProfile :: "User \<Rightarrow> resp Mb" where
  "V2GetSessionMailProfile u =
     orT (EnsureSessionMailProfile u) (\<lambda>_. error_resp 500 ''session_mail_profile_failed'') (\<lambda>_. retT (ok_resp 200))"

definition V2UpdateSessionMailProfile :: "User \<Rightarrow> decode_err + senderMutationRequest \<Rightarrow> resp Mb" where
  "V2UpdateSessionMailProfile u body =
     orT (EnsureSessionMailProfile u) (\<lambda>_. error_resp 500 ''session_mail_profile_failed'') (\<lambda>profile.
     with_bodyT body (\<lambda>req.
     bindT (askT (\<lambda>v. edit_profile (te_svc v) (me_plain_text v) (sq_DisplayName req) (sq_ReplyTo req)
                        (sq_SignatureHTML req) (sq_SignatureText req) profile)) (\<lambda>edited. case edited of
       None \<Rightarrow> retT (error_resp 400 ''session_mail_profile_update_failed'')
     | Some p \<Rightarrow> orT (UpsertSessionMailProfile p) (\<lambda>_. error_resp 400 ''session_mail_profile_update_failed'') (\<lambda>_. retT (ok_resp 200)))))"

end
