(* ===== verification/DraftStore.thy ===== *)
theory DraftStore
  imports Senders
begin

text \<open>
  The rows of drafts.  \<^verbatim>\<open>internal/store/v2_store.go\<close>: drafts with their versions and attachments, the queue of
  delayed mails, the reads and the one write of the message index that replies need, one key of a key ring.
  A statement on a table is a \<^const>\<open>putT\<close> on it; a column that may be NULL and is read back as an empty string
  or a zero time is an empty string or \<^const>\<open>None\<close>.
\<close>

section \<open>Drafts\<close>

definition ListDrafts :: "string \<Rightarrow> string \<Rightarrow> int \<Rightarrow> int \<Rightarrow> (Draft list \<times> nat) Mb" where
  "ListDrafts userID accountID limit offset =
     (let wanted = filter (\<lambda>d. d_UserID d = userID \<and> d_Status d \<noteq> ''sent'' \<and> (TrimSpace accountID \<noteq> [] \<longrightarrow> d_AccountID d = accountID)) in
      bindT (queryT (\<lambda>db. length (wanted (drafts db)))) (\<lambda>total.
      bindT (queryT (\<lambda>db. limit_offset (clampLimit limit) (clampOffset offset)
               (order_by (\<lambda>d. SInt (d_UpdatedAt d)) ''DESC'' (wanted (drafts db))))) (\<lambda>items.
      retT (items, total))))"

definition GetDraftByID :: "string \<Rightarrow> string \<Rightarrow> Draft Mb" where
  "GetDraftByID userID i = rowT (\<lambda>db. find (\<lambda>d. d_UserID d = userID \<and> d_ID d = i) (drafts db))"

definition normalizeDraftAttachmentsJSON :: "(string \<Rightarrow> string option) \<Rightarrow> string \<Rightarrow> string" where
  "normalizeDraftAttachmentsJSON remarshal raw =
     (if TrimSpace raw = [] then ''[]'' else case remarshal (TrimSpace raw) of None \<Rightarrow> ''[]'' | Some b \<Rightarrow> b)"

section \<open>Versions\<close>

definition next_version :: "string \<Rightarrow> DraftVersion list \<Rightarrow> int" where
  "next_version draftID rows =
     (let ns = map dv_VersionNo (filter (\<lambda>r. dv_DraftID r = draftID) rows) in (if ns = [] then 0 else Max (set ns)) + 1)"

text \<open>\<^verbatim>\<open>ORDER BY version_no DESC LIMIT -1 OFFSET 20\<close>: all but the twenty newest.\<close>

definition old_versions :: "string \<Rightarrow> DraftVersion list \<Rightarrow> string list" where
  "old_versions draftID rows =
     map dv_ID (drop 20 (order_by (\<lambda>r. SInt (dv_VersionNo r)) ''DESC'' (filter (\<lambda>r. dv_DraftID r = draftID) rows)))"

definition AddDraftVersion :: "string \<Rightarrow> string \<Rightarrow> DraftVersion Mb" where
  "AddDraftVersion draftID snapshotJSON =
     bindT (queryT (\<lambda>db. next_version draftID (versions db))) (\<lambda>versionNo.
     bindT nowT (\<lambda>now.
     bindT uuidT (\<lambda>i.
     let item = \<lparr>dv_ID = i, dv_DraftID = draftID, dv_VersionNo = versionNo, dv_SnapshotJSON = snapshotJSON, dv_CreatedAt = now\<rparr> in
     thenT (on_versions (t_insert versions_keys item))
     (ignoreT (on_versions (\<lambda>rows. t_delete (\<lambda>r. dv_DraftID r = draftID \<and> dv_ID r \<in> set (old_versions draftID rows)) rows))
     (retT item)))))"

definition ListDraftVersions :: "string \<Rightarrow> int \<Rightarrow> DraftVersion list Mb" where
  "ListDraftVersions draftID limit =
     queryT (\<lambda>db. take (nat (if limit \<le> 0 then 20 else limit))
       (order_by (\<lambda>r. SInt (dv_VersionNo r)) ''DESC'' (filter (\<lambda>r. dv_DraftID r = draftID) (versions db))))"

section \<open>Writing drafts\<close>

definition CreateDraft :: "Draft \<Rightarrow> Draft Mb" where
  "CreateDraft in0 =
     bindT nowT (\<lambda>now.
     bindT (if TrimSpace (d_ID in0) = [] then uuidT else retT (d_ID in0)) (\<lambda>newID.
     bindT (askT me_normal_refs) (\<lambda>remarshal.
     let d = in0\<lparr>d_ID := newID, d_Status := or_word ''draft'' (d_Status in0),
           d_AttachmentsJSON := normalizeDraftAttachmentsJSON remarshal (d_AttachmentsJSON in0),
           d_LastSendError := TrimSpace (d_LastSendError in0), d_CreatedAt := now, d_UpdatedAt := now,
           d_ComposeMode := or_word ''send'' (d_ComposeMode in0), d_FromMode := or_word ''default'' (d_FromMode in0)\<rparr> in
     thenT (on_drafts (t_insert drafts_keys (d\<lparr>d_AccountID := nullStringValue (d_AccountID d)\<rparr>)))
     (bindT (askT me_snapshot) (\<lambda>marshal.
      ignoreT (AddDraftVersion (d_ID d) (marshal d))
      (retT d))))))"

definition UpdateDraft :: "Draft \<Rightarrow> Draft Mb" where
  "UpdateDraft in0 =
     bindT nowT (\<lambda>now.
     bindT (askT me_normal_refs) (\<lambda>remarshal.
     let d = in0\<lparr>d_UpdatedAt := now, d_ComposeMode := or_word ''send'' (d_ComposeMode in0),
           d_FromMode := or_word ''default'' (d_FromMode in0),
           d_AttachmentsJSON := normalizeDraftAttachmentsJSON remarshal (d_AttachmentsJSON in0),
           d_LastSendError := TrimSpace (d_LastSendError in0)\<rparr> in
     thenT (foundT (on_drafts (t_update drafts_keys (\<lambda>r. d_UserID r = d_UserID d \<and> d_ID r = d_ID d)
              (\<lambda>r. d\<lparr>d_AccountID := nullStringValue (d_AccountID d), d_CreatedAt := d_CreatedAt r\<rparr>))))
     (bindT (askT me_snapshot) (\<lambda>marshal.
      ignoreT (AddDraftVersion (d_ID d) (marshal d))
      (GetDraftByID (d_UserID d) (d_ID d))))))"

definition DeleteDraft :: "string \<Rightarrow> string \<Rightarrow> unit Mb" where
  "DeleteDraft userID draftID = in_txT (
     thenT (on_versions (t_delete (\<lambda>r. dv_DraftID r = draftID)))
     (thenT (on_attachments (t_delete (\<lambda>r. da_DraftID r = draftID \<and> da_UserID r = userID)))
     (thenT (on_queue (t_delete (\<lambda>r. q_DraftID r = draftID)))
     (foundT (on_drafts (t_delete (\<lambda>r. d_UserID r = userID \<and> d_ID r = draftID)))))))"

definition SetDraftStatus :: "string \<Rightarrow> string \<Rightarrow> string \<Rightarrow> unit Mb" where
  "SetDraftStatus userID draftID status =
     bindT nowT (\<lambda>now.
     foundT (on_drafts (t_update drafts_keys (\<lambda>r. d_UserID r = userID \<and> d_ID r = draftID)
       (\<lambda>r. r\<lparr>d_Status := TrimSpace status, d_UpdatedAt := now\<rparr>))))"

definition SetDraftSendState :: "string \<Rightarrow> string \<Rightarrow> string \<Rightarrow> string \<Rightarrow> unit Mb" where
  "SetDraftSendState userID draftID status lastSendError =
     bindT nowT (\<lambda>now.
     foundT (on_drafts (t_update drafts_keys (\<lambda>r. d_UserID r = userID \<and> d_ID r = draftID)
       (\<lambda>r. r\<lparr>d_Status := TrimSpace status, d_LastSendError := TrimSpace lastSendError, d_UpdatedAt := now\<rparr>))))"

section \<open>Attachments\<close>

definition NextDraftAttachmentSortOrder :: "string \<Rightarrow> string \<Rightarrow> int Mb" where
  "NextDraftAttachmentSortOrder userID draftID =
     bindT (queryT (\<lambda>db.
       let orders = map da_SortOrder (filter (\<lambda>a. da_UserID a = userID \<and> da_DraftID a = draftID) (attachments db))
       in (if orders = [] then - 1 else Max (set orders)) + 1)) (\<lambda>next.
     retT (if next < 0 then 0 else next))"

definition CreateDraftAttachment :: "DraftAttachment \<Rightarrow> DraftAttachment Mb" where
  "CreateDraftAttachment in0 =
     bindT nowT (\<lambda>now.
     bindT (if TrimSpace (da_ID in0) = [] then uuidT else retT (da_ID in0)) (\<lambda>newID.
     let a = in0\<lparr>da_ID := newID, da_ContentType := or_word ''application/octet-stream'' (da_ContentType in0),
           da_CreatedAt := now, da_UpdatedAt := now, da_SizeBytes := int (length (da_Data in0))\<rparr> in
     thenT (on_attachments (t_insert attachments_keys a)) (retT a)))"

definition ListDraftAttachments :: "string \<Rightarrow> string \<Rightarrow> DraftAttachment list Mb" where
  "ListDraftAttachments userID draftID =
     queryT (\<lambda>db. sort_key da_SortOrder (sort_key da_CreatedAt
       (filter (\<lambda>a. da_UserID a = userID \<and> da_DraftID a = draftID) (attachments db))))"

definition GetDraftAttachmentByID :: "string \<Rightarrow> string \<Rightarrow> string \<Rightarrow> DraftAttachment Mb" where
  "GetDraftAttachmentByID userID draftID attachmentID =
     rowT (\<lambda>db. find (\<lambda>a. da_UserID a = userID \<and> da_DraftID a = draftID \<and> da_ID a = attachmentID) (attachments db))"

definition DeleteDraftAttachment :: "string \<Rightarrow> string \<Rightarrow> string \<Rightarrow> unit Mb" where
  "DeleteDraftAttachment userID draftID attachmentID =
     foundT (on_attachments (t_delete (\<lambda>a. da_UserID a = userID \<and> da_DraftID a = draftID \<and> da_ID a = attachmentID)))"

section \<open>The queue of delayed mails\<close>

definition QueueScheduledSend :: "Draft \<Rightarrow> unit Mb" where
  "QueueScheduledSend d =
     (if TrimSpace (d_ID d) = [] \<or> TrimSpace (d_UserID d) = [] \<or> TrimSpace (d_AccountID d) = []
      then failT (ErrMsg ''draft id, user id, and account id are required'')
      else bindT nowT (\<lambda>now.
        let dueAt = (case d_ScheduledFor d of None \<Rightarrow> now | Some t \<Rightarrow> t) in
        in_txT (bindT (on_queue (t_update queue_keys (\<lambda>r. q_DraftID r = d_ID d)
                  (\<lambda>r. r\<lparr>q_DueAt := dueAt, q_State := ''queued'', q_NextRetryAt := None, q_LastError := [], q_UpdatedAt := now\<rparr>))) (\<lambda>n.
          if n = 0 then
            bindT uuidT (\<lambda>i.
            thenT (on_queue (t_insert queue_keys
              \<lparr>q_ID = i, q_DraftID = d_ID d, q_UserID = d_UserID d, q_AccountID = d_AccountID d, q_DueAt = dueAt,
               q_State = ''queued'', q_RetryCount = 0, q_NextRetryAt = None, q_LastError = [], q_CreatedAt = now, q_UpdatedAt = now\<rparr>))
            (retT ()))
          else retT ()))))"

definition due_item :: "gotime \<Rightarrow> ScheduledSendQueueItem \<Rightarrow> bool" where
  "due_item now r \<longleftrightarrow> q_State r \<in> {''queued'', ''retrying''} \<and> q_DueAt r \<le> now
     \<and> (case q_NextRetryAt r of None \<Rightarrow> True | Some t \<Rightarrow> t \<le> now)"

definition ListDueScheduledSends :: "gotime \<Rightarrow> int \<Rightarrow> ScheduledSendQueueItem list Mb" where
  "ListDueScheduledSends now limit =
     queryT (\<lambda>db. take (nat (if limit \<le> 0 then 20 else limit))
       (sort_key q_DueAt (sort_key q_CreatedAt (filter (due_item now) (queue db)))))"

definition GetScheduledSendByDraftID :: "string \<Rightarrow> string \<Rightarrow> ScheduledSendQueueItem Mb" where
  "GetScheduledSendByDraftID userID draftID =
     rowT (\<lambda>db. find (\<lambda>r. q_UserID r = userID \<and> q_DraftID r = draftID) (queue db))"

definition CancelScheduledSendByDraftID :: "string \<Rightarrow> string \<Rightarrow> unit Mb" where
  "CancelScheduledSendByDraftID userID draftID =
     bindT nowT (\<lambda>now.
     foundT (on_queue (t_update queue_keys (\<lambda>r. q_UserID r = userID \<and> q_DraftID r = draftID)
       (\<lambda>r. r\<lparr>q_State := ''canceled'', q_NextRetryAt := None, q_LastError := [], q_UpdatedAt := now\<rparr>))))"

definition MarkScheduledSendRetry :: "string \<Rightarrow> int \<Rightarrow> gotime \<Rightarrow> string \<Rightarrow> unit Mb" where
  "MarkScheduledSendRetry queueID retryCount nextRetryAt lastErr =
     bindT nowT (\<lambda>now.
     foundT (on_queue (t_update queue_keys (\<lambda>r. q_ID r = queueID)
       (\<lambda>r. r\<lparr>q_State := ''retrying'', q_RetryCount := retryCount, q_NextRetryAt := Some nextRetryAt,
           q_LastError := nullStringValue lastErr, q_UpdatedAt := now\<rparr>))))"

definition MarkScheduledSendSent :: "string \<Rightarrow> unit Mb" where
  "MarkScheduledSendSent queueID =
     bindT nowT (\<lambda>now.
     foundT (on_queue (t_update queue_keys (\<lambda>r. q_ID r = queueID)
       (\<lambda>r. r\<lparr>q_State := ''sent'', q_NextRetryAt := None, q_LastError := [], q_UpdatedAt := now\<rparr>))))"

definition MarkScheduledSendFailed :: "string \<Rightarrow> string \<Rightarrow> unit Mb" where
  "MarkScheduledSendFailed queueID lastErr =
     bindT nowT (\<lambda>now.
     foundT (on_queue (t_update queue_keys (\<lambda>r. q_ID r = queueID)
       (\<lambda>r. r\<lparr>q_State := ''failed'', q_NextRetryAt := None, q_LastError := nullStringValue lastErr, q_UpdatedAt := now\<rparr>))))"

section \<open>The message index and the key ring\<close>

fun first_indexed :: "string \<Rightarrow> string list \<Rightarrow> index_row Mb" where
  "first_indexed accountID [] = failT ErrNotFound"
| "first_indexed accountID (c # cs) =
     bindT (queryT (\<lambda>db. find (\<lambda>r. ix_AccountID r = accountID \<and> ix_ID r = c) (message_index db))) (\<lambda>r.
     case r of Some item \<Rightarrow> retT item | None \<Rightarrow> first_indexed accountID cs)"

definition GetIndexedMessageByID :: "string \<Rightarrow> string \<Rightarrow> index_row Mb" where
  "GetIndexedMessageByID accountID i = first_indexed accountID (indexedMessageIDCandidates accountID i)"

fun answer_first :: "string \<Rightarrow> bool \<Rightarrow> string list \<Rightarrow> unit Mb" where
  "answer_first accountID value [] = failT ErrNotFound"
| "answer_first accountID value (c # cs) =
     bindT (on_index (t_update index_keys (\<lambda>r. ix_AccountID r = accountID \<and> ix_ID r = c) (\<lambda>r. r\<lparr>ix_Answered := value\<rparr>))) (\<lambda>n.
     if n > 0 then retT () else answer_first accountID value cs)"

definition SetIndexedMessageAnswered :: "string \<Rightarrow> string \<Rightarrow> bool \<Rightarrow> unit Mb" where
  "SetIndexedMessageAnswered accountID i answered = answer_first accountID answered (indexedMessageIDCandidates accountID i)"

definition GetCryptoKeyringByID :: "string \<Rightarrow> string \<Rightarrow> CryptoKeyring Mb" where
  "GetCryptoKeyringByID userID i = rowT (\<lambda>db. find (\<lambda>k. ck_UserID k = userID \<and> ck_ID k = i) (keyrings db))"

end
