(* ===== verification/DraftSend.thy ===== *)
theory DraftSend
  imports DraftStore
begin

text \<open>
  How a draft becomes a mail.  \<^verbatim>\<open>internal/service/draft_send.go\<close> builds the request; the worker of
  \<^verbatim>\<open>internal/workers/mail_workers.go\<close> mails the drafts that are due; \<^verbatim>\<open>internal/api/router_v2.go\<close> signs,
  encrypts and sends at once.  The mail client is part of the environment and its calls are kept in the state.
\<close>

section \<open>The request of a draft\<close>

fun first_of_each :: "string list \<Rightarrow> string list \<Rightarrow> string list" where
  "first_of_each seen [] = []"
| "first_of_each seen (item # items) =
     (let trimmed = TrimSpace item; key = ToLower trimmed in
      if trimmed = [] \<or> key \<in> set seen then first_of_each seen items
      else trimmed # first_of_each (key # seen) items)"

definition splitDraftCSV :: "string \<Rightarrow> string list" where
  "splitDraftCSV v = first_of_each [] (Split CHR '','' v)"

definition parseJSONStringOrMessageIDList :: "(string \<Rightarrow> string list option) \<Rightarrow> string \<Rightarrow> string list" where
  "parseJSONStringOrMessageIDList unmarshal raw0 =
     (let raw = TrimSpace raw0 in
      if raw = [] then []
      else case unmarshal raw of
        None \<Rightarrow> ParseMessageIDList raw
      | Some out \<Rightarrow> (let items = filter (\<lambda>i. i \<noteq> []) (map TrimSpace out) in if items \<noteq> [] then items else ParseMessageIDList raw))"

definition send_attachment :: "DraftAttachment \<Rightarrow> SendAttachment" where
  "send_attachment a = \<lparr>sa_Filename = da_Filename a, sa_ContentType = da_ContentType a, sa_Data = da_Data a,
     sa_Inline = da_InlinePart a, sa_ContentID = da_ContentID a\<rparr>"

definition buildDraftSendAttachments :: "string \<Rightarrow> Draft \<Rightarrow> SendAttachment list Mb" where
  "buildDraftSendAttachments userID draft =
     (let trimmed = TrimSpace (d_AttachmentsJSON draft) in
      if trimmed \<in> {[], ''[]''} then retT []
      else bindT (askT (\<lambda>v. me_refs v trimmed)) (\<lambda>refs. case refs of
        None \<Rightarrow> failT (ErrMsg ''invalid attachments_json'')
      | Some ids \<Rightarrow> mapT (\<lambda>i. bindT (GetDraftAttachmentByID userID (d_ID draft) i) (\<lambda>item. retT (send_attachment item)))
                     (filter (\<lambda>i. i \<noteq> []) (map TrimSpace ids))))"

text \<open>The account is the one of the draft if the sender has none; the last part says whether the mail answers another.\<close>

definition draft_request :: "Draft \<Rightarrow> SendAttachment list \<Rightarrow> ResolvedComposeSender \<Rightarrow> SendRequest" where
  "draft_request draft files sender =
     \<lparr>mr_From = cs_HeaderFromEmail sender, mr_HeaderFromName = cs_HeaderFromName sender,
      mr_HeaderFromEmail = cs_HeaderFromEmail sender, mr_EnvelopeFrom = cs_EnvelopeFrom sender, mr_ReplyTo = cs_ReplyTo sender,
      mr_To = splitDraftCSV (d_ToValue draft), mr_CC = splitDraftCSV (d_CCValue draft), mr_BCC = splitDraftCSV (d_BCCValue draft),
      mr_Subject = d_Subject draft, mr_Body = d_BodyText draft, mr_BodyHTML = d_BodyHTML draft, mr_InReplyToID = [],
      mr_References = [], mr_Attachments = files, mr_SentMailbox = []\<rparr>"

definition with_reply_headers :: "string \<Rightarrow> string \<Rightarrow> string list \<Rightarrow> SendRequest \<Rightarrow> SendRequest" where
  "with_reply_headers messageID inReplyTo references req =
     (case BuildReplyHeaders messageID inReplyTo references of (parent, refs) \<Rightarrow> req\<lparr>mr_InReplyToID := parent, mr_References := refs\<rparr>)"

definition GetMessage :: "string \<Rightarrow> string \<Rightarrow> (string \<times> string \<times> string list) Mb" where
  "GetMessage login i = outT (\<lambda>v n. me_message v n login i)"

definition BuildDraftSendRequest :: "User \<Rightarrow> string \<Rightarrow> Draft \<Rightarrow> (SendRequest \<times> string \<times> bool) Mb" where
  "BuildDraftSendRequest u login draft =
     (let own = TrimSpace (d_AccountID draft); contextID = TrimSpace (d_ContextMessageID draft);
          contextAccountID = TrimSpace (d_ContextAccountID draft) in
      thenT (if own \<noteq> [] then thenT (coreT (GetMailAccountByID (u_ID u) own)) (retT ()) else retT ())
      (bindT (buildDraftSendAttachments (u_ID u) draft) (\<lambda>files.
       bindT (ResolveComposeSender u (d_SenderProfileID draft) (d_FromMode draft) (d_IdentityID draft) (d_FromManual draft)) (\<lambda>sender.
       let req = draft_request draft files sender; account = (if cs_AccountID sender \<noteq> [] then cs_AccountID sender else own) in
       if ToLower (TrimSpace (d_ComposeMode draft)) \<noteq> ''reply'' \<or> contextID = [] then retT (req, account, False)
       else if contextAccountID \<noteq> [] then
         thenT (coreT (GetMailAccountByID (u_ID u) contextAccountID))
         (bindT (GetIndexedMessageByID contextAccountID contextID) (\<lambda>original.
          bindT (askT me_strings) (\<lambda>unmarshal.
          retT (with_reply_headers (ix_MessageIDHeader original) (ix_InReplyToHeader original)
                  (parseJSONStringOrMessageIDList unmarshal (ix_ReferencesHeader original)) req, account, True))))
       else bindT (GetMessage login contextID) (\<lambda>(messageID, inReplyTo, references).
         retT (with_reply_headers messageID inReplyTo references req, account, True))))))"

definition recipients :: "SendRequest \<Rightarrow> string list" where "recipients req = mr_To req @ mr_CC req @ mr_BCC req"

section \<open>The worker\<close>

definition account_secret :: "MailAccount \<Rightarrow> string Mb" where
  "account_secret a =
     bindT (askT (\<lambda>v. let sv = te_svc v in DecryptString (aes_gcm sv) (encryptKey sv) (ma_SecretEnc a))) (\<lambda>r.
     case r of Inl e \<Rightarrow> failT (SecretErr e) | Inr p \<Rightarrow> retT p)"

text \<open>Both rows say why; the errors of the two statements are ignored.\<close>

definition give_up :: "ScheduledSendQueueItem \<Rightarrow> string \<Rightarrow> unit Mb" where
  "give_up item reason =
     ignoreT (MarkScheduledSendFailed (q_ID item) reason)
     (ignoreT (SetDraftSendState (q_UserID item) (q_DraftID item) ''failed'' reason) (retT ()))"

text \<open>\<^verbatim>\<open>ErrNotFound\<close> gives up, another error leaves the item as it is.\<close>

definition or_give_up :: "ScheduledSendQueueItem \<Rightarrow> string Mb \<Rightarrow> 'a Mb \<Rightarrow> ('a \<Rightarrow> unit Mb) \<Rightarrow> unit Mb" where
  "or_give_up item reason m k = tryT m (\<lambda>r. case r of
     Inr x \<Rightarrow> k x
   | Inl e \<Rightarrow> if e = ErrNotFound then bindT reason (give_up item) else failT e)"

text \<open>30 seconds after the first failure, 60 after the second.\<close>

definition next_retry :: "gotime \<Rightarrow> int \<Rightarrow> gotime" where
  "next_retry now retryCount = now + 2 ^ nat (retryCount - 1) * 30 * time_Second"

definition delivery_failed :: "ScheduledSendQueueItem \<Rightarrow> string \<Rightarrow> unit Mb" where
  "delivery_failed item reason =
     (let retryCount = q_RetryCount item + 1 in
      if retryCount \<ge> 3 then give_up item reason
      else bindT nowT (\<lambda>now.
        ignoreT (MarkScheduledSendRetry (q_ID item) retryCount (next_retry now retryCount) reason)
        (ignoreT (SetDraftSendState (q_UserID item) (q_DraftID item) ''retrying'' reason) (retT ()))))"

definition mark_original :: "string \<Rightarrow> string \<Rightarrow> Draft \<Rightarrow> unit Mb" where
  "mark_original userID login draft =
     (let contextAccountID = TrimSpace (d_ContextAccountID draft) in
      if contextAccountID \<noteq> [] then
        ignoreT (bindT (coreT (GetMailAccountByID userID contextAccountID)) (\<lambda>a.
                 thenT (account_secret a) (flag_answered (ma_Login a) (d_ContextMessageID draft))))
        (ignoreT (SetIndexedMessageAnswered contextAccountID (d_ContextMessageID draft) True) (retT ()))
      else flag_answered login (d_ContextMessageID draft))"

definition delivered :: "ScheduledSendQueueItem \<Rightarrow> string \<Rightarrow> Draft \<Rightarrow> bool \<Rightarrow> unit Mb" where
  "delivered item login draft markAnswered =
     ignoreT (MarkScheduledSendSent (q_ID item))
     (ignoreT (SetDraftSendState (q_UserID item) (q_DraftID item) ''sent'' [])
     (if markAnswered \<and> TrimSpace (d_ContextMessageID draft) \<noteq> [] then mark_original (q_UserID item) login draft else retT ()))"

definition deliver :: "ScheduledSendQueueItem \<Rightarrow> Draft \<Rightarrow> string \<Rightarrow> SendRequest \<Rightarrow> bool \<Rightarrow> unit Mb" where
  "deliver item draft login req markAnswered =
     tryT (send_mail_of (q_DraftID item) login req) (\<lambda>r. case r of
       Inl e \<Rightarrow> bindT (askT (\<lambda>v. me_error v e)) (delivery_failed item)
     | Inr _ \<Rightarrow> delivered item login draft markAnswered)"

text \<open>The account of the queue unless the sender of the draft has another.\<close>

definition sending_account :: "ScheduledSendQueueItem \<Rightarrow> MailAccount \<Rightarrow> string \<Rightarrow> (string \<Rightarrow> unit Mb) \<Rightarrow> unit Mb" where
  "sending_account item queueAccount sendAccountID k =
     (let resolvedAccountID = TrimSpace sendAccountID in
      if resolvedAccountID \<noteq> [] \<and> resolvedAccountID \<noteq> ma_ID queueAccount then
        or_give_up item (retT ''send account not found'') (coreT (GetMailAccountByID (q_UserID item) resolvedAccountID)) (\<lambda>a.
        thenT (account_secret a) (k (ma_Login a)))
      else k (ma_Login queueAccount))"

definition processScheduledSendItem :: "ScheduledSendQueueItem \<Rightarrow> unit Mb" where
  "processScheduledSendItem item =
     tryT (GetDraftByID (q_UserID item) (q_DraftID item)) (\<lambda>r. case r of
       Inl e \<Rightarrow> if e = ErrNotFound then ignoreT (MarkScheduledSendFailed (q_ID item) ''draft not found'') (retT ()) else failT e
     | Inr draft \<Rightarrow>
         or_give_up item (retT ''mail account not found'') (coreT (GetMailAccountByID (q_UserID item) (q_AccountID item))) (\<lambda>queueAccount.
         bindT (coreT (GetUserByID (q_UserID item))) (\<lambda>user.
         thenT (account_secret queueAccount)
         (or_give_up item (askT (\<lambda>v. me_error v ErrNotFound)) (BuildDraftSendRequest user (ma_Login queueAccount) draft)
           (\<lambda>(req, sendAccountID, markAnswered).
          if recipients req = [] then give_up item ''no recipients''
          else sending_account item queueAccount sendAccountID (\<lambda>login. deliver item draft login req markAnswered))))))"

definition processScheduledSends :: "unit Mb" where
  "processScheduledSends =
     bindT nowT (\<lambda>now.
     tryT (ListDueScheduledSends now 50) (\<lambda>r. case r of
       Inl _ \<Rightarrow> retT ()
     | Inr items \<Rightarrow> forT items (\<lambda>item. ignoreT (processScheduledSendItem item) (retT ()))))"

section \<open>Signing and encrypting\<close>

definition normalizeCryptoKeyringKind :: "string \<Rightarrow> string" where
  "normalizeCryptoKeyringKind kind =
     (let k = ToLower (TrimSpace kind) in
      if k \<in> {''pgp_public'', ''pgp-private-public'', ''pgp-public''} then ''pgp_public''
      else if k \<in> {''pgp_private'', ''pgp-private''} then ''pgp_private''
      else if k \<in> {''smime_public'', ''smime-public''} then ''smime_public''
      else if k \<in> {''smime_private'', ''smime-private''} then ''smime_private'' else [])"

definition inferCryptoProvider :: "string \<Rightarrow> string" where
  "inferCryptoProvider kind = (if HasPrefix (ToLower (TrimSpace kind)) ''smime'' then ''smime'' else ''pgp'')"

text \<open>The first of the names with a nonempty string.\<close>

definition getStringValue :: "(string \<times> string) list \<Rightarrow> string list \<Rightarrow> string" where
  "getStringValue m names = firstNonEmptyString (map (\<lambda>k. case map_of m k of None \<Rightarrow> [] | Some s \<Rightarrow> s) names)"

definition callMailSecOperation :: "string \<Rightarrow> string \<Rightarrow> (string \<times> string list) list \<Rightarrow> (string \<times> string) list Mb" where
  "callMailSecOperation op accountID payload =
     bindT (outT (\<lambda>v n. Inr (me_mailsec_on v n))) (\<lambda>on.
     if \<not> on then failT (ErrMsg ''mailsec service is disabled'')
     else outT (\<lambda>v n. me_mailsec v n op (firstNonEmptyString [accountID, ''default'']) payload))"

text \<open>The field of the result that is the new body.\<close>

definition new_body :: "string \<Rightarrow> (string \<times> string) list \<Rightarrow> string list \<Rightarrow> string Mb" where
  "new_body missing result names =
     (let next = getStringValue result names in if next = [] then failT (ErrMsg missing) else retT next)"

definition wrap_keyring_error :: "'a Mb \<Rightarrow> string \<Rightarrow> 'a Mb" where
  "wrap_keyring_error m text = tryT m (\<lambda>r. case r of Inl _ \<Rightarrow> failT (ErrMsg text) | Inr x \<Rightarrow> retT x)"

text \<open>The new body and the provider that the key or the options name.\<close>

definition sign_body :: "User \<Rightarrow> string \<Rightarrow> v2SendCryptoOptions \<Rightarrow> string \<Rightarrow> string \<Rightarrow> string \<Rightarrow> (string \<times> string) Mb" where
  "sign_body u accountID opts passphrase provider0 body =
     (let keyID = TrimSpace (co_SignKeyringID opts) in
      if keyID = [] then failT (ErrMsg ''sign_keyring_id is required for signing'')
      else bindT (wrap_keyring_error (GetCryptoKeyringByID (u_ID u) keyID) ''cannot load signing keyring'') (\<lambda>key.
      let kind = normalizeCryptoKeyringKind (ck_Kind key); inferred = inferCryptoProvider kind;
          provider = (if provider0 = [] then inferred else provider0) in
      if \<not> HasSuffix kind ''_private'' then failT (ErrMsg ''signing keyring must be a private keyring'')
      else if provider \<noteq> inferred then failT (ErrMsg ''provider does not match signing keyring kind'')
      else if TrimSpace (ck_PrivateKeyEnc key) = [] then failT (ErrMsg ''signing keyring has no private key material'')
      else bindT (askT (\<lambda>v. let sv = te_svc v in DecryptString (aes_gcm sv) (encryptKey sv) (ck_PrivateKeyEnc key))) (\<lambda>dec. case dec of
        Inl _ \<Rightarrow> failT (ErrMsg ''cannot decrypt signing key'')
      | Inr privateKey \<Rightarrow>
          if provider = ''pgp'' then
            bindT (callMailSecOperation ''crypto.pgp.sign'' accountID
                     [(''plaintext'', [body]), (''private_key_armored'', [privateKey]), (''passphrase'', [passphrase])]) (\<lambda>result.
            bindT (new_body ''mailsec signed message missing payload'' result [''signed_message_armored'', ''signed_message_b64url'']) (\<lambda>b.
            retT (b, provider)))
          else if provider = ''smime'' then
            (if TrimSpace (ck_PublicKey key) = [] then failT (ErrMsg ''smime signing requires certificate in public_key'')
             else bindT (callMailSecOperation ''crypto.smime.sign'' accountID
                     [(''plaintext'', [body]), (''private_key_pem'', [privateKey]), (''cert_pem'', [ck_PublicKey key]),
                      (''private_key_passphrase'', [passphrase])]) (\<lambda>result.
             bindT (new_body ''mailsec signed smime missing payload'' result [''signed_smime'']) (\<lambda>b. retT (b, provider))))
          else failT (ErrMsg ''unsupported crypto provider''))))"

fun recipient_keys :: "User \<Rightarrow> string \<Rightarrow> string list \<Rightarrow> (string list \<times> string) Mb" where
  "recipient_keys u provider [] = retT ([], provider)"
| "recipient_keys u provider (keyID # rest) =
     (if TrimSpace keyID = [] then failT (ErrMsg ''recipient_keyring_ids contains empty id'')
      else bindT (wrap_keyring_error (GetCryptoKeyringByID (u_ID u) (TrimSpace keyID)) ''cannot load recipient keyring'') (\<lambda>item.
      if TrimSpace (ck_PublicKey item) = [] then failT (ErrMsg ''recipient keyring has no public key material'')
      else let itemProvider = inferCryptoProvider (normalizeCryptoKeyringKind (ck_Kind item));
               p = (if provider = [] then itemProvider else provider) in
        if p \<noteq> itemProvider then failT (ErrMsg ''recipient keyring provider mismatch'')
        else bindT (recipient_keys u p rest) (\<lambda>(keys, q). retT (ck_PublicKey item # keys, q))))"

definition encrypt_body :: "User \<Rightarrow> string \<Rightarrow> v2SendCryptoOptions \<Rightarrow> string \<Rightarrow> string \<Rightarrow> string Mb" where
  "encrypt_body u accountID opts provider0 body =
     (if co_RecipientKeyringIDs opts = [] then failT (ErrMsg ''recipient_keyring_ids is required for encryption'')
      else bindT (recipient_keys u provider0 (co_RecipientKeyringIDs opts)) (\<lambda>(keys, provider).
        if provider = ''pgp'' then
          bindT (callMailSecOperation ''crypto.pgp.encrypt'' accountID [(''plaintext'', [body]), (''recipient_public_keys'', keys)]) (\<lambda>result.
          new_body ''mailsec encrypted message missing payload'' result [''ciphertext_armored'', ''ciphertext_b64url''])
        else if provider = ''smime'' then
          bindT (callMailSecOperation ''crypto.smime.encrypt'' accountID [(''plaintext'', [body]), (''recipient_certs_pem'', keys)]) (\<lambda>result.
          new_body ''mailsec encrypted smime missing payload'' result [''ciphertext_smime''])
        else failT (ErrMsg ''unsupported crypto provider'')))"

definition applyCryptoToSendRequest :: "User \<Rightarrow> string \<Rightarrow> SendRequest \<Rightarrow> string \<Rightarrow> string \<Rightarrow> SendRequest Mb" where
  "applyCryptoToSendRequest u accountID req cryptoJSON passphrase =
     (let json = TrimSpace cryptoJSON in
      if json \<in> {[], ''{}''} then retT req
      else bindT (outT (\<lambda>v n. Inr (me_mailsec_on v n))) (\<lambda>on.
        if \<not> on then failT (ErrMsg ''mailsec service is required for crypto operations'')
        else bindT (askT (\<lambda>v. me_crypto_options v json)) (\<lambda>parsed. case parsed of
          None \<Rightarrow> failT (ErrMsg ''invalid crypto options'')
        | Some opts \<Rightarrow>
            if \<not> co_Sign opts \<and> \<not> co_Encrypt opts then retT req
            else let provider = ToLower (TrimSpace (co_Provider opts)) in
              bindT (if co_Sign opts then sign_body u accountID opts passphrase provider (mr_Body req)
                     else retT (mr_Body req, provider)) (\<lambda>(body, provider1).
              bindT (if co_Encrypt opts then encrypt_body u accountID opts provider1 body else retT body) (\<lambda>body1.
              retT (req\<lparr>mr_Body := body1\<rparr>))))))"

section \<open>Sending at once\<close>

definition sessionMailPasswordFromContext :: "Session option \<Rightarrow> string Mb" where
  "sessionMailPasswordFromContext sess = (case sess of
     None \<Rightarrow> failT ErrInvalidCredentials | Some s \<Rightarrow> coreT (SessionMailPassword s))"

text \<open>The mailbox for sent mail, if there is one; a failed search leaves the request as it is.\<close>

definition prefer_sent :: "string \<Rightarrow> SendRequest \<Rightarrow> SendRequest Mb" where
  "prefer_sent login req =
     bindT (outT (\<lambda>v n. Inr (me_sent_mailbox v n login))) (\<lambda>box. retT (given box (\<lambda>b. req\<lparr>mr_SentMailbox := b\<rparr>) req))"

definition v2SendWithAccount :: "User \<Rightarrow> Session option \<Rightarrow> string \<Rightarrow> string \<Rightarrow> SendRequest \<Rightarrow> unit Mb" where
  "v2SendWithAccount u sess draftID accountID req0 =
     (let authIdentity = TrimSpace (MailIdentity u);
          header = firstNonEmptyString [mr_HeaderFromEmail req0, mr_From req0, authIdentity];
          req = req0\<lparr>mr_HeaderFromEmail := header,
            mr_EnvelopeFrom := firstNonEmptyString [mr_EnvelopeFrom req0, header, authIdentity], mr_From := header\<rparr> in
      if TrimSpace accountID = [] then
        thenT (sessionMailPasswordFromContext sess)
        (bindT (prefer_sent (MailAuthLogin u) req) (send_mail_of draftID (MailAuthLogin u)))
      else bindT (coreT (GetMailAccountByID (u_ID u) accountID)) (\<lambda>acc.
        tryT (account_secret acc) (\<lambda>r. case r of
          Inl _ \<Rightarrow> failT (ErrMsg ''cannot decrypt account secret'')
        | Inr _ \<Rightarrow> bindT (prefer_sent (ma_Login acc) req) (send_mail_of draftID (ma_Login acc)))))"

end
