(* ===== verification/DraftHandlers.thy ===== *)
theory DraftHandlers
  imports DraftSend
begin

text \<open>
  The handlers of drafts and of sending: \<^verbatim>\<open>internal/api/router_v2.go\<close> and \<^verbatim>\<open>V2UndoDraftSend\<close> of
  \<^verbatim>\<open>internal/api/router_mail_features.go\<close>.  A patch is given by its fields that are strings, the only ones that are
  looked at.  Of a response the status and the code are kept; the response caches, which sending clears, are
  those of the theory of caches.
\<close>

section \<open>Patches\<close>

definition zero_draft :: Draft where
  "zero_draft = \<lparr>d_ID = [], d_UserID = [], d_AccountID = [], d_IdentityID = [], d_SenderProfileID = [], d_ComposeMode = [],
     d_ContextMessageID = [], d_ContextAccountID = [], d_FromMode = [], d_FromManual = [], d_ClientStateJSON = [], d_ToValue = [],
     d_CCValue = [], d_BCCValue = [], d_Subject = [], d_BodyText = [], d_BodyHTML = [], d_AttachmentsJSON = [], d_CryptoOptions = [],
     d_SendMode = [], d_ScheduledFor = None, d_Status = [], d_LastSendError = [], d_CreatedAt = 0, d_UpdatedAt = 0\<rparr>"

type_synonym patch = "(string \<times> string) list"

definition mergeDraftPatch :: "(string \<Rightarrow> gotime option) \<Rightarrow> patch \<Rightarrow> Draft \<Rightarrow> Draft" where
  "mergeDraftPatch parse_time patch d =
     (let trim = (\<lambda>name old. given (map_of patch name) TrimSpace old); raw = (\<lambda>name old. given (map_of patch name) id old) in
      d\<lparr>d_AccountID := trim ''account_id'' (d_AccountID d), d_IdentityID := trim ''identity_id'' (d_IdentityID d),
        d_SenderProfileID := trim ''sender_profile_id'' (d_SenderProfileID d), d_ComposeMode := trim ''compose_mode'' (d_ComposeMode d),
        d_ContextMessageID := trim ''context_message_id'' (d_ContextMessageID d),
        d_ContextAccountID := trim ''context_account_id'' (d_ContextAccountID d),
        d_FromMode := trim ''from_mode'' (d_FromMode d), d_FromManual := trim ''from_manual'' (d_FromManual d),
        d_ClientStateJSON := raw ''client_state_json'' (d_ClientStateJSON d), d_ToValue := trim ''to'' (d_ToValue d),
        d_CCValue := trim ''cc'' (d_CCValue d), d_BCCValue := trim ''bcc'' (d_BCCValue d), d_Subject := raw ''subject'' (d_Subject d),
        d_BodyText := raw ''body_text'' (d_BodyText d), d_BodyHTML := raw ''body_html'' (d_BodyHTML d),
        d_AttachmentsJSON := raw ''attachments_json'' (d_AttachmentsJSON d),
        d_CryptoOptions := raw ''crypto_options_json'' (d_CryptoOptions d), d_SendMode := trim ''send_mode'' (d_SendMode d),
        d_Status := trim ''status'' (d_Status d), d_LastSendError := trim ''last_send_error'' (d_LastSendError d),
        d_ScheduledFor := given (map_of patch ''scheduled_for'') (\<lambda>s.
          if TrimSpace s = [] then None
          else case parse_time (TrimSpace s) of Some t \<Rightarrow> Some t | None \<Rightarrow> d_ScheduledFor d) (d_ScheduledFor d)\<rparr>)"

definition hydrateDraftSenderProfileID :: "User \<Rightarrow> Draft \<Rightarrow> Draft Mb" where
  "hydrateDraftSenderProfileID u draft =
     (if TrimSpace (d_SenderProfileID draft) \<noteq> []
      then thenT (GetSenderProfileByID u (TrimSpace (d_SenderProfileID draft))) (retT draft)
      else bindT (DeriveDraftSenderProfileID u draft) (\<lambda>i. retT (draft\<lparr>d_SenderProfileID := i\<rparr>)))"

section \<open>Reading\<close>

definition or_draft_error :: "string \<Rightarrow> User \<Rightarrow> (Draft \<Rightarrow> resp Mb) \<Rightarrow> resp Mb" where
  "or_draft_error draftID u k = orT (GetDraftByID (u_ID u) draftID) (absent_or ''draft_not_found'' 500 ''draft_get_failed'') k"

definition parsePaginationV2 :: "string \<Rightarrow> string \<Rightarrow> int \<times> int" where
  "parsePaginationV2 page_param size_param =
     (case Atoi (TrimSpace page_param) of Some p \<Rightarrow> if p > 0 then p else 1 | None \<Rightarrow> 1,
      case Atoi (TrimSpace size_param) of Some n \<Rightarrow> if n < 1 then 1 else if n > 200 then 200 else n | None \<Rightarrow> 50)"

definition V2ListDrafts :: "User \<Rightarrow> string \<Rightarrow> string \<Rightarrow> string \<Rightarrow> resp Mb" where
  "V2ListDrafts u page_param size_param account_param =
     (case parsePaginationV2 page_param size_param of (page, pageSize) \<Rightarrow>
      orT (ListDrafts (u_ID u) (TrimSpace account_param) pageSize ((page - 1) * pageSize)) (\<lambda>_. error_resp 500 ''drafts_list_failed'')
      (\<lambda>(items, total). thenT (forT items (\<lambda>d. ignoreT (hydrateDraftSenderProfileID u d) (retT ()))) (retT (ok_resp 200))))"

definition V2GetDraft :: "User \<Rightarrow> string \<Rightarrow> resp Mb" where
  "V2GetDraft u id_param =
     or_draft_error (TrimSpace id_param) u (\<lambda>d. ignoreT (hydrateDraftSenderProfileID u d) (retT (ok_resp 200)))"

definition V2GetDraftAttachment :: "User \<Rightarrow> string \<Rightarrow> string \<Rightarrow> resp Mb" where
  "V2GetDraftAttachment u id_param attachment_param =
     or_draft_error (TrimSpace id_param) u (\<lambda>_.
     orT (GetDraftAttachmentByID (u_ID u) (TrimSpace id_param) (TrimSpace attachment_param))
       (absent_or ''draft_attachment_not_found'' 500 ''draft_attachment_get_failed'') (\<lambda>_. retT (ok_resp 200)))"

definition V2ListDraftVersions :: "User \<Rightarrow> string \<Rightarrow> resp Mb" where
  "V2ListDraftVersions u id_param =
     or_draft_error (TrimSpace id_param) u (\<lambda>_.
     orT (ListDraftVersions (TrimSpace id_param) 20) (\<lambda>_. error_resp 500 ''draft_versions_failed'') (\<lambda>_. retT (ok_resp 200)))"

section \<open>Writing\<close>

text \<open>An account that is named must be the user's own.\<close>

definition own_account :: "User \<Rightarrow> string \<Rightarrow> resp Mb \<Rightarrow> resp Mb" where
  "own_account u accountID k =
     (if TrimSpace accountID \<noteq> []
      then orT (coreT (GetMailAccountByID (u_ID u) accountID)) (\<lambda>_. error_resp 403 ''forbidden'') (\<lambda>_. k) else k)"

definition V2CreateDraft :: "User \<Rightarrow> decode_err + patch \<Rightarrow> resp Mb" where
  "V2CreateDraft u body =
     with_bodyT body (\<lambda>patch.
     bindT (askT me_rfc3339) (\<lambda>parse_time.
     bindT uuidT (\<lambda>i.
     let req = (mergeDraftPatch parse_time patch zero_draft)\<lparr>d_ID := i, d_UserID := u_ID u\<rparr> in
     own_account u (d_AccountID req) (own_account u (d_ContextAccountID req) (
       orT (hydrateDraftSenderProfileID u req) (absent_or ''sender_not_found'' 400 ''create_draft_failed'') (\<lambda>d.
       orT (CreateDraft d) (\<lambda>_. error_resp 400 ''create_draft_failed'') (\<lambda>_. retT (ok_resp 201))))))))"

definition V2UpdateDraft :: "User \<Rightarrow> string \<Rightarrow> decode_err + patch \<Rightarrow> resp Mb" where
  "V2UpdateDraft u id_param body =
     or_draft_error id_param u (\<lambda>current.
     with_bodyT body (\<lambda>patch.
     bindT (askT me_rfc3339) (\<lambda>parse_time.
     let req = (mergeDraftPatch parse_time patch current)\<lparr>d_UserID := u_ID u\<rparr> in
     own_account u (d_AccountID req) (own_account u (d_ContextAccountID req) (
       orT (hydrateDraftSenderProfileID u req) (absent_or ''sender_not_found'' 400 ''update_draft_failed'') (\<lambda>d.
       orT (UpdateDraft d) (\<lambda>_. error_resp 400 ''update_draft_failed'') (\<lambda>out.
       ignoreT (hydrateDraftSenderProfileID u out) (retT (ok_resp 200)))))))))"

definition V2DeleteDraft :: "User \<Rightarrow> string \<Rightarrow> resp Mb" where
  "V2DeleteDraft u id_param =
     (let i = TrimSpace id_param in
      if i = [] then retT (error_resp 400 ''bad_request'')
      else orT (DeleteDraft (u_ID u) i) (absent_or ''draft_not_found'' 500 ''delete_draft_failed'') (\<lambda>_. retT (ok_resp 200)))"

section \<open>Attachments\<close>

text \<open>A form: the files, the inline files, the ids of the latter; of a file, the data unless reading it fails.
  The ids are drawn once all of them are read.\<close>

record upload_file =
  uf_Filename :: string
  uf_ContentType :: string
  uf_Size :: int
  uf_Data :: "string option"

definition maxUploadAttachmentBytes :: nat where "maxUploadAttachmentBytes = 26214400"
definition maxUploadTotalBytes :: nat where "maxUploadTotalBytes = 36700160"

fun read_files :: "nat \<Rightarrow> upload_file list \<Rightarrow> (upload_file \<times> string) list option \<times> nat" where
  "read_files bytes [] = (Some [], bytes)"
| "read_files bytes (f # fs) =
     (if uf_Size f > int maxUploadAttachmentBytes then (None, bytes)
      else case uf_Data f of
        None \<Rightarrow> (None, bytes)
      | Some content \<Rightarrow>
          (let data = take maxUploadAttachmentBytes content; bytes1 = bytes + length data in
           if bytes1 > maxUploadTotalBytes then (None, bytes1)
           else case read_files bytes1 fs of
             (None, t) \<Rightarrow> (None, t) | (Some rest, t) \<Rightarrow> (Some ((f, data) # rest), t)))"

definition uploaded :: "bool \<Rightarrow> string \<Rightarrow> upload_file \<times> string \<Rightarrow> DraftAttachment Mb" where
  "uploaded inline contentID = (\<lambda>(f, data).
     bindT uuidT (\<lambda>i. retT \<lparr>da_ID = i, da_DraftID = [], da_UserID = [], da_Filename = uf_Filename f, da_ContentType = uf_ContentType f,
       da_SizeBytes = int (length data), da_InlinePart = inline, da_ContentID = contentID, da_SortOrder = 0, da_Data = data,
       da_CreatedAt = 0, da_UpdatedAt = 0\<rparr>))"

definition inline_cid :: "string list \<Rightarrow> nat \<Rightarrow> string" where
  "inline_cid cids i =
     (let given_id = (if i < length cids then TrimSpace (cids ! i) else []) in
      if given_id = [] then ''inline-image-'' @ show_nat (i + 1) else given_id)"

definition decodeDraftAttachmentUpload :: "(upload_file list \<times> upload_file list \<times> string list) option \<Rightarrow> DraftAttachment list Mb" where
  "decodeDraftAttachmentUpload form = (case form of
     None \<Rightarrow> failT (ErrMsg ''multipart'')
   | Some (files, inlineFiles, cids) \<Rightarrow>
       (case read_files 0 files of
          (None, _) \<Rightarrow> failT (ErrMsg ''attachments'')
        | (Some read, bytes) \<Rightarrow>
            (case read_files bytes inlineFiles of
               (None, _) \<Rightarrow> failT (ErrMsg ''attachments'')
             | (Some inline, _) \<Rightarrow>
                 bindT (mapT (uploaded False []) read) (\<lambda>as.
                 bindT (mapT (\<lambda>(i, f). uploaded True (inline_cid cids i) f) (zip [0..<length inline] inline)) (\<lambda>bs.
                 retT (as @ bs))))))"

definition draftAttachmentRefs :: "DraftAttachment list \<Rightarrow> DraftAttachment list" where
  "draftAttachmentRefs items =
     map (\<lambda>a. a\<lparr>da_DraftID := [], da_UserID := [], da_Data := [], da_CreatedAt := 0, da_UpdatedAt := 0\<rparr>) items"

definition syncDraftAttachmentMetadata :: "Draft \<Rightarrow> Draft Mb" where
  "syncDraftAttachmentMetadata draft =
     bindT (ListDraftAttachments (d_UserID draft) (d_ID draft)) (\<lambda>items.
     bindT (askT me_refs_json) (\<lambda>marshal.
     let d = draft\<lparr>d_AttachmentsJSON := marshal (draftAttachmentRefs items)\<rparr> in
     UpdateDraft (if EqualFold (TrimSpace (d_Status d)) ''failed'' then d\<lparr>d_Status := ''active'', d_LastSendError := []\<rparr> else d)))"

definition drop_attachments :: "User \<Rightarrow> Draft \<Rightarrow> string list \<Rightarrow> unit Mb" where
  "drop_attachments u draft ids =
     forT ids (\<lambda>i. ignoreT (DeleteDraftAttachment (u_ID u) (d_ID draft) i) (retT ()))"

text \<open>The ids created, with the error that stopped the loop, if any.\<close>

fun create_attachments :: "User \<Rightarrow> Draft \<Rightarrow> int \<Rightarrow> string list \<Rightarrow> DraftAttachment list \<Rightarrow> (string list \<times> bool) Mb" where
  "create_attachments u draft order created [] = retT (created, True)"
| "create_attachments u draft order created (a # as) =
     tryT (CreateDraftAttachment (a\<lparr>da_DraftID := d_ID draft, da_UserID := u_ID u, da_SortOrder := order\<rparr>)) (\<lambda>r. case r of
       Inl _ \<Rightarrow> retT (created, False)
     | Inr saved \<Rightarrow> create_attachments u draft (order + 1) (created @ [da_ID saved]) as)"

definition V2UploadDraftAttachments :: "User \<Rightarrow> string \<Rightarrow> (upload_file list \<times> upload_file list \<times> string list) option \<Rightarrow> resp Mb" where
  "V2UploadDraftAttachments u id_param form =
     or_draft_error (TrimSpace id_param) u (\<lambda>draft.
     orT (decodeDraftAttachmentUpload form) (\<lambda>_. error_resp 400 ''bad_request'') (\<lambda>items.
     orT (NextDraftAttachmentSortOrder (u_ID u) (d_ID draft)) (\<lambda>_. error_resp 500 ''draft_attachment_upload_failed'') (\<lambda>nextOrder.
     bindT (create_attachments u draft nextOrder [] items) (\<lambda>(created, complete).
     if \<not> complete then thenT (drop_attachments u draft created) (retT (error_resp 500 ''draft_attachment_upload_failed''))
     else tryT (syncDraftAttachmentMetadata draft) (\<lambda>r. case r of
       Inl _ \<Rightarrow> thenT (drop_attachments u draft created) (retT (error_resp 500 ''draft_update_failed''))
     | Inr _ \<Rightarrow> retT (ok_resp 201))))))"

definition V2DeleteDraftAttachment :: "User \<Rightarrow> string \<Rightarrow> string \<Rightarrow> resp Mb" where
  "V2DeleteDraftAttachment u id_param attachment_param =
     or_draft_error (TrimSpace id_param) u (\<lambda>draft.
     orT (DeleteDraftAttachment (u_ID u) (TrimSpace id_param) (TrimSpace attachment_param))
       (absent_or ''draft_attachment_not_found'' 500 ''draft_attachment_delete_failed'') (\<lambda>_.
     orT (syncDraftAttachmentMetadata draft) (\<lambda>_. error_resp 500 ''draft_update_failed'') (\<lambda>_. retT (ok_resp 200))))"

section \<open>Sending\<close>

record send_payload =
  sp_CryptoPassphrase :: string
  sp_CryptoOptions :: string

text \<open>The options of the request as JSON, empty when there are none.\<close>

definition sender_errors :: "string list" where
  "sender_errors = [''identity_id is required'', ''selected identity is missing from_email'', ''selected sender is missing from_email'',
     ''selected sender requires a sending account'', ''selected sender is not available for sending'',
     ''manual sender must match authenticated account email'']"

definition build_error :: "string \<Rightarrow> err \<Rightarrow> resp" where
  "build_error msg e =
     (if e = ErrNotFound then error_resp 404 ''context_message_not_found''
      else if list_ex (Contains msg) sender_errors then error_resp 400 ''invalid_sender_identity'' else error_resp 400 ''send_failed'')"

definition or_build_error :: "(SendRequest \<times> string \<times> bool) Mb \<Rightarrow> (SendRequest \<Rightarrow> string \<Rightarrow> bool \<Rightarrow> resp Mb) \<Rightarrow> resp Mb" where
  "or_build_error m k = tryT m (\<lambda>r. case r of
     Inl e \<Rightarrow> bindT (askT (\<lambda>v. me_error v e)) (\<lambda>msg. retT (build_error msg e))
   | Inr (req, account, markAnswered) \<Rightarrow> k req account markAnswered)"

definition isInvalidMessageHeaderError :: "string \<Rightarrow> bool" where
  "isInvalidMessageHeaderError msg \<longleftrightarrow>
     (let m = ToLower (TrimSpace msg) in Contains m ''invalid from email address'' \<or> Contains m ''invalid reply-to address'')"

definition undoSendGracePeriod :: duration where "undoSendGracePeriod = 10 * time_Second"

text \<open>\<^verbatim>\<open>send_mode=scheduled\<close> with a time to come: the row of the queue, then the draft, whose update may fail.\<close>

definition schedule_draft :: "Draft \<Rightarrow> string \<Rightarrow> resp Mb" where
  "schedule_draft draft sendAccountID =
     (let account = (if TrimSpace sendAccountID = [] then TrimSpace (d_AccountID draft) else sendAccountID) in
      if TrimSpace account = [] then retT (error_resp 400 ''schedule_requires_account'')
      else orT (QueueScheduledSend (draft\<lparr>d_AccountID := account\<rparr>)) (\<lambda>_. error_resp 500 ''schedule_failed'') (\<lambda>_.
        ignoreT (UpdateDraft (draft\<lparr>d_AccountID := account, d_Status := ''scheduled'', d_LastSendError := []\<rparr>))
        (retT (ok_resp 202))))"

text \<open>\<^verbatim>\<open>send_mode=send_now\<close>: queued for ten seconds, in which it can be undone.\<close>

definition hold_draft :: "Draft \<Rightarrow> string \<Rightarrow> resp Mb" where
  "hold_draft draft account =
     bindT nowT (\<lambda>now.
     let due = Some (now + undoSendGracePeriod) in
     orT (QueueScheduledSend (draft\<lparr>d_AccountID := account, d_ScheduledFor := due\<rparr>)) (\<lambda>_. error_resp 500 ''undo_send_queue_failed'') (\<lambda>_.
     ignoreT (UpdateDraft (draft\<lparr>d_AccountID := account, d_Status := ''undo_pending'', d_LastSendError := [], d_ScheduledFor := due\<rparr>))
     (retT (ok_resp 202))))"

definition sent_at_once :: "User \<Rightarrow> Session option \<Rightarrow> Draft \<Rightarrow> bool \<Rightarrow> resp Mb" where
  "sent_at_once u sess draft markAnswered =
     ignoreT (SetDraftSendState (u_ID u) (d_ID draft) ''sent'' [])
     (ignoreT (if markAnswered \<and> TrimSpace (d_ContextMessageID draft) \<noteq> [] then
                 (let contextAccountID = TrimSpace (d_ContextAccountID draft) in
                  if contextAccountID \<noteq> [] then SetIndexedMessageAnswered contextAccountID (d_ContextMessageID draft) True
                  else thenT (sessionMailPasswordFromContext sess) (flag_answered (MailAuthLogin u) (d_ContextMessageID draft)))
               else retT ())
     (retT (ok_resp 200)))"

definition send_failed :: "User \<Rightarrow> Draft \<Rightarrow> err \<Rightarrow> resp Mb" where
  "send_failed u draft e =
     bindT (askT (\<lambda>v. me_error v e)) (\<lambda>msg.
     if isInvalidMessageHeaderError msg then
       ignoreT (SetDraftSendState (u_ID u) (d_ID draft) ''failed'' msg) (retT (error_resp 400 ''invalid_sender_identity''))
     else if e = SMTPSenderRejected then retT (error_resp 422 ''smtp_sender_rejected'')
     else ignoreT (SetDraftSendState (u_ID u) (d_ID draft) ''failed'' msg) (retT (error_resp 502 ''send_failed'')))"

definition send_draft_now :: "User \<Rightarrow> Session option \<Rightarrow> send_payload \<Rightarrow> Draft \<Rightarrow> resp Mb" where
  "send_draft_now u sess payload draft =
     (let cryptoJSON = (if sp_CryptoOptions payload = [] then TrimSpace (d_CryptoOptions draft) else sp_CryptoOptions payload) in
      or_build_error (BuildDraftSendRequest u (MailAuthLogin u) draft) (\<lambda>req account markAnswered.
      orT (applyCryptoToSendRequest u account req cryptoJSON (sp_CryptoPassphrase payload)) (\<lambda>_. error_resp 422 ''crypto_send_failed'') (\<lambda>sealed.
      tryT (v2SendWithAccount u sess (d_ID draft) account sealed) (\<lambda>r. case r of
        Inl e \<Rightarrow> send_failed u draft e
      | Inr _ \<Rightarrow> sent_at_once u sess draft markAnswered))))"

definition send_draft :: "User \<Rightarrow> Session option \<Rightarrow> send_payload \<Rightarrow> Draft \<Rightarrow> resp Mb" where
  "send_draft u sess payload draft =
     (let replyContext = EqualFold (TrimSpace (d_ComposeMode draft)) ''reply'' \<and> TrimSpace (d_ContextMessageID draft) \<noteq> [];
          sendMode = ToLower (TrimSpace (d_SendMode draft)) in
      orT (if replyContext \<and> TrimSpace (d_ContextAccountID draft) = []
           then thenT (sessionMailPasswordFromContext sess) (retT ()) else retT ())
        (absent_or ''context_message_not_found'' 400 ''send_failed'') (\<lambda>_.
      bindT (if sendMode = ''scheduled'' \<and> d_ScheduledFor draft \<noteq> None
             then bindT nowT (\<lambda>now. retT (case d_ScheduledFor draft of None \<Rightarrow> False | Some t \<Rightarrow> t > now)) else retT False) (\<lambda>later.
      if later then
        or_build_error (BuildDraftSendRequest u (MailAuthLogin u) draft) (\<lambda>_ account _. schedule_draft draft account)
      else if sendMode = ''send_now'' then
        or_build_error (BuildDraftSendRequest u (MailAuthLogin u) draft) (\<lambda>_ sendAccountID _.
        let account = (if TrimSpace sendAccountID = [] then TrimSpace (d_AccountID draft) else TrimSpace sendAccountID) in
        if account \<noteq> [] then hold_draft draft account else send_draft_now u sess payload draft)
      else send_draft_now u sess payload draft)))"

definition V2SendDraft :: "User \<Rightarrow> Session option \<Rightarrow> string \<Rightarrow> decode_err + send_payload \<Rightarrow> resp Mb" where
  "V2SendDraft u sess id_param body = with_bodyT body (\<lambda>payload. or_draft_error id_param u (send_draft u sess payload))"

definition V2UndoDraftSend :: "User \<Rightarrow> string \<Rightarrow> resp Mb" where
  "V2UndoDraftSend u id_param =
     (let draftID = TrimSpace id_param in
      or_draft_error draftID u (\<lambda>draft.
      orT (GetScheduledSendByDraftID (u_ID u) draftID) (absent_or ''undo_send_not_available'' 500 ''undo_send_lookup_failed'') (\<lambda>item.
      if q_State item \<notin> {''queued'', ''retrying''} then retT (error_resp 409 ''undo_send_not_available'')
      else bindT nowT (\<lambda>now.
        if \<not> q_DueAt item > now then retT (error_resp 409 ''undo_send_not_available'')
        else orT (CancelScheduledSendByDraftID (u_ID u) draftID) (\<lambda>_. error_resp 500 ''undo_send_failed'') (\<lambda>_.
        orT (UpdateDraft (draft\<lparr>d_Status := ''draft'', d_LastSendError := [], d_ScheduledFor := None, d_SendMode := ''send_now''\<rparr>))
          (\<lambda>_. error_resp 500 ''undo_send_failed'') (\<lambda>_. retT (ok_resp 200)))))))"

section \<open>A mail without a draft\<close>

record send_message =
  sg_SenderProfileID :: string
  sg_FromMode :: string
  sg_IdentityID :: string
  sg_FromManual :: string
  sg_AccountID :: string
  sg_To :: "string list"
  sg_CC :: "string list"
  sg_BCC :: "string list"
  sg_Subject :: string
  sg_Body :: string
  sg_CryptoOptions :: string
  sg_CryptoPassphrase :: string

definition message_request :: "send_message \<Rightarrow> ResolvedComposeSender \<Rightarrow> SendRequest" where
  "message_request m sender =
     \<lparr>mr_From = cs_HeaderFromEmail sender, mr_HeaderFromName = cs_HeaderFromName sender,
      mr_HeaderFromEmail = cs_HeaderFromEmail sender, mr_EnvelopeFrom = cs_EnvelopeFrom sender, mr_ReplyTo = cs_ReplyTo sender,
      mr_To = sg_To m, mr_CC = sg_CC m, mr_BCC = sg_BCC m, mr_Subject = sg_Subject m, mr_Body = sg_Body m, mr_BodyHTML = [],
      mr_InReplyToID = [], mr_References = [], mr_Attachments = [], mr_SentMailbox = []\<rparr>"

definition V2SendMessage :: "User \<Rightarrow> Session option \<Rightarrow> decode_err + send_message \<Rightarrow> resp Mb" where
  "V2SendMessage u sess body =
     with_bodyT body (\<lambda>m.
     if sg_To m @ sg_CC m @ sg_BCC m = [] then retT (error_resp 400 ''bad_request'')
     else orT (ResolveComposeSender u (sg_SenderProfileID m) (sg_FromMode m) (sg_IdentityID m) (sg_FromManual m))
       (absent_or ''sender_identity_not_found'' 400 ''invalid_sender_identity'') (\<lambda>sender.
     let account = (if TrimSpace (cs_AccountID sender) = [] then TrimSpace (sg_AccountID m) else TrimSpace (cs_AccountID sender)) in
     orT (applyCryptoToSendRequest u account (message_request m sender) (sg_CryptoOptions m) (sg_CryptoPassphrase m))
       (\<lambda>_. error_resp 422 ''crypto_send_failed'') (\<lambda>sealed.
     tryT (v2SendWithAccount u sess [] account sealed) (\<lambda>r. case r of
       Inr _ \<Rightarrow> retT (ok_resp 200)
     | Inl e \<Rightarrow> bindT (askT (\<lambda>v. me_error v e)) (\<lambda>msg.
         retT (if isInvalidMessageHeaderError msg then error_resp 400 ''invalid_sender_identity''
               else if e = SMTPSenderRejected then error_resp 422 ''smtp_sender_rejected''
               else error_resp 502 ''smtp_error''))))))"

end
