(* ===== verification/DraftViews.thy ===== *)
theory DraftViews
  imports DraftHandlers
begin

text \<open>
  What composing leaves alone.  The locale \<^verbatim>\<open>mail_view\<close> is the contract of a property that looks only at the queue of
  delayed mails, at which drafts there are and whose they are, and at the mails: it is kept by every operation that
  neither queues nor mails, whatever statement fails.
\<close>

section \<open>Views\<close>

lemma find_in: "find P xs = Some x \<Longrightarrow> x \<in> set xs \<and> P x"
  by (auto simp: find_Some_iff)

definition owners :: "mdb \<Rightarrow> (string \<times> string) list" where "owners d = map (\<lambda>r. (d_ID r, d_UserID r)) (drafts d)"

lemma owners_aside [simp]:
  "owners (identities_update f d) = owners d" "owners (profiles_update g d) = owners d" "owners (preferences_update h d) = owners d"
  "owners (versions_update k d) = owners d" "owners (attachments_update l d) = owners d" "owners (queue_update m d) = owners d"
  "owners (message_index_update n d) = owners d"
  by (simp_all add: owners_def)

lemma owners_update:
  assumes "\<And>r. P r \<Longrightarrow> d_ID (f r) = d_ID r \<and> d_UserID (f r) = d_UserID r" "t_update ks P f (drafts d) = Some (t, n)"
  shows "owners (drafts_update (\<lambda>_. t) d) = owners d"
  using assms by (auto simp: owners_def t_update_Some)

locale mail_view = world_blind v I for v :: menv and I :: "mstate \<Rightarrow> bool" +
  assumes same: "I s \<Longrightarrow> queue d = queue (ts_db s) \<Longrightarrow> owners d = owners (ts_db s) \<Longrightarrow> I (s\<lparr>ts_db := d\<rparr>)"
    and created: "I s \<Longrightarrow> queue d = queue (ts_db s) \<Longrightarrow> i \<notin> fst ` set (owners (ts_db s)) \<Longrightarrow>
      owners d = owners (ts_db s) @ [(i, u)] \<Longrightarrow> I (s\<lparr>ts_db := d\<rparr>)"
    and flagged: "I s \<Longrightarrow> I (s\<lparr>m_calls := m_calls s @ [FlagAnswered l m]\<rparr>)"
begin

lemma stays_put_aside:
  assumes "\<And>f d. queue (upd f d) = queue d" "\<And>f d. owners (upd f d) = owners d"
  shows "stays v I (putT get upd f)"
  unfolding putT_def by (rule stays_stmt) (auto intro!: same simp: assms)

lemma stays_tables [stay_intros]:
  "stays v I (on_identities f1)" "stays v I (on_profiles f2)" "stays v I (on_preferences f3)"
  "stays v I (on_versions f4)" "stays v I (on_attachments f5)" "stays v I (on_index f6)"
  by (rule stays_put_aside; simp)+

lemma stays_redraft:
  assumes "\<And>r. P r \<Longrightarrow> d_ID (f r) = d_ID r \<and> d_UserID (f r) = d_UserID r"
  shows "stays v I (on_drafts (t_update ks P f))"
  unfolding putT_def by (rule stays_stmt) (auto intro!: same owners_update [where P = P and f = f] simp: assms)

lemma stays_draft_state [stay_intros]: "stays v I (SetDraftSendState a b c d)" "stays v I (SetDraftStatus a b c)"
  unfolding SetDraftSendState_def SetDraftStatus_def by (intro stay_intros stays_redraft; simp)+

lemma stays_versions [stay_intros]: "stays v I (AddDraftVersion i j)"
  unfolding AddDraftVersion_def by (intro stay_intros)

lemma stays_drafts [stay_intros]:
  "stays v I (GetDraftByID a b)" "stays v I (UpdateDraft d)"
  unfolding UpdateDraft_def GetDraftByID_def by (intro stay_intros stays_redraft; simp)+

lemma stays_create [stay_intros]: "stays v I (CreateDraft d)"
proof -
  have "stays v I (on_drafts (t_insert drafts_keys r))" for r
    unfolding putT_def
    by (rule stays_stmt) (auto simp: t_insert_Some uniq_def drafts_keys_def owners_def image_iff intro!: created)
  then show ?thesis unfolding CreateDraft_def by (intro stay_intros)
qed

lemma stays_flag [stay_intros]: "stays v I (flag_answered l m)"
  by (simp add: stays_def flag_answered_def flagged)

lemma stays_sender_stores [stay_intros]:
  "stays v I (GetUserPreferences a)" "stays v I (UpsertUserPreferences p)" "stays v I (ListMailIdentities a)"
  "stays v I (CreateMailIdentity i)" "stays v I (GetMailIdentityByID a)" "stays v I (UpdateMailIdentity i)"
  "stays v I (DeleteMailIdentity a b)" "stays v I (GetSessionMailProfile a b)" "stays v I (UpsertSessionMailProfile q)"
  unfolding GetUserPreferences_def UpsertUserPreferences_def ListMailIdentities_def CreateMailIdentity_def GetMailIdentityByID_def
    UpdateMailIdentity_def DeleteMailIdentity_def GetSessionMailProfile_def UpsertSessionMailProfile_def only_default_def
  by (intro stay_intros)+

lemma stays_ensure [stay_intros]: "stays v I (EnsureSessionMailProfile u)"
  unfolding EnsureSessionMailProfile_def by (intro stay_intros)

lemma stays_profiles [stay_intros]: "stays v I (ListSenderProfiles u)"
  unfolding ListSenderProfiles_def owned_identities_def by (intro stay_intros)

lemma stays_profile [stay_intros]: "stays v I (GetSenderProfileByID u a)" "stays v I (DefaultSenderProfileID u)"
  unfolding GetSenderProfileByID_def DefaultSenderProfileID_def by (intro stay_intros)+

lemma stays_senders [stay_intros]:
  "stays v I (SetDefaultSenderProfile u a)" "stays v I (DeriveDraftSenderProfileID u d)" "stays v I (resolveLegacySenderProfileID u a b c)"
  unfolding SetDefaultSenderProfile_def DeriveDraftSenderProfileID_def sender_or_def resolveLegacySenderProfileID_def
  by (intro stay_intros)+

lemma stays_resolve [stay_intros]: "stays v I (ResolveComposeSender u a b c d)"
  unfolding ResolveComposeSender_def by (intro stay_intros)

lemma stays_draft_files [stay_intros]:
  "stays v I (NextDraftAttachmentSortOrder a b)" "stays v I (CreateDraftAttachment x)" "stays v I (ListDraftAttachments a b)"
  "stays v I (GetDraftAttachmentByID a b c)" "stays v I (DeleteDraftAttachment a b c)" "stays v I (ListDraftVersions a n)"
  "stays v I (ListDrafts a b n m)"
  unfolding NextDraftAttachmentSortOrder_def CreateDraftAttachment_def ListDraftAttachments_def GetDraftAttachmentByID_def
    DeleteDraftAttachment_def ListDraftVersions_def ListDrafts_def
  by (intro stay_intros)+

lemma stays_index [stay_intros]: "stays v I (GetIndexedMessageByID a b)" "stays v I (SetIndexedMessageAnswered a b c)"
proof -
  have "stays v I (first_indexed a cs)" for cs by (induction cs) (auto intro!: stay_intros)
  moreover have "stays v I (answer_first a c cs)" for cs by (induction cs) (auto intro!: stay_intros)
  ultimately show "stays v I (GetIndexedMessageByID a b)" "stays v I (SetIndexedMessageAnswered a b c)"
    by (simp_all add: GetIndexedMessageByID_def SetIndexedMessageAnswered_def)
qed

lemma stays_build [stay_intros]: "stays v I (BuildDraftSendRequest u l d)"
  unfolding BuildDraftSendRequest_def buildDraftSendAttachments_def GetMessage_def by (intro stay_intros)

lemma stays_mailsec [stay_intros]: "stays v I (callMailSecOperation a b c)" "stays v I (new_body a b' c')"
  unfolding callMailSecOperation_def new_body_def by (intro stay_intros)+

lemma stays_keys [stay_intros]: "stays v I (wrap_keyring_error (GetCryptoKeyringByID a b) c)"
  unfolding GetCryptoKeyringByID_def wrap_keyring_error_def by (intro stay_intros)

lemma stays_recipient_keys [stay_intros]: "stays v I (recipient_keys u p ids)"
  by (induction ids arbitrary: p) (auto simp: Let_def intro!: stay_intros)

lemma stays_crypto [stay_intros]: "stays v I (applyCryptoToSendRequest u a r j p)"
  unfolding applyCryptoToSendRequest_def sign_body_def encrypt_body_def by (intro stay_intros)

lemma stays_secrets [stay_intros]:
  "stays v I (account_secret a)" "stays v I (sessionMailPasswordFromContext os)" "stays v I (prefer_sent l r)"
  unfolding account_secret_def sessionMailPasswordFromContext_def prefer_sent_def by (intro stay_intros)+

lemma stays_hydrate [stay_intros]: "stays v I (hydrateDraftSenderProfileID u d)"
  unfolding hydrateDraftSenderProfileID_def by (intro stay_intros)

lemma stays_own_account [stay_intros]: "stays v I k \<Longrightarrow> stays v I (own_account u a k)"
  unfolding own_account_def by (intro stay_intros)

lemma stays_or_draft [stay_intros]: "(\<And>d. stays v I (k d)) \<Longrightarrow> stays v I (or_draft_error i u k)"
  unfolding or_draft_error_def by (intro stay_intros)

lemma stays_reading [stay_intros]:
  "stays v I (V2ListDrafts u a b c)" "stays v I (V2GetDraft u a)" "stays v I (V2GetDraftAttachment u a b)"
  "stays v I (V2ListDraftVersions u a)"
  unfolding V2ListDrafts_def V2GetDraft_def V2GetDraftAttachment_def V2ListDraftVersions_def by (intro stay_intros)+

lemma stays_writing [stay_intros]: "stays v I (V2CreateDraft u b)" "stays v I (V2UpdateDraft u a b)"
  unfolding V2CreateDraft_def V2UpdateDraft_def by (intro stay_intros)+

lemma stays_sync [stay_intros]: "stays v I (syncDraftAttachmentMetadata d)" "stays v I (drop_attachments u d ids)"
  unfolding syncDraftAttachmentMetadata_def drop_attachments_def by (intro stay_intros)+

lemma stays_create_attachments [stay_intros]: "stays v I (create_attachments u d n ids as)"
  by (induction as arbitrary: n ids) (auto intro!: stay_intros)

lemma stays_decode [stay_intros]: "stays v I (decodeDraftAttachmentUpload form)"
  unfolding decodeDraftAttachmentUpload_def uploaded_def by (intro stay_intros)

lemma stays_uploads [stay_intros]: "stays v I (V2UploadDraftAttachments u a form)" "stays v I (V2DeleteDraftAttachment u a b)"
  unfolding V2UploadDraftAttachments_def V2DeleteDraftAttachment_def by (intro stay_intros)+

lemma stays_sender_edits [stay_intros]: "stays v I k \<Longrightarrow> stays v I (update_primary u r k)" "stays v I k \<Longrightarrow> stays v I (update_alias u a r k)"
  unfolding update_primary_def update_alias_def by (intro stay_intros; assumption)+

lemma stays_sender_handlers [stay_intros]:
  "stays v I (V2ListSenders u)" "stays v I (V2CreateSender u a b)" "stays v I (V2UpdateSender u a b)" "stays v I (V2DeleteSender u a)"
  "stays v I (V2GetSessionMailProfile u)" "stays v I (V2UpdateSessionMailProfile u b)"
  unfolding V2ListSenders_def V2CreateSender_def V2UpdateSender_def V2DeleteSender_def V2GetSessionMailProfile_def
    V2UpdateSessionMailProfile_def Let_def
  by (intro stay_intros)+

text \<open>What is read of a draft is a draft of that name and that user.\<close>

lemma stays_or_draft_of:
  assumes "\<And>d s. I s \<Longrightarrow> d \<in> set (drafts (ts_db s)) \<Longrightarrow> d_ID d = i \<Longrightarrow> d_UserID d = u_ID u \<Longrightarrow> wpT (k d) v (\<lambda>_. I) s"
  shows "stays v I (or_draft_error i u k)"
proof (rule stays_I)
  fix s assume "I s"
  then show "wpT (or_draft_error i u k) v (\<lambda>_. I) s"
    unfolding or_draft_error_def GetDraftByID_def rowT_def wp_simps
    by (intro wp_query [OF alone])
      (auto simp: wp_simps split: option.split intro!: blind assms dest!: find_in)
qed

end

text \<open>A view that also bears the removal of a draft with its row of the queue.\<close>

locale draft_view = mail_view +
  assumes deleted: "I s \<Longrightarrow> queue d = filter (\<lambda>r. q_DraftID r \<noteq> i) (queue (ts_db s)) \<Longrightarrow>
      owners d = filter (\<lambda>x. x \<noteq> (i, u)) (owners (ts_db s)) \<Longrightarrow> I (s\<lparr>ts_db := d\<rparr>)"
    and canceled: "I s \<Longrightarrow> queue d = map (\<lambda>r. if q_UserID r = u \<and> q_DraftID r = i
      then r\<lparr>q_State := ''canceled'', q_NextRetryAt := None, q_LastError := [], q_UpdatedAt := t\<rparr> else r) (queue (ts_db s)) \<Longrightarrow>
      owners d = owners (ts_db s) \<Longrightarrow> I (s\<lparr>ts_db := d\<rparr>)"
begin

lemma stays_undo [stay_intros]: "stays v I (V2UndoDraftSend w a)"
proof -
  have "stays v I (on_queue (t_update ks (\<lambda>r. q_UserID r = u \<and> q_DraftID r = i)
      (\<lambda>r. r\<lparr>q_State := ''canceled'', q_NextRetryAt := None, q_LastError := [], q_UpdatedAt := t\<rparr>)))" for ks u i t
    unfolding putT_def by (rule stays_stmt) (auto simp: t_update_Some intro!: canceled [where u = u and i = i and t = t])
  then have "stays v I (CancelScheduledSendByDraftID u i)" for u i
    unfolding CancelScheduledSendByDraftID_def by (intro stay_intros)
  then show ?thesis unfolding V2UndoDraftSend_def GetScheduledSendByDraftID_def by (intro stay_intros)
qed

lemma stays_delete [stay_intros]: "stays v I (V2DeleteDraft w a)"
proof -
  have "stays v I (DeleteDraft u i)" for u i
  proof (rule stays_I)
    fix s assume s: "I s"
    have gone: "I (s\<lparr>ts_world := w, ts_db := d\<rparr>)" if "queue d = filter (\<lambda>r. q_DraftID r \<noteq> i) (queue (ts_db s))"
      "drafts d = filter (\<lambda>r. \<not> (d_UserID r = u \<and> d_ID r = i)) (drafts (ts_db s))" for w d
    proof -
      have "owners d = filter (\<lambda>x. x \<noteq> (i, u)) (owners (ts_db s))"
        using that(2) by (auto simp: owners_def filter_map o_def intro!: arg_cong [where f = "map _"] filter_cong)
      then show ?thesis using deleted [OF blind [OF s], of d i w u] that(1) by simp
    qed
    show "wpT (DeleteDraft u i) v (\<lambda>_. I) s"
      unfolding DeleteDraft_def
      by (rule wp_tx [OF alone])
        (auto simp: wp_simps foundT_def putT_def t_delete_Some s blind
          intro!: wp_stmt [OF alone] blind gone split: sum.split)
  qed
  then show ?thesis unfolding V2DeleteDraft_def by (intro stay_intros)
qed

end

text \<open>A view that bears the queueing of one draft.\<close>

locale queue_view = mail_view +
  fixes i u :: string
  assumes requeued: "I s \<Longrightarrow> (\<And>r. q_ID (f r) = q_ID r \<and> q_DraftID (f r) = q_DraftID r \<and> q_UserID (f r) = q_UserID r) \<Longrightarrow>
      queue d = map (\<lambda>r. if q_DraftID r = i then f r else r) (queue (ts_db s)) \<Longrightarrow> owners d = owners (ts_db s) \<Longrightarrow> I (s\<lparr>ts_db := d\<rparr>)"
    and enqueued: "I s \<Longrightarrow> uniq queue_keys (queue d) \<Longrightarrow> q_DraftID r = i \<Longrightarrow> q_UserID r = u \<Longrightarrow>
      \<forall>r' \<in> set (queue (ts_db s)). q_DraftID r' \<noteq> i \<Longrightarrow> queue d = queue (ts_db s) @ [r] \<Longrightarrow> owners d = owners (ts_db s) \<Longrightarrow> I (s\<lparr>ts_db := d\<rparr>)"
begin

lemma stays_queue: "d_ID d = i \<Longrightarrow> d_UserID d = u \<Longrightarrow> stays v I (QueueScheduledSend d)"
proof -
  assume d: "d_ID d = i" "d_UserID d = u"
  have up: "I (s\<lparr>ts_db := queue_update (\<lambda>_. map (\<lambda>r. if q_DraftID r = i then f r else r) (queue (ts_db s))) (ts_db s), ts_world := w\<rparr>)"
    if "I s" "\<And>r. q_ID (f r) = q_ID r \<and> q_DraftID (f r) = q_DraftID r \<and> q_UserID (f r) = q_UserID r" for s w f
    by (rule blind, rule requeued [where f = f]) (use that in simp_all)
  have ins: "I (s\<lparr>ts_db := queue_update (\<lambda>_. queue (ts_db s) @ [r]) (ts_db s), ts_world := w\<rparr>)"
    if "I s" "uniq queue_keys (queue (ts_db s) @ [r])" "q_DraftID r = i" "q_UserID r = u"
      "filter (\<lambda>r. q_DraftID r = i) (queue (ts_db s)) = []" for s w r
    by (rule blind, rule enqueued [where r = r]) (use that in \<open>simp_all add: filter_empty_conv\<close>)
  have none: "map (\<lambda>r. if q_DraftID r = i then f r else r) xs = xs" if "filter (\<lambda>r. q_DraftID r = i) xs = []" for f xs
    using that by (induction xs) (auto split: if_splits)
  have "stays v I (in_txT (bindT (on_queue (t_update queue_keys (\<lambda>r. q_DraftID r = i) f)) (\<lambda>n.
      if n = 0 then bindT uuidT (\<lambda>j. thenT (on_queue (t_insert queue_keys (g j))) (retT ())) else retT ())))"
    if f: "\<And>r. q_ID (f r) = q_ID r \<and> q_DraftID (f r) = q_DraftID r \<and> q_UserID (f r) = q_UserID r"
      and g: "\<And>j. q_DraftID (g j) = i \<and> q_UserID (g j) = u" for f g
  proof (rule stays_I, rule wp_tx [OF alone])
    fix s w assume s: "I s"
    show "wpT (bindT (on_queue (t_update queue_keys (\<lambda>r. q_DraftID r = i) f)) (\<lambda>n.
        if n = 0 then bindT uuidT (\<lambda>j. thenT (on_queue (t_insert queue_keys (g j))) (retT ())) else retT ())) v
      (\<lambda>r s'. case r of Inl e \<Rightarrow> I (s'\<lparr>ts_db := ts_db s\<rparr>)
        | Inr x \<Rightarrow> (\<forall>w e. I (s'\<lparr>ts_world := w, ts_db := ts_db s\<rparr>)) \<and> (\<forall>w. I (s'\<lparr>ts_world := w\<rparr>))) (s\<lparr>ts_world := w\<rparr>)"
      unfolding putT_def wp_simps
      apply (rule wp_stmt [OF alone])
       apply (auto simp: blind s)[1]
      apply (auto simp: t_update_Some t_insert_Some wp_simps putT_def blind s f g none
        intro!: wp_core wp_stmt [OF alone] up ins split: sum.split)
      done
  qed (rule blind)
  then show ?thesis
    unfolding QueueScheduledSend_def
    apply (intro stay_intros)
    apply (simp add: d Let_def)
    done
qed

end

text \<open>A view that also bears the mailing of the draft.\<close>

locale send_view = queue_view +
  assumes mailed: "I s \<Longrightarrow> I (s\<lparr>m_calls := m_calls s @ [MailOut i l m b]\<rparr>)"
begin

lemma stays_send [stay_intros]: "stays v I (send_mail_of i l r)"
proof -
  have "I (s\<lparr>ts_world := w, m_calls := m_calls s @ [MailOut i l r b]\<rparr>)" if "I s" for s w b
    using mailed [OF blind [OF that, of w]] by simp
  then show ?thesis unfolding stays_def send_mail_of_def by (simp add: Let_def)
qed

lemma stays_or_build: "(\<And>r a m. stays v I (k r a m)) \<Longrightarrow> stays v I (or_build_error (BuildDraftSendRequest w l d) k)"
  unfolding or_build_error_def by (intro stay_intros)

lemma stays_send_now: "stays v I (send_draft_now w os p d)" if "d_ID d = i" for d
  unfolding send_draft_now_def v2SendWithAccount_def send_failed_def sent_at_once_def that
  by (intro stay_intros stays_or_build)

lemma stays_send_draft:
  assumes "d_ID d = i" "d_UserID d = u"
  shows "stays v I (send_draft w os p d)"
  unfolding send_draft_def schedule_draft_def hold_draft_def
  by (intro stay_intros stays_or_build stays_send_now stays_queue) (simp_all add: assms)

end

text \<open>A view that bears what the worker does with one item of the queue.\<close>

locale item_view = mail_view +
  fixes item :: ScheduledSendQueueItem
  assumes marked: "I s \<Longrightarrow> (\<And>r. q_ID (f r) = q_ID r \<and> q_DraftID (f r) = q_DraftID r \<and> q_UserID (f r) = q_UserID r) \<Longrightarrow>
      queue d = map (\<lambda>r. if q_ID r = q_ID item then f r else r) (queue (ts_db s)) \<Longrightarrow> owners d = owners (ts_db s) \<Longrightarrow> I (s\<lparr>ts_db := d\<rparr>)"
    and item_mailed: "I s \<Longrightarrow> I (s\<lparr>m_calls := m_calls s @ [MailOut (q_DraftID item) l m b]\<rparr>)"
begin

lemma stays_mark:
  assumes "\<And>r. q_ID (f r) = q_ID r \<and> q_DraftID (f r) = q_DraftID r \<and> q_UserID (f r) = q_UserID r"
  shows "stays v I (on_queue (t_update ks (\<lambda>r. q_ID r = q_ID item) f))"
  unfolding putT_def by (rule stays_stmt) (auto simp: t_update_Some intro!: marked [where f = f] assms)

lemma stays_marks [stay_intros]:
  "stays v I (MarkScheduledSendRetry (q_ID item) n t e)" "stays v I (MarkScheduledSendSent (q_ID item))"
  "stays v I (MarkScheduledSendFailed (q_ID item) e)"
  unfolding MarkScheduledSendRetry_def MarkScheduledSendSent_def MarkScheduledSendFailed_def
  by (intro stay_intros stays_mark; simp)+

lemma stays_give_up [stay_intros]: "stays v I (give_up item e)"
  unfolding give_up_def by (intro stay_intros)

lemma stays_or_give_up [stay_intros]:
  "stays v I reason \<Longrightarrow> stays v I m \<Longrightarrow> (\<And>x. stays v I (k x)) \<Longrightarrow> stays v I (or_give_up item reason m k)"
  unfolding or_give_up_def by (intro stay_intros)

lemma stays_item_send [stay_intros]: "stays v I (send_mail_of (q_DraftID item) l r)"
proof -
  have "I (s\<lparr>ts_world := w, m_calls := m_calls s @ [MailOut (q_DraftID item) l r b]\<rparr>)" if "I s" for s w b
    using item_mailed [OF blind [OF that, of w]] by simp
  then show ?thesis unfolding stays_def send_mail_of_def by (simp add: Let_def)
qed

lemma stays_item [stay_intros]: "stays v I (processScheduledSendItem item)"
  unfolding processScheduledSendItem_def sending_account_def deliver_def delivery_failed_def delivered_def mark_original_def
  by (intro stay_intros)

end

end
