(* ===== verification/DraftLaws.thy ===== *)
theory DraftLaws
  imports DraftViews
begin

text \<open>
  Drafts over time.  The operations of composing as one type, runs of them one after the other, and what each of them keeps,
  whatever statement fails: the rows of the queue belong to drafts of their users, and a draft that is not queued is not
  mailed; undoing makes a draft such a draft.  The views of \<^verbatim>\<open>DraftViews\<close> are interpreted on both properties.
\<close>

section \<open>Runs\<close>

datatype compose_op =
    ListSenders User | CreateSender User string "decode_err + senderMutationRequest"
  | UpdateSender User string "decode_err + senderMutationRequest" | DeleteSender User string
  | GetProfile User | UpdateProfile User "decode_err + senderMutationRequest"
  | ListAll User string string string | GetOne User string | GetFile User string string | GetVersions User string
  | Create User "decode_err + patch" | Update User string "decode_err + patch" | Delete User string
  | Upload User string "(upload_file list \<times> upload_file list \<times> string list) option" | DeleteFile User string string
  | Send User "Session option" string "decode_err + send_payload" | SendMessage User "Session option" "decode_err + send_message"
  | Undo User string | WorkerRound

fun perform :: "compose_op \<Rightarrow> resp Mb" where
  "perform (ListSenders u) = V2ListSenders u"
| "perform (CreateSender u i b) = V2CreateSender u i b"
| "perform (UpdateSender u i b) = V2UpdateSender u i b"
| "perform (DeleteSender u i) = V2DeleteSender u i"
| "perform (GetProfile u) = V2GetSessionMailProfile u"
| "perform (UpdateProfile u b) = V2UpdateSessionMailProfile u b"
| "perform (ListAll u p n a) = V2ListDrafts u p n a"
| "perform (GetOne u i) = V2GetDraft u i"
| "perform (GetFile u i a) = V2GetDraftAttachment u i a"
| "perform (GetVersions u i) = V2ListDraftVersions u i"
| "perform (Create u b) = V2CreateDraft u b"
| "perform (Update u i b) = V2UpdateDraft u i b"
| "perform (Delete u i) = V2DeleteDraft u i"
| "perform (Upload u i f) = V2UploadDraftAttachments u i f"
| "perform (DeleteFile u i a) = V2DeleteDraftAttachment u i a"
| "perform (Send u sess i b) = V2SendDraft u sess i b"
| "perform (SendMessage u sess b) = V2SendMessage u sess b"
| "perform (Undo u i) = V2UndoDraftSend u i"
| "perform WorkerRound = thenT processScheduledSends (retT (ok_resp 200))"

fun run_ops :: "compose_op list \<Rightarrow> menv \<Rightarrow> mstate \<Rightarrow> mstate" where
  "run_ops [] v s = s"
| "run_ops (op # ops) v s = run_ops ops v (snd (perform op v s))"

lemma compose_ops_keep:
  assumes "\<And>op. op \<in> set ops \<Longrightarrow> stays v I (perform op)" "I s"
  shows "I (run_ops ops v s)"
  using assms by (induction ops arbitrary: s) (auto simp: stays_def)

text \<open>An environment in which nobody else writes.\<close>

definition solo :: "menv \<Rightarrow> menv" where "solo v = v\<lparr>te_others := \<lambda>_ d. d\<rparr>"

lemma lone_solo [simp]: "lone (solo v)" by (simp add: lone_def solo_def)

lemma solo_lone: "lone v \<Longrightarrow> solo v = v" by (cases v) (simp add: lone_def solo_def)

section \<open>Idle drafts\<close>

abbreviation live :: "ScheduledSendQueueItem \<Rightarrow> bool" where "live r \<equiv> q_State r \<in> {''queued'', ''retrying''}"

definition mails_of :: "string \<Rightarrow> mail_call list \<Rightarrow> mail_call list" where
  "mails_of i calls = filter (\<lambda>c. case c of MailOut d _ _ _ \<Rightarrow> d = i | FlagAnswered _ _ \<Rightarrow> False) calls"

lemma mails_of_append [simp]: "mails_of i (xs @ ys) = mails_of i xs @ mails_of i ys" by (simp add: mails_of_def)
lemma mails_of_one [simp]: "mails_of i [MailOut d l r b] = (if d = i then [MailOut d l r b] else [])" "mails_of i [FlagAnswered a c] = []"
  by (simp_all add: mails_of_def)
lemma mails_of_Nil [simp]: "mails_of i [] = []" by (simp add: mails_of_def)

text \<open>The row of a draft, if there is one, will not be taken up by the worker and is none of the given items; the mails of
  the draft so far.\<close>

definition idle :: "string \<Rightarrow> string set \<Rightarrow> mail_call list \<Rightarrow> mstate \<Rightarrow> bool" where
  "idle i ids ms s \<longleftrightarrow> distinct (map q_ID (queue (ts_db s)))
     \<and> (\<forall>r \<in> set (queue (ts_db s)). q_DraftID r = i \<longrightarrow> \<not> live r \<and> q_ID r \<notin> ids) \<and> mails_of i (m_calls s) = ms"

lemma idle_world [simp]: "idle i ids ms (s\<lparr>ts_world := w\<rparr>) = idle i ids ms s" by (simp add: idle_def)

lemma comp_if: "(\<And>r. P r \<Longrightarrow> h (f r) = h r) \<Longrightarrow> h \<circ> (\<lambda>r. if P r then f r else r) = h"
  by auto

interpretation idle_drafts: draft_view "solo v" "idle i ids ms"
  by unfold_locales (auto simp: idle_def distinct_map_filter comp_if split: if_splits)

interpretation idle_sends: send_view "solo v" "\<lambda>s. j \<noteq> i \<longrightarrow> idle i ids ms s" j u
  by unfold_locales (auto simp: idle_def comp_if uniq_def queue_keys_def split: if_splits)

interpretation idle_items: item_view "solo v" "\<lambda>s. q_DraftID item \<noteq> i \<and> q_ID item \<in> ids \<longrightarrow> idle i ids ms s" item
  by unfold_locales (auto simp: idle_def distinct_map_filter comp_if split: if_splits)

text \<open>The operations that may mail a draft are its own sending and, for the empty name, a mail without a draft.\<close>

fun mails :: "string \<Rightarrow> compose_op \<Rightarrow> bool" where
  "mails i (Send u sess j b) \<longleftrightarrow> j = i"
| "mails i (SendMessage u sess b) \<longleftrightarrow> i = []"
| "mails i op \<longleftrightarrow> False"

lemma idle_send: "j \<noteq> i \<Longrightarrow> stays (solo v) (idle i ids ms) (V2SendDraft u sess j b)"
  unfolding V2SendDraft_def
  using idle_sends.stays_send_draft [where j = j and i = i and v = v and ids = ids and ms = ms]
  by (intro stays_body idle_drafts.stays_or_draft_of stays_wp) simp_all

lemma idle_message: "i \<noteq> [] \<Longrightarrow> stays (solo v) (idle i ids ms) (V2SendMessage u sess b)"
  using idle_sends.stays_send [where j = "[]" and i = i and v = v]
  unfolding V2SendMessage_def v2SendWithAccount_def by (intro stay_intros) auto

lemma idle_worker: "stays (solo v) (idle i {} ms) processScheduledSends"
proof (rule stays_I)
  fix s assume s: "idle i {} ms s"
  have each: "wpT (forT items (\<lambda>item. ignoreT (processScheduledSendItem item) (retT ()))) (solo v) (\<lambda>_. idle i {} ms) s'"
    if "set items \<subseteq> set (filter live (queue (ts_db s)))" "queue (ts_db s') = queue (ts_db s)" "m_calls s' = m_calls s" for items s'
  proof -
    let ?ids = "q_ID ` set items"
    have "q_ID r \<notin> ?ids" if "r \<in> set (queue (ts_db s))" "\<not> live r" for r
    proof
      assume "q_ID r \<in> ?ids"
      then obtain x where "x \<in> set items" "q_ID x = q_ID r" by auto
      then have "x = r" using \<open>set items \<subseteq> _\<close> s that(1) by (auto simp: idle_def distinct_map dest: inj_onD)
      then show False using \<open>x \<in> set items\<close> \<open>set items \<subseteq> _\<close> that(2) by auto
    qed
    then have "idle i ?ids ms s'" using s that by (auto simp: idle_def)
    moreover have "stays (solo v) (idle i ?ids ms) (forT items (\<lambda>item. ignoreT (processScheduledSendItem item) (retT ())))"
    proof (intro stay_intros)
      fix item assume "item \<in> set items"
      moreover from this have "q_DraftID item \<noteq> i" using s that(1) by (auto simp: idle_def)
      ultimately show "stays (solo v) (idle i ?ids ms) (processScheduledSendItem item)"
        using idle_items.stays_item [where item = item and i = i and ids = ?ids and ms = ms and v = v] by simp
    qed
    ultimately have "wpT (forT items (\<lambda>item. ignoreT (processScheduledSendItem item) (retT ()))) (solo v) (\<lambda>_. idle i ?ids ms) s'"
      by (rule stays_wp [rotated])
    then show ?thesis by (rule wp_mono) (auto simp: idle_def)
  qed
  show "wpT processScheduledSends (solo v) (\<lambda>_. idle i {} ms) s"
    unfolding processScheduledSends_def ListDueScheduledSends_def wp_simps
    by (rule wp_core)
      (auto simp: wp_simps s due_item_def split: sum.split intro!: wp_query each dest!: in_set_takeD)
qed

lemma idle_perform: "\<not> mails i op \<Longrightarrow> stays (solo v) (idle i {} ms) (perform op)"
  by (cases op) (auto intro!: stay_intros idle_send idle_message idle_worker)

section \<open>The queue belongs to the drafts\<close>

text \<open>At most one row of the queue for a draft, and each for a draft that its user has.\<close>

definition rooted :: "mstate \<Rightarrow> bool" where
  "rooted s \<longleftrightarrow> distinct (map q_ID (queue (ts_db s))) \<and> distinct (map q_DraftID (queue (ts_db s)))
     \<and> distinct (map fst (owners (ts_db s)))
     \<and> (\<forall>r \<in> set (queue (ts_db s)). (q_DraftID r, q_UserID r) \<in> set (owners (ts_db s)))"

interpretation rooted_drafts: draft_view "solo v" rooted
  by unfold_locales (auto simp: rooted_def distinct_map_filter comp_if split: if_splits)

interpretation rooted_sends: send_view "solo v" "\<lambda>s. rooted s \<and> (i, u) \<in> set (owners (ts_db s))" i u
  by unfold_locales (auto simp: rooted_def comp_if uniq_def queue_keys_def split: if_splits)

interpretation rooted_items: item_view "solo v" rooted item
  by unfold_locales (auto simp: rooted_def comp_if split: if_splits)

lemma rooted_send: "stays (solo v) rooted (V2SendDraft u sess i b)"
  unfolding V2SendDraft_def
proof (intro stays_body rooted_drafts.stays_or_draft_of)
  fix b d and s :: mstate assume a: "rooted s" "d \<in> set (drafts (ts_db s))" "d_ID d = i" "d_UserID d = u_ID u"
  then have "(i, u_ID u) \<in> set (owners (ts_db s))" by (force simp: owners_def)
  with a have "wpT (send_draft u sess b d) (solo v) (\<lambda>_ s. rooted s \<and> (i, u_ID u) \<in> set (owners (ts_db s))) s"
    by (intro stays_wp rooted_sends.stays_send_draft) simp_all
  then show "wpT (send_draft u sess b d) (solo v) (\<lambda>_. rooted) s" by (rule wp_mono) simp
qed

lemma rooted_message: "stays (solo v) rooted (V2SendMessage u sess b)"
proof -
  have "stays (solo v) rooted (send_mail_of i l r)" for i l r
    by (auto simp: stays_def send_mail_of_def Let_def rooted_def)
  then show ?thesis unfolding V2SendMessage_def v2SendWithAccount_def by (intro stay_intros)
qed

lemma rooted_worker: "stays (solo v) rooted processScheduledSends"
  unfolding processScheduledSends_def ListDueScheduledSends_def by (intro stay_intros)

lemma rooted_perform: "stays (solo v) rooted (perform op)"
  by (cases op) (auto intro!: stay_intros rooted_send rooted_message rooted_worker)

section \<open>Undo\<close>

lemma undo_idle:
  assumes "rooted s"
  shows "wpT (V2UndoDraftSend u i) (solo v) (\<lambda>r s1. \<forall>x. r = Inr x \<longrightarrow> rs_status x = 200 \<longrightarrow>
    idle (TrimSpace i) {} (mails_of (TrimSpace i) (m_calls s)) s1) s"
proof -
  let ?i = "TrimSpace i" and ?ms = "mails_of (TrimSpace i) (m_calls s)"
  have own: "q_UserID r = u_ID u" if "d \<in> set (drafts (ts_db s))" "d_ID d = ?i" "d_UserID d = u_ID u"
    "r \<in> set (queue (ts_db s))" "q_DraftID r = ?i" for d r
  proof -
    have "(?i, u_ID u) \<in> set (owners (ts_db s))" using that by (force simp: owners_def)
    moreover have "(?i, q_UserID r) \<in> set (owners (ts_db s))" using assms that by (auto simp: rooted_def)
    ultimately show ?thesis using assms by (auto simp: rooted_def dest: eq_key_imp_eq_value)
  qed
  have cancel: "wpT (CancelScheduledSendByDraftID (u_ID u) ?i) (solo v) (\<lambda>r s1. r = Inr () \<longrightarrow> idle ?i {} ?ms s1) (s\<lparr>ts_world := w\<rparr>)"
    if "d \<in> set (drafts (ts_db s))" "d_ID d = ?i" "d_UserID d = u_ID u" for d w
    unfolding CancelScheduledSendByDraftID_def wp_simps wp_found using assms own [OF that]
    by (intro wp_core)
      (auto simp: wp_simps wp_found idle_def rooted_def t_update_Some comp_if split: sum.split intro!: wp_put)
  have up: "wpT (UpdateDraft d) (solo v) (\<lambda>r s1. idle ?i {} ?ms s1) s'" if "idle ?i {} ?ms s'" for d s'
    by (rule stays_wp [OF idle_drafts.stays_drafts(2) that])
  show ?thesis
    unfolding V2UndoDraftSend_def or_draft_error_def GetDraftByID_def GetScheduledSendByDraftID_def Let_def wp_simps
    by (intro wp_row [OF lone_solo] wp_core)
      (auto simp: absent_or_def error_resp_def wp_simps split: sum.split dest!: find_in
        intro!: wp_row [OF lone_solo] wp_core wp_mono [OF cancel] wp_mono [OF up])
qed

end
