(* ===== verification/DraftDelivery.thy ===== *)
theory DraftDelivery
  imports DraftLaws
begin

text \<open>
  What the worker does with one item of the queue when the tables work, and from it the bounds on the mails of a draft;
  what signing and encrypting leave as it was.
\<close>

section \<open>One item\<close>

definition mail_outs :: "mail_call list \<Rightarrow> mail_call list" where
  "mail_outs calls = filter (\<lambda>c. case c of MailOut _ _ _ _ \<Rightarrow> True | FlagAnswered _ _ \<Rightarrow> False) calls"

lemma mail_outs_simps [simp]:
  "mail_outs (xs @ ys) = mail_outs xs @ mail_outs ys" "mail_outs [MailOut d l r b] = [MailOut d l r b]" "mail_outs [FlagAnswered l m] = []"
  by (simp_all add: mail_outs_def)

text \<open>A queue and the mails so far.\<close>

definition frozen :: "ScheduledSendQueueItem list \<Rightarrow> mail_call list \<Rightarrow> mstate \<Rightarrow> bool" where
  "frozen q c s \<longleftrightarrow> queue (ts_db s) = q \<and> mail_outs (m_calls s) = c"

lemma frozen_world [simp]: "frozen q c (s\<lparr>ts_world := w\<rparr>) = frozen q c s" by (simp add: frozen_def)

interpretation frozen_mail: mail_view "solo v" "frozen q c"
  by unfold_locales (auto simp: frozen_def)

lemma calm_solo: "calm v \<Longrightarrow> solo v = v" by (simp add: calm_lone solo_lone)

lemma still: "calm v \<Longrightarrow> stays (solo v) (frozen q c) m \<Longrightarrow> frozen q c s \<Longrightarrow> wpT m v (\<lambda>_. frozen q c) s"
  using stays_wp [of "solo v"] by (simp add: calm_solo)

text \<open>The queue once the row of the item has a new state, with the retries counted.\<close>

definition touched :: "ScheduledSendQueueItem \<Rightarrow> string \<Rightarrow> ScheduledSendQueueItem list \<Rightarrow> ScheduledSendQueueItem list \<Rightarrow> bool" where
  "touched item st q q' \<longleftrightarrow> (\<exists>f. (\<forall>r. q_ID (f r) = q_ID r \<and> q_DraftID (f r) = q_DraftID r \<and> q_UserID (f r) = q_UserID r \<and> q_State (f r) = st
       \<and> q_RetryCount (f r) = (if st = ''retrying'' then q_RetryCount item + 1 else q_RetryCount r))
     \<and> q' = map (\<lambda>r. if q_ID r = q_ID item then f r else r) q)"

lemma wp_touch:
  assumes "calm v" "distinct (map q_ID q)" "frozen q c s"
    "\<And>r. q_ID (f r) = q_ID r \<and> q_DraftID (f r) = q_DraftID r \<and> q_UserID (f r) = q_UserID r \<and> q_State (f r) = st
       \<and> q_RetryCount (f r) = (if st = ''retrying'' then q_RetryCount item + 1 else q_RetryCount r)"
  shows "wpT (foundT (on_queue (t_update queue_keys (\<lambda>r. q_ID r = q_ID item) f))) v (\<lambda>_ s'. \<exists>q'. touched item st q q' \<and> frozen q' c s') s"
proof -
  let ?q = "map (\<lambda>r. if q_ID r = q_ID item then f r else r) q"
  have "distinct (map q_ID ?q)" using assms(2) by (simp add: assms(4) comp_if)
  then have "t_update queue_keys (\<lambda>r. q_ID r = q_ID item) f q = Some (?q, int (length (filter (\<lambda>r. q_ID r = q_ID item) q)))"
    by (simp add: t_update_Some uniq_def queue_keys_def o_def distinct_map inj_on_def)
  moreover have "touched item st q ?q" unfolding touched_def using assms(4) by (intro exI [of _ f]) simp
  ultimately show ?thesis
    unfolding wp_found putT_def by (intro wp_stmt_calm [OF assms(1)]) (use assms(3) in \<open>auto simp: frozen_def\<close>)
qed

lemma wp_marks:
  assumes "calm v" "distinct (map q_ID q)" "frozen q c s"
  shows "wpT (MarkScheduledSendFailed (q_ID item) e) v (\<lambda>_ s'. \<exists>q'. touched item ''failed'' q q' \<and> frozen q' c s') s"
    "wpT (MarkScheduledSendSent (q_ID item)) v (\<lambda>_ s'. \<exists>q'. touched item ''sent'' q q' \<and> frozen q' c s') s"
    "wpT (MarkScheduledSendRetry (q_ID item) (q_RetryCount item + 1) t e) v (\<lambda>_ s'. \<exists>q'. touched item ''retrying'' q q' \<and> frozen q' c s') s"
  unfolding MarkScheduledSendFailed_def MarkScheduledSendSent_def MarkScheduledSendRetry_def wp_simps
  by (rule wp_now, simp, rule wp_touch; use assms in simp)+

text \<open>Nothing happened; the item was given up without a mail; a mail went out; a mail was refused, and the item is tried again or, the
  third time, given up.\<close>

definition outcome :: "ScheduledSendQueueItem \<Rightarrow> ScheduledSendQueueItem list \<Rightarrow> mail_call list \<Rightarrow> mstate \<Rightarrow> bool" where
  "outcome item q c s \<longleftrightarrow> frozen q c s \<or> (\<exists>q'. touched item ''failed'' q q' \<and> frozen q' c s)
     \<or> (\<exists>q' l req. touched item ''sent'' q q' \<and> frozen q' (c @ [MailOut (q_DraftID item) l req True]) s)
     \<or> (\<exists>q' l req. touched item (if q_RetryCount item + 1 \<ge> 3 then ''failed'' else ''retrying'') q q'
          \<and> frozen q' (c @ [MailOut (q_DraftID item) l req False]) s)"

lemma wp_still: "calm v \<Longrightarrow> stays (solo v) (frozen q c) m \<Longrightarrow> frozen q c s \<Longrightarrow> (\<And>r s'. frozen q c s' \<Longrightarrow> Q r s') \<Longrightarrow> wpT m v Q s"
  by (rule wp_mono [OF still])

lemma wp_give_up:
  assumes "calm v" "distinct (map q_ID q)" "frozen q c s"
  shows "wpT (give_up item e) v (\<lambda>_ s'. \<exists>q'. touched item ''failed'' q q' \<and> frozen q' c s') s"
  unfolding give_up_def wp_simps
  by (rule wp_mono [OF wp_marks(1) [OF assms]]) (auto intro!: wp_still [OF assms(1) frozen_mail.stays_draft_state(1)])

lemma wp_give_up_outcome:
  assumes "calm v" "distinct (map q_ID q)" "frozen q c s"
  shows "wpT (give_up item e) v (\<lambda>_. outcome item q c) s"
  by (rule wp_mono [OF wp_give_up [OF assms]]) (auto simp: outcome_def)

lemma wp_or_give_up:
  assumes "calm v" "distinct (map q_ID q)" "frozen q c s" "stays (solo v) (frozen q c) m" "stays (solo v) (frozen q c) reason"
    "\<And>x s'. frozen q c s' \<Longrightarrow> wpT (k x) v (\<lambda>_. outcome item q c) s'"
  shows "wpT (or_give_up item reason m k) v (\<lambda>_. outcome item q c) s"
proof -
  have still: "outcome item q c s'" if "frozen q c s'" for s' using that by (simp add: outcome_def)
  show ?thesis
    unfolding or_give_up_def wp_simps
    by (rule wp_still [OF assms(1,4,3)])
      (auto simp: wp_simps still split: sum.split intro!: assms(6) wp_still [OF assms(1,5)] wp_give_up_outcome assms(1,2))
qed

lemma wp_mail:
  assumes "frozen q c s" "\<And>s' x. frozen q (c @ [MailOut i l req True]) s' \<Longrightarrow> Q (Inr x) s'"
    "\<And>s' e. frozen q (c @ [MailOut i l req False]) s' \<Longrightarrow> Q (Inl e) s'"
  shows "wpT (send_mail_of i l req) v Q s"
  using assms by (auto simp: wpT_def send_mail_of_def Let_def frozen_def split: option.split)

lemma wp_delivered:
  assumes "calm v" "distinct (map q_ID q)" "frozen q c s"
  shows "wpT (delivered item login draft b) v (\<lambda>_ s'. \<exists>q'. touched item ''sent'' q q' \<and> frozen q' c s') s"
proof -
  have "wpT (if b \<and> TrimSpace (d_ContextMessageID draft) \<noteq> [] then mark_original (q_UserID item) login draft else retT ()) v (\<lambda>_. frozen q' c) s'"
    if "frozen q' c s'" for q' s'
    unfolding mark_original_def Let_def by (rule still [OF assms(1) _ that]) (intro stay_intros)
  then show ?thesis
    unfolding delivered_def wp_simps
    by (intro wp_mono [OF wp_marks(2) [OF assms]])
      (elim exE conjE, rule wp_still [OF assms(1) frozen_mail.stays_draft_state(1)], assumption, rule wp_mono, blast+)
qed

lemma wp_delivery_failed:
  assumes "calm v" "distinct (map q_ID q)" "frozen q c s"
  shows "wpT (delivery_failed item e) v (\<lambda>_ s'. \<exists>q'. touched item (if q_RetryCount item + 1 \<ge> 3 then ''failed'' else ''retrying'') q q' \<and> frozen q' c s') s"
  unfolding delivery_failed_def Let_def
  using wp_give_up [OF assms, of item e] assms
  by (auto simp: wp_simps intro!: wp_now wp_mono [OF wp_marks(3)] wp_still [OF assms(1) frozen_mail.stays_draft_state(1)]; blast)

lemma wp_deliver:
  assumes "calm v" "distinct (map q_ID q)" "frozen q c s"
  shows "wpT (deliver item draft login req b) v (\<lambda>_. outcome item q c) s"
  unfolding deliver_def wp_simps
  by (rule wp_mail [OF assms(3)])
    (simp add: wp_simps, (rule wp_mono [OF wp_delivered [OF assms(1,2)]] | rule wp_mono [OF wp_delivery_failed [OF assms(1,2)]]), assumption,
      simp only: outcome_def, blast)+

lemma wp_item:
  assumes "calm v" "distinct (map q_ID q)" "frozen q c s"
  shows "wpT (processScheduledSendItem item) v (\<lambda>_. outcome item q c) s"
proof -
  have still: "outcome item q c s'" if "frozen q c s'" for s' using that by (simp add: outcome_def)
  have missing: "wpT (MarkScheduledSendFailed (q_ID item) e) v (\<lambda>_. outcome item q c) s'" if "frozen q c s'" for e s'
    by (rule wp_mono [OF wp_marks(1) [OF assms(1,2) that]]) (auto simp: outcome_def)
  have sending: "wpT (sending_account item a i (\<lambda>login. deliver item draft login req b)) v (\<lambda>_. outcome item q c) s'"
    if "frozen q c s'" for a i draft req b s'
    unfolding sending_account_def Let_def
    by (auto simp: wp_simps still that assms(1,2) split: sum.split
      intro!: wp_or_give_up wp_deliver wp_still [OF assms(1) frozen_mail.stays_secrets(1)] stay_intros)
  show ?thesis
    unfolding processScheduledSendItem_def wp_simps
    by (rule wp_still [OF assms(1) frozen_mail.stays_drafts(1) assms(3)])
      (auto simp: wp_simps assms(1,2) split: sum.split
        intro!: still wp_mono [OF missing] wp_or_give_up wp_give_up_outcome sending stay_intros
          wp_still [OF assms(1) frozen_mail.stays_secrets(1)] wp_still [OF assms(1) frozen_mail.stays_core])
qed

section \<open>Bounds\<close>

text \<open>The attempts and the successes a row still allows.\<close>

definition tries :: "string \<Rightarrow> ScheduledSendQueueItem \<Rightarrow> nat" where
  "tries i r = (if q_DraftID r = i \<and> live r then nat (max 1 (3 - q_RetryCount r)) else 0)"

definition wins :: "string \<Rightarrow> ScheduledSendQueueItem \<Rightarrow> nat" where
  "wins i r = (if q_DraftID r = i \<and> live r then 1 else 0)"

lemma one_to_three [simp]: "Suc 0 \<le> nat (max 1 x)" "0 \<le> c \<Longrightarrow> nat (max 1 (3 - c)) \<le> 3" by linarith+

text \<open>The mails of a draft with the attempts left, and those that went out with the successes left.\<close>

definition bounded :: "string \<Rightarrow> nat \<Rightarrow> nat \<Rightarrow> mstate \<Rightarrow> bool" where
  "bounded i a b s \<longleftrightarrow> distinct (map q_ID (queue (ts_db s)))
     \<and> length (mails_of i (m_calls s)) + sum_list (map (tries i) (queue (ts_db s))) \<le> a
     \<and> length (filter mo_ok (mails_of i (m_calls s))) + sum_list (map (wins i) (queue (ts_db s))) \<le> b"

lemma sum_one_changed:
  assumes "distinct (map q_ID q)" "item \<in> set q"
  shows "sum_list (map h (map (\<lambda>r. if q_ID r = q_ID item then f r else r) q)) + h item = sum_list (map h q) + (h (f item) :: nat)"
  using assms
proof (induction q)
  case (Cons r q)
  show ?case
  proof (cases "r = item")
    case True
    then have "map (\<lambda>r. if q_ID r = q_ID item then f r else r) q = q" using Cons.prems by (intro map_idI) (auto simp: image_iff)
    then show ?thesis using True by simp
  next
    case False
    then have "q_ID r \<noteq> q_ID item" using Cons.prems by (auto simp: image_iff)
    then show ?thesis using Cons False by simp
  qed
qed simp

lemma sum_list_le: "(\<And>r. r \<in> set q \<Longrightarrow> g (f r) \<le> (h r :: nat)) \<Longrightarrow> sum_list (map g (map f q)) \<le> sum_list (map h q)"
  by (induction q) (auto intro: add_mono)

lemma sum_list_filter_le: "sum_list (map (g :: 'a \<Rightarrow> nat) (filter P q)) \<le> sum_list (map g q)"
  by (induction q) auto

lemma bounded_mono:
  assumes "bounded i a b s" "distinct (map q_ID (queue d))" "sum_list (map (tries i) (queue d)) \<le> sum_list (map (tries i) (queue (ts_db s)))"
    "sum_list (map (wins i) (queue d)) \<le> sum_list (map (wins i) (queue (ts_db s)))"
  shows "bounded i a b (s\<lparr>ts_db := d\<rparr>)"
  using assms by (simp add: bounded_def)

lemma mails_of_outs: "mails_of i calls = mails_of i (mail_outs calls)"
  by (auto simp: mails_of_def mail_outs_def filter_filter split: mail_call.split intro!: filter_cong)

interpretation bounded_drafts: draft_view "solo v" "bounded i a b"
proof unfold_locales
  fix s j u and d :: mdb assume s: "bounded i a b s" and q: "queue d = filter (\<lambda>r. q_DraftID r \<noteq> j) (queue (ts_db s))"
  then show "bounded i a b (s\<lparr>ts_db := d\<rparr>)"
    by (intro bounded_mono [OF s]) (simp_all add: q sum_list_filter_le distinct_map_filter bounded_def)
next
  fix s j u t and d :: mdb assume s: "bounded i a b s" and q: "queue d = map (\<lambda>r. if q_UserID r = u \<and> q_DraftID r = j
      then r\<lparr>q_State := ''canceled'', q_NextRetryAt := None, q_LastError := [], q_UpdatedAt := t\<rparr> else r) (queue (ts_db s))"
  show "bounded i a b (s\<lparr>ts_db := d\<rparr>)"
  proof (rule bounded_mono [OF s])
    show "distinct (map q_ID (queue d))" using s by (simp add: q comp_if bounded_def)
  qed (unfold q; rule sum_list_le; simp add: tries_def wins_def)+
qed (auto simp: bounded_def)

interpretation bounded_sends: send_view "solo v" "\<lambda>s. j \<noteq> i \<longrightarrow> bounded i a b s" j u
proof unfold_locales
  fix s f and d :: mdb assume s: "j \<noteq> i \<longrightarrow> bounded i a b s" and f: "\<And>r. q_ID (f r) = q_ID r \<and> q_DraftID (f r) = q_DraftID r \<and> q_UserID (f r) = q_UserID r"
    and q: "queue d = map (\<lambda>r. if q_DraftID r = j then f r else r) (queue (ts_db s))"
  show "j \<noteq> i \<longrightarrow> bounded i a b (s\<lparr>ts_db := d\<rparr>)"
  proof
    assume j: "j \<noteq> i"
    from s j have s: "bounded i a b s" by simp
    show "bounded i a b (s\<lparr>ts_db := d\<rparr>)"
    proof (rule bounded_mono [OF s])
      show "distinct (map q_ID (queue d))" using s f by (simp add: q comp_if bounded_def)
    qed (unfold q; rule sum_list_le; use j f in \<open>simp add: tries_def wins_def\<close>)+
  qed
qed (auto simp: bounded_def uniq_def queue_keys_def tries_def wins_def)

lemma outcome_bounded:
  assumes "bounded i a b s" "item \<in> set (queue (ts_db s))" "live item" "outcome item (queue (ts_db s)) (mail_outs (m_calls s)) s'"
  shows "bounded i a b s'"
proof -
  let ?q = "queue (ts_db s)" and ?c = "mail_outs (m_calls s)"
  have ids: "distinct (map q_ID ?q)" using assms(1) by (simp add: bounded_def)
  have goal: "bounded i a b s'" if t: "touched item st ?q q'" and "frozen q' (?c @ m) s'"
    "length (mails_of i m) + tries i (item\<lparr>q_State := st, q_RetryCount := n\<rparr>) \<le> tries i item"
    "length (filter mo_ok (mails_of i m)) + wins i (item\<lparr>q_State := st\<rparr>) \<le> wins i item"
    "n = (if st = ''retrying'' then q_RetryCount item + 1 else q_RetryCount item)" for st q' m n
  proof -
    obtain f where f: "\<forall>r. q_ID (f r) = q_ID r \<and> q_DraftID (f r) = q_DraftID r \<and> q_UserID (f r) = q_UserID r \<and> q_State (f r) = st
        \<and> q_RetryCount (f r) = (if st = ''retrying'' then q_RetryCount item + 1 else q_RetryCount r)"
      and q': "q' = map (\<lambda>r. if q_ID r = q_ID item then f r else r) ?q" using t unfolding touched_def by blast
    have "distinct (map q_ID q')" using ids f by (simp add: q' comp_if)
    moreover have "tries i (f item) = tries i (item\<lparr>q_State := st, q_RetryCount := n\<rparr>)" "wins i (f item) = wins i (item\<lparr>q_State := st\<rparr>)"
      using f that(5) by (simp_all add: tries_def wins_def)
    moreover note sum_one_changed [OF ids assms(2), where f = f and h = "tries i"] sum_one_changed [OF ids assms(2), where f = f and h = "wins i"]
    ultimately show ?thesis
      using that(2-4) assms(1) mails_of_outs [of i "m_calls s"] mails_of_outs [of i "m_calls s'"]
      by (simp add: bounded_def frozen_def q' [symmetric])
  qed
  from assms(4) consider "frozen ?q ?c s'" | q' where "touched item ''failed'' ?q q'" "frozen q' ?c s'"
    | q' l req where "touched item ''sent'' ?q q'" "frozen q' (?c @ [MailOut (q_DraftID item) l req True]) s'"
    | q' l req where "touched item (if q_RetryCount item + 1 \<ge> 3 then ''failed'' else ''retrying'') ?q q'"
        "frozen q' (?c @ [MailOut (q_DraftID item) l req False]) s'"
    unfolding outcome_def by blast
  then show ?thesis
  proof cases
    case 1
    then show ?thesis using assms(1) mails_of_outs [of i "m_calls s"] mails_of_outs [of i "m_calls s'"]
      by (simp add: bounded_def frozen_def)
  next
    case 2
    then show ?thesis using goal [of "''failed''" q' "[]"] by (simp add: tries_def wins_def)
  next
    case 3
    then show ?thesis using goal [OF 3, of "q_RetryCount item"] assms(3)
      by (cases "q_DraftID item = i") (simp_all add: tries_def wins_def)
  next
    case 4
    show ?thesis
    proof (cases "q_RetryCount item + 1 \<ge> 3")
      case True
      then show ?thesis using goal [of "''failed''" q' _ "q_RetryCount item", OF _ 4(2)] 4(1) assms(3)
        by (cases "q_DraftID item = i") (simp_all add: tries_def wins_def)
    next
      case False
      then have "nat (max 1 (3 - (q_RetryCount item + 1))) + 1 \<le> nat (max 1 (3 - q_RetryCount item))" by linarith
      then show ?thesis using goal [of "''retrying''" q' _ "q_RetryCount item + 1", OF _ 4(2)] 4(1) assms(3) False
        by (cases "q_DraftID item = i") (simp_all add: tries_def wins_def)
    qed
  qed
qed

lemma bounded_items:
  assumes "calm v" "distinct items"
  shows "bounded i a b s \<Longrightarrow> set items \<subseteq> set (filter live (queue (ts_db s))) \<Longrightarrow>
    wpT (forT items (\<lambda>item. ignoreT (processScheduledSendItem item) (retT ()))) v (\<lambda>_. bounded i a b) s"
  using assms(2)
proof (induction items arbitrary: s)
  case (Cons x xs)
  let ?q = "queue (ts_db s)"
  have ids: "distinct (map q_ID ?q)" using Cons.prems(1) by (simp add: bounded_def)
  have rest: "set xs \<subseteq> set (filter live (queue (ts_db s')))" if "outcome x ?q (mail_outs (m_calls s)) s'" for s'
  proof
    fix y assume y: "y \<in> set xs"
    then have "y \<noteq> x" "y \<in> set ?q" "x \<in> set ?q" "live y" using Cons.prems(2,3) by auto
    moreover then have "q_ID y \<noteq> q_ID x" using ids by (auto simp: distinct_map dest: inj_onD)
    ultimately show "y \<in> set (filter live (queue (ts_db s')))"
      using that by (auto simp: outcome_def frozen_def touched_def image_iff)
  qed
  show ?case
    unfolding forT.simps wp_simps
    by (rule wp_mono [OF wp_item [OF assms(1) ids, of "mail_outs (m_calls s)"]])
      (use Cons.prems in \<open>auto simp: frozen_def intro!: Cons.IH rest outcome_bounded [where item = x and s = s]\<close>)
qed (simp add: wp_simps)

lemma bounded_worker:
  assumes "calm v" "bounded i a b s"
  shows "wpT processScheduledSends v (\<lambda>_. bounded i a b) s"
  unfolding processScheduledSends_def ListDueScheduledSends_def wp_simps
  using assms
  by (intro wp_now)
    (auto simp: wp_simps due_item_def bounded_def distinct_map calm_lone intro!: wp_query_calm bounded_items distinct_take dest!: in_set_takeD)

lemma bounded_perform:
  assumes "calm v" "\<not> mails i op"
  shows "stays v (bounded i a b) (perform op)"
proof -
  have v: "solo v = v" by (rule calm_solo [OF assms(1)])
  have send: "stays (solo v) (bounded i a b) (V2SendDraft u sess j p)" if "j \<noteq> i" for u sess j p
    using bounded_sends.stays_send_draft [where j = j and i = i and v = v and a = a and b = b] that
    unfolding V2SendDraft_def by (intro stays_body bounded_drafts.stays_or_draft_of stays_wp) simp_all
  have message: "stays (solo v) (bounded i a b) (V2SendMessage u sess p)" if "i \<noteq> []" for u sess p
    using bounded_sends.stays_send [where j = "[]" and i = i and v = v and a = a and b = b] that
    unfolding V2SendMessage_def v2SendWithAccount_def by (intro stay_intros) auto
  have worker: "stays (solo v) (bounded i a b) processScheduledSends"
    using assms by (intro stays_I) (simp add: v bounded_worker)
  have "stays (solo v) (bounded i a b) (perform op)"
    using assms by (cases op) (auto intro!: stay_intros send message worker)
  then show ?thesis by (simp add: v)
qed

lemma sum_one_row: "distinct (map q_DraftID q) \<Longrightarrow> (\<And>r. r \<in> set q \<Longrightarrow> q_DraftID r = i \<Longrightarrow> h r \<le> (m :: nat)) \<Longrightarrow>
    (\<And>r. q_DraftID r \<noteq> i \<Longrightarrow> h r = 0) \<Longrightarrow> sum_list (map h q) \<le> m"
proof (induction q)
  case (Cons r q)
  show ?case
  proof (cases "q_DraftID r = i")
    case True
    then have "\<forall>x \<in> set q. h x = 0" using Cons.prems by (auto simp: image_iff)
    then have "sum_list (map h q) = 0" by (induction q) auto
    moreover have "h r \<le> m" using Cons.prems(2) True by simp
    ultimately show ?thesis by (simp only: list.map sum_list.Cons add_0_right)
  qed (use Cons in simp)
qed simp

section \<open>Signing and encrypting\<close>

text \<open>What an operation yields when it yields something.\<close>

definition yields :: "menv \<Rightarrow> ('a \<Rightarrow> bool) \<Rightarrow> 'a Mb \<Rightarrow> bool" where
  "yields v P m \<longleftrightarrow> (\<forall>s. wpT m v (\<lambda>r _. \<forall>x. r = Inr x \<longrightarrow> P x) s)"

lemma wp_True: "wpT m v (\<lambda>_ _. True) s" by (simp add: wpT_def split: prod.split)

lemma yields_ret: "P x \<Longrightarrow> yields v P (retT x)" by (simp add: yields_def wp_simps)
lemma yields_fail: "yields v P (failT e)" by (simp add: yields_def wp_simps)

lemma yields_bind: "(\<And>x. yields v P (k x)) \<Longrightarrow> yields v P (bindT m k)"
  by (auto simp: yields_def wp_simps split: sum.split intro!: wp_mono [OF wp_True])

lemma yields_then: "yields v P k \<Longrightarrow> yields v P (thenT m k)"
  unfolding thenT_def by (rule yields_bind)

lemma yields_Let: "(\<And>x. x = z \<Longrightarrow> yields v P (k x)) \<Longrightarrow> yields v P (Let z k)" by (simp add: Let_def)

lemma yields_if: "(b \<Longrightarrow> yields v P m) \<Longrightarrow> (\<not> b \<Longrightarrow> yields v P k) \<Longrightarrow> yields v P (if b then m else k)" by simp

lemma yields_case: "yields v P m \<Longrightarrow> (\<And>x. yields v P (k x)) \<Longrightarrow> yields v P (case z of None \<Rightarrow> m | Some x \<Rightarrow> k x)"
  "(\<And>x y. yields v P (h x y)) \<Longrightarrow> yields v P (case c of (x, y) \<Rightarrow> h x y)"
  by (simp_all split: option.split prod.split)

lemma yields_mono: "yields v P m \<Longrightarrow> (\<And>x. P x \<Longrightarrow> Q x) \<Longrightarrow> yields v Q m"
  unfolding yields_def by (blast intro: wp_mono)

lemmas yield_intros = yields_ret yields_fail yields_bind yields_then yields_Let yields_if yields_case

lemma wp_stays_yields:
  assumes "stays v I m" "yields v P m" "I s" "\<And>r s'. I s' \<Longrightarrow> (\<And>x. r = Inr x \<Longrightarrow> P x) \<Longrightarrow> Q r s'"
  shows "wpT m v Q s"
  by (rule wp_mono [OF wp_conj [OF stays_wp [OF assms(1,3)]]]) (use assms(2,4) in \<open>auto simp: yields_def\<close>)

text \<open>The texts of a request are those of the draft.\<close>

definition plain :: "Draft \<Rightarrow> SendRequest \<Rightarrow> bool" where
  "plain d req \<longleftrightarrow> mr_Subject req = d_Subject d \<and> mr_Body req = d_BodyText d \<and> mr_BodyHTML req = d_BodyHTML d"

definition plain_html :: "Draft \<Rightarrow> SendRequest \<Rightarrow> bool" where
  "plain_html d req \<longleftrightarrow> mr_Subject req = d_Subject d \<and> mr_BodyHTML req = d_BodyHTML d"

lemma build_plain: "yields v (\<lambda>(req, _). plain d req) (BuildDraftSendRequest u l d)"
  unfolding BuildDraftSendRequest_def
  by (intro yield_intros) (simp_all add: plain_def draft_request_def with_reply_headers_def split: prod.split)

lemma crypto_body_only: "yields v (\<lambda>x. \<exists>b. x = req\<lparr>mr_Body := b\<rparr>) (applyCryptoToSendRequest u a req j p)"
  unfolding applyCryptoToSendRequest_def
  by (intro yield_intros) (auto intro: exI [of _ "mr_Body req"])

text \<open>The calls since then, the mails among them with requests that satisfy \<open>P\<close>.\<close>

definition since :: "mail_call list \<Rightarrow> (SendRequest \<Rightarrow> bool) \<Rightarrow> mstate \<Rightarrow> bool" where
  "since c P s \<longleftrightarrow> (\<exists>n. m_calls s = c @ n \<and> (\<forall>x \<in> set n. \<forall>i l req b. x = MailOut i l req b \<longrightarrow> P req))"

lemma since_world [simp]: "since c P (s\<lparr>ts_world := w\<rparr>) = since c P s" "since c P (s\<lparr>ts_db := d\<rparr>) = since c P s"
  by (simp_all add: since_def)

lemma since_more: "since c P s \<Longrightarrow> (\<And>i l req b. x = MailOut i l req b \<Longrightarrow> P req) \<Longrightarrow> since c P (s\<lparr>m_calls := m_calls s @ [x]\<rparr>)"
  by (auto simp: since_def)

lemma since_start: "since (m_calls s) P s" by (simp add: since_def)

interpretation since_drafts: draft_view "solo v" "since c P"
  by unfold_locales (auto intro!: since_more)

interpretation since_queue: queue_view "solo v" "since c P" i u
  by unfold_locales simp_all

lemma since_send: "P req \<Longrightarrow> stays v (since c P) (send_mail_of i l req)"
  by (auto simp: stays_def send_mail_of_def Let_def since_def)

lemma stays_try_yields:
  assumes "stays v I m" "yields v P m" "\<And>e. stays v I (k (Inl e))" "\<And>x. P x \<Longrightarrow> stays v I (k (Inr x))"
  shows "stays v I (tryT m k)"
proof (rule stays_I)
  fix s assume "I s"
  then show "wpT (tryT m k) v (\<lambda>_. I) s"
    unfolding wp_simps by (rule wp_stays_yields [OF assms(1,2)]) (metis assms(3,4) stays_wp sum.exhaust)
qed

lemma stays_bind_yields: "stays v I m \<Longrightarrow> yields v P m \<Longrightarrow> (\<And>x. P x \<Longrightarrow> stays v I (k x)) \<Longrightarrow> stays v I (bindT m k)"
  unfolding bindT_def by (erule (1) stays_try_yields) (simp_all add: stays_fail)

lemma stays_or_yields: "stays v I m \<Longrightarrow> yields v P m \<Longrightarrow> (\<And>x. P x \<Longrightarrow> stays v I (k x)) \<Longrightarrow> stays v I (orT m f k)"
  unfolding orT_def by (erule (1) stays_try_yields) (simp_all add: stays_ret)

lemma since_now: "stays (solo v) (since c (plain_html d)) (send_draft_now u sess p d)"
proof -
  have pref: "yields v (plain_html d) (prefer_sent l req)" if "plain_html d req" for v l req
    using that unfolding prefer_sent_def by (intro yield_intros) (simp add: plain_html_def given_def split: option.split)
  have send: "stays (solo v) (since c (plain_html d)) (bindT (prefer_sent l req) (send_mail_of i l))" if "plain_html d req" for i l req
    by (rule stays_bind_yields [OF since_drafts.stays_secrets(3) pref [OF that]]) (rule since_send)
  have mail: "stays (solo v) (since c (plain_html d)) (v2SendWithAccount u sess i a req)" if "plain_html d req" for i a req
  proof -
    let ?h = "firstNonEmptyString [mr_HeaderFromEmail req, mr_From req, TrimSpace (MailIdentity u)]"
    let ?e = "firstNonEmptyString [mr_EnvelopeFrom req, ?h, TrimSpace (MailIdentity u)]"
    have "plain_html d (req\<lparr>mr_HeaderFromEmail := ?h, mr_EnvelopeFrom := ?e, mr_From := ?h\<rparr>)"
      using that by (simp add: plain_html_def)
    note send = send [OF this]
    have "stays (solo v) (since c (plain_html d)) (tryT (account_secret acc) (\<lambda>r. case r of
        Inl _ \<Rightarrow> failT (ErrMsg ''cannot decrypt account secret'')
      | Inr _ \<Rightarrow> bindT (prefer_sent (ma_Login acc) (req\<lparr>mr_HeaderFromEmail := ?h, mr_EnvelopeFrom := ?e, mr_From := ?h\<rparr>))
          (send_mail_of i (ma_Login acc))))" for acc
      by (intro stays_try since_drafts.stays_secrets stays_case_sum stays_fail send)
    then show ?thesis unfolding v2SendWithAccount_def Let_def
      by (intro stays_if stays_then since_drafts.stays_secrets send stays_bind [OF since_drafts.stays_core])
  qed
  have sealed: "yields v (plain_html d) (applyCryptoToSendRequest u a req j w)" if "plain d req" for v a req j w
    by (rule yields_mono [OF crypto_body_only]) (use that in \<open>auto simp: plain_def plain_html_def\<close>)
  have "stays (solo v) (since c (plain_html d)) (orT (applyCryptoToSendRequest u a req j w) f (\<lambda>sealed.
      tryT (v2SendWithAccount u sess i a sealed) (\<lambda>r. case r of Inl e \<Rightarrow> send_failed u d e | Inr _ \<Rightarrow> sent_at_once u sess d b)))"
    if "plain d req" for a req j w f i b
    unfolding send_failed_def sent_at_once_def
    by (rule stays_or_yields [OF since_drafts.stays_crypto sealed [OF that]]) (intro stay_intros mail)
  then show ?thesis
    unfolding send_draft_now_def or_build_error_def Let_def
    by (intro stays_try_yields [OF since_drafts.stays_build build_plain]) (auto intro!: stays_bind stays_ask stays_ret)
qed

lemma since_item:
  assumes "find (\<lambda>d. d_UserID d = q_UserID item \<and> d_ID d = q_DraftID item) (drafts (ts_db s)) = Some d"
  shows "wpT (processScheduledSendItem item) (solo v) (\<lambda>_. since (m_calls s) (plain d)) s"
proof -
  let ?I = "since (m_calls s) (plain d)"
  have marks: "stays (solo v) ?I (on_queue f)" for f
    unfolding putT_def by (rule since_drafts.stays_stmt) simp
  have give: "stays (solo v) ?I (give_up item e)" for e
    unfolding give_up_def MarkScheduledSendFailed_def by (intro stay_intros marks)
  have deliver: "stays (solo v) ?I (deliver item d l req b)" if "plain d req" for l req b
    unfolding deliver_def delivery_failed_def delivered_def MarkScheduledSendSent_def MarkScheduledSendRetry_def mark_original_def
    by (intro stay_intros marks give since_send that)
  have or_give: "stays (solo v) ?I reason \<Longrightarrow> stays (solo v) ?I m \<Longrightarrow> yields (solo v) P m \<Longrightarrow> (\<And>x. P x \<Longrightarrow> stays (solo v) ?I (k x)) \<Longrightarrow>
      stays (solo v) ?I (or_give_up item reason m k)" for reason and m :: "'x Mb" and P k
    unfolding or_give_up_def by (rule stays_try_yields [where P = P]) (auto intro!: stays_if stays_bind stays_fail give)
  have any: "yields w (\<lambda>_. True) m" for w m by (simp add: yields_def wp_True)
  have sending: "stays (solo v) ?I (sending_account item a i (\<lambda>l. deliver item d l req b))" if "plain d req" for a i req b
    unfolding sending_account_def Let_def
    by (intro stays_if or_give [OF _ _ any] stays_then deliver that stay_intros)
  have "stays (solo v) ?I (or_give_up item (retT ''mail account not found'') (coreT (GetMailAccountByID (q_UserID item) (q_AccountID item))) (\<lambda>queueAccount.
         bindT (coreT (GetUserByID (q_UserID item))) (\<lambda>user.
         thenT (account_secret queueAccount)
         (or_give_up item (askT (\<lambda>v. me_error v ErrNotFound)) (BuildDraftSendRequest user (ma_Login queueAccount) d)
           (\<lambda>(req, sendAccountID, markAnswered).
          if recipients req = [] then give_up item ''no recipients''
          else sending_account item queueAccount sendAccountID (\<lambda>login. deliver item d login req markAnswered))))))"
    by (intro or_give [OF _ _ any] stays_bind stays_then or_give [OF _ _ build_plain] since_drafts.stays_core since_drafts.stays_secrets
      since_drafts.stays_build stays_ask stays_ret) (auto intro!: give sending)
  note found = stays_wp [OF this]
  have missing: "stays (solo v) ?I (ignoreT (MarkScheduledSendFailed (q_ID item) e) (retT ()))" for e
    unfolding MarkScheduledSendFailed_def by (intro stay_intros marks)
  show ?thesis
    unfolding processScheduledSendItem_def GetDraftByID_def wp_try
    by (rule wp_row [OF lone_solo])
      (auto simp: wp_fail assms since_start intro!: stays_wp [OF missing] found)
qed

end
