(* ===== verification/TableDemo.thy ===== *)
theory TableDemo
  imports TableRun Demo
begin

text \<open>
  What the concrete runs over tables share: how operations are evaluated, a user and a stored secret that decrypts.
\<close>

text \<open>For evaluation an operation is unfolded only when it is run, not inside the continuation of another one.\<close>

lemmas table_code [code] =
  bindT_def [THEN fun_cong, THEN fun_cong] thenT_def [THEN fun_cong, THEN fun_cong]
  ignoreT_def [THEN fun_cong, THEN fun_cong] queryT_def [THEN fun_cong, THEN fun_cong]
  rowT_def [THEN fun_cong, THEN fun_cong] putT_def [THEN fun_cong, THEN fun_cong] foundT_def [THEN fun_cong, THEN fun_cong]
  with_bodyT_def [THEN fun_cong, THEN fun_cong] orT_def [THEN fun_cong, THEN fun_cong]

abbreviation demo_secret :: string where "demo_secret \<equiv> ''AAAAAAAAAAAAAAAA''"

lemma demo_secret_bytes: "RawURLDecode demo_secret = Some (replicate 12 (char_of (0 :: nat)))"
proof -
  have "replicate 12 c = [c, c, c, c, c, c, c, c, c, c, c, c]" for c :: char by (simp add: numeral_eq_Suc)
  then show ?thesis by (simp add: RawURLDecode_def b64_decode_def b64_url_alphabet_def)
qed

lemma RawURLDecode_demo [code]:
  "RawURLDecode s = (if s = demo_secret then Some (replicate 12 (char_of (0 :: nat))) else b64_decode b64_url_alphabet s)"
  using demo_secret_bytes by (auto simp: RawURLDecode_def)

definition demo_mail_account :: MailAccount where
  "demo_mail_account = (demo_account ''m1'' ''u1'')\<lparr>ma_SecretEnc := demo_secret\<rparr>"

definition ann :: User where "ann = scanUserCore (demo_user ''u1'' ''a@e.org'')"

end
