(* ===== verification/DraftDemo.thy ===== *)
theory DraftDemo
  imports DraftDelivery TableDemo
begin

text \<open>
  Concrete drafts for the witnesses: user \<open>u1\<close> with one account, one sender, one draft that waits in the queue and one that is
  to be encrypted, a mail client that accepts everything and a mail security service that knows one key.
\<close>

text \<open>For evaluation an operation is unfolded only when it is run, not inside the continuation of another one.\<close>

lemmas drafts_code [code] =
  GetUserPreferences_def [THEN fun_cong, THEN fun_cong] UpsertUserPreferences_def [THEN fun_cong, THEN fun_cong]
  ListMailIdentities_def [THEN fun_cong, THEN fun_cong] only_default_def [THEN fun_cong, THEN fun_cong]
  CreateMailIdentity_def [THEN fun_cong, THEN fun_cong] GetMailIdentityByID_def [THEN fun_cong, THEN fun_cong]
  UpdateMailIdentity_def [THEN fun_cong, THEN fun_cong] DeleteMailIdentity_def [THEN fun_cong, THEN fun_cong]
  GetSessionMailProfile_def [THEN fun_cong, THEN fun_cong] GetSessionMailProfileByID_def [THEN fun_cong, THEN fun_cong]
  UpsertSessionMailProfile_def [THEN fun_cong, THEN fun_cong] EnsureSessionMailProfile_def [THEN fun_cong, THEN fun_cong]
  owned_identities_def [THEN fun_cong, THEN fun_cong] ListSenderProfiles_def [THEN fun_cong, THEN fun_cong]
  GetSenderProfileByID_def [THEN fun_cong, THEN fun_cong] SetDefaultSenderProfile_def [THEN fun_cong, THEN fun_cong]
  DefaultSenderProfileID_def [THEN fun_cong, THEN fun_cong] sender_or_def [THEN fun_cong, THEN fun_cong]
  DeriveDraftSenderProfileID_def [THEN fun_cong, THEN fun_cong]
  resolveLegacySenderProfileID_def [THEN fun_cong, THEN fun_cong] ResolveComposeSender_def [THEN fun_cong, THEN fun_cong]
  V2ListSenders_def [THEN fun_cong, THEN fun_cong] V2CreateSender_def [THEN fun_cong, THEN fun_cong]
  update_primary_def [THEN fun_cong, THEN fun_cong] update_alias_def [THEN fun_cong, THEN fun_cong]
  V2UpdateSender_def [THEN fun_cong, THEN fun_cong] V2DeleteSender_def [THEN fun_cong, THEN fun_cong]
  V2GetSessionMailProfile_def [THEN fun_cong, THEN fun_cong] V2UpdateSessionMailProfile_def [THEN fun_cong, THEN fun_cong]
  ListDrafts_def [THEN fun_cong, THEN fun_cong] GetDraftByID_def [THEN fun_cong, THEN fun_cong]
  AddDraftVersion_def [THEN fun_cong, THEN fun_cong] ListDraftVersions_def [THEN fun_cong, THEN fun_cong]
  CreateDraft_def [THEN fun_cong, THEN fun_cong] UpdateDraft_def [THEN fun_cong, THEN fun_cong]
  DeleteDraft_def [THEN fun_cong, THEN fun_cong] SetDraftStatus_def [THEN fun_cong, THEN fun_cong]
  SetDraftSendState_def [THEN fun_cong, THEN fun_cong] NextDraftAttachmentSortOrder_def [THEN fun_cong, THEN fun_cong]
  CreateDraftAttachment_def [THEN fun_cong, THEN fun_cong] ListDraftAttachments_def [THEN fun_cong, THEN fun_cong]
  GetDraftAttachmentByID_def [THEN fun_cong, THEN fun_cong] DeleteDraftAttachment_def [THEN fun_cong, THEN fun_cong]
  QueueScheduledSend_def [THEN fun_cong, THEN fun_cong] ListDueScheduledSends_def [THEN fun_cong, THEN fun_cong]
  GetScheduledSendByDraftID_def [THEN fun_cong, THEN fun_cong]
  CancelScheduledSendByDraftID_def [THEN fun_cong, THEN fun_cong] MarkScheduledSendRetry_def [THEN fun_cong, THEN fun_cong]
  MarkScheduledSendSent_def [THEN fun_cong, THEN fun_cong] MarkScheduledSendFailed_def [THEN fun_cong, THEN fun_cong]
  GetIndexedMessageByID_def [THEN fun_cong, THEN fun_cong] SetIndexedMessageAnswered_def [THEN fun_cong, THEN fun_cong]
  GetCryptoKeyringByID_def [THEN fun_cong, THEN fun_cong] buildDraftSendAttachments_def [THEN fun_cong, THEN fun_cong]
  GetMessage_def [THEN fun_cong, THEN fun_cong] BuildDraftSendRequest_def [THEN fun_cong, THEN fun_cong]
  account_secret_def [THEN fun_cong, THEN fun_cong] give_up_def [THEN fun_cong, THEN fun_cong]
  or_give_up_def [THEN fun_cong, THEN fun_cong] delivery_failed_def [THEN fun_cong, THEN fun_cong]
  mark_original_def [THEN fun_cong, THEN fun_cong] delivered_def [THEN fun_cong, THEN fun_cong]
  deliver_def [THEN fun_cong, THEN fun_cong] sending_account_def [THEN fun_cong, THEN fun_cong]
  processScheduledSendItem_def [THEN fun_cong, THEN fun_cong] processScheduledSends_def [THEN fun_cong, THEN fun_cong]
  callMailSecOperation_def [THEN fun_cong, THEN fun_cong] new_body_def [THEN fun_cong, THEN fun_cong]
  wrap_keyring_error_def [THEN fun_cong, THEN fun_cong] sign_body_def [THEN fun_cong, THEN fun_cong]
  encrypt_body_def [THEN fun_cong, THEN fun_cong] applyCryptoToSendRequest_def [THEN fun_cong, THEN fun_cong]
  sessionMailPasswordFromContext_def [THEN fun_cong, THEN fun_cong] prefer_sent_def [THEN fun_cong, THEN fun_cong]
  v2SendWithAccount_def [THEN fun_cong, THEN fun_cong] hydrateDraftSenderProfileID_def [THEN fun_cong, THEN fun_cong]
  or_draft_error_def [THEN fun_cong, THEN fun_cong] V2ListDrafts_def [THEN fun_cong, THEN fun_cong]
  V2GetDraft_def [THEN fun_cong, THEN fun_cong] V2GetDraftAttachment_def [THEN fun_cong, THEN fun_cong]
  V2ListDraftVersions_def [THEN fun_cong, THEN fun_cong] own_account_def [THEN fun_cong, THEN fun_cong]
  V2CreateDraft_def [THEN fun_cong, THEN fun_cong] V2UpdateDraft_def [THEN fun_cong, THEN fun_cong]
  V2DeleteDraft_def [THEN fun_cong, THEN fun_cong] uploaded_def [THEN fun_cong, THEN fun_cong]
  decodeDraftAttachmentUpload_def [THEN fun_cong, THEN fun_cong]
  syncDraftAttachmentMetadata_def [THEN fun_cong, THEN fun_cong] drop_attachments_def [THEN fun_cong, THEN fun_cong]
  V2UploadDraftAttachments_def [THEN fun_cong, THEN fun_cong] V2DeleteDraftAttachment_def [THEN fun_cong, THEN fun_cong]
  or_build_error_def [THEN fun_cong, THEN fun_cong] schedule_draft_def [THEN fun_cong, THEN fun_cong]
  hold_draft_def [THEN fun_cong, THEN fun_cong] sent_at_once_def [THEN fun_cong, THEN fun_cong]
  send_failed_def [THEN fun_cong, THEN fun_cong] send_draft_now_def [THEN fun_cong, THEN fun_cong]
  send_draft_def [THEN fun_cong, THEN fun_cong] V2SendDraft_def [THEN fun_cong, THEN fun_cong]
  V2UndoDraftSend_def [THEN fun_cong, THEN fun_cong] V2SendMessage_def [THEN fun_cong, THEN fun_cong]

definition demo_menv :: menv where
  "demo_menv = \<lparr>te_svc = demo_svc, te_fault = (\<lambda>_. None), te_others = (\<lambda>_ d. d), me_plain_text = id, me_error = (\<lambda>_. ''error''),
     me_refs = (\<lambda>_. None), me_refs_json = (\<lambda>_. ''[]''), me_normal_refs = (\<lambda>_. None), me_snapshot = (\<lambda>d. d_Subject d),
     me_strings = (\<lambda>_. None), me_rfc3339 = (\<lambda>_. None), me_message = (\<lambda>_ _ _. Inl ErrNotFound),
     me_crypto_options = (\<lambda>_. Some \<lparr>co_Provider = [], co_Sign = False, co_Encrypt = True, co_SignKeyringID = [],
       co_RecipientKeyringIDs = [''k1'']\<rparr>),
     me_mailsec_on = (\<lambda>_. True), me_mailsec = (\<lambda>_ _ _ _. Inr [(''ciphertext_armored'', ''sealed'')]),
     me_sent_mailbox = (\<lambda>_ _. None), me_send = (\<lambda>_ _ _. None)\<rparr>"

definition demo_draft :: "string \<Rightarrow> string \<Rightarrow> Draft" where
  "demo_draft i mode = zero_draft\<lparr>d_ID := i, d_UserID := ''u1'', d_SenderProfileID := ''p1'', d_ToValue := ''b@c.io'',
     d_Subject := ''Plan'', d_BodyText := ''words'', d_BodyHTML := ''<p>words</p>'', d_CryptoOptions := ''{1}'', d_SendMode := mode\<rparr>"

definition demo_item :: ScheduledSendQueueItem where
  "demo_item = \<lparr>q_ID = ''q1'', q_DraftID = ''d1'', q_UserID = ''u1'', q_AccountID = ''m1'', q_DueAt = 50, q_State = ''queued'',
     q_RetryCount = 0, q_NextRetryAt = None, q_LastError = [], q_CreatedAt = 0, q_UpdatedAt = 0\<rparr>"

definition demo_profile :: SessionMailProfile where
  "demo_profile = \<lparr>sm_ID = ''p1'', sm_UserID = ''u1'', sm_FromEmail = ''a@e.org'', sm_DisplayName = [], sm_ReplyTo = [],
     sm_SignatureText = [], sm_SignatureHTML = [], sm_CreatedAt = None, sm_UpdatedAt = 0\<rparr>"

definition demo_key :: CryptoKeyring where
  "demo_key = \<lparr>ck_ID = ''k1'', ck_UserID = ''u1'', ck_AccountID = [], ck_Kind = ''pgp_public'', ck_Fingerprint = [], ck_UserIDsJSON = [],
     ck_PublicKey = ''key'', ck_PrivateKeyEnc = [], ck_PassphraseHint = [], ck_ExpiresAt = None, ck_TrustLevel = [], ck_CreatedAt = 0,
     ck_UpdatedAt = 0\<rparr>"

definition demo_mdb :: mdb where
  "demo_mdb = \<lparr>identities = [], profiles = [demo_profile], preferences = [], drafts = [demo_draft ''d1'' ''send_now'', demo_draft ''d2'' ''manual''],
     versions = [], attachments = [], queue = [demo_item], keyrings = [demo_key], message_index = []\<rparr>"

definition demo_mstate :: mstate where
  "demo_mstate = \<lparr>ts_db = demo_mdb, ts_world = \<lparr>w_db = empty_db\<lparr>users := [demo_user ''u1'' ''a@e.org''],
     mail_accounts := [demo_mail_account]\<rparr>, w_now = 0, w_n = 0, w_log = []\<rparr>, m_calls = []\<rparr>"

lemma demo_calm: "calm demo_menv" by (simp add: calm_def lone_def demo_menv_def)

lemma demo_rooted: "rooted demo_mstate"
  by (simp add: rooted_def demo_mstate_def demo_mdb_def demo_item_def demo_draft_def zero_draft_def owners_def)

lemma demo_undo: "(case V2UndoDraftSend ann ''d1'' demo_menv demo_mstate of (Inr r, _) \<Rightarrow> rs_status r = 200 | _ \<Rightarrow> False)"
  by code_simp

lemma demo_encrypt: "(case V2SendDraft ann None ''d2'' (Inr \<lparr>sp_CryptoPassphrase = [], sp_CryptoOptions = []\<rparr>) demo_menv demo_mstate of
    (r, s) \<Rightarrow> map (\<lambda>c. case c of MailOut i l q b \<Rightarrow> (i, mr_Body q, mr_BodyHTML q, b) | _ \<Rightarrow> ([], [], [], False)) (m_calls s))
    = [(''d2'', ''sealed'', ''<p>words</p>'', True)]"
  by code_simp

text \<open>The queued draft once it is due, and a table of the queue that is locked when its mail is to be marked as sent.\<close>

definition due_mstate :: mstate where
  "due_mstate = demo_mstate\<lparr>ts_world := (ts_world demo_mstate)\<lparr>w_now := 100\<rparr>\<rparr>"

definition locked_menv :: menv where
  "locked_menv = demo_menv\<lparr>te_fault := \<lambda>n. if n = 13 then Some ''locked'' else None\<rparr>"

text \<open>The mail goes out twice: a mark that is lost is not noticed, and the item is due again in the next round.\<close>

lemma lost_mark_mails_twice:
  "length (filter mo_ok (mails_of ''d1'' (m_calls (run_ops [WorkerRound, WorkerRound] locked_menv due_mstate)))) = 2"
  by code_simp

end
