(* ===== verification/DraftSafety.thy ===== *)
theory DraftSafety
  imports DraftDemo
begin

text \<open>
  The properties of drafts and delayed mails, each with the concrete case in which its hypotheses hold.
\<close>

text \<open>C18: Whatever the users do with senders and drafts and however often the worker runs, one operation after the other and
  with any statement failing, the queue of delayed mails has at most one row for a draft, and every row is for a draft that
  is there and belongs to the user of the row.\<close>

theorem queue_belongs_to_drafts:
  assumes "lone v" "rooted s"
  shows "rooted (run_ops ops v s)"
  using assms by (metis compose_ops_keep rooted_perform solo_lone)

theorem queue_belongs_to_drafts_witness:
  "lone demo_menv \<and> rooted demo_mstate \<and> rooted (run_ops [WorkerRound, Undo ann ''d1'', Delete ann ''d1''] demo_menv demo_mstate)"
  by (intro conjI calm_lone demo_calm demo_rooted queue_belongs_to_drafts)

text \<open>C16: Once undoing the sending of a draft has answered 200, the draft is not mailed by anything that follows, other than
  sending it again: any operations of any users on senders and drafts and any rounds of the worker, one after the other and
  with any statement failing.\<close>

theorem undone_send_never_mailed:
  assumes "lone v" "rooted s" "V2UndoDraftSend u i v s = (Inr r, s1)" "rs_status r = 200"
    "\<forall>op \<in> set ops. \<not> mails (TrimSpace i) op"
  shows "mails_of (TrimSpace i) (m_calls (run_ops ops v s1)) = mails_of (TrimSpace i) (m_calls s)"
proof -
  have "idle (TrimSpace i) {} (mails_of (TrimSpace i) (m_calls s)) s1"
    using wpD [OF undo_idle [OF assms(2), of u i v]] assms by (simp add: solo_lone)
  then have "idle (TrimSpace i) {} (mails_of (TrimSpace i) (m_calls s)) (run_ops ops v s1)"
    by (rule compose_ops_keep [rotated]) (metis assms(1,5) idle_perform solo_lone)
  then show ?thesis by (simp add: idle_def)
qed

theorem undone_send_never_mailed_witness:
  "\<exists>r s1. V2UndoDraftSend ann ''d1'' demo_menv demo_mstate = (Inr r, s1) \<and> rs_status r = 200
    \<and> mails_of ''d1'' (m_calls (run_ops [WorkerRound, Send ann None ''d2'' (Inl JsonInvalid), WorkerRound] demo_menv s1)) = []"
proof -
  obtain r s1 where u: "V2UndoDraftSend ann ''d1'' demo_menv demo_mstate = (Inr r, s1)" "rs_status r = 200"
    using demo_undo by (auto split: prod.splits sum.splits)
  have "TrimSpace ''d1'' = ''d1''" by code_simp
  then show ?thesis
    using undone_send_never_mailed [OF calm_lone [OF demo_calm] demo_rooted u,
        of "[WorkerRound, Send ann None ''d2'' (Inl JsonInvalid), WorkerRound]"] u
    by (simp add: demo_mstate_def)
qed

text \<open>C17: With tables that work, whatever is done to senders and drafts and however often the worker runs, one operation after the
  other, a draft is tried at most three more times and goes out at most once more, until its user sends it again.\<close>

theorem delivery_bounded:
  assumes "calm v" "rooted s" "\<forall>r \<in> set (queue (ts_db s)). 0 \<le> q_RetryCount r" "\<forall>op \<in> set ops. \<not> mails i op"
  shows "length (mails_of i (m_calls (run_ops ops v s))) \<le> length (mails_of i (m_calls s)) + 3
    \<and> length (filter mo_ok (mails_of i (m_calls (run_ops ops v s)))) \<le> length (filter mo_ok (mails_of i (m_calls s))) + 1"
proof -
  let ?a = "length (mails_of i (m_calls s)) + 3" and ?b = "length (filter mo_ok (mails_of i (m_calls s))) + 1"
  have "sum_list (map (tries i) (queue (ts_db s))) \<le> 3" "sum_list (map (wins i) (queue (ts_db s))) \<le> 1"
    using assms(2,3) by (auto simp: rooted_def tries_def wins_def intro!: sum_one_row [where i = i])
  then have "bounded i ?a ?b s" using assms(2) by (simp add: bounded_def rooted_def)
  then have "bounded i ?a ?b (run_ops ops v s)"
    by (rule compose_ops_keep [rotated]) (use assms(1,4) bounded_perform in auto)
  then show ?thesis by (simp add: bounded_def)
qed

theorem delivery_bounded_witness:
  "calm demo_menv \<and> rooted demo_mstate \<and> length (filter mo_ok (mails_of ''d1'' (m_calls (run_ops [WorkerRound, WorkerRound] demo_menv demo_mstate)))) \<le> 1"
proof -
  have "\<forall>r \<in> set (queue (ts_db demo_mstate)). 0 \<le> q_RetryCount r" by (simp add: demo_mstate_def demo_mdb_def demo_item_def)
  from delivery_bounded [OF demo_calm demo_rooted this, of "[WorkerRound, WorkerRound]" "''d1''"] show ?thesis
    using demo_calm demo_rooted by (simp add: demo_mstate_def)
qed

lemma demo_found: "find (\<lambda>d. d_UserID d = ''u1'' \<and> d_ID d = ''d1'') (drafts (ts_db demo_mstate)) = Some (demo_draft ''d1'' ''send_now'')"
  "find (\<lambda>d. d_UserID d = ''u1'' \<and> d_ID d = ''d2'') (drafts (ts_db demo_mstate)) = Some (demo_draft ''d2'' ''manual'')"
  by (simp_all add: demo_mstate_def demo_mdb_def demo_draft_def zero_draft_def)

text \<open>C20: A mail that the worker sends for a draft has the subject, the text and the HTML of the draft as they are stored, whatever
  the options of the draft for signing and encrypting are: a delayed mail is neither signed nor encrypted.\<close>

theorem delayed_mail_never_sealed:
  assumes "lone v" "find (\<lambda>d. d_UserID d = q_UserID item \<and> d_ID d = q_DraftID item) (drafts (ts_db s)) = Some d"
  shows "since (m_calls s) (plain d) (snd (processScheduledSendItem item v s))"
  using wpD [OF since_item [OF assms(2), of v]] assms(1) by (simp add: solo_lone)

theorem delayed_mail_never_sealed_witness:
  "since [] (plain (demo_draft ''d1'' ''send_now'')) (snd (processScheduledSendItem demo_item demo_menv demo_mstate))
    \<and> length (m_calls (snd (processScheduledSendItem demo_item demo_menv demo_mstate))) = 1"
proof
  have "since (m_calls demo_mstate) (plain (demo_draft ''d1'' ''send_now'')) (snd (processScheduledSendItem demo_item demo_menv demo_mstate))"
    by (rule delayed_mail_never_sealed [OF calm_lone [OF demo_calm]]) (simp add: demo_item_def demo_found)
  then show "since [] (plain (demo_draft ''d1'' ''send_now'')) (snd (processScheduledSendItem demo_item demo_menv demo_mstate))"
    by (simp add: demo_mstate_def)
  show "length (m_calls (snd (processScheduledSendItem demo_item demo_menv demo_mstate))) = 1" by code_simp
qed

text \<open>C19: A mail that is sent at once for a draft has the HTML of the draft as it is stored, whatever the options for signing and
  encrypting are: only the text is signed or encrypted.\<close>

theorem encrypted_mail_keeps_html:
  assumes "lone v" "find (\<lambda>d. d_UserID d = u_ID u \<and> d_ID d = i) (drafts (ts_db s)) = Some d"
  shows "since (m_calls s) (plain_html d) (snd (V2SendDraft u sess i body v s))"
proof -
  have queue: "stays (solo v) (since (m_calls s) (plain_html d)) (QueueScheduledSend e)" for e
    by (rule since_queue.stays_queue) (rule refl)+
  have "stays (solo v) (since (m_calls s) (plain_html d)) (send_draft u sess p d)" for p
    unfolding send_draft_def schedule_draft_def hold_draft_def or_build_error_def
    by (intro stay_intros since_now queue)
  then have "wpT (V2SendDraft u sess i body) (solo v) (\<lambda>_. since (m_calls s) (plain_html d)) s"
    unfolding V2SendDraft_def with_bodyT_def or_draft_error_def GetDraftByID_def
    by (auto simp: wp_simps since_start split: sum.split decode_err.split intro!: wp_row [OF lone_solo] stays_wp simp: assms(2))
  then show ?thesis using assms(1) by (auto simp: solo_lone dest!: wpD)
qed

theorem encrypted_mail_keeps_html_witness:
  "since [] (plain_html (demo_draft ''d2'' ''manual'')) (snd (V2SendDraft ann None ''d2'' (Inr \<lparr>sp_CryptoPassphrase = [], sp_CryptoOptions = []\<rparr>) demo_menv demo_mstate))
    \<and> (case V2SendDraft ann None ''d2'' (Inr \<lparr>sp_CryptoPassphrase = [], sp_CryptoOptions = []\<rparr>) demo_menv demo_mstate of
    (r, s) \<Rightarrow> map (\<lambda>c. case c of MailOut i l q b \<Rightarrow> (i, mr_Body q, mr_BodyHTML q, b) | _ \<Rightarrow> ([], [], [], False)) (m_calls s))
    = [(''d2'', ''sealed'', ''<p>words</p>'', True)]"
proof -
  have "u_ID ann = ''u1''" by code_simp
  then show ?thesis
    using encrypted_mail_keeps_html [OF calm_lone [OF demo_calm], of ann "''d2''" demo_mstate "demo_draft ''d2'' ''manual''" None
        "Inr \<lparr>sp_CryptoPassphrase = [], sp_CryptoOptions = []\<rparr>"] demo_found(2) demo_encrypt
    by (simp add: demo_mstate_def)
qed

end
