(* ===== verification/SpecialMailboxes.thy ===== *)
theory SpecialMailboxes
  imports TableRun Mailboxes MailCache
begin

text \<open>
  Which mailbox plays which role, and which mailboxes may be renamed or deleted: \<^verbatim>\<open>internal/api/router_mail_special.go\<close> without
  its handlers, \<^verbatim>\<open>internal/api/mail_errors.go\<close>, \<^verbatim>\<open>internal/store/special_mailboxes.go\<close> and the mailbox mappings of
  \<^verbatim>\<open>internal/store/v2_store.go\<close>.  The tables, the environment and the state are those of mailboxes, rules and scripts.

  The server that holds the mailboxes is outside.  Its answers are functions of the environment that may depend on the number
  of the call and on all calls made so far; the calls are kept in the state.  Requests use the cache of mailbox lists one
  at a time here; how concurrent requests share it is shown in the theory of the caches.
\<close>

section \<open>Roles\<close>

definition normalizeAggregateMailboxRole :: "string \<Rightarrow> string \<Rightarrow> string" where
  "normalizeAggregateMailboxRole rawRole mailboxName =
     (let role = lower_trim rawRole; key = lower_trim mailboxName in
      if role \<noteq> [] then role
      else if key = ''inbox'' \<or> HasSuffix key ''/inbox'' then ''inbox''
      else if key = ''drafts'' \<or> Contains key ''draft'' then ''drafts''
      else if key = ''sent'' \<or> key = ''sent messages'' \<or> Contains key ''sent'' then ''sent''
      else if key = ''trash'' \<or> key = ''deleted messages'' \<or> Contains key ''trash'' \<or> Contains key ''deleted'' then ''trash''
      else if key = ''archive'' \<or> Contains key ''archive'' \<or> Contains key ''all mail'' then ''archive''
      else if key = ''junk'' \<or> key = ''spam'' \<or> Contains key ''junk'' \<or> Contains key ''spam'' then ''junk''
      else [])"

definition aggregateMailboxDisplayName :: "string \<Rightarrow> string" where
  "aggregateMailboxDisplayName role =
     (let r = normalizeAggregateMailboxRole role [] in
      if r = ''inbox'' then ''Inbox'' else if r = ''drafts'' then ''Drafts'' else if r = ''sent'' then ''Sent''
      else if r = ''trash'' then ''Trash'' else if r = ''archive'' then ''Archive'' else if r = ''junk'' then ''Junk'' else [])"

definition aggregateMailboxKey :: "Mailbox \<Rightarrow> string" where
  "aggregateMailboxKey m =
     (let role = normalizeAggregateMailboxRole (mb_Role m) (mb_Name m) in
      if role \<noteq> [] \<and> role \<noteq> ''drafts'' then ''role:'' @ role else ''name:'' @ lower_trim (mb_Name m))"

text \<open>The map with the order of its keys, as a list of its entries.\<close>

definition add_aggregate :: "Mailbox \<Rightarrow> (string \<times> Mailbox) list \<Rightarrow> (string \<times> Mailbox) list" where
  "add_aggregate m merged =
     (let role = normalizeAggregateMailboxRole (mb_Role m) (mb_Name m); key = aggregateMailboxKey m;
          more = (\<lambda>c. c\<lparr>mb_Unread := mb_Unread c + mb_Unread m, mb_Messages := mb_Messages c + mb_Messages m,
                    mb_CanRename := mb_CanRename c \<or> mb_CanRename m, mb_CanDelete := mb_CanDelete c \<or> mb_CanDelete m\<rparr>);
          fresh = \<lparr>mb_Name = (if role \<noteq> [] then aggregateMailboxDisplayName role else TrimSpace (mb_Name m)), mb_Role = role,
                   mb_Unread = 0, mb_Messages = 0, mb_CanRename = mb_CanRename m, mb_CanDelete = mb_CanDelete m\<rparr> in
      if role = ''drafts'' then merged
      else if key \<in> fst ` set merged then map (\<lambda>(k, c). (k, if k = key then more c else c)) merged
      else merged @ [(key, more fresh)])"

definition aggregate_rank :: "Mailbox \<Rightarrow> int" where
  "aggregate_rank m =
     (let r = normalizeAggregateMailboxRole (mb_Role m) (mb_Name m) in
      if r = ''inbox'' then 0 else if r = ''sent'' then 1 else if r = ''trash'' then 2 else if r = ''archive'' then 3
      else if r = ''junk'' then 4 else 999)"

definition mergeAggregateMailboxes :: "Mailbox list list \<Rightarrow> Mailbox list" where
  "mergeAggregateMailboxes groups =
     sort_key aggregate_rank (sort_key (\<lambda>m. lower_trim (mb_Name m)) (map snd (fold add_aggregate (concat groups) [])))"

fun distinct_names :: "(string \<Rightarrow> string) \<Rightarrow> string list \<Rightarrow> string list \<Rightarrow> string list" where
  "distinct_names key seen [] = []"
| "distinct_names key seen (x # xs) =
     (let name = TrimSpace x in
      if name = [] \<or> key name \<in> set seen then distinct_names key seen xs
      else name # distinct_names key (key name # seen) xs)"

definition resolveAggregateMailboxSelection :: "Mailbox list \<Rightarrow> string \<Rightarrow> string list" where
  "resolveAggregateMailboxSelection mailboxes mailboxName =
     (let target = TrimSpace mailboxName; role = normalizeAggregateMailboxRole [] target;
          chosen = (\<lambda>m. if role \<noteq> [] \<and> role \<noteq> ''drafts'' then normalizeAggregateMailboxRole (mb_Role m) (mb_Name m) = role
                        else EqualFold (TrimSpace (mb_Name m)) target) in
      if target = [] then [] else distinct_names ToLower [] (map mb_Name (filter chosen mailboxes)))"

definition fallbackAggregateMailboxSelection :: "string \<Rightarrow> string list" where
  "fallbackAggregateMailboxSelection mailboxName =
     (let target = TrimSpace mailboxName; role = normalizeAggregateMailboxRole [] target;
          usual = (if role = ''inbox'' then [''INBOX'', ''Inbox''] else if role = ''drafts'' then [''Drafts'']
                   else if role = ''sent'' then [''Sent'', ''Sent Messages''] else if role = ''trash'' then [''Trash'', ''Deleted Messages'']
                   else if role = ''archive'' then [''Archive'', ''All Mail''] else if role = ''junk'' then [''Junk'', ''Spam''] else []) in
      if target = [] then [] else distinct_names id [] (target # usual))"

section \<open>Mappings from roles to mailboxes\<close>

definition specialMailboxRoles :: "string list" where "specialMailboxRoles = [''sent'', ''archive'', ''trash'', ''junk'']"

definition appDraftsMailboxName :: string where "appDraftsMailboxName = ''__despatch_app_drafts__''"

definition reservedMailboxNames :: "string list" where
  "reservedMailboxNames = [''inbox'', ''drafts'', ''sent'', ''sent messages'', ''trash'', ''deleted messages'', ''archive'', ''all mail'',
     ''junk'', ''spam'', appDraftsMailboxName]"

type_synonym mappings = "string \<rightharpoonup> string"

definition mapped_to :: "mappings \<Rightarrow> string \<Rightarrow> string" where
  "mapped_to m role = TrimSpace (case m role of None \<Rightarrow> [] | Some name \<Rightarrow> name)"

definition specialMailboxMappingsForResponse :: "mappings \<Rightarrow> (string \<times> string) list" where
  "specialMailboxMappingsForResponse m =
     filter (\<lambda>(role, name). name \<noteq> []) (map (\<lambda>role. (role, mapped_to m role)) specialMailboxRoles)"

fun first_takes_role :: "string \<Rightarrow> string \<Rightarrow> Mailbox list \<Rightarrow> Mailbox list" where
  "first_takes_role role target [] = []"
| "first_takes_role role target (m # ms) =
     (if EqualFold (TrimSpace (mb_Name m)) target then m\<lparr>mb_Role := role\<rparr> # ms else m # first_takes_role role target ms)"

definition others_lose_role :: "string \<Rightarrow> string \<Rightarrow> Mailbox \<Rightarrow> Mailbox" where
  "others_lose_role role target m =
     (if lower_trim (mb_Role m) = role \<and> \<not> EqualFold (TrimSpace (mb_Name m)) target then m\<lparr>mb_Role := []\<rparr> else m)"

definition apply_role :: "mappings \<Rightarrow> string \<Rightarrow> Mailbox list \<Rightarrow> Mailbox list" where
  "apply_role m role boxes =
     (let target = mapped_to m role in
      if target = [] then boxes else first_takes_role role target (map (others_lose_role role target) boxes))"

definition applySpecialMailboxRoles :: "Mailbox list \<Rightarrow> mappings \<Rightarrow> Mailbox list" where
  "applySpecialMailboxRoles boxes m = fold (apply_role m) specialMailboxRoles boxes"

definition resolveSpecialMailboxFromAvailable :: "Mailbox list \<Rightarrow> mappings \<Rightarrow> string \<Rightarrow> string" where
  "resolveSpecialMailboxFromAvailable boxes m role =
     (let r = lower_trim role in
      if r = [] then [] else TrimSpace (ResolveMailboxByRole (applySpecialMailboxRoles boxes m) r))"

definition isReservedMailboxName :: "string \<Rightarrow> bool" where
  "isReservedMailboxName name \<longleftrightarrow> lower_trim name \<in> set reservedMailboxNames"

definition mailboxIsProtected :: "Mailbox \<Rightarrow> bool" where
  "mailboxIsProtected m \<longleftrightarrow> EqualFold (TrimSpace (mb_Name m)) appDraftsMailboxName \<or> TrimSpace (mb_Role m) \<noteq> []"

definition applyMailboxCapabilities :: "Mailbox list \<Rightarrow> Mailbox list" where
  "applyMailboxCapabilities boxes =
     map (\<lambda>m. m\<lparr>mb_CanRename := \<not> mailboxIsProtected m, mb_CanDelete := \<not> mailboxIsProtected m\<rparr>) boxes"

definition mailboxByName :: "Mailbox list \<Rightarrow> string \<Rightarrow> Mailbox option" where
  "mailboxByName boxes name =
     (let target = TrimSpace name in
      if target = [] then None else find (\<lambda>m. EqualFold (TrimSpace (mb_Name m)) target) boxes)"

text \<open>The map of the counts keeps the last entry of a name.\<close>

definition mergeMailboxCounts :: "Mailbox list \<Rightarrow> Mailbox list \<Rightarrow> Mailbox list" where
  "mergeMailboxCounts boxes counts =
     (let byName = map_of (rev (map (\<lambda>c. (lower_trim (mb_Name c), c)) counts)) in
      map (\<lambda>m. let key = lower_trim (mb_Name m) in
             if key = [] then m
             else case byName key of None \<Rightarrow> m | Some c \<Rightarrow> m\<lparr>mb_Unread := mb_Unread c, mb_Messages := mb_Messages c\<rparr>) boxes)"

section \<open>Tables, environment and state\<close>

text \<open>Rows; a creation time of \<^const>\<open>None\<close> is the zero time.\<close>

record MailboxMapping =
  mm_ID :: string
  mm_AccountID :: string
  mm_Role :: string
  mm_MailboxName :: string
  mm_Source :: string
  mm_Priority :: int
  mm_CreatedAt :: "gotime option"
  mm_UpdatedAt :: gotime

record MailRuleConditions =
  rc_FromContains :: string
  rc_FromDomainIs :: string
  rc_ToContains :: string
  rc_SubjectContains :: string
  rc_BodyContains :: string

record MailRuleActions =
  ra_MoveToMailbox :: string
  ra_MoveToRole :: string
  ra_MarkRead :: bool
  ra_Redirect :: string
  ra_Stop :: bool

record MailRule =
  mr_ID :: string
  mr_AccountID :: string
  mr_Name :: string
  mr_Enabled :: bool
  mr_Position :: int
  mr_MatchMode :: string
  mr_Conditions :: MailRuleConditions
  mr_Actions :: MailRuleActions
  mr_CreatedAt :: gotime
  mr_UpdatedAt :: gotime

record SieveScript =
  ss_ID :: string
  ss_AccountID :: string
  ss_ScriptName :: string
  ss_ScriptBody :: string
  ss_ChecksumSHA :: string
  ss_IsActive :: bool
  ss_Source :: string
  ss_CreatedAt :: "gotime option"
  ss_UpdatedAt :: gotime

text \<open>Of \<^verbatim>\<open>sieve_profiles\<close> and \<^verbatim>\<open>message_index\<close> the columns that are read or written.\<close>

record sieve_profile =
  sp_AccountID :: string
  sp_ActiveScript :: string
  sp_UpdatedAt :: gotime

record counted_row =
  cr_AccountID :: string
  cr_Mailbox :: string
  cr_Seen :: bool

record bdb =
  mailbox_mappings :: "MailboxMapping list"
  mail_rules :: "MailRule list"
  sieve_cache :: "SieveScript list"
  sieve_profiles :: "sieve_profile list"
  counted_rows :: "counted_row list"

definition mappings_keys :: "(MailboxMapping, string list) keys" where
  "mappings_keys = [\<lambda>r. [mm_ID r], \<lambda>r. [mm_AccountID r, mm_Role r, mm_MailboxName r]]"
definition rules_keys :: "(MailRule, string list) keys" where "rules_keys = [\<lambda>r. [mr_ID r]]"
definition scripts_keys :: "(SieveScript, string list) keys" where
  "scripts_keys = [\<lambda>r. [ss_ID r], \<lambda>r. [ss_AccountID r, ss_ScriptName r]]"
definition sieve_profiles_keys :: "(sieve_profile, string list) keys" where "sieve_profiles_keys = [\<lambda>r. [sp_AccountID r]]"

text \<open>The client of the service, or one with the hosts of an account.\<close>

record client_config =
  cc_IMAPHost :: string
  cc_IMAPPort :: int
  cc_IMAPTLS :: bool
  cc_IMAPStartTLS :: bool
  cc_SMTPHost :: string
  cc_SMTPPort :: int
  cc_SMTPTLS :: bool
  cc_SMTPStartTLS :: bool

datatype mail_client = ServiceClient | ConfiguredClient client_config

text \<open>What was asked of a server, for a login, and whether it went well; for a page the ids it holds.\<close>

datatype box_call =
    ListBoxes mail_client string
  | CreateBox mail_client string string bool
  | RenameBox mail_client string string string bool
  | DeleteBox mail_client string string bool
  | ListPage mail_client string string "string list option"
  | MoveMessage mail_client string string string bool

text \<open>A server answers by the number of the call, the calls so far, the client, the login and the password.  JSON objects of strings
  are read as their entries in the order in which a range visits them.\<close>

type_synonym 'a answers = "nat \<Rightarrow> box_call list \<Rightarrow> mail_client \<Rightarrow> string \<Rightarrow> string \<Rightarrow> 'a"

record benv = "bdb tenv" +
  be_error :: "err \<Rightarrow> string"
  be_object :: "string \<Rightarrow> (string \<times> string) list option"
  be_object_json :: "mappings \<Rightarrow> string"
  be_boxes :: "(err + Mailbox list) answers"
  be_create :: "(string \<Rightarrow> err option) answers"
  be_rename :: "(string \<Rightarrow> string \<Rightarrow> err option) answers"
  be_delete :: "(string \<Rightarrow> err option) answers"
  be_page :: "(string \<Rightarrow> int \<Rightarrow> int \<Rightarrow> err + string list) answers"
  be_move :: "(string \<Rightarrow> string \<Rightarrow> err option) answers"

record bstate = "bdb tstate" +
  b_cache :: "Mailbox list entries"
  b_calls :: "box_call list"

type_synonym 'a Bx = "benv \<Rightarrow> bstate \<Rightarrow> (err + 'a) \<times> bstate"

abbreviation on_mappings where "on_mappings \<equiv> putT mailbox_mappings mailbox_mappings_update"
abbreviation on_rules where "on_rules \<equiv> putT mail_rules mail_rules_update"
abbreviation on_scripts where "on_scripts \<equiv> putT sieve_cache sieve_cache_update"
abbreviation on_sieve_profiles where "on_sieve_profiles \<equiv> putT sieve_profiles sieve_profiles_update"

definition ask_server :: "(benv \<Rightarrow> nat \<Rightarrow> box_call list \<Rightarrow> err + 'a) \<Rightarrow> (err + 'a \<Rightarrow> box_call) \<Rightarrow> 'a Bx" where
  "ask_server f record_call = (\<lambda>v s.
     let w = ts_world s; r = f v (w_n w) (b_calls s) in
     (r, s\<lparr>ts_world := w\<lparr>w_n := Suc (w_n w)\<rparr>, b_calls := b_calls s @ [record_call r]\<rparr>))"

definition done_or :: "err option \<Rightarrow> err + unit" where "done_or e = (case e of None \<Rightarrow> Inr () | Some x \<Rightarrow> Inl x)"

definition went_well :: "err + 'a \<Rightarrow> bool" where "went_well r = (case r of Inl _ \<Rightarrow> False | Inr _ \<Rightarrow> True)"

definition ListMailboxes :: "mail_client \<Rightarrow> string \<Rightarrow> string \<Rightarrow> Mailbox list Bx" where
  "ListMailboxes c login pass = ask_server (\<lambda>v n h. be_boxes v n h c login pass) (\<lambda>r. ListBoxes c login)"

definition client_CreateMailbox :: "mail_client \<Rightarrow> string \<Rightarrow> string \<Rightarrow> string \<Rightarrow> unit Bx" where
  "client_CreateMailbox c login pass name =
     ask_server (\<lambda>v n h. done_or (be_create v n h c login pass name)) (\<lambda>r. CreateBox c login name (went_well r))"

definition client_RenameMailbox :: "mail_client \<Rightarrow> string \<Rightarrow> string \<Rightarrow> string \<Rightarrow> string \<Rightarrow> unit Bx" where
  "client_RenameMailbox c login pass name new_name =
     ask_server (\<lambda>v n h. done_or (be_rename v n h c login pass name new_name)) (\<lambda>r. RenameBox c login name new_name (went_well r))"

definition client_DeleteMailbox :: "mail_client \<Rightarrow> string \<Rightarrow> string \<Rightarrow> string \<Rightarrow> unit Bx" where
  "client_DeleteMailbox c login pass name =
     ask_server (\<lambda>v n h. done_or (be_delete v n h c login pass name)) (\<lambda>r. DeleteBox c login name (went_well r))"

definition client_ListMessages :: "mail_client \<Rightarrow> string \<Rightarrow> string \<Rightarrow> string \<Rightarrow> int \<Rightarrow> int \<Rightarrow> string list Bx" where
  "client_ListMessages c login pass name page pageSize =
     ask_server (\<lambda>v n h. be_page v n h c login pass name page pageSize)
       (\<lambda>r. ListPage c login name (case r of Inl _ \<Rightarrow> None | Inr ids \<Rightarrow> Some ids))"

definition client_Move :: "mail_client \<Rightarrow> string \<Rightarrow> string \<Rightarrow> string \<Rightarrow> string \<Rightarrow> unit Bx" where
  "client_Move c login pass message mailbox =
     ask_server (\<lambda>v n h. done_or (be_move v n h c login pass message mailbox)) (\<lambda>r. MoveMessage c login message mailbox (went_well r))"

section \<open>The cache of mailbox lists\<close>

definition getT_cache :: "Mailbox list entries Bx" where "getT_cache = (\<lambda>v s. (Inr (b_cache s), s))"

definition putT_cache :: "(Mailbox list entries \<Rightarrow> Mailbox list entries) \<Rightarrow> unit Bx" where
  "putT_cache f = (\<lambda>v s. (Inr (), s\<lparr>b_cache := f (b_cache s)\<rparr>))"

definition cached_boxes :: "string \<Rightarrow> Mailbox list Bx \<Rightarrow> Mailbox list Bx" where
  "cached_boxes mailLogin fetch =
     (let key = normalizeMailLoginKey mailLogin in
      bindT nowT (\<lambda>now.
      bindT getT_cache (\<lambda>cache.
      let miss = bindT fetch (\<lambda>value.
            thenT (putT_cache (\<lambda>m. m(key \<mapsto> \<lparr>c_value = value, c_expiresAt = now + mailboxCacheTTL\<rparr>))) (retT value))
      in case cache key of
           Some e \<Rightarrow> if now < c_expiresAt e then retT (c_value e) else miss
         | None \<Rightarrow> miss)))"

definition forget_boxes :: "string \<Rightarrow> unit Bx" where "forget_boxes mailLogin = putT_cache (invalidate mailLogin)"

section \<open>Store\<close>

definition normalizeSpecialMailboxRole :: "string \<Rightarrow> string" where
  "normalizeSpecialMailboxRole role =
     (let r = lower_trim role in if r \<in> {''sent'', ''archive'', ''trash''} then r else [])"

definition specialMailboxSettingKey :: "Svc \<Rightarrow> string \<Rightarrow> string \<Rightarrow> string" where
  "specialMailboxSettingKey sv userID mailIdentity =
     ''mail.special.'' @ TrimSpace userID @ ''.'' @ HexEncode (take 8 (sha256 sv (lower_trim mailIdentity)))"

definition setting_key :: "string \<Rightarrow> string \<Rightarrow> string Bx" where
  "setting_key userID mailIdentity = askT (\<lambda>v. specialMailboxSettingKey (te_svc v) userID mailIdentity)"

definition read_mapping :: "string \<times> string \<Rightarrow> mappings \<Rightarrow> mappings" where
  "read_mapping entry m =
     (case entry of (role, mailbox) \<Rightarrow>
        let r = normalizeSpecialMailboxRole role; name = TrimSpace mailbox in
        if r = [] \<or> name = [] then m else m(r \<mapsto> name))"

definition decode_mappings :: "(string \<Rightarrow> (string \<times> string) list option) \<Rightarrow> string option \<Rightarrow> mappings" where
  "decode_mappings unmarshal stored =
     (case stored of
        None \<Rightarrow> Map.empty
      | Some raw \<Rightarrow>
          if TrimSpace raw = [] then Map.empty
          else case unmarshal raw of None \<Rightarrow> Map.empty | Some entries \<Rightarrow> fold read_mapping entries Map.empty)"

definition ListSpecialMailboxMappings :: "string \<Rightarrow> string \<Rightarrow> mappings Bx" where
  "ListSpecialMailboxMappings userID mailIdentity =
     bindT (setting_key userID mailIdentity) (\<lambda>key.
     bindT (coreT (GetSetting key)) (\<lambda>stored.
     bindT (askT be_object) (\<lambda>unmarshal. retT (decode_mappings unmarshal stored))))"

definition save_mappings :: "string \<Rightarrow> string \<Rightarrow> mappings \<Rightarrow> unit Bx" where
  "save_mappings userID mailIdentity m =
     bindT (setting_key userID mailIdentity) (\<lambda>key.
     bindT (askT (\<lambda>v. be_object_json v m)) (\<lambda>body. coreT (UpsertSetting key body)))"

definition UpsertSpecialMailboxMapping :: "string \<Rightarrow> string \<Rightarrow> string \<Rightarrow> string \<Rightarrow> unit Bx" where
  "UpsertSpecialMailboxMapping userID mailIdentity role mailbox =
     (let r = normalizeSpecialMailboxRole role; name = TrimSpace mailbox in
      if r = [] then failT (ErrMsg ''unsupported mailbox role'')
      else if name = [] then failT (ErrMsg ''mailbox name is required'')
      else bindT (ListSpecialMailboxMappings userID mailIdentity) (\<lambda>current. save_mappings userID mailIdentity (current(r \<mapsto> name))))"

definition maps_mailbox :: "string \<Rightarrow> mappings \<Rightarrow> string \<Rightarrow> bool" where
  "maps_mailbox mailbox m role = (case m role of None \<Rightarrow> False | Some name \<Rightarrow> EqualFold (TrimSpace name) mailbox)"

definition stored_roles :: "string list" where "stored_roles = [''sent'', ''archive'', ''trash'']"

definition RenameSpecialMailboxMappings :: "string \<Rightarrow> string \<Rightarrow> string \<Rightarrow> string \<Rightarrow> unit Bx" where
  "RenameSpecialMailboxMappings userID mailIdentity mailbox0 newMailbox0 =
     (let mailbox = TrimSpace mailbox0; newMailbox = TrimSpace newMailbox0 in
      if mailbox = [] \<or> newMailbox = [] \<or> EqualFold mailbox newMailbox then retT ()
      else bindT (ListSpecialMailboxMappings userID mailIdentity) (\<lambda>current.
        if \<not> list_ex (maps_mailbox mailbox current) stored_roles then retT ()
        else save_mappings userID mailIdentity (\<lambda>role. if maps_mailbox mailbox current role then Some newMailbox else current role)))"

definition DeleteSpecialMailboxMappingsByMailbox :: "string \<Rightarrow> string \<Rightarrow> string \<Rightarrow> unit Bx" where
  "DeleteSpecialMailboxMappingsByMailbox userID mailIdentity mailbox0 =
     (let mailbox = TrimSpace mailbox0 in
      if mailbox = [] then retT ()
      else bindT (ListSpecialMailboxMappings userID mailIdentity) (\<lambda>current.
        let left = (\<lambda>role. if maps_mailbox mailbox current role then None else current role) in
        if \<not> list_ex (maps_mailbox mailbox current) stored_roles then retT ()
        else if list_all (\<lambda>role. left role = None) stored_roles
        then bindT (setting_key userID mailIdentity) (\<lambda>key. coreT (DeleteSetting key))
        else save_mappings userID mailIdentity left))"

definition coalesceTime :: "gotime option \<Rightarrow> gotime \<Rightarrow> gotime" where
  "coalesceTime t fallback = (case t of None \<Rightarrow> fallback | Some x \<Rightarrow> x)"

definition by_role_priority_name :: "MailboxMapping list \<Rightarrow> MailboxMapping list" where
  "by_role_priority_name rows = sort_key mm_Role (sort_key mm_Priority (sort_key mm_MailboxName rows))"

definition ListMailboxMappings :: "string \<Rightarrow> MailboxMapping list Bx" where
  "ListMailboxMappings accountID =
     queryT (\<lambda>d. by_role_priority_name (filter (\<lambda>m. mm_AccountID m = accountID) (mailbox_mappings d)))"

definition UpsertMailboxMapping :: "MailboxMapping \<Rightarrow> MailboxMapping Bx" where
  "UpsertMailboxMapping m0 =
     bindT nowT (\<lambda>now.
     bindT (if TrimSpace (mm_ID m0) = [] then uuidT else retT (mm_ID m0)) (\<lambda>newID.
     let m = m0\<lparr>mm_ID := newID, mm_CreatedAt := Some (if TrimSpace (mm_ID m0) = [] then now else coalesceTime (mm_CreatedAt m0) now),
           mm_UpdatedAt := now\<rparr> in
     thenT (on_mappings (t_upsert mappings_keys (\<lambda>r. mm_ID r = newID)
              (\<lambda>r. r\<lparr>mm_Role := mm_Role m, mm_MailboxName := mm_MailboxName m, mm_Source := mm_Source m, mm_Priority := mm_Priority m,
                 mm_UpdatedAt := now\<rparr>) m))
     (retT m)))"

definition DeleteMailboxMapping :: "string \<Rightarrow> string \<Rightarrow> unit Bx" where
  "DeleteMailboxMapping accountID i = foundT (on_mappings (t_delete (\<lambda>r. mm_AccountID r = accountID \<and> mm_ID r = i)))"

definition sql_same_name :: "string \<Rightarrow> string \<Rightarrow> bool" where
  "sql_same_name a b \<longleftrightarrow> sql_lower (sql_trim a) = sql_lower (sql_trim b)"

definition RenameMailboxMappings :: "string \<Rightarrow> string \<Rightarrow> string \<Rightarrow> unit Bx" where
  "RenameMailboxMappings accountID mailboxName newMailboxName =
     (let old = TrimSpace mailboxName; new = TrimSpace newMailboxName in
      if old = [] \<or> new = [] \<or> EqualFold old new then retT ()
      else bindT nowT (\<lambda>now.
        thenT (on_mappings (t_update mappings_keys (\<lambda>r. mm_AccountID r = accountID \<and> sql_same_name (mm_MailboxName r) old)
                 (\<lambda>r. r\<lparr>mm_MailboxName := new, mm_UpdatedAt := now\<rparr>)))
        (retT ())))"

definition DeleteMailboxMappingsByMailbox :: "string \<Rightarrow> string \<Rightarrow> unit Bx" where
  "DeleteMailboxMappingsByMailbox accountID mailboxName =
     (let name = TrimSpace mailboxName in
      if name = [] then retT ()
      else thenT (on_mappings (t_delete (\<lambda>r. mm_AccountID r = accountID \<and> sql_same_name (mm_MailboxName r) name))) (retT ()))"

definition mailbox_count :: "counted_row list \<Rightarrow> string \<Rightarrow> Mailbox" where
  "mailbox_count rows name =
     (let own = filter (\<lambda>r. cr_Mailbox r = name) rows in
      \<lparr>mb_Name = name, mb_Role = [], mb_Unread = int (length (filter (\<lambda>r. \<not> cr_Seen r) own)), mb_Messages = int (length own),
       mb_CanRename = False, mb_CanDelete = False\<rparr>)"

definition ListIndexedMailboxCounts :: "string \<Rightarrow> Mailbox list Bx" where
  "ListIndexedMailboxCounts accountID =
     queryT (\<lambda>d. let rows = filter (\<lambda>r. cr_AccountID r = accountID) (counted_rows d) in
                 map (mailbox_count rows) (sort (remdups (map cr_Mailbox rows))))"

end
