(* ===== verification/MailRules.thy ===== *)
theory MailRules
  imports SpecialMailboxes
begin

text \<open>
  Mail rules and the Sieve script that is compiled from them: the first half of \<^verbatim>\<open>internal/api/router_mail_rules.go\<close>,
  \<^verbatim>\<open>internal/store/mail_rules.go\<close> and the scripts of \<^verbatim>\<open>internal/store/v2_store.go\<close>.  The columns that hold conditions and
  actions as JSON are modelled by the values they encode.
\<close>

section \<open>Requests\<close>

record mailRuleMutationRequest =
  rq_Name :: string
  rq_Enabled :: "bool option"
  rq_Position :: "int option"
  rq_MatchMode :: string
  rq_Conditions :: MailRuleConditions
  rq_Actions :: MailRuleActions

definition no_conditions :: MailRuleConditions where
  "no_conditions = \<lparr>rc_FromContains = [], rc_FromDomainIs = [], rc_ToContains = [], rc_SubjectContains = [], rc_BodyContains = []\<rparr>"

definition no_actions :: MailRuleActions where
  "no_actions = \<lparr>ra_MoveToMailbox = [], ra_MoveToRole = [], ra_MarkRead = False, ra_Redirect = [], ra_Stop = False\<rparr>"

definition trimMailRuleConditions :: "MailRuleConditions \<Rightarrow> MailRuleConditions" where
  "trimMailRuleConditions c =
     \<lparr>rc_FromContains = TrimSpace (rc_FromContains c), rc_FromDomainIs = ToLower (trim_cutset ''.'' (TrimSpace (rc_FromDomainIs c))),
      rc_ToContains = TrimSpace (rc_ToContains c), rc_SubjectContains = TrimSpace (rc_SubjectContains c),
      rc_BodyContains = TrimSpace (rc_BodyContains c)\<rparr>"

definition trimMailRuleActions :: "MailRuleActions \<Rightarrow> MailRuleActions" where
  "trimMailRuleActions a =
     \<lparr>ra_MoveToMailbox = TrimSpace (ra_MoveToMailbox a),
      ra_MoveToRole = normalizeAggregateMailboxRole (TrimSpace (ra_MoveToRole a)) (TrimSpace (ra_MoveToRole a)),
      ra_MarkRead = ra_MarkRead a, ra_Redirect = TrimSpace (ra_Redirect a), ra_Stop = ra_Stop a\<rparr>"

definition mailRuleHasConditions :: "MailRuleConditions \<Rightarrow> bool" where
  "mailRuleHasConditions c \<longleftrightarrow> TrimSpace (rc_FromContains c) \<noteq> [] \<or> TrimSpace (rc_FromDomainIs c) \<noteq> [] \<or> TrimSpace (rc_ToContains c) \<noteq> []
     \<or> TrimSpace (rc_SubjectContains c) \<noteq> [] \<or> TrimSpace (rc_BodyContains c) \<noteq> []"

definition mailRuleHasActions :: "MailRuleActions \<Rightarrow> bool" where
  "mailRuleHasActions a \<longleftrightarrow> TrimSpace (ra_MoveToMailbox a) \<noteq> [] \<or> TrimSpace (ra_MoveToRole a) \<noteq> [] \<or> ra_MarkRead a
     \<or> TrimSpace (ra_Redirect a) \<noteq> [] \<or> ra_Stop a"

text \<open>The message of the error, if there is one; the first argument is \<^verbatim>\<open>mail.ParseAddress\<close>.\<close>

definition validateMailRule :: "(string \<Rightarrow> string option) \<Rightarrow> mailRuleMutationRequest \<Rightarrow> string option" where
  "validateMailRule parse req =
     (let conditions = trimMailRuleConditions (rq_Conditions req); actions = trimMailRuleActions (rq_Actions req) in
      if TrimSpace (rq_Name req) = [] then Some ''rule name is required''
      else if \<not> mailRuleHasConditions conditions then Some ''at least one condition is required''
      else if \<not> mailRuleHasActions actions then Some ''at least one action is required''
      else if TrimSpace (ra_MoveToMailbox actions) \<noteq> [] \<and> TrimSpace (ra_MoveToRole actions) \<noteq> []
      then Some ''choose either move_to_mailbox or move_to_role''
      else if ra_MoveToRole actions \<notin> {[], ''junk'', ''trash''} then Some ''unsupported move_to_role''
      else if ra_Redirect actions \<noteq> [] \<and> parse (ra_Redirect actions) = None then Some ''redirect must be a valid email address''
      else None)"

section \<open>Compiling rules to Sieve\<close>

definition managedRulesScriptName :: string where "managedRulesScriptName = ''despatch-managed-rules''"

abbreviation DQ :: char where "DQ \<equiv> CHR 0x22"
abbreviation BSL :: char where "BSL \<equiv> CHR 0x5C"
abbreviation NL :: char where "NL \<equiv> CHR 0x0A"

definition escape_char :: "char \<Rightarrow> string" where
  "escape_char c = (if c = BSL then [BSL, BSL] else if c = DQ then [BSL, DQ] else [c])"

definition sieveEscape :: "string \<Rightarrow> string" where "sieveEscape s = concat (map escape_char s)"

text \<open>What stands for \<^verbatim>\<open>"%s"\<close> with an escaped value.\<close>

definition quoted :: "string \<Rightarrow> string" where "quoted s = DQ # sieveEscape s @ [DQ]"

definition ruleMailboxByRole :: "Mailbox list \<Rightarrow> string \<Rightarrow> string" where
  "ruleMailboxByRole mailboxes role =
     (let target = normalizeAggregateMailboxRole role role in
      if target = [] then []
      else case find (\<lambda>m. normalizeAggregateMailboxRole (mb_Role m) (mb_Name m) = target) mailboxes of
             None \<Rightarrow> [] | Some m \<Rightarrow> TrimSpace (mb_Name m))"

definition fragment_if :: "string \<Rightarrow> string \<Rightarrow> string list" where "fragment_if value text = (if value \<noteq> [] then [text] else [])"

definition compileMailRuleConditionFragments :: "MailRule \<Rightarrow> string list" where
  "compileMailRuleConditionFragments rule =
     (let c = trimMailRuleConditions (mr_Conditions rule) in
      fragment_if (rc_FromContains c) (''header :contains '' @ quoted ''from'' @ '' '' @ quoted (rc_FromContains c)) @
      fragment_if (rc_FromDomainIs c) (''address :domain :is '' @ quoted ''from'' @ '' '' @ quoted (rc_FromDomainIs c)) @
      fragment_if (rc_ToContains c) (''address :contains ['' @ quoted ''to'' @ '', '' @ quoted ''cc'' @ '', '' @ quoted ''bcc'' @ ''] ''
        @ quoted (rc_ToContains c)) @
      fragment_if (rc_SubjectContains c) (''header :contains '' @ quoted ''subject'' @ '' '' @ quoted (rc_SubjectContains c)) @
      fragment_if (rc_BodyContains c) (''body :contains '' @ quoted (rc_BodyContains c)))"

datatype compile_error = MailboxRequired string | MailboxUnavailable string

definition target_mailbox :: "MailRuleActions \<Rightarrow> Mailbox list \<Rightarrow> compile_error + string" where
  "target_mailbox a mailboxes =
     (if TrimSpace (ra_MoveToMailbox a) = [] \<and> ra_MoveToRole a \<noteq> [] then
        (let found = ruleMailboxByRole mailboxes (ra_MoveToRole a) in
         if found \<noteq> [] then Inr found
         else if ra_MoveToRole a \<in> {''junk'', ''trash''} then Inl (MailboxRequired (ra_MoveToRole a))
         else Inl (MailboxUnavailable (aggregateMailboxDisplayName (ra_MoveToRole a) @ '' mailbox is unavailable'')))
      else Inr (TrimSpace (ra_MoveToMailbox a)))"

definition compileMailRuleActionFragments :: "MailRule \<Rightarrow> Mailbox list \<Rightarrow> compile_error + string list" where
  "compileMailRuleActionFragments rule mailboxes =
     (let a = trimMailRuleActions (mr_Actions rule) in
      case target_mailbox a mailboxes of
        Inl e \<Rightarrow> Inl e
      | Inr target \<Rightarrow> Inr (
          fragment_if target (''fileinto '' @ quoted target @ '';'') @
          (if ra_MarkRead a then [''addflag '' @ quoted (BSL # ''Seen'') @ '';''] else []) @
          fragment_if (ra_Redirect a) (''redirect '' @ quoted (ra_Redirect a) @ '';'') @
          (if ra_Stop a then [''stop;''] else [])))"

definition condition_expr :: "MailRule \<Rightarrow> string list \<Rightarrow> string" where
  "condition_expr rule conditions =
     (if length conditions > 1
      then (if EqualFold (TrimSpace (mr_MatchMode rule)) ''any'' then ''anyof'' else ''allof'') @ ''('' @ Join conditions '', '' @ '')''
      else hd conditions)"

text \<open>The block of a rule and the extensions it needs, or nothing for a rule that does nothing.\<close>

definition rule_block :: "MailRule \<Rightarrow> Mailbox list \<Rightarrow> compile_error + (string \<times> string list) option" where
  "rule_block rule mailboxes =
     (let conditions = compileMailRuleConditionFragments rule; a = trimMailRuleActions (mr_Actions rule) in
      if \<not> mr_Enabled rule \<or> conditions = [] then Inr None
      else case compileMailRuleActionFragments rule mailboxes of
        Inl e \<Rightarrow> Inl e
      | Inr actions \<Rightarrow>
          if actions = [] then Inr None
          else Inr (Some (
            ''# '' @ sieveEscape (TrimSpace (mr_Name rule)) @ [NL] @ ''if '' @ condition_expr rule conditions @ '' {'' @ [NL] @ ''  ''
              @ Join actions (NL # ''  '') @ [NL] @ ''}'',
            (if ra_MoveToMailbox a \<noteq> [] \<or> ra_MoveToRole a \<noteq> [] then [''fileinto''] else []) @
            (if ra_MarkRead a then [''imap4flags''] else []) @
            (if ra_Redirect a \<noteq> [] then [''redirect''] else []) @
            (if rc_BodyContains (trimMailRuleConditions (mr_Conditions rule)) \<noteq> [] then [''body''] else []))))"

fun rule_blocks :: "MailRule list \<Rightarrow> Mailbox list \<Rightarrow> compile_error + (string \<times> string list) list" where
  "rule_blocks [] mailboxes = Inr []"
| "rule_blocks (rule # rules) mailboxes =
     (case rule_block rule mailboxes of
        Inl e \<Rightarrow> Inl e
      | Inr b \<Rightarrow> (case rule_blocks rules mailboxes of
          Inl e \<Rightarrow> Inl e
        | Inr bs \<Rightarrow> Inr ((case b of None \<Rightarrow> [] | Some x \<Rightarrow> [x]) @ bs)))"

definition requiresOrder :: "string list" where "requiresOrder = [''fileinto'', ''imap4flags'', ''redirect'', ''body'']"

definition script_requires :: "(string \<times> string list) list \<Rightarrow> string list" where
  "script_requires blocks =
     (let needed = filter (\<lambda>item. item \<in> set (concat (map snd blocks))) requiresOrder in
      if needed = [] then [''fileinto''] else needed)"

definition compileManagedMailRules :: "MailRule list \<Rightarrow> Mailbox list \<Rightarrow> compile_error + string" where
  "compileManagedMailRules rules mailboxes =
     (case rule_blocks rules mailboxes of
        Inl e \<Rightarrow> Inl e
      | Inr blocks \<Rightarrow> Inr (Join
          [''require ['' @ Join (map (\<lambda>item. DQ # item @ [DQ]) (script_requires blocks)) '', '' @ ''];'',
           [],
           ''# Managed by Despatch. Edit structured rules in Settings > Mail > Rules & Junk.'',
           if blocks = [] then ''# No enabled rules.'' else Join (map fst blocks) [NL, NL]] [NL]))"

section \<open>Store: rules\<close>

definition normalizeMailRuleMatchMode :: "string \<Rightarrow> string" where
  "normalizeMailRuleMatchMode raw = (if EqualFold (TrimSpace raw) ''any'' then ''any'' else ''all'')"

definition scanMailRule :: "MailRule \<Rightarrow> MailRule" where
  "scanMailRule r = r\<lparr>mr_MatchMode := normalizeMailRuleMatchMode (mr_MatchMode r)\<rparr>"

definition by_position :: "MailRule list \<Rightarrow> MailRule list" where
  "by_position rows = sort_key mr_Position (sort_key mr_CreatedAt rows)"

definition account_rules :: "string \<Rightarrow> bdb \<Rightarrow> MailRule list" where
  "account_rules accountID d = by_position (filter (\<lambda>r. mr_AccountID r = accountID) (mail_rules d))"

definition ListMailRules :: "string \<Rightarrow> MailRule list Bx" where
  "ListMailRules accountID = queryT (\<lambda>d. map scanMailRule (account_rules accountID d))"

definition GetMailRuleByID :: "string \<Rightarrow> string \<Rightarrow> MailRule Bx" where
  "GetMailRuleByID accountID i =
     rowT (\<lambda>d. map_option scanMailRule (find (\<lambda>r. mr_AccountID r = accountID \<and> mr_ID r = i) (mail_rules d)))"

text \<open>A sum beyond 64 bits is a floating point number in SQL, which is not read as an \<^verbatim>\<open>int\<close>.\<close>

definition nextMailRulePosition :: "string \<Rightarrow> int Bx" where
  "nextMailRulePosition accountID =
     bindT (queryT (\<lambda>d. fold max (map mr_Position (filter (\<lambda>r. mr_AccountID r = accountID) (mail_rules d))) (- 1) + 1)) (\<lambda>next.
     if next \<ge> 2 ^ 63 then failT (DBErr ''converting driver.Value type float64 to a int'') else retT next)"

definition CreateMailRule :: "MailRule \<Rightarrow> MailRule Bx" where
  "CreateMailRule r0 =
     bindT nowT (\<lambda>now.
     bindT (if TrimSpace (mr_ID r0) = [] then uuidT else retT (mr_ID r0)) (\<lambda>newID.
     let accountID = TrimSpace (mr_AccountID r0); pos = max 0 (mr_Position r0) in
     bindT (nextMailRulePosition accountID) (\<lambda>nextPos.
     let r = r0\<lparr>mr_ID := newID, mr_AccountID := accountID, mr_Name := TrimSpace (mr_Name r0),
           mr_MatchMode := normalizeMailRuleMatchMode (mr_MatchMode r0),
           mr_Position := (if pos = 0 \<and> nextPos > 0 then nextPos else pos), mr_CreatedAt := now, mr_UpdatedAt := now\<rparr> in
     thenT (on_rules (t_insert rules_keys r)) (GetMailRuleByID accountID newID))))"

definition UpdateMailRule :: "MailRule \<Rightarrow> MailRule Bx" where
  "UpdateMailRule r =
     bindT nowT (\<lambda>now.
     let accountID = TrimSpace (mr_AccountID r) in
     thenT (foundT (on_rules (t_update rules_keys (\<lambda>q. mr_AccountID q = accountID \<and> mr_ID q = mr_ID r)
              (\<lambda>q. q\<lparr>mr_Name := TrimSpace (mr_Name r), mr_Enabled := mr_Enabled r, mr_Position := mr_Position r,
                 mr_MatchMode := normalizeMailRuleMatchMode (mr_MatchMode r), mr_Conditions := mr_Conditions r,
                 mr_Actions := mr_Actions r, mr_UpdatedAt := now\<rparr>))))
     (GetMailRuleByID accountID (mr_ID r)))"

definition DeleteMailRule :: "string \<Rightarrow> string \<Rightarrow> unit Bx" where
  "DeleteMailRule accountID i = foundT (on_rules (t_delete (\<lambda>r. mr_AccountID r = accountID \<and> mr_ID r = i)))"

definition rule_order :: "string list \<Rightarrow> string list \<Rightarrow> string list" where
  "rule_order ids existing =
     (let first = distinct_names id [] ids in first @ filter (\<lambda>i. i \<notin> set first) (map TrimSpace existing))"

definition set_position :: "string \<Rightarrow> gotime \<Rightarrow> nat \<times> string \<Rightarrow> unit Bx" where
  "set_position accountID now p =
     (case p of (idx, i) \<Rightarrow>
        thenT (on_rules (t_update rules_keys (\<lambda>r. mr_AccountID r = accountID \<and> mr_ID r = i)
                 (\<lambda>r. r\<lparr>mr_Position := int idx, mr_UpdatedAt := now\<rparr>)))
        (retT ()))"

definition ReorderMailRules :: "string \<Rightarrow> string list \<Rightarrow> unit Bx" where
  "ReorderMailRules accountID ids =
     in_txT (bindT (queryT (\<lambda>d. map mr_ID (account_rules accountID d))) (\<lambda>existing.
             bindT nowT (\<lambda>now.
             let order = rule_order ids existing in
             forT (enumerate 0 order) (set_position accountID now))))"

definition mailRulesSortedByPosition :: "MailRule list \<Rightarrow> MailRule list" where
  "mailRulesSortedByPosition rules = sort_key mr_Position (sort_key mr_CreatedAt rules)"

section \<open>Store: scripts\<close>

definition ActiveSieveScriptName :: "string \<Rightarrow> string Bx" where
  "ActiveSieveScriptName accountID =
     bindT (queryT (\<lambda>d. find (\<lambda>p. sp_AccountID p = accountID) (sieve_profiles d))) (\<lambda>profile.
     let name = TrimSpace (case profile of None \<Rightarrow> [] | Some p \<Rightarrow> sp_ActiveScript p) in
     if name \<noteq> [] then retT name
     else tryT (queryT (\<lambda>d. rev (sort_key ss_UpdatedAt (rev (filter (\<lambda>x. ss_AccountID x = accountID \<and> ss_IsActive x) (sieve_cache d)))))) (\<lambda>r.
       retT (case r of Inr (x # _) \<Rightarrow> TrimSpace (ss_ScriptName x) | _ \<Rightarrow> [])))"

definition ListSieveScripts :: "string \<Rightarrow> SieveScript list Bx" where
  "ListSieveScripts accountID =
     queryT (\<lambda>d. let named = sort_key ss_ScriptName (filter (\<lambda>x. ss_AccountID x = accountID) (sieve_cache d)) in
                 filter ss_IsActive named @ filter (\<lambda>x. \<not> ss_IsActive x) named)"

definition GetSieveScript :: "string \<Rightarrow> string \<Rightarrow> SieveScript Bx" where
  "GetSieveScript accountID name = rowT (\<lambda>d. find (\<lambda>x. ss_AccountID x = accountID \<and> ss_ScriptName x = name) (sieve_cache d))"

definition UpsertSieveScript :: "SieveScript \<Rightarrow> SieveScript Bx" where
  "UpsertSieveScript x0 =
     bindT nowT (\<lambda>now.
     bindT (if TrimSpace (ss_ID x0) = [] then uuidT else retT (ss_ID x0)) (\<lambda>newID.
     let x = x0\<lparr>ss_ID := newID, ss_CreatedAt := Some (if TrimSpace (ss_ID x0) = [] then now else coalesceTime (ss_CreatedAt x0) now),
           ss_UpdatedAt := now, ss_Source := (if TrimSpace (ss_Source x0) = [] then ''cache'' else ss_Source x0)\<rparr> in
     thenT (on_scripts (t_upsert scripts_keys (\<lambda>y. ss_AccountID y = ss_AccountID x \<and> ss_ScriptName y = ss_ScriptName x)
              (\<lambda>y. y\<lparr>ss_ScriptBody := ss_ScriptBody x, ss_ChecksumSHA := ss_ChecksumSHA x, ss_Source := ss_Source x,
                 ss_UpdatedAt := now\<rparr>) x))
     (GetSieveScript (ss_AccountID x) (ss_ScriptName x))))"

definition ActivateSieveScript :: "string \<Rightarrow> string \<Rightarrow> unit Bx" where
  "ActivateSieveScript accountID name =
     bindT nowT (\<lambda>now.
     thenT (on_scripts (t_update scripts_keys (\<lambda>x. ss_AccountID x = accountID)
              (\<lambda>x. x\<lparr>ss_IsActive := (ss_ScriptName x = name), ss_UpdatedAt := now\<rparr>)))
     (bindT nowT (\<lambda>later.
      thenT (on_sieve_profiles (t_update sieve_profiles_keys (\<lambda>p. sp_AccountID p = accountID)
               (\<lambda>p. p\<lparr>sp_ActiveScript := name, sp_UpdatedAt := later\<rparr>)))
      (retT ()))))"

definition DeleteSieveScript :: "string \<Rightarrow> string \<Rightarrow> unit Bx" where
  "DeleteSieveScript accountID name = foundT (on_scripts (t_delete (\<lambda>x. ss_AccountID x = accountID \<and> ss_ScriptName x = name)))"

end
