(* ===== verification/MailboxHandlers.thy ===== *)
theory MailboxHandlers
  imports SpecialMailboxes
begin

text \<open>
  Listing, creating, renaming and deleting mailboxes: the handlers of \<^verbatim>\<open>internal/api/router_mail_special.go\<close>, except the three
  that rewrite the message index.  Of a response the status, the code and the cookies are kept.

  A handler always answers, so the error of a run is free; it stands for a loop that has not ended within its fuel, as the
  loop that empties a mailbox may run for ever.
\<close>

section \<open>Responses\<close>

record mailboxMutationRequest =
  bq_MailboxName :: string
  bq_NewMailboxName :: string

record special_request =
  sq_MailboxName :: string
  sq_CreateIfMissing :: bool

definition classifyMailboxMutationIMAPError :: "string \<Rightarrow> (int \<times> string) option" where
  "classifyMailboxMutationIMAPError text =
     (let message = lower_trim text in
      if list_ex (Contains message) [''already exists'', ''mailbox exists'', ''mailbox already exists'', ''name already exists'', ''duplicate mailbox'']
      then Some (409, ''mailbox_exists'')
      else if list_ex (Contains message)
           [''not empty'', ''non-empty'', ''mailbox isn'' @ [CHR 0x27] @ ''t empty'', ''mailbox is not empty'', ''has messages'']
      then Some (409, ''mailbox_not_empty'')
      else None)"

definition mutation_error :: "(err \<Rightarrow> string) \<Rightarrow> err \<Rightarrow> resp" where
  "mutation_error text e =
     (case classifyMailboxMutationIMAPError (text e) of
        Some (status, code) \<Rightarrow> error_resp status code
      | None \<Rightarrow> error_resp 502 ''imap_error'')"

definition isSessionMailAuthError :: "(err \<Rightarrow> string) \<Rightarrow> err \<Rightarrow> bool" where
  "isSessionMailAuthError text e \<longleftrightarrow> e = ErrInvalidCredentials \<or> Contains (text e) ''mail credentials''"

definition writeMailAuthError :: "Handlers \<Rightarrow> err \<Rightarrow> resp" where
  "writeMailAuthError h e =
     (if e = ErrInvalidCredentials then (error_resp 401 ''session_invalid'')\<lparr>rs_cookies := clear_auth_cookies h\<rparr>
      else error_resp 401 ''mail_auth_missing'')"

definition session_error :: "Handlers \<Rightarrow> (err \<Rightarrow> string) \<Rightarrow> err \<Rightarrow> resp" where
  "session_error h text e =
     (if isSessionMailAuthError text e then writeMailAuthError h e else error_resp 500 ''special_mailboxes_failed'')"

definition orText :: "'a Bx \<Rightarrow> ((err \<Rightarrow> string) \<Rightarrow> err \<Rightarrow> resp) \<Rightarrow> ('a \<Rightarrow> resp Bx) \<Rightarrow> resp Bx" where
  "orText m on_err k = bindT (askT be_error) (\<lambda>text. orT m (on_err text) k)"

definition required_mailbox :: resp where "required_mailbox = error_resp 409 ''special_mailbox_required''"

section \<open>Mailboxes of a session\<close>

definition session_password :: "Session option \<Rightarrow> string Bx" where
  "session_password sess = (case sess of None \<Rightarrow> failT ErrInvalidCredentials | Some s \<Rightarrow> coreT (SessionMailPassword s))"

definition rawMailboxes :: "string \<Rightarrow> string \<Rightarrow> Mailbox list Bx" where
  "rawMailboxes mailLogin pass = cached_boxes mailLogin (ListMailboxes ServiceClient mailLogin pass)"

definition session_boxes :: "User \<Rightarrow> string \<Rightarrow> (Mailbox list \<times> mappings) Bx" where
  "session_boxes u pass =
     bindT (rawMailboxes (MailAuthLogin u) pass) (\<lambda>boxes.
     bindT (ListSpecialMailboxMappings (u_ID u) (MailAuthLogin u)) (\<lambda>m. retT (boxes, m)))"

definition listMailboxesWithSpecialRoles :: "User \<Rightarrow> Session option \<Rightarrow> (Mailbox list \<times> mappings \<times> string) Bx" where
  "listMailboxesWithSpecialRoles u sess =
     bindT (session_password sess) (\<lambda>pass.
     bindT (session_boxes u pass) (\<lambda>(boxes, m). retT (applyMailboxCapabilities (applySpecialMailboxRoles boxes m), m, pass)))"

definition resolveSessionSpecialMailboxByRole :: "User \<Rightarrow> string \<Rightarrow> string \<Rightarrow> string Bx" where
  "resolveSessionSpecialMailboxByRole u pass role =
     bindT (session_boxes u pass) (\<lambda>(boxes, m). retT (resolveSpecialMailboxFromAvailable boxes m role))"

definition ListSpecialMailboxes :: "Handlers \<Rightarrow> User \<Rightarrow> Session option \<Rightarrow> resp Bx" where
  "ListSpecialMailboxes h u sess = orText (listMailboxesWithSpecialRoles u sess) (session_error h) (\<lambda>_. retT (ok_resp 200))"

definition CreateMailbox :: "Handlers \<Rightarrow> User \<Rightarrow> Session option \<Rightarrow> decode_err + mailboxMutationRequest \<Rightarrow> resp Bx" where
  "CreateMailbox h u sess body = with_bodyT body (\<lambda>req.
     let target = TrimSpace (bq_MailboxName req) in
     if target = [] then retT (error_resp 400 ''bad_request'')
     else if isReservedMailboxName target then retT (error_resp 400 ''mailbox_protected'')
     else orText (listMailboxesWithSpecialRoles u sess) (session_error h) (\<lambda>(boxes, m, pass).
       if mailboxByName boxes target \<noteq> None then retT (error_resp 409 ''mailbox_exists'')
       else orText (client_CreateMailbox ServiceClient (MailAuthLogin u) pass target) mutation_error (\<lambda>_.
         thenT (forget_boxes (MailAuthLogin u))
         (orText (listMailboxesWithSpecialRoles u sess) (session_error h) (\<lambda>_. retT (ok_resp 201))))))"

definition taken :: "Mailbox list \<Rightarrow> Mailbox \<Rightarrow> string \<Rightarrow> bool" where
  "taken boxes source targetName =
     (case mailboxByName boxes targetName of
        None \<Rightarrow> False
      | Some target \<Rightarrow> \<not> EqualFold (TrimSpace (mb_Name target)) (TrimSpace (mb_Name source)))"

definition RenameMailbox :: "Handlers \<Rightarrow> User \<Rightarrow> Session option \<Rightarrow> decode_err + mailboxMutationRequest \<Rightarrow> resp Bx" where
  "RenameMailbox h u sess body = with_bodyT body (\<lambda>req.
     let sourceName = TrimSpace (bq_MailboxName req); targetName = TrimSpace (bq_NewMailboxName req); login = MailAuthLogin u;
         finish = orText (listMailboxesWithSpecialRoles u sess) (session_error h) (\<lambda>_. retT (ok_resp 200)) in
     if sourceName = [] \<or> targetName = [] then retT (error_resp 400 ''bad_request'')
     else if isReservedMailboxName targetName then retT (error_resp 400 ''mailbox_protected'')
     else orText (listMailboxesWithSpecialRoles u sess) (session_error h) (\<lambda>(boxes, m, pass).
       case mailboxByName boxes sourceName of
         None \<Rightarrow> retT (error_resp 404 ''mailbox_not_found'')
       | Some source \<Rightarrow>
           if \<not> mb_CanRename source then retT (error_resp 400 ''mailbox_protected'')
           else if taken boxes source targetName then retT (error_resp 409 ''mailbox_exists'')
           else if EqualFold (TrimSpace (mb_Name source)) targetName then finish
           else orText (client_RenameMailbox ServiceClient login pass (mb_Name source) targetName) mutation_error (\<lambda>_.
             orT (RenameSpecialMailboxMappings (u_ID u) login (mb_Name source) targetName)
               (\<lambda>_. error_resp 500 ''special_mailboxes_failed'') (\<lambda>_.
             thenT (forget_boxes login) finish))))"

section \<open>Emptying a mailbox\<close>

definition mailboxMutationMovePageSize :: int where "mailboxMutationMovePageSize = 100"

text \<open>How many messages of a page were moved.\<close>

fun move_page :: "mail_client \<Rightarrow> string \<Rightarrow> string \<Rightarrow> string \<Rightarrow> (string \<Rightarrow> string \<Rightarrow> unit Bx) \<Rightarrow> string list \<Rightarrow> nat Bx" where
  "move_page c login pass trash afterMove [] = retT 0"
| "move_page c login pass trash afterMove (i # ids) =
     (if TrimSpace i = [] then move_page c login pass trash afterMove ids
      else thenT (client_Move c login pass (TrimSpace i) trash)
        (thenT (afterMove i trash)
        (bindT (move_page c login pass trash afterMove ids) (\<lambda>k. retT (Suc k)))))"

text \<open>The result is \<^const>\<open>None\<close> when the fuel is spent, the role of a mailbox that is missing, or the count of moved messages with the
  mailbox they were moved to.\<close>

type_synonym move_result = "(string + nat \<times> string) option"

fun moveMailboxMessagesToTrash :: "nat \<Rightarrow> mail_client \<Rightarrow> string \<Rightarrow> string \<Rightarrow> string \<Rightarrow> string Bx \<Rightarrow> (string \<Rightarrow> string \<Rightarrow> unit Bx)
    \<Rightarrow> nat \<Rightarrow> string \<Rightarrow> move_result Bx" where
  "moveMailboxMessagesToTrash 0 c login pass source resolveTrash afterMove moved trash = retT None"
| "moveMailboxMessagesToTrash (Suc fuel) c login pass source resolveTrash afterMove moved trash =
     bindT (client_ListMessages c login pass source 1 mailboxMutationMovePageSize) (\<lambda>ids.
     if ids = [] then retT (Some (Inr (moved, trash)))
     else bindT (if TrimSpace trash = [] then bindT resolveTrash (\<lambda>t. retT (TrimSpace t)) else retT trash) (\<lambda>t.
       if TrimSpace t = [] then retT (Some (Inl ''trash''))
       else bindT (move_page c login pass t afterMove ids) (\<lambda>k.
         if k = 0 then failT (ErrMsg ''mailbox contains messages without ids'')
         else moveMailboxMessagesToTrash fuel c login pass source resolveTrash afterMove (moved + k) t)))"

definition still_running :: err where "still_running = ErrMsg ''still running''"

definition DeleteMailbox :: "nat \<Rightarrow> Handlers \<Rightarrow> User \<Rightarrow> Session option \<Rightarrow> decode_err + mailboxMutationRequest \<Rightarrow> resp Bx" where
  "DeleteMailbox fuel h u sess body = with_bodyT body (\<lambda>req.
     let target = TrimSpace (bq_MailboxName req); login = MailAuthLogin u in
     if target = [] then retT (error_resp 400 ''bad_request'')
     else orText (listMailboxesWithSpecialRoles u sess) (session_error h) (\<lambda>(boxes, m, pass).
       case mailboxByName boxes target of
         None \<Rightarrow> retT (error_resp 404 ''mailbox_not_found'')
       | Some current \<Rightarrow>
           if \<not> mb_CanDelete current then retT (error_resp 400 ''mailbox_protected'')
           else orText (moveMailboxMessagesToTrash fuel ServiceClient login pass (mb_Name current)
                   (resolveSessionSpecialMailboxByRole u pass ''trash'') (\<lambda>_ _. retT ()) 0 []) mutation_error (\<lambda>result.
             case result of
               None \<Rightarrow> failT still_running
             | Some (Inl _) \<Rightarrow> retT required_mailbox
             | Some (Inr _) \<Rightarrow>
                 orText (client_DeleteMailbox ServiceClient login pass (mb_Name current)) mutation_error (\<lambda>_.
                 orT (DeleteSpecialMailboxMappingsByMailbox (u_ID u) login (mb_Name current))
                   (\<lambda>_. error_resp 500 ''special_mailboxes_failed'') (\<lambda>_.
                 thenT (forget_boxes login)
                 (orText (listMailboxesWithSpecialRoles u sess) (session_error h) (\<lambda>_. retT (ok_resp 200))))))))"

section \<open>Mapping a role\<close>

definition unsupported_role :: "string \<Rightarrow> bool" where "unsupported_role role \<longleftrightarrow> role \<notin> {''sent'', ''archive'', ''trash'', ''junk''}"

definition listed_name :: "Mailbox list \<Rightarrow> string \<Rightarrow> string option" where
  "listed_name boxes target = map_option (\<lambda>m. TrimSpace (mb_Name m)) (find (\<lambda>m. EqualFold (TrimSpace (mb_Name m)) target) boxes)"

definition UpsertSpecialMailbox :: "Handlers \<Rightarrow> User \<Rightarrow> Session option \<Rightarrow> string \<Rightarrow> decode_err + special_request \<Rightarrow> resp Bx" where
  "UpsertSpecialMailbox h u sess role_param body =
     (let role = lower_trim role_param; login = MailAuthLogin u in
      if unsupported_role role then retT (error_resp 400 ''bad_request'')
      else with_bodyT body (\<lambda>req.
        let target = TrimSpace (sq_MailboxName req);
            save = (\<lambda>name. orT (UpsertSpecialMailboxMapping (u_ID u) login role name) (\<lambda>_. error_resp 500 ''special_mailboxes_failed'')
                     (\<lambda>_. thenT (forget_boxes login) (retT (ok_resp 200)))) in
        if target = [] then retT (error_resp 400 ''bad_request'')
        else orText (listMailboxesWithSpecialRoles u sess) (session_error h) (\<lambda>(boxes, m, pass).
          case listed_name boxes target of
            Some name \<Rightarrow> save name
          | None \<Rightarrow>
              if \<not> sq_CreateIfMissing req then retT (error_resp 404 ''mailbox_not_found'')
              else orT (client_CreateMailbox ServiceClient login pass target) (\<lambda>_. error_resp 502 ''imap_error'') (\<lambda>_. save target))))"

section \<open>Mailboxes of an account\<close>

definition resolveMappedMailboxByRole :: "MailboxMapping list \<Rightarrow> string \<Rightarrow> string" where
  "resolveMappedMailboxByRole rows role =
     (let target = lower_trim role in
      if target = [] then []
      else case find (\<lambda>r. EqualFold (TrimSpace (mm_Role r)) target) rows of None \<Rightarrow> [] | Some r \<Rightarrow> TrimSpace (mm_MailboxName r))"

definition mailboxMappingsOverlay :: "MailboxMapping list \<Rightarrow> mappings" where
  "mailboxMappingsOverlay rows =
     (\<lambda>role. if role \<in> set specialMailboxRoles \<and> resolveMappedMailboxByRole rows role \<noteq> []
             then Some (resolveMappedMailboxByRole rows role) else None)"

definition accountMailboxCacheKey :: "MailAccount \<Rightarrow> string" where
  "accountMailboxCacheKey a = ''account:'' @ TrimSpace (ma_ID a) @ [CHR 0x00] @ TrimSpace (ma_Login a)"

definition accountMailClient :: "MailAccount \<Rightarrow> mail_client" where
  "accountMailClient a = ConfiguredClient \<lparr>cc_IMAPHost = ma_IMAPHost a, cc_IMAPPort = ma_IMAPPort a, cc_IMAPTLS = ma_IMAPTLS a,
     cc_IMAPStartTLS = ma_IMAPStartTLS a, cc_SMTPHost = ma_SMTPHost a, cc_SMTPPort = ma_SMTPPort a, cc_SMTPTLS = ma_SMTPTLS a,
     cc_SMTPStartTLS = ma_SMTPStartTLS a\<rparr>"

definition accountMailSecret :: "MailAccount \<Rightarrow> string Bx" where
  "accountMailSecret a =
     bindT (askT (\<lambda>v. let sv = te_svc v in DecryptString (aes_gcm sv) (encryptKey sv) (ma_SecretEnc a))) (\<lambda>r.
     case r of Inl e \<Rightarrow> failT (SecretErr e) | Inr p \<Rightarrow> retT p)"

definition rawAccountMailboxes :: "MailAccount \<Rightarrow> string \<Rightarrow> Mailbox list Bx" where
  "rawAccountMailboxes a pass = cached_boxes (accountMailboxCacheKey a) (ListMailboxes (accountMailClient a) (ma_Login a) pass)"

definition with_overlay :: "Mailbox list \<Rightarrow> MailboxMapping list \<Rightarrow> Mailbox list" where
  "with_overlay boxes rows = applyMailboxCapabilities (applySpecialMailboxRoles boxes (mailboxMappingsOverlay rows))"

definition account_boxes :: "MailAccount \<Rightarrow> string \<Rightarrow> (Mailbox list \<times> MailboxMapping list) Bx" where
  "account_boxes a pass =
     bindT (rawAccountMailboxes a pass) (\<lambda>boxes.
     bindT (ListIndexedMailboxCounts (ma_ID a)) (\<lambda>counts.
     bindT (ListMailboxMappings (ma_ID a)) (\<lambda>rows. retT (with_overlay (mergeMailboxCounts boxes counts) rows, rows))))"

definition listAccountMailboxesWithRolesForAccount :: "MailAccount \<Rightarrow> (Mailbox list \<times> MailboxMapping list \<times> string) Bx" where
  "listAccountMailboxesWithRolesForAccount a =
     bindT (accountMailSecret a) (\<lambda>pass. bindT (account_boxes a pass) (\<lambda>(boxes, rows). retT (boxes, rows, pass)))"

definition listAccountMailboxesWithRolesBestEffort :: "MailAccount \<Rightarrow> Mailbox list Bx" where
  "listAccountMailboxesWithRolesBestEffort a =
     tryT (listAccountMailboxesWithRolesForAccount a) (\<lambda>r. case r of
       Inr (boxes, _) \<Rightarrow> retT boxes
     | Inl e \<Rightarrow> tryT (ListIndexedMailboxCounts (ma_ID a)) (\<lambda>c. case c of
         Inl _ \<Rightarrow> failT e
       | Inr counts \<Rightarrow> bindT (ListMailboxMappings (ma_ID a)) (\<lambda>rows. retT (with_overlay counts rows))))"

definition listAccountMailboxesWithRoles :: "User \<Rightarrow> string \<Rightarrow> (Mailbox list \<times> MailboxMapping list \<times> MailAccount \<times> string) Bx" where
  "listAccountMailboxesWithRoles u accountID =
     bindT (coreT (GetMailAccountByID (u_ID u) (TrimSpace accountID))) (\<lambda>a.
     bindT (listAccountMailboxesWithRolesForAccount a) (\<lambda>(boxes, rows, pass). retT (boxes, rows, a, pass)))"

definition account_error :: "err \<Rightarrow> resp" where "account_error = absent_or ''account_not_found'' 500 ''account_mailboxes_failed''"

definition mailboxes_failed :: "err \<Rightarrow> resp" where "mailboxes_failed = (\<lambda>_. error_resp 500 ''account_mailboxes_failed'')"

definition V2ListAccountMailboxes :: "User \<Rightarrow> string \<Rightarrow> resp Bx" where
  "V2ListAccountMailboxes u accountID = orT (listAccountMailboxesWithRoles u accountID) account_error (\<lambda>_. retT (ok_resp 200))"

text \<open>The lists that could be read, and whether one could not.\<close>

fun best_effort_all :: "MailAccount list \<Rightarrow> (Mailbox list list \<times> bool) Bx" where
  "best_effort_all [] = retT ([], False)"
| "best_effort_all (a # as) =
     tryT (listAccountMailboxesWithRolesBestEffort a) (\<lambda>r.
     bindT (best_effort_all as) (\<lambda>(groups, failed).
     case r of Inl _ \<Rightarrow> retT (groups, True) | Inr boxes \<Rightarrow> retT (boxes # groups, failed)))"

definition V2ListAggregateMailboxes :: "User \<Rightarrow> resp Bx" where
  "V2ListAggregateMailboxes u =
     orT (coreT (ListMailAccounts (u_ID u))) (\<lambda>_. error_resp 500 ''accounts_list_failed'') (\<lambda>accounts.
     bindT (best_effort_all accounts) (\<lambda>(groups, failed).
     retT (if accounts \<noteq> [] \<and> mergeAggregateMailboxes groups = [] \<and> failed then error_resp 500 ''aggregate_mailboxes_failed''
           else ok_resp 200)))"

definition forget_account :: "MailAccount \<Rightarrow> unit Bx" where
  "forget_account a = thenT (forget_boxes (accountMailboxCacheKey a)) (forget_boxes (ma_Login a))"

definition V2CreateAccountMailbox :: "User \<Rightarrow> string \<Rightarrow> decode_err + mailboxMutationRequest \<Rightarrow> resp Bx" where
  "V2CreateAccountMailbox u accountID body = with_bodyT body (\<lambda>req.
     let target = TrimSpace (bq_MailboxName req) in
     if target = [] then retT (error_resp 400 ''bad_request'')
     else if isReservedMailboxName target then retT (error_resp 400 ''mailbox_protected'')
     else orT (listAccountMailboxesWithRoles u accountID) account_error (\<lambda>(boxes, rows, a, pass).
       if mailboxByName boxes target \<noteq> None then retT (error_resp 409 ''mailbox_exists'')
       else orText (client_CreateMailbox (accountMailClient a) (ma_Login a) pass target) mutation_error (\<lambda>_.
         thenT (forget_account a)
         (orT (listAccountMailboxesWithRoles u (ma_ID a)) mailboxes_failed (\<lambda>_. retT (ok_resp 201))))))"

definition mapping_id :: "MailboxMapping list \<Rightarrow> string \<Rightarrow> string" where
  "mapping_id rows role =
     (case find (\<lambda>r. EqualFold (TrimSpace (mm_Role r)) role) rows of None \<Rightarrow> [] | Some r \<Rightarrow> TrimSpace (mm_ID r))"

definition save_account_mapping :: "MailAccount \<Rightarrow> MailboxMapping list \<Rightarrow> string \<Rightarrow> string \<Rightarrow> MailboxMapping Bx" where
  "save_account_mapping a rows role name =
     bindT (if mapping_id rows role = [] then uuidT else retT (mapping_id rows role)) (\<lambda>i.
     UpsertMailboxMapping \<lparr>mm_ID = i, mm_AccountID = ma_ID a, mm_Role = role, mm_MailboxName = name, mm_Source = ''manual'',
       mm_Priority = 100, mm_CreatedAt = None, mm_UpdatedAt = 0\<rparr>)"

definition V2UpsertAccountSpecialMailbox :: "User \<Rightarrow> string \<Rightarrow> string \<Rightarrow> decode_err + special_request \<Rightarrow> resp Bx" where
  "V2UpsertAccountSpecialMailbox u accountID role_param body =
     (let role = lower_trim role_param in
      if unsupported_role role then retT (error_resp 400 ''bad_request'')
      else with_bodyT body (\<lambda>req.
        let target = TrimSpace (sq_MailboxName req) in
        if target = [] then retT (error_resp 400 ''bad_request'')
        else orT (listAccountMailboxesWithRoles u accountID) account_error (\<lambda>(boxes, rows, a, pass).
          let save = (\<lambda>name. orT (save_account_mapping a rows role name) mailboxes_failed (\<lambda>_.
                thenT (forget_account a)
                (orT (listAccountMailboxesWithRoles u (ma_ID a)) mailboxes_failed (\<lambda>_. retT (ok_resp 200))))) in
          case listed_name boxes target of
            Some name \<Rightarrow> save name
          | None \<Rightarrow>
              if \<not> sq_CreateIfMissing req then retT (error_resp 404 ''mailbox_not_found'')
              else orT (client_CreateMailbox (accountMailClient a) (ma_Login a) pass target) (\<lambda>_. error_resp 502 ''imap_error'')
                (\<lambda>_. save target))))"

section \<open>Mailboxes of a user, for an administrator\<close>

record adminMailboxTarget =
  at_User :: User
  at_Login :: string
  at_Pass :: string
  at_Account :: "MailAccount option"
  at_Client :: mail_client

definition errAdminMailboxCredentialsUnavailable :: err where
  "errAdminMailboxCredentialsUnavailable = ErrMsg ''admin mailbox credentials unavailable''"

definition findPrimaryUserMailAccount :: "User \<Rightarrow> MailAccount option Bx" where
  "findPrimaryUserMailAccount u =
     bindT (coreT (ListMailAccounts (u_ID u))) (\<lambda>accounts.
     let login = TrimSpace (MailAuthLogin u) in
     retT (case find (\<lambda>a. login \<noteq> [] \<and> EqualFold (TrimSpace (ma_Login a)) login) accounts of
             Some a \<Rightarrow> Some a
           | None \<Rightarrow> (case accounts of [a] \<Rightarrow> Some a | _ \<Rightarrow> None)))"

text \<open>The target by the user's own mail secret.\<close>

definition stored_secret_target :: "Svc \<Rightarrow> User \<Rightarrow> MailAccount option \<Rightarrow> string option \<Rightarrow> adminMailboxTarget option" where
  "stored_secret_target sv u account secret =
     (case secret of
        None \<Rightarrow> None
      | Some enc \<Rightarrow>
          if TrimSpace enc = [] then None
          else case DecryptString (aes_gcm sv) (encryptKey sv) enc of
            Inl _ \<Rightarrow> None
          | Inr pass \<Rightarrow>
              let own = TrimSpace (MailAuthLogin u);
                  login = (case account of None \<Rightarrow> own | Some a \<Rightarrow> if TrimSpace (ma_Login a) \<noteq> [] then TrimSpace (ma_Login a) else own) in
              if TrimSpace pass = [] \<or> TrimSpace login = [] then None
              else Some \<lparr>at_User = u, at_Login = login, at_Pass = pass, at_Account = account,
                         at_Client = (case account of None \<Rightarrow> ServiceClient | Some a \<Rightarrow> accountMailClient a)\<rparr>)"

definition account_secret_target :: "User \<Rightarrow> MailAccount option \<Rightarrow> adminMailboxTarget Bx" where
  "account_secret_target u account =
     (case account of
        None \<Rightarrow> failT errAdminMailboxCredentialsUnavailable
      | Some a \<Rightarrow>
          if TrimSpace (ma_SecretEnc a) = [] then failT errAdminMailboxCredentialsUnavailable
          else bindT (accountMailSecret a) (\<lambda>pass.
            if TrimSpace pass = [] then failT errAdminMailboxCredentialsUnavailable
            else retT \<lparr>at_User = u, at_Login = TrimSpace (ma_Login a), at_Pass = pass, at_Account = Some a, at_Client = accountMailClient a\<rparr>))"

definition resolveAdminMailboxTarget :: "string \<Rightarrow> adminMailboxTarget Bx" where
  "resolveAdminMailboxTarget userID =
     bindT (coreT (GetUserByID (TrimSpace userID))) (\<lambda>u.
     bindT (findPrimaryUserMailAccount u) (\<lambda>account.
     bindT (askT te_svc) (\<lambda>sv.
     tryT (coreT (GetUserMailSecret (u_ID u))) (\<lambda>r. case r of
       Inl e \<Rightarrow> if e = ErrNotFound then account_secret_target u account else failT e
     | Inr secret \<Rightarrow> (case stored_secret_target sv u account secret of
         Some t \<Rightarrow> retT t | None \<Rightarrow> account_secret_target u account)))))"

definition listAdminUserMailboxes :: "string \<Rightarrow> (Mailbox list \<times> adminMailboxTarget) Bx" where
  "listAdminUserMailboxes userID =
     bindT (resolveAdminMailboxTarget userID) (\<lambda>t.
     case at_Account t of
       Some a \<Rightarrow> bindT (account_boxes a (at_Pass t)) (\<lambda>(boxes, rows). retT (boxes, t))
     | None \<Rightarrow>
         bindT (rawMailboxes (at_Login t) (at_Pass t)) (\<lambda>boxes.
         bindT (ListSpecialMailboxMappings (u_ID (at_User t)) (at_Login t)) (\<lambda>m.
         retT (applyMailboxCapabilities (applySpecialMailboxRoles boxes m), t))))"

definition invalidateAdminMailboxTargetCaches :: "adminMailboxTarget \<Rightarrow> unit Bx" where
  "invalidateAdminMailboxTargetCaches t =
     thenT (forget_boxes (at_Login t))
     (case at_Account t of None \<Rightarrow> retT () | Some a \<Rightarrow> forget_boxes (accountMailboxCacheKey a))"

definition admin_error :: "err \<Rightarrow> resp" where
  "admin_error e =
     (if e = ErrNotFound then error_resp 404 ''user_not_found''
      else if e = errAdminMailboxCredentialsUnavailable then error_resp 409 ''mailbox_credentials_unavailable''
      else error_resp 500 ''admin_mailboxes_failed'')"

definition AdminListUserMailboxes :: "string \<Rightarrow> resp Bx" where
  "AdminListUserMailboxes userID = orT (listAdminUserMailboxes userID) admin_error (\<lambda>_. retT (ok_resp 200))"

definition AdminCreateUserMailbox :: "string \<Rightarrow> decode_err + mailboxMutationRequest \<Rightarrow> resp Bx" where
  "AdminCreateUserMailbox userID body = with_bodyT body (\<lambda>req.
     let target = TrimSpace (bq_MailboxName req) in
     if target = [] then retT (error_resp 400 ''bad_request'')
     else if isReservedMailboxName target then retT (error_resp 400 ''mailbox_protected'')
     else orT (listAdminUserMailboxes userID) admin_error (\<lambda>(boxes, t).
       if mailboxByName boxes target \<noteq> None then retT (error_resp 409 ''mailbox_exists'')
       else orText (client_CreateMailbox (at_Client t) (at_Login t) (at_Pass t) target) mutation_error (\<lambda>_.
         thenT (invalidateAdminMailboxTargetCaches t)
         (orT (listAdminUserMailboxes userID) admin_error (\<lambda>_. retT (ok_resp 201))))))"

end
