(* ===== verification/RuleHandlers.thy ===== *)
theory RuleHandlers
  imports MailRules MailboxHandlers
begin

text \<open>
  The handlers of mail rules (\<^verbatim>\<open>internal/api/router_mail_rules.go\<close>) and of Sieve scripts (\<^verbatim>\<open>internal/api/router_v2.go\<close>).  Every
  change of a rule compiles the rules of the account anew and stores the script; the rules are saved first.
\<close>

section \<open>The managed script\<close>

definition validateSieveScript :: "string \<Rightarrow> string option" where
  "validateSieveScript body =
     (let trimmed = TrimSpace body in
      if trimmed = [] then Some ''script body is required''
      else if \<not> Contains (ToLower trimmed) ''require'' then Some ''sieve script should declare require statement''
      else None)"

definition new_script :: "string \<Rightarrow> string \<Rightarrow> string \<Rightarrow> string \<Rightarrow> SieveScript Bx" where
  "new_script accountID name body source =
     bindT (askT (\<lambda>v. HexEncode (sha256 (te_svc v) body))) (\<lambda>sum.
     bindT uuidT (\<lambda>i.
     UpsertSieveScript \<lparr>ss_ID = i, ss_AccountID = accountID, ss_ScriptName = name, ss_ScriptBody = body, ss_ChecksumSHA = sum,
       ss_IsActive = False, ss_Source = source, ss_CreatedAt = None, ss_UpdatedAt = 0\<rparr>))"

text \<open>The value is the role of a mailbox that has to be configured, the error \<^verbatim>\<open>specialMailboxRequiredError\<close> of the code.\<close>

definition syncManagedRulesScript :: "string \<Rightarrow> Mailbox list \<Rightarrow> string option Bx" where
  "syncManagedRulesScript accountID mailboxes =
     bindT (ListMailRules accountID) (\<lambda>rules.
     case compileManagedMailRules rules mailboxes of
       Inl (MailboxRequired role) \<Rightarrow> retT (Some role)
     | Inl (MailboxUnavailable text) \<Rightarrow> failT (ErrMsg text)
     | Inr body \<Rightarrow> (case validateSieveScript body of
         Some text \<Rightarrow> failT (ErrMsg text)
       | None \<Rightarrow>
           thenT (new_script accountID managedRulesScriptName body ''managed'')
           (bindT (ActiveSieveScriptName accountID) (\<lambda>active.
            thenT (if active = [] \<or> active = managedRulesScriptName then ActivateSieveScript accountID managedRulesScriptName else retT ())
            (retT None)))))"

definition writeMailRulesResponse :: "string \<Rightarrow> resp Bx" where
  "writeMailRulesResponse accountID =
     orT (ListMailRules accountID) (\<lambda>_. error_resp 500 ''rules_list_failed'') (\<lambda>rules.
     orT (ActiveSieveScriptName accountID) (\<lambda>_. error_resp 500 ''rules_list_failed'') (\<lambda>active. retT (ok_resp 200)))"

definition synced :: "string \<Rightarrow> Mailbox list \<Rightarrow> resp Bx \<Rightarrow> resp Bx" where
  "synced accountID mailboxes k =
     orT (syncManagedRulesScript accountID mailboxes) (\<lambda>_. error_resp 400 ''rules_compile_failed'') (\<lambda>required.
     case required of Some _ \<Rightarrow> retT required_mailbox | None \<Rightarrow> k)"

definition with_account :: "User \<Rightarrow> string \<Rightarrow> (Mailbox list \<Rightarrow> string \<Rightarrow> resp Bx) \<Rightarrow> resp Bx" where
  "with_account u accountID k =
     orT (listAccountMailboxesWithRoles u accountID) account_error (\<lambda>(boxes, rows, a, pass). k boxes (ma_ID a))"

definition rules_save_failed :: "err \<Rightarrow> resp" where "rules_save_failed = (\<lambda>_. error_resp 500 ''rules_save_failed'')"

section \<open>Rules\<close>

definition V2ListAccountRules :: "User \<Rightarrow> string \<Rightarrow> resp Bx" where
  "V2ListAccountRules u accountID = with_account u accountID (\<lambda>boxes a. writeMailRulesResponse a)"

definition insert_at :: "int \<Rightarrow> string \<Rightarrow> string list \<Rightarrow> string list" where
  "insert_at position i existing = (let n = nat position in take n existing @ i # drop n existing)"

definition requested_rule :: "string \<Rightarrow> mailRuleMutationRequest \<Rightarrow> MailRule" where
  "requested_rule accountID req =
     \<lparr>mr_ID = [], mr_AccountID = accountID, mr_Name = TrimSpace (rq_Name req),
      mr_Enabled = (case rq_Enabled req of None \<Rightarrow> True | Some b \<Rightarrow> b), mr_Position = 0, mr_MatchMode = rq_MatchMode req,
      mr_Conditions = trimMailRuleConditions (rq_Conditions req), mr_Actions = trimMailRuleActions (rq_Actions req),
      mr_CreatedAt = 0, mr_UpdatedAt = 0\<rparr>"

definition V2CreateAccountRule :: "User \<Rightarrow> string \<Rightarrow> decode_err + mailRuleMutationRequest \<Rightarrow> resp Bx" where
  "V2CreateAccountRule u accountID body =
     with_account u accountID (\<lambda>boxes a. with_bodyT body (\<lambda>req.
     bindT (askT (\<lambda>v. validateMailRule (Svc.ParseAddress (te_svc v)) req)) (\<lambda>invalid.
     if invalid \<noteq> None then retT (error_resp 400 ''bad_request'')
     else orT (ListMailRules a) rules_save_failed (\<lambda>existing.
       orT (CreateMailRule (requested_rule a req)) rules_save_failed (\<lambda>created.
       orT (case rq_Position req of
              None \<Rightarrow> retT ()
            | Some p \<Rightarrow> ReorderMailRules a (insert_at (max 0 p) (mr_ID created) (map mr_ID existing))) rules_save_failed (\<lambda>_.
       synced a boxes (writeMailRulesResponse a)))))))"

definition or_current :: "'a \<Rightarrow> 'a \<Rightarrow> 'a \<Rightarrow> 'a" where "or_current blank current x = (if x = blank then current else x)"

definition patched_request :: "MailRule \<Rightarrow> mailRuleMutationRequest \<Rightarrow> mailRuleMutationRequest" where
  "patched_request current req =
     req\<lparr>rq_Name := (if TrimSpace (rq_Name req) = [] then mr_Name current else rq_Name req),
         rq_Enabled := Some (case rq_Enabled req of None \<Rightarrow> mr_Enabled current | Some b \<Rightarrow> b),
         rq_MatchMode := (if TrimSpace (rq_MatchMode req) = [] then mr_MatchMode current else rq_MatchMode req),
         rq_Conditions := or_current no_conditions (mr_Conditions current) (rq_Conditions req),
         rq_Actions := or_current no_actions (mr_Actions current) (rq_Actions req)\<rparr>"

definition patched_rule :: "MailRule \<Rightarrow> mailRuleMutationRequest \<Rightarrow> MailRule" where
  "patched_rule current req =
     current\<lparr>mr_Name := TrimSpace (rq_Name req), mr_Enabled := (rq_Enabled req = Some True), mr_MatchMode := rq_MatchMode req,
       mr_Conditions := trimMailRuleConditions (rq_Conditions req), mr_Actions := trimMailRuleActions (rq_Actions req),
       mr_Position := (case rq_Position req of Some p \<Rightarrow> if p \<ge> 0 then p else mr_Position current | None \<Rightarrow> mr_Position current)\<rparr>"

definition V2UpdateAccountRule :: "User \<Rightarrow> string \<Rightarrow> string \<Rightarrow> decode_err + mailRuleMutationRequest \<Rightarrow> resp Bx" where
  "V2UpdateAccountRule u accountID ruleID body =
     with_account u accountID (\<lambda>boxes a.
     orT (GetMailRuleByID a ruleID) (absent_or ''rule_not_found'' 500 ''rules_save_failed'') (\<lambda>current.
     with_bodyT body (\<lambda>req0.
     let req = patched_request current req0 in
     bindT (askT (\<lambda>v. validateMailRule (Svc.ParseAddress (te_svc v)) req)) (\<lambda>invalid.
     if invalid \<noteq> None then retT (error_resp 400 ''bad_request'')
     else orT (UpdateMailRule (patched_rule current req)) rules_save_failed (\<lambda>_.
       synced a boxes (writeMailRulesResponse a))))))"

definition V2DeleteAccountRule :: "User \<Rightarrow> string \<Rightarrow> string \<Rightarrow> resp Bx" where
  "V2DeleteAccountRule u accountID ruleID =
     with_account u accountID (\<lambda>boxes a.
     orT (DeleteMailRule a ruleID) (absent_or ''rule_not_found'' 500 ''rules_delete_failed'') (\<lambda>_.
     synced a boxes (writeMailRulesResponse a)))"

definition V2ReorderAccountRules :: "User \<Rightarrow> string \<Rightarrow> decode_err + string list \<Rightarrow> resp Bx" where
  "V2ReorderAccountRules u accountID body =
     with_account u accountID (\<lambda>boxes a. with_bodyT body (\<lambda>ids.
     orT (ReorderMailRules a ids) rules_save_failed (\<lambda>_.
     synced a boxes (writeMailRulesResponse a))))"

definition V2ActivateManagedRuleScript :: "User \<Rightarrow> string \<Rightarrow> resp Bx" where
  "V2ActivateManagedRuleScript u accountID =
     with_account u accountID (\<lambda>boxes a.
     synced a boxes
       (orT (ActivateSieveScript a managedRulesScriptName) (\<lambda>_. error_resp 500 ''rule_activate_failed'') (\<lambda>_.
        writeMailRulesResponse a)))"

section \<open>Scripts\<close>

definition own_account_or_403 :: "User \<Rightarrow> string \<Rightarrow> resp Bx \<Rightarrow> resp Bx" where
  "own_account_or_403 u accountID k =
     orT (coreT (GetMailAccountByID (u_ID u) accountID)) (\<lambda>_. error_resp 403 ''forbidden'') (\<lambda>_. k)"

definition V2ListRuleScripts :: "User \<Rightarrow> string \<Rightarrow> resp Bx" where
  "V2ListRuleScripts u account_param =
     (let accountID = TrimSpace account_param in
      if accountID = [] then retT (error_resp 400 ''bad_request'')
      else own_account_or_403 u accountID
        (orT (ListSieveScripts accountID) (\<lambda>_. error_resp 500 ''rules_list_failed'') (\<lambda>_. retT (ok_resp 200))))"

definition V2GetRuleScript :: "User \<Rightarrow> string \<Rightarrow> string \<Rightarrow> resp Bx" where
  "V2GetRuleScript u account_param name =
     (let accountID = TrimSpace account_param in
      if accountID = [] \<or> name = [] then retT (error_resp 400 ''bad_request'')
      else own_account_or_403 u accountID
        (orT (GetSieveScript accountID name) (absent_or ''rule_not_found'' 500 ''rule_get_failed'') (\<lambda>_. retT (ok_resp 200))))"

definition V2PutRuleScript :: "User \<Rightarrow> string \<Rightarrow> string \<Rightarrow> decode_err + string \<Rightarrow> resp Bx" where
  "V2PutRuleScript u account_param name body =
     (let accountID = TrimSpace account_param in
      if accountID = [] then retT (error_resp 400 ''bad_request'')
      else own_account_or_403 u accountID (with_bodyT body (\<lambda>text.
        if TrimSpace name = [] \<or> TrimSpace text = [] then retT (error_resp 400 ''bad_request'')
        else if validateSieveScript text \<noteq> None then retT (error_resp 400 ''invalid_sieve_script'')
        else orT (new_script accountID name text ''api'') (\<lambda>_. error_resp 500 ''rule_put_failed'') (\<lambda>_. retT (ok_resp 200)))))"

definition V2ActivateRuleScript :: "User \<Rightarrow> string \<Rightarrow> string \<Rightarrow> resp Bx" where
  "V2ActivateRuleScript u account_param name =
     (let accountID = TrimSpace account_param in
      if accountID = [] \<or> name = [] then retT (error_resp 400 ''bad_request'')
      else own_account_or_403 u accountID
        (orT (ActivateSieveScript accountID name) (\<lambda>_. error_resp 500 ''rule_activate_failed'') (\<lambda>_. retT (ok_resp 200))))"

definition V2DeleteRuleScript :: "User \<Rightarrow> string \<Rightarrow> string \<Rightarrow> resp Bx" where
  "V2DeleteRuleScript u account_param name =
     (let accountID = TrimSpace account_param in
      if accountID = [] \<or> name = [] then retT (error_resp 400 ''bad_request'')
      else own_account_or_403 u accountID
        (orT (DeleteSieveScript accountID name) (absent_or ''rule_not_found'' 500 ''rule_delete_failed'') (\<lambda>_. retT (ok_resp 200))))"

definition V2ValidateRuleScript :: "decode_err + string \<Rightarrow> resp Bx" where
  "V2ValidateRuleScript body = with_bodyT body (\<lambda>text.
     if validateSieveScript text \<noteq> None then retT (error_resp 400 ''invalid_sieve_script'') else retT (ok_resp 200))"

end
