(* ===== verification/SieveLaws.thy ===== *)
theory SieveLaws
  imports RuleHandlers
begin

text \<open>
  What the compiled script says.  Sieve (RFC 5228) is read here as tokens: words, quoted strings in which a backslash
  stands before a quote or a backslash, signs, and comments from a hash to the end of the line (a line feed, which servers accept
  for CR LF).  Programs are syntax trees with the tokens they are written with; \<open>program\<close> is the tree a list of rules means.
\<close>

section \<open>Reading a script\<close>

datatype token = Word string | Str string | Sign char

datatype scan_mode = Plain string | InString string | AfterBackslash string | InComment

definition word_token :: "string \<Rightarrow> token list" where "word_token w = (if w = [] then [] else [Word w])"

definition is_sign :: "char \<Rightarrow> bool" where "is_sign c \<longleftrightarrow> c \<in> set '';,()[]{}''"

definition is_blank :: "char \<Rightarrow> bool" where "is_blank c \<longleftrightarrow> c \<in> {CHR '' '', CHR 0x09, CHR 0x0A, CHR 0x0D}"

fun scan :: "scan_mode \<Rightarrow> string \<Rightarrow> token list option" where
  "scan (Plain w) [] = Some (word_token w)"
| "scan (InString w) [] = None"
| "scan (AfterBackslash w) [] = None"
| "scan InComment [] = Some []"
| "scan (Plain w) (c # cs) =
     (if c = DQ then map_option (\<lambda>ts. word_token w @ ts) (scan (InString []) cs)
      else if c = CHR ''#'' then map_option (\<lambda>ts. word_token w @ ts) (scan InComment cs)
      else if is_blank c then map_option (\<lambda>ts. word_token w @ ts) (scan (Plain []) cs)
      else if is_sign c then map_option (\<lambda>ts. word_token w @ Sign c # ts) (scan (Plain []) cs)
      else scan (Plain (w @ [c])) cs)"
| "scan (InString w) (c # cs) =
     (if c = BSL then scan (AfterBackslash w) cs
      else if c = DQ then map_option (\<lambda>ts. Str w # ts) (scan (Plain []) cs)
      else scan (InString (w @ [c])) cs)"
| "scan (AfterBackslash w) (c # cs) = scan (InString (w @ [c])) cs"
| "scan InComment (c # cs) = (if c = NL then scan (Plain []) cs else scan InComment cs)"

definition sieve_tokens :: "string \<Rightarrow> token list option" where "sieve_tokens script = scan (Plain []) script"

text \<open>A text that reads as some tokens whatever follows it.\<close>

definition reads :: "string \<Rightarrow> token list \<Rightarrow> bool" where
  "reads text ts \<longleftrightarrow> (\<forall>rest. scan (Plain []) (text @ rest) = map_option (\<lambda>us. ts @ us) (scan (Plain []) rest))"

lemma word_token_Nil [simp]: "word_token [] = []" by (simp add: word_token_def)

lemma same_tokens [simp]: "map_option (\<lambda>us. us) x = x" by (simp add: option.map_ident)

lemma same_tokens' [simp]: "map_option ((@) []) x = x" by (cases x) simp_all

lemma append_one: "(@) [x] = (#) x" by (rule ext) simp

lemma reads_Nil: "reads [] []" by (simp add: reads_def)

lemma reads_append: "reads a x \<Longrightarrow> reads b y \<Longrightarrow> reads (a @ b) (x @ y)"
  by (simp add: reads_def option.map_comp comp_def)

lemma reads_end: "reads a x \<Longrightarrow> sieve_tokens a = Some x"
  by (drule reads_def [THEN iffD1], drule spec [of _ "[]"]) (simp add: sieve_tokens_def)

lemma scan_escaped: "scan (InString w) (sieveEscape s @ DQ # rest) = map_option (\<lambda>us. Str (w @ s) # us) (scan (Plain []) rest)"
  by (induction s arbitrary: w) (auto simp: sieveEscape_def escape_char_def)

definition is_word :: "string \<Rightarrow> bool" where
  "is_word cs \<longleftrightarrow> cs \<noteq> [] \<and> list_all (\<lambda>c. c \<noteq> DQ \<and> c \<noteq> CHR ''#'' \<and> \<not> is_blank c \<and> \<not> is_sign c) cs"

lemma scan_word: "list_all (\<lambda>c. c \<noteq> DQ \<and> c \<noteq> CHR ''#'' \<and> \<not> is_blank c \<and> \<not> is_sign c) cs \<Longrightarrow> scan (Plain w) (cs @ rest) = scan (Plain (w @ cs)) rest"
  by (induction cs arbitrary: w) simp_all

lemma scan_comment: "NL \<notin> set cs \<Longrightarrow> scan InComment (cs @ NL # rest) = scan (Plain []) rest"
  by (induction cs) auto

lemma scan_comment_end: "NL \<notin> set cs \<Longrightarrow> scan InComment cs = Some []"
  by (induction cs) auto

lemma scan_blank: "is_blank c \<Longrightarrow> scan (Plain w) (c # rest) = map_option (\<lambda>ts. word_token w @ ts) (scan (Plain []) rest)"
  by (auto simp: is_blank_def)

lemma scan_sign: "is_sign c \<Longrightarrow> scan (Plain w) (c # rest) = map_option (\<lambda>ts. word_token w @ Sign c # ts) (scan (Plain []) rest)"
  by (auto simp: is_sign_def is_blank_def)

lemma reads_quoted: "reads (quoted s) [Str s]" by (simp add: reads_def quoted_def scan_escaped)

lemma reads_blank: "is_blank c \<Longrightarrow> reads [c] []" by (simp add: reads_def scan_blank del: scan.simps)

lemma reads_sign: "is_sign c \<Longrightarrow> reads [c] [Sign c]" by (simp add: reads_def scan_sign del: scan.simps)

lemma reads_word_blank: "is_word cs \<Longrightarrow> is_blank c \<Longrightarrow> reads (cs @ [c]) [Word cs]"
  by (simp add: reads_def is_word_def scan_word scan_blank word_token_def del: scan.simps)

lemma reads_word_sign: "is_word cs \<Longrightarrow> is_sign c \<Longrightarrow> reads (cs @ [c]) [Word cs, Sign c]"
  by (simp add: reads_def is_word_def scan_word scan_sign word_token_def del: scan.simps)

lemma reads_comment: "NL \<notin> set cs \<Longrightarrow> reads (CHR ''#'' # cs @ [NL]) []"
  by (simp add: reads_def scan_comment is_blank_def)

section \<open>Programs\<close>

datatype sieve_arg = Tag string | Text string | Texts "string list"

datatype sieve_test = Test string "sieve_arg list" | Tests string "sieve_test list"

datatype sieve_cmd = Action string "sieve_arg list" | If sieve_test "sieve_cmd list"

fun separated :: "token list list \<Rightarrow> token list" where
  "separated [] = []"
| "separated [x] = x"
| "separated (x # y # ys) = x @ Sign CHR '','' # separated (y # ys)"

fun arg_tokens :: "sieve_arg \<Rightarrow> token list" where
  "arg_tokens (Tag t) = [Word t]"
| "arg_tokens (Text s) = [Str s]"
| "arg_tokens (Texts ss) = Sign CHR ''['' # separated (map (\<lambda>s. [Str s]) ss) @ [Sign CHR '']'']"

fun test_tokens :: "sieve_test \<Rightarrow> token list" where
  "test_tokens (Test name args) = Word name # concat (map arg_tokens args)"
| "test_tokens (Tests name ts) = Word name # Sign CHR ''('' # separated (map test_tokens ts) @ [Sign CHR '')'']"

fun cmd_tokens :: "sieve_cmd \<Rightarrow> token list" where
  "cmd_tokens (Action name args) = Word name # concat (map arg_tokens args) @ [Sign CHR '';'']"
| "cmd_tokens (If t cs) = Word ''if'' # test_tokens t @ Sign CHR ''{'' # concat (map cmd_tokens cs) @ [Sign CHR ''}'']"

section \<open>What rules mean\<close>

definition rule_tests :: "MailRule \<Rightarrow> sieve_test list" where
  "rule_tests rule =
     (let c = trimMailRuleConditions (mr_Conditions rule) in
      map snd (filter (\<lambda>(value, t). value \<noteq> [])
        [(rc_FromContains c, Test ''header'' [Tag '':contains'', Text ''from'', Text (rc_FromContains c)]),
         (rc_FromDomainIs c, Test ''address'' [Tag '':domain'', Tag '':is'', Text ''from'', Text (rc_FromDomainIs c)]),
         (rc_ToContains c, Test ''address'' [Tag '':contains'', Texts [''to'', ''cc'', ''bcc''], Text (rc_ToContains c)]),
         (rc_SubjectContains c, Test ''header'' [Tag '':contains'', Text ''subject'', Text (rc_SubjectContains c)]),
         (rc_BodyContains c, Test ''body'' [Tag '':contains'', Text (rc_BodyContains c)])]))"

definition rule_actions :: "MailRule \<Rightarrow> string \<Rightarrow> sieve_cmd list" where
  "rule_actions rule target =
     (let a = trimMailRuleActions (mr_Actions rule) in
      (if target \<noteq> [] then [Action ''fileinto'' [Text target]] else []) @
      (if ra_MarkRead a then [Action ''addflag'' [Text (BSL # ''Seen'')]] else []) @
      (if ra_Redirect a \<noteq> [] then [Action ''redirect'' [Text (ra_Redirect a)]] else []) @
      (if ra_Stop a then [Action ''stop'' []] else []))"

definition combined :: "MailRule \<Rightarrow> sieve_test list \<Rightarrow> sieve_test" where
  "combined rule ts =
     (case ts of [t] \<Rightarrow> t | _ \<Rightarrow> Tests (if EqualFold (TrimSpace (mr_MatchMode rule)) ''any'' then ''anyof'' else ''allof'') ts)"

definition meaning :: "MailRule \<Rightarrow> Mailbox list \<Rightarrow> sieve_cmd list" where
  "meaning rule mailboxes =
     (case target_mailbox (trimMailRuleActions (mr_Actions rule)) mailboxes of
        Inl _ \<Rightarrow> []
      | Inr target \<Rightarrow>
          if mr_Enabled rule \<and> rule_tests rule \<noteq> [] \<and> rule_actions rule target \<noteq> []
          then [If (combined rule (rule_tests rule)) (rule_actions rule target)] else [])"

text \<open>The extensions that commands and tests need in Sieve: RFC 5228 for \<^verbatim>\<open>fileinto\<close>, RFC 5232 for \<^verbatim>\<open>addflag\<close>, RFC 5173
  for \<^verbatim>\<open>body\<close>.  The other commands in use (\<^verbatim>\<open>redirect\<close>, \<^verbatim>\<open>stop\<close>, \<^verbatim>\<open>if\<close>) and tests belong to the base language.\<close>

fun test_extensions :: "sieve_test \<Rightarrow> string list" where
  "test_extensions (Test name args) = (if name = ''body'' then [''body''] else [])"
| "test_extensions (Tests name ts) = concat (map test_extensions ts)"

fun cmd_extensions :: "sieve_cmd \<Rightarrow> string list" where
  "cmd_extensions (Action name args) =
     (if name = ''fileinto'' then [''fileinto''] else if name = ''addflag'' then [''imap4flags''] else [])"
| "cmd_extensions (If t cs) = test_extensions t @ concat (map cmd_extensions cs)"

definition extensions :: "sieve_cmd list \<Rightarrow> string list" where "extensions cmds = concat (map cmd_extensions cmds)"

fun redirects :: "sieve_cmd \<Rightarrow> bool" where
  "redirects (Action name args) \<longleftrightarrow> name = ''redirect''"
| "redirects (If t cs) \<longleftrightarrow> list_ex redirects cs"

text \<open>The names the code lists for a command, \<^verbatim>\<open>redirect\<close> among them, and for a script, \<^verbatim>\<open>fileinto\<close> when there are no others.\<close>

fun cmd_names :: "sieve_cmd \<Rightarrow> string list" where
  "cmd_names (Action name args) =
     (if name = ''fileinto'' then [''fileinto''] else if name = ''addflag'' then [''imap4flags''] else if name = ''redirect'' then [''redirect''] else [])"
| "cmd_names (If t cs) = test_extensions t @ concat (map cmd_names cs)"

definition listed :: "sieve_cmd list \<Rightarrow> string list" where
  "listed cmds =
     (let needed = filter (\<lambda>x. x \<in> set (concat (map cmd_names cmds))) requiresOrder in if needed = [] then [''fileinto''] else needed)"

definition commands :: "MailRule list \<Rightarrow> Mailbox list \<Rightarrow> sieve_cmd list" where
  "commands rules mailboxes = concat (map (\<lambda>r. meaning r mailboxes) rules)"

definition program :: "MailRule list \<Rightarrow> Mailbox list \<Rightarrow> sieve_cmd list" where
  "program rules mailboxes = (let cmds = commands rules mailboxes in Action ''require'' [Texts (listed cmds)] # cmds)"

definition program_tokens :: "sieve_cmd list \<Rightarrow> token list" where "program_tokens cmds = concat (map cmd_tokens cmds)"

section \<open>The script reads as the program\<close>

lemma blanks [simp]: "is_blank CHR '' ''" "is_blank NL" by (simp_all add: is_blank_def)

lemma reads_gap: "reads (NL # ''  '') []" "reads '' '' []" "reads [NL, NL] []"
  by (simp_all add: reads_def scan_blank del: scan.simps)

lemma reads_heads:
  "reads ''header :contains '' [Word ''header'', Word '':contains'']"
  "reads ''address :domain :is '' [Word ''address'', Word '':domain'', Word '':is'']"
  "reads ''address :contains ['' [Word ''address'', Word '':contains'', Sign CHR ''['']"
  "reads ''body :contains '' [Word ''body'', Word '':contains'']"
  "reads '', '' [Sign CHR '','']" "reads ''] '' [Sign CHR '']'']" "reads '';'' [Sign CHR '';'']"
  "reads ''fileinto '' [Word ''fileinto'']" "reads ''addflag '' [Word ''addflag'']" "reads ''redirect '' [Word ''redirect'']"
  "reads ''stop;'' [Word ''stop'', Sign CHR '';'']" "reads ''if '' [Word ''if'']" "reads ''require ['' [Word ''require'', Sign CHR ''['']"
  "reads ''];'' [Sign CHR '']'', Sign CHR '';'']" "reads ''anyof('' [Word ''anyof'', Sign CHR ''('']"
  "reads ''allof('' [Word ''allof'', Sign CHR ''('']" "reads '')'' [Sign CHR '')'']" "reads '' {'' [Sign CHR ''{'']" "reads ''}'' [Sign CHR ''}'']"
  by (simp_all add: reads_def is_blank_def is_sign_def word_token_def option.map_comp comp_def append_one)


lemmas reads_parts = reads_heads reads_quoted reads_gap reads_Nil

definition both_read :: "string list \<Rightarrow> token list list \<Rightarrow> bool" where "both_read texts tss \<longleftrightarrow> list_all2 reads texts tss"

lemma both_read_Nil: "both_read [] []" by (simp add: both_read_def)

lemma both_read_append: "both_read a x \<Longrightarrow> both_read b y \<Longrightarrow> both_read (a @ b) (x @ y)"
  by (simp add: both_read_def list_all2_appendI)

lemma both_read_one: "reads a x \<Longrightarrow> both_read [a] [x]" by (simp add: both_read_def)

lemma both_read_length: "both_read a x \<Longrightarrow> length a = length x" by (simp add: both_read_def list_all2_lengthD)

lemma reads_joined: "both_read texts tss \<Longrightarrow> reads sep [] \<Longrightarrow> reads (Join texts sep) (concat tss)"
  unfolding both_read_def
proof (induction texts sep arbitrary: tss rule: Join.induct)
  case (3 a b texts sep)
  then obtain x y tss' where t: "tss = x # y # tss'" "reads a x" "list_all2 reads (b # texts) (y # tss')"
    by (auto simp: list_all2_Cons1)
  then show ?case using reads_append [OF t(2) reads_append [OF 3(3) 3(1) [OF t(3) 3(3)]]] by simp
qed (auto simp: reads_Nil list_all2_Cons1)

lemma reads_separated: "both_read texts tss \<Longrightarrow> reads (Join texts '', '') (separated tss)"
  unfolding both_read_def
proof (induction tss arbitrary: texts rule: separated.induct)
  case (3 x y tss)
  then obtain a b texts' where t: "texts = a # b # texts'" "reads a x" "list_all2 reads (b # texts') (y # tss)"
    by (auto simp: list_all2_Cons2)
  then show ?case using reads_append [OF t(2) reads_append [OF reads_heads(5) 3(1) [OF t(3)]]] by simp
qed (auto simp: reads_Nil list_all2_Cons2)

lemma both_read_if: "(value \<noteq> [] \<Longrightarrow> reads text ts) \<Longrightarrow> both_read (fragment_if value text) (if value \<noteq> [] then [ts] else [])"
  by (simp add: fragment_if_def both_read_def)

lemma both_read_when: "reads a x \<Longrightarrow> both_read (if b then [a] else []) (if b then [x] else [])"
  by (simp add: both_read_def)

lemma reads_tests:
  "reads (''header :contains '' @ quoted f @ '' '' @ quoted s) (test_tokens (Test ''header'' [Tag '':contains'', Text f, Text s]))"
  "reads (''address :domain :is '' @ quoted f @ '' '' @ quoted s) (test_tokens (Test ''address'' [Tag '':domain'', Tag '':is'', Text f, Text s]))"
  "reads (''address :contains ['' @ quoted f @ '', '' @ quoted g @ '', '' @ quoted h @ ''] '' @ quoted s)
     (test_tokens (Test ''address'' [Tag '':contains'', Texts [f, g, h], Text s]))"
  "reads (''body :contains '' @ quoted s) (test_tokens (Test ''body'' [Tag '':contains'', Text s]))"
  subgoal using reads_append [OF reads_heads(1) reads_append [OF reads_quoted reads_append [OF reads_gap(2) reads_quoted]], of f s] by simp
  subgoal using reads_append [OF reads_heads(2) reads_append [OF reads_quoted reads_append [OF reads_gap(2) reads_quoted]], of f s] by simp
  subgoal using reads_append [OF reads_heads(3) reads_append [OF reads_quoted reads_append [OF reads_heads(5) reads_append [OF reads_quoted
      reads_append [OF reads_heads(5) reads_append [OF reads_quoted reads_append [OF reads_heads(6) reads_quoted]]]]]], of f g h s] by simp
  subgoal using reads_append [OF reads_heads(4) reads_quoted, of s] by simp
  done

lemma reads_actions:
  "reads (''fileinto '' @ quoted s @ '';'') (cmd_tokens (Action ''fileinto'' [Text s]))"
  "reads (''addflag '' @ quoted s @ '';'') (cmd_tokens (Action ''addflag'' [Text s]))"
  "reads (''redirect '' @ quoted s @ '';'') (cmd_tokens (Action ''redirect'' [Text s]))"
  "reads ''stop;'' (cmd_tokens (Action ''stop'' []))"
  subgoal using reads_append [OF reads_heads(8) reads_append [OF reads_quoted reads_heads(7)], of s] by simp
  subgoal using reads_append [OF reads_heads(9) reads_append [OF reads_quoted reads_heads(7)], of s] by simp
  subgoal using reads_append [OF reads_heads(10) reads_append [OF reads_quoted reads_heads(7)], of s] by simp
  subgoal using reads_heads(11) by simp
  done

lemma conditions_read: "both_read (compileMailRuleConditionFragments rule) (map test_tokens (rule_tests rule))"
proof -
  let ?c = "trimMailRuleConditions (mr_Conditions rule)"
  have "map test_tokens (rule_tests rule) =
      (if rc_FromContains ?c \<noteq> [] then [test_tokens (Test ''header'' [Tag '':contains'', Text ''from'', Text (rc_FromContains ?c)])] else []) @
      (if rc_FromDomainIs ?c \<noteq> [] then [test_tokens (Test ''address'' [Tag '':domain'', Tag '':is'', Text ''from'', Text (rc_FromDomainIs ?c)])] else []) @
      (if rc_ToContains ?c \<noteq> [] then [test_tokens (Test ''address'' [Tag '':contains'', Texts [''to'', ''cc'', ''bcc''], Text (rc_ToContains ?c)])] else []) @
      (if rc_SubjectContains ?c \<noteq> [] then [test_tokens (Test ''header'' [Tag '':contains'', Text ''subject'', Text (rc_SubjectContains ?c)])] else []) @
      (if rc_BodyContains ?c \<noteq> [] then [test_tokens (Test ''body'' [Tag '':contains'', Text (rc_BodyContains ?c)])] else [])"
    by (simp add: rule_tests_def Let_def)
  then show ?thesis unfolding compileMailRuleConditionFragments_def Let_def
    by (simp only:) (intro both_read_append both_read_if reads_tests)
qed

lemma actions_read:
  assumes "compileMailRuleActionFragments rule mailboxes = Inr actions"
  obtains target where "target_mailbox (trimMailRuleActions (mr_Actions rule)) mailboxes = Inr target"
    "both_read actions (map cmd_tokens (rule_actions rule target))"
proof -
  let ?a = "trimMailRuleActions (mr_Actions rule)"
  from assms obtain target where t: "target_mailbox ?a mailboxes = Inr target"
    and e: "actions = fragment_if target (''fileinto '' @ quoted target @ '';'') @
          (if ra_MarkRead ?a then [''addflag '' @ quoted (BSL # ''Seen'') @ '';''] else []) @
          fragment_if (ra_Redirect ?a) (''redirect '' @ quoted (ra_Redirect ?a) @ '';'') @
          (if ra_Stop ?a then [''stop;''] else [])"
    by (auto simp: compileMailRuleActionFragments_def Let_def split: sum.splits)
  have "map cmd_tokens (rule_actions rule target) =
      (if target \<noteq> [] then [cmd_tokens (Action ''fileinto'' [Text target])] else []) @
      (if ra_MarkRead ?a then [cmd_tokens (Action ''addflag'' [Text (BSL # ''Seen'')])] else []) @
      (if ra_Redirect ?a \<noteq> [] then [cmd_tokens (Action ''redirect'' [Text (ra_Redirect ?a)])] else []) @
      (if ra_Stop ?a then [cmd_tokens (Action ''stop'' [])] else [])"
    by (simp add: rule_actions_def Let_def)
  then have "both_read actions (map cmd_tokens (rule_actions rule target))"
    unfolding e by (simp only:) (intro both_read_append both_read_if both_read_when reads_actions)
  with t show thesis by (rule that)
qed

lemma condition_reads:
  assumes "rule_tests rule \<noteq> []"
  shows "reads (condition_expr rule (compileMailRuleConditionFragments rule)) (test_tokens (combined rule (rule_tests rule)))"
proof (cases "length (rule_tests rule) = 1")
  case True
  then obtain t where t: "rule_tests rule = [t]" by (auto simp: length_Suc_conv)
  with conditions_read [of rule] show ?thesis by (auto simp: both_read_def list_all2_Cons2 combined_def condition_expr_def)
next
  case False
  with assms obtain t u ts where t: "rule_tests rule = t # u # ts" by (metis One_nat_def length_Cons list.size(3) neq_Nil_conv)
  let ?n = "if EqualFold (TrimSpace (mr_MatchMode rule)) ''any'' then ''anyof'' else ''allof''"
  have "reads (?n @ ''('') [Word ?n, Sign CHR ''('']" using reads_heads(15,16) by simp
  then have "reads ((?n @ ''('') @ Join (compileMailRuleConditionFragments rule) '', '' @ '')'')
      ([Word ?n, Sign CHR ''(''] @ separated (map test_tokens (rule_tests rule)) @ [Sign CHR '')''])"
    by (intro reads_append reads_separated conditions_read reads_heads)
  moreover have "length (compileMailRuleConditionFragments rule) > 1"
    using both_read_length [OF conditions_read] t by simp
  ultimately show ?thesis by (simp add: combined_def condition_expr_def t split del: if_split)
qed

lemma test_extensions_rule:
  assumes "rule_tests rule \<noteq> []"
  shows "set (test_extensions (combined rule (rule_tests rule))) =
    (if rc_BodyContains (trimMailRuleConditions (mr_Conditions rule)) \<noteq> [] then {''body''} else {})"
proof -
  have "set (test_extensions (combined rule ts)) = (\<Union>t \<in> set ts. set (test_extensions t))" if "ts \<noteq> []" for ts
    using that by (auto simp: combined_def split: list.splits)
  moreover have "(\<Union>t \<in> set (rule_tests rule). set (test_extensions t)) =
      (if rc_BodyContains (trimMailRuleConditions (mr_Conditions rule)) \<noteq> [] then {''body''} else {})"
    by (simp add: rule_tests_def Let_def)
  ultimately show ?thesis using assms by simp
qed

lemma target_empty:
  assumes "target_mailbox (trimMailRuleActions a) mailboxes = Inr target"
  shows "target \<noteq> [] \<longleftrightarrow> ra_MoveToMailbox (trimMailRuleActions a) \<noteq> [] \<or> ra_MoveToRole (trimMailRuleActions a) \<noteq> []"
  using assms by (auto simp: target_mailbox_def trimMailRuleActions_def Let_def TrimSpace_idem split: if_splits)

lemma block_body:
  assumes "rule_block rule mailboxes = Inr (Some (block, reqs))"
  obtains body c where "block = ''# '' @ sieveEscape (TrimSpace (mr_Name rule)) @ NL # body" "meaning rule mailboxes = [c]"
    "reads body (cmd_tokens c)" "set reqs = set (cmd_names c)"
proof -
  let ?fs = "compileMailRuleConditionFragments rule" and ?a = "trimMailRuleActions (mr_Actions rule)"
  from assms obtain actions where en: "mr_Enabled rule" "?fs \<noteq> []"
    and a: "compileMailRuleActionFragments rule mailboxes = Inr actions" "actions \<noteq> []"
    and txt_eq: "block = ''# '' @ sieveEscape (TrimSpace (mr_Name rule)) @ NL # ''if '' @ condition_expr rule ?fs @ '' {'' @ (NL # ''  '')
              @ Join actions (NL # ''  '') @ [NL] @ ''}''"
    and reqs: "reqs = (if ra_MoveToMailbox ?a \<noteq> [] \<or> ra_MoveToRole ?a \<noteq> [] then [''fileinto''] else []) @
            (if ra_MarkRead ?a then [''imap4flags''] else []) @ (if ra_Redirect ?a \<noteq> [] then [''redirect''] else []) @
            (if rc_BodyContains (trimMailRuleConditions (mr_Conditions rule)) \<noteq> [] then [''body''] else [])"
    by (auto simp: rule_block_def Let_def split: if_split_asm sum.splits)
  obtain target where t: "target_mailbox ?a mailboxes = Inr target" "both_read actions (map cmd_tokens (rule_actions rule target))"
    using actions_read [OF a(1)] .
  let ?c = "If (combined rule (rule_tests rule)) (rule_actions rule target)"
  have ne: "rule_tests rule \<noteq> []" "rule_actions rule target \<noteq> []"
    using en(2) a(2) both_read_length [OF conditions_read, of rule] both_read_length [OF t(2)] by auto
  have m: "meaning rule mailboxes = [?c]" using en(1) t(1) ne by (simp add: meaning_def)
  have "reads (''if '' @ condition_expr rule ?fs @ '' {'' @ (NL # ''  '') @ Join actions (NL # ''  '') @ [NL] @ ''}'')
      ([Word ''if''] @ test_tokens (combined rule (rule_tests rule)) @ [Sign CHR ''{''] @ [] @ concat (map cmd_tokens (rule_actions rule target))
        @ [] @ [Sign CHR ''}''])"
    by (intro reads_append reads_heads condition_reads [OF ne(1)] reads_joined [OF t(2)] reads_gap reads_blank blanks)
  then have r: "reads (''if '' @ condition_expr rule ?fs @ '' {'' @ (NL # ''  '') @ Join actions (NL # ''  '') @ [NL] @ ''}'') (cmd_tokens ?c)"
    by simp
  have "set reqs = set (cmd_names ?c)"
    using target_empty [OF t(1)] unfolding reqs by (auto simp: test_extensions_rule [OF ne(1)] rule_actions_def Let_def)
  with txt_eq m r show thesis by (intro that)
qed

lemma block_none: "rule_block rule mailboxes = Inr None \<Longrightarrow> meaning rule mailboxes = []"
  using both_read_length [OF conditions_read, of rule]
  by (auto simp: rule_block_def meaning_def Let_def elim!: actions_read dest!: both_read_length split: if_split_asm sum.splits)

definition single_line :: "MailRule \<Rightarrow> bool" where "single_line rule \<longleftrightarrow> NL \<notin> set (TrimSpace (mr_Name rule))"

lemma no_line_break: "NL \<notin> set s \<Longrightarrow> NL \<notin> set (sieveEscape s)"
  by (auto simp: sieveEscape_def escape_char_def split: if_splits)

lemma block_reads:
  assumes "rule_block rule mailboxes = Inr (Some (block, reqs))" "single_line rule"
  obtains c where "meaning rule mailboxes = [c]" "reads block (cmd_tokens c)" "set reqs = set (cmd_names c)"
proof -
  obtain body c where b: "block = ''# '' @ sieveEscape (TrimSpace (mr_Name rule)) @ NL # body" "meaning rule mailboxes = [c]"
    "reads body (cmd_tokens c)" "set reqs = set (cmd_names c)" using block_body [OF assms(1)] .
  have "reads (CHR ''#'' # ('' '' @ sieveEscape (TrimSpace (mr_Name rule))) @ [NL]) []"
    using assms(2) by (intro reads_comment) (auto simp: single_line_def dest: no_line_break)
  from reads_append [OF this b(3)] have "reads block (cmd_tokens c)" by (simp add: b(1))
  with b show thesis by (intro that)
qed

lemma blocks_read:
  assumes "rule_blocks rules mailboxes = Inr blocks" "list_all single_line rules"
  shows "list_all2 (\<lambda>(block, reqs) c. reads block (cmd_tokens c) \<and> set reqs = set (cmd_names c)) blocks
    (concat (map (\<lambda>r. meaning r mailboxes) rules))"
  using assms
proof (induction rules arbitrary: blocks)
  case (Cons rule rules)
  from Cons.prems obtain b bs where b: "rule_block rule mailboxes = Inr b" "rule_blocks rules mailboxes = Inr bs"
    "blocks = (case b of None \<Rightarrow> [] | Some x \<Rightarrow> [x]) @ bs" by (auto split: sum.splits)
  note IH = Cons.IH [OF b(2)]
  show ?case
  proof (cases b)
    case None
    with b Cons.prems show ?thesis using IH by (simp add: block_none)
  next
    case (Some x)
    obtain block reqs where x: "x = (block, reqs)" by (cases x)
    obtain c where "meaning rule mailboxes = [c]" "reads block (cmd_tokens c)" "set reqs = set (cmd_names c)"
      using block_reads [of rule mailboxes block reqs] b(1) Some x Cons.prems(2) by auto
    with b Some x Cons.prems IH show ?thesis by simp
  qed
qed simp

lemma requires_listed:
  assumes "list_all2 (\<lambda>(block, reqs) c. P block c \<and> set reqs = set (cmd_names c)) blocks cmds"
  shows "script_requires blocks = listed cmds"
proof -
  have "set (concat (map snd blocks)) = set (concat (map cmd_names cmds))"
    using assms by (induction rule: list_all2_induct) auto
  then show ?thesis by (simp add: script_requires_def listed_def del: set_concat)
qed

lemma listed_known: "set (listed cmds) \<subseteq> set requiresOrder"
  by (auto simp: listed_def Let_def) (simp_all add: requiresOrder_def)

lemma test_extensions_known: "set (test_extensions t) \<subseteq> {''body''}"
  by (induction t) auto

lemma extensions_known: "set (cmd_extensions c) \<subseteq> {''fileinto'', ''imap4flags'', ''body''}"
proof (induction c)
  case (If t cs)
  then show ?case using test_extensions_known [of t] by (auto simp del: insert_iff)
qed auto

lemma names_extensions: "set (cmd_names c) = set (cmd_extensions c) \<union> (if redirects c then {''redirect''} else {})"
  by (induction c) (auto simp: list_ex_iff split: if_splits)

lemma filter_known: "N \<subseteq> set xs \<Longrightarrow> (filter (\<lambda>x. x \<in> N) xs = [] \<longleftrightarrow> N = {}) \<and> set (filter (\<lambda>x. x \<in> N) xs) = N"
  by (auto simp: filter_empty_conv)

text \<open>What is listed is what is needed, \<^verbatim>\<open>redirect\<close> for a script that redirects, and \<^verbatim>\<open>fileinto\<close> when there is neither.\<close>

lemma listed_exact:
  "x \<in> set (listed cmds) \<longleftrightarrow> x \<in> set (extensions cmds) \<or> x = ''redirect'' \<and> list_ex redirects cmds
     \<or> x = ''fileinto'' \<and> extensions cmds = [] \<and> \<not> list_ex redirects cmds"
proof -
  let ?names = "set (concat (map cmd_names cmds))"
  have n: "?names = set (extensions cmds) \<union> (if list_ex redirects cmds then {''redirect''} else {})"
    by (induction cmds) (auto simp: extensions_def names_extensions split: if_splits)
  moreover have "set (extensions cmds) \<subseteq> {''fileinto'', ''imap4flags'', ''body''}"
    using extensions_known unfolding extensions_def set_concat set_map by blast
  ultimately have sub: "?names \<subseteq> set requiresOrder" by (auto simp: requiresOrder_def split: if_splits)
  have "set (listed cmds) = (if ?names = {} then {''fileinto''} else ?names)" using filter_known [OF sub] by (simp add: listed_def Let_def del: set_concat)
  then show ?thesis unfolding n by auto
qed

lemma require_reads: "reads (''require ['' @ Join (map (\<lambda>item. DQ # item @ [DQ]) (listed cmds)) '', '' @ ''];'')
    (cmd_tokens (Action ''require'' [Texts (listed cmds)]))"
proof -
  have "DQ # item @ [DQ] = quoted item" if "item \<in> set (listed cmds)" for item
    using that listed_known [of cmds] by (auto simp: requiresOrder_def quoted_def sieveEscape_def escape_char_def)
  then have e: "map (\<lambda>item. DQ # item @ [DQ]) (listed cmds) = map quoted (listed cmds)" by (intro map_cong) auto
  have "both_read (map quoted xs) (map (\<lambda>x. [Str x]) xs)" for xs
    by (induction xs) (simp_all add: both_read_def reads_quoted)
  then have "reads (''require ['' @ Join (map quoted (listed cmds)) '', '' @ ''];'')
      ([Word ''require'', Sign CHR ''[''] @ separated (map (\<lambda>x. [Str x]) (listed cmds)) @ [Sign CHR '']'', Sign CHR '';''])"
    by (intro reads_append reads_separated reads_heads)
  then show ?thesis by (simp add: e)
qed

text \<open>The lines before the rules.\<close>

definition preamble :: "sieve_cmd list \<Rightarrow> string" where
  "preamble cmds = (''require ['' @ Join (map (\<lambda>item. DQ # item @ [DQ]) (listed cmds)) '', '' @ ''];'') @ [NL, NL]
     @ CHR ''#'' # '' Managed by Despatch. Edit structured rules in Settings > Mail > Rules & Junk.'' @ [NL]"

lemma preamble_reads: "reads (preamble cmds) (cmd_tokens (Action ''require'' [Texts (listed cmds)]))"
proof -
  have "reads (preamble cmds) (cmd_tokens (Action ''require'' [Texts (listed cmds)]) @ [] @ [])"
    unfolding preamble_def by (intro reads_append require_reads reads_gap reads_comment) simp
  then show ?thesis by simp
qed

lemma compiled_script:
  assumes "compileManagedMailRules rules mailboxes = Inr script"
  obtains blocks where "rule_blocks rules mailboxes = Inr blocks"
    "script_requires blocks = listed cmds \<longrightarrow>
       script = preamble cmds @ (if blocks = [] then ''# No enabled rules.'' else Join (map fst blocks) [NL, NL])"
  using assms by (auto simp: compileManagedMailRules_def preamble_def split: sum.splits)

text \<open>C21: The managed script is the program of the rules.  For rules whose names are single lines, whatever their other fields hold
  (quotes, backslashes and line breaks in conditions, mailbox names and addresses included), the compiled text reads, token by
  token, as: a require command, and for every rule that is enabled and has a condition and an action one if command with its tests
  and its actions, in the order of the rules.  The require command lists every extension the commands need, and besides
  these only redirect, when a rule redirects, and fileinto, when there is nothing else to list.\<close>

theorem managed_script_means_rules:
  assumes "compileManagedMailRules rules mailboxes = Inr script" "list_all single_line rules"
  shows "sieve_tokens script = Some (program_tokens (program rules mailboxes))
    \<and> (let cmds = commands rules mailboxes in
        x \<in> set (listed cmds) \<longleftrightarrow> x \<in> set (extensions cmds) \<or> x = ''redirect'' \<and> list_ex redirects cmds
          \<or> x = ''fileinto'' \<and> extensions cmds = [] \<and> \<not> list_ex redirects cmds)"
proof -
  let ?cmds = "concat (map (\<lambda>r. meaning r mailboxes) rules)"
  obtain blocks where b: "rule_blocks rules mailboxes = Inr blocks" and s: "script_requires blocks = listed ?cmds \<longrightarrow>
      script = preamble ?cmds @ (if blocks = [] then ''# No enabled rules.'' else Join (map fst blocks) [NL, NL])"
    using compiled_script [OF assms(1), where cmds = ?cmds] .
  note r = blocks_read [OF b assms(2)]
  have "both_read (map fst blocks) (map cmd_tokens ?cmds)"
    using r unfolding both_read_def by (induction rule: list_all2_induct) auto
  then have "reads (Join (map fst blocks) [NL, NL]) (concat (map cmd_tokens ?cmds))" by (rule reads_joined) (rule reads_gap)
  moreover have "sieve_tokens ''# No enabled rules.'' = Some []" by (simp add: sieve_tokens_def scan_comment_end)
  ultimately have "sieve_tokens (if blocks = [] then ''# No enabled rules.'' else Join (map fst blocks) [NL, NL]) = Some (concat (map cmd_tokens ?cmds))"
    using r by (cases blocks) (auto simp: reads_end)
  then show ?thesis
    using preamble_reads [of ?cmds] requires_listed [OF r] s
      listed_exact [of x ?cmds]
    by (simp add: reads_def sieve_tokens_def program_tokens_def program_def commands_def Let_def)
qed

text \<open>A rule whose values hold quotes, backslashes and line breaks.\<close>

definition awkward_rule :: MailRule where
  "awkward_rule = \<lparr>mr_ID = ''r1'', mr_AccountID = ''a1'', mr_Name = ''News'', mr_Enabled = True, mr_Position = 0, mr_MatchMode = ''any'',
     mr_Conditions = no_conditions\<lparr>rc_FromContains := [DQ, CHR '';'', BSL], rc_SubjectContains := [CHR ''a'', NL, CHR ''b'']\<rparr>,
     mr_Actions = no_actions\<lparr>ra_MoveToMailbox := ''In'' @ [DQ] @ '';stop;'', ra_Stop := True\<rparr>, mr_CreatedAt = 0, mr_UpdatedAt = 0\<rparr>"

theorem managed_script_means_rules_witness:
  "\<exists>script. compileManagedMailRules [awkward_rule] [] = Inr script
    \<and> sieve_tokens script = Some (program_tokens (program [awkward_rule] []))"
proof -
  have c: "compileManagedMailRules [awkward_rule] [] = Inr (projr (compileManagedMailRules [awkward_rule] []))"
    by code_simp
  moreover have "list_all single_line [awkward_rule]" by code_simp
  ultimately show ?thesis using managed_script_means_rules by blast
qed

text \<open>C22: A line break in a rule's name adds to the script.  The name stands in a comment, which ends with the line: of a name of two lines
  whose second line is a word, the word is read as a command before the if of the rule, although validation takes the name, so
  that the text is no longer a program of the rules.\<close>

theorem name_line_break_adds_command:
  assumes "compileManagedMailRules [rule] mailboxes = Inr script" "meaning rule mailboxes = [c]"
    "TrimSpace (mr_Name rule) = a @ NL # w" "NL \<notin> set a" "is_word w" "BSL \<notin> set w"
  shows "sieve_tokens script = Some (cmd_tokens (Action ''require'' [Texts (listed [c])]) @ Word w # cmd_tokens c)"
proof -
  obtain blocks where b: "rule_blocks [rule] mailboxes = Inr blocks" and s: "script_requires blocks = listed [c] \<longrightarrow>
      script = preamble [c] @ (if blocks = [] then ''# No enabled rules.'' else Join (map fst blocks) [NL, NL])"
    using compiled_script [OF assms(1), where cmds = "[c]"] .
  obtain block reqs where x: "rule_block rule mailboxes = Inr (Some (block, reqs))" "blocks = [(block, reqs)]"
    using b assms(2) block_none [of rule mailboxes] by (auto split: sum.splits option.splits)
  obtain body where y: "block = ''# '' @ sieveEscape (TrimSpace (mr_Name rule)) @ NL # body" "reads body (cmd_tokens c)"
    "set reqs = set (cmd_names c)" using block_body [OF x(1)] assms(2) by force
  have "sieveEscape w = w" using assms(5,6)
    by (induction w) (auto simp: sieveEscape_def escape_char_def is_word_def, metis concat.simps(1) list.simps(8))
  then have e: "block = (CHR ''#'' # ('' '' @ sieveEscape a) @ [NL]) @ (w @ [NL]) @ body"
    by (simp add: y(1) assms(3) sieveEscape_def escape_char_def)
  have "reads (preamble [c] @ block) (cmd_tokens (Action ''require'' [Texts (listed [c])]) @ [] @ [Word w] @ cmd_tokens c)"
    unfolding e by (intro reads_append preamble_reads reads_comment reads_word_blank assms(5) blanks y(2))
      (use no_line_break [OF assms(4)] in auto)
  moreover have "script_requires blocks = listed [c]" using y(3) x(2) by (intro requires_listed [where P = "\<lambda>_ _. True"]) auto
  ultimately show ?thesis using s x(2) by (auto dest: reads_end)
qed

definition two_line_rule :: MailRule where
  "two_line_rule = awkward_rule\<lparr>mr_Name := ''News'' @ [NL] @ ''old''\<rparr>"

theorem name_line_break_adds_command_witness:
  "validateMailRule (\<lambda>_. None) \<lparr>rq_Name = mr_Name two_line_rule, rq_Enabled = None, rq_Position = None, rq_MatchMode = [],
      rq_Conditions = mr_Conditions two_line_rule, rq_Actions = mr_Actions two_line_rule\<rparr> = None
    \<and> (\<exists>script c. compileManagedMailRules [two_line_rule] [] = Inr script \<and> meaning two_line_rule [] = [c]
      \<and> sieve_tokens script = Some (cmd_tokens (Action ''require'' [Texts (listed [c])]) @ Word ''old'' # cmd_tokens c))"
proof -
  have "compileManagedMailRules [two_line_rule] [] = Inr (projr (compileManagedMailRules [two_line_rule] []))"
    "meaning two_line_rule [] = [hd (meaning two_line_rule [])]"
    and n: "TrimSpace (mr_Name two_line_rule) = ''News'' @ NL # ''old''" "is_word ''old''"
    by code_simp+
  then obtain script cmd where c: "compileManagedMailRules [two_line_rule] [] = Inr script" and m: "meaning two_line_rule [] = [cmd]" by metis
  have "validateMailRule (\<lambda>_. None) \<lparr>rq_Name = mr_Name two_line_rule, rq_Enabled = None, rq_Position = None, rq_MatchMode = [],
      rq_Conditions = mr_Conditions two_line_rule, rq_Actions = mr_Actions two_line_rule\<rparr> = None" by code_simp
  with name_line_break_adds_command [OF c m n(1) _ n(2)] c m show ?thesis by simp
qed

end
