(* ===== verification/BoxDemo.thy ===== *)
theory BoxDemo
  imports MailboxHandlers TableDemo
begin

text \<open>
  A server with three mailboxes for the witnesses: an inbox, a trash and one without a role that holds two messages, which
  it does not list any more once they were moved.
\<close>

lemmas boxes_code [code] =
  ListMailboxes_def [THEN fun_cong, THEN fun_cong] client_CreateMailbox_def [THEN fun_cong, THEN fun_cong]
  client_RenameMailbox_def [THEN fun_cong, THEN fun_cong] client_DeleteMailbox_def [THEN fun_cong, THEN fun_cong]
  client_ListMessages_def [THEN fun_cong, THEN fun_cong] client_Move_def [THEN fun_cong, THEN fun_cong]
  cached_boxes_def [THEN fun_cong, THEN fun_cong] forget_boxes_def [THEN fun_cong, THEN fun_cong]
  setting_key_def [THEN fun_cong, THEN fun_cong] ListSpecialMailboxMappings_def [THEN fun_cong, THEN fun_cong]
  save_mappings_def [THEN fun_cong, THEN fun_cong] UpsertSpecialMailboxMapping_def [THEN fun_cong, THEN fun_cong]
  RenameSpecialMailboxMappings_def [THEN fun_cong, THEN fun_cong]
  DeleteSpecialMailboxMappingsByMailbox_def [THEN fun_cong, THEN fun_cong] ListMailboxMappings_def [THEN fun_cong, THEN fun_cong]
  UpsertMailboxMapping_def [THEN fun_cong, THEN fun_cong] DeleteMailboxMapping_def [THEN fun_cong, THEN fun_cong]
  RenameMailboxMappings_def [THEN fun_cong, THEN fun_cong] DeleteMailboxMappingsByMailbox_def [THEN fun_cong, THEN fun_cong]
  ListIndexedMailboxCounts_def [THEN fun_cong, THEN fun_cong] orText_def [THEN fun_cong, THEN fun_cong]
  session_password_def [THEN fun_cong, THEN fun_cong] rawMailboxes_def [THEN fun_cong, THEN fun_cong]
  session_boxes_def [THEN fun_cong, THEN fun_cong] listMailboxesWithSpecialRoles_def [THEN fun_cong, THEN fun_cong]
  resolveSessionSpecialMailboxByRole_def [THEN fun_cong, THEN fun_cong] ListSpecialMailboxes_def [THEN fun_cong, THEN fun_cong]
  CreateMailbox_def [THEN fun_cong, THEN fun_cong] RenameMailbox_def [THEN fun_cong, THEN fun_cong]
  DeleteMailbox_def [THEN fun_cong, THEN fun_cong] UpsertSpecialMailbox_def [THEN fun_cong, THEN fun_cong]
  accountMailSecret_def [THEN fun_cong, THEN fun_cong] rawAccountMailboxes_def [THEN fun_cong, THEN fun_cong]
  account_boxes_def [THEN fun_cong, THEN fun_cong] listAccountMailboxesWithRolesForAccount_def [THEN fun_cong, THEN fun_cong]
  listAccountMailboxesWithRolesBestEffort_def [THEN fun_cong, THEN fun_cong]
  listAccountMailboxesWithRoles_def [THEN fun_cong, THEN fun_cong] V2ListAccountMailboxes_def [THEN fun_cong, THEN fun_cong]
  V2ListAggregateMailboxes_def [THEN fun_cong, THEN fun_cong] forget_account_def [THEN fun_cong, THEN fun_cong]
  V2CreateAccountMailbox_def [THEN fun_cong, THEN fun_cong] save_account_mapping_def [THEN fun_cong, THEN fun_cong]
  V2UpsertAccountSpecialMailbox_def [THEN fun_cong, THEN fun_cong] findPrimaryUserMailAccount_def [THEN fun_cong, THEN fun_cong]
  account_secret_target_def [THEN fun_cong, THEN fun_cong] resolveAdminMailboxTarget_def [THEN fun_cong, THEN fun_cong]
  listAdminUserMailboxes_def [THEN fun_cong, THEN fun_cong] invalidateAdminMailboxTargetCaches_def [THEN fun_cong, THEN fun_cong]
  AdminListUserMailboxes_def [THEN fun_cong, THEN fun_cong] AdminCreateUserMailbox_def [THEN fun_cong, THEN fun_cong]

definition box :: "string \<Rightarrow> string \<Rightarrow> Mailbox" where
  "box name role = \<lparr>mb_Name = name, mb_Role = role, mb_Unread = 0, mb_Messages = 0, mb_CanRename = False, mb_CanDelete = False\<rparr>"

definition was_moved :: "box_call list \<Rightarrow> string \<Rightarrow> bool" where
  "was_moved h i = list_ex (\<lambda>k. case k of MoveMessage c l j t ok \<Rightarrow> j = i \<and> ok | _ \<Rightarrow> False) h"

definition demo_benv :: benv where
  "demo_benv = \<lparr>te_svc = demo_svc, te_fault = (\<lambda>_. None), te_others = (\<lambda>_ d. d), be_error = (\<lambda>_. ''error''),
     be_object = (\<lambda>_. None), be_object_json = (\<lambda>_. ''{}''),
     be_boxes = (\<lambda>_ _ _ _ _. Inr [box ''INBOX'' ''inbox'', box ''Bin'' ''trash'', box ''Old'' []]),
     be_create = (\<lambda>_ _ _ _ _ _. None), be_rename = (\<lambda>_ _ _ _ _ _ _. None), be_delete = (\<lambda>_ _ _ _ _ _. None),
     be_page = (\<lambda>_ h _ _ _ _ _ _. Inr (filter (\<lambda>i. \<not> was_moved h i) [''m1'', ''m2''])),
     be_move = (\<lambda>_ _ _ _ _ _ _. None)\<rparr>"

definition demo_bstate :: bstate where
  "demo_bstate = \<lparr>ts_db = \<lparr>mailbox_mappings = [], mail_rules = [], sieve_cache = [], sieve_profiles = [], counted_rows = []\<rparr>,
     ts_world = \<lparr>w_db = empty_db\<lparr>users := [demo_user ''u1'' ''a@e.org''], mail_accounts := [demo_mail_account]\<rparr>, w_now = 0, w_n = 0, w_log = []\<rparr>,
     b_cache = (\<lambda>_. None), b_calls = []\<rparr>"

definition demo_mail_session :: Session where
  "demo_mail_session = (demo_session ''s1'' ''u1'' ''hash-1'')\<lparr>s_MailSecret := demo_secret\<rparr>"

definition some_handlers :: Handlers where
  "some_handlers = \<lparr>SessionCookieName = ''sid'', CSRFCookieName = ''csrf'', MFATrustedCookieName = ''mfa'', TrustProxy = False,
     hmac_sha256 = id, totp_Validate = (\<lambda>_ _ _. False), mailsec_totp = (\<lambda>_ _ _ _. Inr False), totp_Generate = (\<lambda>_ _ _. ([], [])),
     qrcode_Encode = (\<lambda>_. False), captcha_Verify = (\<lambda>_ _ _. CaptchaOk)\<rparr>"

text \<open>Deleting the mailbox moves both messages, sees it empty and deletes it.\<close>

definition demo_delete :: "(err + resp) \<times> bstate" where
  "demo_delete = DeleteMailbox 3 some_handlers ann (Some demo_mail_session) (Inr \<lparr>bq_MailboxName = ''old'', bq_NewMailboxName = []\<rparr>) demo_benv demo_bstate"

lemma demo_delete_run:
  "(case demo_delete of (r, s) \<Rightarrow> (map_sum id rs_status r, b_calls s)) = (Inr 200,
    [ListBoxes ServiceClient ''a@e.org'', ListPage ServiceClient ''a@e.org'' ''Old'' (Some [''m1'', ''m2'']),
     MoveMessage ServiceClient ''a@e.org'' ''m1'' ''Bin'' True, MoveMessage ServiceClient ''a@e.org'' ''m2'' ''Bin'' True,
     ListPage ServiceClient ''a@e.org'' ''Old'' (Some []), DeleteBox ServiceClient ''a@e.org'' ''Old'' True, ListBoxes ServiceClient ''a@e.org''])"
  by code_simp

end
