(* ===== verification/MailboxLaws.thy ===== *)
theory MailboxLaws
  imports BoxDemo
begin

text \<open>
  What the handlers of mailboxes do to the server: a mailbox is deleted only when it was seen empty and plays no role,
  emptying a mailbox ends, and the role of junk cannot be given.  The locale \<^verbatim>\<open>box_view\<close> is the contract of a property that
  looks at the calls made so far and is kept by all calls but deletions.
\<close>

section \<open>Calls\<close>

lemma wp_any: "(\<And>r s'. Q r s') \<Longrightarrow> wpT m v Q s" by (rule wpI)

lemma wp_ask_server:
  "wpT (ask_server f g) v Q s =
    (let r = f v (w_n (ts_world s)) (b_calls s) in
     Q r (s\<lparr>ts_world := (ts_world s)\<lparr>w_n := Suc (w_n (ts_world s))\<rparr>, b_calls := b_calls s @ [g r]\<rparr>))"
  by (simp add: wpT_def ask_server_def Let_def)

definition is_delete :: "box_call \<Rightarrow> bool" where
  "is_delete k = (case k of DeleteBox _ _ _ _ \<Rightarrow> True | _ \<Rightarrow> False)"

lemma is_delete_simps [simp]:
  "\<not> is_delete (ListBoxes c l)" "\<not> is_delete (CreateBox c l n b)" "\<not> is_delete (RenameBox c l n n' b)" "is_delete (DeleteBox c l n b)"
  "\<not> is_delete (ListPage c l n ids)" "\<not> is_delete (MoveMessage c l m n b)"
  by (simp_all add: is_delete_def)

lemma wp_get_cache [wp_simps]: "wpT getT_cache v Q s = Q (Inr (b_cache s)) s" by (simp add: wpT_def getT_cache_def)

lemma wp_put_cache [wp_simps]: "wpT (putT_cache f) v Q s = Q (Inr ()) (s\<lparr>b_cache := f (b_cache s)\<rparr>)"
  by (simp add: wpT_def putT_cache_def)

locale box_view =
  fixes I :: "bstate \<Rightarrow> bool"
  assumes world: "I s \<Longrightarrow> I (s\<lparr>ts_world := w\<rparr>)"
    and cache: "I s \<Longrightarrow> I (s\<lparr>b_cache := c\<rparr>)"
    and call: "I s \<Longrightarrow> \<not> is_delete k \<Longrightarrow> I (s\<lparr>b_calls := b_calls s @ [k]\<rparr>)"
begin

lemma core [stay_intros]: "stays v I (coreT m)"
  by (rule stays_I) (auto intro: wp_core world)

lemma ask: "(\<And>r. \<not> is_delete (g r)) \<Longrightarrow> stays v I (ask_server f g)"
proof (rule stays_I)
  fix s assume g: "\<And>r. \<not> is_delete (g r)" and "I s"
  from call [OF world [OF this(2)] g] show "wpT (ask_server f g) v (\<lambda>_. I) s" by (simp add: wp_ask_server Let_def)
qed

lemma server [stay_intros]:
  "stays v I (ListMailboxes c l p)" "stays v I (client_CreateMailbox c l p n)" "stays v I (client_RenameMailbox c l p n n')"
  "stays v I (client_ListMessages c l p n i j)" "stays v I (client_Move c l p m n)"
  unfolding ListMailboxes_def client_CreateMailbox_def client_RenameMailbox_def client_ListMessages_def client_Move_def
  by (intro ask; simp)+

lemma caching [stay_intros]: "stays v I getT_cache" "stays v I (putT_cache f)" "stays v I (forget_boxes l)"
  unfolding forget_boxes_def by (auto simp: stays_def getT_cache_def putT_cache_def cache)

lemma cached [stay_intros]: "stays v I fetch \<Longrightarrow> stays v I (cached_boxes l fetch)"
  unfolding cached_boxes_def Let_def by (intro stay_intros)

lemma settings [stay_intros]:
  "stays v I (ListSpecialMailboxMappings i l)" "stays v I (UpsertSpecialMailboxMapping i l r n)"
  "stays v I (RenameSpecialMailboxMappings i l n n')" "stays v I (DeleteSpecialMailboxMappingsByMailbox i l n)"
  unfolding ListSpecialMailboxMappings_def UpsertSpecialMailboxMapping_def RenameSpecialMailboxMappings_def
    DeleteSpecialMailboxMappingsByMailbox_def save_mappings_def setting_key_def
  by (intro stay_intros)+

lemma sessions [stay_intros]:
  "stays v I (session_password ss)" "stays v I (session_boxes u p)" "stays v I (listMailboxesWithSpecialRoles u ss)"
  "stays v I (resolveSessionSpecialMailboxByRole u p r)"
  unfolding session_password_def session_boxes_def rawMailboxes_def listMailboxesWithSpecialRoles_def resolveSessionSpecialMailboxByRole_def
  by (intro stay_intros)+

lemma page [stay_intros]: "(\<And>i t. stays v I (after i t)) \<Longrightarrow> stays v I (move_page c l p t after ids)"
  by (induction ids) (auto intro!: stay_intros)

lemma emptying [stay_intros]:
  "stays v I resolve \<Longrightarrow> (\<And>i t. stays v I (after i t)) \<Longrightarrow> stays v I (moveMailboxMessagesToTrash fuel c l p n resolve after k t)"
  by (induction fuel arbitrary: k t) (auto intro!: stay_intros)

end

text \<open>Since a state, no mailbox was deleted.\<close>

definition no_delete :: "box_call list \<Rightarrow> bool" where "no_delete ks \<longleftrightarrow> list_all (\<lambda>k. \<not> is_delete k) ks"

definition kept_since :: "box_call list \<Rightarrow> bstate \<Rightarrow> bool" where
  "kept_since h s \<longleftrightarrow> (\<exists>new. b_calls s = h @ new \<and> no_delete new)"

interpretation kept: box_view "kept_since h" for h
proof
  fix s :: bstate and k :: box_call
  assume "kept_since h s" "\<not> is_delete k"
  then obtain new where "b_calls s = h @ new" "no_delete (new @ [k])" by (auto simp: kept_since_def no_delete_def)
  then show "kept_since h (s\<lparr>b_calls := b_calls s @ [k]\<rparr>)" unfolding kept_since_def by (intro exI [of _ "new @ [k]"]) simp
qed (simp_all add: kept_since_def)

lemma kept_refl: "kept_since (b_calls s) s" by (simp add: kept_since_def no_delete_def)

section \<open>The role of junk\<close>

text \<open>C25: The role of junk cannot be given to a mailbox of a session.  The handler admits the role, but the store knows only sent,
  archive and trash: whatever the request, the server and the database do, the answer is never a success, although a
  mailbox may have been created for it.\<close>

theorem junk_never_mapped:
  assumes "lower_trim role = ''junk''"
  shows "\<exists>r s'. UpsertSpecialMailbox h u sess role body v s = (Inr r, s') \<and> rs_status r \<noteq> 200"
proof -
  have "normalizeSpecialMailboxRole ''junk'' = []" by code_simp
  then have n: "UpsertSpecialMailboxMapping i l ''junk'' name = failT (ErrMsg ''unsupported mailbox role'')" for i l name
    by (simp add: UpsertSpecialMailboxMapping_def)
  have "wpT (UpsertSpecialMailbox h u sess role body) v (\<lambda>r s'. \<exists>x. r = Inr x \<and> rs_status x \<noteq> 200) s"
    unfolding UpsertSpecialMailbox_def assms Let_def n with_bodyT_def orText_def
    by (auto simp: wp_simps unsupported_role_def error_resp_def session_error_def writeMailAuthError_def
        split: sum.split decode_err.split option.split prod.split intro!: wp_any)
  then show ?thesis by (auto simp: wpT_def split: prod.splits)
qed

theorem junk_never_mapped_witness:
  "\<exists>r s'. UpsertSpecialMailbox some_handlers ann (Some demo_mail_session) '' Junk''
      (Inr \<lparr>sq_MailboxName = ''Spam'', sq_CreateIfMissing = True\<rparr>) demo_benv demo_bstate = (Inr r, s') \<and> rs_status r \<noteq> 200"
proof -
  have "lower_trim '' Junk'' = ''junk''" by code_simp
  then show ?thesis by (rule junk_never_mapped)
qed

section \<open>Deleting a mailbox\<close>

text \<open>A list of mailboxes that the cache or the server has for a login; the mappings the settings hold for a user.\<close>

definition listed :: "benv \<Rightarrow> bstate \<Rightarrow> string \<Rightarrow> Mailbox list \<Rightarrow> bool" where
  "listed v s login boxes \<longleftrightarrow> (\<exists>e. b_cache s (normalizeMailLoginKey login) = Some e \<and> c_value e = boxes)
     \<or> (\<exists>n h pass. be_boxes v n h ServiceClient login pass = Inr boxes)"

definition stored_mappings :: "benv \<Rightarrow> db \<Rightarrow> User \<Rightarrow> mappings" where
  "stored_mappings v d u = decode_mappings (be_object v)
     (map_option set_Value (find (\<lambda>r. set_Key r = specialMailboxSettingKey (te_svc v) (u_ID u) (MailAuthLogin u)) (settings d)))"

lemma listedI:
  "b_cache s (normalizeMailLoginKey login) = Some e \<Longrightarrow> listed v s login (c_value e)"
  "be_boxes v n h ServiceClient login pass = Inr boxes \<Longrightarrow> listed v s login boxes"
  by (auto simp: listed_def)

text \<open>The operations before a deletion leave the settings as they are.\<close>

lemma wp_now_db: "(\<And>t w. w_db w = w_db (ts_world s) \<Longrightarrow> Q (Inr t) (s\<lparr>ts_world := w\<rparr>)) \<Longrightarrow> wpT nowT v Q s"
  by (simp add: wpT_def coreT_def time_Now_def Let_def)

lemma wp_setting_db:
  assumes "quiet (te_svc v)" "\<And>e w. Q (Inl e) (s\<lparr>ts_world := w\<rparr>)"
    "\<And>w. Q (Inr (map_option set_Value (find (\<lambda>r. set_Key r = key) (settings (w_db (ts_world s)))))) (s\<lparr>ts_world := w\<rparr>)"
  shows "wpT (coreT (GetSetting key)) v Q s"
  using assms by (auto simp: wpT_def coreT_def GetSetting_def query_def stmt_def Let_def split: option.split)

lemma wp_password_db: "(\<And>r. Q r s) \<Longrightarrow> wpT (session_password sess) v Q s"
  by (auto simp: session_password_def wp_simps wpT_def coreT_def SessionMailPassword_def failT_def fail_def ret_def askM_def bindM_run
      split: option.split sum.split)

lemma wp_raw:
  assumes "\<And>e w. Q (Inl e) w" "\<And>boxes w. listed v s login boxes \<Longrightarrow> w_db (ts_world w) = w_db (ts_world s) \<Longrightarrow> Q (Inr boxes) w"
  shows "wpT (rawMailboxes login pass) v Q s"
  unfolding rawMailboxes_def cached_boxes_def Let_def wp_simps ListMailboxes_def
  by (rule wp_now_db)
    (auto simp: wp_simps wp_ask_server Let_def assms(1) intro!: assms(2) intro: listedI split: sum.split option.split)

lemma wp_listed:
  assumes "quiet (te_svc v)" "\<And>e w. Q (Inl e) w"
    "\<And>raw pass w. listed v s (MailAuthLogin u) raw \<Longrightarrow>
       Q (Inr (applyMailboxCapabilities (applySpecialMailboxRoles raw (stored_mappings v (w_db (ts_world s)) u)),
               stored_mappings v (w_db (ts_world s)) u, pass)) w"
  shows "wpT (listMailboxesWithSpecialRoles u sess) v Q s"
proof -
  have maps: "wpT (ListSpecialMailboxMappings (u_ID u) (MailAuthLogin u)) v P w" if w: "w_db (ts_world w) = w_db (ts_world s)"
    and P: "\<And>e w. P (Inl e) w" "\<And>w. P (Inr (stored_mappings v (w_db (ts_world s)) u)) w" for P w
    unfolding ListSpecialMailboxMappings_def setting_key_def wp_simps
    by (auto simp: P wp_simps intro!: wp_setting_db assms(1)) (use P(2) in \<open>simp add: stored_mappings_def w\<close>)
  show ?thesis
    unfolding listMailboxesWithSpecialRoles_def session_boxes_def wp_simps
    by (rule wp_password_db)
      (auto simp: wp_simps assms(2) split: sum.split intro!: wp_raw maps assms(3))
qed

definition finished :: "err + move_result \<Rightarrow> bool" where
  "finished r = (case r of Inr (Some (Inr _)) \<Rightarrow> True | _ \<Rightarrow> False)"

lemma finished_simps [simp]: "\<not> finished (Inl e)" "\<not> finished (Inr None)" "\<not> finished (Inr (Some (Inl x)))" "finished (Inr (Some (Inr y)))"
  by (simp_all add: finished_def)

definition saw_empty :: "box_call list \<Rightarrow> mail_client \<Rightarrow> string \<Rightarrow> string \<Rightarrow> err + move_result \<Rightarrow> bstate \<Rightarrow> bool" where
  "saw_empty h c login source r s \<longleftrightarrow>
     (finished r \<longrightarrow> (\<exists>mid. b_calls s = h @ mid @ [ListPage c login source (Some [])] \<and> no_delete mid))"

lemma saw_empty_kept: "saw_empty (b_calls s1) c login source r s2 \<Longrightarrow> kept_since h s1 \<Longrightarrow> saw_empty h c login source r s2"
  by (auto simp: saw_empty_def kept_since_def no_delete_def)

lemma loop_saw_empty:
  assumes "\<And>h. stays v (kept_since h) resolve" "\<And>h i t. stays v (kept_since h) (after i t)"
  shows "wpT (moveMailboxMessagesToTrash fuel c login pass source resolve after k t) v (saw_empty (b_calls s) c login source) s"
proof (induction fuel arbitrary: k t s)
  case (Suc fuel)
  have rest: "wpT (bindT (move_page c login pass y after ids) (\<lambda>n.
         if n = 0 then failT (ErrMsg ''mailbox contains messages without ids'')
         else moveMailboxMessagesToTrash fuel c login pass source resolve after (k + n) y)) v (saw_empty h c login source) s1"
    if "kept_since h s1" for h s1 ids y
    unfolding wp_simps
    by (rule wp_mono [OF stays_wp [OF kept.page that]], rule assms)
      (auto simp: wp_simps saw_empty_def [of h c login source "Inl e" for e] split: sum.split intro!: wp_mono [OF Suc] elim: saw_empty_kept)
  let ?choose = "if TrimSpace t = [] then bindT resolve (\<lambda>x. retT (TrimSpace x)) else retT t"
  have choose: "wpT ?choose v (\<lambda>_. kept_since h) s1" if "kept_since h s1" for h s1
    using that by (intro stays_wp [where I = "kept_since h"] stay_intros assms)
  let ?page = "client_ListMessages c login pass source 1 mailboxMutationMovePageSize"
  have "wpT (if ids = [] then retT (Some (Inr (k, t)))
     else bindT ?choose (\<lambda>y. if TrimSpace y = [] then retT (Some (Inl ''trash''))
       else bindT (move_page c login pass y after ids) (\<lambda>n.
         if n = 0 then failT (ErrMsg ''mailbox contains messages without ids'')
         else moveMailboxMessagesToTrash fuel c login pass source resolve after (k + n) y))) v (saw_empty (b_calls s) c login source) s1"
    if "b_calls s1 = b_calls s @ [ListPage c login source (Some ids)]" for ids s1
  proof (cases "ids = []")
    case True
    with that show ?thesis by (simp add: wp_simps saw_empty_def no_delete_def)
  next
    case False
    have "kept_since (b_calls s) s1" using that by (simp add: kept_since_def no_delete_def)
    from choose [OF this] show ?thesis
      using False rest by (simp only: wp_bind [of ?choose] if_False) (erule wp_mono, auto simp: saw_empty_def wp_ret split: sum.split)
  qed
  then show ?case
    unfolding moveMailboxMessagesToTrash.simps wp_bind [of ?page] unfolding client_ListMessages_def wp_ask_server Let_def
    by (simp add: saw_empty_def [of _ _ _ _ "Inl e" for e] split: sum.split split del: if_split)
qed (simp add: wp_simps saw_empty_def)

text \<open>A deletion right after the mailbox was seen empty, of a mailbox without a role that the request names up to case.\<close>

definition proper_delete :: "benv \<Rightarrow> bstate \<Rightarrow> User \<Rightarrow> string \<Rightarrow> box_call list \<Rightarrow> bool" where
  "proper_delete v s u name new \<longleftrightarrow> (\<exists>boxes m ok pre post.
     listed v s (MailAuthLogin u) boxes
   \<and> m \<in> set (applySpecialMailboxRoles boxes (stored_mappings v (w_db (ts_world s)) u)) \<and> \<not> mailboxIsProtected m
   \<and> EqualFold (TrimSpace (mb_Name m)) (TrimSpace name)
   \<and> new = pre @ ListPage ServiceClient (MailAuthLogin u) (mb_Name m) (Some []) # DeleteBox ServiceClient (MailAuthLogin u) (mb_Name m) ok # post
   \<and> no_delete pre \<and> no_delete post)"

lemma deletable:
  assumes "mailboxByName (applyMailboxCapabilities boxes) name = Some current" "mb_CanDelete current"
  obtains m where "m \<in> set boxes" "\<not> mailboxIsProtected m" "mb_Name m = mb_Name current" "EqualFold (TrimSpace (mb_Name m)) (TrimSpace name)"
proof -
  from assms(1) have "current \<in> set (applyMailboxCapabilities boxes)" "EqualFold (TrimSpace (mb_Name current)) (TrimSpace name)"
    by (auto simp: mailboxByName_def Let_def find_Some_iff split: if_splits)
  then show thesis using that assms(2) by (auto simp: applyMailboxCapabilities_def)
qed

lemma kept_append: "kept_since h s \<Longrightarrow> h = b_calls s0 @ new \<Longrightarrow> \<exists>more. b_calls s = b_calls s0 @ new @ more \<and> no_delete more"
  by (auto simp: kept_since_def)

definition tidy :: "benv \<Rightarrow> bstate \<Rightarrow> User \<Rightarrow> decode_err + mailboxMutationRequest \<Rightarrow> bstate \<Rightarrow> bool" where
  "tidy v s u body s' \<longleftrightarrow> (\<exists>new. b_calls s' = b_calls s @ new
     \<and> (no_delete new \<or> (\<exists>req. body = Inr req \<and> proper_delete v s u (bq_MailboxName req) new)))"

lemma kept_tidy: "kept_since (b_calls s) s' \<Longrightarrow> tidy v s u body s'" by (auto simp: kept_since_def tidy_def)

lemma delete_step:
  assumes "saw_empty (b_calls s) ServiceClient (MailAuthLogin u) (mb_Name m) (Inr (Some (Inr x))) s1"
    "listed v s (MailAuthLogin u) raw" "m \<in> set (applySpecialMailboxRoles raw (stored_mappings v (w_db (ts_world s)) u))"
    "\<not> mailboxIsProtected m" "EqualFold (TrimSpace (mb_Name m)) (TrimSpace (bq_MailboxName req))"
    "\<And>h y. stays v (kept_since h) (k y)"
  shows "wpT (orText (client_DeleteMailbox ServiceClient (MailAuthLogin u) pass (mb_Name m)) f k) v (\<lambda>_. tidy v s u (Inr req)) s1"
proof -
  let ?l = "MailAuthLogin u" and ?n = "mb_Name m"
  obtain mid where mid: "b_calls s1 = b_calls s @ mid @ [ListPage ServiceClient ?l ?n (Some [])]" "no_delete mid"
    using assms(1) by (auto simp: saw_empty_def)
  have t: "tidy v s u (Inr req) s'" if k: "kept_since (b_calls s1 @ [DeleteBox ServiceClient ?l ?n ok]) s'" for s' ok
  proof -
    obtain post where "b_calls s' = b_calls s1 @ DeleteBox ServiceClient ?l ?n ok # post" "no_delete post" using k by (auto simp: kept_since_def)
    moreover from this(2) have "proper_delete v s u (bq_MailboxName req) (mid @ ListPage ServiceClient ?l ?n (Some []) # DeleteBox ServiceClient ?l ?n ok # post)"
      unfolding proper_delete_def using mid(2) assms(2-5) by blast
    ultimately show ?thesis using mid by (auto simp: tidy_def)
  qed
  have after: "wpT (k y) v (\<lambda>_. tidy v s u (Inr req)) s2" if "b_calls s2 = b_calls s1 @ [DeleteBox ServiceClient ?l ?n ok]" for s2 ok y
    by (rule wp_mono [OF stays_wp [OF assms(6)]]) (use that kept_refl [of s2] t in auto)
  have now: "tidy v s u (Inr req) s2" if "b_calls s2 = b_calls s1 @ [DeleteBox ServiceClient ?l ?n ok]" for s2 ok
    using t [of ok s2] kept_refl [of s2] that by simp
  show ?thesis
    unfolding orText_def wp_simps by (auto simp: client_DeleteMailbox_def wp_ask_server Let_def wp_simps intro: now after split: sum.split)
qed

lemma delete_tidy:
  assumes "quiet (te_svc v)"
  shows "wpT (DeleteMailbox fuel h u sess body) v (\<lambda>_. tidy v s u body) s"
proof (cases body)
  case (Inl e)
  then show ?thesis
    by (cases e) (simp_all add: DeleteMailbox_def with_bodyT_def wp_simps kept_tidy kept_refl)
next
  case (Inr req)
  let ?l = "MailAuthLogin u" and ?maps = "stored_mappings v (w_db (ts_world s)) u"
  let ?finish = "\<lambda>name. \<lambda>_. orT (DeleteSpecialMailboxMappingsByMailbox (u_ID u) ?l name)
      (\<lambda>_. error_resp 500 ''special_mailboxes_failed'') (\<lambda>_. thenT (forget_boxes ?l)
      (orText (listMailboxesWithSpecialRoles u sess) (session_error h) (\<lambda>_. retT (ok_resp 200))))"
  have fin: "stays v (kept_since g) (?finish name y)" for g name y
    unfolding orText_def by (intro stay_intros)
  have list: "wpT (listMailboxesWithSpecialRoles u sess) v (\<lambda>r s1. kept_since (b_calls s) s1 \<and>
      (\<forall>x. r = Inr x \<longrightarrow> (\<exists>raw. listed v s ?l raw \<and> fst x = applyMailboxCapabilities (applySpecialMailboxRoles raw ?maps)))) s"
    by (intro wp_conj stays_wp [where I = "kept_since (b_calls s)"] stay_intros kept_refl wp_listed [OF assms]) auto
  have loop: "wpT (moveMailboxMessagesToTrash fuel ServiceClient ?l pass name (resolveSessionSpecialMailboxByRole u pass ''trash'') (\<lambda>_ _. retT ()) 0 []) v
      (\<lambda>r s2. kept_since (b_calls s) s2 \<and> saw_empty (b_calls s) ServiceClient ?l name r s2) s1" if "kept_since (b_calls s) s1" for s1 name pass
    by (intro wp_conj stays_wp [where I = "kept_since (b_calls s)"] stay_intros that
        wp_mono [OF loop_saw_empty saw_empty_kept [OF _ that]])
  let ?empty = "\<lambda>pass name. moveMailboxMessagesToTrash fuel ServiceClient ?l pass name (resolveSessionSpecialMailboxByRole u pass ''trash'') (\<lambda>_ _. retT ()) 0 []"
  have main: "wpT (orText (?empty pass (mb_Name current)) mutation_error (\<lambda>result. case result of
        None \<Rightarrow> failT still_running | Some (Inl _) \<Rightarrow> retT required_mailbox
      | Some (Inr _) \<Rightarrow> orText (client_DeleteMailbox ServiceClient ?l pass (mb_Name current)) mutation_error (?finish (mb_Name current)))) v
      (\<lambda>_. tidy v s u (Inr req)) s1"
    if k: "kept_since (b_calls s) s1" and l: "listed v s ?l raw" and c: "mb_CanDelete current"
      "mailboxByName (applyMailboxCapabilities (applySpecialMailboxRoles raw ?maps)) (TrimSpace (bq_MailboxName req)) = Some current" for s1 raw current pass
  proof -
    obtain m where m: "m \<in> set (applySpecialMailboxRoles raw ?maps)" "\<not> mailboxIsProtected m" "mb_Name m = mb_Name current"
      "EqualFold (TrimSpace (mb_Name m)) (TrimSpace (bq_MailboxName req))" using deletable [OF c(2,1)] by (metis TrimSpace_idem)
    have "wpT (orText (client_DeleteMailbox ServiceClient ?l pass (mb_Name current)) mutation_error (?finish (mb_Name current))) v
        (\<lambda>_. tidy v s u (Inr req)) s2" if "saw_empty (b_calls s) ServiceClient ?l (mb_Name current) (Inr (Some (Inr x))) s2" for s2 x
      using delete_step [OF that [folded m(3)] l m(1,2,4) fin] m(3) by simp
    then show ?thesis
      unfolding orText_def [of "?empty pass (mb_Name current)"] wp_bind [of "askT be_error"] wp_ask sum.case wp_or [of "?empty pass (mb_Name current)"]
      by (intro wp_mono [OF loop [OF k]]) (auto simp: wp_simps kept_tidy split: sum.split option.split)
  qed
  show ?thesis
  proof (cases "TrimSpace (bq_MailboxName req) = []")
    case False
    then show ?thesis
      unfolding Inr DeleteMailbox_def with_bodyT_def Let_def sum.case if_not_P [OF False] orText_def [of "listMailboxesWithSpecialRoles u sess" "session_error h"
        "\<lambda>(boxes, m, pass). K boxes m pass" for K] wp_bind [of "askT be_error"] wp_ask wp_or [of "listMailboxesWithSpecialRoles u sess"]
      by (intro wp_mono [OF list]) (auto simp: wp_simps kept_tidy split: sum.split option.split, (rule main; assumption))
  qed (simp add: Inr DeleteMailbox_def with_bodyT_def wp_simps kept_tidy kept_refl)
qed

text \<open>C23: Deleting a mailbox loses no mail.  Whatever the server answers and the database faults are, while nobody else writes
  to the settings, a request to delete a mailbox makes at most one deletion; if there is one, it directly follows
  a page of the same mailbox that was empty, and the mailbox is one that the server or the cache lists, that is named by the
  request up to case, and that neither has a role, with the roles stored for the user applied, nor is the one for drafts.\<close>

theorem deleted_mailbox_was_emptied:
  assumes "quiet (te_svc v)"
  shows "\<exists>new. b_calls (snd (DeleteMailbox fuel h u sess body v s)) = b_calls s @ new
    \<and> (no_delete new \<or> (\<exists>req. body = Inr req \<and> proper_delete v s u (bq_MailboxName req) new))"
  using wpD [OF delete_tidy [OF assms, of fuel h u sess body s]] unfolding tidy_def .

theorem deleted_mailbox_was_emptied_witness:
  "quiet (te_svc demo_benv) \<and> DeleteBox ServiceClient ''a@e.org'' ''Old'' True \<in> set (b_calls (snd demo_delete))
    \<and> proper_delete demo_benv demo_bstate ann ''old'' (b_calls (snd demo_delete))"
proof -
  have q: "quiet (te_svc demo_benv)" by (simp add: demo_benv_def demo_quiet)
  moreover have d: "DeleteBox ServiceClient ''a@e.org'' ''Old'' True \<in> set (b_calls (snd demo_delete))"
    using demo_delete_run by (simp add: split_beta)
  moreover have "\<not> no_delete (b_calls (snd demo_delete))" by (auto simp: no_delete_def list_all_iff intro: bexI [OF _ d])
  moreover have "b_calls demo_bstate = []" by (simp add: demo_bstate_def)
  ultimately show ?thesis
    using deleted_mailbox_was_emptied [OF q, of 3 some_handlers ann "Some demo_mail_session"
        "Inr \<lparr>bq_MailboxName = ''old'', bq_NewMailboxName = []\<rparr>" demo_bstate] by (auto simp: demo_delete_def)
qed

section \<open>Emptying a mailbox ends\<close>

definition moved_away :: "mail_client \<Rightarrow> string \<Rightarrow> box_call list \<Rightarrow> string set" where
  "moved_away c login h = {i. \<exists>t. MoveMessage c login i t True \<in> set h}"

text \<open>A server whose mailbox holds at most the messages of a set, under ids without blanks, and does not list a message it moved away.\<close>

definition gives_up_moved :: "benv \<Rightarrow> mail_client \<Rightarrow> string \<Rightarrow> string set \<Rightarrow> string \<Rightarrow> bool" where
  "gives_up_moved v c login M source \<longleftrightarrow> (\<forall>n h pass ids. be_page v n h c login pass source 1 mailboxMutationMovePageSize = Inr ids \<longrightarrow>
     set ids \<subseteq> M - moved_away c login h \<and> list_all (\<lambda>i. i \<noteq> [] \<and> TrimSpace i = i) ids)"

lemma kept_moved: "kept_since h s \<Longrightarrow> moved_away c login h \<subseteq> moved_away c login (b_calls s)"
  by (auto simp: kept_since_def moved_away_def)

lemma page_moves:
  assumes "list_all (\<lambda>i. i \<noteq> [] \<and> TrimSpace i = i) ids"
  shows "wpT (move_page c login pass t (\<lambda>_ _. retT ()) ids) v
    (\<lambda>r s'. kept_since (b_calls s) s' \<and> (\<forall>k. r = Inr k \<longrightarrow> set ids \<subseteq> moved_away c login (b_calls s'))) s"
  using assms
proof (induction ids arbitrary: s)
  case (Cons i ids)
  have step: "wpT (move_page c login pass t (\<lambda>_ _. retT ()) ids) v (\<lambda>r s'. case r of
      Inl e \<Rightarrow> kept_since (b_calls s) s' | Inr k \<Rightarrow> kept_since (b_calls s) s' \<and> i \<in> moved_away c login (b_calls s') \<and> set ids \<subseteq> moved_away c login (b_calls s')) s1"
    if "b_calls s1 = b_calls s @ [MoveMessage c login i t True]" for s1
  proof (rule wp_mono [OF Cons.IH])
    fix r s' assume a: "kept_since (b_calls s1) s' \<and> (\<forall>k. r = Inr k \<longrightarrow> set ids \<subseteq> moved_away c login (b_calls s'))"
    then have "kept_since (b_calls s) s'" "i \<in> moved_away c login (b_calls s')"
      using that by (auto simp: kept_since_def no_delete_def moved_away_def)
    with a show "case r of Inl e \<Rightarrow> kept_since (b_calls s) s' | Inr k \<Rightarrow> kept_since (b_calls s) s' \<and> i \<in> moved_away c login (b_calls s')
        \<and> set ids \<subseteq> moved_away c login (b_calls s')" by (auto split: sum.split)
  qed (use Cons.prems in simp)
  show ?case
    using Cons.prems step
    by (auto simp: wp_simps client_Move_def wp_ask_server Let_def went_well_def kept_since_def no_delete_def
        split: sum.split intro!: wp_mono [OF step])
qed (simp add: wp_simps kept_refl)

lemma loop_ends:
  assumes "gives_up_moved v c login M source" "finite M" "\<And>h. stays v (kept_since h) resolve"
    "card (M - moved_away c login (b_calls s)) < fuel"
  shows "wpT (moveMailboxMessagesToTrash fuel c login pass source resolve (\<lambda>_ _. retT ()) k t) v (\<lambda>r _. r \<noteq> Inr None) s"
  using assms(4)
proof (induction fuel arbitrary: k t s)
  case (Suc fuel)
  let ?left = "\<lambda>s. M - moved_away c login (b_calls s)"
  let ?choose = "if TrimSpace t = [] then bindT resolve (\<lambda>x. retT (TrimSpace x)) else retT t"
  have choose: "wpT ?choose v (\<lambda>_. kept_since (b_calls s)) s1" if "kept_since (b_calls s) s1" for s1
    using that by (intro stays_wp [where I = "kept_since (b_calls s)"] stay_intros assms)
  have rest: "wpT (move_page c login pass y (\<lambda>_ _. retT ()) ids) v (\<lambda>r s'. case r of Inl e \<Rightarrow> True | Inr n \<Rightarrow>
      wpT (if n = 0 then failT (ErrMsg ''mailbox contains messages without ids'')
        else moveMailboxMessagesToTrash fuel c login pass source resolve (\<lambda>_ _. retT ()) (k + n) y) v (\<lambda>r _. r \<noteq> Inr None) s') s1"
    if k: "kept_since (b_calls s) s1" and ids: "ids \<noteq> []" "set ids \<subseteq> ?left s" "list_all (\<lambda>i. i \<noteq> [] \<and> TrimSpace i = i) ids" for s1 ids y
  proof (rule wp_mono [OF page_moves [OF ids(3)]])
    fix r :: "err + nat" and s' assume a: "kept_since (b_calls s1) s' \<and> (\<forall>n. r = Inr n \<longrightarrow> set ids \<subseteq> moved_away c login (b_calls s'))"
    then have grown: "moved_away c login (b_calls s) \<subseteq> moved_away c login (b_calls s')" using kept_moved k by blast
    have "card (?left s') < fuel" if "r = Inr n" for n
    proof -
      have "hd ids \<in> ?left s" "hd ids \<notin> ?left s'" using a that ids(1,2) by (auto simp: subset_iff)
      then have "?left s' \<subset> ?left s" using grown by blast
      then have "card (?left s') < card (?left s)" using assms(2) by (meson finite_Diff psubset_card_mono)
      then show ?thesis using Suc.prems by simp
    qed
    then show "case r of Inl e \<Rightarrow> True | Inr n \<Rightarrow> wpT (if n = 0 then failT (ErrMsg ''mailbox contains messages without ids'')
        else moveMailboxMessagesToTrash fuel c login pass source resolve (\<lambda>_ _. retT ()) (k + n) y) v (\<lambda>r _. r \<noteq> Inr None) s'"
      by (auto simp: wp_simps split: sum.split intro: Suc.IH)
  qed
  let ?page = "client_ListMessages c login pass source 1 mailboxMutationMovePageSize"
  have "wpT (if ids = [] then retT (Some (Inr (k, t)))
     else bindT ?choose (\<lambda>y. if TrimSpace y = [] then retT (Some (Inl ''trash''))
       else bindT (move_page c login pass y (\<lambda>_ _. retT ()) ids) (\<lambda>n.
         if n = 0 then failT (ErrMsg ''mailbox contains messages without ids'')
         else moveMailboxMessagesToTrash fuel c login pass source resolve (\<lambda>_ _. retT ()) (k + n) y))) v (\<lambda>r _. r \<noteq> Inr None) s1"
    if p: "be_page v n (b_calls s) c login pass source 1 mailboxMutationMovePageSize = Inr ids"
      and b: "b_calls s1 = b_calls s @ [ListPage c login source (Some ids)]" for n ids s1
  proof (cases "ids = []")
    case False
    have ids: "set ids \<subseteq> ?left s" "list_all (\<lambda>i. i \<noteq> [] \<and> TrimSpace i = i) ids" using assms(1) p unfolding gives_up_moved_def by blast+
    have "kept_since (b_calls s) s1" using b by (simp add: kept_since_def no_delete_def)
    from choose [OF this] show ?thesis
      using False rest [OF _ False ids]
      by (simp only: wp_bind [of ?choose] if_False) (erule wp_mono, auto simp: wp_simps split: sum.split intro: wp_mono [OF rest [OF _ False ids]])
  qed (simp add: wp_simps)
  then show ?case
    unfolding moveMailboxMessagesToTrash.simps wp_bind [of ?page] unfolding client_ListMessages_def wp_ask_server Let_def
    by (simp split: sum.split split del: if_split)
qed simp

text \<open>C24: Deleting a mailbox ends.  The loop that moves the messages of the mailbox to the trash page by page has no bound of its own; on a
  server that holds a finite number of messages in the mailbox and does not list a message it has moved away, the handler answers,
  and as many rounds as there are messages, and one more, are enough.\<close>

theorem deleting_ends:
  assumes "finite M" "card M < fuel"
    "\<forall>source. EqualFold (TrimSpace source) (TrimSpace (bq_MailboxName req)) \<longrightarrow> gives_up_moved v ServiceClient (MailAuthLogin u) M source"
  shows "\<exists>r s'. DeleteMailbox fuel h u sess (Inr req) v s = (Inr r, s')"
proof -
  let ?l = "MailAuthLogin u"
  let ?empty = "\<lambda>pass name. moveMailboxMessagesToTrash fuel ServiceClient ?l pass name (resolveSessionSpecialMailboxByRole u pass ''trash'') (\<lambda>_ _. retT ()) 0 []"
  have "card (M - X) < fuel" for X using assms(1,2) by (meson Diff_subset card_mono le_less_trans)
  then have empty: "wpT (?empty pass (mb_Name m)) v (\<lambda>r _. r \<noteq> Inr None) s1"
    if "mailboxByName boxes (TrimSpace (bq_MailboxName req)) = Some m" for s1 pass boxes m
  proof -
    have "EqualFold (TrimSpace (mb_Name m)) (TrimSpace (bq_MailboxName req))"
      using that by (auto simp: mailboxByName_def Let_def find_Some_iff TrimSpace_idem split: if_splits)
    with assms(3) show ?thesis using \<open>\<And>X. card (M - X) < fuel\<close> by (intro loop_ends [OF _ assms(1)] kept.sessions) auto
  qed
  let ?answers = "\<lambda>m s1. wpT m v (\<lambda>r _. \<exists>x. r = Inr x) s1"
  have tail: "?answers (orText (?empty pass (mb_Name m)) mutation_error (\<lambda>result. case result of
        None \<Rightarrow> failT still_running | Some (Inl _) \<Rightarrow> retT required_mailbox | Some (Inr _) \<Rightarrow> k)) s1"
    if "mailboxByName boxes (TrimSpace (bq_MailboxName req)) = Some m" "\<And>s2. ?answers k s2" for boxes m pass k s1
    unfolding orText_def wp_bind [of "askT be_error"] wp_ask sum.case wp_or
    by (rule wp_mono [OF empty [OF that(1)]]) (auto simp: wp_simps that(2) split: sum.split option.split)
  have "?answers (DeleteMailbox fuel h u sess (Inr req)) s"
    unfolding DeleteMailbox_def with_bodyT_def Let_def orText_def [of "listMailboxesWithSpecialRoles u sess"] orText_def [of "client_DeleteMailbox c l p n" for c l p n]
    by (auto simp: wp_simps forget_boxes_def split: sum.split option.split
        intro!: wp_any [where m = "listMailboxesWithSpecialRoles u sess"] tail wp_any [where m = "client_DeleteMailbox c l p n" for c l p n]
          wp_any [where m = "DeleteSpecialMailboxMappingsByMailbox i l n" for i l n])
  then show ?thesis by (auto simp: wpT_def split: prod.splits)
qed

theorem deleting_ends_witness:
  "\<exists>r s'. DeleteMailbox 3 some_handlers ann (Some demo_mail_session) (Inr \<lparr>bq_MailboxName = ''old'', bq_NewMailboxName = []\<rparr>)
    demo_benv demo_bstate = (Inr r, s')"
proof (rule deleting_ends)
  show "finite {''m1'', ''m2''}" "card {''m1'', ''m2''} < 3" by simp_all
  have "TrimSpace ''m1'' = ''m1''" "TrimSpace ''m2'' = ''m2''" by code_simp+
  moreover have "was_moved h i" if "i \<in> moved_away c l h" for c l h i
    using that by (force simp: moved_away_def was_moved_def list_ex_iff)
  ultimately have "gives_up_moved demo_benv ServiceClient (MailAuthLogin ann) {''m1'', ''m2''} source" for source
    by (auto simp: gives_up_moved_def demo_benv_def)
  then show "\<forall>source. EqualFold (TrimSpace source) (TrimSpace (bq_MailboxName \<lparr>bq_MailboxName = ''old'', bq_NewMailboxName = []\<rparr>)) \<longrightarrow>
      gives_up_moved demo_benv ServiceClient (MailAuthLogin ann) {''m1'', ''m2''} source" by blast
qed

end
