(* ===== verification/Spec2Isabelle.thy ===== *)
theory Spec2Isabelle
  imports MailIds RateLimiter Mailboxes Secrets MailProviders SecondFactor Guards MailCache UpdateSafety ThreadingLaws OutboundEdges DraftSafety SieveLaws MailboxLaws
begin

text \<open>
  Despatch is a self-hosted webmail server written in Go: a browser talks to its HTTP API, the API
  keeps users, sessions, second factors, mail accounts, drafts and outbound campaigns in SQLite, speaks
  IMAP and SMTP with the mail server, mails drafts and campaigns from a background worker, and installs
  its own updates through a privileged worker with which it shares a few files.  This development models the parts that decide who may do what, and the parts where several
  requests or processes meet.

  \<^bold>\<open>The parts and their theories.\<close>

  Shared vocabulary.
  \<^item> \<open>Prelude\<close>: Go strings as byte lists, the functions of \<^verbatim>\<open>strings\<close> and \<^verbatim>\<open>unicode\<close> the sources call,
    times as nanoseconds, generic lemmas and the collections of simplification rules.
  \<^item> \<open>Codec\<close>: base64, hexadecimal and decimal as the Go library has them, with their round trips.
  \<^item> \<open>Sql\<close>: \<^verbatim>\<open>LIKE\<close>, column order, \<^verbatim>\<open>LIMIT/OFFSET\<close>, and the request sanitizers in front of them.
  \<^item> \<open>Models\<close>: the rows (\<^verbatim>\<open>internal/models\<close>, the migrations' unique keys) as records, tables as lists of
    rows, and \<open>wf_db\<close>, which says that every unique key holds.
  \<^item> \<open>Runtime\<close>: how stateful code runs (below).  \<open>Contract\<close>: what every operation keeps of a relation on
    databases, whoever else is at work; the locale \<open>db_contract\<close>.

  The account server (\<^verbatim>\<open>internal/store\<close>, \<^verbatim>\<open>internal/service\<close>, \<^verbatim>\<open>internal/middleware\<close>, \<^verbatim>\<open>internal/api\<close>).
  \<^item> \<open>StoreUsers\<close>, \<open>StoreSessions\<close> (store.go), \<open>StoreMFA\<close>, \<open>StoreAccounts\<close> (v2_store.go): one definition
    per method, each SQL statement one atomic step, transactions as the code opens them.
  \<^item> \<open>ServiceBase\<close>, \<open>AuthService\<close>, \<open>AccountService\<close>, \<open>PasswordReset\<close> (service.go), \<open>MfaStage\<close>
    (mfa_stage.go), \<open>FeatureFlags\<close> (feature_flags.go), \<open>MailProviders\<close> (mail_providers.go).
  \<^item> \<open>Middleware\<close> (http.go), \<open>Handlers\<close>, \<open>MfaHandlers\<close> (router.go, router_v2.go), \<open>Router\<close>: the chain
    of middleware in front of each handler and \<open>serve\<close>, one request of the server.
  \<^item> \<open>Lifecycle\<close>, \<open>SessionSafety\<close>, \<open>ResetSafety\<close>, \<open>SecondFactor\<close>, \<open>Guards\<close>: properties of whole runs of the server.
  \<^item> \<open>Demo\<close>: one concrete service and world, at which the witnesses are evaluated.

  The mail side.
  \<^item> \<open>MailIds\<close> (mail/id.go), \<open>Mailboxes\<close> (mail/mailboxes.go), \<open>MailCache\<close> (api/mail_cache.go).
  \<^item> \<open>Threading\<close> (mail/threading.go: subjects, message ids, thread ids), \<open>ThreadingLaws\<close>.
  \<^item> \<open>RateLimiter\<close> (rate/memory.go), \<open>Secrets\<close> (auth/password.go, auth/token.go, util/crypto.go).

  Composing mail (\<^verbatim>\<open>internal/store\<close>, \<^verbatim>\<open>internal/service\<close>, \<^verbatim>\<open>internal/workers\<close>, \<^verbatim>\<open>internal/api\<close>).
  \<^item> \<open>TableRun\<close>: how code over tables of its own runs, weakest preconditions of it (\<open>wpT\<close>) and what it keeps
    (\<open>stays\<close>).  \<open>MailTables\<close>: the rows and keys, the mail client and the mail security service.
  \<^item> \<open>Addresses\<close> (mail/address.go), \<open>Senders\<close> (identities, session profiles and preferences of the store,
    mail_sender.go, router_mail_senders.go, router_mail_profiles.go).
  \<^item> \<open>DraftStore\<close> (drafts, versions, attachments and the queue of v2_store.go), \<open>DraftSend\<close> (draft_send.go, the
    worker's delivery of due drafts in mail_workers.go, signing and encrypting in router_v2.go),
    \<open>DraftHandlers\<close> (the handlers of drafts and of sending, undo).
  \<^item> \<open>DraftViews\<close>, \<open>DraftLaws\<close>, \<open>DraftDelivery\<close>, \<open>DraftSafety\<close>: properties of runs of these operations, with
    \<open>DraftDemo\<close> as the concrete case.

  Mailboxes, rules and scripts (\<^verbatim>\<open>internal/store\<close>, \<^verbatim>\<open>internal/api\<close>), over the same tables.
  \<^item> \<open>SpecialMailboxes\<close> (roles, mappings and protection in router_mail_special.go, special_mailboxes.go, the mappings
    and counts of v2_store.go, the calls of the mail client), \<open>MailboxHandlers\<close> (the handlers of
    router_mail_special.go for a session, an account and an administrator).
  \<^item> \<open>MailRules\<close> (mail_rules.go of the store, validation and compilation in router_mail_rules.go, scripts),
    \<open>RuleHandlers\<close> (the handlers of rules and scripts).
  \<^item> \<open>SieveLaws\<close>: a scanner and reader of the Sieve commands in use, against which the compiled script is judged.
    \<open>MailboxLaws\<close>: properties of deleting and mapping, with \<open>BoxDemo\<close> as the concrete case.  \<open>TableDemo\<close>: the
    values that \<open>BoxDemo\<close> and \<open>DraftDemo\<close> share.

  Outbound campaigns (\<^verbatim>\<open>service/outbound.go\<close>, \<^verbatim>\<open>store/outbound.go\<close>, \<^verbatim>\<open>api/router_outbound.go\<close>).
  \<^item> \<open>OutboundPolicy\<close> (policies, classification of replies, the footer), \<open>OutboundStore\<close> (the tables),
    \<open>Outbound\<close> (dispatch of due enrollments, replies, the worker's rounds), \<open>OutboundLaunch\<close> (preflight
    and launch), \<open>OutboundHandlers\<close>.
  \<^item> \<open>OutboundSafety\<close>, \<open>OutboundLaws\<close>, \<open>SuppressionLaws\<close>, \<open>OutboundEdges\<close>: their properties, with
    \<open>OutboundDemo\<close> as the concrete case.

  The updater (\<^verbatim>\<open>internal/update\<close>).
  \<^item> \<open>UpdateFiles\<close> (types, state, request queue, probes), \<open>UpdateManager\<close> (manager.go), \<open>UpdateWorker\<close>
    (worker.go, the run of the worker), \<open>UpdateSafety\<close>: what the two processes keep of the files.

  \<^bold>\<open>State and operations.\<close>  An operation of the account server is a function from the service
  (configuration and everything outside the program: clock, random bytes, UUIDs, the IMAP server, the
  PAM helper, the mail sender) and the world (database, logical time, calls made) to an error or a
  value and a new world.  Every statement may fail, and before every statement the requests of others
  may change the database: \<open>others sv n\<close> is what they do before step \<open>n\<close>.  The properties of whole
  runs take for \<open>others\<close> complete requests of the modelled server itself, nested to any depth \<open>k\<close>
  (\<open>interleaved h plan sv k\<close>, for every plan of requests and every \<open>k\<close>): a statement of one request
  may be preceded by whole requests, whose statements may be preceded by whole requests, and so on.
  Campaigns and composing have tables of their own and reach the account server through its operations;
  their statements may fail, and others may write before each of them.  The properties of composing
  are about operations one after the other, with any statement failing; those of campaigns say for each
  what is assumed of the others.
  The updater has its own monad over files; each file operation may fail, and other processes may
  change the files before it.  The caches are a step relation with one step per critical section of
  the code's mutex, so every interleaving the mutex admits is covered.

  \<^bold>\<open>What is shown.\<close>
  \<^item> Sessions: when a token is accepted (both deadlines, revocation, the user's status), and that a
    session that was logged out, revoked, suspended or has expired is never accepted again, over every
    run; a logout whose look-up of the session fails reports success and ends nothing.  Reset tokens, recovery codes and trusted devices are good once, or until revoked.
  \<^item> Administration routes reach their handlers only for a valid session of an administrator, with a CSRF token
    unless the method only reads.  Any session that is refused for want of a second factor gets past it by confirming
    saved recovery codes.  The unique keys of the tables are the database's own: statements that break one fail.
  \<^item> Stages of authentication, feature flags, mail accounts and provider defaults: functional
    behaviour, error paths included.
  \<^item> Caches: one fetch per key, freshness of what is served, and that every request ends; and the
    window an invalidation leaves open.  Identifiers, encrypted strings, password hashes: round trips.
    Subjects: the normalization ends and forgets reply marks, list tags and forward notes; references
    without separators survive storing exactly when they look like addresses; when a reply has the thread id of
    its parent.
    Rate limiter: how many calls any span of a window's length lets through.
  \<^item> Drafts: an undone send is not mailed by anything that follows, a draft is tried at most three times
    and goes out at most once while the tables work, every row of the queue belongs to a draft of its
    user; what signing and encrypting leave in the clear.
  \<^item> Mailboxes: one that a session deletes has no role and was seen empty right before; deleting ends on a server
    that does not list what it moved away; the role of junk, which the handler admits, is always refused by the
    store.  Rules: read as Sieve, the managed script is exactly the program of
    the enabled rules, where names have no line break; with one, the name adds a command.
  \<^item> Campaigns: a suppressed recipient is never mailed, an opt-out reply bars its sender, the tables hold
    only the values their columns are meant to have, suppressions refine a map from scopes to expiry, a
    blocked launch changes nothing; two places where the code does not do what it means to.
  \<^item> Updater: what a run of the worker records, that a queued request is alone, and the states in which
    updates stop.

  \<^bold>\<open>Interfaces.\<close>  \<open>db_contract\<close> and its extensions are interpreted on the relations that matter (unique
  keys, sessions, tokens, devices, codes); \<open>response_cache\<close> on both caches; \<open>files_invariant\<close> and
  \<open>settled_status\<close> on the updater's states; \<open>mail_view\<close> and its extensions (removing, queueing, mailing, the
  worker's items) on the properties of drafts; \<open>box_view\<close> on those of deleting a mailbox; \<open>table_invariant\<close> and \<open>outbound_contract\<close> on those of
  campaigns; the settings contract of \<open>FeatureFlags\<close> on the store.

  \<^bold>\<open>Bounds and fuel.\<close>  \<open>strip_runes\<close> takes the length of the string as fuel, each round removing at
  least one byte.  The loop that empties a mailbox asks the server for a page until one is empty, and may go on
  for ever with a server that moves nothing: it takes fuel, and one more than the number of messages is shown
  to be enough.  Loops over rows and requests are structural.  Go's \<^verbatim>\<open>int\<close> is kept at 64 bits where
  a number is parsed from text; the nightly window of updates is that of a zone with a constant offset from UTC; times are integers, far from the 64-bit limit of a duration.

  \<^bold>\<open>Not modelled.\<close>  The IMAP and SMTP clients, TOTP and WebAuthn verification, argon2, SHA-256, AES-GCM,
  systemd, the release service, and the unpacking and installing of a release are other programs or
  libraries: parameters of the model.  Of a response the status, the error code and the cookies are
  kept, not the body; uploaded files, HTML and JSON are given parsed.  Foreign keys are not modelled: where
  one would refuse a row the model accepts it.  Of campaigns the choice of a sender, the rendering of a
  step, playbooks and the import of audiences are parameters or left out.  The mail index with its search
  and synchronization, the three handlers that rewrite it (renaming and deleting a mailbox of an account, deleting one
  for an administrator), contacts, triage, saved searches, the
  readiness probe, request logging, migrations and the reading of the environment are not modelled.
\<close>

end
